(* ===== verification/Prelude.thy ===== *)
theory Prelude
  imports Complex_Main "HOL-Library.Word" "HOL-Library.Sublist"
begin

text \<open>
  Shared vocabulary of the development: results that may be exceptions, Python's strings,
  timestamps and JSON values as the code uses them, generic list lemmas, and the locales that
  turn facts about one operation into facts about whole histories of operations.

  Conventions.
  \<^item> A function of the source that may raise has a result in \<open>'e + 'a\<close>: \<open>Inl e\<close> is the raised
    exception, \<open>Inr x\<close> the returned value.
  \<^item> A method that mutates its object returns the new object. Where an exception can leave the
    object half changed, the method returns the pair of the object and the outcome.
  \<^item> \<open>string\<close> is a list of characters; a character stands for the code point of the same number
    (Latin-1), the range in which Python's \<open>strip\<close>, \<open>lower\<close> and NFC normalisation are written
    out below.
  \<^item> UUIDs are natural numbers (\<open>uuid.UUID.int\<close>); a fresh UUID is an argument of the operation
    that draws it.
\<close>

section \<open>Collections of facts\<close>

named_theorems res_simps \<open>inversion of result computations\<close>
named_theorems inv_intros \<open>preservation of component invariants\<close>

section \<open>Results\<close>

type_synonym uuid = nat
type_synonym ('e, 'a) res = "'e + 'a"

definition res_bind :: "('e, 'a) res \<Rightarrow> ('a \<Rightarrow> ('e, 'b) res) \<Rightarrow> ('e, 'b) res" where
  "res_bind m f = (case m of Inl e \<Rightarrow> Inl e | Inr x \<Rightarrow> f x)"

definition ensure :: "bool \<Rightarrow> 'e \<Rightarrow> ('e, unit) res" where
  "ensure b e = (if b then Inr () else Inl e)"

definition is_ok :: "('e, 'a) res \<Rightarrow> bool" where
  "is_ok m = (case m of Inl _ \<Rightarrow> False | Inr _ \<Rightarrow> True)"

definition res_or :: "'a \<Rightarrow> ('e, 'a) res \<Rightarrow> 'a" where
  "res_or d m = (case m of Inl _ \<Rightarrow> d | Inr x \<Rightarrow> x)"

lemma res_bind_simps [simp]:
  "res_bind (Inl e) f = Inl e"
  "res_bind (Inr x) f = f x"
  by (simp_all add: res_bind_def)

lemma res_or_simps [simp]: "res_or d (Inl e) = d" "res_or d (Inr x) = x"
  by (simp_all add: res_or_def)

lemma is_ok_simps [simp]: "\<not> is_ok (Inl e)" "is_ok (Inr x)"
  by (simp_all add: is_ok_def)

lemma is_ok_iff: "is_ok m \<longleftrightarrow> (\<exists>x. m = Inr x)"
  by (cases m) auto

lemma res_bind_Inr [res_simps]:
  "res_bind m f = Inr y \<longleftrightarrow> (\<exists>x. m = Inr x \<and> f x = Inr y)"
  by (cases m) auto

lemma res_bind_Inl [res_simps]:
  "res_bind m f = Inl e \<longleftrightarrow> m = Inl e \<or> (\<exists>x. m = Inr x \<and> f x = Inl e)"
  by (cases m) auto

lemma ensure_Inr [res_simps]: "ensure b e = Inr u \<longleftrightarrow> b"
  by (simp add: ensure_def)

lemma ensure_Inl [res_simps]: "ensure b e = Inl e' \<longleftrightarrow> \<not> b \<and> e' = e"
  by (auto simp: ensure_def)

lemma ensure_simps [simp]: "ensure True e = Inr ()" "ensure False e = Inl e"
  by (simp_all add: ensure_def)

section \<open>Strings\<close>

text \<open>
  \<open>str.isspace\<close> on Latin-1: tab, line feed, vertical tab, form feed, carriage return, the four
  separators 28 to 31, space, next line (133) and no-break space (160).
\<close>

definition code :: "char \<Rightarrow> nat" where
  "code c = of_char c"

definition is_space :: "char \<Rightarrow> bool" where
  "is_space c = (code c \<in> {9, 10, 11, 12, 13, 28, 29, 30, 31, 32, 133, 160})"

definition py_strip :: "string \<Rightarrow> string" where
  "py_strip s = rev (dropWhile is_space (rev (dropWhile is_space s)))"

text \<open>
  \<open>str.lower\<close>: the ASCII capitals and the Latin-1 capitals 192 to 222 (but for the
  multiplication sign 215) move up by 32.
\<close>

definition lower_char :: "char \<Rightarrow> char" where
  "lower_char c =
     (if 65 \<le> code c \<and> code c \<le> 90 \<or> 192 \<le> code c \<and> code c \<le> 222 \<and> code c \<noteq> 215
      then char_of (code c + 32) else c)"

definition py_lower :: "string \<Rightarrow> string" where
  "py_lower s = map lower_char s"

definition py_startswith :: "string \<Rightarrow> string \<Rightarrow> bool" where
  "py_startswith s p = prefix p s"

text \<open>\<open>sub in s\<close>\<close>

definition py_contains :: "string \<Rightarrow> string \<Rightarrow> bool" where
  "py_contains sub s = sublist sub s"

fun py_join :: "string \<Rightarrow> string list \<Rightarrow> string" where
  "py_join sep [] = []"
| "py_join sep [s] = s"
| "py_join sep (s # t # ts) = s @ sep @ py_join sep (t # ts)"

fun show_digits :: "nat \<Rightarrow> nat \<Rightarrow> string" where
  "show_digits 0 n = []"
| "show_digits (Suc k) n =
     (if n < 10 then [char_of (48 + n)] else show_digits k (n div 10) @ [char_of (48 + n mod 10)])"

definition show_nat :: "nat \<Rightarrow> string" where
  "show_nat n = show_digits (Suc n) n"

definition show_int :: "int \<Rightarrow> string" where
  "show_int i = (if i < 0 then ''-'' @ show_nat (nat (- i)) else show_nat (nat i))"

lemma dropWhile_rev_strip [simp]: "dropWhile P (dropWhile P xs) = dropWhile P xs"
  by (induction xs) auto

lemma hd_dropWhile_not: "dropWhile P xs \<noteq> [] \<Longrightarrow> \<not> P (hd (dropWhile P xs))"
  by (induction xs) auto

lemma last_rev_dropWhile: "ys = rev (dropWhile P (rev xs)) \<Longrightarrow> ys \<noteq> [] \<Longrightarrow> \<not> P (last ys)"
  by (metis hd_dropWhile_not last_rev rev_is_Nil_conv)

lemma strip_prefix: "prefix (rev (dropWhile P (rev xs))) xs"
  by (metis append_take_drop_id dropWhile_eq_drop prefixI rev_append rev_rev_ident suffix_dropWhile
      suffix_to_prefix)

lemma dropWhile_id_hd: "xs = [] \<or> \<not> P (hd xs) \<Longrightarrow> dropWhile P xs = xs"
  by (cases xs) auto

lemma py_strip_idem [simp]: "py_strip (py_strip s) = py_strip s"
proof -
  define a where "a = dropWhile is_space s"
  define b where "b = rev (dropWhile is_space (rev a))"
  have strip: "py_strip s = b"
    by (simp add: py_strip_def a_def b_def)
  have "b = [] \<or> \<not> is_space (hd b)"
  proof (cases "b = []")
    case False
    have "prefix b a" unfolding b_def by (rule strip_prefix)
    with False have "a \<noteq> []" and "hd b = hd a"
      by (auto simp: prefix_def)
    then show ?thesis
      using hd_dropWhile_not [of is_space s] unfolding a_def by auto
  qed simp
  then have "dropWhile is_space b = b" by (rule dropWhile_id_hd)
  moreover have "rev (dropWhile is_space (rev b)) = b"
    by (simp add: b_def)
  ultimately show ?thesis
    unfolding strip by (simp add: py_strip_def)
qed

lemma py_strip_Nil [simp]: "py_strip [] = []"
  by (simp add: py_strip_def)

lemma length_py_strip: "length (py_strip s) \<le> length s"
  unfolding py_strip_def
  by (metis length_dropWhile_le length_rev order_trans)

lemma set_py_strip: "set (py_strip s) \<subseteq> set s"
  unfolding py_strip_def by (force dest: set_dropWhileD)

lemma length_py_lower [simp]: "length (py_lower s) = length s"
  by (simp add: py_lower_def)

lemma py_lower_eq_Nil [simp]: "py_lower s = [] \<longleftrightarrow> s = []"
  by (simp add: py_lower_def)

section \<open>Time\<close>

text \<open>
  A \<open>datetime\<close> is aware (microseconds since the epoch, UTC) or naive (no usable \<open>tzinfo\<close>).
  Python compares two aware or two naive values and raises \<open>TypeError\<close> on a mixed pair, so
  the comparisons return an option. Where the code only ever handles aware values and never
  checks, a component uses \<open>instant\<close>, the microseconds alone.
\<close>

type_synonym instant = int
type_synonym timedelta = int

datatype datetime = Aware instant | Naive instant

definition is_aware :: "datetime \<Rightarrow> bool" where
  "is_aware d = (case d of Aware _ \<Rightarrow> True | Naive _ \<Rightarrow> False)"

definition seconds :: "int \<Rightarrow> timedelta" where "seconds n = n * 1000000"
definition minutes :: "int \<Rightarrow> timedelta" where "minutes n = seconds (60 * n)"
definition hours :: "int \<Rightarrow> timedelta" where "hours n = minutes (60 * n)"
definition days :: "int \<Rightarrow> timedelta" where "days n = hours (24 * n)"

fun dt_plus :: "datetime \<Rightarrow> timedelta \<Rightarrow> datetime" where
  "dt_plus (Aware t) d = Aware (t + d)"
| "dt_plus (Naive t) d = Naive (t + d)"

fun dt_less :: "datetime \<Rightarrow> datetime \<Rightarrow> bool option" where
  "dt_less (Aware a) (Aware b) = Some (a < b)"
| "dt_less (Naive a) (Naive b) = Some (a < b)"
| "dt_less _ _ = None"

fun dt_le :: "datetime \<Rightarrow> datetime \<Rightarrow> bool option" where
  "dt_le (Aware a) (Aware b) = Some (a \<le> b)"
| "dt_le (Naive a) (Naive b) = Some (a \<le> b)"
| "dt_le _ _ = None"

definition raise_none :: "'e \<Rightarrow> 'a option \<Rightarrow> ('e, 'a) res" where
  "raise_none e x = (case x of None \<Rightarrow> Inl e | Some y \<Rightarrow> Inr y)"

lemma raise_none_simps [simp]: "raise_none e None = Inl e" "raise_none e (Some y) = Inr y"
  by (simp_all add: raise_none_def)

lemma is_aware_simps [simp]: "is_aware (Aware t)" "\<not> is_aware (Naive t)"
  by (simp_all add: is_aware_def)

lemma is_aware_iff: "is_aware d \<longleftrightarrow> (\<exists>t. d = Aware t)"
  by (cases d) auto

lemma is_aware_dt_plus [simp]: "is_aware (dt_plus d k) = is_aware d"
  by (cases d) auto

lemma time_units: "seconds n = n * 1000000" "minutes n = n * 60000000"
  "hours n = n * 3600000000" "days n = n * 86400000000"
  by (simp_all add: seconds_def minutes_def hours_def days_def)

section \<open>JSON values\<close>

datatype pyval =
    PyNone
  | PyBool bool
  | PyInt int
  | PyFloat rat
  | PyStr string
  | PyList "pyval list"
  | PyDict "(pyval \<times> pyval) list"

definition py_is_str :: "pyval \<Rightarrow> bool" where
  "py_is_str v = (case v of PyStr _ \<Rightarrow> True | _ \<Rightarrow> False)"

definition py_is_primitive :: "pyval \<Rightarrow> bool" where
  "py_is_primitive v =
     (case v of PyStr _ \<Rightarrow> True | PyInt _ \<Rightarrow> True | PyFloat _ \<Rightarrow> True | PyBool _ \<Rightarrow> True | _ \<Rightarrow> False)"

section \<open>Lists keyed by a field\<close>

text \<open>
  A database table is the list of its rows in insertion order. \<open>upsert\<close> is Django's
  \<open>update_or_create\<close> on a unique key: the row with the key is changed in place, or a new row
  is appended.
\<close>

fun update_first :: "('a \<Rightarrow> bool) \<Rightarrow> ('a \<Rightarrow> 'a) \<Rightarrow> 'a list \<Rightarrow> 'a list" where
  "update_first P f [] = []"
| "update_first P f (x # xs) = (if P x then f x # xs else x # update_first P f xs)"

definition upsert :: "('a \<Rightarrow> bool) \<Rightarrow> ('a \<Rightarrow> 'a) \<Rightarrow> 'a \<Rightarrow> 'a list \<Rightarrow> 'a list" where
  "upsert P f new xs = (if find P xs = None then xs @ [new] else update_first P f xs)"

lemma length_update_first [simp]: "length (update_first P f xs) = length xs"
  by (induction xs) auto

lemma update_first_map_same:
  "(\<And>x. P x \<Longrightarrow> k (f x) = k x) \<Longrightarrow> map k (update_first P f xs) = map k xs"
  by (induction xs) auto

lemma find_None_iff_all: "find P xs = None \<longleftrightarrow> (\<forall>x\<in>set xs. \<not> P x)"
  by (auto simp: find_None_iff)

lemma find_Some_set: "find P xs = Some x \<Longrightarrow> x \<in> set xs \<and> P x"
  by (induction xs) (auto split: if_splits)

lemma find_append: "find P (xs @ ys) = (case find P xs of None \<Rightarrow> find P ys | Some x \<Rightarrow> Some x)"
  by (induction xs) auto

lemma distinct_find_unique:
  "distinct (map k rows) \<Longrightarrow> x \<in> set rows \<Longrightarrow> find (\<lambda>r. k r = k x) rows = Some x"
  by (induction rows) (auto simp: image_iff)

lemma find_update_first:
  "(\<And>x. P x \<Longrightarrow> P (f x)) \<Longrightarrow> find P (update_first P f xs) = map_option f (find P xs)"
  by (induction xs) auto

lemma find_upsert:
  assumes "\<And>x. P x \<Longrightarrow> P (f x)" and "P new"
  shows "find P (upsert P f new xs) = Some (case find P xs of None \<Rightarrow> new | Some x \<Rightarrow> f x)"
  using assms by (auto simp: upsert_def find_append find_update_first split: option.splits)

lemma find_update_first_other:
  assumes "\<And>x. P x \<Longrightarrow> \<not> Q x" and "\<And>x. P x \<Longrightarrow> \<not> Q (f x)"
  shows "find Q (update_first P f xs) = find Q xs"
  using assms by (induction xs) auto

lemma find_upsert_other:
  assumes "\<And>x. P x \<Longrightarrow> \<not> Q x" and "\<And>x. P x \<Longrightarrow> \<not> Q (f x)" and "\<not> Q new"
  shows "find Q (upsert P f new xs) = find Q xs"
  using assms by (auto simp: upsert_def find_append find_update_first_other split: option.splits)

lemma set_update_first: "set (update_first P f xs) \<subseteq> set xs \<union> f ` {x \<in> set xs. P x}"
  by (induction xs) auto

lemma set_upsert: "set (upsert P f new xs) \<subseteq> insert new (set xs \<union> f ` {x \<in> set xs. P x})"
  using set_update_first [of P f xs] by (auto simp: upsert_def)

lemma update_first_absent: "\<forall>x\<in>set xs. \<not> P x \<Longrightarrow> update_first P f xs = xs"
  by (induction xs) auto

lemma notin_image_filter: "c \<notin> k ` A \<Longrightarrow> {y \<in> A. k y \<noteq> c} = A"
  by (auto simp: image_iff)

lemma set_update_first_key:
  assumes "distinct (map k xs)" and "find (\<lambda>x. k x = c) xs = Some r"
  shows "set (update_first (\<lambda>x. k x = c) f xs) = insert (f r) {x \<in> set xs. k x \<noteq> c}"
  using assms
proof (induction xs)
  case (Cons x xs)
  show ?case
  proof (cases "k x = c")
    case True
    with Cons.prems have "{y \<in> set xs. k y \<noteq> c} = set xs"
      by (intro notin_image_filter) simp
    with True Cons.prems show ?thesis by auto
  next
    case False
    with Cons have "set (update_first (\<lambda>x. k x = c) f xs) = insert (f r) {x \<in> set xs. k x \<noteq> c}"
      by simp
    with False show ?thesis by auto
  qed
qed simp

lemma length_filter_update_first_one:
  assumes "find P xs = Some x"
  shows "length (filter Q (update_first P f xs)) + (if Q x then 1 else 0) =
         length (filter Q xs) + (if Q (f x) then 1 else 0)"
  using assms by (induction xs) (auto split: if_splits)

section \<open>Histories of operations\<close>

text \<open>
  An operation with argument \<open>op\<close> takes the state to \<open>step op s\<close>; an operation that raises
  before it changed anything is the identity. \<open>run_ops\<close> is a history of operations.
\<close>

definition run_ops :: "('op \<Rightarrow> 's \<Rightarrow> 's) \<Rightarrow> 'op list \<Rightarrow> 's \<Rightarrow> 's" where
  "run_ops step ops s = fold step ops s"

lemma run_ops_simps [simp]:
  "run_ops step [] s = s"
  "run_ops step (op # ops) s = run_ops step ops (step op s)"
  by (simp_all add: run_ops_def)

lemma run_ops_append: "run_ops step (xs @ ys) s = run_ops step ys (run_ops step xs s)"
  by (simp add: run_ops_def)

text \<open>A property that holds after a history but not before it was made true by one of its operations.\<close>

lemma run_ops_turn:
  assumes "P (run_ops step ops s)" and "\<not> P s"
  obtains xs op ys where "ops = xs @ op # ys" "\<not> P (run_ops step xs s)" "P (step op (run_ops step xs s))"
proof -
  have "\<exists>xs op ys. ops = xs @ op # ys \<and> \<not> P (run_ops step xs s) \<and> P (step op (run_ops step xs s))"
    using assms
  proof (induction ops arbitrary: s)
    case (Cons op ops)
    show ?case
    proof (cases "P (step op s)")
      case True
      with Cons.prems show ?thesis by (intro exI [of _ "[]"]) auto
    next
      case False
      with Cons obtain xs op' ys where "ops = xs @ op' # ys" "\<not> P (run_ops step xs (step op s))"
        "P (step op' (run_ops step xs (step op s)))" by fastforce
      then show ?thesis by (intro exI [of _ "op # xs"]) auto
    qed
  qed simp
  with that show thesis by blast
qed

text \<open>Every operation keeps an invariant.\<close>

locale invariant_system =
  fixes step :: "'op \<Rightarrow> 's \<Rightarrow> 's" and inv :: "'s \<Rightarrow> bool"
  assumes step_inv: "inv s \<Longrightarrow> inv (step op s)"
begin

lemma run_inv: "inv s \<Longrightarrow> inv (run_ops step ops s)"
  by (induction ops arbitrary: s) (auto intro: step_inv)

end

text \<open>Moreover every operation moves the state along a reflexive and transitive relation.\<close>

locale ordered_system = invariant_system step inv
  for step :: "'op \<Rightarrow> 's \<Rightarrow> 's" and inv :: "'s \<Rightarrow> bool" +
  fixes le :: "'s \<Rightarrow> 's \<Rightarrow> bool"
  assumes le_refl: "inv s \<Longrightarrow> le s s"
    and le_trans: "le s t \<Longrightarrow> le t u \<Longrightarrow> le s u"
    and step_le: "inv s \<Longrightarrow> le s (step op s)"
begin

lemma run_le: "inv s \<Longrightarrow> le s (run_ops step ops s)"
proof (induction ops arbitrary: s)
  case Nil
  then show ?case by (simp add: le_refl)
next
  case (Cons op ops)
  then have "le (step op s) (run_ops step ops (step op s))"
    by (blast intro: step_inv)
  with Cons.prems show ?case
    by (auto intro: le_trans [OF step_le])
qed

lemma run_le_later: "inv s \<Longrightarrow> le (run_ops step xs s) (run_ops step (xs @ ys) s)"
  by (simp add: run_ops_append run_le run_inv)

end

section \<open>Credentials that work once\<close>

text \<open>The operations of a history, in order, that satisfy \<open>acc\<close> in the state they meet.\<close>

fun accepted_ops :: "('op \<Rightarrow> 's \<Rightarrow> 's) \<Rightarrow> ('op \<Rightarrow> 's \<Rightarrow> bool) \<Rightarrow> 'op list \<Rightarrow> 's \<Rightarrow> 'op list" where
  "accepted_ops step acc [] s = []"
| "accepted_ops step acc (op # ops) s =
     (if acc op s then [op] else []) @ accepted_ops step acc ops (step op s)"

text \<open>
  The contract of a one-time credential: accepting it spends it, a spent credential stays spent
  whatever happens, and it is not accepted.
\<close>

locale single_use =
  fixes step :: "'op \<Rightarrow> 's \<Rightarrow> 's" and accepts :: "'op \<Rightarrow> 's \<Rightarrow> bool" and spent :: "'s \<Rightarrow> bool"
  assumes accept_spends: "accepts op s \<Longrightarrow> spent (step op s)"
    and stays_spent: "spent s \<Longrightarrow> spent (step op s)"
    and spent_refused: "spent s \<Longrightarrow> \<not> accepts op s"
begin

lemma never_again: "spent s \<Longrightarrow> accepted_ops step accepts ops s = []"
  by (induction ops arbitrary: s) (simp_all add: stays_spent spent_refused)

lemma at_most_once: "length (accepted_ops step accepts ops s) \<le> 1"
proof (induction ops arbitrary: s)
  case (Cons op ops)
  then show ?case
    by (cases "accepts op s") (simp_all add: never_again accept_spends)
qed simp

end

section \<open>Stores\<close>

text \<open>
  The contract of a repository: \<open>put\<close> may fail; if it succeeds, the key of its argument finds
  the stored value and every other key finds what it found before.
\<close>

locale keyed_store =
  fixes put :: "'x \<Rightarrow> 's \<Rightarrow> ('e, 's) res"
    and get :: "'k \<Rightarrow> 's \<Rightarrow> 'v option"
    and key :: "'x \<Rightarrow> 'k"
    and val :: "'x \<Rightarrow> 's \<Rightarrow> 'v"
    and ok :: "'s \<Rightarrow> bool"
  assumes put_ok: "ok s \<Longrightarrow> put x s = Inr s' \<Longrightarrow> ok s'"
    and get_put: "ok s \<Longrightarrow> put x s = Inr s' \<Longrightarrow>
      get k s' = (if k = key x then Some (val x s) else get k s)"
begin

lemma get_put_same: "ok s \<Longrightarrow> put x s = Inr s' \<Longrightarrow> get (key x) s' = Some (val x s)"
  by (simp add: get_put)

lemma get_put_other: "ok s \<Longrightarrow> put x s = Inr s' \<Longrightarrow> k \<noteq> key x \<Longrightarrow> get k s' = get k s"
  by (simp add: get_put)

lemma keys_stay: "ok s \<Longrightarrow> put x s = Inr s' \<Longrightarrow> get k s \<noteq> None \<Longrightarrow> get k s' \<noteq> None"
  by (simp add: get_put)

lemma put_put_same:
  assumes "ok s" "put x s = Inr s'" "put y s' = Inr s''" "key y = key x"
  shows "get k s'' = (if k = key x then Some (val y s') else get k s)"
  using assms put_ok [OF assms(1,2)] by (auto simp: get_put)

end

end
