(* ===== verification/Payment_Domain.thy ===== *)
theory Payment_Domain
  imports Prelude
begin

text \<open>
  The payment domain (\<open>payments/domain\<close>): money and currencies, the payment entity with its
  status machine, the payment policy, the velocity, fraud and step-up policies. Decimals and the
  few floats the policies compute with are exact rationals here (the amounts are below
  \<open>5 * 10 ^ 7\<close> minor units, well inside Decimal's 28 digits). Timestamps are instants: every
  timestamp of this package comes from \<open>utc_now\<close> or the database and is aware.
\<close>

section \<open>Exceptions\<close>

datatype pay_status =
    INITIATED
  | PENDING
  | SUCCESS
  | FAILED
  | CANCELLED
  | EXPIRED
  | REFUND_REQUESTED
  | REFUNDED

datatype pay_exn =
    DomainValidationError string
  | ValueErr string
  | AttributeErr
  | InvalidTransitionError pay_status pay_status
  | PaymentNotFoundError string
  | PaymentNotAllowedError string
  | ProviderGatewayError
  | VelocityLimitExceededError string
  | FraudFlaggedError string
  | IntegrityError
  | MultipleObjectsReturned

section \<open>Currencies and money\<close>

record currency =
  cur_code :: string
  cur_decimals :: nat
  cur_min_minor :: int
  cur_max_minor :: int

definition supported_currencies :: "(string \<times> nat \<times> int \<times> int) list" where
  "supported_currencies =
    [(''RWF'', 0, 100, 10000000),
     (''USD'', 2, 100, 1000000),
     (''EUR'', 2, 100, 1000000),
     (''KES'', 2, 100, 5000000),
     (''GHS'', 2, 100, 1000000),
     (''NGN'', 2, 100, 50000000)]"

definition mk_currency :: "string \<Rightarrow> (pay_exn, currency) res" where
  "mk_currency c =
     (case map_of supported_currencies c of
        None \<Rightarrow> Inl (DomainValidationError (''Unsupported currency: '' @ c))
      | Some (d, lo, hi) \<Rightarrow>
          Inr \<lparr>cur_code = c, cur_decimals = d, cur_min_minor = lo, cur_max_minor = hi\<rparr>)"

definition currency_eq :: "currency \<Rightarrow> currency \<Rightarrow> bool" where
  "currency_eq a b = (cur_code a = cur_code b)"

record money =
  minor_units :: int
  mon_currency :: currency

definition mk_money :: "int \<Rightarrow> currency \<Rightarrow> (pay_exn, money) res" where
  "mk_money m c =
     (if m < cur_min_minor c then
        Inl (DomainValidationError
          (''Amount '' @ show_int m @ '' below minimum '' @ show_int (cur_min_minor c)))
      else if m > cur_max_minor c then
        Inl (DomainValidationError
          (''Amount '' @ show_int m @ '' exceeds maximum '' @ show_int (cur_max_minor c)))
      else Inr \<lparr>minor_units = m, mon_currency = c\<rparr>)"

definition money_to_decimal :: "money \<Rightarrow> rat" where
  "money_to_decimal m = of_int (minor_units m) / 10 ^ cur_decimals (mon_currency m)"

text \<open>\<open>to_integral_value(rounding=ROUND_DOWN)\<close> truncates towards zero.\<close>

definition round_down :: "rat \<Rightarrow> int" where
  "round_down x = (if 0 \<le> x then floor x else ceiling x)"

definition money_from_decimal :: "rat \<Rightarrow> currency \<Rightarrow> (pay_exn, money) res" where
  "money_from_decimal amount c = mk_money (round_down (amount * 10 ^ cur_decimals c)) c"

definition money_add :: "money \<Rightarrow> money \<Rightarrow> (pay_exn, money) res" where
  "money_add a b =
     (if \<not> currency_eq (mon_currency a) (mon_currency b)
      then Inl (DomainValidationError ''Cannot add different currencies'')
      else mk_money (minor_units a + minor_units b) (mon_currency a))"

definition money_sub :: "money \<Rightarrow> money \<Rightarrow> (pay_exn, money) res" where
  "money_sub a b =
     (if \<not> currency_eq (mon_currency a) (mon_currency b)
      then Inl (DomainValidationError ''Cannot subtract different currencies'')
      else mk_money (minor_units a - minor_units b) (mon_currency a))"

text \<open>The amounts that \<open>Currency\<close> and \<open>Money\<close> let exist.\<close>

definition currency_ok :: "currency \<Rightarrow> bool" where
  "currency_ok c = (mk_currency (cur_code c) = Inr c)"

definition money_ok :: "money \<Rightarrow> bool" where
  "money_ok m =
     (currency_ok (mon_currency m) \<and>
      cur_min_minor (mon_currency m) \<le> minor_units m \<and>
      minor_units m \<le> cur_max_minor (mon_currency m))"

lemma mk_currency_ok: "mk_currency s = Inr c \<Longrightarrow> currency_ok c \<and> cur_code c = s"
  by (cases "map_of supported_currencies s") (auto simp: mk_currency_def currency_ok_def)

lemma mk_money_Inr:
  "mk_money k c = Inr m \<longleftrightarrow>
     m = \<lparr>minor_units = k, mon_currency = c\<rparr> \<and> cur_min_minor c \<le> k \<and> k \<le> cur_max_minor c"
  by (auto simp: mk_money_def)

lemma mk_money_money_ok: "mk_money k c = Inr m \<Longrightarrow> currency_ok c \<Longrightarrow> money_ok m"
  by (auto simp: mk_money_Inr money_ok_def)

lemma currency_eq_ok: "currency_ok a \<Longrightarrow> currency_ok b \<Longrightarrow> currency_eq a b \<longleftrightarrow> a = b"
  unfolding currency_eq_def currency_ok_def by (metis sum.inject(2))

lemma supported_ranges:
  assumes "map_of supported_currencies c = Some (d, lo, hi)"
  shows "0 < lo \<and> lo \<le> hi \<and> d \<le> 2"
proof -
  have "list_all (\<lambda>(c, d, lo, hi). 0 < lo \<and> lo \<le> hi \<and> d \<le> 2) supported_currencies"
    by (simp add: supported_currencies_def)
  with map_of_SomeD [OF assms] show ?thesis
    by (auto simp: list_all_iff)
qed

lemma currency_ok_range:
  "currency_ok c \<Longrightarrow> 0 < cur_min_minor c \<and> cur_min_minor c \<le> cur_max_minor c \<and> cur_decimals c \<le> 2"
  unfolding currency_ok_def mk_currency_def
  by (cases c; cases "map_of supported_currencies (cur_code c)") (auto dest!: supported_ranges)

lemma round_down_of_int [simp]: "round_down (of_int k) = k"
  by (simp add: round_down_def)

lemma round_down_of_int_plus:
  "0 \<le> x \<Longrightarrow> of_int (round_down x) \<le> x \<and> x < of_int (round_down x) + 1"
  by (simp add: round_down_def) linarith

section \<open>Encrypted fields\<close>

type_synonym byte = "8 word"

record encrypted_field =
  ef_ciphertext :: "byte list"
  ef_iv :: "byte list"
  ef_tag :: "byte list"
  ef_dek_encrypted :: "byte list"

definition mk_encrypted_field ::
  "byte list \<Rightarrow> byte list \<Rightarrow> byte list \<Rightarrow> byte list \<Rightarrow> (pay_exn, encrypted_field) res" where
  "mk_encrypted_field ct iv tag dek =
     (if length iv \<noteq> 12 then Inl (ValueErr ''IV must be 12 bytes for GCM'')
      else if length tag \<noteq> 16 then Inl (ValueErr ''Authentication tag must be 16 bytes'')
      else Inr \<lparr>ef_ciphertext = ct, ef_iv = iv, ef_tag = tag, ef_dek_encrypted = dek\<rparr>)"

section \<open>The payment entity\<close>

datatype pay_method = METHOD_CARD | METHOD_MOBILE_MONEY | METHOD_BANK_TRANSFER

datatype pay_env = TEST | LIVE

definition pay_status_value :: "pay_status \<Rightarrow> string" where
  "pay_status_value s =
     (case s of INITIATED \<Rightarrow> ''initiated'' | PENDING \<Rightarrow> ''pending'' | SUCCESS \<Rightarrow> ''success''
      | FAILED \<Rightarrow> ''failed'' | CANCELLED \<Rightarrow> ''cancelled'' | EXPIRED \<Rightarrow> ''expired''
      | REFUND_REQUESTED \<Rightarrow> ''refund_requested'' | REFUNDED \<Rightarrow> ''refunded'')"

definition pay_env_value :: "pay_env \<Rightarrow> string" where
  "pay_env_value e = (case e of TEST \<Rightarrow> ''test'' | LIVE \<Rightarrow> ''live'')"

definition pay_method_value :: "pay_method \<Rightarrow> string" where
  "pay_method_value m =
     (case m of METHOD_CARD \<Rightarrow> ''card'' | METHOD_MOBILE_MONEY \<Rightarrow> ''mobile_money''
      | METHOD_BANK_TRANSFER \<Rightarrow> ''bank_transfer'')"

text \<open>
  The annotations say \<open>PaymentMethod\<close> and \<open>PaymentEnv\<close>, but nothing converts what a caller passes:
  the field holds an enum member, or the plain string a serializer produced. A plain string
  compares equal to the member of that value, but has no attribute \<open>value\<close>.
\<close>

datatype 'e enum_arg = Member 'e | Raw string

definition enum_attr_value :: "('e \<Rightarrow> string) \<Rightarrow> 'e enum_arg \<Rightarrow> (pay_exn, string) res" where
  "enum_attr_value val a = (case a of Member e \<Rightarrow> Inr (val e) | Raw _ \<Rightarrow> Inl AttributeErr)"

definition enum_str :: "('e \<Rightarrow> string) \<Rightarrow> 'e enum_arg \<Rightarrow> string" where
  "enum_str val a = (case a of Member e \<Rightarrow> val e | Raw s \<Rightarrow> s)"

record payment =
  p_id :: uuid
  p_user_id :: uuid
  p_amount :: money
  p_method :: "pay_method enum_arg"
  p_reference :: string
  p_idempotency_key :: string
  p_environment :: "pay_env enum_arg"
  p_status :: pay_status
  p_provider_reference :: "string option"
  p_context_reference :: "string option"
  p_metadata :: pyval
  p_created_at :: instant
  p_expires_at :: "instant option"

definition check_metadata :: "pyval \<Rightarrow> (pay_exn, unit) res" where
  "check_metadata v =
     (case v of
        PyDict items \<Rightarrow>
          res_bind (ensure (length items \<le> 10) (ValueErr ''metadata cannot exceed 10 keys''))
            (\<lambda>_. ensure (list_all (\<lambda>(k, v). py_is_str k \<and> py_is_primitive v) items)
                   (ValueErr ''metadata keys must be strings, values must be primitive''))
      | _ \<Rightarrow> Inl (ValueErr ''metadata must be a dict''))"

text \<open>\<open>Payment.__post_init__\<close>: the default expiry, then the checks of the metadata.\<close>

definition payment_post_init :: "payment \<Rightarrow> (pay_exn, payment) res" where
  "payment_post_init p =
     (let p' = (if p_expires_at p = None
                then p\<lparr>p_expires_at := Some (p_created_at p + minutes 30)\<rparr> else p)
      in res_bind (check_metadata (p_metadata p')) (\<lambda>_. Inr p'))"

definition allowed_transitions :: "pay_status \<Rightarrow> pay_status list" where
  "allowed_transitions s =
     (case s of
        INITIATED \<Rightarrow> [PENDING, CANCELLED, EXPIRED]
      | PENDING \<Rightarrow> [SUCCESS, FAILED, CANCELLED, EXPIRED]
      | SUCCESS \<Rightarrow> [REFUND_REQUESTED]
      | REFUND_REQUESTED \<Rightarrow> [REFUNDED, SUCCESS]
      | FAILED \<Rightarrow> []
      | CANCELLED \<Rightarrow> []
      | EXPIRED \<Rightarrow> []
      | REFUNDED \<Rightarrow> [])"

definition transition_to :: "pay_status \<Rightarrow> payment \<Rightarrow> (pay_exn, payment) res" where
  "transition_to new p =
     (if new \<notin> set (allowed_transitions (p_status p))
      then Inl (InvalidTransitionError (p_status p) new)
      else Inr (p\<lparr>p_status := new\<rparr>))"

definition payment_is_expired :: "payment \<Rightarrow> instant \<Rightarrow> bool" where
  "payment_is_expired p now = (case p_expires_at p of None \<Rightarrow> False | Some e \<Rightarrow> e < now)"

section \<open>The payment policy\<close>

record policy_result =
  pr_allowed :: bool
  pr_reason :: "string option"
  pr_next_state :: "pay_status option"
  pr_fraud_signal :: bool

record provider_context =
  cx_provider_verified :: bool
  cx_provider_reference :: string
  cx_provider_amount_minor :: int
  cx_provider_currency :: string
  cx_environment :: string

definition deny :: "string \<Rightarrow> bool \<Rightarrow> policy_result" where
  "deny r f = \<lparr>pr_allowed = False, pr_reason = Some r, pr_next_state = None, pr_fraud_signal = f\<rparr>"

definition permit :: "pay_status \<Rightarrow> policy_result" where
  "permit s = \<lparr>pr_allowed = True, pr_reason = None, pr_next_state = Some s, pr_fraud_signal = False\<rparr>"

definition evaluate_initiate :: "payment \<Rightarrow> instant \<Rightarrow> policy_result" where
  "evaluate_initiate p now =
     (if p_status p \<noteq> INITIATED then deny ''Payment already processed'' False
      else if payment_is_expired p now then deny ''Payment has expired'' False
      else permit PENDING)"

text \<open>
  The list of reasons grows check by check, and three of the checks also raise the fraud flag.
  \<open>PaymentEnv\<close> is a string enum, so its comparison with the context's string compares values.
\<close>

definition confirm_reasons :: "payment \<Rightarrow> provider_context \<Rightarrow> instant \<Rightarrow> string list" where
  "confirm_reasons p cx now =
     (if p_status p \<noteq> PENDING
        then [''Payment not pending (current: '' @ pay_status_value (p_status p) @ '')''] else []) @
     (if \<not> cx_provider_verified cx then [''Provider verification failed''] else []) @
     (if Some (cx_provider_reference cx) \<noteq> p_provider_reference p
        then [''Provider reference mismatch''] else []) @
     (if cx_provider_amount_minor cx \<noteq> minor_units (p_amount p) then [''Amount mismatch''] else []) @
     (if cx_provider_currency cx \<noteq> cur_code (mon_currency (p_amount p))
        then [''Currency mismatch''] else []) @
     (if payment_is_expired p now then [''Payment has expired''] else []) @
     (if enum_str pay_env_value (p_environment p) \<noteq> cx_environment cx
        then [''Environment mismatch (test/live)''] else [])"

definition confirm_fraud :: "payment \<Rightarrow> provider_context \<Rightarrow> bool" where
  "confirm_fraud p cx =
     (Some (cx_provider_reference cx) \<noteq> p_provider_reference p \<or>
      cx_provider_amount_minor cx \<noteq> minor_units (p_amount p) \<or>
      cx_provider_currency cx \<noteq> cur_code (mon_currency (p_amount p)))"

definition evaluate_confirm_success :: "payment \<Rightarrow> provider_context \<Rightarrow> instant \<Rightarrow> policy_result" where
  "evaluate_confirm_success p cx now =
     (let reasons = confirm_reasons p cx now in
      if reasons \<noteq> [] then deny (py_join ''; '' reasons) (confirm_fraud p cx)
      else permit SUCCESS)"

definition evaluate_expire :: "payment \<Rightarrow> instant \<Rightarrow> policy_result" where
  "evaluate_expire p now =
     (if p_status p \<notin> {INITIATED, PENDING} then deny ''Payment not in expirable state'' False
      else if \<not> payment_is_expired p now then deny ''Payment not yet expired'' False
      else permit EXPIRED)"

datatype policy_action =
    Act_INITIATE
  | Act_CONFIRM_SUCCESS provider_context
  | Act_EXPIRE
  | Act_other string

definition policy_apply :: "payment \<Rightarrow> policy_action \<Rightarrow> instant \<Rightarrow> policy_result" where
  "policy_apply p act now =
     (case act of
        Act_INITIATE \<Rightarrow> evaluate_initiate p now
      | Act_CONFIRM_SUCCESS cx \<Rightarrow> evaluate_confirm_success p cx now
      | Act_EXPIRE \<Rightarrow> evaluate_expire p now
      | Act_other a \<Rightarrow> deny (''Unknown action: '' @ a) False)"

section \<open>Step-up, velocity and fraud patterns\<close>

definition step_up_thresholds :: "(string \<times> int) list" where
  "step_up_thresholds =
    [(''RWF'', 500000), (''USD'', 50000), (''EUR'', 50000),
     (''KES'', 5000000), (''NGN'', 20000000), (''GHS'', 50000)]"

record step_up_result =
  su_required :: bool
  su_reason :: "string option"

definition is_step_up_required :: "money \<Rightarrow> bool \<Rightarrow> step_up_result" where
  "is_step_up_required amount token_step_up =
     (case map_of step_up_thresholds (cur_code (mon_currency amount)) of
        None \<Rightarrow> \<lparr>su_required = True, su_reason = Some ''Unsupported currency''\<rparr>
      | Some threshold \<Rightarrow>
          if minor_units amount \<ge> threshold \<and> \<not> token_step_up
          then \<lparr>su_required = True,
                su_reason = Some (''Amount exceeds threshold of '' @ show_int threshold @ '' '' @
                              cur_code (mon_currency amount))\<rparr>
          else \<lparr>su_required = False, su_reason = None\<rparr>)"

record velocity_context =
  vc_payments_last_hour :: int
  vc_payments_last_day :: int
  vc_amount_last_day_minor :: int
  vc_failed_last_hour :: int
  vc_unique_vendors_last_hour :: int
  vc_account_age_hours :: rat

record velocity_result =
  vr_allowed :: bool
  vr_reason :: "string option"
  vr_flag :: bool

definition velocity_apply :: "velocity_context \<Rightarrow> velocity_result" where
  "velocity_apply c =
     (if vc_payments_last_hour c \<ge> 5 then
        \<lparr>vr_allowed = False, vr_reason = Some ''Hourly payment limit exceeded'', vr_flag = False\<rparr>
      else if vc_payments_last_day c \<ge> 20 then
        \<lparr>vr_allowed = False, vr_reason = Some ''Daily payment limit exceeded'', vr_flag = False\<rparr>
      else if vc_amount_last_day_minor c \<ge> 2000000 then
        \<lparr>vr_allowed = False, vr_reason = Some ''Daily amount limit exceeded'', vr_flag = False\<rparr>
      else if vc_failed_last_hour c \<ge> 3 then
        \<lparr>vr_allowed = False, vr_reason = Some ''Too many failed payments'', vr_flag = False\<rparr>
      else if vc_unique_vendors_last_hour c \<ge> 3 then
        \<lparr>vr_allowed = True, vr_reason = Some ''High number of unique vendors'', vr_flag = True\<rparr>
      else \<lparr>vr_allowed = True, vr_reason = None, vr_flag = False\<rparr>)"

record fraud_context =
  fc_duplicate_context_ref :: bool
  fc_account_age_hours :: rat
  fc_step_up_threshold_minor :: int

record fraud_result =
  fr_flagged :: bool
  fr_reason :: "string option"
  fr_patterns :: "string list"

definition fraud_patterns :: "money \<Rightarrow> fraud_context \<Rightarrow> string list" where
  "fraud_patterns amount c =
     (let threshold = fc_step_up_threshold_minor c; margin = of_int threshold * 1 / (100 :: rat) in
      (if fc_duplicate_context_ref c then [''DUPLICATE_PURCHASE''] else []) @
      (if fc_account_age_hours c < 24 \<and> minor_units amount \<ge> threshold
         then [''NEW_ACCOUNT_HIGH_VALUE''] else []) @
      (if of_int threshold - margin \<le> of_int (minor_units amount) \<and>
          of_int (minor_units amount) \<le> of_int threshold + margin
         then [''THRESHOLD_PROBING''] else []))"

definition fraud_apply :: "money \<Rightarrow> fraud_context \<Rightarrow> fraud_result" where
  "fraud_apply amount c =
     (let patterns = fraud_patterns amount c in
      if patterns \<noteq> []
      then \<lparr>fr_flagged = True, fr_reason = Some (py_join ''; '' patterns), fr_patterns = patterns\<rparr>
      else \<lparr>fr_flagged = False, fr_reason = None, fr_patterns = []\<rparr>)"

section \<open>Facts about the entity and its policies\<close>

lemma transition_to_Inr [res_simps]:
  "transition_to s p = Inr p' \<longleftrightarrow>
     s \<in> set (allowed_transitions (p_status p)) \<and> p' = p\<lparr>p_status := s\<rparr>"
  by (auto simp: transition_to_def)

lemma policy_result_simps [simp]:
  "pr_allowed (permit s)" "\<not> pr_allowed (deny r f)"
  "pr_fraud_signal (deny r f) = f" "\<not> pr_fraud_signal (permit s)"
  "pr_reason (deny r f) = Some r" "pr_next_state (permit s) = Some s"
  by (simp_all add: permit_def deny_def)

lemma initiate_allowed_iff:
  "pr_allowed (evaluate_initiate p now) \<longleftrightarrow> p_status p = INITIATED \<and> \<not> payment_is_expired p now"
  by (simp add: evaluate_initiate_def)

lemma expire_allowed_iff:
  "pr_allowed (evaluate_expire p now) \<longleftrightarrow>
     p_status p \<in> {INITIATED, PENDING} \<and> payment_is_expired p now"
  by (simp add: evaluate_expire_def)

lemma confirm_reasons_Nil:
  "confirm_reasons p cx now = [] \<longleftrightarrow>
     p_status p = PENDING \<and> cx_provider_verified cx \<and>
     p_provider_reference p = Some (cx_provider_reference cx) \<and>
     cx_provider_amount_minor cx = minor_units (p_amount p) \<and>
     cx_provider_currency cx = cur_code (mon_currency (p_amount p)) \<and>
     \<not> payment_is_expired p now \<and> cx_environment cx = enum_str pay_env_value (p_environment p)"
  by (auto simp: confirm_reasons_def)

lemma confirm_allowed_iff:
  "pr_allowed (evaluate_confirm_success p cx now) \<longleftrightarrow> confirm_reasons p cx now = []"
  by (simp add: evaluate_confirm_success_def Let_def)

lemma confirm_fraud_reasons: "confirm_fraud p cx \<Longrightarrow> confirm_reasons p cx now \<noteq> []"
  by (auto simp: confirm_fraud_def confirm_reasons_def)

lemma confirm_fraud_signal_iff:
  "pr_fraud_signal (evaluate_confirm_success p cx now) \<longleftrightarrow> confirm_fraud p cx"
  using confirm_fraud_reasons [of p cx now]
  by (auto simp: evaluate_confirm_success_def Let_def)

text \<open>Statuses no transition leaves.\<close>

definition terminal_status :: "pay_status \<Rightarrow> bool" where
  "terminal_status s = (allowed_transitions s = [])"

lemma terminal_status_iff:
  "terminal_status s \<longleftrightarrow> s \<in> {FAILED, CANCELLED, EXPIRED, REFUNDED}"
  by (cases s) (auto simp: terminal_status_def allowed_transitions_def)

text \<open>
  The abstract life of a payment: before the money moved, while the money is ours, and after.
  Every allowed transition moves forward in this order or stays within the settled phase.
\<close>

datatype pay_phase = Open | Settled | Closed

definition phase_of :: "pay_status \<Rightarrow> pay_phase" where
  "phase_of s =
     (case s of INITIATED \<Rightarrow> Open | PENDING \<Rightarrow> Open | SUCCESS \<Rightarrow> Settled
      | REFUND_REQUESTED \<Rightarrow> Settled | _ \<Rightarrow> Closed)"

fun phase_step :: "pay_phase \<Rightarrow> pay_phase \<Rightarrow> bool" where
  "phase_step Open _ = True"
| "phase_step Settled p = (p \<noteq> Open)"
| "phase_step Closed p = False"

lemma allowed_phase_step: "s' \<in> set (allowed_transitions s) \<Longrightarrow> phase_step (phase_of s) (phase_of s')"
  by (cases s) (auto simp: allowed_transitions_def phase_of_def)

text \<open>The statuses a payment can have later: the reflexive transitive closure of the table.\<close>

inductive later_status :: "pay_status \<Rightarrow> pay_status \<Rightarrow> bool" where
  ls_refl: "later_status s s"
| ls_step: "later_status s t \<Longrightarrow> u \<in> set (allowed_transitions t) \<Longrightarrow> later_status s u"

lemma later_status_trans: "later_status t u \<Longrightarrow> later_status s t \<Longrightarrow> later_status s u"
  by (induction rule: later_status.induct) (auto intro: later_status.intros)

lemma later_status_one: "u \<in> set (allowed_transitions s) \<Longrightarrow> later_status s u"
  by (blast intro: later_status.intros)

lemma later_status_terminal: "later_status s t \<Longrightarrow> terminal_status s \<Longrightarrow> t = s"
  by (induction rule: later_status.induct) (auto simp: terminal_status_def)

lemma later_status_phase: "later_status s t \<Longrightarrow> phase_of s \<noteq> Open \<Longrightarrow> phase_of t \<noteq> Open"
proof (induction rule: later_status.induct)
  case (ls_step s t u)
  then show ?case
    using allowed_phase_step [OF ls_step.hyps(2)] by (cases "phase_of t") auto
qed simp

end
