(* ===== verification/Payment_Store.thy ===== *)
theory Payment_Store
  imports Payment_Domain
begin

text \<open>
  The state the payment handlers work on and the adapters that read and write it
  (\<open>payments/infrastructure\<close>): the payment table, the webhook table, the append-only audit log,
  the event outbox, the Redis retry counters and locks. A table is the list of its rows in
  insertion order; a payment row is the domain entity that \<open>_to_domain\<close> builds from it. Field
  encryption is the identity here and is treated in the theory of the encrypted fields.
\<close>

section \<open>Rows\<close>

datatype hook_status =
    HK_PROCESSING
  | HK_PROCESSED_SUCCESS
  | HK_REJECTED_UNKNOWN
  | HK_REJECTED_POLICY
  | HK_FRAUD_DETECTED
  | HK_LOCK_FAILED_RETRY
  | HK_VERIFY_FAILED_RETRY
  | HK_REJECTED_MISSING_REF

text \<open>
  The part of a webhook payload the code looks at: \<open>payload.get("data", {})\<close> is absent, an
  object with an optional \<open>tx_ref\<close>, or some other JSON value, which has no \<open>get\<close>.
\<close>

datatype hook_payload = NoData | DataObject "string option" | DataOther

record hook_row =
  hk_event_id :: string
  hk_status :: hook_status
  hk_payload :: hook_payload

datatype detail = DStr string | DStrOpt "string option" | DTime "instant option"

datatype audit_actor = ActorUser uuid | ActorWebhook | ActorSystem

record audit_event =
  ae_payment_id :: "uuid option"
  ae_action :: string
  ae_actor :: audit_actor
  ae_details :: "(string \<times> detail) list"

datatype pay_event =
    FraudSignalEvent uuid string string instant
  | PaymentCompleted uuid uuid int string instant
  | PaymentExpired uuid instant

record outbox_row =
  ob_event_id :: uuid
  ob_event :: pay_event

record pay_world =
  w_payments :: "payment list"
  w_hooks :: "hook_row list"
  w_audit :: "audit_event list"
  w_outbox :: "outbox_row list"
  w_retry_count :: "string \<Rightarrow> nat"
  w_retry_tasks :: "(string \<times> int) list"
  w_locks :: "string list"

section \<open>The payment repository\<close>

text \<open>
  \<open>save\<close> is \<open>update_or_create(reference = ...)\<close>. The domain id is not among the saved fields: a
  new row draws its own primary key and, with \<open>auto_now_add\<close>, its own creation time; an existing
  row keeps its key. The unique columns raise \<open>IntegrityError\<close>. The reads of \<open>method.value\<close>
  and \<open>environment.value\<close> fail on a plain string.
\<close>

definition same_ref :: "payment \<Rightarrow> payment \<Rightarrow> bool" where
  "same_ref p r = (p_reference r = p_reference p)"

definition unique_clash :: "payment \<Rightarrow> payment \<Rightarrow> bool" where
  "unique_clash p r =
     (p_reference r \<noteq> p_reference p \<and>
      (p_idempotency_key r = p_idempotency_key p \<or>
       p_provider_reference p \<noteq> None \<and> p_provider_reference r = p_provider_reference p))"

definition pay_save ::
  "uuid \<Rightarrow> instant \<Rightarrow> payment \<Rightarrow> payment list \<Rightarrow> (pay_exn, payment list) res" where
  "pay_save new_id db_now p rows =
     res_bind (enum_attr_value pay_method_value (p_method p)) (\<lambda>_.
     res_bind (enum_attr_value pay_env_value (p_environment p)) (\<lambda>_.
     if \<exists>r \<in> set rows. unique_clash p r then Inl IntegrityError
     else (case find (same_ref p) rows of
             Some _ \<Rightarrow> Inr (update_first (same_ref p) (\<lambda>r. p\<lparr>p_id := p_id r\<rparr>) rows)
           | None \<Rightarrow>
               if \<exists>r \<in> set rows. p_id r = new_id then Inl IntegrityError
               else Inr (rows @ [p\<lparr>p_id := new_id, p_created_at := db_now\<rparr>]))))"

definition find_by_reference :: "string \<Rightarrow> payment list \<Rightarrow> payment option" where
  "find_by_reference ref rows = find (\<lambda>r. p_reference r = ref) rows"

definition find_by_idempotency_key :: "string \<Rightarrow> payment list \<Rightarrow> payment option" where
  "find_by_idempotency_key key rows = find (\<lambda>r. p_idempotency_key r = key) rows"

text \<open>
  The lookup by provider reference goes through a keyed hash (\<open>HMAC-SHA256\<close>, the argument
  \<open>hm\<close>); \<open>get\<close> raises when two rows carry the same hash.
\<close>

definition find_by_provider_reference ::
  "(string \<Rightarrow> string) \<Rightarrow> string \<Rightarrow> payment list \<Rightarrow> (pay_exn, payment option) res" where
  "find_by_provider_reference hm ref rows =
     (if ref = '''' then Inr None
      else (case filter (\<lambda>r. case p_provider_reference r of None \<Rightarrow> False
                           | Some pr \<Rightarrow> pr \<noteq> '''' \<and> hm pr = hm ref) rows of
              [] \<Rightarrow> Inr None
            | [r] \<Rightarrow> Inr (Some r)
            | _ \<Rightarrow> Inl MultipleObjectsReturned))"

definition get_velocity_context ::
  "(uuid \<Rightarrow> instant option) \<Rightarrow> uuid \<Rightarrow> instant \<Rightarrow> payment list \<Rightarrow> velocity_context" where
  "get_velocity_context user_created user_id now rows =
     (let mine = filter (\<lambda>r. p_user_id r = user_id) rows;
          hour = filter (\<lambda>r. now - hours 1 \<le> p_created_at r) mine;
          day = filter (\<lambda>r. now - days 1 \<le> p_created_at r) mine
      in \<lparr>vc_payments_last_hour = int (length hour),
          vc_payments_last_day = int (length day),
          vc_amount_last_day_minor = sum_list (map (\<lambda>r. minor_units (p_amount r)) day),
          vc_failed_last_hour = int (length (filter (\<lambda>r. p_status r = FAILED) hour)),
          vc_unique_vendors_last_hour =
            int (length (remdups (filter (\<lambda>x. x \<noteq> None) (map p_provider_reference hour)))),
          vc_account_age_hours =
            (case user_created user_id of None \<Rightarrow> 0
             | Some c \<Rightarrow> of_int (now - c) / of_int (hours 1))\<rparr>)"

definition find_duplicate_context_ref ::
  "uuid \<Rightarrow> string option \<Rightarrow> instant \<Rightarrow> payment list \<Rightarrow> bool" where
  "find_duplicate_context_ref user_id context_ref since rows =
     (if context_ref = None \<or> context_ref = Some '''' then False
      else list_ex (\<lambda>r. p_user_id r = user_id \<and> p_context_reference r = context_ref \<and>
                        since \<le> p_created_at r) rows)"

definition find_expired_pending :: "instant \<Rightarrow> payment list \<Rightarrow> payment list" where
  "find_expired_pending now rows =
     filter (\<lambda>r. p_status r \<in> {INITIATED, PENDING} \<and>
                 (case p_expires_at r of None \<Rightarrow> False | Some e \<Rightarrow> e < now)) rows"

section \<open>Webhook events, audit log, outbox, retries and locks\<close>

definition webhook_exists :: "string \<Rightarrow> pay_world \<Rightarrow> bool" where
  "webhook_exists event_id w = list_ex (\<lambda>h. hk_event_id h = event_id) (w_hooks w)"

definition save_event :: "string \<Rightarrow> hook_status \<Rightarrow> hook_payload \<Rightarrow> pay_world \<Rightarrow> pay_world" where
  "save_event event_id st payload w =
     w\<lparr>w_hooks := upsert (\<lambda>h. hk_event_id h = event_id)
        (\<lambda>h. h\<lparr>hk_status := st, hk_payload := payload\<rparr>)
        \<lparr>hk_event_id = event_id, hk_status = st, hk_payload = payload\<rparr> (w_hooks w)\<rparr>"

text \<open>
  The audit logger looks the payment up by primary key and writes a null reference when there
  is no such row.
\<close>

definition audit_log :: "audit_event \<Rightarrow> pay_world \<Rightarrow> pay_world" where
  "audit_log a w =
     (let linked = (case ae_payment_id a of None \<Rightarrow> None
                    | Some i \<Rightarrow> if list_ex (\<lambda>r. p_id r = i) (w_payments w) then Some i else None)
      in w\<lparr>w_audit := w_audit w @ [a\<lparr>ae_payment_id := linked\<rparr>]\<rparr>)"

definition dispatch_event :: "uuid \<Rightarrow> pay_event \<Rightarrow> pay_world \<Rightarrow> pay_world" where
  "dispatch_event eid ev w =
     (if list_ex (\<lambda>o'. ob_event_id o' = eid) (w_outbox w) then w
      else w\<lparr>w_outbox := w_outbox w @ [\<lparr>ob_event_id = eid, ob_event = ev\<rparr>]\<rparr>)"

text \<open>
  The counter in Redis bounds the scheduled retries of a reference by \<open>max_attempts = 3\<close> until
  it is reset (its one-hour expiry is an operation of the environment, not of this function).
\<close>

definition schedule_webhook_retry :: "string \<Rightarrow> int \<Rightarrow> pay_world \<Rightarrow> pay_world" where
  "schedule_webhook_retry ref delay w =
     (let attempt = Suc (w_retry_count w ref);
          w' = w\<lparr>w_retry_count := (w_retry_count w)(ref := attempt)\<rparr>
      in if attempt > 3 then w' else w'\<lparr>w_retry_tasks := w_retry_tasks w @ [(ref, delay)]\<rparr>)"

definition reset_webhook_retry :: "string \<Rightarrow> pay_world \<Rightarrow> pay_world" where
  "reset_webhook_retry ref w = w\<lparr>w_retry_count := (w_retry_count w)(ref := 0)\<rparr>"

definition acquire_lock :: "string \<Rightarrow> pay_world \<Rightarrow> bool \<times> pay_world" where
  "acquire_lock ref w =
     (if ref \<in> set (w_locks w) then (False, w) else (True, w\<lparr>w_locks := ref # w_locks w\<rparr>))"

definition release_lock :: "string \<Rightarrow> pay_world \<Rightarrow> pay_world" where
  "release_lock ref w = w\<lparr>w_locks := filter (\<lambda>l. l \<noteq> ref) (w_locks w)\<rparr>"

section \<open>The unique columns\<close>

definition rows_ok :: "payment list \<Rightarrow> bool" where
  "rows_ok rows \<longleftrightarrow>
     distinct (map p_id rows) \<and> distinct (map p_reference rows) \<and>
     list_all (\<lambda>p. list_all (\<lambda>q. \<not> unique_clash p q) rows) rows"

lemma unique_clash_sym: "unique_clash p q \<longleftrightarrow> unique_clash q p"
  by (auto simp: unique_clash_def)

lemma unique_clash_id [simp]:
  "unique_clash (p\<lparr>p_id := i\<rparr>) q = unique_clash p q"
  "unique_clash p (q\<lparr>p_id := i\<rparr>) = unique_clash p q"
  "unique_clash p (q\<lparr>p_created_at := t\<rparr>) = unique_clash p q"
  "unique_clash (p\<lparr>p_created_at := t\<rparr>) q = unique_clash p q"
  by (simp_all add: unique_clash_def)

lemma unique_clash_same_ref: "p_reference p = p_reference q \<Longrightarrow> \<not> unique_clash p q"
  by (simp add: unique_clash_def)

lemma find_by_reference_Some:
  "find_by_reference ref rows = Some p \<Longrightarrow> p \<in> set rows \<and> p_reference p = ref"
  unfolding find_by_reference_def by (drule find_Some_set) simp

lemma find_by_reference_None:
  "find_by_reference ref rows = None \<longleftrightarrow> ref \<notin> p_reference ` set rows"
  by (auto simp: find_by_reference_def find_None_iff)

lemma find_by_reference_in:
  "rows_ok rows \<Longrightarrow> p \<in> set rows \<Longrightarrow> find_by_reference (p_reference p) rows = Some p"
  by (simp add: rows_ok_def find_by_reference_def distinct_find_unique)

lemma rows_ok_same_ref: "rows_ok rows \<Longrightarrow> p \<in> set rows \<Longrightarrow> q \<in> set rows \<Longrightarrow>
    p_reference p = p_reference q \<Longrightarrow> p = q"
  by (metis find_by_reference_in option.inject)

lemma rows_ok_same_id: "rows_ok rows \<Longrightarrow> p \<in> set rows \<Longrightarrow> q \<in> set rows \<Longrightarrow> p_id p = p_id q \<Longrightarrow> p = q"
  by (metis distinct_find_unique option.inject rows_ok_def)

section \<open>What a save does\<close>

text \<open>The row a save leaves behind, given the row it found.\<close>

definition saved_row :: "uuid \<Rightarrow> instant \<Rightarrow> payment \<Rightarrow> payment list \<Rightarrow> payment" where
  "saved_row new_id db_now p rows =
     (case find_by_reference (p_reference p) rows of
        Some r \<Rightarrow> p\<lparr>p_id := p_id r\<rparr>
      | None \<Rightarrow> p\<lparr>p_id := new_id, p_created_at := db_now\<rparr>)"

lemma same_ref_eq: "same_ref p = (\<lambda>r. p_reference r = p_reference p)"
  by (simp add: same_ref_def fun_eq_iff)

lemma same_ref_find: "find (same_ref p) rows = find_by_reference (p_reference p) rows"
  by (simp add: same_ref_eq find_by_reference_def)

lemma pay_save_cases:
  assumes "pay_save i t p rows = Inr rows'"
  obtains (update) r where "find_by_reference (p_reference p) rows = Some r"
      "rows' = update_first (same_ref p) (\<lambda>r. p\<lparr>p_id := p_id r\<rparr>) rows"
      "\<forall>q \<in> set rows. \<not> unique_clash p q"
    | (create) "find_by_reference (p_reference p) rows = None"
      "rows' = rows @ [p\<lparr>p_id := i, p_created_at := t\<rparr>]" "i \<notin> p_id ` set rows"
      "\<forall>q \<in> set rows. \<not> unique_clash p q"
  using assms unfolding pay_save_def same_ref_find
  by (auto simp: res_simps split: if_splits option.splits)

lemma pay_save_members:
  assumes "pay_save i t p rows = Inr rows'"
  shows "\<exists>m e. p_method p = Member m \<and> p_environment p = Member e"
  using assms unfolding pay_save_def
  by (auto simp: res_simps enum_attr_value_def split: enum_arg.splits)

lemma saved_row_ref [simp]: "p_reference (saved_row i t p rows) = p_reference p"
  by (simp add: saved_row_def split: option.splits)

lemma saved_row_fields [simp]:
  "p_status (saved_row i t p rows) = p_status p"
  "p_method (saved_row i t p rows) = p_method p"
  "p_environment (saved_row i t p rows) = p_environment p"
  "p_amount (saved_row i t p rows) = p_amount p"
  "p_idempotency_key (saved_row i t p rows) = p_idempotency_key p"
  "p_provider_reference (saved_row i t p rows) = p_provider_reference p"
  "p_expires_at (saved_row i t p rows) = p_expires_at p"
  "p_user_id (saved_row i t p rows) = p_user_id p"
  by (simp_all add: saved_row_def split: option.splits)

lemma saved_row_existing:
  "rows_ok rows \<Longrightarrow> r \<in> set rows \<Longrightarrow> p_reference p = p_reference r \<Longrightarrow>
    saved_row i t p rows = p\<lparr>p_id := p_id r\<rparr>"
  using find_by_reference_in [of rows r] by (simp add: saved_row_def)

lemma pay_save_set:
  assumes "rows_ok rows" and "pay_save i t p rows = Inr rows'"
  shows "set rows' = insert (saved_row i t p rows) {r \<in> set rows. p_reference r \<noteq> p_reference p}"
  using assms(2)
proof (cases rule: pay_save_cases)
  case (update r)
  with assms(1) show ?thesis
    by (simp add: same_ref_eq find_by_reference_def rows_ok_def saved_row_def set_update_first_key)
next
  case create
  from create(1) have "{r \<in> set rows. p_reference r \<noteq> p_reference p} = set rows"
    by (simp add: find_by_reference_None notin_image_filter)
  with create show ?thesis
    by (simp add: saved_row_def)
qed

lemma pay_save_lookup:
  assumes "pay_save i t p rows = Inr rows'"
  shows "find_by_reference ref rows' =
    (if ref = p_reference p then Some (saved_row i t p rows) else find_by_reference ref rows)"
  using assms
proof (cases rule: pay_save_cases)
  case (update r)
  then show ?thesis
    by (auto simp: find_by_reference_def saved_row_def same_ref_eq find_update_first
        find_update_first_other)
next
  case create
  then show ?thesis
    by (auto simp: find_by_reference_def saved_row_def find_append split: option.splits)
qed

lemma pay_save_ids:
  assumes "pay_save i t p rows = Inr rows'"
  shows "map p_id rows' = map p_id rows \<or> map p_id rows' = map p_id rows @ [i] \<and> i \<notin> p_id ` set rows"
  using assms
proof (cases rule: pay_save_cases)
  case (update r)
  then show ?thesis by (auto intro!: update_first_map_same)
qed auto

lemma pay_save_refs:
  assumes "pay_save i t p rows = Inr rows'"
  shows "map p_reference rows' = map p_reference rows \<or>
    map p_reference rows' = map p_reference rows @ [p_reference p] \<and> p_reference p \<notin> p_reference ` set rows"
  using assms
proof (cases rule: pay_save_cases)
  case (update r)
  then show ?thesis by (auto simp: same_ref_eq intro!: update_first_map_same)
qed (auto simp: find_by_reference_None)

lemma pay_save_rows_ok:
  assumes ok: "rows_ok rows" and sv: "pay_save i t p rows = Inr rows'"
  shows "rows_ok rows'"
proof -
  have "distinct (map p_id rows')" "distinct (map p_reference rows')"
    using ok pay_save_ids [OF sv] pay_save_refs [OF sv] by (auto simp: rows_ok_def)
  moreover have no: "\<forall>q \<in> set rows. \<not> unique_clash (saved_row i t p rows) q"
    using sv by (cases rule: pay_save_cases) (auto simp: saved_row_def)
  then have "\<not> unique_clash a b" if "a \<in> set rows'" "b \<in> set rows'" for a b
    using that ok unique_clash_sym [of a b]
    by (auto simp: pay_save_set [OF ok sv] rows_ok_def list_all_iff unique_clash_same_ref)
  ultimately show ?thesis
    by (simp add: rows_ok_def list_all_iff)
qed

text \<open>Saving a changed copy of an existing row cannot fail if the unique columns are unchanged.\<close>

lemma pay_save_existing:
  assumes ok: "rows_ok rows" and r: "r \<in> set rows"
    and same: "p_reference p = p_reference r" "p_idempotency_key p = p_idempotency_key r"
      "p_provider_reference p = p_provider_reference r"
    and m: "p_method p = Member m" and e: "p_environment p = Member e"
  shows "\<exists>rows'. pay_save i t p rows = Inr rows'"
proof -
  have "\<not> unique_clash p q" if "q \<in> set rows" for q
    using ok r that same by (auto simp: rows_ok_def list_all_iff unique_clash_def)
  moreover have "find (same_ref p) rows = Some r"
    using find_by_reference_in [OF ok r] same by (simp add: same_ref_find)
  ultimately show ?thesis
    using m e by (auto simp: pay_save_def enum_attr_value_def)
qed

section \<open>Both repositories keep the store contract\<close>

interpretation pay_rows: keyed_store
  "\<lambda>(i, t, p). pay_save i t p" find_by_reference "\<lambda>(i, t, p). p_reference p"
  "\<lambda>(i, t, p). saved_row i t p" rows_ok
  by unfold_locales (auto simp: pay_save_lookup dest: pay_save_rows_ok)

definition webhook_get :: "string \<Rightarrow> pay_world \<Rightarrow> hook_row option" where
  "webhook_get event_id w = find (\<lambda>h. hk_event_id h = event_id) (w_hooks w)"

lemma webhook_exists_get: "webhook_exists event_id w \<longleftrightarrow> webhook_get event_id w \<noteq> None"
  by (auto simp: webhook_exists_def webhook_get_def find_None_iff list_ex_iff)

lemma webhook_get_save_event:
  "webhook_get k (save_event event_id st pl w) =
     (if k = event_id then Some \<lparr>hk_event_id = event_id, hk_status = st, hk_payload = pl\<rparr>
      else webhook_get k w)"
proof (cases "k = event_id")
  case True
  let ?found = "find (\<lambda>h. hk_event_id h = event_id) (w_hooks w)"
  let ?new = "\<lparr>hk_event_id = event_id, hk_status = st, hk_payload = pl\<rparr>"
  let ?upd = "\<lambda>h. h\<lparr>hk_status := st, hk_payload := pl\<rparr>"
  have "webhook_get k (save_event event_id st pl w) =
      Some (case ?found of None \<Rightarrow> ?new | Some h \<Rightarrow> ?upd h)"
    unfolding webhook_get_def save_event_def True by (simp add: find_upsert)
  moreover have "?upd h = ?new" if "?found = Some h" for h
    using find_Some_set [OF that] by (cases h) simp
  ultimately show ?thesis
    using True by (cases ?found) simp_all
next
  case False
  then show ?thesis
    by (simp add: webhook_get_def save_event_def find_upsert_other)
qed

interpretation hook_rows: keyed_store
  "\<lambda>(event_id, st, pl) w. Inr (save_event event_id st pl w) :: (pay_exn, pay_world) res" webhook_get
  "\<lambda>(event_id, st, pl). event_id"
  "\<lambda>(event_id, st, pl) w. \<lparr>hk_event_id = event_id, hk_status = st, hk_payload = pl\<rparr>" "\<lambda>w. True"
  by unfold_locales (auto simp: webhook_get_save_event)

end
