(* ===== verification/Payment_Handlers.thy ===== *)
theory Payment_Handlers
  imports Payment_Store
begin

text \<open>
  \<open>PaymentCommandHandlers\<close> (\<open>payments/application/handlers.py\<close>) over the state of the payment
  store: initiation, the webhook, expiry and refund requests, each with every guard and early
  return. A handler returns its outcome and the new state; an exception inside
  \<open>transaction.atomic\<close> undoes the block. The provider's answers, fresh identifiers and clock
  readings are arguments. After-commit work whose failure is swallowed (event dispatch, retry
  scheduling) has a flag that says whether it succeeded.
\<close>

section \<open>Initiation\<close>

record initiate_cmd =
  ic_user_id :: uuid
  ic_amount :: money
  ic_method :: "pay_method enum_arg"
  ic_idempotency_key :: string
  ic_redirect_base_url :: string
  ic_context_reference :: "string option"
  ic_metadata :: pyval
  ic_environment :: "pay_env enum_arg"

text \<open>What one initiation draws from its environment.\<close>

record initiate_env =
  ie_now :: instant
  ie_created_at :: instant
  ie_now2 :: instant
  ie_payment_id :: uuid
  ie_reference :: string
  ie_gateway :: "(string \<times> string) option"
  ie_db_id :: uuid
  ie_db_now :: instant
  ie_user_created :: "uuid \<Rightarrow> instant option"

record initiation_dto =
  dto_reference :: string
  dto_payment_link :: string
  dto_expires_at :: "instant option"

definition py_truthy :: "pyval \<Rightarrow> bool" where
  "py_truthy v =
     (case v of PyNone \<Rightarrow> False | PyBool b \<Rightarrow> b | PyInt i \<Rightarrow> i \<noteq> 0 | PyFloat r \<Rightarrow> r \<noteq> 0
      | PyStr s \<Rightarrow> s \<noteq> [] | PyList l \<Rightarrow> l \<noteq> [] | PyDict d \<Rightarrow> d \<noteq> [])"

definition new_payment :: "initiate_env \<Rightarrow> initiate_cmd \<Rightarrow> payment" where
  "new_payment e c =
     \<lparr>p_id = ie_payment_id e, p_user_id = ic_user_id c, p_amount = ic_amount c,
      p_method = ic_method c, p_reference = ie_reference e,
      p_idempotency_key = ic_idempotency_key c, p_environment = ic_environment c,
      p_status = INITIATED, p_provider_reference = None,
      p_context_reference = ic_context_reference c,
      p_metadata = (if py_truthy (ic_metadata c) then ic_metadata c else PyDict []),
      p_created_at = ie_created_at e, p_expires_at = None\<rparr>"

definition initiate_fraud_context :: "initiate_env \<Rightarrow> initiate_cmd \<Rightarrow> pay_world \<Rightarrow> fraud_context" where
  "initiate_fraud_context e c w =
     \<lparr>fc_duplicate_context_ref =
        find_duplicate_context_ref (ic_user_id c) (ic_context_reference c)
          (ie_now e - minutes 60) (w_payments w),
      fc_account_age_hours =
        vc_account_age_hours
          (get_velocity_context (ie_user_created e) (ic_user_id c) (ie_now e) (w_payments w)),
      fc_step_up_threshold_minor =
        (case map_of step_up_thresholds (cur_code (mon_currency (ic_amount c))) of
           None \<Rightarrow> 0 | Some t \<Rightarrow> t)\<rparr>"

text \<open>
  Steps 4 to 7: the entity, the policy, the provider's payment link, then the transaction that
  saves the payment and its audit event.
\<close>

definition initiate_checked ::
  "initiate_env \<Rightarrow> initiate_cmd \<Rightarrow> pay_world \<Rightarrow> (pay_exn, initiation_dto) res \<times> pay_world" where
  "initiate_checked e c w =
     (case payment_post_init (new_payment e c) of
        Inl x \<Rightarrow> (Inl x, w)
      | Inr p \<Rightarrow>
          (let pol = policy_apply p Act_INITIATE (ie_now2 e) in
           if \<not> pr_allowed pol
           then (Inl (PaymentNotAllowedError (case pr_reason pol of None \<Rightarrow> '''' | Some r \<Rightarrow> r)), w)
           else (case ie_gateway e of
                   None \<Rightarrow> (Inl ProviderGatewayError, w)
                 | Some (link, pref) \<Rightarrow>
                     (case transition_to PENDING (p\<lparr>p_provider_reference := Some pref\<rparr>) of
                        Inl x \<Rightarrow> (Inl x, w)
                      | Inr p' \<Rightarrow>
                          (case pay_save (ie_db_id e) (ie_db_now e) p' (w_payments w) of
                             Inl x \<Rightarrow> (Inl x, w)
                           | Inr rows \<Rightarrow>
                               (Inr \<lparr>dto_reference = p_reference p', dto_payment_link = link,
                                     dto_expires_at = p_expires_at p'\<rparr>,
                                audit_log
                                  \<lparr>ae_payment_id = Some (p_id p'), ae_action = ''INITIATE'',
                                   ae_actor = ActorUser (ic_user_id c),
                                   ae_details = [(''idempotency_key'', DStr (ic_idempotency_key c))]\<rparr>
                                  (w\<lparr>w_payments := rows\<rparr>)))))))"

text \<open>
  Steps 1 to 3. The unique-vendor flag is announced with \<open>event_dispatcher.dispatch(...)\<close>, whose
  argument is the literal \<open>Ellipsis\<close>: the dispatcher's validation finds none of the attributes
  it requires and raises \<open>ValueError\<close>.
\<close>

definition initiate_payment ::
  "initiate_env \<Rightarrow> initiate_cmd \<Rightarrow> pay_world \<Rightarrow> (pay_exn, initiation_dto) res \<times> pay_world" where
  "initiate_payment e c w =
     (case find_by_idempotency_key (ic_idempotency_key c) (w_payments w) of
        Some old \<Rightarrow>
          (Inr \<lparr>dto_reference = p_reference old,
                dto_payment_link = ic_redirect_base_url c @ ''/pay/'' @ p_reference old,
                dto_expires_at = p_expires_at old\<rparr>, w)
      | None \<Rightarrow>
          (let vel = velocity_apply
                 (get_velocity_context (ie_user_created e) (ic_user_id c) (ie_now e) (w_payments w)) in
           if \<not> vr_allowed vel
           then (Inl (VelocityLimitExceededError ''Transaction cannot be processed at this time.''),
                 audit_log \<lparr>ae_payment_id = None, ae_action = ''VELOCITY_BLOCK'',
                            ae_actor = ActorUser (ic_user_id c), ae_details = []\<rparr> w)
           else if vr_flag vel
           then (Inl (ValueErr ''Pending payment event is missing: event_id, payment_id, occurred_at.''), w)
           else if fr_flagged (fraud_apply (ic_amount c) (initiate_fraud_context e c w))
           then (Inl (FraudFlaggedError ''Payment is under review.''), w)
           else initiate_checked e c w))"

section \<open>The webhook\<close>

record verified_tx =
  vt_provider_reference :: string
  vt_status :: string
  vt_amount_minor_units :: int
  vt_currency_code :: string

datatype gateway_answer = GwRaises | GwNothing | GwVerified verified_tx

record hook_cmd =
  hc_event_id :: string
  hc_payload :: hook_payload
  hc_now :: instant

record hook_env =
  he_verify :: "string \<Rightarrow> gateway_answer"
  he_hmac :: "string \<Rightarrow> string"
  he_outbox_id :: uuid
  he_dispatched :: bool
  he_scheduled :: bool
  he_db_id :: uuid
  he_db_now :: instant

definition dispatch_after_commit :: "hook_env \<Rightarrow> pay_event \<Rightarrow> pay_world \<Rightarrow> pay_world" where
  "dispatch_after_commit e ev w =
     (if he_dispatched e then dispatch_event (he_outbox_id e) ev w else w)"

definition schedule_retry_after_commit :: "hook_env \<Rightarrow> string \<Rightarrow> int \<Rightarrow> pay_world \<Rightarrow> pay_world" where
  "schedule_retry_after_commit e ref delay w =
     (if he_scheduled e then schedule_webhook_retry ref delay w else w)"

definition extract_provider_reference :: "hook_payload \<Rightarrow> (pay_exn, string option) res" where
  "extract_provider_reference pl =
     (case pl of NoData \<Rightarrow> Inr None | DataObject r \<Rightarrow> Inr r | DataOther \<Rightarrow> Inl AttributeErr)"

definition hook_context :: "payment \<Rightarrow> verified_tx \<Rightarrow> provider_context" where
  "hook_context p v =
     \<lparr>cx_provider_verified = (vt_status v = ''successful''),
      cx_provider_reference = vt_provider_reference v,
      cx_provider_amount_minor = vt_amount_minor_units v,
      cx_provider_currency = vt_currency_code v,
      cx_environment = enum_str pay_env_value (p_environment p)\<rparr>"

definition hook_audit :: "payment \<Rightarrow> string \<Rightarrow> (string \<times> detail) list \<Rightarrow> pay_world \<Rightarrow> pay_world" where
  "hook_audit p act details w =
     audit_log \<lparr>ae_payment_id = Some (p_id p), ae_action = act, ae_actor = ActorWebhook,
                ae_details = details\<rparr> w"

text \<open>Stage 6, for a payment that was found: the three outcomes of the policy.\<close>

definition hook_apply_policy ::
  "hook_env \<Rightarrow> hook_cmd \<Rightarrow> string \<Rightarrow> payment \<Rightarrow> verified_tx \<Rightarrow> pay_world \<Rightarrow> (pay_exn, unit) res \<times> pay_world" where
  "hook_apply_policy e c ref p v w =
     (let pol = policy_apply p (Act_CONFIRM_SUCCESS (hook_context p v)) (hc_now c);
          w1 = save_event (hc_event_id c) HK_PROCESSING (hc_payload c) w in
      if pr_fraud_signal pol then
        (Inr (),
         dispatch_after_commit e
           (FraudSignalEvent (p_id p) ref (case pr_reason pol of None \<Rightarrow> '''' | Some r \<Rightarrow> r) (hc_now c))
           (save_event (hc_event_id c) HK_FRAUD_DETECTED (hc_payload c)
             (hook_audit p ''FRAUD_SIGNAL''
               [(''reason'', DStrOpt (pr_reason pol)), (''event_id'', DStr (hc_event_id c))] w1)))
      else if pr_allowed pol then
        (case transition_to SUCCESS p of
           Inl x \<Rightarrow> (Inl x, w)
         | Inr p' \<Rightarrow>
             (case pay_save (he_db_id e) (he_db_now e) p' (w_payments w1) of
                Inl x \<Rightarrow> (Inl x, w)
              | Inr rows \<Rightarrow>
                  (Inr (),
                   dispatch_after_commit e
                     (PaymentCompleted (p_id p') (p_user_id p') (minor_units (p_amount p'))
                        (cur_code (mon_currency (p_amount p'))) (hc_now c))
                     (save_event (hc_event_id c) HK_PROCESSED_SUCCESS (hc_payload c)
                       (hook_audit p' ''SUCCESS'' [(''event_id'', DStr (hc_event_id c))]
                         (w1\<lparr>w_payments := rows\<rparr>))))))
      else
        (Inr (),
         save_event (hc_event_id c) HK_REJECTED_POLICY (hc_payload c)
           (hook_audit p ''WEBHOOK_REJECTED''
             [(''reason'', DStrOpt (pr_reason pol)), (''event_id'', DStr (hc_event_id c))] w1)))"

text \<open>Stages 4 and 5, with the lock held.\<close>

definition hook_verify_failed :: "hook_env \<Rightarrow> hook_cmd \<Rightarrow> string \<Rightarrow> pay_world \<Rightarrow> pay_world" where
  "hook_verify_failed e c ref w =
     schedule_retry_after_commit e ref 30
       (save_event (hc_event_id c) HK_VERIFY_FAILED_RETRY (hc_payload c) w)"

definition hook_locked ::
  "hook_env \<Rightarrow> hook_cmd \<Rightarrow> string \<Rightarrow> pay_world \<Rightarrow> (pay_exn, unit) res \<times> pay_world" where
  "hook_locked e c ref w =
     (case he_verify e ref of
        GwRaises \<Rightarrow> (Inr (), hook_verify_failed e c ref w)
      | GwNothing \<Rightarrow> (Inr (), hook_verify_failed e c ref w)
      | GwVerified v \<Rightarrow>
          (case find_by_provider_reference (he_hmac e) ref (w_payments w) of
             Inl x \<Rightarrow> (Inl x, w)
           | Inr None \<Rightarrow>
               (Inr (),
                save_event (hc_event_id c) HK_REJECTED_UNKNOWN (hc_payload c)
                  (audit_log
                    \<lparr>ae_payment_id = None, ae_action = ''UNKNOWN_PAYMENT'', ae_actor = ActorWebhook,
                     ae_details = [(''provider_reference'', DStr ref), (''event_id'', DStr (hc_event_id c))]\<rparr>
                    w))
           | Inr (Some p) \<Rightarrow> hook_apply_policy e c ref p v w))"

definition process_webhook ::
  "bool \<Rightarrow> hook_env \<Rightarrow> hook_cmd \<Rightarrow> pay_world \<Rightarrow> (pay_exn, unit) res \<times> pay_world" where
  "process_webhook allow_existing_event e c w =
     (if \<not> allow_existing_event \<and> webhook_exists (hc_event_id c) w then (Inr (), w)
      else (case extract_provider_reference (hc_payload c) of
              Inl x \<Rightarrow> (Inl x, w)
            | Inr ref_opt \<Rightarrow>
                (let ref = (case ref_opt of None \<Rightarrow> '''' | Some r \<Rightarrow> r) in
                 if ref = ''''
                 then (Inr (), save_event (hc_event_id c) HK_REJECTED_MISSING_REF (hc_payload c) w)
                 else (case acquire_lock ref w of
                         (False, w1) \<Rightarrow>
                           (Inr (), schedule_retry_after_commit e ref 30
                              (save_event (hc_event_id c) HK_LOCK_FAILED_RETRY (hc_payload c) w1))
                       | (True, w1) \<Rightarrow>
                           (case hook_locked e c ref w1 of
                              (r, w2) \<Rightarrow> (r, release_lock ref w2))))))"

section \<open>Expiry and refund requests\<close>

record expire_env =
  xe_dispatched :: bool
  xe_db_id :: uuid
  xe_db_now :: instant

text \<open>One round of the loop; the outbox id is drawn per event.\<close>

definition expire_one ::
  "expire_env \<Rightarrow> uuid \<Rightarrow> instant \<Rightarrow> payment \<Rightarrow> pay_world \<Rightarrow> (pay_exn, bool) res \<times> pay_world" where
  "expire_one e eid now p w =
     (if \<not> pr_allowed (policy_apply p Act_EXPIRE now) then (Inr False, w)
      else (case transition_to EXPIRED p of
              Inl x \<Rightarrow> (Inl x, w)
            | Inr p' \<Rightarrow>
                (case pay_save (xe_db_id e) (xe_db_now e) p' (w_payments w) of
                   Inl x \<Rightarrow> (Inl x, w)
                 | Inr rows \<Rightarrow>
                     (case p_expires_at p' of
                        None \<Rightarrow> (Inl AttributeErr, w)
                      | Some t \<Rightarrow>
                          (let w1 = audit_log
                                 \<lparr>ae_payment_id = Some (p_id p'), ae_action = ''EXPIRE'',
                                  ae_actor = ActorSystem, ae_details = [(''expires_at'', DTime (Some t))]\<rparr>
                                 (w\<lparr>w_payments := rows\<rparr>)
                           in (Inr True,
                               if xe_dispatched e
                               then dispatch_event eid (PaymentExpired (p_id p') now) w1 else w1))))))"

fun expire_loop ::
  "expire_env \<Rightarrow> (uuid \<times> payment) list \<Rightarrow> instant \<Rightarrow> int \<Rightarrow> pay_world \<Rightarrow> (pay_exn, int) res \<times> pay_world" where
  "expire_loop e [] now count w = (Inr count, w)"
| "expire_loop e ((eid, p) # ps) now count w =
     (case expire_one e eid now p w of
        (Inl x, w') \<Rightarrow> (Inl x, w')
      | (Inr done, w') \<Rightarrow> expire_loop e ps now (if done then count + 1 else count) w')"

definition expire_stale_payments ::
  "expire_env \<Rightarrow> (nat \<Rightarrow> uuid) \<Rightarrow> instant \<Rightarrow> pay_world \<Rightarrow> (pay_exn, int) res \<times> pay_world" where
  "expire_stale_payments e eids now w =
     (let ps = find_expired_pending now (w_payments w)
      in expire_loop e (zip (map eids [0..<length ps]) ps) now 0 w)"

record refund_cmd =
  rc_payment_reference :: string
  rc_requested_by :: uuid
  rc_reason :: "string option"
  rc_now :: instant

definition request_refund ::
  "uuid \<Rightarrow> instant \<Rightarrow> refund_cmd \<Rightarrow> pay_world \<Rightarrow> (pay_exn, unit) res \<times> pay_world" where
  "request_refund db_id db_now c w =
     (case find_by_reference (rc_payment_reference c) (w_payments w) of
        None \<Rightarrow> (Inl (PaymentNotFoundError (rc_payment_reference c)), w)
      | Some p \<Rightarrow>
          (if p_status p \<noteq> SUCCESS
           then (Inl (PaymentNotAllowedError ''Refund only allowed for successful payments''), w)
           else if (rc_now c - p_created_at p) div days 1 > 30
           then (Inl (PaymentNotAllowedError ''Refund window expired''), w)
           else (case transition_to REFUND_REQUESTED p of
                   Inl x \<Rightarrow> (Inl x, w)
                 | Inr p' \<Rightarrow>
                     (case pay_save db_id db_now p' (w_payments w) of
                        Inl x \<Rightarrow> (Inl x, w)
                      | Inr rows \<Rightarrow>
                          (Inr (), audit_log
                             \<lparr>ae_payment_id = Some (p_id p'), ae_action = ''REFUND_REQUESTED'',
                              ae_actor = ActorUser (rc_requested_by c), ae_details = [(''reason'', DStrOpt (rc_reason c))]\<rparr>
                             (w\<lparr>w_payments := rows\<rparr>))))))"

section \<open>Queries\<close>

record status_dto =
  sd_reference :: string
  sd_status :: string
  sd_amount :: rat
  sd_minor_units :: int
  sd_currency :: string
  sd_method :: string
  sd_created_at :: instant
  sd_expires_at :: "instant option"
  sd_provider_reference :: "string option"

definition get_payment_status ::
  "string \<Rightarrow> uuid option \<Rightarrow> bool \<Rightarrow> pay_world \<Rightarrow> (pay_exn, status_dto) res" where
  "get_payment_status ref user_id allow_global_lookup w =
     (case find_by_reference ref (w_payments w) of
        None \<Rightarrow> Inl (PaymentNotFoundError ref)
      | Some p \<Rightarrow>
          (if user_id \<noteq> None \<and> \<not> allow_global_lookup \<and> Some (p_user_id p) \<noteq> user_id
           then Inl (PaymentNotFoundError ref)
           else res_bind (enum_attr_value pay_method_value (p_method p)) (\<lambda>m.
             Inr \<lparr>sd_reference = p_reference p, sd_status = pay_status_value (p_status p),
                  sd_amount = money_to_decimal (p_amount p),
                  sd_minor_units = minor_units (p_amount p),
                  sd_currency = cur_code (mon_currency (p_amount p)),
                  sd_method = m, sd_created_at = p_created_at p,
                  sd_expires_at = p_expires_at p,
                  sd_provider_reference = p_provider_reference p\<rparr>)))"

end
