(* ===== verification/Payment_Safety.thy ===== *)
theory Payment_Safety
  imports Payment_Handlers
begin

text \<open>
  What holds of the payment system over any history of handler calls: payments never vanish,
  their amount and owner never change, their status moves along the transition table, the audit
  log and the outbox are append-only, and a payment is announced as completed at most once.
\<close>

section \<open>The system\<close>

text \<open>
  Besides the handlers, the environment may reset a retry counter (the retry task, or its expiry
  in Redis) and other processes may take or lose a lock. The 48-bit reference of a new payment
  is drawn fresh: a draw that hits an existing reference is not an operation of the system
  (\<open>save\<close> would overwrite the payment that has it).
\<close>

datatype pay_op =
    Initiate initiate_env initiate_cmd
  | Webhook bool hook_env hook_cmd
  | ExpireStale expire_env "nat \<Rightarrow> uuid" instant
  | RequestRefund uuid instant refund_cmd
  | ResetRetry string
  | OtherLock string
  | OtherUnlock string

fun pay_step :: "pay_op \<Rightarrow> pay_world \<Rightarrow> pay_world" where
  "pay_step (Initiate e c) w =
     (if find_by_reference (ie_reference e) (w_payments w) = None
      then snd (initiate_payment e c w) else w)"
| "pay_step (Webhook allow e c) w = snd (process_webhook allow e c w)"
| "pay_step (ExpireStale e eids now) w = snd (expire_stale_payments e eids now w)"
| "pay_step (RequestRefund i t c) w = snd (request_refund i t c w)"
| "pay_step (ResetRetry ref) w = reset_webhook_retry ref w"
| "pay_step (OtherLock ref) w = snd (acquire_lock ref w)"
| "pay_step (OtherUnlock ref) w = release_lock ref w"

definition empty_world :: pay_world where
  "empty_world = \<lparr>w_payments = [], w_hooks = [], w_audit = [], w_outbox = [],
     w_retry_count = (\<lambda>_. 0), w_retry_tasks = [], w_locks = []\<rparr>"

section \<open>What the small operations leave alone\<close>

lemma save_event_frame [simp]:
  "w_payments (save_event i s pl w) = w_payments w" "w_audit (save_event i s pl w) = w_audit w"
  "w_outbox (save_event i s pl w) = w_outbox w" "w_locks (save_event i s pl w) = w_locks w"
  "w_retry_count (save_event i s pl w) = w_retry_count w"
  "w_retry_tasks (save_event i s pl w) = w_retry_tasks w"
  by (simp_all add: save_event_def)

lemma audit_log_frame [simp]:
  "w_payments (audit_log a w) = w_payments w" "w_hooks (audit_log a w) = w_hooks w"
  "w_outbox (audit_log a w) = w_outbox w" "w_locks (audit_log a w) = w_locks w"
  "w_retry_count (audit_log a w) = w_retry_count w" "w_retry_tasks (audit_log a w) = w_retry_tasks w"
  by (simp_all add: audit_log_def Let_def)

lemma dispatch_event_frame [simp]:
  "w_payments (dispatch_event i e w) = w_payments w" "w_hooks (dispatch_event i e w) = w_hooks w"
  "w_audit (dispatch_event i e w) = w_audit w" "w_locks (dispatch_event i e w) = w_locks w"
  "w_retry_count (dispatch_event i e w) = w_retry_count w"
  "w_retry_tasks (dispatch_event i e w) = w_retry_tasks w"
  by (simp_all add: dispatch_event_def)

lemma dispatch_after_commit_frame [simp]:
  "w_payments (dispatch_after_commit e ev w) = w_payments w"
  "w_hooks (dispatch_after_commit e ev w) = w_hooks w"
  "w_audit (dispatch_after_commit e ev w) = w_audit w"
  "w_locks (dispatch_after_commit e ev w) = w_locks w"
  "w_retry_count (dispatch_after_commit e ev w) = w_retry_count w"
  "w_retry_tasks (dispatch_after_commit e ev w) = w_retry_tasks w"
  by (simp_all add: dispatch_after_commit_def)

lemma schedule_frame [simp]:
  "w_payments (schedule_retry_after_commit e r d w) = w_payments w"
  "w_hooks (schedule_retry_after_commit e r d w) = w_hooks w"
  "w_audit (schedule_retry_after_commit e r d w) = w_audit w"
  "w_outbox (schedule_retry_after_commit e r d w) = w_outbox w"
  "w_locks (schedule_retry_after_commit e r d w) = w_locks w"
  by (simp_all add: schedule_retry_after_commit_def schedule_webhook_retry_def Let_def)

lemma release_lock_frame [simp]:
  "w_payments (release_lock r w) = w_payments w" "w_hooks (release_lock r w) = w_hooks w"
  "w_audit (release_lock r w) = w_audit w" "w_outbox (release_lock r w) = w_outbox w"
  "w_retry_count (release_lock r w) = w_retry_count w"
  "w_retry_tasks (release_lock r w) = w_retry_tasks w"
  by (simp_all add: release_lock_def)

lemma reset_frame [simp]:
  "w_payments (reset_webhook_retry r w) = w_payments w" "w_audit (reset_webhook_retry r w) = w_audit w"
  "w_outbox (reset_webhook_retry r w) = w_outbox w"
  by (simp_all add: reset_webhook_retry_def)

lemma hook_audit_frame [simp]:
  "w_payments (hook_audit p a d w) = w_payments w" "w_hooks (hook_audit p a d w) = w_hooks w"
  "w_outbox (hook_audit p a d w) = w_outbox w" "w_locks (hook_audit p a d w) = w_locks w"
  "w_retry_count (hook_audit p a d w) = w_retry_count w"
  "w_retry_tasks (hook_audit p a d w) = w_retry_tasks w"
  by (simp_all add: hook_audit_def)

lemma webhook_get_frame [simp]:
  "webhook_get k (dispatch_after_commit e ev w) = webhook_get k w"
  "webhook_get k (schedule_retry_after_commit e r d w) = webhook_get k w"
  "webhook_get k (release_lock r w) = webhook_get k w"
  by (simp_all add: webhook_get_def)

lemma audit_log_prefix [simp]: "prefix (w_audit w) (w_audit (audit_log a w))"
  by (simp add: audit_log_def Let_def)

lemma hook_audit_prefix [simp]: "prefix (w_audit w) (w_audit (hook_audit p a d w))"
  by (simp add: hook_audit_def)

lemma dispatch_event_prefix [simp]: "prefix (w_outbox w) (w_outbox (dispatch_event i e w))"
  by (simp add: dispatch_event_def)

lemma dispatch_after_commit_prefix [simp]:
  "prefix (w_outbox w) (w_outbox (dispatch_after_commit e ev w))"
  by (simp add: dispatch_after_commit_def)

section \<open>The invariant\<close>

definition row_ok :: "payment \<Rightarrow> bool" where
  "row_ok p \<longleftrightarrow>
     (case p_method p of Member _ \<Rightarrow> True | Raw _ \<Rightarrow> False) \<and>
     (case p_environment p of Member _ \<Rightarrow> True | Raw _ \<Rightarrow> False) \<and> p_expires_at p \<noteq> None"

definition paid_status :: "pay_status \<Rightarrow> bool" where
  "paid_status s = (s \<in> {SUCCESS, REFUND_REQUESTED, REFUNDED})"

definition completes :: "uuid \<Rightarrow> outbox_row \<Rightarrow> bool" where
  "completes pid o' =
     (case ob_event o' of PaymentCompleted i _ _ _ _ \<Rightarrow> i = pid | _ \<Rightarrow> False)"

definition completions :: "uuid \<Rightarrow> pay_world \<Rightarrow> nat" where
  "completions pid w = length (filter (completes pid) (w_outbox w))"

definition is_paid :: "uuid \<Rightarrow> payment list \<Rightarrow> bool" where
  "is_paid pid rows = list_ex (\<lambda>r. p_id r = pid \<and> paid_status (p_status r)) rows"

definition world_ok :: "pay_world \<Rightarrow> bool" where
  "world_ok w \<longleftrightarrow> rows_ok (w_payments w) \<and> list_all row_ok (w_payments w) \<and>
     (\<forall>pid. completions pid w \<le> of_bool (is_paid pid (w_payments w)))"

text \<open>How a later world relates to an earlier one.\<close>

definition row_le :: "payment \<Rightarrow> payment \<Rightarrow> bool" where
  "row_le p q \<longleftrightarrow> q = p\<lparr>p_status := p_status q\<rparr> \<and> later_status (p_status p) (p_status q)"

definition rows_le :: "payment list \<Rightarrow> payment list \<Rightarrow> bool" where
  "rows_le rows rows' \<longleftrightarrow> (\<forall>ref p. find_by_reference ref rows = Some p \<longrightarrow>
     (\<exists>q. find_by_reference ref rows' = Some q \<and> row_le p q))"

definition pay_le :: "pay_world \<Rightarrow> pay_world \<Rightarrow> bool" where
  "pay_le w w' \<longleftrightarrow> rows_le (w_payments w) (w_payments w') \<and>
     prefix (w_audit w) (w_audit w') \<and> prefix (w_outbox w) (w_outbox w')"

lemma row_le_refl [simp]: "row_le p p"
  by (simp add: row_le_def later_status.ls_refl)

lemma row_le_trans:
  assumes "row_le p q" and "row_le q r"
  shows "row_le p r"
proof -
  from assms have "q = p\<lparr>p_status := p_status q\<rparr>" "r = q\<lparr>p_status := p_status r\<rparr>"
    and later: "later_status (p_status p) (p_status q)" "later_status (p_status q) (p_status r)"
    by (simp_all add: row_le_def)
  then have "r = p\<lparr>p_status := p_status r\<rparr>" by (cases p, cases q, cases r) simp
  with later show ?thesis by (auto simp: row_le_def intro: later_status_trans)
qed

lemma row_le_fields:
  assumes "row_le p q"
  shows "p_id q = p_id p" "p_user_id q = p_user_id p" "p_amount q = p_amount p"
    "p_reference q = p_reference p" "p_idempotency_key q = p_idempotency_key p"
    "p_expires_at q = p_expires_at p" "p_provider_reference q = p_provider_reference p"
    "p_created_at q = p_created_at p" "later_status (p_status p) (p_status q)"
  using assms by (cases p, cases q, simp add: row_le_def)+

lemma rows_le_refl [simp]: "rows_le rows rows"
  by (simp add: rows_le_def)

lemma rows_le_trans: "rows_le a b \<Longrightarrow> rows_le b c \<Longrightarrow> rows_le a c"
  unfolding rows_le_def by (meson row_le_trans)

lemma pay_le_refl [simp]: "pay_le w w"
  by (simp add: pay_le_def)

lemma pay_le_trans: "pay_le a b \<Longrightarrow> pay_le b c \<Longrightarrow> pay_le a c"
  unfolding pay_le_def by (meson rows_le_trans prefix_order.order_trans)

section \<open>Changing the status of one row\<close>

text \<open>The handlers save a copy of a stored row in which only the status differs.\<close>

lemma status_save:
  assumes ok: "rows_ok rows" and p: "p \<in> set rows"
    and sv: "pay_save i t (p\<lparr>p_status := s\<rparr>) rows = Inr rows'"
  shows "set rows' = insert (p\<lparr>p_status := s\<rparr>) {r \<in> set rows. p_reference r \<noteq> p_reference p}"
    and "find_by_reference ref rows' =
      (if ref = p_reference p then Some (p\<lparr>p_status := s\<rparr>) else find_by_reference ref rows)"
proof -
  have "saved_row i t (p\<lparr>p_status := s\<rparr>) rows = p\<lparr>p_status := s\<rparr>"
    using saved_row_existing [OF ok p, of "p\<lparr>p_status := s\<rparr>"] by simp
  then show "set rows' = insert (p\<lparr>p_status := s\<rparr>) {r \<in> set rows. p_reference r \<noteq> p_reference p}"
    and "find_by_reference ref rows' =
      (if ref = p_reference p then Some (p\<lparr>p_status := s\<rparr>) else find_by_reference ref rows)"
    using pay_save_set [OF ok sv] pay_save_lookup [OF sv] by simp_all
qed

lemma status_save_rows_le:
  assumes ok: "rows_ok rows" and p: "p \<in> set rows"
    and s: "s \<in> set (allowed_transitions (p_status p))"
    and sv: "pay_save i t (p\<lparr>p_status := s\<rparr>) rows = Inr rows'"
  shows "rows_le rows rows'"
  unfolding rows_le_def
proof (intro allI impI)
  fix ref q
  assume q: "find_by_reference ref rows = Some q"
  show "\<exists>q'. find_by_reference ref rows' = Some q' \<and> row_le q q'"
  proof (cases "ref = p_reference p")
    case True
    with q find_by_reference_in [OF ok p] have "q = p" by simp
    with s have "row_le q (p\<lparr>p_status := s\<rparr>)"
      by (auto simp: row_le_def intro: later_status_one)
    with True show ?thesis by (simp add: status_save(2) [OF ok p sv])
  next
    case False
    with q show ?thesis by (auto simp: status_save(2) [OF ok p sv])
  qed
qed

lemma status_save_is_paid:
  assumes ok: "rows_ok rows" and p: "p \<in> set rows"
    and sv: "pay_save i t (p\<lparr>p_status := s\<rparr>) rows = Inr rows'"
  shows "is_paid pid rows' \<longleftrightarrow> (if pid = p_id p then paid_status s else is_paid pid rows)"
proof -
  have "(p_id q = p_id p) = (q = p)" "(p_reference q = p_reference p) = (q = p)" if "q \<in> set rows" for q
    using rows_ok_same_id [OF ok that p] rows_ok_same_ref [OF ok that p] by auto
  with p show ?thesis
    unfolding is_paid_def list_ex_iff status_save(1) [OF ok p sv] by auto
qed

lemma is_paid_stored: "rows_ok rows \<Longrightarrow> p \<in> set rows \<Longrightarrow> is_paid (p_id p) rows \<longleftrightarrow> paid_status (p_status p)"
  unfolding is_paid_def list_ex_iff by (metis rows_ok_same_id)

lemma status_save_rows_inv:
  assumes "rows_ok rows" and "list_all row_ok rows" and "p \<in> set rows"
    and "pay_save i t (p\<lparr>p_status := s\<rparr>) rows = Inr rows'"
  shows "rows_ok rows' \<and> list_all row_ok rows'"
  using assms pay_save_rows_ok status_save(1) [OF assms(1,3,4)]
  by (auto simp: list_all_iff row_ok_def)

text \<open>The save itself never fails on a stored row.\<close>

lemma status_save_succeeds:
  assumes "rows_ok rows" and "list_all row_ok rows" and "p \<in> set rows"
  shows "\<exists>rows'. pay_save i t (p\<lparr>p_status := s\<rparr>) rows = Inr rows'"
proof -
  from assms have "row_ok p" by (simp add: list_all_iff)
  then obtain m e where "p_method p = Member m" "p_environment p = Member e"
    by (auto simp: row_ok_def split: enum_arg.splits)
  with pay_save_existing [OF assms(1,3), of "p\<lparr>p_status := s\<rparr>" m e i t] show ?thesis
    by simp
qed

section \<open>Each handler keeps the invariant and moves forward\<close>

definition good_move :: "pay_world \<Rightarrow> pay_world \<Rightarrow> bool" where
  "good_move w w' \<longleftrightarrow> world_ok w' \<and> pay_le w w'"

definition completing :: "uuid \<Rightarrow> pay_event \<Rightarrow> bool" where
  "completing pid ev = (case ev of PaymentCompleted i _ _ _ _ \<Rightarrow> i = pid | _ \<Rightarrow> False)"

lemma completing_simps [simp]:
  "completing pid (PaymentCompleted i u a c t) = (i = pid)"
  "\<not> completing pid (PaymentExpired i t)" "\<not> completing pid (FraudSignalEvent i r s t)"
  by (simp_all add: completing_def)

lemma completions_outbox: "w_outbox w' = w_outbox w \<Longrightarrow> completions pid w' = completions pid w"
  by (simp add: completions_def)

lemma completions_frames [simp]:
  "completions pid (save_event i s pl w) = completions pid w"
  "completions pid (audit_log a w) = completions pid w"
  "completions pid (hook_audit p act d w) = completions pid w"
  "completions pid (w\<lparr>w_payments := rows\<rparr>) = completions pid w"
  "completions pid (schedule_retry_after_commit e r dl w) = completions pid w"
  "completions pid (release_lock r w) = completions pid w"
  by (simp_all add: completions_def)

lemma completions_dispatch:
  "completions pid (dispatch_event i ev w) \<le> completions pid w + of_bool (completing pid ev)"
  by (auto simp: completions_def dispatch_event_def completes_def completing_def)

lemma completions_after_commit:
  "completions pid (dispatch_after_commit e ev w) \<le> completions pid w + of_bool (completing pid ev)"
  using completions_dispatch [of pid "he_outbox_id e" ev w] by (simp add: dispatch_after_commit_def)

lemma good_move_refl: "world_ok w \<Longrightarrow> good_move w w"
  by (simp add: good_move_def)

lemma good_move_trans: "good_move a b \<Longrightarrow> good_move b c \<Longrightarrow> good_move a c"
  unfolding good_move_def by (blast intro: pay_le_trans)

text \<open>A step that leaves the payments alone and announces no completion.\<close>

lemma good_move_same_payments:
  assumes "world_ok w" and "w_payments w' = w_payments w" and "prefix (w_audit w) (w_audit w')"
    and "prefix (w_outbox w) (w_outbox w')" and "\<And>pid. completions pid w' \<le> completions pid w"
  shows "good_move w w'"
proof -
  have "completions pid w' \<le> of_bool (is_paid pid (w_payments w))" for pid
  proof -
    have "completions pid w \<le> of_bool (is_paid pid (w_payments w))"
      using assms(1) by (simp add: world_ok_def)
    with assms(5) show ?thesis by (rule order_trans)
  qed
  with assms(1-4) show ?thesis
    by (simp add: good_move_def world_ok_def pay_le_def)
qed

lemma good_move_frame:
  assumes "world_ok w" and "w_payments w' = w_payments w" and "prefix (w_audit w) (w_audit w')"
    and "w_outbox w' = w_outbox w"
  shows "good_move w w'"
  using assms completions_outbox [OF assms(4)] by (intro good_move_same_payments) simp_all

text \<open>A step that saves one row with a new status.\<close>

lemma good_move_status:
  assumes w: "world_ok w" and p: "p \<in> set (w_payments w)"
    and s: "s \<in> set (allowed_transitions (p_status p))"
    and sv: "pay_save i t (p\<lparr>p_status := s\<rparr>) (w_payments w) = Inr (w_payments w')"
    and audit: "prefix (w_audit w) (w_audit w')" and outbox: "prefix (w_outbox w) (w_outbox w')"
    and paid: "paid_status (p_status p) \<Longrightarrow> paid_status s"
    and compl: "\<And>pid. completions pid w' \<le> completions pid w +
      of_bool (pid = p_id p \<and> paid_status s \<and> \<not> paid_status (p_status p))"
  shows "good_move w w'"
proof -
  have ok: "rows_ok (w_payments w)" and rows: "list_all row_ok (w_payments w)"
    and bound: "\<And>pid. completions pid w \<le> of_bool (is_paid pid (w_payments w))"
    using w by (auto simp: world_ok_def)
  have "completions pid w' \<le> of_bool (is_paid pid (w_payments w'))" for pid
    using bound [of pid] compl [of pid] paid is_paid_stored [OF ok p]
    unfolding status_save_is_paid [OF ok p sv] by (auto split: if_splits)
  then have "world_ok w'"
    using status_save_rows_inv [OF ok rows p sv] by (simp add: world_ok_def)
  moreover have "pay_le w w'"
    using status_save_rows_le [OF ok p s sv] audit outbox by (simp add: pay_le_def)
  ultimately show ?thesis by (simp add: good_move_def)
qed

subsection \<open>Initiation\<close>

lemma payment_post_init_Inr:
  assumes "payment_post_init p = Inr q"
  shows "q = p\<lparr>p_expires_at := p_expires_at q\<rparr>" and "p_expires_at q \<noteq> None"
  using assms by (auto simp: payment_post_init_def Let_def res_simps split: if_splits)

lemma good_move_create:
  assumes w: "world_ok w" and new: "find_by_reference (p_reference p) (w_payments w) = None"
    and sv: "pay_save i t p (w_payments w) = Inr (w_payments w')"
    and st: "\<not> paid_status (p_status p)" and ex: "p_expires_at p \<noteq> None"
    and audit: "prefix (w_audit w) (w_audit w')" and outbox: "w_outbox w' = w_outbox w"
  shows "good_move w w'"
proof -
  have rows': "w_payments w' = w_payments w @ [p\<lparr>p_id := i, p_created_at := t\<rparr>]"
    using sv new by (cases rule: pay_save_cases) auto
  have "row_ok (p\<lparr>p_id := i, p_created_at := t\<rparr>)"
    using pay_save_members [OF sv] ex by (auto simp: row_ok_def)
  moreover have "is_paid pid (w_payments w') = is_paid pid (w_payments w)" for pid
    using st by (simp add: rows' is_paid_def)
  ultimately have "world_ok w'"
    using w pay_save_rows_ok [OF _ sv]
    by (auto simp: world_ok_def rows' completions_outbox [OF outbox])
  moreover have "rows_le (w_payments w) (w_payments w')"
    by (auto simp: rows_le_def rows' find_by_reference_def find_append)
  ultimately show ?thesis
    using audit outbox by (simp add: good_move_def pay_le_def)
qed

lemma initiate_checked_good_move:
  assumes w: "world_ok w" and new: "find_by_reference (ie_reference e) (w_payments w) = None"
  shows "good_move w (snd (initiate_checked e c w))"
proof (cases "payment_post_init (new_payment e c)")
  case (Inr p)
  note p = payment_post_init_Inr [OF Inr]
  have ref: "p_reference p = ie_reference e"
    by (subst p(1)) (simp add: new_payment_def)
  show ?thesis
  proof (cases "pr_allowed (policy_apply p Act_INITIATE (ie_now2 e)) \<and>
      (\<exists>link pref rows. ie_gateway e = Some (link, pref) \<and>
        PENDING \<in> set (allowed_transitions (p_status p)) \<and>
        pay_save (ie_db_id e) (ie_db_now e) (p\<lparr>p_provider_reference := Some pref, p_status := PENDING\<rparr>)
          (w_payments w) = Inr rows)")
    case False
    then have "snd (initiate_checked e c w) = w"
      by (auto simp: initiate_checked_def Inr Let_def transition_to_def split: option.splits sum.splits)
    with w show ?thesis by (simp add: good_move_refl)
  next
    case True
    then obtain link pref rows where g: "ie_gateway e = Some (link, pref)"
      and tr: "PENDING \<in> set (allowed_transitions (p_status p))"
      and sv: "pay_save (ie_db_id e) (ie_db_now e)
        (p\<lparr>p_provider_reference := Some pref, p_status := PENDING\<rparr>) (w_payments w) = Inr rows"
      and al: "pr_allowed (policy_apply p Act_INITIATE (ie_now2 e))"
      by blast
    define w' where "w' = snd (initiate_checked e c w)"
    have "w_payments w' = rows" "w_outbox w' = w_outbox w" "prefix (w_audit w) (w_audit w')"
      using g tr sv al by (auto simp: w'_def initiate_checked_def Inr Let_def transition_to_def audit_log_def)
    with w new ref p(2) sv show ?thesis
      unfolding w'_def [symmetric]
      by (intro good_move_create [of w "p\<lparr>p_provider_reference := Some pref, p_status := PENDING\<rparr>"])
        (simp_all add: paid_status_def)
  qed
qed (use w in \<open>simp add: initiate_checked_def good_move_refl\<close>)

lemma initiate_good_move:
  assumes w: "world_ok w" and new: "find_by_reference (ie_reference e) (w_payments w) = None"
  shows "good_move w (snd (initiate_payment e c w))"
  using initiate_checked_good_move [OF assms, of c] w
  by (auto simp: initiate_payment_def Let_def good_move_refl good_move_frame split: option.splits)

subsection \<open>The webhook\<close>

lemma find_by_provider_reference_Some:
  assumes "find_by_provider_reference hm ref rows = Inr (Some p)"
  shows "p \<in> set rows"
proof -
  obtain P where "find_by_provider_reference hm ref rows = Inr (Some p) \<Longrightarrow> filter P rows = [p]"
    by (atomize_elim, rule exI [of _ "\<lambda>r. case p_provider_reference r of None \<Rightarrow> False
          | Some pr \<Rightarrow> pr \<noteq> '''' \<and> hm pr = hm ref"])
       (auto simp: find_by_provider_reference_def split: list.splits if_splits)
  with assms have "filter P rows = [p]" by simp
  then have "p \<in> set (filter P rows)" by simp
  then show ?thesis by simp
qed

lemma hook_apply_policy_good_move:
  assumes w: "world_ok w" and p: "p \<in> set (w_payments w)"
  shows "good_move w (snd (hook_apply_policy e c ref p v w))"
proof -
  define pol where "pol = policy_apply p (Act_CONFIRM_SUCCESS (hook_context p v)) (hc_now c)"
  define w1 where "w1 = save_event (hc_event_id c) HK_PROCESSING (hc_payload c) w"
  consider (fraud) "pr_fraud_signal pol" | (allow) "\<not> pr_fraud_signal pol" "pr_allowed pol"
    | (reject) "\<not> pr_fraud_signal pol" "\<not> pr_allowed pol" by blast
  then show ?thesis
  proof cases
    case fraud
    define w2 where "w2 = save_event (hc_event_id c) HK_FRAUD_DETECTED (hc_payload c)
      (hook_audit p ''FRAUD_SIGNAL''
        [(''reason'', DStrOpt (pr_reason pol)), (''event_id'', DStr (hc_event_id c))] w1)"
    define ev where "ev = FraudSignalEvent (p_id p) ref
      (case pr_reason pol of None \<Rightarrow> '''' | Some r \<Rightarrow> r) (hc_now c)"
    have res: "snd (hook_apply_policy e c ref p v w) = dispatch_after_commit e ev w2"
      using fraud by (simp add: hook_apply_policy_def Let_def pol_def w1_def w2_def ev_def)
    have "completions pid (dispatch_after_commit e ev w2) \<le> completions pid w" for pid
      using completions_after_commit [of pid e ev w2] by (simp add: ev_def w2_def w1_def)
    moreover have "prefix (w_audit w) (w_audit w2)" "w_payments w2 = w_payments w"
      "w_outbox w2 = w_outbox w"
      using hook_audit_prefix [of w1] by (simp_all add: w2_def w1_def)
    ultimately show ?thesis
      unfolding res using w dispatch_after_commit_prefix [of w2 e ev]
      by (intro good_move_same_payments) simp_all
  next
    case reject
    with w show ?thesis
      using hook_audit_prefix [of w1]
      by (intro good_move_frame) (simp_all add: hook_apply_policy_def Let_def pol_def w1_def)
  next
    case allow
    then have pend: "p_status p = PENDING"
      by (simp add: pol_def policy_apply_def confirm_allowed_iff confirm_reasons_Nil)
    obtain rows where sv: "pay_save (he_db_id e) (he_db_now e) (p\<lparr>p_status := SUCCESS\<rparr>) (w_payments w) = Inr rows"
      using w p status_save_succeeds unfolding world_ok_def by blast
    define w' where "w' = snd (hook_apply_policy e c ref p v w)"
    have w': "w' = dispatch_after_commit e
        (PaymentCompleted (p_id p) (p_user_id p) (minor_units (p_amount p))
           (cur_code (mon_currency (p_amount p))) (hc_now c))
        (save_event (hc_event_id c) HK_PROCESSED_SUCCESS (hc_payload c)
          (hook_audit (p\<lparr>p_status := SUCCESS\<rparr>) ''SUCCESS'' [(''event_id'', DStr (hc_event_id c))]
            (w1\<lparr>w_payments := rows\<rparr>)))"
      using allow sv pend
      by (simp add: w'_def hook_apply_policy_def Let_def pol_def w1_def transition_to_def allowed_transitions_def)
    have compl: "completions pid w' \<le> completions pid w + of_bool (pid = p_id p)" for pid
      unfolding w' by (rule order_trans [OF completions_after_commit]) (simp add: w1_def)
    have "prefix (w_audit w) (w_audit w')"
      unfolding w' by (simp add: hook_audit_def audit_log_def Let_def w1_def)
    moreover have "prefix (w_outbox w) (w_outbox w')"
      unfolding w' by (rule prefix_order.order_trans [OF _ dispatch_after_commit_prefix]) (simp add: w1_def)
    moreover have "w_payments w' = rows"
      unfolding w' by simp
    moreover have "completions pid w' \<le> completions pid w +
        of_bool (pid = p_id p \<and> paid_status SUCCESS \<and> \<not> paid_status (p_status p))" for pid
      using compl [of pid] by (simp add: paid_status_def pend)
    ultimately show ?thesis
      unfolding w'_def [symmetric] using pend sv w p
      by (intro good_move_status [where s = SUCCESS and w = w and p = p])
        (simp_all add: paid_status_def allowed_transitions_def)
  qed
qed

lemma hook_verify_failed_good_move:
  assumes "world_ok w"
  shows "good_move w (hook_verify_failed e c ref w)"
  using assms by (intro good_move_frame) (simp_all add: hook_verify_failed_def)

lemma hook_locked_good_move:
  assumes w: "world_ok w"
  shows "good_move w (snd (hook_locked e c ref w))"
proof (cases "he_verify e ref")
  case (GwVerified v)
  show ?thesis
  proof (cases "find_by_provider_reference (he_hmac e) ref (w_payments w)")
    case (Inl x)
    with w GwVerified show ?thesis by (simp add: hook_locked_def good_move_refl)
  next
    case (Inr po)
    note found = Inr
    show ?thesis
    proof (cases po)
      case None
      with w GwVerified found show ?thesis
        by (intro good_move_frame) (simp_all add: hook_locked_def)
    next
      case (Some p)
      with found have "p \<in> set (w_payments w)"
        by (auto dest: find_by_provider_reference_Some)
      with w GwVerified found Some show ?thesis
        by (simp add: hook_locked_def hook_apply_policy_good_move)
    qed
  qed
qed (use w in \<open>simp_all add: hook_locked_def hook_verify_failed_good_move\<close>)

text \<open>The lock list is no part of the invariant.\<close>

lemma good_move_locks [simp]: "good_move w (w\<lparr>w_locks := l\<rparr>) = world_ok w"
  by (auto simp: good_move_def world_ok_def pay_le_def completions_def)

lemma acquire_lock_good_move: "world_ok w \<Longrightarrow> good_move w (snd (acquire_lock ref w))"
  by (simp add: acquire_lock_def good_move_refl)

lemma release_lock_good_move: "world_ok w \<Longrightarrow> good_move w (release_lock ref w)"
  by (simp add: release_lock_def)

lemma good_moveD: "good_move w w' \<Longrightarrow> world_ok w'"
  by (simp add: good_move_def)

lemma process_webhook_good_move:
  assumes w: "world_ok w"
  shows "good_move w (snd (process_webhook allow e c w))"
proof (cases "extract_provider_reference (hc_payload c)")
  case (Inl x)
  with w show ?thesis by (simp add: process_webhook_def good_move_refl)
next
  case (Inr ro)
  define ref where "ref = (case ro of None \<Rightarrow> '''' | Some r \<Rightarrow> r)"
  obtain got w1 where l: "acquire_lock ref w = (got, w1)" by (cases "acquire_lock ref w")
  have w1: "good_move w w1"
    using acquire_lock_good_move [OF w, of ref] l by simp
  consider "\<not> allow \<and> webhook_exists (hc_event_id c) w"
    | (noref) "\<not> (\<not> allow \<and> webhook_exists (hc_event_id c) w)" "ref = ''''"
    | (busy) "\<not> (\<not> allow \<and> webhook_exists (hc_event_id c) w)" "ref \<noteq> ''''" "\<not> got"
    | (locked) "\<not> (\<not> allow \<and> webhook_exists (hc_event_id c) w)" "ref \<noteq> ''''" "got"
    by blast
  then show ?thesis
  proof cases
    case 1
    with w show ?thesis by (simp add: process_webhook_def good_move_refl)
  next
    case noref
    have "snd (process_webhook allow e c w) = save_event (hc_event_id c) HK_REJECTED_MISSING_REF (hc_payload c) w"
      using noref Inr by (auto simp: process_webhook_def Let_def ref_def)
    with w show ?thesis by (intro good_move_frame) simp_all
  next
    case busy
    have "snd (process_webhook allow e c w) = schedule_retry_after_commit e ref 30
        (save_event (hc_event_id c) HK_LOCK_FAILED_RETRY (hc_payload c) w1)"
      using busy Inr l by (auto simp: process_webhook_def Let_def ref_def split: bool.splits)
    moreover have "good_move w1 \<dots>"
      using good_moveD [OF w1] by (intro good_move_frame) simp_all
    ultimately show ?thesis using w1 good_move_trans by metis
  next
    case locked
    have "snd (process_webhook allow e c w) = release_lock ref (snd (hook_locked e c ref w1))"
      using locked Inr l by (auto simp: process_webhook_def Let_def ref_def split: bool.splits prod.splits)
    then show ?thesis
      using w1 hook_locked_good_move [of w1 e c ref] release_lock_good_move
      by (metis good_moveD good_move_trans)
  qed
qed

subsection \<open>Expiry and refund requests\<close>

lemma expire_allowed_status:
  "pr_allowed (policy_apply p Act_EXPIRE now) \<Longrightarrow> p_status p \<in> {INITIATED, PENDING}"
  by (auto simp: policy_apply_def expire_allowed_iff)

text \<open>A round that changes anything saves the row as expired.\<close>

lemma expire_one_cases:
  obtains (same) x where "expire_one e eid now p w = (x, w)" "x \<noteq> Inr True"
  | (expired) rows t where
      "pr_allowed (policy_apply p Act_EXPIRE now)"
      "pay_save (xe_db_id e) (xe_db_now e) (p\<lparr>p_status := EXPIRED\<rparr>) (w_payments w) = Inr rows"
      "p_expires_at p = Some t" "fst (expire_one e eid now p w) = Inr True"
      "w_payments (snd (expire_one e eid now p w)) = rows"
      "prefix (w_audit w) (w_audit (snd (expire_one e eid now p w)))"
      "prefix (w_outbox w) (w_outbox (snd (expire_one e eid now p w)))"
      "\<And>pid. completions pid (snd (expire_one e eid now p w)) \<le> completions pid w"
proof (cases "pr_allowed (policy_apply p Act_EXPIRE now)")
  case False
  then show thesis by (intro same [of "Inr False"]) (simp_all add: expire_one_def)
next
  case True
  then have tr: "transition_to EXPIRED p = Inr (p\<lparr>p_status := EXPIRED\<rparr>)"
    using expire_allowed_status [OF True] by (auto simp: transition_to_def allowed_transitions_def)
  show thesis
  proof (cases "pay_save (xe_db_id e) (xe_db_now e) (p\<lparr>p_status := EXPIRED\<rparr>) (w_payments w)")
    case (Inl x)
    with True tr show thesis by (intro same [of "Inl x"]) (simp_all add: expire_one_def)
  next
    case (Inr rows)
    obtain t where t: "p_expires_at p = Some t"
      using True by (auto simp: policy_apply_def expire_allowed_iff payment_is_expired_def split: option.splits)
    define w1 where "w1 = audit_log
        \<lparr>ae_payment_id = Some (p_id p), ae_action = ''EXPIRE'', ae_actor = ActorSystem,
         ae_details = [(''expires_at'', DTime (Some t))]\<rparr> (w\<lparr>w_payments := rows\<rparr>)"
    have out: "expire_one e eid now p w = (Inr True,
        if xe_dispatched e then dispatch_event eid (PaymentExpired (p_id p) now) w1 else w1)"
      using True tr Inr t by (simp add: expire_one_def w1_def Let_def)
    have "prefix (w_audit w) (w_audit w1)" "w_outbox w1 = w_outbox w" "w_payments w1 = rows"
      "\<And>pid. completions pid w1 = completions pid w"
      using audit_log_prefix [of "w\<lparr>w_payments := rows\<rparr>"] by (simp_all add: w1_def)
    then show thesis
      using True Inr t out completions_dispatch [of _ eid "PaymentExpired (p_id p) now" w1]
        dispatch_event_prefix [of w1]
      by (intro expired) simp_all
  qed
qed

lemma expire_one_good_move:
  assumes w: "world_ok w" and p: "p \<in> set (w_payments w)"
  shows "good_move w (snd (expire_one e eid now p w))"
proof (cases rule: expire_one_cases [of e eid now p w])
  case (same x)
  with w show ?thesis by (simp add: good_move_refl)
next
  case (expired rows t)
  have st: "p_status p \<in> {INITIATED, PENDING}"
    using expired(1) by (rule expire_allowed_status)
  show ?thesis
    using w p expired st
    by (intro good_move_status [where s = EXPIRED and p = p])
      (auto simp: allowed_transitions_def paid_status_def)
qed

lemma expire_one_others:
  assumes w: "world_ok w" and p: "p \<in> set (w_payments w)" and q: "q \<in> set (w_payments w)" "q \<noteq> p"
  shows "q \<in> set (w_payments (snd (expire_one e eid now p w)))"
proof (cases rule: expire_one_cases [of e eid now p w])
  case (expired rows t)
  have ok: "rows_ok (w_payments w)" using w by (simp add: world_ok_def)
  have "p_reference q \<noteq> p_reference p"
    using rows_ok_same_ref [OF ok q(1) p] q(2) by blast
  with q show ?thesis
    unfolding expired(5) status_save(1) [OF ok p expired(2)] by simp
qed (use q in simp)

lemma expire_loop_good_move:
  assumes "world_ok w" and "snd ` set ps \<subseteq> set (w_payments w)" and "distinct (map snd ps)"
  shows "good_move w (snd (expire_loop e ps now n w))"
  using assms
proof (induction e ps now n w rule: expire_loop.induct)
  case (2 e eid p ps now count w)
  define w' where "w' = snd (expire_one e eid now p w)"
  have move: "good_move w w'"
    unfolding w'_def using 2(2,3) by (intro expire_one_good_move) simp_all
  have rest: "snd ` set ps \<subseteq> set (w_payments w')"
  proof
    fix q assume "q \<in> snd ` set ps"
    with 2(3,4) have "q \<in> set (w_payments w)" "q \<noteq> p" "p \<in> set (w_payments w)" by auto
    with 2(2) show "q \<in> set (w_payments w')"
      unfolding w'_def by (intro expire_one_others)
  qed
  show ?case
  proof (cases "fst (expire_one e eid now p w)")
    case (Inl x)
    then have "expire_one e eid now p w = (Inl x, w')"
      by (simp add: w'_def prod_eq_iff)
    with move show ?thesis by simp
  next
    case (Inr d)
    then have one: "expire_one e eid now p w = (Inr d, w')"
      by (simp add: w'_def prod_eq_iff)
    have "good_move w' (snd (expire_loop e ps now (if d then count + 1 else count) w'))"
      using 2(4) rest good_moveD [OF move] by (intro 2(1) [OF one [symmetric] refl]) simp_all
    with move show ?thesis
      by (auto simp: one intro: good_move_trans)
  qed
qed (simp add: good_move_refl)

lemma rows_ok_distinct: "rows_ok rows \<Longrightarrow> distinct rows"
  by (simp add: rows_ok_def distinct_map)

lemma expire_stale_good_move:
  assumes w: "world_ok w"
  shows "good_move w (snd (expire_stale_payments e eids now w))"
proof -
  have "distinct (w_payments w)"
    using w rows_ok_distinct by (simp add: world_ok_def)
  then show ?thesis
    unfolding expire_stale_payments_def Let_def
    by (intro expire_loop_good_move [OF w])
      (auto simp: find_expired_pending_def dest!: set_zip_rightD)
qed

lemma request_refund_good_move:
  assumes w: "world_ok w"
  shows "good_move w (snd (request_refund i t c w))"
proof (cases "find_by_reference (rc_payment_reference c) (w_payments w)")
  case None
  with w show ?thesis by (simp add: request_refund_def good_move_refl)
next
  case (Some p)
  then have p: "p \<in> set (w_payments w)" by (auto dest: find_by_reference_Some)
  show ?thesis
  proof (cases "p_status p = SUCCESS \<and> \<not> (rc_now c - p_created_at p) div days 1 > 30")
    case False
    with Some w show ?thesis by (auto simp: request_refund_def good_move_refl)
  next
    case True
    obtain rows where sv: "pay_save i t (p\<lparr>p_status := REFUND_REQUESTED\<rparr>) (w_payments w) = Inr rows"
      using w p status_save_succeeds unfolding world_ok_def by blast
    define w1 where "w1 = w\<lparr>w_payments := rows\<rparr>"
    define a where "a = \<lparr>ae_payment_id = Some (p_id p), ae_action = ''REFUND_REQUESTED'',
        ae_actor = ActorUser (rc_requested_by c), ae_details = [(''reason'', DStrOpt (rc_reason c))]\<rparr>"
    have "snd (request_refund i t c w) = audit_log a w1"
      using Some True sv
      by (simp add: request_refund_def transition_to_def allowed_transitions_def a_def w1_def)
    moreover have "good_move w (audit_log a w1)"
      using True sv w p audit_log_prefix [of w1 a]
      by (intro good_move_status [where s = REFUND_REQUESTED and p = p])
        (simp_all add: w1_def allowed_transitions_def paid_status_def)
    ultimately show ?thesis by simp
  qed
qed

subsection \<open>The whole system\<close>

lemma pay_step_good_move:
  assumes "world_ok w"
  shows "good_move w (pay_step op w)"
proof (cases op)
  case (ResetRetry r)
  with assms show ?thesis
    by (intro good_move_frame) (simp_all add: reset_webhook_retry_def)
qed (use assms in \<open>simp_all add: initiate_good_move process_webhook_good_move expire_stale_good_move
  request_refund_good_move good_move_refl acquire_lock_good_move release_lock_good_move\<close>)

interpretation pay_system: ordered_system pay_step world_ok pay_le
  using pay_step_good_move by unfold_locales (auto simp: good_move_def intro: pay_le_trans)

end
