(* ===== verification/Payment_Histories.thy ===== *)
theory Payment_Histories
  imports Payment_Safety
begin

text \<open>
  The payment handlers branch by branch, and what follows for histories of calls: locks are
  given back, a webhook event is recorded whenever it is answered, retries are bounded, an
  idempotency key keeps naming the same payment, and expiry leaves nothing overdue.
\<close>

section \<open>The branches of the webhook\<close>

lemma process_webhook_cases:
  obtains (seen) "\<not> allow" "webhook_exists (hc_event_id c) w" "process_webhook allow e c w = (Inr (), w)"
  | (malformed) x where "process_webhook allow e c w = (Inl x, w)" "hc_payload c = DataOther"
  | (missing) "process_webhook allow e c w =
        (Inr (), save_event (hc_event_id c) HK_REJECTED_MISSING_REF (hc_payload c) w)"
  | (busy) ref where "hc_payload c = DataObject (Some ref)" "ref \<in> set (w_locks w)"
      "process_webhook allow e c w =
        (Inr (), schedule_retry_after_commit e ref 30
          (save_event (hc_event_id c) HK_LOCK_FAILED_RETRY (hc_payload c) w))"
  | (locked) ref where "hc_payload c = DataObject (Some ref)" "ref \<noteq> ''''" "ref \<notin> set (w_locks w)"
      "process_webhook allow e c w =
        (fst (hook_locked e c ref (w\<lparr>w_locks := ref # w_locks w\<rparr>)),
         release_lock ref (snd (hook_locked e c ref (w\<lparr>w_locks := ref # w_locks w\<rparr>))))"
proof (cases "\<not> allow \<and> webhook_exists (hc_event_id c) w")
  case True
  then show thesis by (intro seen) (simp_all add: process_webhook_def)
next
  case new: False
  show thesis
  proof (cases "hc_payload c")
    case NoData
    with new show thesis
      by (intro missing) (auto simp: process_webhook_def extract_provider_reference_def)
  next
    case DataOther
    with new show thesis
      by (intro malformed [of AttributeErr]) (auto simp: process_webhook_def extract_provider_reference_def)
  next
    case (DataObject ro)
    define ref where "ref = (case ro of None \<Rightarrow> '''' | Some r \<Rightarrow> r)"
    consider (no_ref) "ref = ''''" | (busy') "ref \<noteq> ''''" "ref \<in> set (w_locks w)"
      | (free) "ref \<noteq> ''''" "ref \<notin> set (w_locks w)" by blast
    then show thesis
    proof cases
      case no_ref
      with new DataObject show thesis
        by (intro missing) (auto simp: process_webhook_def extract_provider_reference_def ref_def Let_def)
    next
      case busy'
      then have ro: "ro = Some ref" by (auto simp: ref_def split: option.splits)
      with new DataObject busy' show thesis
        by (intro busy [of ref])
          (auto simp: process_webhook_def extract_provider_reference_def acquire_lock_def)
    next
      case free
      then have ro: "ro = Some ref" by (auto simp: ref_def split: option.splits)
      with new DataObject free show thesis
        by (intro locked [of ref])
          (auto simp: process_webhook_def extract_provider_reference_def acquire_lock_def split: prod.splits)
    qed
  qed
qed

text \<open>What a locked webhook may leave behind.\<close>

lemma hook_locked_cases:
  obtains (undone) x where "hook_locked e c ref w = (Inl x, w)"
  | (retry) "hook_locked e c ref w = (Inr (), hook_verify_failed e c ref w)"
      "he_verify e ref \<in> {GwRaises, GwNothing}"
  | (unknown) a v where "he_verify e ref = GwVerified v"
      "find_by_provider_reference (he_hmac e) ref (w_payments w) = Inr None"
      "hook_locked e c ref w =
        (Inr (), save_event (hc_event_id c) HK_REJECTED_UNKNOWN (hc_payload c) (audit_log a w))"
  | (decided) p v where "he_verify e ref = GwVerified v"
      "find_by_provider_reference (he_hmac e) ref (w_payments w) = Inr (Some p)"
      "hook_locked e c ref w = hook_apply_policy e c ref p v w"
proof (cases "he_verify e ref")
  case (GwVerified v)
  show thesis
  proof (cases "find_by_provider_reference (he_hmac e) ref (w_payments w)")
    case (Inl x)
    with GwVerified show thesis by (intro undone [of x]) (simp add: hook_locked_def)
  next
    case (Inr po)
    with GwVerified show thesis
      by (cases po) (auto intro: unknown decided simp: hook_locked_def)
  qed
qed (auto intro: retry simp: hook_locked_def)

lemma hook_apply_policy_cases:
  obtains (undone) x where "hook_apply_policy e c ref p v w = (Inl x, w)"
  | (fraud) ev a d where "pr_fraud_signal (policy_apply p (Act_CONFIRM_SUCCESS (hook_context p v)) (hc_now c))"
      "hook_apply_policy e c ref p v w = (Inr (), dispatch_after_commit e ev
        (save_event (hc_event_id c) HK_FRAUD_DETECTED (hc_payload c) (hook_audit p a d
          (save_event (hc_event_id c) HK_PROCESSING (hc_payload c) w))))"
  | (success) rows where "pr_allowed (policy_apply p (Act_CONFIRM_SUCCESS (hook_context p v)) (hc_now c))"
      "pay_save (he_db_id e) (he_db_now e) (p\<lparr>p_status := SUCCESS\<rparr>) (w_payments w) = Inr rows"
      "hook_apply_policy e c ref p v w = (Inr (), dispatch_after_commit e
        (PaymentCompleted (p_id p) (p_user_id p) (minor_units (p_amount p))
          (cur_code (mon_currency (p_amount p))) (hc_now c))
        (save_event (hc_event_id c) HK_PROCESSED_SUCCESS (hc_payload c)
          (hook_audit (p\<lparr>p_status := SUCCESS\<rparr>) ''SUCCESS'' [(''event_id'', DStr (hc_event_id c))]
            ((save_event (hc_event_id c) HK_PROCESSING (hc_payload c) w)\<lparr>w_payments := rows\<rparr>))))"
  | (rejected) a d where "\<not> pr_allowed (policy_apply p (Act_CONFIRM_SUCCESS (hook_context p v)) (hc_now c))"
      "hook_apply_policy e c ref p v w = (Inr (),
        save_event (hc_event_id c) HK_REJECTED_POLICY (hc_payload c) (hook_audit p a d
          (save_event (hc_event_id c) HK_PROCESSING (hc_payload c) w)))"
proof -
  define pol where "pol = policy_apply p (Act_CONFIRM_SUCCESS (hook_context p v)) (hc_now c)"
  consider (f) "pr_fraud_signal pol" | (a) "\<not> pr_fraud_signal pol" "pr_allowed pol"
    | (r) "\<not> pr_fraud_signal pol" "\<not> pr_allowed pol" by blast
  then show thesis
  proof cases
    case f
    then show thesis
      by (intro fraud) (auto simp: pol_def hook_apply_policy_def Let_def)
  next
    case r
    then show thesis
      by (intro rejected) (auto simp: pol_def hook_apply_policy_def Let_def)
  next
    case a
    then have tr: "transition_to SUCCESS p = Inr (p\<lparr>p_status := SUCCESS\<rparr>)"
      by (simp add: pol_def policy_apply_def confirm_allowed_iff confirm_reasons_Nil transition_to_def
          allowed_transitions_def)
    show thesis
    proof (cases "pay_save (he_db_id e) (he_db_now e) (p\<lparr>p_status := SUCCESS\<rparr>) (w_payments w)")
      case (Inl x)
      with a tr show thesis
        by (intro undone [of x]) (simp add: pol_def hook_apply_policy_def Let_def)
    next
      case (Inr rows)
      with a tr show thesis
        by (intro success [of rows]) (simp_all add: pol_def hook_apply_policy_def Let_def)
    qed
  qed
qed

section \<open>Locks\<close>

lemma hook_apply_policy_locks: "w_locks (snd (hook_apply_policy e c ref p v w)) = w_locks w"
  by (cases rule: hook_apply_policy_cases [of e c ref p v w]) simp_all

lemma hook_locked_locks: "w_locks (snd (hook_locked e c ref w)) = w_locks w"
  by (cases rule: hook_locked_cases [of e c ref w])
    (simp_all add: hook_verify_failed_def hook_apply_policy_locks)

lemma filter_neq_id [simp]: "x \<notin> set xs \<Longrightarrow> filter (\<lambda>y. y \<noteq> x) xs = xs"
  by (induction xs) auto

lemma process_webhook_locks: "w_locks (snd (process_webhook allow e c w)) = w_locks w"
  by (cases rule: process_webhook_cases [of allow c w e])
    (simp_all add: release_lock_def hook_locked_locks)

section \<open>The webhook table\<close>

lemma webhook_exists_frame [simp]:
  "webhook_exists k (audit_log a w) = webhook_exists k w"
  "webhook_exists k (hook_audit p act d w) = webhook_exists k w"
  "webhook_exists k (dispatch_event i ev w) = webhook_exists k w"
  "webhook_exists k (dispatch_after_commit e ev w) = webhook_exists k w"
  "webhook_exists k (schedule_retry_after_commit e r dl w) = webhook_exists k w"
  "webhook_exists k (release_lock r w) = webhook_exists k w"
  "webhook_exists k (w\<lparr>w_payments := rows\<rparr>) = webhook_exists k w"
  "webhook_exists k (w\<lparr>w_locks := l\<rparr>) = webhook_exists k w"
  "webhook_exists k (reset_webhook_retry r w) = webhook_exists k w"
  by (simp_all add: webhook_exists_def reset_webhook_retry_def)

lemma webhook_exists_save_event [simp]:
  "webhook_exists k (save_event i s pl w) \<longleftrightarrow> k = i \<or> webhook_exists k w"
  by (simp add: webhook_exists_get webhook_get_save_event)

lemma hook_apply_policy_exists:
  "webhook_exists k w \<Longrightarrow> webhook_exists k (snd (hook_apply_policy e c ref p v w))"
  "fst (hook_apply_policy e c ref p v w) = Inr u \<Longrightarrow>
     webhook_exists (hc_event_id c) (snd (hook_apply_policy e c ref p v w))"
  by (cases rule: hook_apply_policy_cases [of e c ref p v w]; simp)+

lemma hook_locked_exists:
  "webhook_exists k w \<Longrightarrow> webhook_exists k (snd (hook_locked e c ref w))"
  "fst (hook_locked e c ref w) = Inr u \<Longrightarrow>
     webhook_exists (hc_event_id c) (snd (hook_locked e c ref w))"
  by (cases rule: hook_locked_cases [of e c ref w];
      simp add: hook_verify_failed_def hook_apply_policy_exists)+

lemma process_webhook_exists:
  "webhook_exists k w \<Longrightarrow> webhook_exists k (snd (process_webhook allow e c w))"
  by (cases rule: process_webhook_cases [of allow c w e]) (simp_all add: hook_locked_exists)

lemma process_webhook_recorded:
  "fst (process_webhook allow e c w) = Inr u \<Longrightarrow>
     webhook_exists (hc_event_id c) (snd (process_webhook allow e c w))"
  by (cases rule: process_webhook_cases [of allow c w e]) (simp_all add: hook_locked_exists)

lemma initiate_hooks: "w_hooks (snd (initiate_payment e c w)) = w_hooks w"
proof -
  have "w_hooks (snd (initiate_checked e c w)) = w_hooks w"
    by (auto simp: initiate_checked_def Let_def split: option.splits sum.splits)
  then show ?thesis
    by (auto simp: initiate_payment_def Let_def split: option.splits)
qed

lemma expire_one_hooks: "w_hooks (snd (expire_one e eid now p w)) = w_hooks w"
  by (auto simp: expire_one_def Let_def split: option.splits sum.splits)

lemma expire_loop_hooks: "w_hooks (snd (expire_loop e ps now n w)) = w_hooks w"
proof (induction e ps now n w rule: expire_loop.induct)
  case (2 e eid p ps now count w)
  obtain r w' where one: "expire_one e eid now p w = (r, w')" by (cases "expire_one e eid now p w")
  with expire_one_hooks [of e eid now p w] have "w_hooks w' = w_hooks w" by simp
  with 2 one show ?case by (cases r) auto
qed simp

lemma request_refund_hooks: "w_hooks (snd (request_refund i t c w)) = w_hooks w"
  by (auto simp: request_refund_def split: option.splits sum.splits)

lemma webhook_exists_hooks: "w_hooks w' = w_hooks w \<Longrightarrow> webhook_exists k w' = webhook_exists k w"
  by (simp add: webhook_exists_def)

lemma pay_step_webhook_exists: "webhook_exists k w \<Longrightarrow> webhook_exists k (pay_step op w)"
  by (cases op)
    (simp_all add: process_webhook_exists acquire_lock_def expire_stale_payments_def Let_def
      webhook_exists_hooks [OF initiate_hooks] webhook_exists_hooks [OF expire_loop_hooks]
      webhook_exists_hooks [OF request_refund_hooks])

interpretation hook_seen: invariant_system pay_step "webhook_exists k" for k
  by unfold_locales (rule pay_step_webhook_exists)

section \<open>Retries\<close>

definition retries :: "string \<Rightarrow> pay_world \<Rightarrow> nat" where
  "retries ref w = length (filter (\<lambda>(r, _). r = ref) (w_retry_tasks w))"

text \<open>What was scheduled and what the counter still allows.\<close>

definition retry_potential :: "string \<Rightarrow> pay_world \<Rightarrow> nat" where
  "retry_potential ref w = retries ref w + (3 - w_retry_count w ref)"

lemma retry_potential_frame [simp]:
  "retry_potential r (audit_log a w) = retry_potential r w"
  "retry_potential r (hook_audit p act d w) = retry_potential r w"
  "retry_potential r (dispatch_event i ev w) = retry_potential r w"
  "retry_potential r (dispatch_after_commit e ev w) = retry_potential r w"
  "retry_potential r (save_event k s pl w) = retry_potential r w"
  "retry_potential r (release_lock l w) = retry_potential r w"
  "retry_potential r (w\<lparr>w_payments := rows\<rparr>) = retry_potential r w"
  "retry_potential r (w\<lparr>w_locks := ls\<rparr>) = retry_potential r w"
  by (simp_all add: retry_potential_def retries_def)

lemma schedule_potential:
  "retry_potential r (schedule_retry_after_commit e ref d w) \<le> retry_potential r w"
  by (auto simp: schedule_retry_after_commit_def schedule_webhook_retry_def Let_def
      retry_potential_def retries_def)

lemma hook_apply_policy_potential:
  "retry_potential r (snd (hook_apply_policy e c ref p v w)) = retry_potential r w"
  by (cases rule: hook_apply_policy_cases [of e c ref p v w]) simp_all

lemma hook_locked_potential: "retry_potential r (snd (hook_locked e c ref w)) \<le> retry_potential r w"
  by (cases rule: hook_locked_cases [of e c ref w])
    (simp_all add: hook_apply_policy_potential hook_verify_failed_def
      order_trans [OF schedule_potential])

lemma process_webhook_potential:
  "retry_potential r (snd (process_webhook allow e c w)) \<le> retry_potential r w"
proof (cases rule: process_webhook_cases [of allow c w e])
  case (locked ref)
  then show ?thesis
    using hook_locked_potential [of r e c ref "w\<lparr>w_locks := ref # w_locks w\<rparr>"] by simp
qed (simp_all add: order_trans [OF schedule_potential])

lemma initiate_potential: "retry_potential r (snd (initiate_payment e c w)) = retry_potential r w"
proof -
  have "retry_potential r (snd (initiate_checked e c w)) = retry_potential r w"
    by (auto simp: initiate_checked_def Let_def split: option.splits sum.splits)
  then show ?thesis
    by (auto simp: initiate_payment_def Let_def split: option.splits)
qed

lemma expire_one_potential: "retry_potential r (snd (expire_one e eid now p w)) = retry_potential r w"
  by (auto simp: expire_one_def Let_def split: option.splits sum.splits)

lemma expire_loop_potential: "retry_potential r (snd (expire_loop e ps now n w)) = retry_potential r w"
proof (induction e ps now n w rule: expire_loop.induct)
  case (2 e eid p ps now count w)
  obtain x w' where one: "expire_one e eid now p w = (x, w')" by (cases "expire_one e eid now p w")
  with expire_one_potential [of r e eid now p w] have "retry_potential r w' = retry_potential r w" by simp
  with 2 one show ?case by (cases x) auto
qed simp

lemma request_refund_potential: "retry_potential r (snd (request_refund i t c w)) = retry_potential r w"
  by (auto simp: request_refund_def split: option.splits sum.splits)

fun resets :: "string \<Rightarrow> pay_op \<Rightarrow> bool" where
  "resets r (ResetRetry ref) = (ref = r)"
| "resets r _ = False"

lemma pay_step_potential:
  "retry_potential r (pay_step op w) \<le> retry_potential r w + (if resets r op then 3 else 0)"
proof (cases op)
  case (ResetRetry ref)
  then show ?thesis
    by (auto simp: reset_webhook_retry_def retry_potential_def retries_def)
qed (auto simp: initiate_potential process_webhook_potential expire_stale_payments_def Let_def
      expire_loop_potential request_refund_potential acquire_lock_def)

lemma retries_bound_run:
  "retry_potential r (run_ops pay_step ops w) \<le>
     retry_potential r w + 3 * length (filter (resets r) ops)"
proof (induction ops arbitrary: w)
  case (Cons op ops)
  have "retry_potential r (run_ops pay_step ops (pay_step op w)) \<le>
      retry_potential r (pay_step op w) + 3 * length (filter (resets r) ops)"
    by (rule Cons.IH)
  with pay_step_potential [of r op w] show ?case by (auto split: if_splits)
qed simp

section \<open>The idempotency key\<close>

lemma find_by_key_in:
  assumes ok: "rows_ok rows" and p: "p \<in> set rows"
  shows "find_by_idempotency_key (p_idempotency_key p) rows = Some p"
proof -
  obtain q where q: "find_by_idempotency_key (p_idempotency_key p) rows = Some q"
    using p by (cases "find_by_idempotency_key (p_idempotency_key p) rows")
      (auto simp: find_by_idempotency_key_def find_None_iff)
  then have "q \<in> set rows" "p_idempotency_key q = p_idempotency_key p"
    unfolding find_by_idempotency_key_def by (auto dest: find_Some_set)
  moreover from this p ok have "\<not> unique_clash p q" by (simp add: rows_ok_def list_all_iff)
  ultimately have "p_reference q = p_reference p" by (simp add: unique_clash_def)
  with \<open>q \<in> set rows\<close> p ok have "q = p" by (blast dest: rows_ok_same_ref)
  with q show ?thesis by simp
qed

text \<open>A successful initiation ends with a payment under its idempotency key.\<close>

lemma initiate_checked_stored:
  assumes "fst (initiate_checked e c w) = Inr d"
    and new: "find_by_reference (ie_reference e) (w_payments w) = None"
  shows "\<exists>p. find_by_reference (dto_reference d) (w_payments (snd (initiate_checked e c w))) = Some p \<and>
    p_idempotency_key p = ic_idempotency_key c \<and> p_expires_at p = dto_expires_at d"
proof (cases "payment_post_init (new_payment e c)")
  case (Inr p)
  have p: "p = (new_payment e c)\<lparr>p_expires_at := p_expires_at p\<rparr>"
    by (rule payment_post_init_Inr(1) [OF Inr])
  from assms(1) Inr obtain link pref rows where
    "ie_gateway e = Some (link, pref)" "pr_allowed (policy_apply p Act_INITIATE (ie_now2 e))"
    and tr: "PENDING \<in> set (allowed_transitions (p_status p))"
    and sv: "pay_save (ie_db_id e) (ie_db_now e) (p\<lparr>p_provider_reference := Some pref, p_status := PENDING\<rparr>)
          (w_payments w) = Inr rows"
    by (auto simp: initiate_checked_def Let_def transition_to_def split: option.splits sum.splits if_splits)
  with Inr assms(1) have rows: "w_payments (snd (initiate_checked e c w)) = rows"
    and d: "dto_reference d = p_reference p" "dto_expires_at d = p_expires_at p"
    by (auto simp: initiate_checked_def Let_def transition_to_def)
  have "p_idempotency_key p = ic_idempotency_key c"
    by (subst p) (simp add: new_payment_def)
  with pay_save_lookup [OF sv, of "dto_reference d"] d rows show ?thesis by simp
qed (use assms in \<open>simp add: initiate_checked_def\<close>)

lemma initiate_stored:
  assumes d: "fst (initiate_payment e c w) = Inr d" and w: "world_ok w"
    and new: "find_by_reference (ie_reference e) (w_payments w) = None"
  shows "\<exists>p. find_by_reference (dto_reference d) (w_payments (snd (initiate_payment e c w))) = Some p \<and>
    p_idempotency_key p = ic_idempotency_key c \<and> p_expires_at p = dto_expires_at d"
proof (cases "find_by_idempotency_key (ic_idempotency_key c) (w_payments w)")
  case None
  with d have "initiate_payment e c w = initiate_checked e c w"
    by (auto simp: initiate_payment_def Let_def split: if_splits)
  with d new show ?thesis by (simp add: initiate_checked_stored)
next
  case (Some p)
  then have p: "p \<in> set (w_payments w)" "p_idempotency_key p = ic_idempotency_key c"
    unfolding find_by_idempotency_key_def by (auto dest: find_Some_set)
  have "rows_ok (w_payments w)" using w by (simp add: world_ok_def)
  from find_by_reference_in [OF this p(1)] d Some p(2) show ?thesis
    by (auto simp: initiate_payment_def)
qed

lemma initiate_known_key:
  assumes w: "world_ok w" and p: "find_by_reference ref (w_payments w) = Some p"
    and key: "p_idempotency_key p = ic_idempotency_key c"
  shows "\<exists>d. initiate_payment e c w = (Inr d, w) \<and> dto_reference d = ref \<and>
    dto_expires_at d = p_expires_at p"
proof -
  have mem: "p \<in> set (w_payments w)" "p_reference p = ref"
    using p by (auto dest: find_by_reference_Some)
  have "rows_ok (w_payments w)" using w by (simp add: world_ok_def)
  from find_by_key_in [OF this mem(1)] mem(2) key show ?thesis
    by (simp add: initiate_payment_def)
qed

section \<open>Expiry leaves nothing overdue\<close>

definition overdue :: "instant \<Rightarrow> payment \<Rightarrow> bool" where
  "overdue now p \<longleftrightarrow> p_status p \<in> {INITIATED, PENDING} \<and> payment_is_expired p now"

lemma find_expired_pending_eq: "find_expired_pending now rows = filter (overdue now) rows"
  unfolding find_expired_pending_def
  by (rule filter_cong) (auto simp: overdue_def payment_is_expired_def split: option.splits)

lemma expire_one_overdue:
  assumes w: "world_ok w" and p: "p \<in> set (w_payments w)" and due: "overdue now p"
  shows "expire_one e eid now p w = (Inr True, snd (expire_one e eid now p w))"
    and "set (w_payments (snd (expire_one e eid now p w))) =
      insert (p\<lparr>p_status := EXPIRED\<rparr>) {r \<in> set (w_payments w). p_reference r \<noteq> p_reference p}"
proof -
  have ok: "rows_ok (w_payments w)" using w by (simp add: world_ok_def)
  obtain rows where sv: "pay_save (xe_db_id e) (xe_db_now e) (p\<lparr>p_status := EXPIRED\<rparr>) (w_payments w) = Inr rows"
    using w p status_save_succeeds unfolding world_ok_def by blast
  obtain t where t: "p_expires_at p = Some t"
    using due by (auto simp: overdue_def payment_is_expired_def split: option.splits)
  from due have "pr_allowed (policy_apply p Act_EXPIRE now)"
    by (simp add: policy_apply_def expire_allowed_iff overdue_def)
  moreover from due have "transition_to EXPIRED p = Inr (p\<lparr>p_status := EXPIRED\<rparr>)"
    by (auto simp: transition_to_def allowed_transitions_def overdue_def)
  ultimately have "fst (expire_one e eid now p w) = Inr True"
    "w_payments (snd (expire_one e eid now p w)) = rows"
    using sv t by (auto simp: expire_one_def Let_def)
  with status_save(1) [OF ok p sv]
  show "expire_one e eid now p w = (Inr True, snd (expire_one e eid now p w))"
    and "set (w_payments (snd (expire_one e eid now p w))) =
      insert (p\<lparr>p_status := EXPIRED\<rparr>) {r \<in> set (w_payments w). p_reference r \<noteq> p_reference p}"
    by (simp_all add: prod_eq_iff)
qed

lemma expire_loop_overdue:
  assumes "world_ok w" and "snd ` set ps \<subseteq> set (w_payments w)" and "distinct (map snd ps)"
    and "\<forall>p \<in> snd ` set ps. overdue now p"
    and "\<forall>r \<in> set (w_payments w). overdue now r \<longrightarrow> r \<in> snd ` set ps"
  shows "\<exists>w'. expire_loop e ps now n w = (Inr (n + int (length ps)), w') \<and>
    (\<forall>r \<in> set (w_payments w'). \<not> overdue now r)"
  using assms
proof (induction ps arbitrary: n w)
  case (Cons ep ps)
  obtain eid p where ep: "ep = (eid, p)" by (cases ep)
  define w' where "w' = snd (expire_one e eid now p w)"
  have p: "p \<in> set (w_payments w)" "overdue now p" using Cons.prems(2,4) by (simp_all add: ep)
  note one = expire_one_overdue [OF Cons.prems(1) p, of e eid, folded w'_def]
  have ok: "rows_ok (w_payments w)" using Cons.prems(1) by (simp add: world_ok_def)
  have "world_ok w'"
    unfolding w'_def by (rule good_moveD, rule expire_one_good_move) (use Cons.prems(1) p in simp_all)
  moreover have "snd ` set ps \<subseteq> set (w_payments w')"
  proof
    fix q assume q: "q \<in> snd ` set ps"
    with Cons.prems(2,3) have "q \<in> set (w_payments w)" "q \<noteq> p" by (auto simp: ep)
    then show "q \<in> set (w_payments w')"
      unfolding w'_def using Cons.prems(1) p(1) by (intro expire_one_others)
  qed
  moreover have "\<forall>r \<in> set (w_payments w'). overdue now r \<longrightarrow> r \<in> snd ` set ps"
    using Cons.prems(5) by (auto simp: one(2) ep overdue_def)
  moreover have "distinct (map snd ps)" "\<forall>q \<in> snd ` set ps. overdue now q"
    using Cons.prems(3,4) by simp_all
  ultimately have "\<exists>w''. expire_loop e ps now (n + 1) w' = (Inr (n + 1 + int (length ps)), w'') \<and>
      (\<forall>r \<in> set (w_payments w''). \<not> overdue now r)"
    by (intro Cons.IH)
  then obtain w'' where
    "expire_loop e ps now (n + 1) w' = (Inr (n + 1 + int (length ps)), w'')"
    "\<forall>r \<in> set (w_payments w''). \<not> overdue now r"
    by (elim exE conjE)
  moreover have "expire_loop e (ep # ps) now n w = expire_loop e ps now (n + 1) w'"
    unfolding ep expire_loop.simps by (subst one(1)) simp
  ultimately show ?case by simp
qed simp

lemma map_snd_zip_upt: "map snd (zip (map f [0..<length ps]) ps) = ps"
  by (simp add: map_snd_zip)

lemma expire_stale_complete:
  assumes w: "world_ok w"
  shows "\<exists>w'. expire_stale_payments e eids now w =
      (Inr (int (length (filter (overdue now) (w_payments w)))), w') \<and>
    (\<forall>r \<in> set (w_payments w'). \<not> overdue now r)"
proof -
  define ps where "ps = filter (overdue now) (w_payments w)"
  define zs where "zs = zip (map eids [0..<length ps]) ps"
  have zs: "map snd zs = ps" by (simp add: zs_def map_snd_zip_upt)
  then have "snd ` set zs = set ps" by (metis set_map)
  moreover have "distinct (w_payments w)" using w rows_ok_distinct by (simp add: world_ok_def)
  ultimately have "\<exists>w'. expire_loop e zs now 0 w = (Inr (0 + int (length zs)), w') \<and>
      (\<forall>r \<in> set (w_payments w'). \<not> overdue now r)"
    using w zs by (intro expire_loop_overdue) (auto simp: ps_def)
  moreover have "length zs = length ps" by (simp add: zs_def)
  ultimately show ?thesis
    by (simp add: expire_stale_payments_def find_expired_pending_eq ps_def zs_def Let_def)
qed

section \<open>What confirms a payment\<close>

text \<open>The answer of the provider matches the stored payment.\<close>

definition tx_matches :: "payment \<Rightarrow> verified_tx \<Rightarrow> instant \<Rightarrow> bool" where
  "tx_matches p v now \<longleftrightarrow>
     p_status p = PENDING \<and> vt_status v = ''successful'' \<and>
     p_provider_reference p = Some (vt_provider_reference v) \<and>
     vt_amount_minor_units v = minor_units (p_amount p) \<and>
     vt_currency_code v = cur_code (mon_currency (p_amount p)) \<and>
     \<not> payment_is_expired p now"

lemma hook_policy_allowed:
  "pr_allowed (policy_apply p (Act_CONFIRM_SUCCESS (hook_context p v)) now) \<longleftrightarrow> tx_matches p v now"
  by (auto simp: policy_apply_def confirm_allowed_iff confirm_reasons_Nil hook_context_def tx_matches_def)

lemma hook_policy_no_fraud:
  "tx_matches p v now \<Longrightarrow> \<not> pr_fraud_signal (policy_apply p (Act_CONFIRM_SUCCESS (hook_context p v)) now)"
  by (simp add: policy_apply_def confirm_fraud_signal_iff confirm_fraud_def hook_context_def tx_matches_def)

lemma hook_apply_policy_changes:
  assumes ok: "rows_ok (w_payments w)" and p: "p \<in> set (w_payments w)"
  shows "w_payments (snd (hook_apply_policy e c ref p v w)) = w_payments w \<or>
    tx_matches p v (hc_now c) \<and> (\<forall>r. find_by_reference r (w_payments (snd (hook_apply_policy e c ref p v w))) =
      (if r = p_reference p then Some (p\<lparr>p_status := SUCCESS\<rparr>) else find_by_reference r (w_payments w)))"
proof (cases rule: hook_apply_policy_cases [of e c ref p v w])
  case (success rows)
  then show ?thesis
    using status_save(2) [OF ok p success(2)] by (simp add: hook_policy_allowed)
qed simp_all

lemma hook_locked_changes:
  assumes ok: "rows_ok (w_payments w)"
  shows "w_payments (snd (hook_locked e c ref w)) = w_payments w \<or>
    (\<exists>p v. p \<in> set (w_payments w) \<and> he_verify e ref = GwVerified v \<and> tx_matches p v (hc_now c) \<and>
      (\<forall>r. find_by_reference r (w_payments (snd (hook_locked e c ref w))) =
        (if r = p_reference p then Some (p\<lparr>p_status := SUCCESS\<rparr>) else find_by_reference r (w_payments w))))"
proof (cases rule: hook_locked_cases [of e c ref w])
  case (decided p v)
  have "p \<in> set (w_payments w)" using decided(2) by (rule find_by_provider_reference_Some)
  with hook_apply_policy_changes [OF ok this, of e c ref v] decided show ?thesis by auto
qed (simp_all add: hook_verify_failed_def)

lemma process_webhook_changes:
  assumes ok: "rows_ok (w_payments w)"
  shows "w_payments (snd (process_webhook allow e c w)) = w_payments w \<or>
    (\<exists>ref p v. hc_payload c = DataObject (Some ref) \<and> p \<in> set (w_payments w) \<and>
      he_verify e ref = GwVerified v \<and> tx_matches p v (hc_now c) \<and>
      (\<forall>r. find_by_reference r (w_payments (snd (process_webhook allow e c w))) =
        (if r = p_reference p then Some (p\<lparr>p_status := SUCCESS\<rparr>) else find_by_reference r (w_payments w))))"
proof (cases rule: process_webhook_cases [of allow c w e])
  case (locked ref)
  with hook_locked_changes [of "w\<lparr>w_locks := ref # w_locks w\<rparr>" e c ref] ok show ?thesis by auto
qed simp_all

lemma find_by_provider_reference_unique:
  assumes ok: "rows_ok rows" and p: "p \<in> set rows" "p_provider_reference p = Some pref"
    and ne: "pref \<noteq> ''''"
    and hm: "\<forall>r \<in> set rows. \<forall>x. p_provider_reference r = Some x \<longrightarrow> hm x = hm pref \<longrightarrow> x = pref"
  shows "find_by_provider_reference hm pref rows = Inr (Some p)"
proof -
  have same: "(case p_provider_reference r of None \<Rightarrow> False | Some x \<Rightarrow> x \<noteq> '''' \<and> hm x = hm pref) = (r = p)"
    if r: "r \<in> set rows" for r
  proof
    assume "case p_provider_reference r of None \<Rightarrow> False | Some x \<Rightarrow> x \<noteq> '''' \<and> hm x = hm pref"
    with hm r have "p_provider_reference r = Some pref" by (auto split: option.splits)
    moreover have "\<not> unique_clash p r" using ok p r by (simp add: rows_ok_def list_all_iff)
    ultimately have "p_reference r = p_reference p" using p by (simp add: unique_clash_def)
    then show "r = p" using ok p r by (blast dest: rows_ok_same_ref)
  qed (use p ne in simp)
  have "filter (\<lambda>r. case p_provider_reference r of None \<Rightarrow> False | Some x \<Rightarrow> x \<noteq> '''' \<and> hm x = hm pref) rows
      = filter (\<lambda>r. r = p) rows"
    by (rule filter_cong [OF refl same])
  also have "\<dots> = [p]"
    using rows_ok_distinct [OF ok] p(1) by (induction rows) (auto simp: filter_empty_conv)
  finally show ?thesis using ne by (simp add: find_by_provider_reference_def)
qed

lemma webhook_confirms_lemma:
  assumes w: "world_ok w" and p: "find_by_reference r (w_payments w) = Some p"
    and pref: "p_provider_reference p = Some pref" "pref \<noteq> ''''" "pref \<notin> set (w_locks w)"
    and c: "hc_payload c = DataObject (Some pref)" "allow \<or> \<not> webhook_exists (hc_event_id c) w"
    and v: "he_verify e pref = GwVerified v" "tx_matches p v (hc_now c)"
    and hm: "\<forall>q \<in> set (w_payments w). \<forall>x. p_provider_reference q = Some x \<longrightarrow>
      he_hmac e x = he_hmac e pref \<longrightarrow> x = pref"
  shows "\<exists>w'. process_webhook allow e c w = (Inr (), w') \<and>
    find_by_reference r (w_payments w') = Some (p\<lparr>p_status := SUCCESS\<rparr>) \<and>
    webhook_get (hc_event_id c) w' = Some \<lparr>hk_event_id = hc_event_id c, hk_status = HK_PROCESSED_SUCCESS,
      hk_payload = hc_payload c\<rparr> \<and> w_locks w' = w_locks w"
proof -
  define w1 where "w1 = w\<lparr>w_locks := pref # w_locks w\<rparr>"
  have ok: "rows_ok (w_payments w)" using w by (simp add: world_ok_def)
  have mem: "p \<in> set (w_payments w)" "p_reference p = r" using p by (auto dest: find_by_reference_Some)
  have found: "find_by_provider_reference (he_hmac e) pref (w_payments w1) = Inr (Some p)"
    using find_by_provider_reference_unique [OF ok mem(1) pref(1,2) hm] by (simp add: w1_def)
  have out: "process_webhook allow e c w = (fst (hook_apply_policy e c pref p v w1),
      release_lock pref (snd (hook_apply_policy e c pref p v w1)))"
    using c pref v found
    by (auto simp: process_webhook_def extract_provider_reference_def acquire_lock_def w1_def [symmetric]
        hook_locked_def split: prod.splits)
  obtain rows where sv: "pay_save (he_db_id e) (he_db_now e) (p\<lparr>p_status := SUCCESS\<rparr>) (w_payments w) = Inr rows"
    using w mem(1) status_save_succeeds unfolding world_ok_def by blast
  have sv1: "pay_save (he_db_id e) (he_db_now e) (p\<lparr>p_status := SUCCESS\<rparr>) (w_payments w1) = Inr rows"
    using sv by (simp add: w1_def)
  show ?thesis
  proof (cases rule: hook_apply_policy_cases [of e c pref p v w1])
    case (success rows')
    then have "rows' = rows" using sv1 by simp
    with success out status_save(2) [OF ok mem(1) sv, of r] mem(2)
      process_webhook_locks [of allow e c w]
    show ?thesis by (simp add: webhook_get_save_event)
  next
    case (undone x)
    then show ?thesis
      using hook_policy_no_fraud [OF v(2)] v(2) sv1
      by (auto simp: hook_apply_policy_def Let_def hook_policy_allowed transition_to_def tx_matches_def
          allowed_transitions_def split: if_splits sum.splits)
  qed (use v(2) hook_policy_no_fraud [OF v(2)] in \<open>simp_all add: hook_policy_allowed\<close>)
qed

end
