(* ===== verification/Payment_Theorems.thy ===== *)
theory Payment_Theorems
  imports Payment_Histories
begin

text \<open>
  The properties of the payment system, over every history of handler calls that starts from an
  empty system.
\<close>

section \<open>A concrete payment\<close>

definition sample_env :: initiate_env where
  "sample_env = \<lparr>ie_now = 1000, ie_created_at = 1000, ie_now2 = 1000, ie_payment_id = 77,
     ie_reference = ''TXN-1'', ie_gateway = Some (''https://pay'', ''flw_1''), ie_db_id = 5,
     ie_db_now = 1000, ie_user_created = (\<lambda>_. Some (- days 2))\<rparr>"

definition sample_usd :: currency where
  "sample_usd = \<lparr>cur_code = ''USD'', cur_decimals = 2, cur_min_minor = 100, cur_max_minor = 1000000\<rparr>"

definition sample_cmd :: initiate_cmd where
  "sample_cmd = \<lparr>ic_user_id = 7, ic_amount = \<lparr>minor_units = 1999, mon_currency = sample_usd\<rparr>,
     ic_method = Member METHOD_CARD, ic_idempotency_key = ''k'', ic_redirect_base_url = ''https://app'',
     ic_context_reference = None, ic_metadata = PyDict [], ic_environment = Member TEST\<rparr>"

definition sample_payment :: payment where
  "sample_payment = \<lparr>p_id = 5, p_user_id = 7,
     p_amount = \<lparr>minor_units = 1999, mon_currency = sample_usd\<rparr>, p_method = Member METHOD_CARD,
     p_reference = ''TXN-1'', p_idempotency_key = ''k'', p_environment = Member TEST,
     p_status = PENDING, p_provider_reference = Some ''flw_1'', p_context_reference = None,
     p_metadata = PyDict [], p_created_at = 1000, p_expires_at = Some (1000 + minutes 30)\<rparr>"

definition sample_world :: pay_world where
  "sample_world = empty_world\<lparr>w_payments := [sample_payment],
     w_audit := [\<lparr>ae_payment_id = None, ae_action = ''INITIATE'', ae_actor = ActorUser 7,
                  ae_details = [(''idempotency_key'', DStr ''k'')]\<rparr>]\<rparr>"

definition sample_hook :: hook_cmd where
  "sample_hook = \<lparr>hc_event_id = ''e1'', hc_payload = DataObject (Some ''flw_1''), hc_now = 2000\<rparr>"

definition sample_hook_env :: hook_env where
  "sample_hook_env = \<lparr>he_verify = (\<lambda>_. GwVerified \<lparr>vt_provider_reference = ''flw_1'',
       vt_status = ''successful'', vt_amount_minor_units = 1999, vt_currency_code = ''USD''\<rparr>),
     he_hmac = (\<lambda>s. s), he_outbox_id = 900, he_dispatched = True, he_scheduled = True,
     he_db_id = 6, he_db_now = 2000\<rparr>"

lemma sample_initiated:
  "initiate_payment sample_env sample_cmd empty_world =
     (Inr \<lparr>dto_reference = ''TXN-1'', dto_payment_link = ''https://pay'',
           dto_expires_at = Some (1000 + minutes 30)\<rparr>, sample_world)"
proof -
  define w' where "w' = snd (initiate_payment sample_env sample_cmd empty_world)"
  have "fst (initiate_payment sample_env sample_cmd empty_world) =
      Inr \<lparr>dto_reference = ''TXN-1'', dto_payment_link = ''https://pay'',
           dto_expires_at = Some (1000 + minutes 30)\<rparr>"
    by code_simp
  moreover have "w_payments w' = w_payments sample_world" "w_hooks w' = w_hooks sample_world"
    "w_audit w' = w_audit sample_world" "w_outbox w' = w_outbox sample_world"
    "w_retry_tasks w' = w_retry_tasks sample_world" "w_locks w' = w_locks sample_world"
    unfolding w'_def by (code_simp, code_simp, code_simp, code_simp, code_simp, code_simp)
  moreover have "w_retry_count w' = w_retry_count sample_world"
    by (simp add: w'_def sample_world_def initiate_payment_def initiate_checked_def Let_def
        split: option.splits sum.splits)
  ultimately show ?thesis
    by (simp add: prod_eq_iff w'_def)
qed

lemma sample_reached: "run_ops pay_step [Initiate sample_env sample_cmd] empty_world = sample_world"
  by (simp add: sample_initiated) (simp add: find_by_reference_def empty_world_def)

lemma sample_lookup: "find_by_reference ''TXN-1'' (w_payments sample_world) = Some sample_payment"
  by (simp add: sample_world_def find_by_reference_def sample_payment_def)

section \<open>Every reachable world\<close>

lemma empty_world_ok: "world_ok empty_world"
  by (simp add: world_ok_def empty_world_def rows_ok_def completions_def)

lemmas reachable_ok = pay_system.run_inv [OF empty_world_ok]

lemmas reachable_le = pay_system.run_le_later [OF empty_world_ok]

lemma step_reachable: "pay_step op (run_ops pay_step ops w) = run_ops pay_step (ops @ [op]) w"
  by (simp add: run_ops_append)

section \<open>Histories\<close>

text \<open>C1. Over any history of initiations, webhooks, expiry runs, refund requests, retry resets
  and lock changes, a payment is announced as completed at most once.\<close>

theorem payment_completed_once: "completions pid (run_ops pay_step ops empty_world) \<le> 1"
proof -
  have "completions pid (run_ops pay_step ops empty_world) \<le>
      of_bool (is_paid pid (w_payments (run_ops pay_step ops empty_world)))"
    using reachable_ok [of ops] by (simp add: world_ok_def)
  then show ?thesis by (cases "is_paid pid (w_payments (run_ops pay_step ops empty_world))") auto
qed

text \<open>C2. A payment never vanishes, and whatever the handlers do later, only its status changes,
  and only along the transition table of \<open>PaymentStatus\<close>.\<close>

theorem payment_history_forward:
  assumes "find_by_reference ref (w_payments (run_ops pay_step earlier empty_world)) = Some p"
  shows "\<exists>s. find_by_reference ref (w_payments (run_ops pay_step (earlier @ later) empty_world)) =
      Some (p\<lparr>p_status := s\<rparr>) \<and> later_status (p_status p) s"
  using reachable_le [of earlier later] assms
  unfolding pay_le_def rows_le_def row_le_def by metis

theorem payment_history_forward_witness:
  "\<exists>s. find_by_reference ''TXN-1''
      (w_payments (run_ops pay_step ([Initiate sample_env sample_cmd] @
        [Webhook False sample_hook_env sample_hook]) empty_world)) =
      Some (sample_payment\<lparr>p_status := s\<rparr>) \<and> later_status (p_status sample_payment) s"
  by (rule payment_history_forward) (simp only: sample_reached sample_lookup)

text \<open>The audit log and the outbox of events are append-only.\<close>

theorem payment_logs_append_only:
  "prefix (w_audit (run_ops pay_step earlier empty_world))
      (w_audit (run_ops pay_step (earlier @ later) empty_world)) \<and>
   prefix (w_outbox (run_ops pay_step earlier empty_world))
      (w_outbox (run_ops pay_step (earlier @ later) empty_world))"
  using reachable_le [of earlier later] by (simp add: pay_le_def)

section \<open>The webhook\<close>

text \<open>C3. A webhook changes a payment only by confirming it, and it confirms only the pending,
  unexpired payment whose provider reference, amount and currency are those of a transaction
  the provider itself reported successful when asked about the reference in the payload.\<close>

theorem webhook_confirms_only_verified:
  assumes "w = run_ops pay_step ops empty_world"
    and "find_by_reference r (w_payments w) = Some p"
    and "find_by_reference r (w_payments (snd (process_webhook allow e c w))) = Some q" and "q \<noteq> p"
  shows "q = p\<lparr>p_status := SUCCESS\<rparr> \<and>
    (\<exists>ref v. hc_payload c = DataObject (Some ref) \<and> he_verify e ref = GwVerified v \<and>
      vt_status v = ''successful'' \<and> p_provider_reference p = Some (vt_provider_reference v) \<and>
      vt_amount_minor_units v = minor_units (p_amount p) \<and>
      vt_currency_code v = cur_code (mon_currency (p_amount p)) \<and>
      p_status p = PENDING \<and> \<not> payment_is_expired p (hc_now c))"
proof -
  have ok: "rows_ok (w_payments w)" using reachable_ok [of ops] assms(1) by (simp add: world_ok_def)
  let ?rows = "w_payments (snd (process_webhook allow e c w))"
  have "?rows \<noteq> w_payments w" using assms(2-4) by auto
  with process_webhook_changes [OF ok, of allow e c]
  obtain ref p' v where v: "hc_payload c = DataObject (Some ref)" "p' \<in> set (w_payments w)"
    "he_verify e ref = GwVerified v" "tx_matches p' v (hc_now c)"
    and new: "find_by_reference r ?rows =
      (if r = p_reference p' then Some (p'\<lparr>p_status := SUCCESS\<rparr>) else find_by_reference r (w_payments w))"
    by blast
  from new assms(2-4) have "r = p_reference p'" "q = p'\<lparr>p_status := SUCCESS\<rparr>"
    by (auto split: if_splits)
  moreover from this v(2) ok assms(2) have "p' = p" by (simp add: find_by_reference_in)
  moreover note v
  ultimately show ?thesis by (auto simp: tx_matches_def)
qed

text \<open>C27. A webhook for a pending payment, verified as paid in full and in time, confirms it:
  the payment becomes SUCCESS, the event is recorded as processed and the lock is given back.
  The keyed hash of provider references is assumed free of collisions among the stored ones.\<close>

theorem webhook_confirms:
  assumes "w = run_ops pay_step ops empty_world"
    and "find_by_reference r (w_payments w) = Some p"
    and "p_status p = PENDING" and "\<not> payment_is_expired p (hc_now c)"
    and "p_provider_reference p = Some pref" and "pref \<noteq> ''''" and "pref \<notin> set (w_locks w)"
    and "hc_payload c = DataObject (Some pref)" and "\<not> webhook_exists (hc_event_id c) w"
    and "he_verify e pref = GwVerified \<lparr>vt_provider_reference = pref, vt_status = ''successful'',
      vt_amount_minor_units = minor_units (p_amount p),
      vt_currency_code = cur_code (mon_currency (p_amount p))\<rparr>"
    and "\<forall>q \<in> set (w_payments w). \<forall>x. p_provider_reference q = Some x \<longrightarrow>
      he_hmac e x = he_hmac e pref \<longrightarrow> x = pref"
  shows "\<exists>w'. process_webhook False e c w = (Inr (), w') \<and>
    find_by_reference r (w_payments w') = Some (p\<lparr>p_status := SUCCESS\<rparr>) \<and>
    webhook_get (hc_event_id c) w' = Some \<lparr>hk_event_id = hc_event_id c,
      hk_status = HK_PROCESSED_SUCCESS, hk_payload = hc_payload c\<rparr> \<and> w_locks w' = w_locks w"
  using assms reachable_ok [of ops]
  by (intro webhook_confirms_lemma [where pref = pref and v = "\<lparr>vt_provider_reference = pref,
      vt_status = ''successful'', vt_amount_minor_units = minor_units (p_amount p),
      vt_currency_code = cur_code (mon_currency (p_amount p))\<rparr>"])
    (simp_all add: tx_matches_def)

theorem webhook_confirms_witness:
  "\<exists>w'. process_webhook False sample_hook_env sample_hook sample_world = (Inr (), w') \<and>
    find_by_reference ''TXN-1'' (w_payments w') = Some (sample_payment\<lparr>p_status := SUCCESS\<rparr>) \<and>
    webhook_get (hc_event_id sample_hook) w' = Some \<lparr>hk_event_id = hc_event_id sample_hook,
      hk_status = HK_PROCESSED_SUCCESS, hk_payload = hc_payload sample_hook\<rparr> \<and>
    w_locks w' = w_locks sample_world"
  by (rule webhook_confirms [OF sample_reached [symmetric] sample_lookup, where pref = "''flw_1''"])
    (simp_all add: sample_payment_def sample_hook_def sample_hook_env_def sample_world_def
      empty_world_def payment_is_expired_def webhook_exists_def sample_usd_def time_units)

theorem webhook_confirms_only_verified_witness:
  "sample_payment\<lparr>p_status := SUCCESS\<rparr> = sample_payment\<lparr>p_status := SUCCESS\<rparr> \<and>
    (\<exists>ref v. hc_payload sample_hook = DataObject (Some ref) \<and>
      he_verify sample_hook_env ref = GwVerified v \<and>
      vt_status v = ''successful'' \<and> p_provider_reference sample_payment = Some (vt_provider_reference v) \<and>
      vt_amount_minor_units v = minor_units (p_amount sample_payment) \<and>
      vt_currency_code v = cur_code (mon_currency (p_amount sample_payment)) \<and>
      p_status sample_payment = PENDING \<and> \<not> payment_is_expired sample_payment (hc_now sample_hook))"
proof (rule webhook_confirms_only_verified [OF sample_reached [symmetric] sample_lookup])
  show "find_by_reference ''TXN-1'' (w_payments (snd (process_webhook False sample_hook_env sample_hook
      sample_world))) = Some (sample_payment\<lparr>p_status := SUCCESS\<rparr>)"
    by code_simp
  show "sample_payment\<lparr>p_status := SUCCESS\<rparr> \<noteq> sample_payment"
    by (simp add: sample_payment_def)
qed

text \<open>Whatever the outcome of a webhook, exceptions included, it leaves the locks as they
  were: a lock it took is released, a lock held elsewhere stays.\<close>

theorem webhook_restores_locks: "w_locks (snd (process_webhook allow e c w)) = w_locks w"
  by (rule process_webhook_locks)

text \<open>C22. Once a webhook event was answered without an exception, delivering an event of the
  same id again has no effect, in any later state of the system.\<close>

theorem webhook_redelivery_noop:
  assumes "fst (process_webhook allow e c w) = Inr ()"
    and "w' = run_ops pay_step later (snd (process_webhook allow e c w))"
    and "hc_event_id c' = hc_event_id c"
  shows "process_webhook False e' c' w' = (Inr (), w')"
proof -
  have "webhook_exists (hc_event_id c) (snd (process_webhook allow e c w))"
    using assms(1) by (rule process_webhook_recorded)
  then have "webhook_exists (hc_event_id c) w'"
    unfolding assms(2) by (rule hook_seen.run_inv)
  with assms(3) show ?thesis by (simp add: process_webhook_def)
qed

theorem webhook_redelivery_noop_witness:
  "process_webhook False sample_hook_env sample_hook
      (run_ops pay_step [OtherLock ''x''] (snd (process_webhook False sample_hook_env sample_hook sample_world))) =
    (Inr (), run_ops pay_step [OtherLock ''x''] (snd (process_webhook False sample_hook_env sample_hook sample_world)))"
  by (rule webhook_redelivery_noop [OF _ refl refl]) code_simp

text \<open>C24. The retries scheduled for a provider reference number at most three, and three more
  for each reset of its counter.\<close>

theorem webhook_retries_bounded:
  "retries ref (run_ops pay_step ops empty_world) \<le> 3 + 3 * length (filter (resets ref) ops)"
  using retries_bound_run [of ref ops empty_world]
  by (simp add: retry_potential_def empty_world_def retries_def)

section \<open>Initiation, expiry, refunds\<close>

text \<open>C23. After a successful initiation, initiating again under the same idempotency key - with
  any other amount, method or user, at any later time - returns the same payment's reference and
  expiry and changes nothing.\<close>

theorem initiate_idempotent:
  assumes "w = run_ops pay_step ops empty_world"
    and "find_by_reference (ie_reference e) (w_payments w) = None"
    and "initiate_payment e c w = (Inr d, w1)"
    and "w2 = run_ops pay_step later w1"
    and "ic_idempotency_key c' = ic_idempotency_key c"
  shows "\<exists>d'. initiate_payment e' c' w2 = (Inr d', w2) \<and>
    dto_reference d' = dto_reference d \<and> dto_expires_at d' = dto_expires_at d"
proof -
  have w: "world_ok w" using reachable_ok assms(1) by simp
  have w1: "world_ok w1"
    using initiate_good_move [OF w assms(2), of c] assms(3) by (simp add: good_move_def)
  then have w2: "world_ok w2" "pay_le w1 w2"
    unfolding assms(4) by (rule pay_system.run_inv, rule pay_system.run_le)
  obtain p where p: "find_by_reference (dto_reference d) (w_payments w1) = Some p"
    "p_idempotency_key p = ic_idempotency_key c" "p_expires_at p = dto_expires_at d"
    using initiate_stored [OF _ w assms(2), of c d] assms(3) by auto
  from w2(2) p(1) obtain q where q: "find_by_reference (dto_reference d) (w_payments w2) = Some q" "row_le p q"
    unfolding pay_le_def rows_le_def by blast
  from initiate_known_key [OF w2(1) q(1), of c' e'] row_le_fields [OF q(2)] p assms(5)
  show ?thesis by auto
qed

theorem initiate_idempotent_witness:
  "\<exists>d'. initiate_payment sample_env (sample_cmd\<lparr>ic_user_id := 8\<rparr>)
        (run_ops pay_step [Webhook False sample_hook_env sample_hook] sample_world) =
      (Inr d', run_ops pay_step [Webhook False sample_hook_env sample_hook] sample_world) \<and>
    dto_reference d' = ''TXN-1'' \<and> dto_expires_at d' = Some (1000 + minutes 30)"
proof -
  have "empty_world = run_ops pay_step [] empty_world"
    and "find_by_reference (ie_reference sample_env) (w_payments empty_world) = None"
    and "ic_idempotency_key (sample_cmd\<lparr>ic_user_id := 8\<rparr>) = ic_idempotency_key sample_cmd"
    by (simp_all add: find_by_reference_def empty_world_def)
  from initiate_idempotent [OF this(1,2) sample_initiated refl this(3), of sample_env
      "[Webhook False sample_hook_env sample_hook]"] show ?thesis
    by (simp del: run_ops_simps)
qed

text \<open>An expiry run never fails, reports exactly the number of open payments past their
  expiry, and leaves no such payment behind.\<close>

theorem expire_stale_payments_complete:
  assumes "w = run_ops pay_step ops empty_world"
  shows "\<exists>w'. expire_stale_payments e eids now w =
      (Inr (int (length (filter (overdue now) (w_payments w)))), w') \<and>
    filter (overdue now) (w_payments w') = []"
  using expire_stale_complete [of w e eids now] reachable_ok [of ops] assms
  by (auto simp: filter_empty_conv)

theorem expire_stale_payments_complete_witness:
  "\<exists>w'. expire_stale_payments \<lparr>xe_dispatched = True, xe_db_id = 1, xe_db_now = 3\<rparr> (\<lambda>i. i) (hours 1) sample_world =
      (Inr (int (length (filter (overdue (hours 1)) (w_payments sample_world)))), w') \<and>
    filter (overdue (hours 1)) (w_payments w') = []"
  by (rule expire_stale_payments_complete [OF sample_reached [symmetric]])

text \<open>A refund request succeeds exactly for a stored payment in SUCCESS that is younger than
  31 days (not 30: \<open>timedelta.days\<close> counts whole days), and then only its status changes.\<close>

theorem refund_request_window:
  assumes "w = run_ops pay_step ops empty_world"
  shows "fst (request_refund i t c w) = Inr () \<longleftrightarrow>
    (\<exists>p. find_by_reference (rc_payment_reference c) (w_payments w) = Some p \<and>
      p_status p = SUCCESS \<and> rc_now c - p_created_at p < days 31 \<and>
      find_by_reference (rc_payment_reference c) (w_payments (snd (request_refund i t c w))) =
        Some (p\<lparr>p_status := REFUND_REQUESTED\<rparr>))"
proof (cases "find_by_reference (rc_payment_reference c) (w_payments w)")
  case None
  then show ?thesis by (simp add: request_refund_def)
next
  case (Some p)
  have w: "world_ok w" using reachable_ok assms by simp
  then have ok: "rows_ok (w_payments w)" by (simp add: world_ok_def)
  have p: "p \<in> set (w_payments w)" "p_reference p = rc_payment_reference c"
    using Some by (auto dest: find_by_reference_Some)
  obtain rows where sv: "pay_save i t (p\<lparr>p_status := REFUND_REQUESTED\<rparr>) (w_payments w) = Inr rows"
    using w p(1) status_save_succeeds unfolding world_ok_def by blast
  have window: "(rc_now c - p_created_at p) div days 1 > 30 \<longleftrightarrow> \<not> rc_now c - p_created_at p < days 31"
    by (simp add: time_units) linarith
  from Some sv status_save(2) [OF ok p(1) sv, of "rc_payment_reference c"] p(2) window show ?thesis
    by (simp add: request_refund_def transition_to_def allowed_transitions_def)
qed

theorem refund_request_window_witness:
  "fst (request_refund 1 0 \<lparr>rc_payment_reference = ''TXN-1'', rc_requested_by = 7, rc_reason = None,
      rc_now = 5\<rparr> sample_world) = Inr () \<longleftrightarrow>
    (\<exists>p. find_by_reference ''TXN-1'' (w_payments sample_world) = Some p \<and>
      p_status p = SUCCESS \<and> 5 - p_created_at p < days 31 \<and>
      find_by_reference ''TXN-1'' (w_payments (snd (request_refund 1 0
        \<lparr>rc_payment_reference = ''TXN-1'', rc_requested_by = 7, rc_reason = None, rc_now = 5\<rparr> sample_world))) =
        Some (p\<lparr>p_status := REFUND_REQUESTED\<rparr>))"
  using refund_request_window [OF sample_reached [symmetric], of 1 0 "\<lparr>rc_payment_reference = ''TXN-1'',
    rc_requested_by = 7, rc_reason = None, rc_now = 5\<rparr>"] by simp

text \<open>The velocity check's "flag only, do not block" outcome does block: a user with three or
  more distinct provider references in the last hour, under every hard limit, gets a
  \<open>ValueError\<close> instead of a payment, because the flag event is dispatched as \<open>...\<close>.\<close>

theorem velocity_flag_blocks:
  assumes "find_by_idempotency_key (ic_idempotency_key c) (w_payments w) = None"
    and "v = get_velocity_context (ie_user_created e) (ic_user_id c) (ie_now e) (w_payments w)"
    and "vc_unique_vendors_last_hour v \<ge> 3" and "vc_payments_last_hour v < 5"
    and "vc_payments_last_day v < 20" and "vc_amount_last_day_minor v < 2000000"
    and "vc_failed_last_hour v < 3"
  shows "\<exists>msg. initiate_payment e c w = (Inl (ValueErr msg), w)"
  using assms by (simp add: initiate_payment_def velocity_apply_def)

definition busy_payment :: "string \<Rightarrow> payment" where
  "busy_payment s = sample_payment\<lparr>p_reference := s, p_idempotency_key := s, p_provider_reference := Some s\<rparr>"

theorem velocity_flag_blocks_witness:
  "\<exists>msg. initiate_payment sample_env sample_cmd
      (empty_world\<lparr>w_payments := map busy_payment [''a'', ''b'', ''c'']\<rparr>) =
    (Inl (ValueErr msg), empty_world\<lparr>w_payments := map busy_payment [''a'', ''b'', ''c'']\<rparr>)"
  by (rule velocity_flag_blocks [OF _ refl]) code_simp+

text \<open>The test/live check of the confirmation policy is vacuous on the webhook path: the
  context's environment is read from the payment itself, so no webhook is ever rejected with an
  environment mismatch.\<close>

theorem webhook_environment_check_vacuous:
  "''Environment mismatch (test/live)'' \<notin> set (confirm_reasons p (hook_context p v) now)"
proof -
  have "''Payment not pending (current: '' @ s @ t \<noteq> ''Environment mismatch (test/live)''" for s t :: string
    by simp
  then show ?thesis by (simp add: confirm_reasons_def hook_context_def)
qed

text \<open>The audit event of a successful initiation refers to no payment: the repository draws
  its own key for the row, so the id the entity was created with resolves to nothing.\<close>

theorem initiate_audit_unlinked:
  assumes "initiate_checked e c w = (Inr d, w')"
    and "list_all (\<lambda>r. p_id r \<noteq> ie_payment_id e) (w_payments w)" and "ie_db_id e \<noteq> ie_payment_id e"
    and "find_by_reference (ie_reference e) (w_payments w) = None"
  shows "\<exists>details. w_audit w' = w_audit w @ [\<lparr>ae_payment_id = None, ae_action = ''INITIATE'',
    ae_actor = ActorUser (ic_user_id c), ae_details = details\<rparr>]"
proof (cases "payment_post_init (new_payment e c)")
  case (Inr p)
  have p: "p = (new_payment e c)\<lparr>p_expires_at := p_expires_at p\<rparr>"
    by (rule payment_post_init_Inr(1) [OF Inr])
  have id: "p_id p = ie_payment_id e" "p_reference p = ie_reference e"
    by (subst p, simp add: new_payment_def)+
  from assms(1) Inr obtain link pref rows where
    "ie_gateway e = Some (link, pref)" "pr_allowed (policy_apply p Act_INITIATE (ie_now2 e))"
    and tr: "PENDING \<in> set (allowed_transitions (p_status p))"
    and sv: "pay_save (ie_db_id e) (ie_db_now e) (p\<lparr>p_provider_reference := Some pref, p_status := PENDING\<rparr>)
          (w_payments w) = Inr rows"
    by (auto simp: initiate_checked_def Let_def transition_to_def split: option.splits sum.splits if_splits)
  moreover from sv assms(2-4) id have "\<not> list_ex (\<lambda>r. p_id r = ie_payment_id e) rows"
    by (cases rule: pay_save_cases) (auto simp: list_ex_iff list_all_iff)
  ultimately show ?thesis
    using assms(1) Inr id(1)
    by (auto simp: initiate_checked_def Let_def transition_to_def audit_log_def)
qed (use assms in \<open>simp add: initiate_checked_def\<close>)

theorem initiate_audit_unlinked_witness:
  "\<exists>details. w_audit sample_world = w_audit empty_world @ [\<lparr>ae_payment_id = None, ae_action = ''INITIATE'',
    ae_actor = ActorUser (ic_user_id sample_cmd), ae_details = details\<rparr>]"
proof (rule initiate_audit_unlinked)
  have "find_by_idempotency_key (ic_idempotency_key sample_cmd) (w_payments empty_world) = None"
    by (simp add: find_by_idempotency_key_def empty_world_def)
  with sample_initiated
  have "initiate_payment sample_env sample_cmd empty_world = initiate_checked sample_env sample_cmd empty_world"
    by (auto simp: initiate_payment_def Let_def split: if_splits)
  with sample_initiated
  show "initiate_checked sample_env sample_cmd empty_world = (Inr \<lparr>dto_reference = ''TXN-1'',
      dto_payment_link = ''https://pay'', dto_expires_at = Some (1000 + minutes 30)\<rparr>, sample_world)"
    by simp
qed (simp_all add: empty_world_def sample_env_def find_by_reference_def)

end
