(* ===== verification/Payment_Gateway.thy ===== *)
theory Payment_Gateway
  imports Payment_Theorems
begin

text \<open>
  The Flutterwave gateway (\<open>payments/infrastructure/flutterwave_gateway.py\<close>). The amount the
  provider reports passes through an IEEE double: \<open>int(float(x) * 10 ** d)\<close>. Doubles are the
  rationals that rounding to 53 significant bits (half to even) leaves; the amounts are far from
  the overflow and the subnormal range.
\<close>

section \<open>Double precision\<close>

fun bits :: "nat \<Rightarrow> nat" where
  "bits n = (if n = 0 then 0 else Suc (bits (n div 2)))"

declare bits.simps [simp del]

definition exp2 :: "int \<Rightarrow> rat" where
  "exp2 k = (if 0 \<le> k then 2 ^ nat k else 1 / 2 ^ nat (- k))"

text \<open>The exponent of the binade of a positive rational.\<close>

definition binade :: "rat \<Rightarrow> int" where
  "binade x =
     (case quotient_of x of (a, b) \<Rightarrow>
        (let k = int (bits (nat a)) - int (bits (nat b)) in if exp2 k \<le> x then k else k - 1))"

definition round_even :: "rat \<Rightarrow> int" where
  "round_even x =
     (let f = floor x; d = x - of_int f in
      if d < 1 / 2 then f else if d > 1 / 2 then f + 1 else if even f then f else f + 1)"

definition float_round :: "rat \<Rightarrow> rat" where
  "float_round x =
     (if x = 0 then 0
      else let k = binade \<bar>x\<bar> in sgn x * of_int (round_even (\<bar>x\<bar> * exp2 (52 - k))) * exp2 (k - 52))"

section \<open>The gateway\<close>

definition gateway_decimals :: "string \<Rightarrow> nat" where
  "gateway_decimals c =
     (case map_of [(''RWF'', 0), (''USD'', 2), (''EUR'', 2), (''KES'', 2), (''GHS'', 2), (''NGN'', 2)] c of
        None \<Rightarrow> 2 | Some d \<Rightarrow> d)"

definition gateway_amount :: "rat \<Rightarrow> string \<Rightarrow> int" where
  "gateway_amount x c = round_down (float_round (float_round x * 10 ^ gateway_decimals c))"

text \<open>
  The provider's HTTP answer: a failure of any kind (transport, status code, JSON shape), or the
  \<open>status\<close> of the answer with the transaction in it.
\<close>

record flw_tx =
  fx_status :: string
  fx_amount :: rat
  fx_currency :: string
  fx_tx_ref :: string

datatype flw_reply = FlwFails | FlwReply string flw_tx

definition verify_transaction :: "flw_reply \<Rightarrow> string \<Rightarrow> gateway_answer" where
  "verify_transaction reply ref =
     (case reply of
        FlwFails \<Rightarrow> GwRaises
      | FlwReply st tx \<Rightarrow>
          (if st \<noteq> ''success'' then GwNothing
           else GwVerified
             \<lparr>vt_provider_reference = ref,
              vt_status = (if fx_status tx = ''successful'' then ''successful'' else fx_status tx),
              vt_amount_minor_units = gateway_amount (fx_amount tx) (fx_currency tx),
              vt_currency_code = fx_currency tx\<rparr>))"

record flw_request =
  fq_tx_ref :: string
  fq_amount :: rat
  fq_currency :: string
  fq_redirect_url :: string
  fq_email :: string
  fq_name :: string

datatype flw_link_reply = FlwLinkFails | FlwLinkReply string string

definition create_payment_link ::
  "string \<Rightarrow> money \<Rightarrow> currency \<Rightarrow> string \<Rightarrow> string \<Rightarrow> string option \<Rightarrow> flw_link_reply \<Rightarrow>
     flw_request \<times> (string \<times> string) option" where
  "create_payment_link hex amount c redirect_url email name reply =
     (let tx_ref = ''flw_'' @ hex in
      (\<lparr>fq_tx_ref = tx_ref, fq_amount = money_to_decimal amount, fq_currency = cur_code c,
        fq_redirect_url = redirect_url, fq_email = email,
        fq_name = (case name of None \<Rightarrow> email | Some n \<Rightarrow> if n = '''' then email else n)\<rparr>,
       case reply of
         FlwLinkFails \<Rightarrow> None
       | FlwLinkReply st link \<Rightarrow> if st \<noteq> ''success'' then None else Some (link, tx_ref)))"

section \<open>Integers below 2 to the 53 are exact\<close>

lemma bits_0 [simp]: "bits 0 = 0"
  by (simp add: bits.simps)

lemma bits_pos: "0 < n \<Longrightarrow> bits n = Suc (bits (n div 2))"
  by (simp add: bits.simps)

lemma bits_bound: "n < 2 ^ bits n"
proof (induction n rule: bits.induct)
  case (1 n)
  show ?case
  proof (cases "n = 0")
    case False
    with 1 have "n div 2 < 2 ^ bits (n div 2)" by simp
    with False show ?thesis by (simp add: bits_pos)
  qed simp
qed

lemma bits_lower: "0 < n \<Longrightarrow> 2 ^ (bits n - 1) \<le> n"
proof (induction n rule: bits.induct)
  case (1 n)
  show ?case
  proof (cases "n div 2 = 0")
    case True
    with 1 show ?thesis by (simp add: bits_pos)
  next
    case False
    then have "0 < bits (n div 2)" by (simp add: bits_pos)
    with 1 False have "2 ^ (bits (n div 2) - 1) \<le> n div 2" by simp
    then have "2 * 2 ^ (bits (n div 2) - 1) \<le> n" by linarith
    with \<open>0 < bits (n div 2)\<close> 1 show ?thesis
      by (cases "bits (n div 2)") (simp_all add: bits_pos)
  qed
qed

lemma bits_le: "n < 2 ^ m \<Longrightarrow> bits n \<le> m"
proof (cases "n = 0")
  case False
  assume "n < 2 ^ m"
  with bits_lower [of n] False have "(2::nat) ^ (bits n - 1) < 2 ^ m" by linarith
  then show ?thesis by simp
qed simp

lemma round_even_of_int [simp]: "round_even (of_int k) = k"
  by (simp add: round_even_def)

lemma exp2_add_nonneg: "0 \<le> k \<Longrightarrow> exp2 k * exp2 (- k) = 1"
  by (auto simp: exp2_def)

lemma float_round_int:
  assumes "0 < k" and "k < 2 ^ 53"
  shows "float_round (of_int k) = of_int k"
proof -
  define n where "n = bits (nat k)"
  have n: "0 < n" "n \<le> 53"
    unfolding n_def using assms by (simp_all add: bits_pos bits_le nat_less_iff)
  have k1: "k < 2 ^ n"
    using bits_bound [of "nat k"] assms unfolding n_def by (simp add: nat_less_iff)
  have k2: "2 ^ (n - 1) \<le> k"
    using bits_lower [of "nat k"] assms unfolding n_def by (simp add: le_nat_iff)
  have "exp2 (int n - 1) \<le> of_int k"
    using k2 n(1) of_int_le_iff [of "2 ^ (n - 1)" k, where 'a = rat]
    by (simp add: exp2_def nat_diff_distrib)
  moreover have "bits (Suc 0) = 1" by (simp add: bits_pos)
  moreover have "\<bar>of_int k\<bar> = (of_int k :: rat)" using assms by simp
  ultimately have b: "binade (of_int k) = int n - 1"
    using assms by (simp add: binade_def n_def [symmetric] Let_def)
  define m where "m = 53 - int n"
  have m: "52 - (int n - 1) = m" "int n - 1 - 52 = - m" "0 \<le> m"
    using n by (simp_all add: m_def)
  have "(of_int k :: rat) * exp2 m = of_int (k * 2 ^ nat m)"
    using m(3) by (simp add: exp2_def)
  then have r: "round_even (of_int k * exp2 m) = k * 2 ^ nat m"
    by (metis round_even_of_int)
  have "float_round (of_int k) = of_int (round_even (of_int k * exp2 m)) * exp2 (- m)"
    using assms(1) by (simp add: float_round_def b Let_def m(1,2))
  also have "\<dots> = of_int k * (exp2 m * exp2 (- m))"
    using m(3) by (simp add: r) (simp add: exp2_def)
  finally show ?thesis
    using exp2_add_nonneg [OF m(3)] by simp
qed

lemma gateway_amount_int:
  assumes "0 < k" and "k * 10 ^ gateway_decimals c < 2 ^ 53"
  shows "gateway_amount (of_int k) c = k * 10 ^ gateway_decimals c"
proof -
  have "k \<le> k * 10 ^ gateway_decimals c" using assms(1) by simp
  with assms(2) have "k < 2 ^ 53" by linarith
  with assms(1) have f: "float_round (of_int k) = (of_int k :: rat)" by (rule float_round_int)
  have "float_round (of_int k) * 10 ^ gateway_decimals c = (of_int (k * 10 ^ gateway_decimals c) :: rat)"
    by (simp add: f)
  moreover have "float_round (of_int (k * 10 ^ gateway_decimals c)) = (of_int (k * 10 ^ gateway_decimals c) :: rat)"
    using assms by (intro float_round_int) simp_all
  ultimately have "gateway_amount (of_int k) c = round_down (of_int (k * 10 ^ gateway_decimals c))"
    unfolding gateway_amount_def by metis
  then show ?thesis by (simp only: round_down_of_int)
qed

lemma gateway_decimals_ok:
  assumes "currency_ok c"
  shows "gateway_decimals (cur_code c) = cur_decimals c"
proof -
  have "cur_code c \<in> fst ` set supported_currencies"
    using assms by (cases "map_of supported_currencies (cur_code c)")
      (auto simp: currency_ok_def mk_currency_def dest!: map_of_SomeD intro: rev_image_eqI)
  moreover have "list_all (\<lambda>s. case mk_currency s of Inr c' \<Rightarrow> gateway_decimals s = cur_decimals c' | Inl _ \<Rightarrow> True)
      (map fst supported_currencies)"
    by code_simp
  ultimately have "case mk_currency (cur_code c) of
      Inr c' \<Rightarrow> gateway_decimals (cur_code c) = cur_decimals c' | Inl _ \<Rightarrow> True"
    unfolding list_all_iff set_map by (rule bspec [rotated])
  with assms show ?thesis by (simp add: currency_ok_def)
qed

lemma money_max: "money_ok m \<Longrightarrow> minor_units m \<le> 50000000"
proof -
  assume m: "money_ok m"
  have "list_all (\<lambda>(c, d, lo, hi). hi \<le> (50000000::int)) supported_currencies"
    by (simp add: supported_currencies_def)
  moreover obtain d lo where "map_of supported_currencies (cur_code (mon_currency m)) =
      Some (d, lo, cur_max_minor (mon_currency m))"
    using m by (cases m; cases "mon_currency m")
      (auto simp: money_ok_def currency_ok_def mk_currency_def split: option.splits)
  ultimately have "cur_max_minor (mon_currency m) \<le> 50000000"
    by (auto simp: list_all_iff dest!: map_of_SomeD)
  with m show ?thesis by (simp add: money_ok_def)
qed

section \<open>19.99 through a double\<close>

lemma float_round_1999: "float_round (1999 / 100) = 5626684784446013 / 281474976710656"
proof -
  have q: "quotient_of (1999 / 100) = (1999, 100)" by code_simp
  have "binade (1999 / 100) = 4"
    by (simp add: binade_def q bits.simps exp2_def Let_def)
  moreover have "\<lfloor>140667119611150336 / 25 :: rat\<rfloor> = 5626684784446013" by (simp add: floor_eq_iff)
  ultimately show ?thesis by (simp add: float_round_def exp2_def round_even_def Let_def)
qed

lemma float_round_1999_100:
  "float_round (140667119611150325 / 70368744177664) = 8791694975696895 / 4398046511104"
proof -
  have q: "quotient_of (140667119611150325 / 70368744177664) = (140667119611150325, 70368744177664)"
    by code_simp
  have "binade (140667119611150325 / 70368744177664) = 10"
    by (simp add: binade_def q bits.simps exp2_def Let_def)
  moreover have "\<lfloor>140667119611150325 / 16 :: rat\<rfloor> = 8791694975696895" by (simp add: floor_eq_iff)
  ultimately show ?thesis by (simp add: float_round_def exp2_def round_even_def Let_def)
qed

lemma gateway_amount_1999: "gateway_amount (1999 / 100) ''USD'' = 1998"
proof -
  have "\<lfloor>8791694975696895 / 4398046511104 :: rat\<rfloor> = 1998" by (simp add: floor_eq_iff)
  then show ?thesis
    by (simp add: gateway_amount_def gateway_decimals_def float_round_1999 float_round_1999_100 round_down_def)
qed

section \<open>What the provider's amount becomes\<close>

text \<open>For an amount of whole currency units (every RWF amount) the gateway recovers the
  stored minor units from the decimal the payment link asked for.\<close>

theorem gateway_amount_whole_units:
  assumes "money_ok m" and "minor_units m mod 10 ^ cur_decimals (mon_currency m) = 0"
  shows "gateway_amount (money_to_decimal m) (cur_code (mon_currency m)) = minor_units m"
proof -
  define d where "d = cur_decimals (mon_currency m)"
  have c: "currency_ok (mon_currency m)" and lo: "0 < minor_units m"
    using assms(1) currency_ok_range [of "mon_currency m"] by (auto simp: money_ok_def)
  obtain k where k: "minor_units m = k * 10 ^ d"
    using assms(2) unfolding d_def by (metis mod_0_imp_dvd dvd_def mult.commute)
  have "0 < k" using lo k by (simp add: zero_less_mult_iff)
  moreover have "gateway_decimals (cur_code (mon_currency m)) = d"
    using gateway_decimals_ok [OF c] by (simp add: d_def)
  moreover have "k * 10 ^ d < 2 ^ 53" using money_max [OF assms(1)] k by simp
  moreover have "money_to_decimal m = of_int k"
    by (simp add: money_to_decimal_def d_def [symmetric] k)
  ultimately show ?thesis using gateway_amount_int [of k "cur_code (mon_currency m)"] k by simp
qed

theorem gateway_amount_whole_units_witness:
  "gateway_amount (money_to_decimal \<lparr>minor_units = 2000, mon_currency = sample_usd\<rparr>) ''USD'' = 2000"
  using gateway_amount_whole_units [of "\<lparr>minor_units = 2000, mon_currency = sample_usd\<rparr>"]
  by (simp add: money_ok_def currency_ok_def sample_usd_def mk_currency_def supported_currencies_def)

text \<open>With cents the double arithmetic can lose one minor unit: a USD payment of 19.99 that
  the provider reports as paid in full, successful and in time is read as 1998 cents, stays
  pending and is recorded as fraud.\<close>

theorem gateway_amount_false_fraud:
  "money_ok (p_amount sample_payment) \<and>
   gateway_amount (money_to_decimal (p_amount sample_payment)) ''USD'' = minor_units (p_amount sample_payment) - 1 \<and>
   (let (r, w) = process_webhook False (sample_hook_env\<lparr>he_verify := verify_transaction (FlwReply ''success''
        \<lparr>fx_status = ''successful'', fx_amount = money_to_decimal (p_amount sample_payment),
         fx_currency = ''USD'', fx_tx_ref = ''flw_1''\<rparr>)\<rparr>) sample_hook sample_world
    in r = Inr () \<and> w_payments w = [sample_payment] \<and> map hk_status (w_hooks w) = [HK_FRAUD_DETECTED])"
proof (intro conjI)
  have dec: "money_to_decimal (p_amount sample_payment) = 1999 / 100"
    by (simp add: money_to_decimal_def sample_payment_def sample_usd_def)
  show "money_ok (p_amount sample_payment)" by code_simp
  show "gateway_amount (money_to_decimal (p_amount sample_payment)) ''USD'' =
      minor_units (p_amount sample_payment) - 1"
    unfolding dec gateway_amount_1999 by (simp add: sample_payment_def)
  have verify: "verify_transaction (FlwReply ''success''
        \<lparr>fx_status = ''successful'', fx_amount = 1999 / 100, fx_currency = ''USD'', fx_tx_ref = ''flw_1''\<rparr>) =
      (\<lambda>ref. GwVerified \<lparr>vt_provider_reference = ref, vt_status = ''successful'',
        vt_amount_minor_units = 1998, vt_currency_code = ''USD''\<rparr>)"
    by (simp add: verify_transaction_def gateway_amount_1999 fun_eq_iff)
  show "let (r, w) = process_webhook False (sample_hook_env\<lparr>he_verify := verify_transaction (FlwReply ''success''
        \<lparr>fx_status = ''successful'', fx_amount = money_to_decimal (p_amount sample_payment),
         fx_currency = ''USD'', fx_tx_ref = ''flw_1''\<rparr>)\<rparr>) sample_hook sample_world
    in r = Inr () \<and> w_payments w = [sample_payment] \<and> map hk_status (w_hooks w) = [HK_FRAUD_DETECTED]"
    unfolding dec verify by code_simp
qed

end
