(* ===== verification/Payment_Auth.thy ===== *)
theory Payment_Auth
  imports Payment_Gateway
begin

text \<open>
  The request guards in front of the payment endpoints: the HMAC validator for API-key clients
  (\<open>payments/infrastructure/middleware.py\<close>) with the API-key repository, and the step-up
  middleware. Redis and the cache are maps to expiry times read against a clock in the state; the
  hash functions are arguments. Header values are Latin-1 strings, as WSGI delivers them.
\<close>

section \<open>Parsing\<close>

text \<open>\<open>int(s)\<close>: surrounding space, a sign, decimal digits with single underscores between them,
  at most 4300 digits; anything else raises \<open>ValueError\<close>.\<close>

definition is_digit :: "char \<Rightarrow> bool" where
  "is_digit c = (48 \<le> code c \<and> code c \<le> 57)"

fun py_digits :: "bool \<Rightarrow> int \<Rightarrow> string \<Rightarrow> int option" where
  "py_digits after_digit acc [] = (if after_digit then Some acc else None)"
| "py_digits after_digit acc (c # cs) =
     (if c = CHR ''_'' then (if after_digit then py_digits False acc cs else None)
      else if is_digit c then py_digits True (acc * 10 + (int (code c) - 48)) cs else None)"

definition py_nat :: "string \<Rightarrow> int option" where
  "py_nat s = (if length (filter is_digit s) > 4300 then None else py_digits False 0 s)"

definition py_int :: "string \<Rightarrow> int option" where
  "py_int s =
     (case py_strip s of
        [] \<Rightarrow> None
      | c # cs \<Rightarrow> if c = CHR ''-'' then map_option uminus (py_nat cs)
                  else if c = CHR ''+'' then py_nat cs else py_nat (c # cs))"

text \<open>The strict UTF-8 decoder accepts exactly these byte strings.\<close>

definition utf8_tail :: "byte \<Rightarrow> bool" where
  "utf8_tail b = (128 \<le> b \<and> b < 192)"

fun valid_utf8 :: "byte list \<Rightarrow> bool" where
  "valid_utf8 [] = True"
| "valid_utf8 (a # bs) =
     (if a < 128 then valid_utf8 bs
      else (case bs of
              [] \<Rightarrow> False
            | b # cs \<Rightarrow>
                if 194 \<le> a \<and> a < 224 then utf8_tail b \<and> valid_utf8 cs
                else (case cs of
                        [] \<Rightarrow> False
                      | c # ds \<Rightarrow>
                          if 224 \<le> a \<and> a < 240
                          then utf8_tail b \<and> utf8_tail c \<and> (a = 224 \<longrightarrow> 160 \<le> b) \<and>
                               (a = 237 \<longrightarrow> b < 160) \<and> valid_utf8 ds
                          else (case ds of
                                  [] \<Rightarrow> False
                                | d # es \<Rightarrow>
                                    240 \<le> a \<and> a < 245 \<and> utf8_tail b \<and> utf8_tail c \<and> utf8_tail d \<and>
                                    (a = 240 \<longrightarrow> 144 \<le> b) \<and> (a = 244 \<longrightarrow> b < 144) \<and> valid_utf8 es))))"

section \<open>API keys\<close>

record api_key =
  ak_key_id :: string
  ak_secret_plain :: "string option"
  ak_user_id :: uuid
  ak_scopes :: "string list"
  ak_is_active :: bool
  ak_expires_at :: "instant option"
  ak_last_used_at :: "instant option"

definition find_by_key_id :: "string \<Rightarrow> instant \<Rightarrow> api_key list \<Rightarrow> api_key option" where
  "find_by_key_id key_id now keys =
     (case find (\<lambda>k. ak_key_id k = key_id) keys of
        None \<Rightarrow> None
      | Some k \<Rightarrow>
          if \<not> ak_is_active k then None
          else if (case ak_expires_at k of None \<Rightarrow> False | Some t \<Rightarrow> t < now) then None
          else if ak_secret_plain k = None \<or> ak_secret_plain k = Some '''' then None
          else Some k)"

definition mark_used :: "string \<Rightarrow> instant \<Rightarrow> api_key list \<Rightarrow> api_key list" where
  "mark_used key_id now keys =
     map (\<lambda>k. if ak_key_id k = key_id then k\<lparr>ak_last_used_at := Some now\<rparr> else k) keys"

section \<open>The HMAC validator\<close>

record http_request =
  hq_method :: string
  hq_path :: string
  hq_authorization :: "string option"
  hq_timestamp :: "string option"
  hq_nonce :: "string option"
  hq_signature :: "string option"
  hq_key_id :: "string option"
  hq_body :: "byte list"
  hq_forwarded_for :: "string option"
  hq_remote_addr :: string

record auth_state =
  au_now :: instant
  au_nonces :: "string \<Rightarrow> instant option"
  au_failures :: "string \<Rightarrow> (nat \<times> instant) option"
  au_blocked :: "string \<Rightarrow> instant option"
  au_keys :: "api_key list"

text \<open>The hash functions, and whether each Redis call of this request goes through.\<close>

record auth_env =
  av_sha256 :: "byte list \<Rightarrow> string"
  av_hmac :: "string \<Rightarrow> string \<Rightarrow> string"
  av_client :: bool
  av_exists :: bool
  av_setex :: bool
  av_block :: bool

datatype auth_reply = AuthAccept uuid | AuthReject nat string | AuthRaises

definition live :: "instant \<Rightarrow> instant option \<Rightarrow> bool" where
  "live now x = (case x of None \<Rightarrow> False | Some t \<Rightarrow> now < t)"

definition get_required_scope :: "http_request \<Rightarrow> string" where
  "get_required_scope r =
     (if suffix ''/initiate/'' (hq_path r) then ''initiate_payment''
      else if py_contains ''/status/'' (hq_path r) then ''read_status'' else ''full_access'')"

definition newline :: string where
  "newline = [CHR 0x0A]"

text \<open>\<open>request.body.decode('utf-8')\<close> raises on an invalid body.\<close>

definition build_canonical :: "auth_env \<Rightarrow> http_request \<Rightarrow> string \<Rightarrow> string \<Rightarrow> string option" where
  "build_canonical e r timestamp nonce =
     (if \<not> valid_utf8 (hq_body r) then None
      else Some (hq_method r @ newline @ hq_path r @ newline @ timestamp @ newline @ nonce @ newline @
                 av_sha256 e (hq_body r)))"

definition get_client_ip :: "http_request \<Rightarrow> string" where
  "get_client_ip r =
     (case hq_forwarded_for r of
        Some x \<Rightarrow> if x \<noteq> '''' then py_strip (takeWhile (\<lambda>c. c \<noteq> CHR '','') x) else hq_remote_addr r
      | None \<Rightarrow> hq_remote_addr r)"

definition record_failure :: "auth_env \<Rightarrow> http_request \<Rightarrow> auth_state \<Rightarrow> auth_state" where
  "record_failure e r s =
     (let ip = get_client_ip r;
          current = (case au_failures s ip of None \<Rightarrow> 0 | Some (n, t) \<Rightarrow> if au_now s < t then n else 0);
          s' = s\<lparr>au_failures := (au_failures s)(ip := Some (current + 1, au_now s + seconds 300))\<rparr>
      in if current + 1 \<ge> 10 \<and> av_client e \<and> av_block e
         then s'\<lparr>au_blocked := (au_blocked s)(ip := Some (au_now s + seconds 3600))\<rparr> else s')"

definition redis_unavailable :: auth_reply where
  "redis_unavailable = AuthReject 503 ''Payment request verification is temporarily unavailable''"

definition present :: "string option \<Rightarrow> string" where
  "present h = (case h of None \<Rightarrow> '''' | Some s \<Rightarrow> s)"

text \<open>The checks after the nonce lookup: key, scope, secret, signature; then the nonce is stored.
  \<open>secrets.compare_digest\<close> raises on a string that is not ASCII.\<close>

definition validate_key ::
  "auth_env \<Rightarrow> http_request \<Rightarrow> string \<Rightarrow> string \<Rightarrow> auth_state \<Rightarrow> auth_reply \<times> auth_state" where
  "validate_key e r timestamp nonce s =
     (let key_id = present (hq_key_id r); signature = present (hq_signature r) in
      case find_by_key_id key_id (au_now s) (au_keys s) of
        None \<Rightarrow> (AuthReject 401 ''Invalid API key'', record_failure e r s)
      | Some k \<Rightarrow>
          if get_required_scope r \<notin> set (ak_scopes k) \<and> ''full_access'' \<notin> set (ak_scopes k)
          then (AuthReject 403 ''Insufficient scope'', record_failure e r s)
          else (case build_canonical e r timestamp nonce of
                  None \<Rightarrow> (AuthRaises, s)
                | Some canonical \<Rightarrow>
                    (let secret = present (ak_secret_plain k) in
                     if secret = '''' then (AuthReject 401 ''Invalid API key'', record_failure e r s)
                     else if \<not> list_all (\<lambda>c. code c < 128) signature then (AuthRaises, s)
                     else if signature \<noteq> av_hmac e secret canonical
                     then (AuthReject 401 ''Invalid signature'', record_failure e r s)
                     else if \<not> av_setex e then (redis_unavailable, s)
                     else (AuthAccept (ak_user_id k),
                           s\<lparr>au_nonces := (au_nonces s)(nonce := Some (au_now s + seconds 900)),
                             au_keys := mark_used key_id (au_now s) (au_keys s)\<rparr>))))"

definition validate_request :: "auth_env \<Rightarrow> http_request \<Rightarrow> auth_state \<Rightarrow> auth_reply \<times> auth_state" where
  "validate_request e r s =
     (let timestamp = present (hq_timestamp r); nonce = present (hq_nonce r) in
      if timestamp = '''' \<or> nonce = '''' \<or> present (hq_signature r) = '''' \<or> present (hq_key_id r) = ''''
      then (AuthReject 401 ''Missing required headers'', s)
      else (case py_int timestamp of
              None \<Rightarrow> (AuthReject 401 ''Invalid timestamp'', s)
            | Some ts \<Rightarrow>
                if \<bar>au_now s div seconds 1 - ts\<bar> > 300 then (AuthReject 401 ''Request expired'', s)
                else if \<not> av_client e then (redis_unavailable, s)
                else if \<not> av_exists e then (redis_unavailable, s)
                else if live (au_now s) (au_nonces s nonce)
                then (AuthReject 401 ''Nonce already used'', record_failure e r s)
                else validate_key e r timestamp nonce s))"

text \<open>\<open>HmacRequestValidator.__call__\<close>: \<open>None\<close> when the request passes without validation.\<close>

definition hmac_guard :: "auth_env \<Rightarrow> http_request \<Rightarrow> auth_state \<Rightarrow> auth_reply option \<times> auth_state" where
  "hmac_guard e r s =
     (if \<not> py_startswith (hq_path r) ''/api/django/payments/'' then (None, s)
      else if suffix ''/webhooks/flutterwave/'' (hq_path r) \<or>
              py_contains ''/.well-known/payment-public-key'' (hq_path r) then (None, s)
      else if py_startswith (present (hq_authorization r)) ''Bearer '' then (None, s)
      else (case validate_request e r s of (reply, s') \<Rightarrow> (Some reply, s')))"

section \<open>The step-up middleware\<close>

text \<open>
  \<open>request.auth\<close> is the decoded token (its \<open>step_up\<close> claim), or nothing. The body's amount and
  currency are what the JSON object holds; an amount \<open>Decimal\<close> cannot read, an unknown currency or
  an amount out of range is left to the view. The answer says whether the request is stopped.
\<close>

definition step_up_stops ::
  "http_request \<Rightarrow> bool option \<Rightarrow> (rat option) option \<Rightarrow> string option \<Rightarrow> bool" where
  "step_up_stops r auth amount currency_code =
     (if suffix ''/initiate/'' (hq_path r) \<and> hq_method r = ''POST''
      then (case auth of
              None \<Rightarrow> False
            | Some step_up \<Rightarrow>
                (case (amount, currency_code) of
                   (Some (Some a), Some c) \<Rightarrow>
                     if c = '''' then False
                     else (case mk_currency c of
                             Inl _ \<Rightarrow> False
                           | Inr cur \<Rightarrow>
                               (case money_from_decimal a cur of
                                  Inl _ \<Rightarrow> False
                                | Inr m \<Rightarrow> su_required (is_step_up_required m step_up)))
                 | _ \<Rightarrow> False))
      else False)"

section \<open>What an accepted request has shown\<close>

lemma validate_key_accepts:
  assumes "validate_key e r ts n s = (AuthAccept u, s')"
  obtains k canonical where "find_by_key_id (present (hq_key_id r)) (au_now s) (au_keys s) = Some k"
    "ak_user_id k = u" "get_required_scope r \<in> set (ak_scopes k) \<or> ''full_access'' \<in> set (ak_scopes k)"
    "build_canonical e r ts n = Some canonical"
    "present (hq_signature r) = av_hmac e (present (ak_secret_plain k)) canonical"
    "s' = s\<lparr>au_nonces := (au_nonces s)(n := Some (au_now s + seconds 900)),
            au_keys := mark_used (present (hq_key_id r)) (au_now s) (au_keys s)\<rparr>"
  using assms
  by (auto simp: validate_key_def redis_unavailable_def Let_def split: option.splits if_splits)

lemma validate_request_accepts:
  assumes "validate_request e r s = (AuthAccept u, s')"
  obtains ts where "py_int (present (hq_timestamp r)) = Some ts"
    "\<bar>au_now s div seconds 1 - ts\<bar> \<le> 300" "\<not> live (au_now s) (au_nonces s (present (hq_nonce r)))"
    "validate_key e r (present (hq_timestamp r)) (present (hq_nonce r)) s = (AuthAccept u, s')"
  using assms
  by (auto simp: validate_request_def redis_unavailable_def Let_def split: option.splits if_splits)

lemma hmac_guard_accepts:
  "hmac_guard e r s = (Some (AuthAccept u), s') \<Longrightarrow> validate_request e r s = (AuthAccept u, s')"
  by (auto simp: hmac_guard_def split: if_splits prod.splits)

lemma find_by_key_id_Some:
  assumes "find_by_key_id i now keys = Some k"
  shows "k \<in> set keys \<and> ak_key_id k = i \<and> ak_is_active k \<and> present (ak_secret_plain k) \<noteq> '''' \<and>
    (\<forall>t. ak_expires_at k = Some t \<longrightarrow> now \<le> t)"
proof -
  obtain k' where "find (\<lambda>k. ak_key_id k = i) keys = Some k'"
    using assms by (cases "find (\<lambda>k. ak_key_id k = i) keys") (auto simp: find_by_key_id_def)
  moreover from find_Some_set [OF this] have "k' \<in> set keys" "ak_key_id k' = i" by simp_all
  ultimately show ?thesis
    using assms by (auto simp: find_by_key_id_def present_def split: if_splits option.splits)
qed

section \<open>Nonces are not accepted twice\<close>

text \<open>A later request: the time since the one before, its environment and the request.\<close>

type_synonym auth_op = "nat \<times> auth_env \<times> http_request"

definition auth_at :: "nat \<Rightarrow> auth_state \<Rightarrow> auth_state" where
  "auth_at d s = s\<lparr>au_now := au_now s + int d\<rparr>"

definition auth_step :: "auth_op \<Rightarrow> auth_state \<Rightarrow> auth_state" where
  "auth_step op s = (case op of (d, e, r) \<Rightarrow> snd (hmac_guard e r (auth_at d s)))"

definition nonce_kept :: "string \<Rightarrow> instant \<Rightarrow> auth_state \<Rightarrow> bool" where
  "nonce_kept n t s \<longleftrightarrow> t \<le> au_now s \<and> (\<exists>x. au_nonces s n = Some x \<and> t + seconds 900 \<le> x)"

lemma record_failure_frame [simp]:
  "au_now (record_failure e r s) = au_now s" "au_nonces (record_failure e r s) = au_nonces s"
  "au_keys (record_failure e r s) = au_keys s"
  by (simp_all add: record_failure_def Let_def)

lemma validate_key_nonces:
  "au_now (snd (validate_key e r ts n s)) = au_now s \<and>
   (au_nonces (snd (validate_key e r ts n s)) = au_nonces s \<or>
    au_nonces (snd (validate_key e r ts n s)) = (au_nonces s)(n := Some (au_now s + seconds 900)))"
  by (simp add: validate_key_def Let_def split: option.splits)

lemma hmac_guard_nonces:
  "au_now (snd (hmac_guard e r s)) = au_now s \<and>
   (au_nonces (snd (hmac_guard e r s)) = au_nonces s \<or>
    (\<exists>n. au_nonces (snd (hmac_guard e r s)) = (au_nonces s)(n := Some (au_now s + seconds 900))))"
  using validate_key_nonces [of e r "present (hq_timestamp r)" "present (hq_nonce r)" s]
  by (auto simp: hmac_guard_def validate_request_def Let_def split: prod.splits option.splits if_splits)

lemma auth_step_nonce_kept: "nonce_kept n t s \<Longrightarrow> nonce_kept n t (auth_step op s)"
proof -
  assume kept: "nonce_kept n t s"
  obtain d e r where op: "op = (d, e, r)" by (cases op)
  define s' where "s' = auth_at d s"
  have "nonce_kept n t s'" using kept by (auto simp: nonce_kept_def s'_def auth_at_def)
  with hmac_guard_nonces [of e r s'] show ?thesis
    by (auto simp: op auth_step_def s'_def [symmetric] nonce_kept_def)
qed

interpretation nonce_history: invariant_system auth_step "nonce_kept n t" for n t
  by unfold_locales (rule auth_step_nonce_kept)

lemma timestamp_window:
  fixes t t' :: int
  assumes "\<bar>t div seconds 1 - ts\<bar> \<le> 300" and "\<bar>t' div seconds 1 - ts\<bar> \<le> 300"
  shows "t' < t + seconds 900"
proof -
  have "t' div 1000000 \<le> t div 1000000 + 600" using assms by (simp add: time_units)
  then show ?thesis by (simp add: time_units)
qed

lemma hmac_accept_keeps_nonce:
  assumes "validate_request e r s = (AuthAccept u, s')"
  shows "nonce_kept (present (hq_nonce r)) (au_now s) s'"
proof -
  obtain ts where "validate_key e r (present (hq_timestamp r)) (present (hq_nonce r)) s = (AuthAccept u, s')"
    using assms by (rule validate_request_accepts)
  from validate_key_accepts [OF this]
  have "au_nonces s' (present (hq_nonce r)) = Some (au_now s + seconds 900) \<and> au_now s' = au_now s"
    by (metis (no_types, lifting) auth_state.simps(1,2,8) auth_state.surjective auth_state.update_convs(2,5) fun_upd_same)
  then show ?thesis by (simp add: nonce_kept_def)
qed

section \<open>The guard's properties\<close>

definition sample_request :: http_request where
  "sample_request = \<lparr>hq_method = ''POST'', hq_path = ''/api/django/payments/initiate/'', hq_authorization = None,
     hq_timestamp = Some ''1000'', hq_nonce = Some ''n1'', hq_signature = Some ''secret'',
     hq_key_id = Some ''pk_1'', hq_body = [], hq_forwarded_for = None, hq_remote_addr = ''10.0.0.1''\<rparr>"

definition sample_auth_env :: auth_env where
  "sample_auth_env = \<lparr>av_sha256 = (\<lambda>_. ''''), av_hmac = (\<lambda>k m. k), av_client = True, av_exists = True,
     av_setex = True, av_block = True\<rparr>"

definition sample_auth :: auth_state where
  "sample_auth = \<lparr>au_now = seconds 1100, au_nonces = (\<lambda>_. None), au_failures = (\<lambda>_. None),
     au_blocked = (\<lambda>_. None), au_keys = [\<lparr>ak_key_id = ''pk_1'', ak_secret_plain = Some ''secret'',
       ak_user_id = 7, ak_scopes = [''initiate_payment''], ak_is_active = True, ak_expires_at = None,
       ak_last_used_at = None\<rparr>]\<rparr>"

lemma sample_accepted:
  "hmac_guard sample_auth_env sample_request sample_auth =
     (Some (AuthAccept 7), snd (hmac_guard sample_auth_env sample_request sample_auth))"
proof -
  have "fst (hmac_guard sample_auth_env sample_request sample_auth) = Some (AuthAccept 7)"
    by code_simp
  then show ?thesis by (simp add: prod_eq_iff)
qed

text \<open>C26. The HMAC guard accepts a request only when its signature is the keyed hash of the
  canonical request under the secret of an active, unexpired key that has the scope of the
  endpoint, its timestamp is within 300 seconds and its nonce is unused; the request then acts for
  that key's user.\<close>

theorem hmac_accepts_only_signed:
  assumes "hmac_guard e r s = (Some (AuthAccept u), s')"
  shows "\<exists>k ts canonical. k \<in> set (au_keys s) \<and> ak_key_id k = present (hq_key_id r) \<and> ak_user_id k = u \<and>
    ak_is_active k \<and> (case ak_expires_at k of None \<Rightarrow> True | Some t \<Rightarrow> au_now s \<le> t) \<and>
    (get_required_scope r \<in> set (ak_scopes k) \<or> ''full_access'' \<in> set (ak_scopes k)) \<and>
    build_canonical e r (present (hq_timestamp r)) (present (hq_nonce r)) = Some canonical \<and>
    hq_signature r = Some (av_hmac e (present (ak_secret_plain k)) canonical) \<and>
    py_int (present (hq_timestamp r)) = Some ts \<and> \<bar>au_now s div seconds 1 - ts\<bar> \<le> 300 \<and>
    \<not> live (au_now s) (au_nonces s (present (hq_nonce r)))"
proof -
  have v: "validate_request e r s = (AuthAccept u, s')" using assms by (rule hmac_guard_accepts)
  then have "present (hq_signature r) \<noteq> ''''"
    by (auto simp: validate_request_def Let_def)
  then have sig: "hq_signature r = Some (present (hq_signature r))"
    by (auto simp: present_def split: option.splits)
  obtain ts where ts: "py_int (present (hq_timestamp r)) = Some ts"
    "\<bar>au_now s div seconds 1 - ts\<bar> \<le> 300" "\<not> live (au_now s) (au_nonces s (present (hq_nonce r)))"
    and k: "validate_key e r (present (hq_timestamp r)) (present (hq_nonce r)) s = (AuthAccept u, s')"
    using v by (rule validate_request_accepts)
  from validate_key_accepts [OF k] obtain k canonical where
    found: "find_by_key_id (present (hq_key_id r)) (au_now s) (au_keys s) = Some k" and
    rest: "ak_user_id k = u"
      "get_required_scope r \<in> set (ak_scopes k) \<or> ''full_access'' \<in> set (ak_scopes k)"
      "build_canonical e r (present (hq_timestamp r)) (present (hq_nonce r)) = Some canonical"
      "present (hq_signature r) = av_hmac e (present (ak_secret_plain k)) canonical"
    by blast
  have "case ak_expires_at k of None \<Rightarrow> True | Some t \<Rightarrow> au_now s \<le> t"
    using find_by_key_id_Some [OF found] by (auto split: option.splits)
  with find_by_key_id_Some [OF found] rest ts sig show ?thesis by metis
qed

theorem hmac_accepts_only_signed_witness:
  "\<exists>k ts canonical. k \<in> set (au_keys sample_auth) \<and> ak_key_id k = present (hq_key_id sample_request) \<and>
    ak_user_id k = 7 \<and> ak_is_active k \<and>
    (case ak_expires_at k of None \<Rightarrow> True | Some t \<Rightarrow> au_now sample_auth \<le> t) \<and>
    (get_required_scope sample_request \<in> set (ak_scopes k) \<or> ''full_access'' \<in> set (ak_scopes k)) \<and>
    build_canonical sample_auth_env sample_request (present (hq_timestamp sample_request))
      (present (hq_nonce sample_request)) = Some canonical \<and>
    hq_signature sample_request = Some (av_hmac sample_auth_env (present (ak_secret_plain k)) canonical) \<and>
    py_int (present (hq_timestamp sample_request)) = Some ts \<and>
    \<bar>au_now sample_auth div seconds 1 - ts\<bar> \<le> 300 \<and>
    \<not> live (au_now sample_auth) (au_nonces sample_auth (present (hq_nonce sample_request)))"
  by (rule hmac_accepts_only_signed [OF sample_accepted])

text \<open>C25. Replay protection: once a request was accepted, no request with the same nonce and
  timestamp headers is accepted at any later time, whatever requests come in between. The nonce is
  remembered for 900 seconds, longer than the 600 seconds in which one timestamp can be fresh.\<close>

theorem hmac_no_replay:
  assumes "hmac_guard e r s = (Some (AuthAccept u), s1)"
    and "hq_nonce r' = hq_nonce r" and "hq_timestamp r' = hq_timestamp r"
    and "s2 = auth_at d (run_ops auth_step later s1)"
  shows "fst (hmac_guard e' r' s2) \<noteq> Some (AuthAccept u')"
proof
  assume "fst (hmac_guard e' r' s2) = Some (AuthAccept u')"
  then have v': "validate_request e' r' s2 = (AuthAccept u', snd (hmac_guard e' r' s2))"
    by (intro hmac_guard_accepts) (simp add: prod_eq_iff)
  have v: "validate_request e r s = (AuthAccept u, s1)" using assms(1) by (rule hmac_guard_accepts)
  define n where "n = present (hq_nonce r)"
  have "nonce_kept n (au_now s) (run_ops auth_step later s1)"
    unfolding n_def using hmac_accept_keeps_nonce [OF v] by (rule nonce_history.run_inv)
  then have kept: "nonce_kept n (au_now s) s2"
    by (auto simp: assms(4) nonce_kept_def auth_at_def)
  obtain ts where ts: "py_int (present (hq_timestamp r)) = Some ts" "\<bar>au_now s div seconds 1 - ts\<bar> \<le> 300"
    using v by (rule validate_request_accepts)
  obtain ts' where ts': "py_int (present (hq_timestamp r')) = Some ts'" "\<bar>au_now s2 div seconds 1 - ts'\<bar> \<le> 300"
    and unused: "\<not> live (au_now s2) (au_nonces s2 (present (hq_nonce r')))"
    using v' by (rule validate_request_accepts)
  have "au_now s2 < au_now s + seconds 900"
    using timestamp_window [OF ts(2), of "au_now s2"] ts' ts(1) assms(3) by simp
  with kept unused assms(2) show False
    by (auto simp: nonce_kept_def live_def n_def)
qed

theorem hmac_no_replay_witness:
  "fst (hmac_guard sample_auth_env sample_request
      (auth_at 5000 (run_ops auth_step [] (snd (hmac_guard sample_auth_env sample_request sample_auth))))) \<noteq>
    Some (AuthAccept 7)"
  by (rule hmac_no_replay [OF sample_accepted refl refl refl])

end
