(* ===== verification/Payment_Crypto.thy ===== *)
theory Payment_Crypto
  imports Payment_Auth
begin

text \<open>
  Field encryption at rest: the base64 JSON form of an encrypted field
  (\<open>payments/helpers/encryption.py\<close>), the AES-GCM wrapper (\<open>payments/infrastructure/crypto.py\<close>), the
  encrypted JSON columns of the repositories and the checks of the Vault key provider. The cipher,
  Vault and the JSON serializer are arguments; base64 is the standard library's and is written
  out, with the lenient decoder that \<open>b64decode\<close> uses by default.
\<close>

section \<open>Base64\<close>

definition b64_alphabet :: string where
  "b64_alphabet = ''ABCDEFGHIJKLMNOPQRSTUVWXYZabcdefghijklmnopqrstuvwxyz0123456789+/''"

definition b64_char :: "nat \<Rightarrow> char" where
  "b64_char n = b64_alphabet ! n"

definition b64_val :: "char \<Rightarrow> nat option" where
  "b64_val c = map_of (zip b64_alphabet [0..<64]) c"

definition nat_byte :: "nat \<Rightarrow> byte" where
  "nat_byte n = word_of_nat n"

fun b64encode :: "byte list \<Rightarrow> string" where
  "b64encode [] = []"
| "b64encode [a] =
     [b64_char (unat a div 4), b64_char (unat a mod 4 * 16), CHR ''='', CHR ''='']"
| "b64encode [a, b] =
     [b64_char (unat a div 4), b64_char (unat a mod 4 * 16 + unat b div 16),
      b64_char (unat b mod 16 * 4), CHR ''='']"
| "b64encode (a # b # c # ds) =
     b64_char (unat a div 4) # b64_char (unat a mod 4 * 16 + unat b div 16) #
     b64_char (unat b mod 16 * 4 + unat c div 64) # b64_char (unat c mod 64) # b64encode ds"

text \<open>
  \<open>binascii.a2b_base64\<close> without strict mode: characters outside the alphabet are skipped, enough
  padding ends the input, and an incomplete quantum at the end raises \<open>binascii.Error\<close>, a
  \<open>ValueError\<close>. The arguments are the position in the quantum, the padding seen and the bits left
  over from the previous character.
\<close>

fun a2b_base64 :: "nat \<Rightarrow> nat \<Rightarrow> nat \<Rightarrow> string \<Rightarrow> (pay_exn, byte list) res" where
  "a2b_base64 pos pads left [] = (if pos = 0 then Inr [] else Inl (ValueErr ''Incorrect padding''))"
| "a2b_base64 pos pads left (c # cs) =
     (if c = CHR ''='' then
        (if 2 \<le> pos \<and> 4 \<le> pos + Suc pads then Inr [] else a2b_base64 pos (Suc pads) left cs)
      else (case b64_val c of
              None \<Rightarrow> a2b_base64 pos pads left cs
            | Some v \<Rightarrow>
                (if pos = 0 then a2b_base64 1 0 v cs
                 else if pos = 1 then
                   res_bind (a2b_base64 2 0 (v mod 16) cs) (\<lambda>r. Inr (nat_byte (left * 4 + v div 16) # r))
                 else if pos = 2 then
                   res_bind (a2b_base64 3 0 (v mod 4) cs) (\<lambda>r. Inr (nat_byte (left * 16 + v div 4) # r))
                 else
                   res_bind (a2b_base64 0 0 0 cs) (\<lambda>r. Inr (nat_byte (left * 64 + v) # r)))))"

definition b64decode :: "string \<Rightarrow> (pay_exn, byte list) res" where
  "b64decode s = a2b_base64 0 0 0 s"

lemma b64_val_char: "n < 64 \<Longrightarrow> b64_val (b64_char n) = Some n \<and> b64_char n \<noteq> CHR ''=''"
proof -
  assume n: "n < 64"
  have len: "length b64_alphabet = 64" by (simp add: b64_alphabet_def)
  have dist: "distinct b64_alphabet" by (simp add: b64_alphabet_def)
  have "CHR ''='' \<notin> set b64_alphabet" by (simp add: b64_alphabet_def)
  then have "b64_char n \<noteq> CHR ''=''" unfolding b64_char_def using n len nth_mem by metis
  moreover have "b64_val (b64_char n) = Some n"
    unfolding b64_val_def b64_char_def
    using map_of_zip_nth [of b64_alphabet "[0..<64]" n] len dist n by simp
  ultimately show ?thesis by simp
qed

lemma unat_byte: "unat (b :: byte) < 256"
proof -
  have "unat b < 2 ^ LENGTH(8)" by (rule unsigned_less)
  then show ?thesis by simp
qed

lemma nat_byte_unat [simp]: "nat_byte (unat b) = b"
  by (simp add: nat_byte_def)

lemma div_mod_join: "n div 4 * 4 + n mod 4 * 16 div 16 = n" "n mod 16 * 4 div 4 = n mod (16::nat)"
  by simp_all

lemma b64_decode_encode_aux: "a2b_base64 0 0 0 (b64encode bs) = Inr bs"
proof (induction bs rule: b64encode.induct)
  case (2 a)
  have "unat a div 4 < 64" "unat a mod 4 * 16 < 64" using unat_byte [of a] by linarith+
  then show ?case by (simp add: b64_val_char)
next
  case (3 a b)
  have lt: "unat a div 4 < 64" "unat a mod 4 * 16 + unat b div 16 < 64" "unat b mod 16 * 4 < 64"
    using unat_byte [of a] unat_byte [of b] by linarith+
  have "(unat a mod 4 * 16 + unat b div 16) div 16 = unat a mod 4"
    "(unat a mod 4 * 16 + unat b div 16) mod 16 = unat b div 16"
    using unat_byte [of b] by (simp_all add: less_mult_imp_div_less)
  with lt show ?case by (simp add: b64_val_char)
next
  case (4 a b c ds)
  have lt: "unat a div 4 < 64" "unat a mod 4 * 16 + unat b div 16 < 64"
    "unat b mod 16 * 4 + unat c div 64 < 64" "unat c mod 64 < 64"
    using unat_byte [of a] unat_byte [of b] unat_byte [of c] by linarith+
  have "(unat a mod 4 * 16 + unat b div 16) div 16 = unat a mod 4"
    "(unat a mod 4 * 16 + unat b div 16) mod 16 = unat b div 16"
    "(unat b mod 16 * 4 + unat c div 64) div 4 = unat b mod 16"
    "(unat b mod 16 * 4 + unat c div 64) mod 4 = unat c div 64"
    using unat_byte [of b] unat_byte [of c] by (simp_all add: less_mult_imp_div_less)
  with lt 4 show ?case by (simp add: b64_val_char)
qed simp

lemma b64_round_trip: "b64decode (b64encode bs) = Inr bs"
  by (simp add: b64decode_def b64_decode_encode_aux)

section \<open>Encrypted fields as JSON\<close>

record field_json =
  fj_ciphertext :: string
  fj_iv :: string
  fj_tag :: string
  fj_dek_encrypted :: string

definition encrypted_field_to_json :: "encrypted_field \<Rightarrow> field_json" where
  "encrypted_field_to_json ef =
     \<lparr>fj_ciphertext = b64encode (ef_ciphertext ef), fj_iv = b64encode (ef_iv ef),
      fj_tag = b64encode (ef_tag ef), fj_dek_encrypted = b64encode (ef_dek_encrypted ef)\<rparr>"

definition encrypted_field_from_json :: "field_json \<Rightarrow> (pay_exn, encrypted_field) res" where
  "encrypted_field_from_json j =
     res_bind (b64decode (fj_ciphertext j)) (\<lambda>ct.
     res_bind (b64decode (fj_iv j)) (\<lambda>iv.
     res_bind (b64decode (fj_tag j)) (\<lambda>tag.
     res_bind (b64decode (fj_dek_encrypted j)) (\<lambda>dek.
     mk_encrypted_field ct iv tag dek))))"

section \<open>The cipher\<close>

text \<open>
  What the code calls: AES-GCM (the ciphertext ends with the 16-byte tag; decryption fails on a
  wrong tag), the key provider, and JSON.
\<close>

record field_crypto =
  fc_gcm_encrypt :: "byte list \<Rightarrow> byte list \<Rightarrow> byte list \<Rightarrow> byte list"
  fc_gcm_decrypt :: "byte list \<Rightarrow> byte list \<Rightarrow> byte list \<Rightarrow> byte list option"
  fc_wrap_dek :: "byte list \<Rightarrow> (pay_exn, byte list) res"
  fc_unwrap_dek :: "byte list \<Rightarrow> (pay_exn, byte list) res"
  fc_dumps :: "pyval \<Rightarrow> byte list"
  fc_loads :: "byte list \<Rightarrow> (pay_exn, pyval) res"

definition py_last :: "nat \<Rightarrow> 'a list \<Rightarrow> 'a list" where
  "py_last n xs = drop (length xs - n) xs"

definition py_but_last :: "nat \<Rightarrow> 'a list \<Rightarrow> 'a list" where
  "py_but_last n xs = take (length xs - n) xs"

definition encrypt_field ::
  "field_crypto \<Rightarrow> byte list \<Rightarrow> byte list \<Rightarrow> byte list \<Rightarrow> (pay_exn, encrypted_field) res" where
  "encrypt_field k iv plaintext dek =
     (let ciphertext = fc_gcm_encrypt k dek iv plaintext
      in mk_encrypted_field (py_but_last 16 ciphertext) iv (py_last 16 ciphertext) [])"

definition decrypt_field :: "field_crypto \<Rightarrow> encrypted_field \<Rightarrow> byte list \<Rightarrow> (pay_exn, byte list) res" where
  "decrypt_field k ef dek =
     raise_none (ValueErr ''InvalidTag'') (fc_gcm_decrypt k dek (ef_iv ef) (ef_ciphertext ef @ ef_tag ef))"

section \<open>The encrypted JSON columns of the repositories\<close>

text \<open>
  What a JSON column may hold: nothing (or an empty value), an object of the four keys of an
  encrypted field, any other object, or another JSON value.
\<close>

datatype json_column = ColEmpty | ColField field_json | ColDict pyval | ColOther

definition encrypt_json_field ::
  "field_crypto \<Rightarrow> byte list \<Rightarrow> pyval \<Rightarrow> byte list \<Rightarrow> byte list \<Rightarrow> (pay_exn, field_json) res" where
  "encrypt_json_field k iv v dek wrapped =
     res_bind (encrypt_field k iv (fc_dumps k (if py_truthy v then v else PyDict [])) dek) (\<lambda>ef.
     res_bind (mk_encrypted_field (ef_ciphertext ef) (ef_iv ef) (ef_tag ef) wrapped) (\<lambda>ef'.
     Inr (encrypted_field_to_json ef')))"

definition decrypt_json_field ::
  "field_crypto \<Rightarrow> json_column \<Rightarrow> byte list option \<Rightarrow> (pay_exn, pyval) res" where
  "decrypt_json_field k col wrapped =
     (case col of
        ColEmpty \<Rightarrow> Inr (PyDict [])
      | ColDict v \<Rightarrow> Inr v
      | ColOther \<Rightarrow> Inr (PyDict [])
      | ColField j \<Rightarrow>
          (case wrapped of
             None \<Rightarrow> Inr (PyDict [(PyStr ''ciphertext'', PyStr (fj_ciphertext j)), (PyStr ''iv'', PyStr (fj_iv j)),
                              (PyStr ''tag'', PyStr (fj_tag j)), (PyStr ''dek_encrypted'', PyStr (fj_dek_encrypted j))])
           | Some w \<Rightarrow>
               res_bind (encrypted_field_from_json j) (\<lambda>ef.
               res_bind (fc_unwrap_dek k w) (\<lambda>dek.
               res_bind (decrypt_field k ef dek) (\<lambda>plain. fc_loads k plain)))))"

text \<open>\<open>DjangoPaymentRepository.save\<close> draws a fresh key and stores the encrypted metadata with it.\<close>

definition store_json ::
  "field_crypto \<Rightarrow> byte list \<Rightarrow> byte list \<Rightarrow> pyval \<Rightarrow> (pay_exn, json_column \<times> byte list) res" where
  "store_json k dek iv v =
     res_bind (fc_wrap_dek k dek) (\<lambda>wrapped.
     res_bind (encrypt_json_field k iv v dek wrapped) (\<lambda>j. Inr (ColField j, wrapped)))"

section \<open>The Vault key provider\<close>

text \<open>Digits, a colon and a non-empty rest without a line feed.\<close>

fun vault_version :: "bool \<Rightarrow> string \<Rightarrow> bool" where
  "vault_version seen [] = False"
| "vault_version seen (c # cs) =
     (if is_digit c then vault_version True cs
      else seen \<and> c = CHR '':'' \<and> cs \<noteq> [] \<and> list_all (\<lambda>x. x \<noteq> CHR 0x0A) cs)"

definition vault_ciphertext_ok :: "string \<Rightarrow> bool" where
  "vault_ciphertext_ok s =
     (py_startswith s ''vault:v'' \<and> vault_version False (drop (length ''vault:v'') s))"

datatype key_exn = KeyProviderError string | InfrastructureUnavailableError string

text \<open>The JSON bodies of Vault's answers: not JSON, not an object, or an object.\<close>

record vault_object =
  vo_errors :: "string list option"
  vo_field :: "string option"

datatype vault_body = VaultNotJson | VaultNotObject | VaultObject vault_object

definition safe_json :: "vault_body \<Rightarrow> (key_exn, vault_object) res" where
  "safe_json b =
     (case b of VaultNotJson \<Rightarrow> Inl (KeyProviderError ''Vault response was not valid JSON'')
      | VaultNotObject \<Rightarrow> Inl (KeyProviderError ''Vault response JSON was not an object'')
      | VaultObject d \<Rightarrow> Inr d)"

definition mentions_sealed :: "vault_object \<Rightarrow> bool" where
  "mentions_sealed d =
     (case vo_errors d of None \<Rightarrow> False | Some es \<Rightarrow> list_ex (\<lambda>x. py_contains ''sealed'' (py_lower x)) es)"

definition handle_response :: "nat \<Rightarrow> vault_body \<Rightarrow> (key_exn, vault_object) res" where
  "handle_response status body =
     (if 400 \<le> status then
        (if (case safe_json body of Inl _ \<Rightarrow> False | Inr d \<Rightarrow> mentions_sealed d)
         then Inl (InfrastructureUnavailableError ''Vault is unavailable because it is sealed'')
         else if status \<in> {401, 403} then Inl (KeyProviderError ''Vault authentication or authorization failed'')
         else if status = 404 then Inl (KeyProviderError ''Vault path or key was not found'')
         else if status = 429 then Inl (InfrastructureUnavailableError ''Vault rate limit exceeded'')
         else if 500 \<le> status then Inl (InfrastructureUnavailableError ''Vault service error'')
         else Inl (KeyProviderError ''Vault request was rejected''))
      else res_bind (safe_json body) (\<lambda>d.
        if mentions_sealed d
        then Inl (InfrastructureUnavailableError ''Vault is unavailable because it is sealed'') else Inr d))"

text \<open>\<open>_get_token\<close>: the cached token until it expires within the renewal margin (in seconds).\<close>

definition get_token ::
  "int \<Rightarrow> int \<Rightarrow> (key_exn, string \<times> int) res \<Rightarrow> (string \<times> int) option \<Rightarrow>
     (key_exn, string) res \<times> (string \<times> int) option" where
  "get_token margin now auth cached =
     (case cached of
        Some (t, expires) \<Rightarrow>
          if now \<ge> expires - margin
          then (case auth of Inl e \<Rightarrow> (Inl e, cached) | Inr (t', lease) \<Rightarrow> (Inr t', Some (t', now + lease)))
          else (Inr t, cached)
      | None \<Rightarrow> (case auth of Inl e \<Rightarrow> (Inl e, None) | Inr (t', lease) \<Rightarrow> (Inr t', Some (t', now + lease))))"

text \<open>
  \<open>@retry\<close>: at most three attempts, another one only after \<open>InfrastructureUnavailableError\<close>, the
  last error re-raised. The argument gives each attempt's outcome.
\<close>

fun retry_attempts :: "nat \<Rightarrow> nat \<Rightarrow> (nat \<Rightarrow> (key_exn, 'a) res) \<Rightarrow> (key_exn, 'a) res" where
  "retry_attempts i 0 f = f i"
| "retry_attempts i (Suc n) f =
     (case f i of
        Inl (InfrastructureUnavailableError m) \<Rightarrow> retry_attempts (Suc i) n f
      | r \<Rightarrow> r)"

definition wrap_once :: "byte list \<Rightarrow> (string \<Rightarrow> nat \<times> vault_body) \<Rightarrow> (key_exn, string) res" where
  "wrap_once dek request =
     (if length dek \<noteq> 32 then Inl (KeyProviderError ''DEK must be exactly 32 bytes'')
      else res_bind (case request (b64encode dek) of (st, body) \<Rightarrow> handle_response st body) (\<lambda>d.
        case vo_field d of
          None \<Rightarrow> Inl (KeyProviderError ''Vault encrypt response is missing required fields'')
        | Some ct \<Rightarrow>
            if ct = '''' then Inl (KeyProviderError ''Vault encrypt response is missing required fields'')
            else if \<not> list_all (\<lambda>c. code c < 128) ct
            then Inl (KeyProviderError ''Vault encrypt response ciphertext is not valid ASCII'')
            else if \<not> vault_ciphertext_ok ct then Inl (KeyProviderError ''Vault ciphertext is malformed'')
            else Inr ct))"

definition wrap_dek :: "byte list \<Rightarrow> (nat \<Rightarrow> string \<Rightarrow> nat \<times> vault_body) \<Rightarrow> (key_exn, string) res" where
  "wrap_dek dek vault = retry_attempts 0 2 (\<lambda>i. wrap_once dek (vault i))"

text \<open>
  \<open>b64decode(..., validate=True)\<close> is the decoder on a string of alphabet characters with padding
  only at the end.
\<close>

definition b64_strict :: "string \<Rightarrow> bool" where
  "b64_strict s =
     (let body = takeWhile (\<lambda>c. b64_val c \<noteq> None) s; pad = dropWhile (\<lambda>c. b64_val c \<noteq> None) s
      in list_all (\<lambda>c. c = CHR ''='') pad \<and> length pad \<le> 2 \<and> length s mod 4 = 0)"

definition unwrapped_key :: "string option \<Rightarrow> (key_exn, byte list) res" where
  "unwrapped_key plaintext =
     (case plaintext of
        None \<Rightarrow> Inl (KeyProviderError ''Vault decrypt response is missing required fields'')
      | Some p \<Rightarrow>
          if p = '''' then Inl (KeyProviderError ''Vault decrypt response is missing required fields'')
          else if \<not> b64_strict p then Inl (KeyProviderError ''Vault decrypt response contained invalid base64'')
          else (case b64decode p of
                  Inl _ \<Rightarrow> Inl (KeyProviderError ''Vault decrypt response contained invalid base64'')
                | Inr dek \<Rightarrow>
                    if length dek \<noteq> 32
                    then Inl (KeyProviderError ''Vault decrypt response DEK must be exactly 32 bytes'')
                    else Inr dek))"

definition unwrap_once :: "string \<Rightarrow> (string \<Rightarrow> nat \<times> vault_body) \<Rightarrow> (key_exn, byte list) res" where
  "unwrap_once ct request =
     (if \<not> list_all (\<lambda>c. code c < 128) ct
      then Inl (KeyProviderError ''Vault ciphertext is not valid ASCII'')
      else if \<not> vault_ciphertext_ok ct then Inl (KeyProviderError ''Vault ciphertext is malformed'')
      else res_bind (case request ct of (st, body) \<Rightarrow> handle_response st body)
        (\<lambda>d. unwrapped_key (vo_field d)))"

definition unwrap_dek :: "string \<Rightarrow> (nat \<Rightarrow> string \<Rightarrow> nat \<times> vault_body) \<Rightarrow> (key_exn, byte list) res" where
  "unwrap_dek ct vault = retry_attempts 0 2 (\<lambda>i. unwrap_once ct (vault i))"

section \<open>What comes back\<close>

lemma mk_encrypted_field_Inr [res_simps]:
  "mk_encrypted_field ct iv tag dek = Inr ef \<longleftrightarrow> length iv = 12 \<and> length tag = 16 \<and>
     ef = \<lparr>ef_ciphertext = ct, ef_iv = iv, ef_tag = tag, ef_dek_encrypted = dek\<rparr>"
  by (auto simp: mk_encrypted_field_def)

lemma field_json_round_trip:
  assumes "mk_encrypted_field ct iv tag dek = Inr ef"
  shows "encrypted_field_from_json (encrypted_field_to_json ef) = Inr ef"
  using assms by (auto simp: encrypted_field_from_json_def encrypted_field_to_json_def b64_round_trip res_simps)

lemma but_last_last [simp]: "py_but_last n xs @ py_last n xs = xs"
  by (simp add: py_but_last_def py_last_def)

lemma retry_attempts_result: "\<exists>j \<le> i + n. retry_attempts i n f = f j"
proof (induction i n f rule: retry_attempts.induct)
  case (2 i n f)
  show ?case
  proof (cases "\<exists>m. f i = Inl (InfrastructureUnavailableError m)")
    case True
    then obtain m where m: "f i = Inl (InfrastructureUnavailableError m)" by blast
    with 2 obtain j where "j \<le> Suc i + n" "retry_attempts (Suc i) n f = f j" by blast
    with m show ?thesis by (intro exI [of _ j]) simp
  next
    case False
    then have "retry_attempts i (Suc n) f = f i" by (auto split: sum.splits key_exn.splits)
    then show ?thesis by (intro exI [of _ i]) simp
  qed
qed auto

lemma unwrapped_key_length: "unwrapped_key p = Inr dek \<Longrightarrow> length dek = 32"
  by (auto simp: unwrapped_key_def split: if_splits option.splits sum.splits)

lemma unwrap_once_length: "unwrap_once ct request = Inr dek \<Longrightarrow> length dek = 32"
  by (auto simp: unwrap_once_def res_simps unwrapped_key_length split: if_splits)

lemma unwrap_dek_length: "unwrap_dek ct vault = Inr dek \<Longrightarrow> length dek = 32"
proof -
  assume u: "unwrap_dek ct vault = Inr dek"
  obtain j where "unwrap_dek ct vault = unwrap_once ct (vault j)"
    using retry_attempts_result [of 0 2 "\<lambda>i. unwrap_once ct (vault i)"] by (auto simp: unwrap_dek_def)
  with u have "unwrap_once ct (vault j) = Inr dek" by simp
  then show ?thesis by (rule unwrap_once_length)
qed

text \<open>What the repository stores encrypted it reads back: for a cipher that decrypts its own
  ciphertexts, a key provider that unwraps what it wrapped and JSON that parses its own output,
  a stored column decrypts to the stored object (an empty object where there was none).\<close>

theorem store_json_round_trip:
  assumes "store_json k dek iv v = Inr (col, wrapped)"
    and "\<forall>p. fc_gcm_decrypt k dek iv (fc_gcm_encrypt k dek iv p) = Some p"
    and "\<forall>x. fc_wrap_dek k dek = Inr x \<longrightarrow> fc_unwrap_dek k x = Inr dek"
    and "fc_loads k (fc_dumps k (if py_truthy v then v else PyDict [])) = Inr (if py_truthy v then v else PyDict [])"
  shows "decrypt_json_field k col (Some wrapped) = Inr (if py_truthy v then v else PyDict [])"
proof -
  define ct where "ct = fc_gcm_encrypt k dek iv (fc_dumps k (if py_truthy v then v else PyDict []))"
  define ef where "ef = \<lparr>ef_ciphertext = py_but_last 16 ct, ef_iv = iv, ef_tag = py_last 16 ct,
    ef_dek_encrypted = wrapped\<rparr>"
  have wrap: "fc_wrap_dek k dek = Inr wrapped" and col: "col = ColField (encrypted_field_to_json ef)"
    and mk: "mk_encrypted_field (py_but_last 16 ct) iv (py_last 16 ct) wrapped = Inr ef"
    using assms(1)
    by (auto simp: store_json_def encrypt_json_field_def encrypt_field_def res_simps Let_def ct_def ef_def)
  have "fc_unwrap_dek k wrapped = Inr dek" using assms(3) wrap by blast
  moreover have "decrypt_field k ef dek = Inr (fc_dumps k (if py_truthy v then v else PyDict []))"
    using assms(2) by (simp add: decrypt_field_def ef_def) (simp add: ct_def)
  ultimately show ?thesis
    using assms(4) field_json_round_trip [OF mk] by (simp add: decrypt_json_field_def col)
qed

definition sample_crypto :: field_crypto where
  "sample_crypto = \<lparr>fc_gcm_encrypt = (\<lambda>key iv p. p @ replicate 16 0),
     fc_gcm_decrypt = (\<lambda>key iv c. Some (py_but_last 16 c)), fc_wrap_dek = Inr, fc_unwrap_dek = Inr,
     fc_dumps = (\<lambda>v. if v = PyDict [(PyStr ''a'', PyInt 1)] then [1] else []),
     fc_loads = (\<lambda>b. Inr (if b = [1] then PyDict [(PyStr ''a'', PyInt 1)] else PyDict []))\<rparr>"

theorem store_json_round_trip_witness:
  "decrypt_json_field sample_crypto
     (case store_json sample_crypto (replicate 32 7) (replicate 12 9) (PyDict [(PyStr ''a'', PyInt 1)]) of
        Inr (c, w) \<Rightarrow> c | Inl _ \<Rightarrow> ColEmpty) (Some (replicate 32 7)) =
   Inr (PyDict [(PyStr ''a'', PyInt 1)])"
proof -
  let ?v = "PyDict [(PyStr ''a'', PyInt 1)]"
  obtain col where s: "store_json sample_crypto (replicate 32 7) (replicate 12 9) ?v = Inr (col, replicate 32 7)"
    by (simp add: store_json_def sample_crypto_def encrypt_json_field_def encrypt_field_def
        mk_encrypted_field_def py_last_def Let_def)
  have "decrypt_json_field sample_crypto col (Some (replicate 32 7)) = Inr (if py_truthy ?v then ?v else PyDict [])"
    by (rule store_json_round_trip [OF s])
      (simp_all add: sample_crypto_def py_but_last_def py_truthy_def)
  then show ?thesis by (simp add: s py_truthy_def)
qed

end
