(* ===== verification/Payment_Tasks.thy ===== *)
theory Payment_Tasks
  imports Payment_Crypto
begin

text \<open>
  What drives the payment handlers: the Celery retry of a webhook (\<open>payments/tasks.py\<close>) and the
  HTTP views (\<open>interface/payments/views.py\<close>). The serializer's validated data, the decrypted body
  and the JSON it parses to are arguments.
\<close>

section \<open>The retry task\<close>

definition retryable_statuses :: "hook_status set" where
  "retryable_statuses = {HK_PROCESSING, HK_LOCK_FAILED_RETRY, HK_VERIFY_FAILED_RETRY}"

definition terminal_statuses :: "hook_status set" where
  "terminal_statuses =
     {HK_PROCESSED_SUCCESS, HK_REJECTED_UNKNOWN, HK_REJECTED_POLICY, HK_FRAUD_DETECTED, HK_REJECTED_MISSING_REF}"

text \<open>
  The newest event of the reference, rows whose payload cannot be decrypted skipped. A payload
  whose \<open>data\<close> is not an object has no \<open>get\<close>: the \<open>AttributeError\<close> leaves the task.
\<close>

fun scan_events :: "(string \<Rightarrow> bool) \<Rightarrow> string \<Rightarrow> hook_row list \<Rightarrow> (pay_exn, hook_row option) res" where
  "scan_events decrypts ref [] = Inr None"
| "scan_events decrypts ref (h # hs) =
     (if \<not> decrypts (hk_event_id h) then scan_events decrypts ref hs
      else (case hk_payload h of
              DataOther \<Rightarrow> Inl AttributeErr
            | NoData \<Rightarrow> scan_events decrypts ref hs
            | DataObject r \<Rightarrow> if r = Some ref then Inr (Some h) else scan_events decrypts ref hs))"

definition load_retry_event :: "(string \<Rightarrow> bool) \<Rightarrow> string \<Rightarrow> pay_world \<Rightarrow> (pay_exn, hook_row option) res" where
  "load_retry_event decrypts ref w =
     scan_events decrypts ref
       (filter (\<lambda>h. hk_status h \<in> retryable_statuses \<union> terminal_statuses) (rev (w_hooks w)))"

datatype retry_outcome =
    RetryMissing
  | RetryTerminal string
  | RetrySkipped string
  | RetryCompleted string hook_status
  | RetryAgain int
  | RetryRaised pay_exn

definition process_webhook_retry ::
  "(string \<Rightarrow> bool) \<Rightarrow> hook_env \<Rightarrow> instant \<Rightarrow> nat \<Rightarrow> string \<Rightarrow> pay_world \<Rightarrow> retry_outcome \<times> pay_world" where
  "process_webhook_retry decrypts e now retries_done ref w =
     (case load_retry_event decrypts ref w of
        Inl x \<Rightarrow> (RetryRaised x, w)
      | Inr None \<Rightarrow> (RetryMissing, reset_webhook_retry ref w)
      | Inr (Some h) \<Rightarrow>
          if hk_status h \<in> terminal_statuses
          then (RetryTerminal (hk_event_id h), reset_webhook_retry ref w)
          else if hk_status h \<notin> retryable_statuses then (RetrySkipped (hk_event_id h), w)
          else (case process_webhook True e
                    \<lparr>hc_event_id = hk_event_id h, hc_payload = hk_payload h, hc_now = now\<rparr> w of
                  (Inl x, w') \<Rightarrow>
                    if retries_done \<ge> 3 then (RetryRaised x, reset_webhook_retry ref w')
                    else (RetryAgain (min (30 * 2 ^ retries_done) 300), w')
                | (Inr _, w') \<Rightarrow>
                    (let final = (case webhook_get (hk_event_id h) w' of Some h' \<Rightarrow> hk_status h' | None \<Rightarrow> hk_status h)
                     in (RetryCompleted (hk_event_id h) final,
                         if final \<in> terminal_statuses then reset_webhook_retry ref w' else w'))))"

section \<open>The views\<close>

datatype 'a http_reply = Reply nat 'a | ServerError

record initiate_data =
  id_amount :: rat
  id_currency :: string
  id_method :: string
  id_idempotency_key :: string
  id_context_reference :: "string option"
  id_metadata :: pyval
  id_environment :: string

text \<open>
  \<open>InitiatePaymentView.post\<close>: the command carries the plain strings of the serializer's choice
  fields. Only \<open>ProviderGatewayError\<close> and \<open>PaymentNotAllowedError\<close> are answered; any other exception
  is a server error.
\<close>

definition initiate_command :: "uuid \<Rightarrow> string \<Rightarrow> initiate_data \<Rightarrow> money \<Rightarrow> initiate_cmd" where
  "initiate_command user base d m =
     \<lparr>ic_user_id = user, ic_amount = m, ic_method = Raw (id_method d),
      ic_idempotency_key = id_idempotency_key d, ic_redirect_base_url = base,
      ic_context_reference = id_context_reference d, ic_metadata = id_metadata d,
      ic_environment = Raw (id_environment d)\<rparr>"

definition initiate_view ::
  "initiate_env \<Rightarrow> uuid \<Rightarrow> string \<Rightarrow> initiate_data \<Rightarrow> pay_world \<Rightarrow> initiation_dto option http_reply \<times> pay_world" where
  "initiate_view e user base d w =
     (case res_bind (mk_currency (id_currency d)) (money_from_decimal (id_amount d)) of
        Inl x \<Rightarrow> (ServerError, w)
      | Inr m \<Rightarrow>
          (case initiate_payment e (initiate_command user base d m) w of
             (Inr dto, w') \<Rightarrow>
               (case dto_expires_at dto of None \<Rightarrow> (ServerError, w') | Some _ \<Rightarrow> (Reply 201 (Some dto), w'))
           | (Inl ProviderGatewayError, w') \<Rightarrow> (Reply 502 None, w')
           | (Inl (PaymentNotAllowedError reason), w') \<Rightarrow> (Reply 400 None, w')
           | (Inl x, w') \<Rightarrow> (ServerError, w')))"

definition payment_status_view ::
  "string \<Rightarrow> uuid \<Rightarrow> bool \<Rightarrow> string \<Rightarrow> pay_world \<Rightarrow> status_dto option http_reply" where
  "payment_status_view ref user is_staff role w =
     (case get_payment_status ref (Some user) (is_staff \<or> role = ''admin'') w of
        Inr d \<Rightarrow> Reply 200 (Some d)
      | Inl (PaymentNotFoundError r) \<Rightarrow> Reply 404 None
      | Inl x \<Rightarrow> ServerError)"

text \<open>\<open>PaymentListView\<close>: the user's payments, newest first, twenty a page.\<close>

definition payment_list_view ::
  "uuid \<Rightarrow> string option \<Rightarrow> string option \<Rightarrow> pay_world \<Rightarrow> payment list \<times> nat" where
  "payment_list_view user requested_status page w =
     (let mine = rev (sort_key p_created_at (filter (\<lambda>p. p_user_id p = user) (w_payments w)));
          chosen = (case requested_status of
                      None \<Rightarrow> mine
                    | Some s \<Rightarrow> if s = '''' then mine else filter (\<lambda>p. pay_status_value (p_status p) = s) mine);
          n = (case page of None \<Rightarrow> 1 | Some s \<Rightarrow> (case py_int s of None \<Rightarrow> 1 | Some i \<Rightarrow> max i 1));
          start = nat ((n - 1) * 20)
      in (take 20 (drop start chosen), length chosen))"

record payment_summary =
  ps_total :: nat
  ps_successful :: nat
  ps_pending :: nat
  ps_failed :: nat
  ps_total_paid :: rat
  ps_pending_amount :: rat

definition payment_summary_view :: "uuid \<Rightarrow> pay_world \<Rightarrow> payment_summary" where
  "payment_summary_view user w =
     (let mine = filter (\<lambda>p. p_user_id p = user) (w_payments w);
          by_status = (\<lambda>s. filter (\<lambda>p. p_status p = s) mine);
          total = (\<lambda>ps. sum_list (map (\<lambda>p. money_to_decimal (p_amount p)) ps))
      in \<lparr>ps_total = length mine, ps_successful = length (by_status SUCCESS),
          ps_pending = length (by_status PENDING), ps_failed = length (by_status FAILED),
          ps_total_paid = total (by_status SUCCESS), ps_pending_amount = total (by_status PENDING)\<rparr>)"

text \<open>
  The webhook endpoint: the shared secret, then the body - encrypted (decryption raises, fails or
  yields JSON) unless the content type is JSON.
\<close>

datatype json_body = JsonObject "string option" hook_payload | JsonOther

record webhook_request =
  wq_hash :: string
  wq_is_json :: bool
  wq_has_body :: bool
  wq_decrypted :: "json_body option option"
  wq_data :: "json_body option"

definition webhook_body :: "webhook_request \<Rightarrow> nat + json_body" where
  "webhook_body rq =
     (if \<not> wq_is_json rq \<and> wq_has_body rq
      then (case wq_decrypted rq of None \<Rightarrow> Inl 400 | Some None \<Rightarrow> Inl 401 | Some (Some b) \<Rightarrow> Inr b)
      else (case wq_data rq of None \<Rightarrow> Inl 400 | Some b \<Rightarrow> Inr b))"

definition ascii :: "string \<Rightarrow> bool" where
  "ascii s = list_all (\<lambda>c. code c < 128) s"

definition webhook_view ::
  "string \<Rightarrow> string \<Rightarrow> hook_env \<Rightarrow> instant \<Rightarrow> webhook_request \<Rightarrow> pay_world \<Rightarrow> unit http_reply \<times> pay_world" where
  "webhook_view secret_hash fresh_id e now rq w =
     (if secret_hash = '''' then (Reply 401 (), w)
      else if \<not> (ascii (wq_hash rq) \<and> ascii secret_hash) then (ServerError, w)
      else if wq_hash rq \<noteq> secret_hash then (Reply 401 (), w)
      else (case webhook_body rq of
              Inl st \<Rightarrow> (Reply st (), w)
            | Inr JsonOther \<Rightarrow> (Reply 400 (), w)
            | Inr (JsonObject i pl) \<Rightarrow>
                (let event_id = (case i of None \<Rightarrow> fresh_id | Some s \<Rightarrow> if s = '''' then fresh_id else s) in
                 case process_webhook False e \<lparr>hc_event_id = event_id, hc_payload = pl, hc_now = now\<rparr> w of
                   (Inl x, w') \<Rightarrow> (ServerError, w')
                 | (Inr _, w') \<Rightarrow> (Reply 200 (), w'))))"

section \<open>The task is a history of handler calls\<close>

text \<open>A run of the retry task is a history of the operations the payment theorems range over
  (a webhook processed for an existing event, and resets of the retry counter), so everything
  proved of every history holds with retries in it.\<close>

theorem retry_task_is_history:
  "\<exists>ops. snd (process_webhook_retry decrypts e now n ref w) = run_ops pay_step ops w \<and>
    length ops \<le> 2 \<and> list_all (\<lambda>op. resets ref op \<or> (\<exists>c. op = Webhook True e c)) ops"
proof (cases "load_retry_event decrypts ref w")
  case (Inl x)
  then show ?thesis by (intro exI [of _ "[]"]) (simp add: process_webhook_retry_def)
next
  case (Inr ho)
  show ?thesis
  proof (cases ho)
    case None
    with Inr show ?thesis
      by (intro exI [of _ "[ResetRetry ref]"]) (simp add: process_webhook_retry_def)
  next
    case (Some h)
    let ?c = "\<lparr>hc_event_id = hk_event_id h, hc_payload = hk_payload h, hc_now = now\<rparr>"
    obtain r w' where hook: "process_webhook True e ?c w = (r, w')" by (cases "process_webhook True e ?c w")
    define w2 where "w2 = snd (process_webhook_retry decrypts e now n ref w)"
    have "w2 \<in> {reset_webhook_retry ref w, w, w', reset_webhook_retry ref w'}"
      by (cases r) (simp_all add: w2_def process_webhook_retry_def Inr Some hook Let_def)
    then consider (final) "w2 = reset_webhook_retry ref w" | (skip) "w2 = w" | (run) "w2 = w'"
      | (reset) "w2 = reset_webhook_retry ref w'"
      by blast
    then show ?thesis
    proof cases
      case final
      then show ?thesis by (intro exI [of _ "[ResetRetry ref]"]) (simp add: w2_def)
    next
      case skip
      then show ?thesis by (intro exI [of _ "[]"]) (simp add: w2_def)
    next
      case run
      then show ?thesis by (intro exI [of _ "[Webhook True e ?c]"]) (simp add: hook w2_def)
    next
      case reset
      then show ?thesis by (intro exI [of _ "[Webhook True e ?c, ResetRetry ref]"]) (simp add: hook w2_def)
    qed
  qed
qed

section \<open>Stored payloads\<close>

definition hooks_ok :: "pay_world \<Rightarrow> bool" where
  "hooks_ok w = list_all (\<lambda>h. hk_payload h \<noteq> DataOther) (w_hooks w)"

lemma set_upsert_rows: "set (upsert P f new xs) \<subseteq> insert new (set xs \<union> f ` set xs)"
  using set_update_first [of P f xs] by (auto simp: upsert_def)

lemma hooks_ok_save_event: "hooks_ok w \<Longrightarrow> pl \<noteq> DataOther \<Longrightarrow> hooks_ok (save_event i s pl w)"
  using set_upsert_rows [of "\<lambda>h. hk_event_id h = i" "\<lambda>h. h\<lparr>hk_status := s, hk_payload := pl\<rparr>"
      "\<lparr>hk_event_id = i, hk_status = s, hk_payload = pl\<rparr>" "w_hooks w"]
  by (auto simp: hooks_ok_def list_all_iff save_event_def)

lemma hooks_ok_cong: "w_hooks w' = w_hooks w \<Longrightarrow> hooks_ok w' = hooks_ok w"
  by (simp add: hooks_ok_def)

lemma hooks_ok_frame [simp]:
  "hooks_ok (audit_log a w) = hooks_ok w" "hooks_ok (hook_audit p act d w) = hooks_ok w"
  "hooks_ok (dispatch_after_commit e ev w) = hooks_ok w"
  "hooks_ok (schedule_retry_after_commit e r dl w) = hooks_ok w" "hooks_ok (release_lock r w) = hooks_ok w"
  "hooks_ok (w\<lparr>w_payments := rows\<rparr>) = hooks_ok w" "hooks_ok (w\<lparr>w_locks := l\<rparr>) = hooks_ok w"
  "hooks_ok (reset_webhook_retry r w) = hooks_ok w"
  by (simp_all add: hooks_ok_def reset_webhook_retry_def)

lemma hook_apply_policy_hooks_ok:
  "hooks_ok w \<Longrightarrow> hc_payload c \<noteq> DataOther \<Longrightarrow> hooks_ok (snd (hook_apply_policy e c ref p v w))"
  by (cases rule: hook_apply_policy_cases [of e c ref p v w]) (simp_all add: hooks_ok_save_event)

lemma hook_locked_hooks_ok:
  "hooks_ok w \<Longrightarrow> hc_payload c \<noteq> DataOther \<Longrightarrow> hooks_ok (snd (hook_locked e c ref w))"
  by (cases rule: hook_locked_cases [of e c ref w])
    (simp_all add: hook_verify_failed_def hooks_ok_save_event hook_apply_policy_hooks_ok)

lemma process_webhook_hooks_ok: "hooks_ok w \<Longrightarrow> hooks_ok (snd (process_webhook allow e c w))"
proof (cases "hc_payload c = DataOther")
  case True
  assume "hooks_ok w"
  with True show ?thesis
    by (simp add: process_webhook_def extract_provider_reference_def)
next
  case False
  assume "hooks_ok w"
  with False show ?thesis
    by (cases rule: process_webhook_cases [of allow c w e])
      (simp_all add: hooks_ok_save_event hook_locked_hooks_ok)
qed

lemma pay_step_hooks_ok: "hooks_ok w \<Longrightarrow> hooks_ok (pay_step op w)"
  by (cases op)
    (simp_all add: process_webhook_hooks_ok acquire_lock_def expire_stale_payments_def Let_def
      hooks_ok_cong [OF initiate_hooks] hooks_ok_cong [OF expire_loop_hooks]
      hooks_ok_cong [OF request_refund_hooks])

interpretation hooks_history: invariant_system pay_step hooks_ok
  by unfold_locales (rule pay_step_hooks_ok)

lemma scan_events_total:
  "list_all (\<lambda>h. hk_payload h \<noteq> DataOther) hs \<Longrightarrow> \<exists>ho. scan_events decrypts ref hs = Inr ho"
  by (induction hs) (auto split: hook_payload.splits)

text \<open>The retry task's search never raises: although it would fail on a stored payload whose
  \<open>data\<close> is not an object, the webhook handler never stores such a payload.\<close>

theorem retry_lookup_total:
  "\<exists>ho. load_retry_event decrypts ref (run_ops pay_step ops empty_world) = Inr ho"
proof -
  have "hooks_ok empty_world" by (simp add: hooks_ok_def empty_world_def)
  then have "hooks_ok (run_ops pay_step ops empty_world)" by (rule hooks_history.run_inv)
  then show ?thesis
    unfolding load_retry_event_def by (intro scan_events_total) (auto simp: hooks_ok_def list_all_iff)
qed

section \<open>The views\<close>

lemma pay_save_raw: "p_method p = Raw s \<Longrightarrow> pay_save i t p rows = Inl AttributeErr"
  by (simp add: pay_save_def enum_attr_value_def)

lemma initiate_raw_method:
  assumes "find_by_idempotency_key (ic_idempotency_key c) (w_payments w) = None" and "ic_method c = Raw s"
  shows "(\<exists>x. fst (initiate_payment e c w) = Inl x) \<and> w_payments (snd (initiate_payment e c w)) = w_payments w"
proof -
  have "p_method (p\<lparr>p_expires_at := t\<rparr>) = p_method p" for p t by simp
  then have raw: "p_method p = Raw s" if "payment_post_init (new_payment e c) = Inr p" for p
    by (subst payment_post_init_Inr(1) [OF that]) (simp add: new_payment_def assms(2))
  have "(\<exists>x. fst (initiate_checked e c w) = Inl x) \<and> snd (initiate_checked e c w) = w"
    using raw by (auto simp: initiate_checked_def Let_def transition_to_def pay_save_raw
        split: sum.splits option.splits)
  with assms(1) show ?thesis by (auto simp: initiate_payment_def Let_def)
qed

text \<open>No payment can be created through the HTTP endpoint: for an idempotency key that is not
  stored yet, the initiation view never answers 201 and stores nothing, because it passes plain
  strings where the repository reads enum members. The provider link has been created by then.\<close>

theorem initiate_view_never_creates:
  assumes "find_by_idempotency_key (id_idempotency_key d) (w_payments w) = None"
  shows "fst (initiate_view e user base d w) \<noteq> Reply 201 (Some dto) \<and>
    w_payments (snd (initiate_view e user base d w)) = w_payments w"
proof (cases "res_bind (mk_currency (id_currency d)) (money_from_decimal (id_amount d))")
  case (Inl x)
  then show ?thesis by (simp add: initiate_view_def)
next
  case (Inr m)
  let ?c = "initiate_command user base d m"
  obtain r w' where i: "initiate_payment e ?c w = (r, w')" by (cases "initiate_payment e ?c w")
  have "(\<exists>x. r = Inl x) \<and> w_payments w' = w_payments w"
    using initiate_raw_method [of ?c w "id_method d" e] assms i by (simp add: initiate_command_def)
  with Inr i show ?thesis by (auto simp: initiate_view_def split: pay_exn.splits)
qed

definition sample_data :: initiate_data where
  "sample_data = \<lparr>id_amount = 1999 / 100, id_currency = ''USD'', id_method = ''card'',
     id_idempotency_key = ''k2'', id_context_reference = None, id_metadata = PyDict [], id_environment = ''test''\<rparr>"

theorem initiate_view_never_creates_witness:
  "fst (initiate_view sample_env 7 ''https://app'' sample_data sample_world) \<noteq> Reply 201 (Some
      \<lparr>dto_reference = ''TXN-1'', dto_payment_link = ''l'', dto_expires_at = None\<rparr>) \<and>
    w_payments (snd (initiate_view sample_env 7 ''https://app'' sample_data sample_world)) = w_payments sample_world"
  by (rule initiate_view_never_creates)
    (simp add: sample_data_def sample_world_def sample_payment_def find_by_idempotency_key_def)

text \<open>The webhook endpoint changes nothing unless the request carries the configured secret,
  and with no secret configured it refuses every request.\<close>

theorem webhook_view_authenticated:
  assumes "snd (webhook_view secret_hash fresh_id e now rq w) \<noteq> w \<or>
    fst (webhook_view secret_hash fresh_id e now rq w) = Reply 200 ()"
  shows "secret_hash \<noteq> '''' \<and> wq_hash rq = secret_hash"
  using assms by (auto simp: webhook_view_def split: if_splits)

theorem webhook_view_authenticated_witness:
  "''s3cret'' \<noteq> '''' \<and> wq_hash \<lparr>wq_hash = ''s3cret'', wq_is_json = True, wq_has_body = True,
     wq_decrypted = None, wq_data = Some (JsonObject (Some ''e1'') NoData)\<rparr> = ''s3cret''"
proof (rule webhook_view_authenticated [where fresh_id = "''x''" and e = sample_hook_env and now = 0 and w = sample_world])
  let ?rq = "\<lparr>wq_hash = ''s3cret'', wq_is_json = True, wq_has_body = True,
     wq_decrypted = None, wq_data = Some (JsonObject (Some ''e1'') NoData)\<rparr>"
  have "fst (webhook_view ''s3cret'' ''x'' sample_hook_env 0 ?rq sample_world) = Reply 200 ()"
    by code_simp
  then show "snd (webhook_view ''s3cret'' ''x'' sample_hook_env 0 ?rq sample_world) \<noteq> sample_world \<or>
      fst (webhook_view ''s3cret'' ''x'' sample_hook_env 0 ?rq sample_world) = Reply 200 ()"
    by simp
qed

end
