(* ===== verification/Event_Outbox.thy ===== *)
theory Event_Outbox
  imports Prelude
begin

text \<open>
  Publication of domain events from the durable outboxes: \<open>tasks/payment_domain_events.py\<close> and its
  identity, vendor and document twins, which share their structure. A worker claims the row
  (PROCESSING, one more attempt), consumes it, marks it PUBLISHED and enqueues a mail; a failure
  puts it back with an exponential delay, or fails it after five attempts. The state carries the
  part of the application that consuming an event changes (\<open>'x\<close>).
\<close>

section \<open>Rows\<close>

datatype outbox_status = OB_PENDING | OB_PROCESSING | OB_PUBLISHED | OB_FAILED

record outbox_event =
  oe_id :: uuid
  oe_event_id :: uuid
  oe_aggregate_id :: uuid
  oe_type :: string
  oe_status :: outbox_status
  oe_attempts :: nat
  oe_last_error :: "string option"
  oe_next_attempt_at :: "instant option"
  oe_published_at :: "instant option"
  oe_created_at :: instant

record 'x event_world =
  ev_rows :: "outbox_event list"
  ev_mail :: "(uuid \<times> string) list"
  ev_ext :: 'x

text \<open>
  \<open>dispatch\<close>: a row with fresh key, or nothing when the event id is known already.
\<close>

definition dispatch_row :: "uuid \<Rightarrow> uuid \<Rightarrow> uuid \<Rightarrow> string \<Rightarrow> instant \<Rightarrow> 'x event_world \<Rightarrow> 'x event_world" where
  "dispatch_row i event_id aggregate_id type now w =
     (if list_ex (\<lambda>r. oe_event_id r = event_id \<or> oe_id r = i) (ev_rows w) then w
      else w\<lparr>ev_rows := ev_rows w @
        [\<lparr>oe_id = i, oe_event_id = event_id, oe_aggregate_id = aggregate_id, oe_type = type,
          oe_status = OB_PENDING, oe_attempts = 0, oe_last_error = None, oe_next_attempt_at = None,
          oe_published_at = None, oe_created_at = now\<rparr>]\<rparr>)"

definition update_row :: "uuid \<Rightarrow> (outbox_event \<Rightarrow> outbox_event) \<Rightarrow> 'x event_world \<Rightarrow> 'x event_world" where
  "update_row i f w = w\<lparr>ev_rows := map (\<lambda>r. if oe_id r = i then f r else r) (ev_rows w)\<rparr>"

definition find_row :: "uuid \<Rightarrow> 'x event_world \<Rightarrow> outbox_event option" where
  "find_row i w = find (\<lambda>r. oe_id r = i) (ev_rows w)"

section \<open>Publication\<close>

text \<open>
  What one publication meets: the exception that consuming raises, the one that saving the
  PUBLISHED row raises, whether the mail has a recipient and whether it could be enqueued.
\<close>

record publish_env =
  pe_consume_fails :: "string option"
  pe_save_fails :: "string option"
  pe_recipient :: bool
  pe_enqueued :: bool
  pe_now :: instant

definition max_event_attempts :: nat where
  "max_event_attempts = 5"

definition begin_attempt :: "outbox_event \<Rightarrow> outbox_event" where
  "begin_attempt r = r\<lparr>oe_status := OB_PROCESSING, oe_attempts := oe_attempts r + 1\<rparr>"

definition mark_published :: "instant \<Rightarrow> outbox_event \<Rightarrow> outbox_event" where
  "mark_published now r = r\<lparr>oe_status := OB_PUBLISHED, oe_published_at := Some now,
     oe_last_error := None, oe_next_attempt_at := None\<rparr>"

definition mark_failed_or_pending :: "instant \<Rightarrow> string \<Rightarrow> outbox_event \<Rightarrow> outbox_event" where
  "mark_failed_or_pending now exc r =
     (if oe_attempts r \<ge> max_event_attempts
      then r\<lparr>oe_last_error := Some exc, oe_status := OB_FAILED, oe_next_attempt_at := None\<rparr>
      else r\<lparr>oe_last_error := Some exc, oe_status := OB_PENDING,
             oe_next_attempt_at := Some (now + seconds (min (2 ^ oe_attempts r) 300))\<rparr>)"

definition enqueue_mail ::
  "(string \<Rightarrow> string option) \<Rightarrow> publish_env \<Rightarrow> outbox_event \<Rightarrow> 'x event_world \<Rightarrow> 'x event_world" where
  "enqueue_mail templates e r w =
     (case templates (oe_type r) of
        None \<Rightarrow> w
      | Some t \<Rightarrow> if t \<noteq> '''' \<and> pe_recipient e \<and> pe_enqueued e then w\<lparr>ev_mail := ev_mail w @ [(oe_id r, t)]\<rparr> else w)"

definition publish_event ::
  "(string \<Rightarrow> string option) \<Rightarrow> (outbox_event \<Rightarrow> 'x \<Rightarrow> 'x) \<Rightarrow> publish_env \<Rightarrow> uuid \<Rightarrow>
     'x event_world \<Rightarrow> (string, bool) res \<times> 'x event_world" where
  "publish_event templates consume e i w =
     (case find_row i w of
        None \<Rightarrow> (Inr False, w)
      | Some r \<Rightarrow>
          if oe_status r = OB_PUBLISHED then (Inr True, w)
          else if oe_status r = OB_FAILED then (Inr False, w)
          else
            (let w1 = update_row i begin_attempt w in
             case pe_consume_fails e of
               Some x \<Rightarrow> (Inl x, update_row i (mark_failed_or_pending (pe_now e) x) w1)
             | None \<Rightarrow>
                 (let w2 = w1\<lparr>ev_ext := consume (begin_attempt r) (ev_ext w1)\<rparr> in
                  case pe_save_fails e of
                    Some x \<Rightarrow> (Inl x, update_row i (mark_failed_or_pending (pe_now e) x) w2)
                  | None \<Rightarrow> (Inr True, enqueue_mail templates e r (update_row i (mark_published (pe_now e)) w2)))))"

text \<open>A worker that dies after claiming the row.\<close>

definition publish_crash :: "uuid \<Rightarrow> 'x event_world \<Rightarrow> 'x event_world" where
  "publish_crash i w =
     (case find_row i w of
        None \<Rightarrow> w
      | Some r \<Rightarrow> if oe_status r \<in> {OB_PUBLISHED, OB_FAILED} then w else update_row i begin_attempt w)"

section \<open>The retry worker\<close>

definition never_tried :: "outbox_event \<Rightarrow> bool" where
  "never_tried r = (oe_status r = OB_PENDING \<and> oe_next_attempt_at r = None)"

definition due :: "instant \<Rightarrow> outbox_event \<Rightarrow> bool" where
  "due now r =
     (oe_status r = OB_PENDING \<and> (case oe_next_attempt_at r of None \<Rightarrow> False | Some t \<Rightarrow> t \<le> now))"

definition due_key :: "outbox_event \<Rightarrow> instant" where
  "due_key r = (case oe_next_attempt_at r of None \<Rightarrow> 0 | Some t \<Rightarrow> t)"

definition retry_ids :: "nat \<Rightarrow> instant \<Rightarrow> 'x event_world \<Rightarrow> uuid list" where
  "retry_ids batch_size now w =
     (let ids = take batch_size (map oe_id (sort_key oe_created_at (filter never_tried (ev_rows w))));
          due_ids = take (batch_size - length ids)
            (map oe_id (sort_key due_key (sort_key oe_created_at (filter (due now) (ev_rows w)))))
      in ids @ due_ids)"

fun retry_loop ::
  "(string \<Rightarrow> string option) \<Rightarrow> (outbox_event \<Rightarrow> 'x \<Rightarrow> 'x) \<Rightarrow> (uuid \<Rightarrow> publish_env) \<Rightarrow> uuid list \<Rightarrow>
     nat \<Rightarrow> nat \<Rightarrow> 'x event_world \<Rightarrow> (nat \<times> nat) \<times> 'x event_world" where
  "retry_loop templates consume env [] published failed w = ((published, failed), w)"
| "retry_loop templates consume env (i # is) published failed w =
     (case publish_event templates consume (env i) i w of
        (Inl x, w') \<Rightarrow> retry_loop templates consume env is published (failed + 1) w'
      | (Inr ok, w') \<Rightarrow>
          retry_loop templates consume env is (if ok then published + 1 else published) failed w')"

definition retry_due ::
  "(string \<Rightarrow> string option) \<Rightarrow> (outbox_event \<Rightarrow> 'x \<Rightarrow> 'x) \<Rightarrow> nat \<Rightarrow> instant \<Rightarrow> (uuid \<Rightarrow> publish_env) \<Rightarrow>
     'x event_world \<Rightarrow> (nat \<times> nat \<times> nat) \<times> 'x event_world" where
  "retry_due templates consume batch_size now env w =
     (let ids = retry_ids batch_size now w in
      case retry_loop templates consume env ids 0 0 w of
        ((published, failed), w') \<Rightarrow> ((length ids, published, failed), w'))"

section \<open>The four outboxes\<close>

definition payment_templates :: "string \<Rightarrow> string option" where
  "payment_templates = map_of [(''PaymentCompleted'', ''payment_completed''), (''PaymentExpired'', ''payment_expired'')]"

definition document_templates :: "string \<Rightarrow> string option" where
  "document_templates = map_of [(''ExportCompleted'', ''export_completed'')]"

definition identity_templates :: "string \<Rightarrow> string option" where
  "identity_templates = map_of [(''UserPasswordChanged'', ''password_changed_confirmation'')]"

definition vendor_templates :: "string \<Rightarrow> string option" where
  "vendor_templates = map_of
     [(''VendorSubmittedForReview'', ''vendor_submitted_for_review''),
      (''VendorApproved'', ''vendor_approved''), (''VendorRejected'', ''vendor_rejected''),
      (''VendorSuspended'', ''vendor_suspended''), (''VendorReinstated'', ''vendor_reinstated''),
      (''VendorProfileUpdated'', ''vendor_profile_updated''), (''InquiryReceived'', ''inquiry_received'')]"

text \<open>Payment, vendor and document events are only observed; nothing is consumed.\<close>

definition publish_payment_domain_event ::
  "publish_env \<Rightarrow> uuid \<Rightarrow> unit event_world \<Rightarrow> (string, bool) res \<times> unit event_world" where
  "publish_payment_domain_event = publish_event payment_templates (\<lambda>_ x. x)"

definition publish_vendor_domain_event ::
  "publish_env \<Rightarrow> uuid \<Rightarrow> unit event_world \<Rightarrow> (string, bool) res \<times> unit event_world" where
  "publish_vendor_domain_event = publish_event vendor_templates (\<lambda>_ x. x)"

definition publish_document_domain_event ::
  "publish_env \<Rightarrow> uuid \<Rightarrow> unit event_world \<Rightarrow> (string, bool) res \<times> unit event_world" where
  "publish_document_domain_event = publish_event document_templates (\<lambda>_ x. x)"

text \<open>
  A password change revokes the user's sessions when it is consumed: the cutoff in seconds below
  which a token is refused (the cache's expiry is not modelled: it outlives every token).
\<close>

definition consume_identity_event :: "int \<Rightarrow> outbox_event \<Rightarrow> (uuid \<Rightarrow> int option) \<Rightarrow> (uuid \<Rightarrow> int option)" where
  "consume_identity_event now_seconds r cutoffs =
     (if oe_type r = ''UserPasswordChanged'' then cutoffs(oe_aggregate_id r := Some now_seconds) else cutoffs)"

definition publish_identity_domain_event ::
  "publish_env \<Rightarrow> uuid \<Rightarrow> (uuid \<Rightarrow> int option) event_world \<Rightarrow>
     (string, bool) res \<times> (uuid \<Rightarrow> int option) event_world" where
  "publish_identity_domain_event e =
     publish_event identity_templates (consume_identity_event (pe_now e div seconds 1)) e"

section \<open>What happens to one row\<close>

text \<open>A publication seen from its row.\<close>

definition published_row :: "publish_env \<Rightarrow> outbox_event \<Rightarrow> outbox_event" where
  "published_row e r =
     (if oe_status r \<in> {OB_PUBLISHED, OB_FAILED} then r
      else (case pe_consume_fails e of
              Some x \<Rightarrow> mark_failed_or_pending (pe_now e) x (begin_attempt r)
            | None \<Rightarrow>
                (case pe_save_fails e of
                   Some x \<Rightarrow> mark_failed_or_pending (pe_now e) x (begin_attempt r)
                 | None \<Rightarrow> mark_published (pe_now e) (begin_attempt r))))"

lemma row_id [simp]:
  "oe_id (begin_attempt r) = oe_id r" "oe_id (mark_published now r) = oe_id r"
  "oe_id (mark_failed_or_pending now x r) = oe_id r" "oe_id (published_row e r) = oe_id r"
  by (auto simp: begin_attempt_def mark_published_def mark_failed_or_pending_def published_row_def
      split: option.splits)

lemma find_row_update:
  assumes "\<And>r. oe_id (f r) = oe_id r"
  shows "find_row i (update_row j f w) = (if i = j then map_option f (find_row i w) else find_row i w)"
proof -
  have "find (\<lambda>r. oe_id r = i) (map (\<lambda>r. if oe_id r = j then f r else r) rows) =
      (if i = j then map_option f (find (\<lambda>r. oe_id r = i) rows) else find (\<lambda>r. oe_id r = i) rows)" for rows
    by (induction rows) (auto simp: assms)
  then show ?thesis by (simp add: find_row_def update_row_def)
qed

lemma find_row_mail [simp]: "find_row i (enqueue_mail ts e r w) = find_row i w"
  by (simp add: enqueue_mail_def find_row_def split: option.splits)

lemma find_row_ext [simp]: "find_row i (w\<lparr>ev_ext := x\<rparr>) = find_row i w"
  by (simp add: find_row_def)

lemma publish_find_row:
  "find_row i (snd (publish_event ts consume e j w)) =
     (if i = j then map_option (published_row e) (find_row i w) else find_row i w)"
  by (auto simp: publish_event_def Let_def find_row_update published_row_def split: option.splits)

lemma crash_find_row:
  "find_row i (publish_crash j w) =
     (if i = j then map_option (\<lambda>r. if oe_status r \<in> {OB_PUBLISHED, OB_FAILED} then r else begin_attempt r)
        (find_row i w) else find_row i w)"
  by (auto simp: publish_crash_def find_row_update split: option.splits)

lemma dispatch_find_row:
  "find_row i (dispatch_row j ei ai ty now w) =
     (if find_row i w = None \<and> i = j \<and> \<not> list_ex (\<lambda>r. oe_event_id r = ei) (ev_rows w)
      then Some \<lparr>oe_id = i, oe_event_id = ei, oe_aggregate_id = ai, oe_type = ty,
          oe_status = OB_PENDING, oe_attempts = 0, oe_last_error = None, oe_next_attempt_at = None,
          oe_published_at = None, oe_created_at = now\<rparr>
      else find_row i w)"
proof (cases "find (\<lambda>r. oe_id r = i) (ev_rows w)")
  case None
  then have "list_ex (\<lambda>r. oe_event_id r = ei \<or> oe_id r = i) (ev_rows w) =
      list_ex (\<lambda>r. oe_event_id r = ei) (ev_rows w)"
    by (auto simp: find_None_iff list_ex_iff)
  with None show ?thesis by (auto simp: dispatch_row_def find_row_def find_append)
next
  case (Some r)
  then show ?thesis by (simp add: dispatch_row_def find_row_def find_append)
qed

section \<open>The system of workers\<close>

datatype event_op =
    EvDispatch uuid uuid uuid string instant
  | EvPublish publish_env uuid
  | EvCrash uuid
  | EvRetryDue nat instant "uuid \<Rightarrow> publish_env"

fun event_step ::
  "(string \<Rightarrow> string option) \<Rightarrow> (outbox_event \<Rightarrow> 'x \<Rightarrow> 'x) \<Rightarrow> event_op \<Rightarrow> 'x event_world \<Rightarrow> 'x event_world" where
  "event_step ts consume (EvDispatch i ei ai ty now) w = dispatch_row i ei ai ty now w"
| "event_step ts consume (EvPublish e i) w = snd (publish_event ts consume e i w)"
| "event_step ts consume (EvCrash i) w = publish_crash i w"
| "event_step ts consume (EvRetryDue n now env) w = snd (retry_due ts consume n now env w)"

definition no_events :: "'x \<Rightarrow> 'x event_world" where
  "no_events x = \<lparr>ev_rows = [], ev_mail = [], ev_ext = x\<rparr>"

lemma no_events_rows [simp]: "ev_rows (no_events x) = []"
  by (simp add: no_events_def)

lemma find_row_none [simp]: "find_row i (no_events x) = None"
  by (simp add: find_row_def no_events_def)

text \<open>The retry worker is a sequence of publications, so what they keep it keeps.\<close>

lemma retry_loop_world:
  "snd (retry_loop ts consume env is p f w) = fold (\<lambda>i. snd \<circ> publish_event ts consume (env i) i) is w"
proof (induction "is" arbitrary: p f w)
  case (Cons i "is")
  obtain r w' where "publish_event ts consume (env i) i w = (r, w')" by (cases "publish_event ts consume (env i) i w")
  with Cons show ?case by (cases r) simp_all
qed simp

lemma retry_due_snd:
  "snd (retry_due ts consume n now env w) = snd (retry_loop ts consume env (retry_ids n now w) 0 0 w)"
  by (cases "retry_loop ts consume env (retry_ids n now w) 0 0 w") (simp add: retry_due_def Let_def split: prod.splits)

lemma retry_due_keeps:
  assumes "\<And>e i v. P v \<Longrightarrow> P (snd (publish_event ts consume e i v))" and "P w"
  shows "P (snd (retry_due ts consume n now env w))"
proof -
  have "P (fold (\<lambda>i. snd \<circ> publish_event ts consume (env i) i) is w)" for "is"
    using assms(2) by (induction "is" arbitrary: w) (auto intro: assms(1))
  then have "P (snd (retry_loop ts consume env (retry_ids n now w) 0 0 w))"
    by (simp add: retry_loop_world)
  then show ?thesis by (simp add: retry_due_snd)
qed

subsection \<open>One mail\<close>

definition mails :: "uuid \<Rightarrow> 'x event_world \<Rightarrow> nat" where
  "mails i w = length (filter (\<lambda>(j, _). j = i) (ev_mail w))"

definition settled :: "outbox_event option \<Rightarrow> bool" where
  "settled x = (case x of None \<Rightarrow> False | Some r \<Rightarrow> oe_status r \<in> {OB_PUBLISHED, OB_FAILED})"


lemma mails_frame [simp]:
  "mails i (update_row j f w) = mails i w" "mails i (w\<lparr>ev_ext := x\<rparr>) = mails i w"
  "mails i (dispatch_row j ei ai ty now w) = mails i w" "mails i (publish_crash j w) = mails i w"
  by (simp_all add: mails_def update_row_def dispatch_row_def publish_crash_def split: option.splits)



lemma publish_settled: "settled (find_row i w) \<Longrightarrow>
    find_row i (snd (publish_event ts consume e j w)) = find_row i w"
  by (cases "find_row i w") (auto simp: publish_find_row settled_def published_row_def)


lemma settled_simps [simp]:
  "\<not> settled None" "settled (Some r) \<longleftrightarrow> oe_status r = OB_PUBLISHED \<or> oe_status r = OB_FAILED"
  by (simp_all add: settled_def)

lemma settled_crash [simp]: "settled (find_row i (publish_crash j w)) = settled (find_row i w)"
  unfolding crash_find_row by (cases "find_row i w") (auto simp: begin_attempt_def split: if_splits)

lemma settled_dispatch [simp]:
  "settled (find_row i (dispatch_row j ei ai ty now w)) = settled (find_row i w)"
  unfolding dispatch_find_row by (cases "find_row i w") auto





subsection \<open>Attempts\<close>

text \<open>The attempts a row has used beyond the five the code allows, counting what a crash cost.\<close>

definition excess :: "outbox_event option \<Rightarrow> nat" where
  "excess x = (case x of None \<Rightarrow> 0
     | Some r \<Rightarrow> if oe_status r \<in> {OB_PENDING, OB_PROCESSING} then oe_attempts r - 4 else oe_attempts r - 5)"

fun crashes :: "uuid \<Rightarrow> event_op \<Rightarrow> bool" where
  "crashes i (EvCrash j) = (i = j)"
| "crashes i _ = False"

lemma published_row_excess: "excess (Some (published_row e r)) \<le> excess (Some r)"
  by (cases "oe_status r")
    (auto simp: excess_def published_row_def mark_failed_or_pending_def mark_published_def begin_attempt_def
      max_event_attempts_def split: option.splits)

lemma publish_excess: "excess (find_row i (snd (publish_event ts consume e j w))) \<le> excess (find_row i w)"
  by (cases "i = j"; cases "find_row i w") (simp_all add: publish_find_row published_row_excess)

lemma crash_excess: "excess (find_row i (publish_crash j w)) \<le> excess (find_row i w) + of_bool (i = j)"
proof (cases "find_row i w")
  case (Some r)
  then show ?thesis
    by (cases "i = j"; cases "oe_status r") (simp_all add: crash_find_row excess_def begin_attempt_def)
qed (auto simp: crash_find_row)

lemma dispatch_excess: "excess (find_row i (dispatch_row j ei ai ty now w)) = excess (find_row i w)"
  unfolding dispatch_find_row by (cases "find_row i w") (auto simp: excess_def)

lemma event_step_excess:
  "excess (find_row i (event_step ts consume op w)) \<le> excess (find_row i w) + of_bool (crashes i op)"
proof (cases op)
  case (EvRetryDue n now env)
  have "excess (find_row i (snd (retry_due ts consume n now env w))) \<le> excess (find_row i w)"
    by (rule retry_due_keeps) (auto intro: order_trans [OF publish_excess])
  with EvRetryDue show ?thesis by simp
next
  case (EvPublish e j)
  then show ?thesis using publish_excess [of i ts consume e j w] by simp
next
  case (EvCrash j)
  then show ?thesis using crash_excess [of i j w] by simp
next
  case (EvDispatch j ei ai ty now)
  then show ?thesis by (simp add: dispatch_excess)
qed

lemma run_excess:
  "excess (find_row i (run_ops (event_step ts consume) ops w)) \<le>
     excess (find_row i w) + length (filter (crashes i) ops)"
proof (induction ops arbitrary: w)
  case (Cons op ops)
  have "excess (find_row i (run_ops (event_step ts consume) ops (event_step ts consume op w))) \<le>
      excess (find_row i (event_step ts consume op w)) + length (filter (crashes i) ops)"
    by (rule Cons.IH)
  with event_step_excess [of i ts consume op w] show ?case by auto
qed simp

subsection \<open>What the retry worker looks at\<close>

lemma retry_loop_untouched:
  "i \<notin> set is \<Longrightarrow> find_row i (snd (retry_loop ts consume env is p f w)) = find_row i w"
  unfolding retry_loop_world
  by (induction "is" arbitrary: w) (auto simp: publish_find_row)

lemma retry_ids_pending:
  assumes "i \<in> set (retry_ids n now w)"
  shows "\<exists>r \<in> set (ev_rows w). oe_id r = i \<and> oe_status r = OB_PENDING"
  using assms unfolding retry_ids_def Let_def
  by (auto dest!: in_set_takeD simp: never_tried_def due_def)

lemma find_row_unique:
  "distinct (map oe_id (ev_rows w)) \<Longrightarrow> r \<in> set (ev_rows w) \<Longrightarrow> find_row (oe_id r) w = Some r"
  by (simp add: find_row_def distinct_find_unique)

definition unpublished_due :: "instant \<Rightarrow> 'x event_world \<Rightarrow> outbox_event list" where
  "unpublished_due now w = filter (\<lambda>r. never_tried r \<or> due now r) (ev_rows w)"

text \<open>Row ids stay distinct.\<close>

definition ids_ok :: "'x event_world \<Rightarrow> bool" where
  "ids_ok w = distinct (map oe_id (ev_rows w))"

lemma ids_ok_update [simp]:
  assumes "\<And>r. oe_id (f r) = oe_id r"
  shows "ids_ok (update_row j f w) = ids_ok w"
  using assms by (simp add: ids_ok_def update_row_def comp_def if_distrib cong: if_cong)

lemma ids_ok_frame [simp]:
  "ids_ok (w\<lparr>ev_ext := x\<rparr>) = ids_ok w" "ids_ok (enqueue_mail ts e r w) = ids_ok w"
  by (simp_all add: ids_ok_def enqueue_mail_def split: option.splits)

lemma publish_ids_ok: "ids_ok w \<Longrightarrow> ids_ok (snd (publish_event ts consume e i w))"
  by (auto simp: publish_event_def Let_def split: option.splits)

lemma event_step_ids_ok: "ids_ok w \<Longrightarrow> ids_ok (event_step ts consume op w)"
proof (cases op)
  case (EvRetryDue n now env)
  assume "ids_ok w"
  then show ?thesis
    unfolding EvRetryDue event_step.simps by (rule retry_due_keeps [rotated]) (rule publish_ids_ok)
next
  case (EvDispatch j ei ai ty now)
  assume "ids_ok w"
  with EvDispatch show ?thesis by (auto simp: dispatch_row_def ids_ok_def list_ex_iff)
next
  case (EvCrash j)
  assume "ids_ok w"
  with EvCrash show ?thesis by (auto simp: publish_crash_def split: option.splits)
qed (simp add: publish_ids_ok)

interpretation ids_history: invariant_system "event_step ts consume" ids_ok for ts consume
  by unfold_locales (rule event_step_ids_ok)

text \<open>Without failures the loop publishes every row it is given.\<close>

lemma publish_clean:
  assumes "pe_consume_fails e = None" and "pe_save_fails e = None"
    and "find_row i w = Some r" and "oe_status r \<noteq> OB_FAILED"
  shows "publish_event ts consume e i w = (Inr True, snd (publish_event ts consume e i w)) \<and>
    (\<exists>r'. find_row i (snd (publish_event ts consume e i w)) = Some r' \<and> oe_status r' = OB_PUBLISHED)"
  using assms
  by (auto simp: publish_event_def Let_def publish_find_row published_row_def mark_published_def find_row_update)

lemma retry_loop_clean:
  assumes "\<forall>i. pe_consume_fails (env i) = None \<and> pe_save_fails (env i) = None"
    and "\<forall>i \<in> set is. \<exists>r. find_row i w = Some r \<and> oe_status r \<noteq> OB_FAILED"
  shows "\<exists>w'. retry_loop ts consume env is p f w = ((p + length is, f), w') \<and>
    (\<forall>i \<in> set is. \<exists>r. find_row i w' = Some r \<and> oe_status r = OB_PUBLISHED) \<and>
    (\<forall>i. \<forall>r. find_row i w = Some r \<and> oe_status r = OB_PUBLISHED \<longrightarrow> find_row i w' = Some r)"
  using assms(2)
proof (induction "is" arbitrary: p w)
  case (Cons i "is")
  obtain r where r: "find_row i w = Some r" "oe_status r \<noteq> OB_FAILED" using Cons.prems by auto
  define w1 where "w1 = snd (publish_event ts consume (env i) i w)"
  have env: "pe_consume_fails (env i) = None" "pe_save_fails (env i) = None"
    using assms(1) by simp_all
  note clean = publish_clean [OF env r, of ts consume, folded w1_def]
  then have one: "publish_event ts consume (env i) i w = (Inr True, w1)" by (rule conjunct1)
  obtain r1 where r1: "find_row i w1 = Some r1" "oe_status r1 = OB_PUBLISHED"
    using clean by blast
  have keep: "find_row j w1 = Some q" if "find_row j w = Some q" "oe_status q = OB_PUBLISHED" for j q
    using publish_settled [of j w ts consume "env i" i] that by (simp add: w1_def)
  have "\<forall>j \<in> set is. \<exists>r. find_row j w1 = Some r \<and> oe_status r \<noteq> OB_FAILED"
  proof
    fix j assume "j \<in> set is"
    with Cons.prems r1 show "\<exists>r. find_row j w1 = Some r \<and> oe_status r \<noteq> OB_FAILED"
      by (cases "j = i") (auto simp: w1_def publish_find_row)
  qed
  from Cons.IH [OF this, of "Suc p"] obtain w' where
    "retry_loop ts consume env is (Suc p) f w1 = ((Suc p + length is, f), w')"
    "\<forall>i \<in> set is. \<exists>r. find_row i w' = Some r \<and> oe_status r = OB_PUBLISHED"
    "\<forall>i. \<forall>r. find_row i w1 = Some r \<and> oe_status r = OB_PUBLISHED \<longrightarrow> find_row i w' = Some r"
    by blast
  with one r1 keep show ?case by auto
qed simp

lemma retry_ids_all:
  assumes "length (unpublished_due now w) \<le> n"
  shows "set (retry_ids n now w) = oe_id ` set (unpublished_due now w)"
    and "length (retry_ids n now w) = length (unpublished_due now w)"
proof -
  have "length (filter never_tried rows) + length (filter (due now) rows) =
      length (filter (\<lambda>r. never_tried r \<or> due now r) rows)" for rows
    by (induction rows) (auto simp: never_tried_def due_def)
  then have split: "length (filter never_tried (ev_rows w)) + length (filter (due now) (ev_rows w)) =
      length (unpublished_due now w)"
    by (simp add: unpublished_due_def)
  show "set (retry_ids n now w) = oe_id ` set (unpublished_due now w)"
    and "length (retry_ids n now w) = length (unpublished_due now w)"
    using split assms by (auto simp: retry_ids_def Let_def unpublished_due_def)
qed

section \<open>The properties of the outboxes\<close>


definition sample_publish_env :: publish_env where
  "sample_publish_env = \<lparr>pe_consume_fails = None, pe_save_fails = None, pe_recipient = True,
     pe_enqueued = True, pe_now = 10\<rparr>"


text \<open>A row is attempted at most five times, plus once for each worker that died on it.\<close>

theorem outbox_attempts_bounded:
  assumes "find_row i (run_ops (event_step ts consume) ops (no_events x)) = Some r"
  shows "oe_attempts r \<le> 5 + length (filter (crashes i) ops)"
  using run_excess [of i ts consume ops "no_events x"] assms
  by (simp add: excess_def split: if_splits)

theorem outbox_attempts_bounded_witness:
  "oe_attempts (begin_attempt (begin_attempt \<lparr>oe_id = 1, oe_event_id = 2, oe_aggregate_id = 3,
      oe_type = ''PaymentExpired'', oe_status = OB_PENDING, oe_attempts = 0, oe_last_error = None,
      oe_next_attempt_at = None, oe_published_at = None, oe_created_at = 0\<rparr>)) \<le>
    5 + length (filter (crashes 1) [EvDispatch 1 2 3 ''PaymentExpired'' 0, EvCrash 1, EvCrash 1])"
  by (rule outbox_attempts_bounded [where ts = payment_templates and consume = "\<lambda>_ x. x" and x = "()"])
    (simp add: dispatch_find_row crash_find_row begin_attempt_def)

text \<open>When nothing fails and the batch is large enough, one run of the retry worker publishes
  every pending row that was never tried or is due, and reports their number.\<close>

theorem retry_due_complete:
  assumes "w = run_ops (event_step ts consume) ops (no_events x)"
    and "\<forall>i. pe_consume_fails (env i) = None \<and> pe_save_fails (env i) = None"
    and "length (unpublished_due now w) \<le> n"
  shows "\<exists>w'. retry_due ts consume n now env w =
      ((length (unpublished_due now w), length (unpublished_due now w), 0), w') \<and>
    (\<forall>r \<in> set (unpublished_due now w). \<exists>r'. find_row (oe_id r) w' = Some r' \<and> oe_status r' = OB_PUBLISHED)"
proof -
  have "ids_ok (no_events x)" by (simp add: ids_ok_def no_events_def)
  then have ids: "ids_ok w" unfolding assms(1) by (rule ids_history.run_inv)
  note all = retry_ids_all [OF assms(3)]
  have "\<forall>i \<in> set (retry_ids n now w). \<exists>r. find_row i w = Some r \<and> oe_status r \<noteq> OB_FAILED"
  proof
    fix i assume "i \<in> set (retry_ids n now w)"
    from retry_ids_pending [OF this] obtain r where
      "r \<in> set (ev_rows w)" "oe_id r = i" "oe_status r = OB_PENDING" by blast
    with find_row_unique [of w r] ids show "\<exists>r. find_row i w = Some r \<and> oe_status r \<noteq> OB_FAILED"
      by (auto simp: ids_ok_def)
  qed
  from retry_loop_clean [OF assms(2) this, of ts consume 0 0] obtain w' where
    loop: "retry_loop ts consume env (retry_ids n now w) 0 0 w = ((0 + length (retry_ids n now w), 0), w')"
    and pub: "\<forall>i \<in> set (retry_ids n now w). \<exists>r. find_row i w' = Some r \<and> oe_status r = OB_PUBLISHED"
    by blast
  have "retry_due ts consume n now env w =
      ((length (unpublished_due now w), length (unpublished_due now w), 0), w')"
    by (simp add: retry_due_def Let_def loop all(2))
  moreover have "\<forall>r \<in> set (unpublished_due now w).
      \<exists>r'. find_row (oe_id r) w' = Some r' \<and> oe_status r' = OB_PUBLISHED"
    using pub all(1) by simp
  ultimately show ?thesis by blast
qed

theorem retry_due_complete_witness:
  "\<exists>w'. retry_due payment_templates (\<lambda>_ x. x) 50 5 (\<lambda>_. sample_publish_env) (run_ops (event_step payment_templates
        (\<lambda>_ x. x)) [EvDispatch 1 2 3 ''PaymentExpired'' 0] (no_events ())) =
      ((1, 1, 0), w') \<and> (\<exists>r'. find_row 1 w' = Some r' \<and> oe_status r' = OB_PUBLISHED)"
proof -
  let ?w = "run_ops (event_step payment_templates (\<lambda>_ x. x)) [EvDispatch 1 2 3 ''PaymentExpired'' 0] (no_events ())"
  have due: "map oe_id (unpublished_due 5 ?w) = [1]"
    by (simp add: unpublished_due_def never_tried_def dispatch_row_def)
  then have one: "length (unpublished_due 5 ?w) = 1" by (metis length_map length_Cons list.size(3) One_nat_def)
  from retry_due_complete [OF refl, of "\<lambda>_. sample_publish_env" 5 payment_templates "\<lambda>_ x. x"
      "[EvDispatch 1 2 3 ''PaymentExpired'' 0]" "()" 50]
  obtain w' where w': "retry_due payment_templates (\<lambda>_ x. x) 50 5 (\<lambda>_. sample_publish_env) ?w = ((1, 1, 0), w')"
    "\<forall>r \<in> set (unpublished_due 5 ?w). \<exists>r'. find_row (oe_id r) w' = Some r' \<and> oe_status r' = OB_PUBLISHED"
    unfolding one by (auto simp: sample_publish_env_def)
  from due have "1 \<in> oe_id ` set (unpublished_due 5 ?w)" by (metis list.set_intros(1) set_map)
  with w' show ?thesis by auto
qed

text \<open>What happens without someone calling the publishing task for a given row.\<close>

fun automatic :: "event_op \<Rightarrow> bool" where
  "automatic (EvDispatch i ei ai ty now) = True"
| "automatic (EvRetryDue n now env) = True"
| "automatic _ = False"

lemma retry_due_processing:
  assumes "find_row i w = Some r" and "oe_status r = OB_PROCESSING" and "ids_ok w"
  shows "find_row i (snd (retry_due ts consume n now env w)) = Some r"
proof -
  have "i \<notin> set (retry_ids n now w)"
  proof
    assume "i \<in> set (retry_ids n now w)"
    from retry_ids_pending [OF this] obtain q where
      "q \<in> set (ev_rows w)" "oe_id q = i" "oe_status q = OB_PENDING" by blast
    with find_row_unique [of w q] assms show False by (simp add: ids_ok_def)
  qed
  from retry_loop_untouched [OF this, of ts consume env 0 0 w] assms(1) show ?thesis
    by (simp add: retry_due_snd)
qed

lemma automatic_processing:
  assumes "list_all automatic later" and "find_row i w = Some r" and "oe_status r = OB_PROCESSING" and "ids_ok w"
  shows "find_row i (run_ops (event_step ts consume) later w) = Some r"
  using assms
proof (induction later arbitrary: w)
  case (Cons op later)
  have "find_row i (event_step ts consume op w) = Some r"
    using Cons.prems by (cases op) (simp_all add: retry_due_processing dispatch_find_row)
  then show ?case
    using Cons.IH [of "event_step ts consume op w"] Cons.prems event_step_ids_ok [of w ts consume op] by simp
qed simp

text \<open>A row left in PROCESSING by a dead worker is never picked up by the retry worker, however
  often it runs and whatever else is dispatched: the event stays unpublished unless someone calls
  the publishing task for it again.\<close>

theorem outbox_crash_is_final:
  assumes "find_row i (run_ops (event_step ts consume) ops (no_events x)) = Some r"
    and "oe_status r = OB_PROCESSING" and "list_all automatic later"
  shows "find_row i (run_ops (event_step ts consume) (ops @ later) (no_events x)) = Some r"
proof -
  have "ids_ok (no_events x)" by (simp add: ids_ok_def)
  then have "ids_ok (run_ops (event_step ts consume) ops (no_events x))" by (rule ids_history.run_inv)
  from automatic_processing [OF assms(3,1,2) this] show ?thesis by (simp add: run_ops_append)
qed

theorem outbox_crash_is_final_witness:
  "\<exists>r. find_row 1 (run_ops (event_step payment_templates (\<lambda>_ x. x))
      ([EvDispatch 1 2 3 ''PaymentExpired'' 0, EvCrash 1] @ [EvRetryDue 50 99 (\<lambda>_. sample_publish_env)])
        (no_events ())) = Some r \<and> oe_status r = OB_PROCESSING"
proof -
  let ?ops = "[EvDispatch 1 2 3 ''PaymentExpired'' 0, EvCrash 1]"
  obtain r where r: "find_row 1 (run_ops (event_step payment_templates (\<lambda>_ x. x)) ?ops (no_events ())) = Some r"
    "oe_status r = OB_PROCESSING"
    by (simp add: crash_find_row dispatch_find_row begin_attempt_def)
  from outbox_crash_is_final [OF r, of "[EvRetryDue 50 99 (\<lambda>_. sample_publish_env)]"] r(2) show ?thesis
    by (simp del: run_ops_simps)
qed

end
