(* ===== verification/Identity_Core.thy ===== *)
theory Identity_Core
  imports Prelude
begin

text \<open>
  The value objects and the pure policies of the identity domain (\<open>domain/identity\<close>): security
  reasons, email addresses, passwords and their history, names, roles and the role assignment
  policy. Enum members and the strings that denote them are interchangeable in the source (\<open>str\<close>
  enums converted on entry), so an argument annotated \<open>UserRole | str\<close> is a string here.
\<close>

section \<open>Errors\<close>

datatype id_exn =
    ValueError string
  | TypeErr
  | InvalidSecurityReasonError string
  | InvalidEmailError string
  | WeakPasswordError string
  | PasswordReuseError
  | AccountCannotBeActivated
  | AccountSuspended
  | AccountTemporarilyLocked
  | AuthenticationNotAllowed
  | RoleAssignmentDenied
  | RoleAssignmentRequiresActor
  | RoleCannotBeSelfAssigned
  | InvalidVerificationCode string
  | VerificationExpired
  | VerificationChallengeConsumed
  | VerificationAttemptsExhausted
  | VerificationResendTooSoon
  | MfaChallengeExpired
  | RecoveryCodeAlreadyUsed
  | InvalidPasswordResetToken
  | PasswordResetExpired
  | PasswordResetAlreadyUsed
  | PasswordResetUserInactive

section \<open>Secrets and security reasons\<close>

definition contains_control_character :: "string \<Rightarrow> bool" where
  "contains_control_character s = list_ex (\<lambda>c. code c < 32 \<or> code c = 127) s"

definition mk_secret_value :: "string \<Rightarrow> (id_exn, string) res" where
  "mk_secret_value s =
     (if s = '''' \<or> py_strip s = '''' then Inl (ValueError ''Secret value cannot be empty'')
      else if contains_control_character s
      then Inl (ValueError ''Secret value contains unsafe control characters'')
      else Inr s)"

definition forbidden_fragments :: "string list" where
  "forbidden_fragments = [''password'', ''token'', ''secret'', ''totp'', ''refresh'']"

definition mk_security_reason :: "string \<Rightarrow> (id_exn, string) res" where
  "mk_security_reason value =
     (let normalized = py_strip value in
      if normalized = '''' then Inl (InvalidSecurityReasonError ''Security reason cannot be empty'')
      else if list_ex (\<lambda>f. py_contains f (py_lower normalized)) forbidden_fragments
      then Inl (InvalidSecurityReasonError ''Security reason cannot contain secret-like text'')
      else Inr normalized)"

text \<open>\<open>_normalize_reason\<close>; a \<open>SecurityReason\<close> object is the string it holds.\<close>

definition normalize_reason :: "string option \<Rightarrow> (id_exn, string option) res" where
  "normalize_reason r =
     (case r of None \<Rightarrow> Inr None | Some s \<Rightarrow> res_bind (mk_security_reason s) (\<lambda>x. Inr (Some x)))"

section \<open>Email addresses\<close>

definition is_lower :: "char \<Rightarrow> bool" where "is_lower c = (97 \<le> code c \<and> code c \<le> 122)"
definition is_upper :: "char \<Rightarrow> bool" where "is_upper c = (65 \<le> code c \<and> code c \<le> 90)"
definition is_decimal :: "char \<Rightarrow> bool" where "is_decimal c = (48 \<le> code c \<and> code c \<le> 57)"

definition email_local_char :: "char \<Rightarrow> bool" where
  "email_local_char c = (is_lower c \<or> is_decimal c \<or> c \<in> {CHR ''_'', CHR ''.'', CHR ''+'', CHR ''-''})"

definition email_host_char :: "char \<Rightarrow> bool" where
  "email_host_char c = (is_lower c \<or> is_decimal c \<or> c = CHR ''-'')"

definition email_rest_char :: "char \<Rightarrow> bool" where
  "email_rest_char c = (email_host_char c \<or> c = CHR ''.'')"

text \<open>
  \<open>^[a-z0-9_.+-]+@[a-z0-9-]+\.[a-z0-9-.]+$\<close>: no class contains the at sign, and the host class no
  dot, so the first of each is where the pattern has it.
\<close>

definition email_is_valid :: "string \<Rightarrow> bool" where
  "email_is_valid s =
     (let user = takeWhile (\<lambda>c. c \<noteq> CHR ''@'') s;
          domain = drop (Suc (length user)) s;
          host = takeWhile (\<lambda>c. c \<noteq> CHR ''.'') domain;
          rest = drop (Suc (length host)) domain
      in user \<noteq> [] \<and> list_all email_local_char user \<and> length user < length s \<and>
         host \<noteq> [] \<and> list_all email_host_char host \<and> length host < length domain \<and>
         rest \<noteq> [] \<and> list_all email_rest_char rest)"

definition mk_email :: "string \<Rightarrow> (id_exn, string) res" where
  "mk_email value =
     (let normalized = py_lower (py_strip value) in
      if length normalized > 254 then Inl (InvalidEmailError ''Email is too long'')
      else if \<not> email_is_valid normalized then Inl (InvalidEmailError ''Invalid email'')
      else Inr normalized)"

section \<open>Passwords\<close>

definition mk_plain_password :: "string \<Rightarrow> (id_exn, string) res" where
  "mk_plain_password s =
     (if contains_control_character s
      then Inl (WeakPasswordError ''Password contains unsafe control characters'')
      else if s \<noteq> py_strip s
      then Inl (WeakPasswordError ''Password cannot start or end with whitespace'')
      else Inr s)"

definition mk_password_hash :: "string \<Rightarrow> (id_exn, string) res" where
  "mk_password_hash s =
     (if s = '''' then Inl (ValueError ''Password hash cannot be empty'')
      else if contains_control_character s
      then Inl (ValueError ''Password hash contains unsafe control characters'')
      else Inr s)"

text \<open>\<open>\s\<close> and \<open>\d\<close> of a Python string pattern are \<open>isspace\<close> and the decimal digits.\<close>

definition validate_password :: "string \<Rightarrow> (id_exn, unit) res" where
  "validate_password s =
     (if length s < 8 then Inl (WeakPasswordError ''Password must be at least 8 characters long'')
      else if length s > 128 then Inl (WeakPasswordError ''Password must be at most 128 characters long'')
      else if \<not> list_ex is_upper s
      then Inl (WeakPasswordError ''Password must contain at least one uppercase letter'')
      else if \<not> list_ex is_lower s
      then Inl (WeakPasswordError ''Password must contain at least one lowercase letter'')
      else if \<not> list_ex is_decimal s
      then Inl (WeakPasswordError ''Password must contain at least one digit'')
      else if \<not> list_ex (\<lambda>c. \<not> (is_upper c \<or> is_lower c \<or> is_decimal c \<or> is_space c)) s
      then Inl (WeakPasswordError
        ''Password must contain at least one non-whitespace special character'')
      else Inr ())"

record history_entry =
  he_hash :: string
  he_changed_at :: "datetime option"

record password_history =
  ph_entries :: "history_entry list"
  ph_max_entries :: int

definition mk_password_history :: "history_entry list \<Rightarrow> int \<Rightarrow> (id_exn, password_history) res" where
  "mk_password_history entries n =
     (if n \<le> 0 then Inl (ValueError ''Password history size must be positive'')
      else Inr \<lparr>ph_entries = take (nat n) entries, ph_max_entries = n\<rparr>)"

text \<open>The verifier checks a password against a hash.\<close>

definition ensure_not_reused ::
  "password_history \<Rightarrow> string \<Rightarrow> (string \<Rightarrow> string \<Rightarrow> bool) \<Rightarrow> (id_exn, unit) res" where
  "ensure_not_reused h candidate verifier =
     (if list_ex (\<lambda>x. verifier candidate (he_hash x)) (ph_entries h) then Inl PasswordReuseError else Inr ())"

definition record_password ::
  "string \<Rightarrow> datetime option \<Rightarrow> password_history \<Rightarrow> (id_exn, password_history) res" where
  "record_password hash changed_at h =
     mk_password_history (\<lparr>he_hash = hash, he_changed_at = changed_at\<rparr> # ph_entries h) (ph_max_entries h)"

section \<open>Names, roles and permissions\<close>

definition mk_person_name :: "string \<Rightarrow> string \<Rightarrow> (id_exn, string \<times> string) res" where
  "mk_person_name first_name last_name =
     (let f = py_strip first_name; l = py_strip last_name in
      if f = '''' then Inl (ValueError ''First name cannot be empty'')
      else if l = '''' then Inl (ValueError ''Last name cannot be empty'')
      else Inr (f, l))"

datatype user_role = PLANNER | VENDOR | ADMIN

definition mk_role :: "string \<Rightarrow> (id_exn, user_role) res" where
  "mk_role s =
     (if s = ''planner'' then Inr PLANNER else if s = ''vendor'' then Inr VENDOR
      else if s = ''admin'' then Inr ADMIN else Inl (ValueError ''not a valid UserRole''))"

definition can_self_register :: "user_role \<Rightarrow> bool" where
  "can_self_register r = (r \<in> {PLANNER, VENDOR})"

datatype permission = ASSIGN_USER_ROLE | ASSIGN_ADMIN_ROLE

definition permissions_for_role :: "user_role \<Rightarrow> permission list" where
  "permissions_for_role r =
     (case r of PLANNER \<Rightarrow> [] | VENDOR \<Rightarrow> [] | ADMIN \<Rightarrow> [ASSIGN_USER_ROLE, ASSIGN_ADMIN_ROLE])"

definition role_rank :: "user_role \<Rightarrow> nat" where
  "role_rank r = (case r of PLANNER \<Rightarrow> 1 | VENDOR \<Rightarrow> 1 | ADMIN \<Rightarrow> 2)"

record role_context =
  ra_target_user_id :: uuid
  ra_current_role :: user_role
  ra_new_role :: user_role
  ra_actor_user_id :: "uuid option"
  ra_actor_role :: "user_role option"
  ra_permissions :: "permission list"

definition context_for_actor ::
  "uuid \<Rightarrow> user_role \<Rightarrow> user_role \<Rightarrow> uuid option \<Rightarrow> string option \<Rightarrow> permission list option \<Rightarrow>
     (id_exn, role_context) res" where
  "context_for_actor target current new actor actor_role permissions =
     res_bind (case actor_role of None \<Rightarrow> Inr None | Some s \<Rightarrow> res_bind (mk_role s) (\<lambda>r. Inr (Some r))) (\<lambda>role.
     Inr \<lparr>ra_target_user_id = target, ra_current_role = current, ra_new_role = new,
          ra_actor_user_id = actor, ra_actor_role = role,
          ra_permissions = (case (permissions, role) of
              (None, Some r) \<Rightarrow> permissions_for_role r
            | (None, None) \<Rightarrow> []
            | (Some ps, _) \<Rightarrow> ps)\<rparr>)"

definition ensure_can_assign :: "role_context \<Rightarrow> (id_exn, unit) res" where
  "ensure_can_assign c =
     (if ra_actor_user_id c = None \<or> ra_actor_role c = None then Inl RoleAssignmentRequiresActor
      else if ASSIGN_USER_ROLE \<notin> set (ra_permissions c) then Inl RoleAssignmentDenied
      else if ra_new_role c = ra_current_role c then Inr ()
      else if ra_actor_user_id c = Some (ra_target_user_id c) \<and> ra_new_role c = ADMIN
      then Inl RoleCannotBeSelfAssigned
      else if role_rank (ra_new_role c) > role_rank (ra_current_role c) \<and>
              ASSIGN_ADMIN_ROLE \<notin> set (ra_permissions c) then Inl RoleAssignmentDenied
      else Inr ())"

section \<open>Facts\<close>

lemma mk_security_reason_Inr [res_simps]:
  "mk_security_reason s = Inr r \<longleftrightarrow> py_strip s \<noteq> '''' \<and>
     \<not> list_ex (\<lambda>f. py_contains f (py_lower (py_strip s))) forbidden_fragments \<and> r = py_strip s"
  by (simp add: mk_security_reason_def Let_def eq_commute)

lemma mk_security_reason_idem: "mk_security_reason s = Inr r \<Longrightarrow> mk_security_reason r = Inr r"
  by (auto simp: mk_security_reason_Inr)

lemma ensure_can_assign_Inr [res_simps]:
  "ensure_can_assign c = Inr () \<longleftrightarrow>
     ra_actor_user_id c \<noteq> None \<and> ra_actor_role c \<noteq> None \<and> ASSIGN_USER_ROLE \<in> set (ra_permissions c) \<and>
     (ra_new_role c = ra_current_role c \<or>
      \<not> (ra_actor_user_id c = Some (ra_target_user_id c) \<and> ra_new_role c = ADMIN) \<and>
      (role_rank (ra_new_role c) > role_rank (ra_current_role c) \<longrightarrow> ASSIGN_ADMIN_ROLE \<in> set (ra_permissions c)))"
  by (auto simp: ensure_can_assign_def)

lemma to_admin_escalates: "r \<noteq> ADMIN \<Longrightarrow> role_rank r < role_rank ADMIN"
  by (cases r) (simp_all add: role_rank_def)

lemma lower_char_idem [simp]: "lower_char (lower_char c) = lower_char c"
proof -
  have "code (char_of (n :: nat)) = n" if "n < 256" for n
    using that by (simp add: code_def)
  then show ?thesis by (auto simp: lower_char_def)
qed

lemma py_lower_idem [simp]: "py_lower (py_lower s) = py_lower s"
  by (simp add: py_lower_def comp_def)

lemma email_char_facts:
  "email_local_char c \<or> email_host_char c \<or> email_rest_char c \<or> c = CHR ''@'' \<or> c = CHR ''.'' \<Longrightarrow>
     \<not> is_space c \<and> lower_char c = c"
proof -
  assume "email_local_char c \<or> email_host_char c \<or> email_rest_char c \<or> c = CHR ''@'' \<or> c = CHR ''.''"
  moreover have "code (CHR ''_'') = 95" "code (CHR ''.'') = 46" "code (CHR ''+'') = 43"
    "code (CHR ''-'') = 45" "code (CHR ''@'') = 64"
    by (simp_all add: code_def)
  ultimately have "97 \<le> code c \<and> code c \<le> 122 \<or> 48 \<le> code c \<and> code c \<le> 57 \<or> code c = 95 \<or> code c = 46 \<or>
      code c = 43 \<or> code c = 45 \<or> code c = 64"
    unfolding email_local_char_def email_host_char_def email_rest_char_def is_lower_def is_decimal_def
    by auto
  then show ?thesis
    unfolding is_space_def lower_char_def by auto
qed

lemma takeWhile_drop_eq:
  assumes "length (takeWhile (\<lambda>c. c \<noteq> x) s) < length s"
  shows "s = takeWhile (\<lambda>c. c \<noteq> x) s @ x # drop (Suc (length (takeWhile (\<lambda>c. c \<noteq> x) s))) s"
  using assms nth_length_takeWhile [OF assms]
  by (metis (mono_tags, lifting) Cons_nth_drop_Suc dropWhile_eq_drop takeWhile_dropWhile_id)

lemma email_shape:
  assumes "email_is_valid s"
  shows "\<exists>u h r. s = u @ CHR ''@'' # h @ CHR ''.'' # r \<and> u \<noteq> [] \<and> h \<noteq> [] \<and> r \<noteq> [] \<and>
    list_all email_local_char u \<and> list_all email_host_char h \<and> list_all email_rest_char r"
proof -
  define u where "u = takeWhile (\<lambda>c. c \<noteq> CHR ''@'') s"
  define d where "d = drop (Suc (length u)) s"
  define h where "h = takeWhile (\<lambda>c. c \<noteq> CHR ''.'') d"
  define r where "r = drop (Suc (length h)) d"
  have v: "u \<noteq> []" "list_all email_local_char u" "length u < length s" "h \<noteq> []"
    "list_all email_host_char h" "length h < length d" "r \<noteq> []" "list_all email_rest_char r"
    using assms unfolding email_is_valid_def Let_def u_def [symmetric] d_def [symmetric]
      h_def [symmetric] r_def [symmetric] by simp_all
  have "s = u @ CHR ''@'' # d"
    unfolding d_def unfolding u_def by (rule takeWhile_drop_eq) (use v(3) in \<open>simp add: u_def\<close>)
  moreover have "d = h @ CHR ''.'' # r"
    unfolding r_def unfolding h_def by (rule takeWhile_drop_eq) (use v(6) in \<open>simp add: h_def\<close>)
  ultimately show ?thesis using v by auto
qed

lemma dropWhile_none: "list_all (\<lambda>c. \<not> P c) s \<Longrightarrow> dropWhile P s = s"
  by (cases s) auto

lemma email_chars:
  assumes "email_is_valid s"
  shows "list_all (\<lambda>c. \<not> is_space c \<and> lower_char c = c) s"
proof -
  from email_shape [OF assms] obtain u h r where
    s: "s = u @ CHR ''@'' # h @ CHR ''.'' # r" and
    "list_all email_local_char u" "list_all email_host_char h" "list_all email_rest_char r" by blast
  then have "\<forall>c \<in> set s. email_local_char c \<or> email_host_char c \<or> email_rest_char c \<or> c = CHR ''@'' \<or> c = CHR ''.''"
    by (auto simp: list_all_iff)
  then show ?thesis
    unfolding list_all_iff using email_char_facts by metis
qed

lemma email_normalized:
  assumes "email_is_valid s"
  shows "py_strip s = s \<and> py_lower s = s"
proof
  from email_chars [OF assms] show "py_strip s = s"
    by (simp add: py_strip_def list_all_iff dropWhile_none)
  from email_chars [OF assms] show "py_lower s = s"
    unfolding py_lower_def by (intro map_idI) (simp add: list_all_iff)
qed

end
