(* ===== verification/Identity_Challenges.thy ===== *)
theory Identity_Challenges
  imports Identity_Core
begin

text \<open>
  Verification challenges and multi-factor authentication (\<open>domain/identity/verification\<close> and
  \<open>domain/identity/mfa\<close>). A verification challenge is mutable: a method returns the challenge it
  leaves behind and its outcome. An MFA challenge and a recovery code are immutable: a method
  returns the new object. The system clock is an argument, read once by each method that reads it.
\<close>

section \<open>Methods that mutate and may raise\<close>

type_synonym 's outcome = "'s \<times> (id_exn, unit) res"

definition then_do :: "'s outcome \<Rightarrow> ('s \<Rightarrow> 's outcome) \<Rightarrow> 's outcome" where
  "then_do p f = (case snd p of Inl e \<Rightarrow> p | Inr _ \<Rightarrow> f (fst p))"

lemma then_do_simps [simp]: "then_do (s, Inl e) f = (s, Inl e)" "then_do (s, Inr x) f = f s"
  by (simp_all add: then_do_def)

lemma then_do_ok [res_simps]:
  "then_do p f = (s', Inr u) \<longleftrightarrow> snd p = Inr () \<and> f (fst p) = (s', Inr u)"
  by (cases p; cases "snd p") auto

definition now_or :: "datetime \<Rightarrow> datetime option \<Rightarrow> datetime" where
  "now_or clock now = (case now of Some t \<Rightarrow> t | None \<Rightarrow> clock)"

lemma now_or_simps [simp]: "now_or clock (Some t) = t" "now_or clock None = clock"
  by (simp_all add: now_or_def)

section \<open>Codes\<close>

definition mk_verification_code :: "string \<Rightarrow> (id_exn, string) res" where
  "mk_verification_code value =
     (let normalized = py_strip value in
      if normalized = '''' then Inl (InvalidVerificationCode ''Verification code is required'')
      else if normalized \<noteq> value
      then Inl (InvalidVerificationCode ''Verification code cannot have leading or trailing whitespace'')
      else if list_ex (\<lambda>c. code c < 32) normalized
      then Inl (InvalidVerificationCode ''Verification code cannot contain control characters'')
      else if length normalized > 4096
      then Inl (InvalidVerificationCode ''Verification code is too long'')
      else Inr value)"

definition zero_pad :: "nat \<Rightarrow> string \<Rightarrow> string" where
  "zero_pad n s = replicate (n - length s) (CHR ''0'') @ s"

text \<open>\<open>random\<close> is what \<open>secrets.randbelow(10**digits)\<close> drew.\<close>

definition generate_numeric :: "int \<Rightarrow> nat \<Rightarrow> (id_exn, string) res" where
  "generate_numeric digits random =
     (if digits \<le> 0
      then Inl (InvalidVerificationCode ''Verification code length must be positive'')
      else mk_verification_code (zero_pad (nat digits) (show_nat random)))"

definition mk_email_verification_token :: "string \<Rightarrow> (id_exn, string) res" where
  "mk_email_verification_token value =
     (let normalized = py_strip value in
      if normalized = '''' then Inl (InvalidVerificationCode ''Email verification token is required'')
      else if normalized \<noteq> value
      then Inl (InvalidVerificationCode ''Email verification token cannot have leading or trailing whitespace'')
      else if contains_control_character normalized
      then Inl (InvalidVerificationCode ''Email verification token cannot contain control characters'')
      else Inr value)"

section \<open>Verification challenges\<close>

datatype verification_purpose = EMAIL

definition mk_purpose :: "string \<Rightarrow> (id_exn, verification_purpose) res" where
  "mk_purpose s = (if s = ''email'' then Inr EMAIL else Inl (ValueError ''not a valid VerificationPurpose''))"

text \<open>The fields of the events; every event also has a fresh id.\<close>

datatype verification_event =
    VerificationChallengeIssued uuid uuid verification_purpose datetime datetime
  | VerificationChallengeSucceeded uuid uuid verification_purpose datetime
  | VerificationChallengeExpired uuid uuid verification_purpose datetime
  | VerificationChallengeResent uuid uuid verification_purpose datetime datetime

record challenge =
  vc_user_id :: uuid
  vc_purpose :: verification_purpose
  vc_code_digest :: string
  vc_expires_at :: datetime
  vc_resend_available_at :: datetime
  vc_id :: uuid
  vc_issued_at :: datetime
  vc_failed_attempts :: int
  vc_max_attempts :: int
  vc_succeeded_at :: "datetime option"
  vc_expired_at :: "datetime option"
  vc_events :: "verification_event list"

definition emit :: "verification_event \<Rightarrow> challenge \<Rightarrow> challenge" where
  "emit e c = c\<lparr>vc_events := vc_events c @ [e]\<rparr>"

text \<open>\<open>sha\<close> is the hexadecimal SHA-256 of the UTF-8 bytes of a string; \<open>new_id\<close> the fresh id.\<close>

definition issue ::
  "(string \<Rightarrow> string) \<Rightarrow> datetime \<Rightarrow> uuid \<Rightarrow> uuid \<Rightarrow> string \<Rightarrow> string \<Rightarrow> timedelta \<Rightarrow> timedelta \<Rightarrow> int \<Rightarrow>
     datetime option \<Rightarrow> (id_exn, challenge) res" where
  "issue sha clock new_id user_id purpose secret ttl resend_cooldown max_attempts now =
     (let occurred_at = now_or clock now in
      if ttl \<le> 0 then Inl (ValueError ''Verification challenge TTL must be positive'')
      else if resend_cooldown < 0 then Inl (ValueError ''Verification resend cooldown cannot be negative'')
      else if max_attempts \<le> 0 then Inl (ValueError ''Verification max attempts must be positive'')
      else res_bind (mk_purpose purpose) (\<lambda>p.
        Inr \<lparr>vc_user_id = user_id, vc_purpose = p, vc_code_digest = sha secret,
             vc_expires_at = dt_plus occurred_at ttl,
             vc_resend_available_at = dt_plus occurred_at resend_cooldown, vc_id = new_id,
             vc_issued_at = occurred_at, vc_failed_attempts = 0, vc_max_attempts = max_attempts,
             vc_succeeded_at = None, vc_expired_at = None,
             vc_events = [VerificationChallengeIssued user_id new_id p (dt_plus occurred_at ttl) occurred_at]\<rparr>))"

definition is_succeeded :: "challenge \<Rightarrow> bool" where
  "is_succeeded c = (vc_succeeded_at c \<noteq> None)"

definition is_expired :: "datetime \<Rightarrow> datetime option \<Rightarrow> challenge \<Rightarrow> (id_exn, bool) res" where
  "is_expired clock now c =
     (if vc_expired_at c \<noteq> None then Inr True
      else raise_none TypeErr (dt_le (vc_expires_at c) (now_or clock now)))"

definition expire :: "datetime \<Rightarrow> datetime option \<Rightarrow> challenge \<Rightarrow> challenge" where
  "expire clock now c =
     (if vc_expired_at c \<noteq> None then c
      else let occurred_at = now_or clock now in
        emit (VerificationChallengeExpired (vc_user_id c) (vc_id c) (vc_purpose c) occurred_at)
          (c\<lparr>vc_expired_at := Some occurred_at\<rparr>))"

definition ensure_usable :: "datetime \<Rightarrow> datetime option \<Rightarrow> challenge \<Rightarrow> challenge outcome" where
  "ensure_usable clock now c =
     (if is_succeeded c then (c, Inl VerificationChallengeConsumed)
      else case is_expired clock now c of
          Inl e \<Rightarrow> (c, Inl e)
        | Inr True \<Rightarrow> (expire clock now c, Inl VerificationExpired)
        | Inr False \<Rightarrow>
            if vc_failed_attempts c \<ge> vc_max_attempts c then (c, Inl VerificationAttemptsExhausted)
            else (c, Inr ()))"

definition consume :: "datetime \<Rightarrow> datetime option \<Rightarrow> challenge \<Rightarrow> challenge outcome" where
  "consume clock now c =
     (let occurred_at = now_or clock now in
      then_do (ensure_usable clock (Some occurred_at) c) (\<lambda>c.
        (emit (VerificationChallengeSucceeded (vc_user_id c) (vc_id c) (vc_purpose c) occurred_at)
           (c\<lparr>vc_succeeded_at := Some occurred_at\<rparr>), Inr ())))"

definition verify ::
  "(string \<Rightarrow> string) \<Rightarrow> datetime \<Rightarrow> string \<Rightarrow> datetime option \<Rightarrow> challenge \<Rightarrow> challenge outcome" where
  "verify sha clock presented now c =
     (let occurred_at = now_or clock now in
      then_do (ensure_usable clock (Some occurred_at) c) (\<lambda>c.
        if sha presented \<noteq> vc_code_digest c
        then (c\<lparr>vc_failed_attempts := vc_failed_attempts c + 1\<rparr>,
              Inl (InvalidVerificationCode ''Invalid verification code''))
        else consume clock (Some occurred_at) c))"

definition mark_resent :: "datetime \<Rightarrow> timedelta \<Rightarrow> datetime option \<Rightarrow> challenge \<Rightarrow> challenge outcome" where
  "mark_resent clock resend_cooldown now c =
     (let occurred_at = now_or clock now in
      if resend_cooldown < 0 then (c, Inl (ValueError ''Verification resend cooldown cannot be negative''))
      else let available = dt_plus occurred_at resend_cooldown in
        (emit (VerificationChallengeResent (vc_user_id c) (vc_id c) (vc_purpose c) available occurred_at)
           (c\<lparr>vc_resend_available_at := available\<rparr>), Inr ()))"

section \<open>Verification and resend policies\<close>

record verification_policy =
  vp_ttl :: timedelta
  vp_resend_cooldown :: timedelta
  vp_max_attempts :: int

definition default_verification_policy :: verification_policy where
  "default_verification_policy = \<lparr>vp_ttl = hours 24, vp_resend_cooldown = minutes 10, vp_max_attempts = 5\<rparr>"

definition issue_challenge ::
  "(string \<Rightarrow> string) \<Rightarrow> datetime \<Rightarrow> uuid \<Rightarrow> verification_policy \<Rightarrow> uuid \<Rightarrow> string \<Rightarrow> string \<Rightarrow>
     datetime option \<Rightarrow> (id_exn, challenge) res" where
  "issue_challenge sha clock new_id p user_id purpose secret now =
     issue sha clock new_id user_id purpose secret (vp_ttl p) (vp_resend_cooldown p) (vp_max_attempts p)
       (Some (now_or clock now))"

definition verify_challenge ::
  "(string \<Rightarrow> string) \<Rightarrow> datetime \<Rightarrow> string \<Rightarrow> datetime option \<Rightarrow> challenge \<Rightarrow> challenge outcome" where
  "verify_challenge sha clock presented now c = verify sha clock presented (Some (now_or clock now)) c"

definition ensure_terminal_challenge_succeeded :: "challenge \<Rightarrow> string \<Rightarrow> (id_exn, unit) res" where
  "ensure_terminal_challenge_succeeded c purpose =
     res_bind (mk_purpose purpose) (\<lambda>p.
       if vc_purpose c \<noteq> p
       then Inl (InvalidVerificationCode ''Verification challenge purpose does not match'')
       else if \<not> is_succeeded c
       then Inl (InvalidVerificationCode ''Verification challenge has not succeeded'')
       else Inr ())"

definition ensure_can_resend :: "datetime \<Rightarrow> challenge \<Rightarrow> datetime option \<Rightarrow> (id_exn, unit) res" where
  "ensure_can_resend clock c now =
     res_bind (raise_none TypeErr (dt_less (now_or clock now) (vc_resend_available_at c))) (\<lambda>early.
       if early then Inl VerificationResendTooSoon else Inr ())"

definition record_resend :: "datetime \<Rightarrow> timedelta \<Rightarrow> datetime option \<Rightarrow> challenge \<Rightarrow> challenge outcome" where
  "record_resend clock cooldown now c =
     (let occurred_at = now_or clock now in
      case ensure_can_resend clock c (Some occurred_at) of
          Inl e \<Rightarrow> (c, Inl e)
        | Inr _ \<Rightarrow> mark_resent clock cooldown (Some occurred_at) c)"

section \<open>MFA challenges\<close>

datatype mfa_method = TOTP | RECOVERY_CODE

record mfa_challenge =
  mc_id :: uuid
  mc_user_id :: uuid
  mc_method :: mfa_method
  mc_issued_at :: datetime
  mc_expires_at :: datetime
  mc_max_attempts :: int
  mc_attempt_count :: int
  mc_consumed_at :: "datetime option"

definition validate_now :: "datetime \<Rightarrow> (id_exn, unit) res" where
  "validate_now now = ensure (is_aware now) (ValueError ''Current time must be timezone-aware'')"

definition mk_mfa_challenge :: "mfa_challenge \<Rightarrow> (id_exn, mfa_challenge) res" where
  "mk_mfa_challenge c =
     (if \<not> is_aware (mc_issued_at c)
      then Inl (ValueError ''MFA challenge issue time must be timezone-aware'')
      else if \<not> is_aware (mc_expires_at c)
      then Inl (ValueError ''MFA challenge expiry time must be timezone-aware'')
      else res_bind (raise_none TypeErr (dt_le (mc_expires_at c) (mc_issued_at c))) (\<lambda>early.
        if early then Inl (ValueError ''MFA challenge must expire after it is issued'')
        else if mc_max_attempts c \<le> 0
        then Inl (ValueError ''MFA challenge max_attempts must be positive'')
        else if mc_attempt_count c < 0
        then Inl (ValueError ''MFA challenge attempt_count cannot be negative'')
        else if (case mc_consumed_at c of Some t \<Rightarrow> \<not> is_aware t | None \<Rightarrow> False)
        then Inl (ValueError ''MFA challenge consumed time must be timezone-aware'')
        else Inr c))"

definition mfa_is_expired :: "datetime \<Rightarrow> mfa_challenge \<Rightarrow> (id_exn, bool) res" where
  "mfa_is_expired now c =
     res_bind (validate_now now) (\<lambda>_. raise_none TypeErr (dt_le (mc_expires_at c) now))"

definition attempts_exhausted :: "mfa_challenge \<Rightarrow> bool" where
  "attempts_exhausted c = (mc_attempt_count c \<ge> mc_max_attempts c)"

definition can_attempt :: "datetime \<Rightarrow> mfa_challenge \<Rightarrow> (id_exn, bool) res" where
  "can_attempt now c =
     res_bind (mfa_is_expired now c) (\<lambda>expired.
       if expired then Inl MfaChallengeExpired
       else Inr (mc_consumed_at c = None \<and> \<not> attempts_exhausted c))"

definition record_failed_attempt :: "mfa_challenge \<Rightarrow> (id_exn, mfa_challenge) res" where
  "record_failed_attempt c = mk_mfa_challenge (c\<lparr>mc_attempt_count := mc_attempt_count c + 1\<rparr>)"

definition mfa_consume :: "datetime \<Rightarrow> mfa_challenge \<Rightarrow> (id_exn, mfa_challenge) res" where
  "mfa_consume now c =
     res_bind (validate_now now) (\<lambda>_.
       mk_mfa_challenge (c\<lparr>mc_attempt_count := mc_attempt_count c + 1, mc_consumed_at := Some now\<rparr>))"

record mfa_policy =
  mp_challenge_ttl :: timedelta
  mp_max_attempts :: int

definition mk_mfa_policy :: "timedelta \<Rightarrow> int \<Rightarrow> (id_exn, mfa_policy) res" where
  "mk_mfa_policy ttl n =
     (if ttl \<le> 0 then Inl (ValueError ''MFA challenge_ttl must be positive'')
      else if n \<le> 0 then Inl (ValueError ''MFA max_attempts must be positive'')
      else Inr \<lparr>mp_challenge_ttl = ttl, mp_max_attempts = n\<rparr>)"

definition issue_mfa_challenge ::
  "mfa_policy \<Rightarrow> uuid \<Rightarrow> uuid \<Rightarrow> mfa_method \<Rightarrow> datetime \<Rightarrow> (id_exn, mfa_challenge) res" where
  "issue_mfa_challenge p new_id user_id method now =
     res_bind (validate_now now) (\<lambda>_.
       mk_mfa_challenge \<lparr>mc_id = new_id, mc_user_id = user_id, mc_method = method, mc_issued_at = now,
         mc_expires_at = dt_plus now (mp_challenge_ttl p), mc_max_attempts = mp_max_attempts p,
         mc_attempt_count = 0, mc_consumed_at = None\<rparr>)"

text \<open>
  \<open>max(int((expires_at - now).total_seconds()), 1)\<close>; \<open>int\<close> truncates towards zero, and a negative
  difference gives 1 either way. A stored challenge has an aware expiry.
\<close>

definition remaining_challenge_ttl_seconds :: "mfa_challenge \<Rightarrow> datetime \<Rightarrow> (id_exn, int) res" where
  "remaining_challenge_ttl_seconds c now =
     res_bind (validate_now now) (\<lambda>_.
       case (mc_expires_at c, now) of
           (Aware e, Aware n) \<Rightarrow> Inr (max ((e - n) div 1000000) 1)
         | _ \<Rightarrow> Inl TypeErr)"

definition verify_mfa_challenge ::
  "mfa_challenge \<Rightarrow> bool \<Rightarrow> datetime \<Rightarrow> (id_exn, bool \<times> mfa_challenge) res" where
  "verify_mfa_challenge c accepted now =
     res_bind (validate_now now) (\<lambda>_.
       case can_attempt now c of
           Inl MfaChallengeExpired \<Rightarrow> Inr (False, c)
         | Inl e \<Rightarrow> Inl e
         | Inr can \<Rightarrow>
             if mc_method c \<noteq> TOTP \<or> \<not> can then Inr (False, c)
             else if accepted then res_bind (mfa_consume now c) (\<lambda>c'. Inr (True, c'))
             else res_bind (record_failed_attempt c) (\<lambda>c'. Inr (False, c')))"

text \<open>\<open>totp\<close> stands for \<open>pyotp.TOTP(secret).verify(token, for_time=now)\<close>.\<close>

definition verify_totp ::
  "(string \<Rightarrow> string \<Rightarrow> datetime \<Rightarrow> bool) \<Rightarrow> mfa_challenge \<Rightarrow> string \<Rightarrow> string \<Rightarrow> datetime \<Rightarrow>
     (id_exn, bool \<times> mfa_challenge) res" where
  "verify_totp totp c secret token now = verify_mfa_challenge c (totp secret token now) now"

definition can_enable_method :: "mfa_method \<Rightarrow> bool \<Rightarrow> (id_exn, bool) res" where
  "can_enable_method m already_enabled =
     (if m \<noteq> TOTP then Inl (ValueError ''Unsupported MFA method'') else Inr (\<not> already_enabled))"

definition can_disable_method :: "mfa_method \<Rightarrow> bool \<Rightarrow> (id_exn, bool) res" where
  "can_disable_method m enabled =
     (if m \<noteq> TOTP then Inl (ValueError ''Unsupported MFA method'') else Inr enabled)"

section \<open>Recovery codes\<close>

record recovery_code =
  rc_id :: uuid
  rc_code_hash :: string
  rc_used_at :: "datetime option"

definition mk_recovery_code :: "recovery_code \<Rightarrow> (id_exn, recovery_code) res" where
  "mk_recovery_code r =
     (if rc_code_hash r = '''' \<or> py_strip (rc_code_hash r) = ''''
      then Inl (ValueError ''Recovery code hash cannot be empty'')
      else if (case rc_used_at r of Some t \<Rightarrow> \<not> is_aware t | None \<Rightarrow> False)
      then Inl (ValueError ''Recovery code used time must be timezone-aware'')
      else Inr r)"

definition is_used :: "recovery_code \<Rightarrow> bool" where "is_used r = (rc_used_at r \<noteq> None)"

definition code_matches :: "string \<Rightarrow> recovery_code \<Rightarrow> bool" where
  "code_matches presented_hash r = (rc_code_hash r = presented_hash)"

definition consume_code :: "datetime \<Rightarrow> recovery_code \<Rightarrow> (id_exn, recovery_code) res" where
  "consume_code now r =
     (if \<not> is_aware now then Inl (ValueError ''Current time must be timezone-aware'')
      else if is_used r then Inl RecoveryCodeAlreadyUsed
      else mk_recovery_code (r\<lparr>rc_used_at := Some now\<rparr>))"

text \<open>The loop; \<open>all_codes\<close> is what the early return gives back, \<open>updated\<close> what is built so far.\<close>

fun scan_codes ::
  "recovery_code list \<Rightarrow> string \<Rightarrow> datetime \<Rightarrow> recovery_code list \<Rightarrow> bool \<Rightarrow> recovery_code list \<Rightarrow>
     (id_exn, bool \<times> recovery_code list) res" where
  "scan_codes all_codes h now updated accepted [] = Inr (accepted, updated)"
| "scan_codes all_codes h now updated accepted (r # rs) =
     (if \<not> accepted \<and> code_matches h r
      then if is_used r then Inr (False, all_codes)
           else res_bind (consume_code now r) (\<lambda>r'. scan_codes all_codes h now (updated @ [r']) True rs)
      else scan_codes all_codes h now (updated @ [r]) accepted rs)"

definition consume_recovery_code ::
  "(string \<Rightarrow> string) \<Rightarrow> recovery_code list \<Rightarrow> string \<Rightarrow> datetime \<Rightarrow>
     (id_exn, bool \<times> recovery_code list) res" where
  "consume_recovery_code hash_code codes presented now =
     res_bind (validate_now now) (\<lambda>_. scan_codes codes (hash_code presented) now [] False codes)"

section \<open>TOTP secrets\<close>

text \<open>
  \<open>str.upper\<close> on Latin-1: the small letters 97 to 122 and 224 to 254 (but for the division sign
  247) move down by 32 and the sharp s becomes two capital S. The two letters whose capitals
  lie outside Latin-1 (181 and 255) stay as they are; like their capitals, they are in no
  character class of the code.
\<close>

definition upper_char :: "char \<Rightarrow> string" where
  "upper_char c =
     (if code c = 223 then ''SS''
      else if 97 \<le> code c \<and> code c \<le> 122 \<or> 224 \<le> code c \<and> code c \<le> 254 \<and> code c \<noteq> 247
      then [char_of (code c - 32)] else [c])"

definition py_upper :: "string \<Rightarrow> string" where "py_upper s = concat (map upper_char s)"

definition is_base32_char :: "char \<Rightarrow> bool" where
  "is_base32_char c = (is_upper c \<or> 50 \<le> code c \<and> code c \<le> 55)"

definition rstrip_eq :: "string \<Rightarrow> string" where
  "rstrip_eq s = rev (dropWhile (\<lambda>c. c = CHR ''='') (rev s))"

text \<open>\<open>b32decode\<close> of letters and padding accepts whole quanta with a possible amount of padding.\<close>

definition b32_decodes :: "string \<Rightarrow> bool" where
  "b32_decodes s = (length s mod 8 = 0 \<and> length s - length (rstrip_eq s) \<in> {0, 1, 3, 4, 6})"

definition mk_totp_secret :: "string \<Rightarrow> (id_exn, string) res" where
  "mk_totp_secret value =
     (if contains_control_character value
      then Inl (ValueError ''TOTP secret contains unsafe control characters'')
      else let normalized = py_upper (py_strip value); unpadded = rstrip_eq normalized in
        if unpadded = [] \<or> \<not> list_all is_base32_char unpadded
        then Inl (ValueError ''Invalid TOTP secret format'')
        else if \<not> b32_decodes normalized then Inl (ValueError ''Invalid TOTP secret format'')
        else if CHR ''='' \<in> set normalized \<and> length unpadded < 16
        then Inl (ValueError ''Invalid TOTP secret format'')
        else if length unpadded < 16
        then Inl (ValueError ''TOTP secret must be at least 16 characters long'')
        else Inr normalized)"

section \<open>Histories of a verification challenge\<close>

text \<open>An operation carries the reading of the system clock it may use.\<close>

datatype challenge_op =
    Verify datetime string "datetime option"
  | Consume datetime "datetime option"
  | Check datetime "datetime option"
  | Expire datetime "datetime option"
  | Resend datetime timedelta "datetime option"
  | MarkResent datetime timedelta "datetime option"

fun challenge_call :: "(string \<Rightarrow> string) \<Rightarrow> challenge_op \<Rightarrow> challenge \<Rightarrow> challenge outcome" where
  "challenge_call sha (Verify clock s now) c = verify_challenge sha clock s now c"
| "challenge_call sha (Consume clock now) c = consume clock now c"
| "challenge_call sha (Check clock now) c = ensure_usable clock now c"
| "challenge_call sha (Expire clock now) c = (expire clock now c, Inr ())"
| "challenge_call sha (Resend clock cooldown now) c = record_resend clock cooldown now c"
| "challenge_call sha (MarkResent clock cooldown now) c = mark_resent clock cooldown now c"

definition challenge_step :: "(string \<Rightarrow> string) \<Rightarrow> challenge_op \<Rightarrow> challenge \<Rightarrow> challenge" where
  "challenge_step sha op c = fst (challenge_call sha op c)"

fun is_success_event :: "verification_event \<Rightarrow> bool" where
  "is_success_event (VerificationChallengeSucceeded _ _ _ _) = True"
| "is_success_event _ = False"

definition success_events :: "challenge \<Rightarrow> nat" where
  "success_events c = length (filter is_success_event (vc_events c))"

definition challenge_ok :: "challenge \<Rightarrow> bool" where
  "challenge_ok c =
     (0 \<le> vc_failed_attempts c \<and> vc_failed_attempts c \<le> vc_max_attempts c \<and>
      (case vc_succeeded_at c of
           None \<Rightarrow> success_events c = 0
         | Some t \<Rightarrow> success_events c = 1 \<and> vc_failed_attempts c < vc_max_attempts c \<and>
             dt_le (vc_expires_at c) t = Some False))"

definition challenge_le :: "challenge \<Rightarrow> challenge \<Rightarrow> bool" where
  "challenge_le c d =
     (vc_user_id d = vc_user_id c \<and> vc_id d = vc_id c \<and> vc_purpose d = vc_purpose c \<and>
      vc_code_digest d = vc_code_digest c \<and> vc_expires_at d = vc_expires_at c \<and>
      vc_max_attempts d = vc_max_attempts c \<and> vc_failed_attempts c \<le> vc_failed_attempts d \<and>
      (vc_succeeded_at c \<noteq> None \<longrightarrow>
         vc_succeeded_at d = vc_succeeded_at c \<and> vc_failed_attempts d = vc_failed_attempts c) \<and>
      (vc_expired_at c \<noteq> None \<longrightarrow>
         vc_expired_at d = vc_expired_at c \<and> vc_failed_attempts d = vc_failed_attempts c \<and>
         vc_succeeded_at d = vc_succeeded_at c) \<and>
      prefix (vc_events c) (vc_events d))"

lemma ensure_usable_ok [res_simps]:
  "ensure_usable clock now c = (c', Inr ()) \<longleftrightarrow>
     c' = c \<and> \<not> is_succeeded c \<and> vc_expired_at c = None \<and>
     dt_le (vc_expires_at c) (now_or clock now) = Some False \<and>
     vc_failed_attempts c < vc_max_attempts c"
  by (auto simp: ensure_usable_def is_expired_def raise_none_def split: option.splits bool.splits if_splits)

lemma ensure_usable_fails:
  "snd (ensure_usable clock now c) = Inl e \<Longrightarrow>
     fst (ensure_usable clock now c) = c \<or>
     \<not> is_succeeded c \<and> fst (ensure_usable clock now c) = expire clock now c"
  by (auto simp: ensure_usable_def split: sum.splits bool.splits if_splits)

lemma verify_cases:
  fixes sha clock presented now c
  defines "n \<equiv> now_or clock now"
  obtains (refused) e where "verify sha clock presented now c = (fst (ensure_usable clock (Some n) c), Inl e)"
      and "snd (ensure_usable clock (Some n) c) = Inl e"
    | (wrong) "verify sha clock presented now c =
          (c\<lparr>vc_failed_attempts := vc_failed_attempts c + 1\<rparr>,
           Inl (InvalidVerificationCode ''Invalid verification code''))"
        and "ensure_usable clock (Some n) c = (c, Inr ())" and "sha presented \<noteq> vc_code_digest c"
    | (right) "verify sha clock presented now c =
          (emit (VerificationChallengeSucceeded (vc_user_id c) (vc_id c) (vc_purpose c) n)
             (c\<lparr>vc_succeeded_at := Some n\<rparr>), Inr ())"
        and "ensure_usable clock (Some n) c = (c, Inr ())" and "sha presented = vc_code_digest c"
proof (cases "snd (ensure_usable clock (Some n) c)")
  case (Inl e)
  then have "verify sha clock presented now c = (fst (ensure_usable clock (Some n) c), Inl e)"
    unfolding verify_def Let_def n_def by (simp add: then_do_def prod_eq_iff)
  with Inl show ?thesis by (rule refused [rotated])
next
  case (Inr u)
  then have u: "ensure_usable clock (Some n) c = (c, Inr ())"
    using ensure_usable_ok [of clock "Some n" c] by (metis old.unit.exhaust prod.collapse)
  show ?thesis
  proof (cases "sha presented = vc_code_digest c")
    case True
    with u show ?thesis
      by (intro right) (simp_all add: verify_def consume_def Let_def n_def)
  next
    case False
    with u show ?thesis
      by (intro wrong) (simp_all add: verify_def Let_def n_def)
  qed
qed

lemma expire_ok_le: "challenge_ok c \<Longrightarrow> challenge_ok (expire clock now c) \<and> challenge_le c (expire clock now c)"
  by (auto simp: expire_def emit_def Let_def challenge_ok_def challenge_le_def success_events_def
      split: option.splits)

lemma fail_ok_le:
  assumes "challenge_ok c" "ensure_usable clock now c = (c, Inr ())"
  shows "challenge_ok (c\<lparr>vc_failed_attempts := vc_failed_attempts c + 1\<rparr>) \<and>
    challenge_le c (c\<lparr>vc_failed_attempts := vc_failed_attempts c + 1\<rparr>)"
  using assms
  by (auto simp: ensure_usable_ok challenge_ok_def challenge_le_def success_events_def is_succeeded_def
      split: option.splits)

lemma succeed_ok_le:
  assumes "challenge_ok c" "ensure_usable clock (Some n) c = (c, Inr ())"
  shows "challenge_ok (emit (VerificationChallengeSucceeded u i p n) (c\<lparr>vc_succeeded_at := Some n\<rparr>)) \<and>
    challenge_le c (emit (VerificationChallengeSucceeded u i p n) (c\<lparr>vc_succeeded_at := Some n\<rparr>))"
  using assms
  by (auto simp: ensure_usable_ok challenge_ok_def challenge_le_def success_events_def is_succeeded_def
      emit_def split: option.splits)

lemma challenge_le_refl: "challenge_le c c"
  by (simp add: challenge_le_def)

lemma challenge_le_trans: "challenge_le c d \<Longrightarrow> challenge_le d e \<Longrightarrow> challenge_le c e"
  unfolding challenge_le_def by (elim conjE; intro conjI) (auto dest: prefix_order.trans)

lemma usable_ok_le:
  assumes "challenge_ok c"
  shows "challenge_ok (fst (ensure_usable clock now c)) \<and> challenge_le c (fst (ensure_usable clock now c))"
proof (cases "snd (ensure_usable clock now c)")
  case (Inl e)
  with ensure_usable_fails [OF Inl] assms show ?thesis
    by (metis expire_ok_le challenge_le_refl)
next
  case (Inr u)
  then have "ensure_usable clock now c = (c, Inr ())"
    using ensure_usable_ok [of clock now c] by (metis old.unit.exhaust prod.collapse)
  with assms show ?thesis by (simp add: challenge_le_refl)
qed

lemma verify_ok_le:
  assumes "challenge_ok c"
  shows "challenge_ok (fst (verify sha clock s now c)) \<and> challenge_le c (fst (verify sha clock s now c))"
  by (rule verify_cases [of sha clock s now c])
     (simp_all add: usable_ok_le fail_ok_le succeed_ok_le assms)

lemma consume_cases:
  "snd (ensure_usable clock (Some (now_or clock now)) c) = Inl e \<Longrightarrow>
     consume clock now c = ensure_usable clock (Some (now_or clock now)) c"
  by (simp add: consume_def Let_def then_do_def)

lemma consume_ok_le:
  assumes "challenge_ok c"
  shows "challenge_ok (fst (consume clock now c)) \<and> challenge_le c (fst (consume clock now c))"
proof (cases "snd (ensure_usable clock (Some (now_or clock now)) c)")
  case (Inl e)
  then show ?thesis by (simp add: consume_cases usable_ok_le assms)
next
  case (Inr u)
  then have u: "ensure_usable clock (Some (now_or clock now)) c = (c, Inr ())"
    using ensure_usable_ok [of clock _ c] by (metis old.unit.exhaust prod.collapse)
  then show ?thesis
    using succeed_ok_le [OF assms u] by (simp add: consume_def Let_def)
qed

lemma resent_ok_le:
  assumes "challenge_ok c"
  shows "challenge_ok (fst (mark_resent clock k now c)) \<and> challenge_le c (fst (mark_resent clock k now c))"
  using assms
  by (auto simp: mark_resent_def Let_def emit_def challenge_ok_def challenge_le_def success_events_def
      split: option.splits)

lemma resend_ok_le:
  assumes "challenge_ok c"
  shows "challenge_ok (fst (record_resend clock k now c)) \<and> challenge_le c (fst (record_resend clock k now c))"
  using resent_ok_le [OF assms] assms
  by (auto simp: record_resend_def Let_def challenge_le_refl split: sum.splits)

lemma challenge_step_ok_le:
  assumes "challenge_ok c"
  shows "challenge_ok (challenge_step sha op c) \<and> challenge_le c (challenge_step sha op c)"
  using assms
  by (cases op)
     (simp_all add: challenge_step_def verify_challenge_def verify_ok_le consume_ok_le usable_ok_le expire_ok_le
        resend_ok_le resent_ok_le)

interpretation challenges: ordered_system "challenge_step sha" challenge_ok challenge_le for sha
proof unfold_locales
  show "challenge_ok c \<Longrightarrow> challenge_ok (challenge_step sha op c)" for op c
    using challenge_step_ok_le by blast
  show "challenge_ok c \<Longrightarrow> challenge_le c (challenge_step sha op c)" for op c
    using challenge_step_ok_le by blast
qed (simp_all add: challenge_le_refl, blast intro: challenge_le_trans)

lemma issue_ok:
  assumes "issue sha clock i u p s ttl cd n now = Inr c"
  shows "challenge_ok c \<and> vc_max_attempts c = n \<and> vc_failed_attempts c = 0 \<and> vc_succeeded_at c = None \<and>
    vc_expired_at c = None \<and> vc_code_digest c = sha s \<and> vc_expires_at c = dt_plus (now_or clock now) ttl"
  using assms
  by (auto simp: issue_def Let_def res_simps challenge_ok_def success_events_def split: if_splits)

section \<open>What the holder of a challenge learns\<close>

fun challenge_outcomes ::
  "(string \<Rightarrow> string) \<Rightarrow> challenge_op list \<Rightarrow> challenge \<Rightarrow> (challenge_op \<times> (id_exn, unit) res) list" where
  "challenge_outcomes sha [] c = []"
| "challenge_outcomes sha (op # ops) c =
     (op, snd (challenge_call sha op c)) # challenge_outcomes sha ops (challenge_step sha op c)"

definition wrong_guess :: "challenge_op \<times> (id_exn, unit) res \<Rightarrow> bool" where
  "wrong_guess x = (snd x = Inl (InvalidVerificationCode ''Invalid verification code''))"

definition finishes :: "challenge_op \<times> (id_exn, unit) res \<Rightarrow> bool" where
  "finishes x =
     (snd x = Inr () \<and> (case fst x of Verify _ _ _ \<Rightarrow> True | Consume _ _ \<Rightarrow> True | _ \<Rightarrow> False))"

lemma usable_not_guess: "snd (ensure_usable clock now c) \<noteq> Inl (InvalidVerificationCode m)"
  by (auto simp: ensure_usable_def is_expired_def raise_none_def split: option.splits bool.splits if_splits)

lemma usable_keeps [simp]:
  "vc_failed_attempts (fst (ensure_usable clock now c)) = vc_failed_attempts c"
  "vc_succeeded_at (fst (ensure_usable clock now c)) = vc_succeeded_at c"
  by (auto simp: ensure_usable_def expire_def emit_def Let_def split: sum.splits bool.splits)

lemma resend_keeps:
  "vc_failed_attempts (fst (record_resend clock k now c)) = vc_failed_attempts c"
  "vc_succeeded_at (fst (record_resend clock k now c)) = vc_succeeded_at c"
  "vc_failed_attempts (fst (mark_resent clock k now c)) = vc_failed_attempts c"
  "vc_succeeded_at (fst (mark_resent clock k now c)) = vc_succeeded_at c"
  "snd (record_resend clock k now c) \<noteq> Inl (InvalidVerificationCode m)"
  "snd (mark_resent clock k now c) \<noteq> Inl (InvalidVerificationCode m)"
  by (auto simp: record_resend_def mark_resent_def ensure_can_resend_def emit_def Let_def raise_none_def
      split: sum.splits option.splits if_splits)

lemma consume_effect:
  "(snd (consume clock now c) = Inr () \<and> vc_succeeded_at c = None \<and>
      vc_succeeded_at (fst (consume clock now c)) \<noteq> None) \<or>
   (snd (consume clock now c) \<noteq> Inr () \<and>
      vc_succeeded_at (fst (consume clock now c)) = vc_succeeded_at c)"
  "vc_failed_attempts (fst (consume clock now c)) = vc_failed_attempts c"
  "snd (consume clock now c) \<noteq> Inl (InvalidVerificationCode m)"
proof -
  have "(snd (consume clock now c) = Inr () \<and> vc_succeeded_at c = None \<and>
      vc_succeeded_at (fst (consume clock now c)) \<noteq> None \<or>
    snd (consume clock now c) \<noteq> Inr () \<and> vc_succeeded_at (fst (consume clock now c)) = vc_succeeded_at c) \<and>
    vc_failed_attempts (fst (consume clock now c)) = vc_failed_attempts c \<and>
    snd (consume clock now c) \<noteq> Inl (InvalidVerificationCode m)"
  proof (cases "snd (ensure_usable clock (Some (now_or clock now)) c)")
    case (Inl e)
    then show ?thesis
      using usable_not_guess [of clock "Some (now_or clock now)" c m] by (simp add: consume_cases)
  next
    case (Inr u)
    then have u: "ensure_usable clock (Some (now_or clock now)) c = (c, Inr ())"
      using ensure_usable_ok [of clock _ c] by (metis old.unit.exhaust prod.collapse)
    then have "vc_succeeded_at c = None" by (simp add: ensure_usable_ok is_succeeded_def)
    with u show ?thesis by (simp add: consume_def Let_def emit_def)
  qed
  then show "(snd (consume clock now c) = Inr () \<and> vc_succeeded_at c = None \<and>
      vc_succeeded_at (fst (consume clock now c)) \<noteq> None) \<or>
   (snd (consume clock now c) \<noteq> Inr () \<and>
      vc_succeeded_at (fst (consume clock now c)) = vc_succeeded_at c)"
    "vc_failed_attempts (fst (consume clock now c)) = vc_failed_attempts c"
    "snd (consume clock now c) \<noteq> Inl (InvalidVerificationCode m)" by blast+
qed

lemma challenge_step_counts:
  "vc_failed_attempts (challenge_step sha op c) =
     vc_failed_attempts c + (if wrong_guess (op, snd (challenge_call sha op c)) then 1 else 0)"
  "(if vc_succeeded_at (challenge_step sha op c) = None then 0 else 1 :: nat) =
     (if vc_succeeded_at c = None then 0 else 1) +
     (if finishes (op, snd (challenge_call sha op c)) then 1 else 0)"
proof -
  have "vc_failed_attempts (challenge_step sha op c) =
     vc_failed_attempts c + (if wrong_guess (op, snd (challenge_call sha op c)) then 1 else 0) \<and>
    (if vc_succeeded_at (challenge_step sha op c) = None then 0 else 1 :: nat) =
     (if vc_succeeded_at c = None then 0 else 1) +
     (if finishes (op, snd (challenge_call sha op c)) then 1 else 0)"
  proof (cases op)
    case (Verify clock s now)
    show ?thesis
    proof (rule verify_cases [of sha clock s "Some (now_or clock now)" c], goal_cases)
      case (1 e)
      then show ?thesis
        using usable_not_guess [of clock "Some (now_or clock now)" c]
        by (auto simp: Verify challenge_step_def verify_challenge_def wrong_guess_def finishes_def)
    next
      case 2
      then show ?thesis
        by (simp add: Verify challenge_step_def verify_challenge_def wrong_guess_def finishes_def)
    next
      case 3
      then show ?thesis
        by (simp add: Verify challenge_step_def verify_challenge_def wrong_guess_def finishes_def emit_def
            ensure_usable_ok is_succeeded_def)
    qed
  next
    case (Consume clock now)
    then show ?thesis
      using consume_effect [of clock now c]
      by (auto simp: challenge_step_def wrong_guess_def finishes_def)
  qed (auto simp: challenge_step_def wrong_guess_def finishes_def usable_not_guess resend_keeps
         expire_def emit_def Let_def)
  then show "vc_failed_attempts (challenge_step sha op c) =
     vc_failed_attempts c + (if wrong_guess (op, snd (challenge_call sha op c)) then 1 else 0)"
    "(if vc_succeeded_at (challenge_step sha op c) = None then 0 else 1 :: nat) =
     (if vc_succeeded_at c = None then 0 else 1) +
     (if finishes (op, snd (challenge_call sha op c)) then 1 else 0)" by blast+
qed

lemma challenge_history_counts:
  "vc_failed_attempts (run_ops (challenge_step sha) ops c) =
     vc_failed_attempts c + int (length (filter wrong_guess (challenge_outcomes sha ops c)))"
  "(if vc_succeeded_at (run_ops (challenge_step sha) ops c) = None then 0 else 1 :: nat) =
     (if vc_succeeded_at c = None then 0 else 1) +
     length (filter finishes (challenge_outcomes sha ops c))"
proof (induction ops arbitrary: c)
  case (Cons op ops)
  {
    case 1
    show ?case
      by (simp add: Cons.IH(1) challenge_step_counts(1))
  next
    case 2
    show ?case
      by (simp only: run_ops_simps challenge_outcomes.simps Cons.IH(2) challenge_step_counts(2)) simp
  }
qed simp_all

text \<open>C12. However the operations of a freshly issued verification challenge are interleaved (checks
  and retries of the code, resends, expiries, at any times), at most \<open>max_attempts\<close> wrong codes are
  ever compared with the stored digest, at most one operation finishes the challenge, the success
  event is recorded exactly then, and a completed challenge was completed before it expired.\<close>

theorem verification_guesses_bounded:
  assumes "issue sha clock i user purpose secret ttl cooldown max_attempts now = Inr c"
  shows "let c' = run_ops (challenge_step sha) ops c; outs = challenge_outcomes sha ops c in
    int (length (filter wrong_guess outs)) \<le> max_attempts \<and>
    length (filter finishes outs) \<le> 1 \<and>
    success_events c' = length (filter finishes outs) \<and>
    (length (filter finishes outs) = 1 \<longrightarrow>
       (\<exists>t. vc_succeeded_at c' = Some t \<and> dt_le (vc_expires_at c) t = Some False))"
proof -
  define c' where "c' = run_ops (challenge_step sha) ops c"
  note i = issue_ok [OF assms]
  have ok: "challenge_ok c'" and le: "challenge_le c c'"
    using i challenges.run_inv challenges.run_le unfolding c'_def by blast+
  have "int (length (filter wrong_guess (challenge_outcomes sha ops c))) = vc_failed_attempts c'"
    using challenge_history_counts(1) [of sha ops c] i by (simp add: c'_def)
  moreover have "(if vc_succeeded_at c' = None then 0 else 1) = length (filter finishes (challenge_outcomes sha ops c))"
    using challenge_history_counts(2) [of sha ops c] i by (simp add: c'_def)
  ultimately show ?thesis
    unfolding c'_def [symmetric] Let_def using ok le i
    by (auto simp: challenge_ok_def challenge_le_def split: option.splits)
qed

definition sample_challenge :: "(id_exn, challenge) res" where
  "sample_challenge = issue (\<lambda>s. s) (Aware 0) 7 1 ''email'' ''123456'' (hours 24) (minutes 10) 5 None"

lemma verification_guesses_bounded_witness:
  "\<exists>c. sample_challenge = Inr c \<and>
     int (length (filter wrong_guess (challenge_outcomes (\<lambda>s. s)
        [Verify (Aware 1) ''000000'' None, Verify (Aware 2) ''123456'' None] c))) \<le> 5"
proof -
  obtain c where c: "sample_challenge = Inr c"
    by (simp add: sample_challenge_def issue_def mk_purpose_def time_units Let_def)
  from verification_guesses_bounded [OF c [unfolded sample_challenge_def],
      of "[Verify (Aware 1) ''000000'' None, Verify (Aware 2) ''123456'' None]"]
  show ?thesis using c by (auto simp: Let_def)
qed

text \<open>Verifying a code succeeds in exactly one situation: the challenge is neither completed nor
  expired, its expiry lies in the future, attempts remain and the code has the stored digest. Then
  the challenge is completed at that moment and the success event recorded.\<close>

theorem verify_succeeds_iff:
  "verify sha clock presented now c = (c', Inr ()) \<longleftrightarrow>
     vc_succeeded_at c = None \<and> vc_expired_at c = None \<and>
     dt_le (vc_expires_at c) (now_or clock now) = Some False \<and>
     vc_failed_attempts c < vc_max_attempts c \<and> sha presented = vc_code_digest c \<and>
     c' = c\<lparr>vc_succeeded_at := Some (now_or clock now),
       vc_events := vc_events c @
         [VerificationChallengeSucceeded (vc_user_id c) (vc_id c) (vc_purpose c) (now_or clock now)]\<rparr>"
proof (rule verify_cases [of sha clock presented now c], goal_cases)
  case (1 e)
  have "\<not> (vc_succeeded_at c = None \<and> vc_expired_at c = None \<and>
     dt_le (vc_expires_at c) (now_or clock now) = Some False \<and> vc_failed_attempts c < vc_max_attempts c)"
  proof
    assume "vc_succeeded_at c = None \<and> vc_expired_at c = None \<and>
     dt_le (vc_expires_at c) (now_or clock now) = Some False \<and> vc_failed_attempts c < vc_max_attempts c"
    then have "ensure_usable clock (Some (now_or clock now)) c = (c, Inr ())"
      by (simp add: ensure_usable_ok is_succeeded_def)
    with 1(2) show False by simp
  qed
  with 1(1) show ?case by auto
next
  case 2
  then show ?case by auto
next
  case 3
  then show ?case by (auto simp: ensure_usable_ok emit_def is_succeeded_def)
qed

section \<open>Histories of an MFA challenge\<close>

text \<open>An attempt is the verdict of the TOTP check and its time; a failed call leaves the challenge.\<close>

definition mfa_step :: "bool \<times> datetime \<Rightarrow> mfa_challenge \<Rightarrow> mfa_challenge" where
  "mfa_step x c = (case verify_mfa_challenge c (fst x) (snd x) of Inl _ \<Rightarrow> c | Inr (_, c') \<Rightarrow> c')"

definition mfa_accepts :: "bool \<times> datetime \<Rightarrow> mfa_challenge \<Rightarrow> bool" where
  "mfa_accepts x c = (case verify_mfa_challenge c (fst x) (snd x) of Inl _ \<Rightarrow> False | Inr (b, _) \<Rightarrow> b)"

fun mfa_results :: "(bool \<times> datetime) list \<Rightarrow> mfa_challenge \<Rightarrow> bool list" where
  "mfa_results [] c = []"
| "mfa_results (x # xs) c = mfa_accepts x c # mfa_results xs (mfa_step x c)"

definition mfa_ok :: "mfa_challenge \<Rightarrow> bool" where
  "mfa_ok c =
     (mk_mfa_challenge c = Inr c \<and> mc_attempt_count c \<le> mc_max_attempts c \<and>
      (case mc_consumed_at c of
           None \<Rightarrow> True
         | Some t \<Rightarrow> mc_method c = TOTP \<and> dt_le (mc_expires_at c) t = Some False))"

definition mfa_le :: "mfa_challenge \<Rightarrow> mfa_challenge \<Rightarrow> bool" where
  "mfa_le c d =
     (mc_id d = mc_id c \<and> mc_user_id d = mc_user_id c \<and> mc_method d = mc_method c \<and>
      mc_expires_at d = mc_expires_at c \<and> mc_max_attempts d = mc_max_attempts c \<and>
      mc_attempt_count c \<le> mc_attempt_count d \<and> (mc_consumed_at c \<noteq> None \<longrightarrow> d = c))"

lemma mk_mfa_challenge_Inr [res_simps]:
  "mk_mfa_challenge c = Inr d \<longleftrightarrow>
     d = c \<and> is_aware (mc_issued_at c) \<and> is_aware (mc_expires_at c) \<and>
     dt_le (mc_expires_at c) (mc_issued_at c) = Some False \<and> 0 < mc_max_attempts c \<and>
     0 \<le> mc_attempt_count c \<and> (\<forall>t. mc_consumed_at c = Some t \<longrightarrow> is_aware t)"
  by (cases "mc_issued_at c"; cases "mc_expires_at c")
     (auto simp: mk_mfa_challenge_def split: option.splits)

lemma verify_mfa_eq:
  assumes "mfa_ok c"
  shows "verify_mfa_challenge c accepted now =
    (if \<not> is_aware now then Inl (ValueError ''Current time must be timezone-aware'')
     else if dt_le (mc_expires_at c) now \<noteq> Some False \<or> mc_consumed_at c \<noteq> None \<or>
        attempts_exhausted c \<or> mc_method c \<noteq> TOTP then Inr (False, c)
     else if accepted
     then Inr (True, c\<lparr>mc_attempt_count := mc_attempt_count c + 1, mc_consumed_at := Some now\<rparr>)
     else Inr (False, c\<lparr>mc_attempt_count := mc_attempt_count c + 1\<rparr>))"
proof (cases "is_aware now")
  case True
  then obtain n e where n: "now = Aware n" and e: "mc_expires_at c = Aware e"
    using assms by (auto simp: mfa_ok_def mk_mfa_challenge_Inr is_aware_iff)
  have "mk_mfa_challenge (c\<lparr>mc_attempt_count := mc_attempt_count c + 1, mc_consumed_at := Some now\<rparr>) =
      Inr (c\<lparr>mc_attempt_count := mc_attempt_count c + 1, mc_consumed_at := Some now\<rparr>)"
    "mk_mfa_challenge (c\<lparr>mc_attempt_count := mc_attempt_count c + 1\<rparr>) =
      Inr (c\<lparr>mc_attempt_count := mc_attempt_count c + 1\<rparr>)"
    using assms True by (simp_all add: mfa_ok_def mk_mfa_challenge_Inr)
  then show ?thesis
    using n e
    by (auto simp: verify_mfa_challenge_def can_attempt_def mfa_is_expired_def validate_now_def
        mfa_consume_def record_failed_attempt_def)
next
  case False
  then show ?thesis by (simp add: verify_mfa_challenge_def validate_now_def)
qed

lemma mfa_step_ok_le:
  assumes "mfa_ok c"
  shows "mfa_ok (mfa_step x c) \<and> mfa_le c (mfa_step x c)"
  using assms
  by (auto simp: mfa_step_def verify_mfa_eq [OF assms] mfa_ok_def mfa_le_def mk_mfa_challenge_Inr
      attempts_exhausted_def split: option.splits)

interpretation mfa_attempts: ordered_system mfa_step mfa_ok mfa_le
  by unfold_locales (use mfa_step_ok_le in \<open>auto simp: mfa_le_def\<close>)

lemma mfa_results_count:
  "mfa_ok c \<Longrightarrow>
     (if mc_consumed_at (run_ops mfa_step xs c) = None then 0 else 1) =
     (if mc_consumed_at c = None then 0 else 1) + length (filter (\<lambda>b. b) (mfa_results xs c))"
proof (induction xs arbitrary: c)
  case (Cons x xs)
  have "(if mc_consumed_at (mfa_step x c) = None then 0 else 1 :: nat) =
      (if mc_consumed_at c = None then 0 else 1) + (if mfa_accepts x c then 1 else 0)"
    by (auto simp: mfa_step_def mfa_accepts_def verify_mfa_eq [OF Cons.prems])
  moreover have "(if mc_consumed_at (run_ops mfa_step (x # xs) c) = None then 0 else 1) =
      (if mc_consumed_at (mfa_step x c) = None then 0 else 1) + length (filter (\<lambda>b. b) (mfa_results xs (mfa_step x c)))"
    using Cons.IH [OF mfa_attempts.step_inv [OF Cons.prems]] by simp
  ultimately show ?case by simp
qed simp

lemma issue_mfa_ok:
  assumes "issue_mfa_challenge p i u m now = Inr c"
  shows "mfa_ok c \<and> mc_max_attempts c = mp_max_attempts p \<and> mc_consumed_at c = None \<and> mc_method c = m \<and>
    mc_expires_at c = dt_plus now (mp_challenge_ttl p)"
  using assms by (auto simp: issue_mfa_challenge_def res_simps validate_now_def mfa_ok_def)

text \<open>An issued MFA challenge accepts at most one of any sequence of attempts, counts at most
  \<open>max_attempts\<close> of them, and an accepted attempt was a TOTP attempt before the challenge expired.\<close>

theorem mfa_accepts_at_most_once:
  assumes "issue_mfa_challenge p i u m now = Inr c"
  shows "length (filter (\<lambda>b. b) (mfa_results xs c)) \<le> 1 \<and>
    mc_attempt_count (run_ops mfa_step xs c) \<le> mp_max_attempts p \<and>
    (True \<in> set (mfa_results xs c) \<longrightarrow> m = TOTP \<and>
       (\<exists>t. mc_consumed_at (run_ops mfa_step xs c) = Some t \<and>
            dt_le (dt_plus now (mp_challenge_ttl p)) t = Some False))"
proof -
  define c' where "c' = run_ops mfa_step xs c"
  note i = issue_mfa_ok [OF assms]
  have "mfa_ok c'" "mfa_le c c'"
    using i mfa_attempts.run_inv mfa_attempts.run_le unfolding c'_def by blast+
  moreover have n: "(if mc_consumed_at c' = None then 0 else 1) = length (filter (\<lambda>b. b) (mfa_results xs c))"
    using mfa_results_count [of c xs] i by (simp add: c'_def)
  moreover have "mc_consumed_at c' \<noteq> None" if "True \<in> set (mfa_results xs c)"
  proof -
    from that have "filter (\<lambda>b. b) (mfa_results xs c) \<noteq> []" by (simp add: filter_empty_conv) metis
    with n show ?thesis by (cases "filter (\<lambda>b. b) (mfa_results xs c)") (auto split: if_splits)
  qed
  ultimately show ?thesis
    unfolding c'_def [symmetric] using i
    by (auto simp: mfa_ok_def mfa_le_def split: if_splits option.splits)
qed

definition sample_mfa :: "(id_exn, mfa_challenge) res" where
  "sample_mfa = issue_mfa_challenge \<lparr>mp_challenge_ttl = seconds 600, mp_max_attempts = 5\<rparr> 9 1 TOTP (Aware 0)"

lemma mfa_accepts_at_most_once_witness:
  "\<exists>c. sample_mfa = Inr c \<and>
     length (filter (\<lambda>b. b) (mfa_results [(False, Aware 1), (True, Aware 2), (True, Aware 3)] c)) \<le> 1"
proof -
  obtain c where c: "sample_mfa = Inr c"
    by (simp add: sample_mfa_def issue_mfa_challenge_def validate_now_def mk_mfa_challenge_def time_units)
  from mfa_accepts_at_most_once [OF c [unfolded sample_mfa_def],
      of "[(False, Aware 1), (True, Aware 2), (True, Aware 3)]"]
  show ?thesis using c by blast
qed

section \<open>Recovery codes are spent once\<close>

definition codes_ok :: "recovery_code list \<Rightarrow> bool" where
  "codes_ok codes = list_all (\<lambda>r. mk_recovery_code r = Inr r) codes"

definition mark_code_used :: "datetime \<Rightarrow> recovery_code \<Rightarrow> recovery_code" where
  "mark_code_used now r = r\<lparr>rc_used_at := Some now\<rparr>"

lemma mark_code_used_simps [simp]:
  "is_used (mark_code_used now r)" "code_matches h (mark_code_used now r) = code_matches h r"
  by (simp_all add: mark_code_used_def is_used_def code_matches_def)

lemma scan_after: "scan_codes all_codes h now updated True rs = Inr (True, updated @ rs)"
  by (induction rs arbitrary: updated) simp_all

lemma consume_code_eq:
  assumes "mk_recovery_code r = Inr r" "is_aware now" "\<not> is_used r"
  shows "consume_code now r = Inr (mark_code_used now r)"
  using assms by (auto simp: consume_code_def mk_recovery_code_def mark_code_used_def split: if_splits)

lemma scan_eq:
  "codes_ok rs \<Longrightarrow> is_aware now \<Longrightarrow> scan_codes all_codes h now updated False rs =
     (case find (code_matches h) rs of
          None \<Rightarrow> Inr (False, updated @ rs)
        | Some r \<Rightarrow> if is_used r then Inr (False, all_codes)
                    else Inr (True, updated @ update_first (code_matches h) (mark_code_used now) rs))"
  by (induction rs arbitrary: updated)
     (auto simp: codes_ok_def scan_after consume_code_eq split: option.splits)

lemma consume_recovery_eq:
  assumes "codes_ok codes" "is_aware now"
  shows "consume_recovery_code hash_code codes p now =
    (case find (code_matches (hash_code p)) codes of
         None \<Rightarrow> Inr (False, codes)
       | Some r \<Rightarrow> if is_used r then Inr (False, codes)
                   else Inr (True, update_first (code_matches (hash_code p)) (mark_code_used now) codes))"
  using assms by (simp add: consume_recovery_code_def validate_now_def scan_eq split: option.splits)

text \<open>A history of presented codes; \<open>spent_hashes\<close> collects the hashes of the accepted ones.\<close>

definition present_code ::
  "(string \<Rightarrow> string) \<Rightarrow> string \<times> datetime \<Rightarrow> recovery_code list \<Rightarrow> recovery_code list" where
  "present_code hash_code x codes =
     (case consume_recovery_code hash_code codes (fst x) (snd x) of Inl _ \<Rightarrow> codes | Inr (_, c) \<Rightarrow> c)"

definition code_accepted :: "(string \<Rightarrow> string) \<Rightarrow> string \<times> datetime \<Rightarrow> recovery_code list \<Rightarrow> bool" where
  "code_accepted hash_code x codes =
     (case consume_recovery_code hash_code codes (fst x) (snd x) of Inl _ \<Rightarrow> False | Inr (b, _) \<Rightarrow> b)"

fun spent_hashes :: "(string \<Rightarrow> string) \<Rightarrow> (string \<times> datetime) list \<Rightarrow> recovery_code list \<Rightarrow> string list" where
  "spent_hashes hash_code [] codes = []"
| "spent_hashes hash_code (x # xs) codes =
     (if code_accepted hash_code x codes then [hash_code (fst x)] else []) @
     spent_hashes hash_code xs (present_code hash_code x codes)"

lemma codes_ok_update:
  "codes_ok codes \<Longrightarrow> is_aware now \<Longrightarrow> codes_ok (update_first P (mark_code_used now) codes)"
  unfolding codes_ok_def
  by (induction codes) (auto simp: mk_recovery_code_def mark_code_used_def split: if_splits)

lemma present_code_cases:
  assumes "codes_ok codes"
  obtains (rejected) "present_code hash_code x codes = codes"
      and "\<not> code_accepted hash_code x codes"
    | (accepted) r where "find (code_matches (hash_code (fst x))) codes = Some r" and "\<not> is_used r"
      and "is_aware (snd x)"
      and "present_code hash_code x codes =
        update_first (code_matches (hash_code (fst x))) (mark_code_used (snd x)) codes"
      and "code_accepted hash_code x codes"
proof (cases "is_aware (snd x)")
  case True
  show ?thesis
    using consume_recovery_eq [OF assms True, of hash_code "fst x"] True rejected accepted
    by (auto simp: present_code_def code_accepted_def split: option.splits if_splits)
next
  case False
  then show ?thesis
    by (intro rejected)
       (simp_all add: present_code_def code_accepted_def consume_recovery_code_def validate_now_def)
qed

lemma present_code_ok:
  assumes "codes_ok codes"
  shows "codes_ok (present_code hash_code x codes)"
  using assms by (cases rule: present_code_cases [where x = x and hash_code = hash_code, OF assms])
    (simp_all add: codes_ok_update)

interpretation recovery: invariant_system "present_code hash_code" codes_ok for hash_code
  by unfold_locales (rule present_code_ok)

lemma spent_were_unused:
  "codes_ok codes \<Longrightarrow> h \<in> set (spent_hashes hash_code xs codes) \<Longrightarrow>
     \<exists>r. find (code_matches h) codes = Some r \<and> \<not> is_used r"
proof (induction xs arbitrary: codes)
  case (Cons x xs)
  note IH = Cons.IH [OF present_code_ok [OF Cons.prems(1)], of hash_code x]
  from Cons.prems(1) show ?case
  proof (cases rule: present_code_cases [where x = x and hash_code = hash_code])
    case rejected
    with Cons.prems(2) have "h \<in> set (spent_hashes hash_code xs (present_code hash_code x codes))"
      by simp
    from IH [OF this] rejected(1) show ?thesis by simp
  next
    case (accepted r)
    show ?thesis
    proof (cases "h = hash_code (fst x)")
      case True
      with accepted show ?thesis by blast
    next
      case False
      with Cons.prems(2) accepted(5) have "h \<in> set (spent_hashes hash_code xs (present_code hash_code x codes))"
        by simp
      from IH [OF this] accepted(4) obtain r' where
        "find (code_matches h) (update_first (code_matches (hash_code (fst x))) (mark_code_used (snd x)) codes) = Some r'"
        "\<not> is_used r'" by auto
      moreover have "find (code_matches h)
          (update_first (code_matches (hash_code (fst x))) (mark_code_used (snd x)) codes) =
        find (code_matches h) codes"
        by (rule find_update_first_other) (use False in \<open>auto simp: code_matches_def mark_code_used_def\<close>)
      ultimately show ?thesis by simp
    qed
  qed
qed simp

text \<open>In any history of presented recovery codes no code is accepted twice, even if the stored
  list holds its hash more than once, and every accepted code was stored and unused.\<close>

theorem recovery_codes_single_use:
  assumes "codes_ok codes"
  shows "distinct (spent_hashes hash_code xs codes) \<and>
    (\<forall>h \<in> set (spent_hashes hash_code xs codes). \<exists>r \<in> set codes. rc_code_hash r = h \<and> rc_used_at r = None)"
proof
  show "\<forall>h \<in> set (spent_hashes hash_code xs codes). \<exists>r \<in> set codes. rc_code_hash r = h \<and> rc_used_at r = None"
    using spent_were_unused [OF assms] find_Some_set by (fastforce simp: code_matches_def is_used_def)
  from assms show "distinct (spent_hashes hash_code xs codes)"
  proof (induction xs arbitrary: codes)
    case (Cons x xs)
    note ok = present_code_ok [OF Cons.prems, of hash_code x]
    note IH = Cons.IH [OF ok]
    from Cons.prems show ?case
    proof (cases rule: present_code_cases [where x = x and hash_code = hash_code])
      case rejected
      then show ?thesis using IH by simp
    next
      case (accepted r)
      have "find (code_matches (hash_code (fst x))) (present_code hash_code x codes) =
          Some (mark_code_used (snd x) r)"
        unfolding accepted(4) by (simp add: find_update_first accepted(1))
      then have "hash_code (fst x) \<notin> set (spent_hashes hash_code xs (present_code hash_code x codes))"
        using spent_were_unused [OF ok] by fastforce
      with IH accepted(5) show ?thesis by simp
    qed
  qed simp
qed

definition sample_codes :: "recovery_code list" where
  "sample_codes = [\<lparr>rc_id = 1, rc_code_hash = ''a'', rc_used_at = None\<rparr>,
     \<lparr>rc_id = 2, rc_code_hash = ''a'', rc_used_at = None\<rparr>]"

lemma recovery_codes_single_use_witness:
  "distinct (spent_hashes (\<lambda>s. s) [(''a'', Aware 1), (''a'', Aware 2)] sample_codes)"
proof -
  have "codes_ok sample_codes"
    by (simp add: codes_ok_def sample_codes_def mk_recovery_code_def py_strip_def is_space_def code_def)
  from recovery_codes_single_use [OF this] show ?thesis by blast
qed

end
