(* ===== verification/Identity_Account.thy ===== *)
theory Identity_Account
  imports Identity_Challenges
begin

text \<open>
  The \<open>User\<close> aggregate (\<open>domain/identity/account/account.py\<close>). A mutator changes the object before
  it builds the event that records the change, and building the event may raise (a forbidden
  reason), so a mutator returns the user it leaves behind and its outcome. \<open>clock\<close> is the reading
  of the system clock, used when the caller passes no \<open>now\<close>.
\<close>

section \<open>Accounts\<close>

datatype account_status =
    PENDING_VERIFICATION | ACTIVE | DEACTIVATED | DEACTIVATED_PENDING_VERIFICATION | SUSPENDED | LOCKED

definition mk_status :: "string \<Rightarrow> (id_exn, account_status) res" where
  "mk_status s =
     (if s = ''pending_verification'' then Inr PENDING_VERIFICATION
      else if s = ''active'' then Inr ACTIVE
      else if s = ''deactivated'' then Inr DEACTIVATED
      else if s = ''deactivated_pending_verification'' then Inr DEACTIVATED_PENDING_VERIFICATION
      else if s = ''suspended'' then Inr SUSPENDED
      else if s = ''locked'' then Inr LOCKED
      else Inl (ValueError ''not a valid AccountStatus''))"

definition status_from_legacy_flags :: "bool \<Rightarrow> bool \<Rightarrow> account_status" where
  "status_from_legacy_flags active verified =
     (if active \<and> verified then ACTIVE
      else if active \<and> \<not> verified then PENDING_VERIFICATION
      else if \<not> active \<and> verified then DEACTIVATED
      else DEACTIVATED_PENDING_VERIFICATION)"

text \<open>The fields of the events in the order user, data of the event, actor, reason, time, token version.\<close>

datatype user_event =
    UserRegistered uuid string user_role datetime
  | UserActivated uuid "uuid option" "string option" datetime int
  | UserDeactivated uuid "uuid option" "string option" datetime int
  | UserSuspended uuid "uuid option" "string option" datetime int
  | UserRestored uuid "uuid option" "string option" datetime int
  | UserLocked uuid datetime int
  | UserUnlocked uuid "uuid option" "string option" datetime int
  | UserRoleChanged uuid user_role user_role "uuid option" "string option" datetime int
  | UserPasswordChanged uuid datetime int
  | UserVerified uuid datetime int
  | UserTwoFactorEnabled uuid datetime int
  | UserTwoFactorDisabled uuid datetime int
  | UserOAuthLinked uuid string datetime
  | UserLoggedIn uuid datetime int

record user =
  u_id :: uuid
  u_email :: string
  u_password_hash :: "string option"
  u_first_name :: string
  u_last_name :: string
  u_role :: user_role
  u_two_factor_enabled :: bool
  u_auth_token_version :: int
  u_status :: account_status
  u_created_at :: datetime
  u_updated_at :: datetime
  u_last_login :: "datetime option"
  u_events :: "user_event list"

definition is_active :: "user \<Rightarrow> bool" where
  "is_active u = (u_status u \<in> {ACTIVE, PENDING_VERIFICATION})"

definition is_verified :: "user \<Rightarrow> bool" where
  "is_verified u = (u_status u \<in> {ACTIVE, DEACTIVATED, SUSPENDED, LOCKED})"

definition validate_timezone_aware :: "datetime \<Rightarrow> (id_exn, unit) res" where
  "validate_timezone_aware t = ensure (is_aware t) (ValueError ''must be timezone-aware'')"

text \<open>\<open>User.__init__\<close> and \<open>__post_init__\<close>; \<open>rehydrate\<close> is the same call.\<close>

record user_args =
  ua_id :: uuid
  ua_email :: string
  ua_password_hash :: "string option"
  ua_first_name :: string
  ua_last_name :: string
  ua_role :: string
  ua_two_factor_enabled :: bool
  ua_auth_token_version :: int
  ua_status :: "string option"
  ua_is_active :: bool
  ua_is_verified :: bool
  ua_created_at :: "datetime option"
  ua_updated_at :: "datetime option"
  ua_last_login :: "datetime option"

definition mk_user :: "datetime \<Rightarrow> user_args \<Rightarrow> (id_exn, user) res" where
  "mk_user clock a =
     res_bind (case ua_status a of
         Some s \<Rightarrow> mk_status s
       | None \<Rightarrow> Inr (status_from_legacy_flags (ua_is_active a) (ua_is_verified a))) (\<lambda>status.
     res_bind (mk_role (ua_role a)) (\<lambda>role.
     res_bind (mk_person_name (ua_first_name a) (ua_last_name a)) (\<lambda>(first, last).
     if ua_auth_token_version a < 0 then Inl (ValueError ''Auth token version cannot be negative'')
     else res_bind (validate_timezone_aware (now_or clock (ua_created_at a))) (\<lambda>_.
     res_bind (validate_timezone_aware (now_or clock (ua_updated_at a))) (\<lambda>_.
     res_bind (case ua_last_login a of None \<Rightarrow> Inr () | Some t \<Rightarrow> validate_timezone_aware t) (\<lambda>_.
     Inr \<lparr>u_id = ua_id a, u_email = ua_email a, u_password_hash = ua_password_hash a,
          u_first_name = first, u_last_name = last, u_role = role,
          u_two_factor_enabled = ua_two_factor_enabled a,
          u_auth_token_version = ua_auth_token_version a, u_status = status,
          u_created_at = now_or clock (ua_created_at a), u_updated_at = now_or clock (ua_updated_at a),
          u_last_login = ua_last_login a, u_events = []\<rparr>))))))"

text \<open>\<open>__setattr__\<close>: after construction the guarded fields change only through the mutators.\<close>

definition protected_fields :: "string list" where
  "protected_fields = [''role'', ''status'', ''is_active'', ''is_verified'', ''password_hash'',
     ''auth_token_version'', ''two_factor_enabled'']"

definition setattr_refused :: "string \<Rightarrow> bool \<Rightarrow> bool \<Rightarrow> bool" where
  "setattr_refused name has_events hydrating = (name \<in> set protected_fields \<and> has_events \<and> \<not> hydrating)"

definition record_event :: "user_event \<Rightarrow> user \<Rightarrow> user" where
  "record_event e u = u\<lparr>u_events := u_events u @ [e]\<rparr>"

definition pull_events :: "user \<Rightarrow> user_event list \<times> user" where
  "pull_events u = (u_events u, u\<lparr>u_events := []\<rparr>)"

definition register_new ::
  "datetime \<Rightarrow> uuid \<Rightarrow> string \<Rightarrow> string option \<Rightarrow> string \<Rightarrow> string \<Rightarrow> string \<Rightarrow> bool \<Rightarrow> datetime option \<Rightarrow>
     (id_exn, user) res" where
  "register_new clock i email password_hash first_name last_name role verified now =
     res_bind (mk_role role) (\<lambda>r.
     if \<not> can_self_register r then Inl (ValueError ''Role cannot self-register'')
     else let occurred_at = now_or clock now in
     res_bind (mk_user clock
       \<lparr>ua_id = i, ua_email = email, ua_password_hash = password_hash, ua_first_name = first_name,
        ua_last_name = last_name, ua_role = role, ua_two_factor_enabled = False,
        ua_auth_token_version = 0,
        ua_status = Some (if verified then ''active'' else ''pending_verification''),
        ua_is_active = True, ua_is_verified = False, ua_created_at = Some occurred_at,
        ua_updated_at = Some occurred_at, ua_last_login = None\<rparr>) (\<lambda>u.
     Inr (record_event (UserRegistered (u_id u) (u_email u) (u_role u) (u_created_at u)) u)))"

section \<open>Mutators\<close>

definition rotate_auth_token_version :: "datetime \<Rightarrow> datetime option \<Rightarrow> user \<Rightarrow> user" where
  "rotate_auth_token_version clock now u =
     u\<lparr>u_auth_token_version := u_auth_token_version u + 1, u_updated_at := now_or clock now\<rparr>"

text \<open>The event is built from the normalised reason, which may raise, and then recorded.\<close>

definition record_reasoned :: "string option \<Rightarrow> (string option \<Rightarrow> user_event) \<Rightarrow> user \<Rightarrow> user outcome" where
  "record_reasoned reason event u =
     (case normalize_reason reason of
          Inl e \<Rightarrow> (u, Inl e)
        | Inr r \<Rightarrow> (record_event (event r) u, Inr ()))"

definition ensure_account_can_be_activated :: "bool \<Rightarrow> (id_exn, unit) res" where
  "ensure_account_can_be_activated verified = ensure verified AccountCannotBeActivated"

text \<open>The optional password history check: the history, the plain password and the verifier.\<close>

definition change_password ::
  "datetime \<Rightarrow> string \<Rightarrow> datetime option \<Rightarrow> string option \<Rightarrow> password_history option \<Rightarrow>
     (string \<Rightarrow> string \<Rightarrow> bool) option \<Rightarrow> user \<Rightarrow> user outcome" where
  "change_password clock new_hash now plain history verifier u =
     (let occurred_at = now_or clock now;
          checked = (case history of
              None \<Rightarrow> Inr ()
            | Some h \<Rightarrow> (case (plain, verifier) of
                (Some p, Some v) \<Rightarrow> ensure_not_reused h p v
              | _ \<Rightarrow> Inl (ValueError ''Password history checks require the plain password and verifier'')))
      in case checked of
          Inl e \<Rightarrow> (u, Inl e)
        | Inr _ \<Rightarrow>
            let u = rotate_auth_token_version clock (Some occurred_at) (u\<lparr>u_password_hash := Some new_hash\<rparr>) in
            (record_event (UserPasswordChanged (u_id u) (u_updated_at u) (u_auth_token_version u)) u, Inr ()))"

definition mark_verified :: "datetime \<Rightarrow> challenge \<Rightarrow> datetime option \<Rightarrow> user \<Rightarrow> user outcome" where
  "mark_verified clock c now u =
     (if is_verified u then (u, Inr ())
      else case ensure_terminal_challenge_succeeded c ''email'' of
          Inl e \<Rightarrow> (u, Inl e)
        | Inr _ \<Rightarrow>
            let u = u\<lparr>u_status := ACTIVE, u_updated_at := now_or clock now\<rparr> in
            (record_event (UserVerified (u_id u) (u_updated_at u) (u_auth_token_version u)) u, Inr ()))"

definition deactivate ::
  "datetime \<Rightarrow> datetime option \<Rightarrow> uuid option \<Rightarrow> string option \<Rightarrow> user \<Rightarrow> user outcome" where
  "deactivate clock now actor reason u =
     (if u_status u \<in> {DEACTIVATED, DEACTIVATED_PENDING_VERIFICATION} then (u, Inr ())
      else let occurred_at = now_or clock now;
          next_status = (if is_verified u then DEACTIVATED else DEACTIVATED_PENDING_VERIFICATION);
          u = rotate_auth_token_version clock (Some occurred_at) (u\<lparr>u_status := next_status\<rparr>)
      in record_reasoned reason
           (\<lambda>r. UserDeactivated (u_id u) actor r (u_updated_at u) (u_auth_token_version u)) u)"

definition activate ::
  "datetime \<Rightarrow> datetime option \<Rightarrow> uuid option \<Rightarrow> string option \<Rightarrow> user \<Rightarrow> user outcome" where
  "activate clock now actor reason u =
     (if u_status u = ACTIVE then (u, Inr ())
      else case ensure_account_can_be_activated (is_verified u) of
          Inl e \<Rightarrow> (u, Inl e)
        | Inr _ \<Rightarrow>
            let u = u\<lparr>u_status := ACTIVE, u_updated_at := now_or clock now\<rparr> in
            record_reasoned reason
              (\<lambda>r. UserActivated (u_id u) actor r (u_updated_at u) (u_auth_token_version u)) u)"

definition suspend ::
  "datetime \<Rightarrow> string \<Rightarrow> datetime option \<Rightarrow> uuid option \<Rightarrow> user \<Rightarrow> user outcome" where
  "suspend clock reason now actor u =
     (if u_status u = SUSPENDED then (u, Inr ())
      else case ensure_account_can_be_activated (is_verified u) of
          Inl e \<Rightarrow> (u, Inl e)
        | Inr _ \<Rightarrow>
            let u = rotate_auth_token_version clock (Some (now_or clock now)) (u\<lparr>u_status := SUSPENDED\<rparr>) in
            record_reasoned (Some reason)
              (\<lambda>r. UserSuspended (u_id u) actor r (u_updated_at u) (u_auth_token_version u)) u)"

definition restore ::
  "datetime \<Rightarrow> datetime option \<Rightarrow> uuid option \<Rightarrow> string option \<Rightarrow> user \<Rightarrow> user outcome" where
  "restore clock now actor reason u =
     (if u_status u = ACTIVE then (u, Inr ())
      else case ensure_account_can_be_activated (is_verified u) of
          Inl e \<Rightarrow> (u, Inl e)
        | Inr _ \<Rightarrow>
            let u = rotate_auth_token_version clock (Some (now_or clock now)) (u\<lparr>u_status := ACTIVE\<rparr>) in
            record_reasoned reason
              (\<lambda>r. UserRestored (u_id u) actor r (u_updated_at u) (u_auth_token_version u)) u)"

definition lock :: "datetime \<Rightarrow> datetime option \<Rightarrow> user \<Rightarrow> user outcome" where
  "lock clock now u =
     (if u_status u = LOCKED then (u, Inr ())
      else case ensure_account_can_be_activated (is_verified u) of
          Inl e \<Rightarrow> (u, Inl e)
        | Inr _ \<Rightarrow>
            let u = rotate_auth_token_version clock (Some (now_or clock now)) (u\<lparr>u_status := LOCKED\<rparr>) in
            (record_event (UserLocked (u_id u) (u_updated_at u) (u_auth_token_version u)) u, Inr ()))"

definition unlock ::
  "datetime \<Rightarrow> datetime option \<Rightarrow> uuid option \<Rightarrow> string option \<Rightarrow> user \<Rightarrow> user outcome" where
  "unlock clock now actor reason u =
     (if u_status u = ACTIVE then (u, Inr ())
      else case ensure_account_can_be_activated (is_verified u) of
          Inl e \<Rightarrow> (u, Inl e)
        | Inr _ \<Rightarrow>
            let u = rotate_auth_token_version clock (Some (now_or clock now)) (u\<lparr>u_status := ACTIVE\<rparr>) in
            record_reasoned reason
              (\<lambda>r. UserUnlocked (u_id u) actor r (u_updated_at u) (u_auth_token_version u)) u)"

definition change_role ::
  "datetime \<Rightarrow> string \<Rightarrow> uuid option \<Rightarrow> string option \<Rightarrow> permission list option \<Rightarrow> string option \<Rightarrow>
     datetime option \<Rightarrow> user \<Rightarrow> user outcome" where
  "change_role clock new_role actor actor_role permissions reason now u =
     (case mk_role new_role of
          Inl e \<Rightarrow> (u, Inl e)
        | Inr r \<Rightarrow>
            if r = u_role u then (u, Inr ())
            else case res_bind (context_for_actor (u_id u) (u_role u) r actor actor_role permissions)
                ensure_can_assign of
              Inl e \<Rightarrow> (u, Inl e)
            | Inr _ \<Rightarrow>
                let previous = u_role u; u = rotate_auth_token_version clock now (u\<lparr>u_role := r\<rparr>) in
                record_reasoned reason
                  (\<lambda>x. UserRoleChanged (u_id u) previous r actor x (u_updated_at u) (u_auth_token_version u)) u)"

definition update_profile ::
  "datetime \<Rightarrow> string option \<Rightarrow> string option \<Rightarrow> user \<Rightarrow> user outcome" where
  "update_profile clock first_name last_name u =
     (case mk_person_name (case first_name of None \<Rightarrow> u_first_name u | Some s \<Rightarrow> s)
                          (case last_name of None \<Rightarrow> u_last_name u | Some s \<Rightarrow> s) of
          Inl e \<Rightarrow> (u, Inl e)
        | Inr (f, l) \<Rightarrow>
            if f = u_first_name u \<and> l = u_last_name u then (u, Inr ())
            else (u\<lparr>u_first_name := f, u_last_name := l, u_updated_at := clock\<rparr>, Inr ()))"

definition enable_two_factor :: "datetime \<Rightarrow> datetime option \<Rightarrow> user \<Rightarrow> user outcome" where
  "enable_two_factor clock now u =
     (case can_enable_method TOTP (u_two_factor_enabled u) of
          Inl e \<Rightarrow> (u, Inl e)
        | Inr False \<Rightarrow> (u, Inr ())
        | Inr True \<Rightarrow>
            let u = rotate_auth_token_version clock (Some (now_or clock now)) (u\<lparr>u_two_factor_enabled := True\<rparr>) in
            (record_event (UserTwoFactorEnabled (u_id u) (u_updated_at u) (u_auth_token_version u)) u, Inr ()))"

definition disable_two_factor :: "datetime \<Rightarrow> datetime option \<Rightarrow> user \<Rightarrow> user outcome" where
  "disable_two_factor clock now u =
     (case can_disable_method TOTP (u_two_factor_enabled u) of
          Inl e \<Rightarrow> (u, Inl e)
        | Inr False \<Rightarrow> (u, Inr ())
        | Inr True \<Rightarrow>
            let u = rotate_auth_token_version clock (Some (now_or clock now)) (u\<lparr>u_two_factor_enabled := False\<rparr>) in
            (record_event (UserTwoFactorDisabled (u_id u) (u_updated_at u) (u_auth_token_version u)) u, Inr ()))"

definition link_oauth_provider :: "datetime \<Rightarrow> string \<Rightarrow> datetime option \<Rightarrow> user \<Rightarrow> user outcome" where
  "link_oauth_provider clock provider now u =
     (record_event (UserOAuthLinked (u_id u) provider (now_or clock now)) u, Inr ())"

definition record_login :: "datetime \<Rightarrow> datetime option \<Rightarrow> user \<Rightarrow> user outcome" where
  "record_login clock now u =
     (let occurred_at = now_or clock now in
      (record_event (UserLoggedIn (u_id u) occurred_at (u_auth_token_version u))
         (u\<lparr>u_last_login := Some occurred_at\<rparr>), Inr ()))"

section \<open>Histories of an account\<close>

datatype user_op =
    ChangePassword string "datetime option" "string option" "password_history option"
      "(string \<Rightarrow> string \<Rightarrow> bool) option"
  | MarkVerified challenge "datetime option"
  | Deactivate "datetime option" "uuid option" "string option"
  | Activate "datetime option" "uuid option" "string option"
  | Suspend string "datetime option" "uuid option"
  | Restore "datetime option" "uuid option" "string option"
  | Lock "datetime option"
  | Unlock "datetime option" "uuid option" "string option"
  | ChangeRole string "uuid option" "string option" "permission list option" "string option" "datetime option"
  | UpdateProfile "string option" "string option"
  | EnableTwoFactor "datetime option"
  | DisableTwoFactor "datetime option"
  | LinkOAuth string "datetime option"
  | RecordLogin "datetime option"

fun user_call :: "datetime \<Rightarrow> user_op \<Rightarrow> user \<Rightarrow> user outcome" where
  "user_call clock (ChangePassword h now p hist v) u = change_password clock h now p hist v u"
| "user_call clock (MarkVerified c now) u = mark_verified clock c now u"
| "user_call clock (Deactivate now a r) u = deactivate clock now a r u"
| "user_call clock (Activate now a r) u = activate clock now a r u"
| "user_call clock (Suspend r now a) u = suspend clock r now a u"
| "user_call clock (Restore now a r) u = restore clock now a r u"
| "user_call clock (Lock now) u = lock clock now u"
| "user_call clock (Unlock now a r) u = unlock clock now a r u"
| "user_call clock (ChangeRole n a ar ps r now) u = change_role clock n a ar ps r now u"
| "user_call clock (UpdateProfile f l) u = update_profile clock f l u"
| "user_call clock (EnableTwoFactor now) u = enable_two_factor clock now u"
| "user_call clock (DisableTwoFactor now) u = disable_two_factor clock now u"
| "user_call clock (LinkOAuth p now) u = link_oauth_provider clock p now u"
| "user_call clock (RecordLogin now) u = record_login clock now u"

definition user_step :: "datetime \<times> user_op \<Rightarrow> user \<Rightarrow> user" where
  "user_step x u = fst (user_call (fst x) (snd x) u)"

definition user_ok :: "user \<Rightarrow> bool" where
  "user_ok u =
     (mk_person_name (u_first_name u) (u_last_name u) = Inr (u_first_name u, u_last_name u) \<and>
      0 \<le> u_auth_token_version u \<and> is_aware (u_created_at u))"

definition user_le :: "user \<Rightarrow> user \<Rightarrow> bool" where
  "user_le u v =
     (u_id v = u_id u \<and> u_email v = u_email u \<and> u_created_at v = u_created_at u \<and>
      (is_verified u \<longrightarrow> is_verified v) \<and> u_auth_token_version u \<le> u_auth_token_version v \<and>
      (u_auth_token_version v = u_auth_token_version u \<longrightarrow>
         u_password_hash v = u_password_hash u \<and> u_role v = u_role u \<and>
         u_two_factor_enabled v = u_two_factor_enabled u \<and> (is_active u \<longrightarrow> is_active v)))"

lemma mk_person_name_idem: "mk_person_name f l = Inr (f', l') \<Longrightarrow> mk_person_name f' l' = Inr (f', l')"
  by (auto simp: mk_person_name_def Let_def split: if_splits)

lemma record_event_sel [simp]:
  "u_id (record_event e u) = u_id u" "u_email (record_event e u) = u_email u"
  "u_password_hash (record_event e u) = u_password_hash u" "u_role (record_event e u) = u_role u"
  "u_first_name (record_event e u) = u_first_name u" "u_last_name (record_event e u) = u_last_name u"
  "u_two_factor_enabled (record_event e u) = u_two_factor_enabled u"
  "u_auth_token_version (record_event e u) = u_auth_token_version u"
  "u_status (record_event e u) = u_status u" "u_created_at (record_event e u) = u_created_at u"
  by (simp_all add: record_event_def)

lemma reasoned_sel [simp]:
  "u_id (fst (record_reasoned r f u)) = u_id u" "u_email (fst (record_reasoned r f u)) = u_email u"
  "u_password_hash (fst (record_reasoned r f u)) = u_password_hash u"
  "u_role (fst (record_reasoned r f u)) = u_role u"
  "u_first_name (fst (record_reasoned r f u)) = u_first_name u"
  "u_last_name (fst (record_reasoned r f u)) = u_last_name u"
  "u_two_factor_enabled (fst (record_reasoned r f u)) = u_two_factor_enabled u"
  "u_auth_token_version (fst (record_reasoned r f u)) = u_auth_token_version u"
  "u_status (fst (record_reasoned r f u)) = u_status u"
  "u_created_at (fst (record_reasoned r f u)) = u_created_at u"
  by (simp_all add: record_reasoned_def split: sum.splits)

lemmas mutator_defs =
  change_password_def mark_verified_def deactivate_def activate_def suspend_def restore_def lock_def
  unlock_def change_role_def update_profile_def enable_two_factor_def disable_two_factor_def
  link_oauth_provider_def record_login_def rotate_auth_token_version_def
  ensure_account_can_be_activated_def Let_def

lemma user_step_ok: "user_ok u \<Longrightarrow> user_ok (user_step x u)"
  unfolding user_step_def
  by (cases "snd x")
     (auto simp: mutator_defs user_ok_def mk_person_name_idem split: sum.splits option.splits bool.splits)

lemma user_step_le: "user_le u (user_step x u)"
  unfolding user_step_def
  by (cases "snd x")
     (auto simp: mutator_defs user_le_def is_active_def is_verified_def ensure_Inr
        split: sum.splits option.splits bool.splits)

lemma user_le_trans: "user_le u v \<Longrightarrow> user_le v w \<Longrightarrow> user_le u w"
  unfolding user_le_def by auto

interpretation accounts: ordered_system user_step user_ok user_le
  by unfold_locales (simp_all add: user_step_ok user_step_le, simp add: user_le_def, blast intro: user_le_trans)

lemma mk_user_ok: "mk_user clock a = Inr u \<Longrightarrow> user_ok u"
  by (auto simp: mk_user_def res_simps validate_timezone_aware_def user_ok_def mk_person_name_idem
      split: if_splits option.splits)

lemma becomes_verified:
  assumes "\<not> is_verified u" "is_verified (user_step x u)"
  shows "\<exists>c now. snd x = MarkVerified c now \<and> vc_succeeded_at c \<noteq> None \<and> vc_purpose c = EMAIL"
  using assms unfolding user_step_def
  by (cases "snd x")
     (auto simp: mutator_defs is_verified_def ensure_terminal_challenge_succeeded_def is_succeeded_def
        ensure_Inr mk_purpose_def split: sum.splits option.splits bool.splits if_splits)

definition grants_admin :: "uuid \<Rightarrow> user_op \<Rightarrow> bool" where
  "grants_admin i op =
     (case op of
        ChangeRole n actor actor_role perms _ _ \<Rightarrow>
          n = ''admin'' \<and> actor \<noteq> None \<and> actor \<noteq> Some i \<and> actor_role \<noteq> None \<and>
          (case perms of Some ps \<Rightarrow> {ASSIGN_USER_ROLE, ASSIGN_ADMIN_ROLE} \<subseteq> set ps
                       | None \<Rightarrow> actor_role = Some ''admin'')
      | _ \<Rightarrow> False)"

lemma mk_role_ADMIN [simp]: "mk_role s = Inr ADMIN \<longleftrightarrow> s = ''admin''"
  by (simp add: mk_role_def)

lemma permissions_mem: "p \<in> set (permissions_for_role r) \<longleftrightarrow> r = ADMIN"
  by (cases p; cases r) (simp_all add: permissions_for_role_def)

lemma change_role_outcome:
  "u_role (fst (change_role clock n actor actor_role perms reason now u)) \<noteq> u_role u \<Longrightarrow>
     \<exists>r c. mk_role n = Inr r \<and> u_role (fst (change_role clock n actor actor_role perms reason now u)) = r \<and>
       context_for_actor (u_id u) (u_role u) r actor actor_role perms = Inr c \<and> ensure_can_assign c = Inr ()"
  by (auto simp: change_role_def Let_def rotate_auth_token_version_def res_bind_Inr split: sum.splits if_splits)

lemma only_change_role:
  "u_role (user_step x u) = u_role u \<or> (\<exists>n actor ar perms reason now. snd x = ChangeRole n actor ar perms reason now)"
  unfolding user_step_def
  by (cases "snd x") (simp_all add: mutator_defs split: sum.splits option.splits bool.splits)

lemma becomes_admin:
  assumes "u_role u \<noteq> ADMIN" "u_role (user_step x u) = ADMIN"
  shows "grants_admin (u_id u) (snd x)"
proof -
  obtain n actor ar perms reason now where op: "snd x = ChangeRole n actor ar perms reason now"
    using assms only_change_role [of x u] by fastforce
  from op have step: "user_step x u = fst (change_role (fst x) n actor ar perms reason now u)"
    by (simp add: user_step_def)
  with assms have "u_role (fst (change_role (fst x) n actor ar perms reason now u)) \<noteq> u_role u" by simp
  from change_role_outcome [OF this] step assms(2) obtain c where
    n: "n = ''admin''" and c: "context_for_actor (u_id u) (u_role u) ADMIN actor ar perms = Inr c"
    "ensure_can_assign c = Inr ()"
    by auto
  have rank: "role_rank (u_role u) < role_rank ADMIN" using assms(1) by (rule to_admin_escalates)
  from c(1) obtain ro where ro: "ro = None \<and> ar = None \<or> (\<exists>s r. ar = Some s \<and> mk_role s = Inr r \<and> ro = Some r)"
    and ctx: "c = \<lparr>ra_target_user_id = u_id u, ra_current_role = u_role u, ra_new_role = ADMIN,
       ra_actor_user_id = actor, ra_actor_role = ro,
       ra_permissions = (case (perms, ro) of (None, Some r) \<Rightarrow> permissions_for_role r
          | (None, None) \<Rightarrow> [] | (Some ps, _) \<Rightarrow> ps)\<rparr>"
    unfolding context_for_actor_def res_bind_Inr by (auto split: option.splits simp: res_bind_Inr)
  from c(2) rank assms(1) have granted: "actor \<noteq> None" "ro \<noteq> None" "actor \<noteq> Some (u_id u)"
    "ASSIGN_USER_ROLE \<in> set (ra_permissions c)" "ASSIGN_ADMIN_ROLE \<in> set (ra_permissions c)"
    unfolding ensure_can_assign_Inr by (auto simp: ctx)
  with ro obtain s r where s: "ar = Some s" "mk_role s = Inr r" "ro = Some r" by auto
  show ?thesis
  proof (cases perms)
    case None
    with granted(4) s have "r = ADMIN" by (simp add: ctx permissions_mem)
    with s None n op granted show ?thesis by (simp add: grants_admin_def)
  next
    case (Some ps)
    with s n op granted show ?thesis by (simp add: grants_admin_def ctx)
  qed
qed


section \<open>Properties of an account\<close>

lemma reasoned_fails:
  "snd (record_reasoned r f u) = Inl e \<Longrightarrow>
     fst (record_reasoned r f u) = u \<and> normalize_reason r = Inl e \<and> (\<exists>m. e = InvalidSecurityReasonError m)"
  by (auto simp: record_reasoned_def normalize_reason_def mk_security_reason_def Let_def
      split: sum.splits option.splits if_splits)

lemma user_call_fails:
  assumes "snd (user_call clock op u) = Inl e"
  shows "fst (user_call clock op u) = u \<or>
    (\<exists>m. e = InvalidSecurityReasonError m) \<and> u_events (fst (user_call clock op u)) = u_events u"
proof (cases op)
  case (Deactivate now a r)
  with assms show ?thesis
    by (auto simp: deactivate_def Let_def rotate_auth_token_version_def dest!: reasoned_fails split: if_splits)
next
  case (Activate now a r)
  with assms show ?thesis
    by (auto simp: activate_def Let_def dest!: reasoned_fails split: if_splits sum.splits)
next
  case (Suspend r now a)
  with assms show ?thesis
    by (auto simp: suspend_def Let_def rotate_auth_token_version_def dest!: reasoned_fails
        split: if_splits sum.splits)
next
  case (Restore now a r)
  with assms show ?thesis
    by (auto simp: restore_def Let_def rotate_auth_token_version_def dest!: reasoned_fails
        split: if_splits sum.splits)
next
  case (Unlock now a r)
  with assms show ?thesis
    by (auto simp: unlock_def Let_def rotate_auth_token_version_def dest!: reasoned_fails
        split: if_splits sum.splits)
next
  case (ChangeRole n a ar ps r now)
  with assms show ?thesis
    by (auto simp: change_role_def Let_def rotate_auth_token_version_def dest!: reasoned_fails
        split: if_splits sum.splits)
next
  case (ChangePassword h now p hist v)
  with assms show ?thesis by (simp add: change_password_def Let_def split: sum.splits)
next
  case (MarkVerified c now)
  with assms show ?thesis by (simp add: mark_verified_def Let_def split: sum.splits if_splits)
next
  case (Lock now)
  with assms show ?thesis by (simp add: lock_def Let_def split: sum.splits if_splits)
next
  case (UpdateProfile f l)
  with assms show ?thesis by (auto simp: update_profile_def split: sum.splits if_splits)
next
  case (EnableTwoFactor now)
  with assms show ?thesis by (simp add: enable_two_factor_def Let_def split: sum.splits bool.splits)
next
  case (DisableTwoFactor now)
  with assms show ?thesis by (simp add: disable_two_factor_def Let_def split: sum.splits bool.splits)
qed (use assms in \<open>simp_all add: link_oauth_provider_def record_login_def Let_def\<close>)

text \<open>C10. Whatever is done to an account, its id, email and creation time stay, a verified account
  stays verified, and the token version never falls. The password hash, the role and the second
  factor cannot change, and an active account cannot become inactive, without a new token version,
  which is what invalidates the tokens issued before.\<close>

theorem account_history_safe:
  assumes "mk_user clock a = Inr u"
  shows "let v = run_ops user_step ops u in
    u_id v = u_id u \<and> u_email v = u_email u \<and> u_created_at v = u_created_at u \<and>
    (is_verified u \<longrightarrow> is_verified v) \<and> u_auth_token_version u \<le> u_auth_token_version v \<and>
    (u_password_hash v \<noteq> u_password_hash u \<or> u_role v \<noteq> u_role u \<or>
     u_two_factor_enabled v \<noteq> u_two_factor_enabled u \<or> is_active u \<and> \<not> is_active v \<longrightarrow>
       u_auth_token_version u < u_auth_token_version v)"
  using accounts.run_le [OF mk_user_ok [OF assms], of ops] by (auto simp: user_le_def Let_def)

definition sample_user_args :: user_args where
  "sample_user_args = \<lparr>ua_id = 1, ua_email = ''a@b.c'', ua_password_hash = Some ''h'',
     ua_first_name = ''Ann'', ua_last_name = ''Lee'', ua_role = ''planner'',
     ua_two_factor_enabled = False, ua_auth_token_version = 3, ua_status = Some ''active'',
     ua_is_active = True, ua_is_verified = True, ua_created_at = None, ua_updated_at = None,
     ua_last_login = None\<rparr>"

definition sample_user :: user where
  "sample_user = \<lparr>u_id = 1, u_email = ''a@b.c'', u_password_hash = Some ''h'', u_first_name = ''Ann'',
     u_last_name = ''Lee'', u_role = PLANNER, u_two_factor_enabled = False, u_auth_token_version = 3,
     u_status = ACTIVE, u_created_at = Aware 0, u_updated_at = Aware 0, u_last_login = None, u_events = []\<rparr>"

lemma sample_user_made: "mk_user (Aware 0) sample_user_args = Inr sample_user"
  by (simp add: mk_user_def sample_user_args_def sample_user_def mk_status_def mk_role_def
      mk_person_name_def py_strip_def is_space_def code_def validate_timezone_aware_def)

lemma account_history_safe_witness:
  "u_auth_token_version sample_user <
     u_auth_token_version (run_ops user_step [(Aware 5, Suspend ''abuse'' None (Some 2))] sample_user)"
proof -
  let ?v = "run_ops user_step [(Aware 5, Suspend ''abuse'' None (Some 2))] sample_user"
  have "is_active sample_user" "\<not> is_active ?v"
    by (simp_all add: user_step_def suspend_def sample_user_def is_active_def is_verified_def
        ensure_account_can_be_activated_def rotate_auth_token_version_def Let_def)
  then show ?thesis
    using account_history_safe [OF sample_user_made, of "[(Aware 5, Suspend ''abuse'' None (Some 2))]"]
    by (simp add: Let_def)
qed

text \<open>An account that is not verified and later is was verified by \<open>mark_verified\<close> with a
  challenge for the email purpose that had succeeded; no other operation verifies an account.\<close>

theorem verified_only_by_challenge:
  assumes "\<not> is_verified u" and "is_verified (run_ops user_step ops u)"
  shows "\<exists>clock c now. (clock, MarkVerified c now) \<in> set ops \<and> vc_succeeded_at c \<noteq> None \<and>
    vc_purpose c = EMAIL"
proof -
  from assms(2,1) obtain xs x ys where x: "ops = xs @ x # ys" "\<not> is_verified (run_ops user_step xs u)"
    "is_verified (user_step x (run_ops user_step xs u))" by (rule run_ops_turn)
  from becomes_verified [OF x(2,3)] obtain c now where
    "snd x = MarkVerified c now" "vc_succeeded_at c \<noteq> None" "vc_purpose c = EMAIL" by blast
  then show ?thesis using x(1) by (intro exI [of _ "fst x"] exI [of _ c] exI [of _ now]) (cases x, simp)
qed

definition pending_user :: user where
  "pending_user = sample_user\<lparr>u_status := PENDING_VERIFICATION\<rparr>"

definition done_challenge :: challenge where
  "done_challenge = \<lparr>vc_user_id = 1, vc_purpose = EMAIL, vc_code_digest = ''d'', vc_expires_at = Aware 100,
     vc_resend_available_at = Aware 10, vc_id = 7, vc_issued_at = Aware 0, vc_failed_attempts = 0,
     vc_max_attempts = 5, vc_succeeded_at = Some (Aware 50), vc_expired_at = None, vc_events = []\<rparr>"

lemma verified_only_by_challenge_witness:
  "\<exists>clock c now. (clock, MarkVerified c now) \<in> set [(Aware 60, MarkVerified done_challenge None)] \<and>
     vc_succeeded_at c \<noteq> None \<and> vc_purpose c = EMAIL"
  by (rule verified_only_by_challenge [of pending_user])
     (simp_all add: pending_user_def sample_user_def is_verified_def user_step_def mark_verified_def
        ensure_terminal_challenge_succeeded_def mk_purpose_def is_succeeded_def done_challenge_def Let_def)

text \<open>C11. A user who is not an administrator becomes one only through \<open>change_role\<close> called by an
  identified actor other than the user, with a valid role and both the permission to assign roles
  and the permission to assign the administrator role.\<close>

theorem admin_only_by_other_admin:
  assumes "mk_user clock a = Inr u" and "u_role u \<noteq> ADMIN" and "u_role (run_ops user_step ops u) = ADMIN"
  shows "\<exists>t op. (t, op) \<in> set ops \<and> grants_admin (u_id u) op"
proof -
  from assms(3,2) obtain xs x ys where x: "ops = xs @ x # ys" "u_role (run_ops user_step xs u) \<noteq> ADMIN"
    "u_role (user_step x (run_ops user_step xs u)) = ADMIN" by (rule run_ops_turn)
  have "u_id (run_ops user_step xs u) = u_id u"
    using accounts.run_le [OF mk_user_ok [OF assms(1)], of xs] by (simp add: user_le_def)
  with becomes_admin [OF x(2,3)] have "grants_admin (u_id u) (snd x)" by simp
  with x(1) show ?thesis by (intro exI [of _ "fst x"] exI [of _ "snd x"]) simp
qed

lemma admin_only_by_other_admin_witness:
  "\<exists>t op. (t, op) \<in> set [(Aware 5, ChangeRole ''admin'' (Some 2) (Some ''admin'') None None None)] \<and>
     grants_admin 1 op"
proof -
  have "u_role (run_ops user_step
      [(Aware 5, ChangeRole ''admin'' (Some 2) (Some ''admin'') None None None)] sample_user) = ADMIN"
    by (simp add: user_step_def change_role_def mk_role_def sample_user_def context_for_actor_def
        ensure_can_assign_def permissions_for_role_def rotate_auth_token_version_def Let_def)
  from admin_only_by_other_admin [OF sample_user_made _ this] show ?thesis
    by (simp add: sample_user_def)
qed

text \<open>A mutator that raises leaves the account as it was, with one exception: a reason that the
  security-reason check refuses. Then the change may already be made, but its event is missing.\<close>

theorem failed_mutator:
  assumes "snd (user_call clock op u) = Inl e"
  shows "fst (user_call clock op u) = u \<or>
    (\<exists>m. e = InvalidSecurityReasonError m) \<and> u_events (fst (user_call clock op u)) = u_events u"
  using assms by (rule user_call_fails)

lemma failed_mutator_witness:
  "let p = user_call (Aware 5) (Suspend ''token leaked'' None None) sample_user in
     snd p = Inl (InvalidSecurityReasonError ''Security reason cannot contain secret-like text'') \<and>
     u_status (fst p) = SUSPENDED \<and> u_events (fst p) = u_events sample_user"
proof -
  have s: "py_strip ''token leaked'' = ''token leaked''"
    by (simp add: py_strip_def is_space_def code_def)
  have l: "py_lower ''token leaked'' = ''token leaked''"
    by (simp add: py_lower_def lower_char_def code_def)
  have c: "py_contains ''token'' ''token leaked''"
    unfolding py_contains_def by (rule prefix_imp_sublist) simp
  have "mk_security_reason ''token leaked'' =
      Inl (InvalidSecurityReasonError ''Security reason cannot contain secret-like text'')"
    by (simp add: mk_security_reason_def Let_def s l c forbidden_fragments_def)
  then have call: "snd (user_call (Aware 5) (Suspend ''token leaked'' None None) sample_user) =
      Inl (InvalidSecurityReasonError ''Security reason cannot contain secret-like text'')"
    "u_status (fst (user_call (Aware 5) (Suspend ''token leaked'' None None) sample_user)) = SUSPENDED"
    by (simp_all add: suspend_def sample_user_def is_verified_def ensure_account_can_be_activated_def
        rotate_auth_token_version_def Let_def record_reasoned_def normalize_reason_def)
  then have "fst (user_call (Aware 5) (Suspend ''token leaked'' None None) sample_user) \<noteq> sample_user"
    by (auto simp: sample_user_def)
  with failed_mutator [OF call(1)] call show ?thesis by (simp add: Let_def)
qed

text \<open>\<open>activate\<close>, \<open>restore\<close> and \<open>unlock\<close> ask only whether the account is verified: each of them
  makes a suspended, a locked or a deactivated account active, so unlocking an account lifts its
  suspension too.\<close>

theorem unlock_lifts_suspension:
  assumes "u_status u \<in> {SUSPENDED, LOCKED, DEACTIVATED}"
  shows "u_status (fst (unlock clock now actor r u)) = ACTIVE \<and>
    u_status (fst (restore clock now actor r u)) = ACTIVE \<and>
    u_status (fst (activate clock now actor r u)) = ACTIVE \<and>
    u_status (fst (unlock clock now' actor' r' (fst (lock clock now u)))) = ACTIVE"
  using assms
  by (auto simp: unlock_def restore_def activate_def lock_def is_verified_def Let_def
      ensure_account_can_be_activated_def rotate_auth_token_version_def)

lemma unlock_lifts_suspension_witness:
  "u_status (fst (unlock (Aware 9) None None None (sample_user\<lparr>u_status := SUSPENDED\<rparr>))) = ACTIVE"
  using unlock_lifts_suspension [of "sample_user\<lparr>u_status := SUSPENDED\<rparr>" "Aware 9" None None None] by simp

end
