(* ===== verification/Identity_Access.thy ===== *)
theory Identity_Access
  imports Identity_Account
begin

text \<open>
  Who may sign in and recover an account: the lockout policy with its service and cache
  (\<open>domain/identity/authentication\<close>, \<open>application/identity/account_lockout.py\<close>,
  \<open>infrastructure/identity/django_authentication_attempt_repository.py\<close>), the eligibility check,
  password reset tokens (\<open>domain/identity/recovery\<close>) and the linking of OAuth identities
  (\<open>domain/identity/oauth\<close>).
\<close>

section \<open>Lockout policy\<close>

text \<open>An \<open>AuthenticationAttempt\<close> has an aware time, so it is an instant here.\<close>

record auth_attempt =
  at_occurred_at :: instant
  at_succeeded :: bool

definition mk_attempt :: "datetime \<Rightarrow> bool \<Rightarrow> (id_exn, auth_attempt) res" where
  "mk_attempt t ok =
     (case t of Naive _ \<Rightarrow> Inl (ValueError ''Authentication attempt time must be timezone-aware'')
        | Aware i \<Rightarrow> Inr \<lparr>at_occurred_at = i, at_succeeded = ok\<rparr>)"

record fail_counter =
  fc_attempts :: "auth_attempt list"
  fc_locked_until :: "datetime option"

definition failures_within :: "timedelta \<Rightarrow> datetime \<Rightarrow> fail_counter \<Rightarrow> (id_exn, auth_attempt list) res" where
  "failures_within window now c =
     (case now of
          Naive _ \<Rightarrow> Inl (ValueError ''Current time must be timezone-aware'')
        | Aware n \<Rightarrow>
            Inr (filter (\<lambda>a. \<not> at_succeeded a \<and> n - window \<le> at_occurred_at a) (fc_attempts c)))"

definition counter_record_failure :: "timedelta \<Rightarrow> datetime \<Rightarrow> fail_counter \<Rightarrow> (id_exn, fail_counter) res" where
  "counter_record_failure window now c =
     res_bind (failures_within window now c) (\<lambda>failures.
     res_bind (mk_attempt now False) (\<lambda>a.
       Inr \<lparr>fc_attempts = failures @ [a], fc_locked_until = fc_locked_until c\<rparr>))"

definition reset_on_success :: "fail_counter \<Rightarrow> fail_counter" where
  "reset_on_success c = \<lparr>fc_attempts = [], fc_locked_until = None\<rparr>"

record lockout_policy =
  lp_max_failures :: int
  lp_observation_window :: timedelta
  lp_lock_duration :: timedelta

definition mk_lockout_policy :: "int \<Rightarrow> timedelta \<Rightarrow> timedelta \<Rightarrow> (id_exn, lockout_policy) res" where
  "mk_lockout_policy n window duration =
     (if n \<le> 0 then Inl (ValueError ''max_failures must be positive'')
      else if window \<le> 0 then Inl (ValueError ''observation_window must be positive'')
      else if duration \<le> 0 then Inl (ValueError ''lock_duration must be positive'')
      else Inr \<lparr>lp_max_failures = n, lp_observation_window = window, lp_lock_duration = duration\<rparr>)"

record lockout_decision =
  ld_locked :: bool
  ld_failed_attempts :: int
  ld_locked_until :: "datetime option"

definition policy_now :: "datetime \<Rightarrow> (id_exn, unit) res" where
  "policy_now now = ensure (is_aware now) (ValueError ''Current time must be timezone-aware'')"

definition evaluate_lockout :: "lockout_policy \<Rightarrow> fail_counter \<Rightarrow> datetime \<Rightarrow> (id_exn, lockout_decision) res" where
  "evaluate_lockout p c now =
     res_bind (policy_now now) (\<lambda>_.
     res_bind (case fc_locked_until c of
         None \<Rightarrow> Inr False
       | Some until \<Rightarrow> raise_none TypeErr (dt_less now until)) (\<lambda>locked.
     res_bind (failures_within (lp_observation_window p) now c) (\<lambda>failures.
       Inr \<lparr>ld_locked = locked, ld_failed_attempts = int (length failures),
            ld_locked_until = (if locked then fc_locked_until c else None)\<rparr>)))"

definition lockout_record_failure ::
  "lockout_policy \<Rightarrow> fail_counter \<Rightarrow> datetime \<Rightarrow> (id_exn, fail_counter) res" where
  "lockout_record_failure p c now =
     res_bind (policy_now now) (\<lambda>_.
     res_bind (evaluate_lockout p c now) (\<lambda>current.
     if ld_locked current then Inr c
     else res_bind (counter_record_failure (lp_observation_window p) now c) (\<lambda>updated.
     res_bind (failures_within (lp_observation_window p) now updated) (\<lambda>failures.
       if int (length failures) \<ge> lp_max_failures p
       then Inr \<lparr>fc_attempts = failures, fc_locked_until = Some (dt_plus now (lp_lock_duration p))\<rparr>
       else Inr updated))))"

section \<open>The lockout service over the cache\<close>

text \<open>
  Per account key the cache holds the times of the failures and the end of a lock, each with its
  time to live. ISO strings of aware times parse back to the same time. \<open>safe\<close> is the keyed hash
  under which an account key is stored.
\<close>

record lockout_cache =
  lc_attempts :: "(string \<times> instant list \<times> instant) list"
  lc_locks :: "(string \<times> instant \<times> instant) list"

record lockout_config =
  cf_max_failures :: int
  cf_window_seconds :: int
  cf_lock_seconds :: int

definition config_policy :: "lockout_config \<Rightarrow> (id_exn, lockout_policy) res" where
  "config_policy cf =
     mk_lockout_policy (cf_max_failures cf) (seconds (cf_window_seconds cf)) (seconds (cf_lock_seconds cf))"

definition cache_get :: "instant \<Rightarrow> 'k \<Rightarrow> ('k \<times> 'v \<times> instant) list \<Rightarrow> 'v option" where
  "cache_get now k s =
     (case map_of s k of None \<Rightarrow> None | Some (v, until) \<Rightarrow> if now < until then Some v else None)"

definition load_counter :: "(string \<Rightarrow> string) \<Rightarrow> instant \<Rightarrow> string \<Rightarrow> lockout_cache \<Rightarrow> fail_counter" where
  "load_counter safe now key s =
     \<lparr>fc_attempts = map (\<lambda>t. \<lparr>at_occurred_at = t, at_succeeded = False\<rparr>)
        (case cache_get now (safe key) (lc_attempts s) of None \<Rightarrow> [] | Some ts \<Rightarrow> ts),
      fc_locked_until = map_option Aware (cache_get now (safe key) (lc_locks s))\<rparr>"

definition save_counter ::
  "(string \<Rightarrow> string) \<Rightarrow> instant \<Rightarrow> string \<Rightarrow> fail_counter \<Rightarrow> lockout_config \<Rightarrow> lockout_cache \<Rightarrow> lockout_cache" where
  "save_counter safe now key c cf s =
     (let s = s\<lparr>lc_attempts :=
          (safe key, map at_occurred_at (filter (\<lambda>a. \<not> at_succeeded a) (fc_attempts c)),
           now + seconds (max (cf_window_seconds cf) 1)) # lc_attempts s\<rparr>
      in case fc_locked_until c of
          Some (Aware until) \<Rightarrow>
            s\<lparr>lc_locks := (safe key, until, now + seconds (max (cf_lock_seconds cf) 1)) # lc_locks s\<rparr>
        | _ \<Rightarrow> s)"

definition clear_counter :: "(string \<Rightarrow> string) \<Rightarrow> string \<Rightarrow> lockout_cache \<Rightarrow> lockout_cache" where
  "clear_counter safe key s =
     s\<lparr>lc_attempts := filter (\<lambda>x. fst x \<noteq> safe key) (lc_attempts s),
       lc_locks := filter (\<lambda>x. fst x \<noteq> safe key) (lc_locks s)\<rparr>"

definition unlocked_decision :: lockout_decision where
  "unlocked_decision = \<lparr>ld_locked = False, ld_failed_attempts = 0, ld_locked_until = None\<rparr>"

definition service_is_locked ::
  "(string \<Rightarrow> string) \<Rightarrow> lockout_config \<Rightarrow> instant \<Rightarrow> string \<Rightarrow> lockout_cache \<Rightarrow> (id_exn, lockout_decision) res" where
  "service_is_locked safe cf now key s =
     (if key = '''' then Inr unlocked_decision
      else res_bind (config_policy cf) (\<lambda>p.
        evaluate_lockout p (load_counter safe now key s) (Aware now)))"

definition service_record_failure ::
  "(string \<Rightarrow> string) \<Rightarrow> lockout_config \<Rightarrow> instant \<Rightarrow> string \<Rightarrow> lockout_cache \<Rightarrow>
     (id_exn, lockout_cache \<times> lockout_decision) res" where
  "service_record_failure safe cf now key s =
     (if key = '''' then Inr (s, unlocked_decision)
      else res_bind (config_policy cf) (\<lambda>p.
      res_bind (lockout_record_failure p (load_counter safe now key s) (Aware now)) (\<lambda>c.
      res_bind (evaluate_lockout p c (Aware now)) (\<lambda>d.
        Inr (save_counter safe now key c cf s, d)))))"

definition service_record_success :: "(string \<Rightarrow> string) \<Rightarrow> string \<Rightarrow> lockout_cache \<Rightarrow> lockout_cache" where
  "service_record_success safe key s = (if key = '''' then s else clear_counter safe key s)"

section \<open>Eligibility\<close>

definition ensure_authentication_allowed :: "user \<Rightarrow> (id_exn, unit) res" where
  "ensure_authentication_allowed u =
     (if u_status u = SUSPENDED then Inl AccountSuspended
      else if u_status u = LOCKED then Inl AccountTemporarilyLocked
      else if u_status u \<noteq> ACTIVE \<or> \<not> is_active u \<or> \<not> is_verified u then Inl AuthenticationNotAllowed
      else Inr ())"

record eligibility =
  el_allowed :: bool
  el_requires_mfa :: bool

definition evaluate_eligibility :: "user \<Rightarrow> eligibility" where
  "evaluate_eligibility u =
     (let allowed = is_ok (ensure_authentication_allowed u) in
      \<lparr>el_allowed = allowed, el_requires_mfa = (if allowed then u_two_factor_enabled u else False)\<rparr>)"

section \<open>Password reset tokens\<close>

datatype reset_status = RESET_ACTIVE | RESET_USED | RESET_EXPIRED | RESET_REVOKED

record reset_token =
  rt_id :: uuid
  rt_user_id :: uuid
  rt_jti :: string
  rt_token_hash :: string
  rt_status :: reset_status
  rt_expires_at :: datetime
  rt_used_at :: "datetime option"
  rt_used_ip_hash :: "string option"
  rt_used_user_agent_hash :: "string option"

definition mk_reset_token :: "reset_token \<Rightarrow> (id_exn, reset_token) res" where
  "mk_reset_token t =
     (if rt_jti t = '''' \<or> py_strip (rt_jti t) = ''''
      then Inl (ValueError ''Password reset token jti cannot be empty'')
      else if rt_token_hash t = '''' \<or> py_strip (rt_token_hash t) = ''''
      then Inl (ValueError ''Password reset token hash cannot be empty'')
      else if \<not> is_aware (rt_expires_at t)
      then Inl (ValueError ''Password reset token expiry must be timezone-aware'')
      else if (case rt_used_at t of Some x \<Rightarrow> \<not> is_aware x | None \<Rightarrow> False)
      then Inl (ValueError ''Password reset token used time must be timezone-aware'')
      else Inr t)"

definition reset_is_expired :: "datetime \<Rightarrow> reset_token \<Rightarrow> (id_exn, bool) res" where
  "reset_is_expired now t =
     res_bind (policy_now now) (\<lambda>_. raise_none TypeErr (dt_le (rt_expires_at t) now))"

definition reset_mark_used ::
  "datetime \<Rightarrow> string option \<Rightarrow> string option \<Rightarrow> reset_token \<Rightarrow> (id_exn, reset_token) res" where
  "reset_mark_used now ip agent t =
     res_bind (policy_now now) (\<lambda>_.
       mk_reset_token (t\<lparr>rt_status := RESET_USED, rt_used_at := Some now, rt_used_ip_hash := ip,
                        rt_used_user_agent_hash := agent\<rparr>))"

definition reset_mark_expired :: "reset_token \<Rightarrow> (id_exn, reset_token) res" where
  "reset_mark_expired t = mk_reset_token (t\<lparr>rt_status := RESET_EXPIRED\<rparr>)"

definition reset_mark_revoked :: "reset_token \<Rightarrow> (id_exn, reset_token) res" where
  "reset_mark_revoked t = mk_reset_token (t\<lparr>rt_status := RESET_REVOKED\<rparr>)"

definition ensure_token_can_be_used :: "datetime \<Rightarrow> reset_token \<Rightarrow> (id_exn, unit) res" where
  "ensure_token_can_be_used now t =
     (if rt_status t \<noteq> RESET_ACTIVE then
        (if rt_status t = RESET_USED then Inl PasswordResetAlreadyUsed else Inl InvalidPasswordResetToken)
      else res_bind (reset_is_expired now t) (\<lambda>expired.
        if expired then Inl PasswordResetExpired else Inr ()))"

definition ensure_user_can_reset_password :: "bool \<Rightarrow> (id_exn, unit) res" where
  "ensure_user_can_reset_password active = ensure active PasswordResetUserInactive"

definition consume_token ::
  "datetime \<Rightarrow> string option \<Rightarrow> string option \<Rightarrow> reset_token \<Rightarrow> (id_exn, reset_token) res" where
  "consume_token now ip agent t =
     res_bind (ensure_token_can_be_used now t) (\<lambda>_. reset_mark_used now ip agent t)"

section \<open>OAuth identities\<close>

datatype oauth_provider = GOOGLE

datatype linking_action =
    CREATE_ACCOUNT | LINK_EXISTING_ACCOUNT | RELINK_PROVIDER_IDENTITY | UPDATE_EXISTING_LINK

record linking_decision =
  lk_action :: linking_action
  lk_email_trusted :: bool
  lk_can_auto_link :: bool
  lk_step_up_required :: bool
  lk_owned_by_another :: bool

record oauth_token =
  ot_id :: uuid
  ot_user_id :: uuid
  ot_provider :: oauth_provider
  ot_provider_user_id :: string
  ot_access_token :: string
  ot_refresh_token :: "string option"
  ot_expires_at :: datetime
  ot_created_at :: datetime

definition email_verification_trusted :: "oauth_provider \<Rightarrow> bool option \<Rightarrow> bool" where
  "email_verification_trusted provider verified = (provider = GOOGLE \<and> verified \<noteq> Some False)"

definition can_auto_link :: "user \<Rightarrow> bool \<Rightarrow> bool" where
  "can_auto_link account trusted = (u_password_hash account \<noteq> None \<and> trusted)"

definition decide_linking ::
  "oauth_provider \<Rightarrow> string \<Rightarrow> user option \<Rightarrow> oauth_token option \<Rightarrow> oauth_token option \<Rightarrow> bool option \<Rightarrow>
     (id_exn, linking_decision) res" where
  "decide_linking provider provider_user_id account identity_link account_link verified =
     (let trusted = email_verification_trusted provider verified in
      case account of
          None \<Rightarrow> Inr \<lparr>lk_action = CREATE_ACCOUNT, lk_email_trusted = trusted, lk_can_auto_link = False,
                       lk_step_up_required = False, lk_owned_by_another = False\<rparr>
        | Some a \<Rightarrow>
            if (case account_link of Some l \<Rightarrow> ot_provider_user_id l \<noteq> provider_user_id | None \<Rightarrow> False)
            then Inl (ValueError ''Google identity does not match existing linked account'')
            else let other = (case identity_link of Some l \<Rightarrow> ot_user_id l \<noteq> u_id a | None \<Rightarrow> False) in
              Inr \<lparr>lk_action = (if other then RELINK_PROVIDER_IDENTITY
                     else if account_link \<noteq> None then UPDATE_EXISTING_LINK else LINK_EXISTING_ACCOUNT),
                   lk_email_trusted = trusted, lk_can_auto_link = can_auto_link a trusted,
                   lk_step_up_required = False, lk_owned_by_another = other\<rparr>)"

definition validate_expires_at :: "datetime \<Rightarrow> (id_exn, unit) res" where
  "validate_expires_at t = ensure (is_aware t) (ValueError ''OAuth token expiry must be timezone-aware'')"

text \<open>\<open>OAuthAccessToken\<close> and \<open>OAuthRefreshToken\<close> are \<open>SecretValue\<close>s.\<close>

definition mk_secrets :: "string \<Rightarrow> string option \<Rightarrow> (id_exn, string \<times> string option) res" where
  "mk_secrets access refresh =
     res_bind (mk_secret_value access) (\<lambda>a.
       case refresh of None \<Rightarrow> Inr (a, None) | Some r \<Rightarrow> res_bind (mk_secret_value r) (\<lambda>x. Inr (a, Some x)))"

definition mk_oauth_token :: "oauth_token \<Rightarrow> (id_exn, oauth_token) res" where
  "mk_oauth_token t =
     (if py_strip (ot_provider_user_id t) = '''' then Inl (ValueError ''Provider user ID cannot be empty'')
      else res_bind (mk_secrets (ot_access_token t) (ot_refresh_token t)) (\<lambda>_.
      res_bind (validate_expires_at (ot_expires_at t)) (\<lambda>_. Inr t)))"

text \<open>The access token is replaced before the refresh token is checked.\<close>

definition update_tokens ::
  "string \<Rightarrow> string option \<Rightarrow> datetime \<Rightarrow> oauth_token \<Rightarrow> oauth_token outcome" where
  "update_tokens access refresh expires_at t =
     (case res_bind (validate_expires_at expires_at) (\<lambda>_. mk_secret_value access) of
          Inl e \<Rightarrow> (t, Inl e)
        | Inr a \<Rightarrow>
            let t = t\<lparr>ot_access_token := a\<rparr> in
            case refresh of
                None \<Rightarrow> (t\<lparr>ot_refresh_token := None, ot_expires_at := expires_at\<rparr>, Inr ())
              | Some r \<Rightarrow> (case mk_secret_value r of
                    Inl e \<Rightarrow> (t, Inl e)
                  | Inr x \<Rightarrow> (t\<lparr>ot_refresh_token := Some x, ot_expires_at := expires_at\<rparr>, Inr ())))"

definition link_to ::
  "uuid \<Rightarrow> linking_decision \<Rightarrow> datetime option \<Rightarrow> oauth_token \<Rightarrow> (id_exn, oauth_token) res" where
  "link_to account policy occurred_at t =
     (if account = ot_user_id t then Inr t
      else if lk_action policy \<noteq> RELINK_PROVIDER_IDENTITY \<or> \<not> lk_owned_by_another policy
      then Inl (ValueError ''OAuth identity reassignment is not authorized'')
      else if (case occurred_at of Some x \<Rightarrow> \<not> is_aware x | None \<Rightarrow> False)
      then Inl (ValueError ''OAuth identity relink time must be timezone-aware'')
      else Inr (t\<lparr>ot_user_id := account\<rparr>))"

definition oauth_is_expired :: "datetime \<Rightarrow> datetime option \<Rightarrow> oauth_token \<Rightarrow> (id_exn, bool) res" where
  "oauth_is_expired clock now t = raise_none TypeErr (dt_le (ot_expires_at t) (now_or clock now))"

section \<open>When the lockout service locks\<close>

fun service_failures ::
  "(string \<Rightarrow> string) \<Rightarrow> lockout_config \<Rightarrow> string \<Rightarrow> instant list \<Rightarrow> lockout_cache \<Rightarrow> (id_exn, lockout_cache) res" where
  "service_failures safe cf key [] s = Inr s"
| "service_failures safe cf key (t # ts) s =
     res_bind (service_record_failure safe cf t key s) (\<lambda>(s', _). service_failures safe cf key ts s')"

definition config_ok :: "lockout_config \<Rightarrow> bool" where
  "config_ok cf = (0 < cf_max_failures cf \<and> 0 < cf_window_seconds cf \<and> 0 < cf_lock_seconds cf)"

text \<open>The cache holds exactly these failures for the key, and no lock.\<close>

definition holds_failures :: "(string \<Rightarrow> string) \<Rightarrow> lockout_config \<Rightarrow> string \<Rightarrow> instant list \<Rightarrow> lockout_cache \<Rightarrow> bool" where
  "holds_failures safe cf key ts s =
     (map_of (lc_locks s) (safe key) = None \<and>
      map_of (lc_attempts s) (safe key) =
        (if ts = [] then None else Some (ts, last ts + seconds (cf_window_seconds cf))))"

definition in_window :: "lockout_config \<Rightarrow> instant list \<Rightarrow> instant \<Rightarrow> bool" where
  "in_window cf ts now =
     ((\<forall>t \<in> set ts. now - seconds (cf_window_seconds cf) \<le> t) \<and>
      (ts \<noteq> [] \<longrightarrow> now < last ts + seconds (cf_window_seconds cf)))"

lemma seconds_pos: "0 < n \<Longrightarrow> 0 < seconds n"
  by (simp add: seconds_def)

lemma config_policy_ok:
  "config_ok cf \<Longrightarrow> config_policy cf = Inr \<lparr>lp_max_failures = cf_max_failures cf,
     lp_observation_window = seconds (cf_window_seconds cf), lp_lock_duration = seconds (cf_lock_seconds cf)\<rparr>"
  using seconds_pos [of "cf_window_seconds cf"] seconds_pos [of "cf_lock_seconds cf"]
  by (auto simp: config_ok_def config_policy_def mk_lockout_policy_def)

lemma load_held:
  assumes "holds_failures safe cf key ts s" "in_window cf ts now"
  shows "load_counter safe now key s =
    \<lparr>fc_attempts = map (\<lambda>t. \<lparr>at_occurred_at = t, at_succeeded = False\<rparr>) ts, fc_locked_until = None\<rparr>"
  using assms by (auto simp: load_counter_def cache_get_def holds_failures_def in_window_def)

lemma all_in_window:
  "in_window cf ts now \<Longrightarrow>
     filter (\<lambda>t. now - seconds (cf_window_seconds cf) \<le> t) ts = ts"
  by (simp add: in_window_def)

lemma record_held:
  assumes "config_ok cf" "key \<noteq> ''''" "holds_failures safe cf key ts s" "in_window cf ts now"
    and "int (length ts) + 1 < cf_max_failures cf"
  shows "\<exists>s' d. service_record_failure safe cf now key s = Inr (s', d) \<and> \<not> ld_locked d \<and>
    holds_failures safe cf key (ts @ [now]) s'"
proof -
  have "0 < seconds (cf_window_seconds cf)" using assms(1) by (simp add: config_ok_def seconds_pos)
  then show ?thesis
    using assms all_in_window [OF assms(4)]
    by (auto simp: service_record_failure_def config_policy_ok load_held [OF assms(3,4)] lockout_record_failure_def
        evaluate_lockout_def policy_now_def failures_within_def counter_record_failure_def mk_attempt_def
        filter_map comp_def save_counter_def holds_failures_def Let_def config_ok_def)
qed

lemma record_last_held:
  assumes "config_ok cf" "key \<noteq> ''''" "holds_failures safe cf key ts s" "in_window cf ts now"
    and "int (length ts) + 1 = cf_max_failures cf"
  shows "\<exists>s' d. service_record_failure safe cf now key s = Inr (s', d) \<and> ld_locked d \<and>
    map_of (lc_locks s') (safe key) =
      Some (now + seconds (cf_lock_seconds cf), now + seconds (cf_lock_seconds cf))"
proof -
  have "0 < seconds (cf_window_seconds cf)" "0 < seconds (cf_lock_seconds cf)"
    using assms(1) by (simp_all add: config_ok_def seconds_pos)
  then show ?thesis
    using assms all_in_window [OF assms(4)]
    by (auto simp: service_record_failure_def config_policy_ok load_held [OF assms(3,4)] lockout_record_failure_def
        evaluate_lockout_def policy_now_def failures_within_def counter_record_failure_def mk_attempt_def
        filter_map comp_def save_counter_def Let_def config_ok_def)
qed

lemma locked_until_end:
  assumes "config_ok cf" "key \<noteq> ''''" "map_of (lc_locks s) (safe key) = Some (until, until)"
  shows "\<exists>d. service_is_locked safe cf now key s = Inr d \<and> (ld_locked d \<longleftrightarrow> now < until)"
  using assms
  by (auto simp: service_is_locked_def config_policy_ok evaluate_lockout_def policy_now_def load_counter_def
      cache_get_def failures_within_def)

lemma unlocked_held:
  assumes "config_ok cf" "key \<noteq> ''''" "holds_failures safe cf key ts s"
  shows "\<exists>d. service_is_locked safe cf now key s = Inr d \<and> \<not> ld_locked d"
  using assms
  by (auto simp: service_is_locked_def config_policy_ok evaluate_lockout_def policy_now_def load_counter_def
      cache_get_def failures_within_def holds_failures_def)

lemma service_failures_append:
  "service_failures safe cf key (xs @ ys) s =
     res_bind (service_failures safe cf key xs s) (service_failures safe cf key ys)"
proof (induction xs arbitrary: s)
  case (Cons x xs)
  then show ?case by (cases "service_record_failure safe cf x key s") auto
qed simp

lemma sorted_in_window:
  fixes t :: instant
  assumes "sorted (ts @ [t])" and "t - hd (ts @ [t]) < seconds (cf_window_seconds cf)"
  shows "in_window cf ts t" and "ts \<noteq> [] \<Longrightarrow> last ts - hd ts < seconds (cf_window_seconds cf)"
proof -
  have up: "x \<le> t" if "x \<in> set ts" for x
    using assms(1) that by (simp add: sorted_append)
  have low: "hd ts \<le> x" if "x \<in> set ts" for x
    using assms(1) that by (cases ts) (auto simp: sorted_append)
  show "last ts - hd ts < seconds (cf_window_seconds cf)" if "ts \<noteq> []"
    using up [of "last ts"] assms(2) that by simp
  have "t < last ts + seconds (cf_window_seconds cf)" if "ts \<noteq> []"
    using low [of "last ts"] assms(2) that by simp
  moreover have "t - seconds (cf_window_seconds cf) \<le> x" if "x \<in> set ts" for x
    using low [OF that] assms(2) that by (cases ts) auto
  ultimately show "in_window cf ts t" by (simp add: in_window_def)
qed

lemma failures_held:
  assumes "config_ok cf" "key \<noteq> ''''" "holds_failures safe cf key [] s"
    and "sorted ts" "ts \<noteq> [] \<Longrightarrow> last ts - hd ts < seconds (cf_window_seconds cf)"
    and "int (length ts) < cf_max_failures cf"
  shows "\<exists>s'. service_failures safe cf key ts s = Inr s' \<and> holds_failures safe cf key ts s'"
  using assms(4-6)
proof (induction ts rule: rev_induct)
  case Nil
  with assms(3) show ?case by simp
next
  case (snoc t ts)
  have w: "in_window cf ts t" using snoc.prems(1,2) by (intro sorted_in_window(1)) auto
  have "\<exists>s'. service_failures safe cf key ts s = Inr s' \<and> holds_failures safe cf key ts s'"
  proof (rule snoc.IH)
    show "sorted ts" using snoc.prems(1) by (simp add: sorted_append)
    show "last ts - hd ts < seconds (cf_window_seconds cf)" if "ts \<noteq> []"
      using snoc.prems(1,2) that by (intro sorted_in_window(2) [of ts t]) auto
    show "int (length ts) < cf_max_failures cf" using snoc.prems(3) by simp
  qed
  then obtain s' where s': "service_failures safe cf key ts s = Inr s'" "holds_failures safe cf key ts s'" by blast
  from record_held [OF assms(1,2) s'(2) w] snoc.prems(3) obtain s'' d where
    "service_record_failure safe cf t key s' = Inr (s'', d)" "holds_failures safe cf key (ts @ [t]) s''" by auto
  with s'(1) show ?case by (simp add: service_failures_append)
qed

text \<open>C29. The lockout service, from a key with no record: as long as fewer than the configured number
  of failures happened, the account is not locked; the failure that completes the number within
  the observation window locks it, from then on until exactly the lock duration later.\<close>

theorem lockout_at_threshold:
  assumes "config_ok cf" and "key \<noteq> ''''" and "holds_failures safe cf key [] s"
    and "sorted (ts @ [t])" and "t - hd (ts @ [t]) < seconds (cf_window_seconds cf)"
    and "int (length ts) + 1 = cf_max_failures cf"
  shows "\<exists>s1 s2 d. service_failures safe cf key ts s = Inr s1 \<and>
    service_is_locked safe cf t key s1 = Inr d \<and> \<not> ld_locked d \<and>
    service_failures safe cf key (ts @ [t]) s = Inr s2 \<and>
    (\<forall>now. \<exists>d. service_is_locked safe cf now key s2 = Inr d \<and>
       (ld_locked d \<longleftrightarrow> now < t + seconds (cf_lock_seconds cf)))"
proof -
  note w = sorted_in_window [OF assms(4,5)]
  obtain s1 where s1: "service_failures safe cf key ts s = Inr s1" "holds_failures safe cf key ts s1"
    using failures_held [OF assms(1-3) _ w(2)] assms(4,6) by (auto simp: sorted_append)
  from record_last_held [OF assms(1,2) s1(2) w(1) assms(6)] obtain s2 d where
    s2: "service_record_failure safe cf t key s1 = Inr (s2, d)"
    "map_of (lc_locks s2) (safe key) =
       Some (t + seconds (cf_lock_seconds cf), t + seconds (cf_lock_seconds cf))" by blast
  have "service_failures safe cf key (ts @ [t]) s = Inr s2"
    using s1(1) s2(1) by (simp add: service_failures_append)
  moreover from unlocked_held [OF assms(1,2) s1(2)] obtain d' where
    "service_is_locked safe cf t key s1 = Inr d'" "\<not> ld_locked d'" by blast
  ultimately show ?thesis
    using s1(1) locked_until_end [of cf key s2 safe, OF assms(1,2) s2(2)] by blast
qed

definition sample_lockout :: lockout_config where
  "sample_lockout = \<lparr>cf_max_failures = 3, cf_window_seconds = 900, cf_lock_seconds = 600\<rparr>"

lemma lockout_at_threshold_witness:
  "\<exists>s. service_failures (\<lambda>k. k) sample_lockout ''a@b.c'' [0, 10, 20] \<lparr>lc_attempts = [], lc_locks = []\<rparr> = Inr s \<and>
     (\<exists>d. service_is_locked (\<lambda>k. k) sample_lockout 599999999 ''a@b.c'' s = Inr d \<and> ld_locked d)"
proof -
  have "config_ok sample_lockout"
    "holds_failures (\<lambda>k. k) sample_lockout ''a@b.c'' [] \<lparr>lc_attempts = [], lc_locks = []\<rparr>"
    by (simp_all add: config_ok_def sample_lockout_def holds_failures_def)
  from lockout_at_threshold [OF this(1) _ this(2), of "[0, 10]" 20] obtain s2 where
    "service_failures (\<lambda>k. k) sample_lockout ''a@b.c'' [0, 10, 20] \<lparr>lc_attempts = [], lc_locks = []\<rparr> = Inr s2"
    "\<forall>now. \<exists>d. service_is_locked (\<lambda>k. k) sample_lockout now ''a@b.c'' s2 = Inr d \<and>
       (ld_locked d \<longleftrightarrow> now < 20 + seconds 600)"
    by (auto simp: sample_lockout_def time_units)
  moreover from this(2) obtain d where
    "service_is_locked (\<lambda>k. k) sample_lockout 599999999 ''a@b.c'' s2 = Inr d" "ld_locked d"
    by (auto simp: time_units dest: spec [where x = 599999999])
  ultimately show ?thesis by blast
qed

section \<open>Reset tokens and OAuth links\<close>

lemma consume_token_used:
  "consume_token now ip agent t = Inr t' \<Longrightarrow>
     rt_status t = RESET_ACTIVE \<and> rt_status t' = RESET_USED \<and> rt_id t' = rt_id t \<and> rt_user_id t' = rt_user_id t \<and>
     dt_le (rt_expires_at t) now = Some False \<and> rt_used_at t' = Some now"
  by (auto simp: consume_token_def ensure_token_can_be_used_def reset_is_expired_def res_simps raise_none_def
      reset_mark_used_def mk_reset_token_def split: if_splits option.splits)

lemma relink_only_by_decision:
  assumes "decide_linking p pid (Some a) identity account_link v = Inr d" "identity = Some t"
    and "link_to (u_id a) d when t = Inr t'" "ot_user_id t' \<noteq> ot_user_id t"
  shows "lk_action d = RELINK_PROVIDER_IDENTITY \<and> ot_user_id t' = u_id a \<and> ot_user_id t \<noteq> u_id a"
  using assms by (auto simp: link_to_def decide_linking_def Let_def split: if_splits option.splits)

end
