(* ===== verification/Identity_Sessions.thy ===== *)
theory Identity_Sessions
  imports Identity_Core
begin

text \<open>
  Sessions and refresh tokens: the session domain (\<open>domain/identity/sessions\<close>), the use cases that
  rotate and revoke sessions (\<open>application/identity/sessions\<close>), the token service's claims
  (\<open>infrastructure/identity/jwt_token_service.py\<close>), the session table, the revocation cut-offs and
  the Redis blacklist. Signing and decoding of a JWT belong to simplejwt: an operation receives the
  claims of the presented token as simplejwt decoded them, or \<open>None\<close> where it raised
  \<open>TokenError\<close>. A UUID in a claim is the UUID itself. Times are microseconds; the claims \<open>iat\<close> and
  \<open>exp\<close> are seconds. A Redis key set with a time to live exists until that time has passed.
\<close>

section \<open>The session domain\<close>

datatype sess_exn =
    SessValueError string
  | MalformedRefreshToken string
  | RefreshTokenReuseDetected
  | TokenFamilyRevoked
  | SessionRevoked
  | SessionVersionMismatch
  | SessAuthenticationNotAllowed

record token_family =
  tf_id :: string
  tf_revoked :: bool

definition mk_token_family :: "string \<Rightarrow> bool \<Rightarrow> (sess_exn, token_family) res" where
  "mk_token_family i revoked =
     (if i = '''' \<or> py_strip i = '''' then Inl (SessValueError ''Token family id cannot be empty'')
      else Inr \<lparr>tf_id = i, tf_revoked = revoked\<rparr>)"

definition revoke_family :: "token_family \<Rightarrow> (sess_exn, token_family) res" where
  "revoke_family f = mk_token_family (tf_id f) True"

definition detect_replay :: "bool \<Rightarrow> token_family \<Rightarrow> bool" where
  "detect_replay token_already_used f = token_already_used"

definition mk_session_id :: "string \<Rightarrow> (sess_exn, string) res" where
  "mk_session_id s =
     (if s = '''' \<or> py_strip s = '''' then Inl (SessValueError ''Session id cannot be empty'') else Inr s)"

datatype session_status = SESSION_ACTIVE | SESSION_REVOKED

record identity_session =
  is_id :: uuid
  is_user_id :: uuid
  is_token_family :: token_family
  is_status :: session_status
  is_revoked_at :: "datetime option"
  is_revoked_reason :: "string option"

definition session_is_active :: "identity_session \<Rightarrow> bool" where
  "session_is_active s = (is_status s = SESSION_ACTIVE)"

definition revoke_session_object ::
  "string \<Rightarrow> datetime \<Rightarrow> identity_session \<Rightarrow> (sess_exn, identity_session) res" where
  "revoke_session_object reason now s =
     (if \<not> is_aware now then Inl (SessValueError ''Current time must be timezone-aware'')
      else res_bind (revoke_family (is_token_family s)) (\<lambda>f.
        Inr (s\<lparr>is_token_family := f, is_status := SESSION_REVOKED, is_revoked_at := Some now,
               is_revoked_reason := Some reason\<rparr>)))"

datatype refresh_rejection =
    REFRESH_REUSE_DETECTED | TOKEN_FAMILY_REVOKED | USER_SESSIONS_REVOKED | SESSION_VERSION_MISMATCH
  | USER_SIGNED_OUT

definition rejection_value :: "refresh_rejection \<Rightarrow> string" where
  "rejection_value r =
     (case r of REFRESH_REUSE_DETECTED \<Rightarrow> ''refresh_reuse_detected''
        | TOKEN_FAMILY_REVOKED \<Rightarrow> ''token_family_revoked''
        | USER_SESSIONS_REVOKED \<Rightarrow> ''user_sessions_revoked''
        | SESSION_VERSION_MISMATCH \<Rightarrow> ''session_version_mismatch''
        | USER_SIGNED_OUT \<Rightarrow> ''user_signed_out'')"

text \<open>\<open>RefreshTokenClaims\<close>, which extends \<open>RefreshTokenSnapshot\<close>.\<close>

record refresh_claims =
  rf_jti :: string
  rf_family :: token_family
  rf_session_id :: "uuid option"
  rf_user_id :: "uuid option"
  rf_issued_at :: "int option"
  rf_auth_token_version :: "int option"
  rf_expires_at :: int
  rf_role :: string
  rf_scope :: string
  rf_step_up :: bool

record rotation_decision =
  rd_allowed :: bool
  rd_blacklist_presented :: bool
  rd_revoke_family :: bool
  rd_touch_session :: bool
  rd_revoke_session :: bool
  rd_reason :: "refresh_rejection option"
  rd_error :: "sess_exn option"

definition evaluate_refresh_rotation ::
  "refresh_claims \<Rightarrow> bool \<Rightarrow> bool \<Rightarrow> bool \<Rightarrow> bool \<Rightarrow> rotation_decision" where
  "evaluate_refresh_rotation token already_used family_revoked user_sessions_revoked version_matches =
     (if detect_replay already_used (rf_family token) then
        \<lparr>rd_allowed = False, rd_blacklist_presented = False, rd_revoke_family = True,
         rd_touch_session = False, rd_revoke_session = True, rd_reason = Some REFRESH_REUSE_DETECTED,
         rd_error = Some RefreshTokenReuseDetected\<rparr>
      else if family_revoked \<or> tf_revoked (rf_family token) then
        \<lparr>rd_allowed = False, rd_blacklist_presented = True, rd_revoke_family = False,
         rd_touch_session = False, rd_revoke_session = True, rd_reason = Some TOKEN_FAMILY_REVOKED,
         rd_error = Some TokenFamilyRevoked\<rparr>
      else if user_sessions_revoked then
        \<lparr>rd_allowed = False, rd_blacklist_presented = False, rd_revoke_family = True,
         rd_touch_session = False, rd_revoke_session = True, rd_reason = Some USER_SESSIONS_REVOKED,
         rd_error = Some SessionRevoked\<rparr>
      else if \<not> version_matches then
        \<lparr>rd_allowed = False, rd_blacklist_presented = False, rd_revoke_family = True,
         rd_touch_session = False, rd_revoke_session = True, rd_reason = Some SESSION_VERSION_MISMATCH,
         rd_error = Some SessionVersionMismatch\<rparr>
      else
        \<lparr>rd_allowed = True, rd_blacklist_presented = True, rd_revoke_family = False,
         rd_touch_session = True, rd_revoke_session = False, rd_reason = None, rd_error = None\<rparr>)"

definition revoke_family_for_sign_out :: "refresh_claims \<Rightarrow> rotation_decision" where
  "revoke_family_for_sign_out token =
     \<lparr>rd_allowed = False, rd_blacklist_presented = True, rd_revoke_family = True,
      rd_touch_session = False, rd_revoke_session = True, rd_reason = Some USER_SIGNED_OUT,
      rd_error = None\<rparr>"

section \<open>The stores\<close>

record session_row =
  sr_id :: uuid
  sr_user_id :: uuid
  sr_token_family :: string
  sr_device_label :: string
  sr_user_agent_hash :: "string option"
  sr_ip_hash :: "string option"
  sr_created_at :: instant
  sr_last_seen_at :: instant
  sr_revoked_at :: "instant option"
  sr_revoked_reason :: string

record token_state =
  ts_user_id :: uuid
  ts_auth_token_version :: int
  ts_is_active :: bool

record session_world =
  sw_blacklist :: "(string \<times> instant) list"
  sw_families :: "(string \<times> instant) list"
  sw_cutoffs :: "(uuid \<times> int \<times> instant) list"
  sw_sessions :: "session_row list"
  sw_users :: "token_state list"

definition key_live :: "instant \<Rightarrow> 'k \<Rightarrow> ('k \<times> instant) list \<Rightarrow> bool" where
  "key_live now k s = (case map_of s k of None \<Rightarrow> False | Some until \<Rightarrow> now < until)"

definition is_blacklisted :: "instant \<Rightarrow> string \<Rightarrow> session_world \<Rightarrow> bool" where
  "is_blacklisted now jti w = key_live now jti (sw_blacklist w)"

definition blacklist :: "instant \<Rightarrow> string \<Rightarrow> int \<Rightarrow> session_world \<Rightarrow> session_world" where
  "blacklist now jti ttl w = w\<lparr>sw_blacklist := (jti, now + seconds ttl) # sw_blacklist w\<rparr>"

definition is_family_blacklisted :: "instant \<Rightarrow> string \<Rightarrow> session_world \<Rightarrow> bool" where
  "is_family_blacklisted now f w = key_live now f (sw_families w)"

definition blacklist_family :: "instant \<Rightarrow> string \<Rightarrow> session_world \<Rightarrow> session_world" where
  "blacklist_family now f w = w\<lparr>sw_families := (f, now + seconds (7 * 24 * 3600)) # sw_families w\<rparr>"

definition user_state :: "uuid option \<Rightarrow> session_world \<Rightarrow> token_state option" where
  "user_state user w = (case user of None \<Rightarrow> None | Some u \<Rightarrow> find (\<lambda>s. ts_user_id s = u) (sw_users w))"

definition bump_user_auth_token_version :: "uuid option \<Rightarrow> session_world \<Rightarrow> session_world" where
  "bump_user_auth_token_version user w =
     (case user of None \<Rightarrow> w
      | Some u \<Rightarrow> w\<lparr>sw_users := map (\<lambda>s. if ts_user_id s = u
          then s\<lparr>ts_auth_token_version := ts_auth_token_version s + 1\<rparr> else s) (sw_users w)\<rparr>)"

definition token_version_matches_user :: "uuid option \<Rightarrow> int option \<Rightarrow> session_world \<Rightarrow> bool" where
  "token_version_matches_user user version w =
     (case user_state user w of None \<Rightarrow> False | Some s \<Rightarrow> version = Some (ts_auth_token_version s))"

definition token_version_matches_active_user :: "uuid option \<Rightarrow> int option \<Rightarrow> session_world \<Rightarrow> bool" where
  "token_version_matches_active_user user version w =
     (case user_state user w of
          None \<Rightarrow> False
        | Some s \<Rightarrow> ts_is_active s \<and> version = Some (ts_auth_token_version s))"

text \<open>\<open>ttl\<close> is the refresh lifetime in whole seconds; the cut-off is a number of seconds.\<close>

definition revoke_user_sessions ::
  "instant \<Rightarrow> int \<Rightarrow> uuid option \<Rightarrow> bool \<Rightarrow> session_world \<Rightarrow> session_world" where
  "revoke_user_sessions now refresh_lifetime user bump w =
     (case user of None \<Rightarrow> w
      | Some u \<Rightarrow>
          let w = (if bump then bump_user_auth_token_version user w else w) in
          w\<lparr>sw_cutoffs := (u, now div 1000000, now + seconds (max refresh_lifetime 1)) # sw_cutoffs w\<rparr>)"

definition is_token_revoked_for_user :: "instant \<Rightarrow> uuid option \<Rightarrow> int option \<Rightarrow> session_world \<Rightarrow> bool" where
  "is_token_revoked_for_user now user issued_at w =
     (case (user, issued_at) of
          (Some u, Some iat) \<Rightarrow>
            (case map_of (sw_cutoffs w) u of
                 None \<Rightarrow> False
               | Some (cutoff, until) \<Rightarrow> now < until \<and> iat < cutoff)
        | _ \<Rightarrow> False)"

section \<open>The session table\<close>

definition session_filter :: "uuid option \<Rightarrow> string option \<Rightarrow> session_row \<Rightarrow> bool" where
  "session_filter sid family r =
     (sr_revoked_at r = None \<and> (case sid of None \<Rightarrow> True | Some i \<Rightarrow> sr_id r = i) \<and>
      (case family of None \<Rightarrow> True | Some f \<Rightarrow> f = '''' \<or> sr_token_family r = f))"

definition create_identity_session ::
  "instant \<Rightarrow> uuid \<Rightarrow> uuid \<Rightarrow> string \<Rightarrow> string option \<Rightarrow> string option \<Rightarrow> string option \<Rightarrow>
     session_world \<Rightarrow> session_world \<times> uuid" where
  "create_identity_session now new_id user family device_label agent ip w =
     (let given = (case device_label of None \<Rightarrow> '''' | Some l \<Rightarrow> l);
          stripped = py_strip (if given = '''' then ''Unknown device'' else given);
          label = (if stripped = '''' then ''Unknown device'' else stripped)
      in case find (\<lambda>r. sr_token_family r = family) (sw_sessions w) of
          Some r \<Rightarrow> (w, sr_id r)
        | None \<Rightarrow>
            (w\<lparr>sw_sessions := sw_sessions w @
                [\<lparr>sr_id = new_id, sr_user_id = user, sr_token_family = family, sr_device_label = label,
                  sr_user_agent_hash = agent, sr_ip_hash = ip, sr_created_at = now, sr_last_seen_at = now,
                  sr_revoked_at = None, sr_revoked_reason = ''''\<rparr>]\<rparr>, new_id))"

definition touch_identity_session ::
  "instant \<Rightarrow> uuid option \<Rightarrow> string option \<Rightarrow> session_world \<Rightarrow> session_world" where
  "touch_identity_session now sid family w =
     (if sid = None then w
      else w\<lparr>sw_sessions := map (\<lambda>r. if session_filter sid family r then r\<lparr>sr_last_seen_at := now\<rparr> else r)
             (sw_sessions w)\<rparr>)"

definition identity_session_is_active :: "uuid option \<Rightarrow> string option \<Rightarrow> session_world \<Rightarrow> bool" where
  "identity_session_is_active sid family w =
     (if sid = None then True else list_ex (session_filter sid family) (sw_sessions w))"

definition mark_revoked_row :: "instant \<Rightarrow> string \<Rightarrow> session_row \<Rightarrow> session_row" where
  "mark_revoked_row now reason r = r\<lparr>sr_revoked_at := Some now, sr_revoked_reason := take 255 reason\<rparr>"

definition revoke_identity_session ::
  "instant \<Rightarrow> uuid option \<Rightarrow> string option \<Rightarrow> string \<Rightarrow> session_world \<Rightarrow> session_world" where
  "revoke_identity_session now sid family reason w =
     (if sid = None \<and> (family = None \<or> family = Some '''') then w
      else w\<lparr>sw_sessions := map (\<lambda>r. if session_filter sid family r then mark_revoked_row now reason r else r)
             (sw_sessions w)\<rparr>)"

definition revoke_all_identity_sessions ::
  "instant \<Rightarrow> uuid \<Rightarrow> string \<Rightarrow> session_world \<Rightarrow> session_world \<times> nat" where
  "revoke_all_identity_sessions now user reason w =
     (let hit = (\<lambda>r. sr_user_id r = user \<and> sr_revoked_at r = None) in
      (w\<lparr>sw_sessions := map (\<lambda>r. if hit r then mark_revoked_row now reason r else r) (sw_sessions w)\<rparr>,
       length (filter hit (sw_sessions w))))"

text \<open>Newest first; \<open>to_domain_session\<close> of a row that is not revoked.\<close>

definition to_domain_session :: "session_row \<Rightarrow> identity_session" where
  "to_domain_session r =
     \<lparr>is_id = sr_id r, is_user_id = sr_user_id r,
      is_token_family = \<lparr>tf_id = sr_token_family r, tf_revoked = (sr_revoked_at r \<noteq> None)\<rparr>,
      is_status = (if sr_revoked_at r \<noteq> None then SESSION_REVOKED else SESSION_ACTIVE),
      is_revoked_at = map_option Aware (sr_revoked_at r),
      is_revoked_reason = (if sr_revoked_reason r = '''' then None else Some (sr_revoked_reason r))\<rparr>"

definition list_active_identity_sessions :: "uuid \<Rightarrow> session_world \<Rightarrow> identity_session list" where
  "list_active_identity_sessions user w =
     map to_domain_session
       (sort_key (\<lambda>r. - sr_last_seen_at r) (sort_key (\<lambda>r. - sr_created_at r)
          (filter (\<lambda>r. sr_user_id r = user \<and> sr_revoked_at r = None) (sw_sessions w))))"

section \<open>Token claims\<close>

text \<open>Settings: \<open>TOKEN_ENV\<close>, \<open>PAYMENT_ENV\<close> and \<open>ACCEPT_LEGACY_PAYMENT_ENV_TOKENS\<close>.\<close>

record token_settings =
  st_token_env :: string
  st_payment_env :: "string option"
  st_accept_legacy :: bool

definition identity_token_env :: "token_settings \<Rightarrow> (sess_exn, string) res" where
  "identity_token_env st =
     (let env = py_strip (st_token_env st) in
      if env = '''' then Inl (SessValueError ''TOKEN_ENV must be configured'') else Inr env)"

definition accepted_identity_token_env ::
  "token_settings \<Rightarrow> string option \<Rightarrow> (sess_exn, string option) res" where
  "accepted_identity_token_env st token_env =
     res_bind (identity_token_env st) (\<lambda>expected.
       if token_env = Some expected then Inr (Some expected)
       else if st_accept_legacy st \<and> st_payment_env st \<noteq> None \<and> st_payment_env st \<noteq> Some '''' \<and>
            token_env = st_payment_env st then Inr (Some expected)
       else Inr None)"

text \<open>The claims of a decoded refresh token; an absent claim is \<open>None\<close>.\<close>

record raw_refresh =
  rr_jti :: "string option"
  rr_family :: "string option"
  rr_env :: "string option"
  rr_user_id :: "uuid option"
  rr_session_id :: "uuid option"
  rr_iat :: "int option"
  rr_version :: "int option"
  rr_exp :: int
  rr_role :: string
  rr_scope :: string
  rr_step_up :: bool

definition inspect_refresh_token ::
  "token_settings \<Rightarrow> raw_refresh option \<Rightarrow> (sess_exn, refresh_claims) res" where
  "inspect_refresh_token st decoded =
     (case decoded of
          None \<Rightarrow> Inl (MalformedRefreshToken ''Invalid refresh token'')
        | Some t \<Rightarrow>
            if rr_jti t = None \<or> rr_jti t = Some '''' then Inl (MalformedRefreshToken ''Malformed refresh token'')
            else if rr_family t = None \<or> rr_family t = Some ''''
            then Inl (MalformedRefreshToken ''Malformed refresh token family'')
            else res_bind (accepted_identity_token_env st (rr_env t)) (\<lambda>env.
              if env = None then Inl (MalformedRefreshToken ''Token environment mismatch'')
              else res_bind (mk_token_family (the (rr_family t)) False) (\<lambda>family.
                Inr \<lparr>rf_jti = the (rr_jti t), rf_family = family, rf_session_id = rr_session_id t,
                     rf_user_id = rr_user_id t, rf_issued_at = rr_iat t,
                     rf_auth_token_version = rr_version t, rf_expires_at = rr_exp t,
                     rf_role = rr_role t, rf_scope = rr_scope t, rf_step_up = rr_step_up t\<rparr>)))"

text \<open>The claims written into a rotated refresh or access token; simplejwt adds the times.\<close>

record issued_token =
  it_user_id :: "uuid option"
  it_role :: string
  it_scope :: string
  it_env :: string
  it_step_up :: bool
  it_family :: string
  it_session_id :: "uuid option"
  it_jti :: string
  it_auth_token_version :: int

definition rotated_token ::
  "string \<Rightarrow> refresh_claims \<Rightarrow> string \<Rightarrow> int \<Rightarrow> issued_token" where
  "rotated_token env c jti version =
     \<lparr>it_user_id = rf_user_id c, it_role = rf_role c, it_scope = rf_scope c, it_env = env,
      it_step_up = rf_step_up c, it_family = tf_id (rf_family c), it_session_id = rf_session_id c,
      it_jti = jti, it_auth_token_version = version\<rparr>"

text \<open>
  The version in the bootstrap claims wins over the one of the presented token
  (\<open>_apply_auth_token_version\<close>); bootstrap claims read from the user table always have one.
\<close>

definition issue_rotated_pair ::
  "token_settings \<Rightarrow> refresh_claims \<Rightarrow> string \<Rightarrow> string \<Rightarrow> int \<Rightarrow> (sess_exn, issued_token \<times> issued_token) res" where
  "issue_rotated_pair st c access_jti refresh_jti bootstrap_version =
     res_bind (identity_token_env st) (\<lambda>env.
       Inr (rotated_token env c access_jti bootstrap_version, rotated_token env c refresh_jti bootstrap_version))"

section \<open>Use cases\<close>

definition remaining_ttl :: "instant \<Rightarrow> refresh_claims \<Rightarrow> int" where
  "remaining_ttl now c = max ((seconds (rf_expires_at c) - now) div 1000000) 1"

definition apply_refresh_decision ::
  "instant \<Rightarrow> rotation_decision \<Rightarrow> refresh_claims \<Rightarrow> session_world \<Rightarrow> session_world" where
  "apply_refresh_decision now d c w =
     (let w = (if rd_blacklist_presented d then blacklist now (rf_jti c) (remaining_ttl now c) w else w);
          w = (if rd_revoke_family d then blacklist_family now (tf_id (rf_family c)) w else w);
          w = (if rd_touch_session d
               then touch_identity_session now (rf_session_id c) (Some (tf_id (rf_family c))) w else w)
      in case rd_reason d of
          Some reason \<Rightarrow>
            if rd_revoke_session d
            then revoke_identity_session now (rf_session_id c) (Some (tf_id (rf_family c)))
                   (rejection_value reason) w
            else w
        | None \<Rightarrow> w)"

definition rejection_error :: "rotation_decision \<Rightarrow> sess_exn" where
  "rejection_error d = (case rd_error d of Some e \<Rightarrow> e | None \<Rightarrow> SessionRevoked)"

text \<open>The token version of the bootstrap claims of an active user.\<close>

definition get_bootstrap_claims :: "uuid option \<Rightarrow> session_world \<Rightarrow> int option" where
  "get_bootstrap_claims user w =
     (case user_state user w of
          Some s \<Rightarrow> if ts_is_active s then Some (ts_auth_token_version s) else None
        | None \<Rightarrow> None)"

text \<open>\<open>RefreshSessionUseCase.execute\<close>; the two identifiers are those \<open>TokenFamily.rotate\<close> draws.\<close>

definition refresh_session ::
  "token_settings \<Rightarrow> instant \<Rightarrow> string \<Rightarrow> string \<Rightarrow> raw_refresh option \<Rightarrow> session_world \<Rightarrow>
     session_world \<times> (sess_exn, issued_token \<times> issued_token) res" where
  "refresh_session st now access_jti refresh_jti decoded w =
     (case inspect_refresh_token st decoded of
          Inl e \<Rightarrow> (w, Inl e)
        | Inr c \<Rightarrow>
            let d = evaluate_refresh_rotation c
                  (is_blacklisted now (rf_jti c) w)
                  (is_family_blacklisted now (tf_id (rf_family c)) w)
                  (is_token_revoked_for_user now (rf_user_id c) (rf_issued_at c) w)
                  (token_version_matches_active_user (rf_user_id c) (rf_auth_token_version c) w);
                w' = apply_refresh_decision now d c w
            in if \<not> rd_allowed d then (w', Inl (rejection_error d))
               else case get_bootstrap_claims (rf_user_id c) w' of
                   None \<Rightarrow> (w', Inl SessAuthenticationNotAllowed)
                 | Some v \<Rightarrow> (w', issue_rotated_pair st c access_jti refresh_jti v))"

definition revoke_current_session ::
  "token_settings \<Rightarrow> instant \<Rightarrow> raw_refresh option \<Rightarrow> session_world \<Rightarrow> session_world \<times> (sess_exn, unit) res" where
  "revoke_current_session st now decoded w =
     (case inspect_refresh_token st decoded of
          Inl e \<Rightarrow> (w, Inl e)
        | Inr c \<Rightarrow> (apply_refresh_decision now (revoke_family_for_sign_out c) c w, Inr ()))"

definition revoke_session ::
  "instant \<Rightarrow> uuid \<Rightarrow> uuid \<Rightarrow> string \<Rightarrow> session_world \<Rightarrow> session_world \<times> nat" where
  "revoke_session now user sid reason w =
     (case find (\<lambda>s. is_id s = sid) (list_active_identity_sessions user w) of
          None \<Rightarrow> (w, 0)
        | Some s \<Rightarrow>
            (revoke_identity_session now (Some sid) (Some (tf_id (is_token_family s))) reason
               (blacklist_family now (tf_id (is_token_family s)) w), 1))"

fun revoke_others_loop ::
  "instant \<Rightarrow> uuid \<Rightarrow> string \<Rightarrow> identity_session list \<Rightarrow> session_world \<times> nat \<Rightarrow> session_world \<times> nat" where
  "revoke_others_loop now current reason [] p = p"
| "revoke_others_loop now current reason (s # ss) (w, n) =
     (if is_id s = current then revoke_others_loop now current reason ss (w, n)
      else revoke_others_loop now current reason ss
        (revoke_identity_session now (Some (is_id s)) (Some (tf_id (is_token_family s))) reason
           (blacklist_family now (tf_id (is_token_family s)) w), Suc n))"

definition revoke_other_sessions ::
  "instant \<Rightarrow> uuid \<Rightarrow> uuid \<Rightarrow> string \<Rightarrow> session_world \<Rightarrow> session_world \<times> nat" where
  "revoke_other_sessions now user current reason w =
     revoke_others_loop now current reason (list_active_identity_sessions user w) (w, 0)"

definition revoke_all_sessions ::
  "instant \<Rightarrow> uuid \<Rightarrow> string \<Rightarrow> session_world \<Rightarrow> session_world \<times> nat" where
  "revoke_all_sessions now user reason w =
     revoke_all_identity_sessions now user reason
       (fold (\<lambda>s. blacklist_family now (tf_id (is_token_family s))) (list_active_identity_sessions user w) w)"

record active_session_dto =
  as_session_id :: uuid
  as_token_family :: string
  as_is_current :: bool

definition list_active_sessions :: "uuid \<Rightarrow> uuid option \<Rightarrow> session_world \<Rightarrow> active_session_dto list" where
  "list_active_sessions user current w =
     map (\<lambda>s. \<lparr>as_session_id = is_id s, as_token_family = tf_id (is_token_family s),
                as_is_current = (current = Some (is_id s))\<rparr>)
       (list_active_identity_sessions user w)"

text \<open>Opening a session and issuing its first tokens (\<open>AuthenticatedSessionIssuer\<close>).\<close>

definition issue_authenticated_tokens ::
  "token_settings \<Rightarrow> instant \<Rightarrow> uuid \<Rightarrow> string \<Rightarrow> string \<Rightarrow> string \<Rightarrow> uuid \<Rightarrow> string \<Rightarrow> int \<Rightarrow>
     session_world \<Rightarrow> session_world \<times> (sess_exn, issued_token \<times> issued_token) res" where
  "issue_authenticated_tokens st now new_id family access_jti refresh_jti user role version w =
     (let (w', sid) = create_identity_session now new_id user family None None None w in
      (w', res_bind (identity_token_env st) (\<lambda>env.
        let token = (\<lambda>jti. \<lparr>it_user_id = Some user, it_role = role, it_scope = '''', it_env = env,
          it_step_up = False, it_family = family, it_session_id = Some sid, it_jti = jti,
          it_auth_token_version = version\<rparr>)
        in Inr (token access_jti, token refresh_jti))))"

section \<open>Histories of sessions\<close>

text \<open>\<open>SUsers\<close> is any change of the user table by the account component.\<close>

datatype sess_op =
    SRefresh string string "raw_refresh option"
  | SSignOut "raw_refresh option"
  | SRevoke uuid uuid string
  | SRevokeOthers uuid uuid string
  | SRevokeAll uuid string
  | SCutoff int "uuid option" bool
  | SOpen uuid string string string uuid string int
  | SUsers "token_state list"

fun sess_step :: "token_settings \<Rightarrow> instant \<times> sess_op \<Rightarrow> session_world \<Rightarrow> session_world" where
  "sess_step st (t, SRefresh a r raw) w = fst (refresh_session st t a r raw w)"
| "sess_step st (t, SSignOut raw) w = fst (revoke_current_session st t raw w)"
| "sess_step st (t, SRevoke u s reason) w = fst (revoke_session t u s reason w)"
| "sess_step st (t, SRevokeOthers u s reason) w = fst (revoke_other_sessions t u s reason w)"
| "sess_step st (t, SRevokeAll u reason) w = fst (revoke_all_sessions t u reason w)"
| "sess_step st (t, SCutoff lifetime u bump) w = revoke_user_sessions t lifetime u bump w"
| "sess_step st (t, SOpen i f a r u role v) w = fst (issue_authenticated_tokens st t i f a r u role v w)"
| "sess_step st (t, SUsers us) w = w\<lparr>sw_users := us\<rparr>"

text \<open>The times at which a refresh token whose claims satisfy \<open>P\<close> is accepted.\<close>

definition accepts :: "token_settings \<Rightarrow> (refresh_claims \<Rightarrow> bool) \<Rightarrow> instant \<times> sess_op \<Rightarrow> session_world \<Rightarrow> bool" where
  "accepts st P x w =
     (case snd x of
        SRefresh a r raw \<Rightarrow>
          (case inspect_refresh_token st raw of
               Inl _ \<Rightarrow> False
             | Inr c \<Rightarrow> P c \<and> is_ok (snd (refresh_session st (fst x) a r raw w)))
      | _ \<Rightarrow> False)"

fun accepted_times ::
  "token_settings \<Rightarrow> (refresh_claims \<Rightarrow> bool) \<Rightarrow> (instant \<times> sess_op) list \<Rightarrow> session_world \<Rightarrow> instant list" where
  "accepted_times st P [] w = []"
| "accepted_times st P (x # xs) w =
     (if accepts st P x w then [fst x] else []) @ accepted_times st P xs (sess_step st x w)"

text \<open>The expiry a token carries is signed with its \<open>jti\<close>.\<close>

definition jti_expires :: "string \<Rightarrow> int \<Rightarrow> instant \<times> sess_op \<Rightarrow> bool" where
  "jti_expires j e x =
     (case snd x of
        SRefresh _ _ (Some t) \<Rightarrow> (rr_jti t = Some j \<longrightarrow> rr_exp t = e)
      | SSignOut (Some t) \<Rightarrow> (rr_jti t = Some j \<longrightarrow> rr_exp t = e)
      | _ \<Rightarrow> True)"

subsection \<open>Frames\<close>

lemma session_frames [simp]:
  "sw_blacklist (touch_identity_session now s f w) = sw_blacklist w"
  "sw_families (touch_identity_session now s f w) = sw_families w"
  "sw_users (touch_identity_session now s f w) = sw_users w"
  "sw_blacklist (revoke_identity_session now s f reason w) = sw_blacklist w"
  "sw_families (revoke_identity_session now s f reason w) = sw_families w"
  "sw_users (revoke_identity_session now s f reason w) = sw_users w"
  "sw_blacklist (blacklist_family now g w) = sw_blacklist w"
  "sw_families (blacklist_family now g w) = (g, now + seconds 604800) # sw_families w"
  "sw_users (blacklist_family now g w) = sw_users w"
  "sw_families (blacklist now j ttl w) = sw_families w"
  "sw_blacklist (blacklist now j ttl w) = (j, now + seconds ttl) # sw_blacklist w"
  "sw_users (blacklist now j ttl w) = sw_users w"
  by (simp_all add: touch_identity_session_def revoke_identity_session_def blacklist_family_def blacklist_def)

lemma apply_blacklist:
  "sw_blacklist (apply_refresh_decision now d c w) =
     (if rd_blacklist_presented d then [(rf_jti c, now + seconds (remaining_ttl now c))] else []) @ sw_blacklist w"
  "sw_families (apply_refresh_decision now d c w) =
     (if rd_revoke_family d then [(tf_id (rf_family c), now + seconds 604800)] else []) @ sw_families w"
  "sw_users (apply_refresh_decision now d c w) = sw_users w"
  by (simp_all add: apply_refresh_decision_def Let_def split: option.splits)

lemma refresh_world:
  "fst (refresh_session st now a r raw w) =
     (case inspect_refresh_token st raw of
          Inl _ \<Rightarrow> w
        | Inr c \<Rightarrow> apply_refresh_decision now
            (evaluate_refresh_rotation c (is_blacklisted now (rf_jti c) w)
               (is_family_blacklisted now (tf_id (rf_family c)) w)
               (is_token_revoked_for_user now (rf_user_id c) (rf_issued_at c) w)
               (token_version_matches_active_user (rf_user_id c) (rf_auth_token_version c) w)) c w)"
  by (auto simp: refresh_session_def Let_def split: sum.splits option.splits)

lemma refresh_ok:
  assumes "inspect_refresh_token st raw = Inr c" "is_ok (snd (refresh_session st now a r raw w))"
  shows "\<not> is_blacklisted now (rf_jti c) w" "\<not> is_family_blacklisted now (tf_id (rf_family c)) w"
    "token_version_matches_active_user (rf_user_id c) (rf_auth_token_version c) w"
    "\<not> is_token_revoked_for_user now (rf_user_id c) (rf_issued_at c) w"
    "(rf_jti c, now + seconds (remaining_ttl now c)) \<in> set (sw_blacklist (fst (refresh_session st now a r raw w)))"
  using assms
  by (auto simp: refresh_session_def Let_def evaluate_refresh_rotation_def detect_replay_def apply_blacklist
      split: if_splits option.splits)

lemma revoke_others_frame:
  "sw_blacklist (fst (revoke_others_loop now c reason ss p)) = sw_blacklist (fst p)"
  by (induction now c reason ss p rule: revoke_others_loop.induct) auto

lemma fold_families:
  "sw_blacklist (fold (\<lambda>s. blacklist_family now (g s)) ss w) = sw_blacklist w"
  "sw_families (fold (\<lambda>s. blacklist_family now (g s)) ss w) =
     rev (map (\<lambda>s. (g s, now + seconds 604800)) ss) @ sw_families w"
  by (induction ss arbitrary: w) auto

lemma revoke_others_families:
  "\<exists>fs. sw_families (fst (revoke_others_loop now c reason ss p)) =
     map (\<lambda>f. (f, now + seconds 604800)) fs @ sw_families (fst p)"
proof (induction now c reason ss p rule: revoke_others_loop.induct)
  case (2 now current reason s ss w n)
  show ?case
  proof (cases "is_id s = current")
    case True
    with 2(1) show ?thesis by simp
  next
    case False
    from 2(2) [OF False] obtain fs where
      "sw_families (fst (revoke_others_loop now current reason (s # ss) (w, n))) =
         map (\<lambda>f. (f, now + seconds 604800)) fs @ (tf_id (is_token_family s), now + seconds 604800) # sw_families w"
      using False by auto
    then show ?thesis by (intro exI [of _ "fs @ [tf_id (is_token_family s)]"]) simp
  qed
qed (simp add: exI [of _ "[]"])

lemma other_frames [simp]:
  "sw_blacklist (fst (revoke_session t u s reason w)) = sw_blacklist w"
  "sw_blacklist (fst (revoke_other_sessions t u s reason w)) = sw_blacklist w"
  "sw_blacklist (fst (revoke_all_sessions t u reason w)) = sw_blacklist w"
  "sw_blacklist (revoke_user_sessions t l x b w) = sw_blacklist w"
  "sw_families (revoke_user_sessions t l x b w) = sw_families w"
  "sw_blacklist (fst (issue_authenticated_tokens st t i f a r v role n w)) = sw_blacklist w"
  "sw_families (fst (issue_authenticated_tokens st t i f a r v role n w)) = sw_families w"
  by (auto simp: revoke_session_def revoke_other_sessions_def revoke_others_frame revoke_all_sessions_def
      revoke_all_identity_sessions_def fold_families revoke_user_sessions_def bump_user_auth_token_version_def
      issue_authenticated_tokens_def create_identity_session_def Let_def split: option.splits prod.splits)

text \<open>Every operation extends the two blacklists; what it adds is bounded below.\<close>

lemma blacklist_grows:
  "\<exists>new. sw_blacklist (sess_step st x w) = new @ sw_blacklist w \<and>
     (\<forall>j e. jti_expires j e x \<longrightarrow> (\<forall>until. (j, until) \<in> set new \<longrightarrow> seconds (e - 1) < until))"
proof -
  have ttl: "seconds (rf_expires_at c - 1) < t + seconds (remaining_ttl t c)" for t c
  proof -
    define y where "y = seconds (rf_expires_at c) - t"
    have "y div 1000000 \<le> remaining_ttl t c" by (simp add: remaining_ttl_def y_def)
    moreover have "y - 1000000 < (y div 1000000) * 1000000"
      using div_mult_mod_eq [of y 1000000] pos_mod_bound [of 1000000 y] by simp
    ultimately have "y - 1000000 < remaining_ttl t c * 1000000" by simp
    then show ?thesis by (simp add: y_def seconds_def algebra_simps)
  qed
  have claims: "rr_jti raw = Some (rf_jti c) \<and> rr_exp raw = rf_expires_at c"
    if "inspect_refresh_token st (Some raw) = Inr c" for raw c
    using that by (auto simp: inspect_refresh_token_def res_simps mk_token_family_def split: if_splits)
  obtain t op where x: "x = (t, op)" by (cases x)
  show ?thesis
  proof (cases op)
    case (SRefresh a r raw)
    show ?thesis
    proof (cases "inspect_refresh_token st raw")
      case (Inl e)
      then show ?thesis by (simp add: x SRefresh refresh_world)
    next
      case (Inr c)
      then obtain tok where raw: "raw = Some tok" by (cases raw) (auto simp: inspect_refresh_token_def)
      with Inr claims have "rr_jti tok = Some (rf_jti c)" "rr_exp tok = rf_expires_at c" by blast+
      with Inr raw show ?thesis
        by (auto simp: x SRefresh refresh_world apply_blacklist jti_expires_def ttl)
    qed
  next
    case (SSignOut raw)
    show ?thesis
    proof (cases "inspect_refresh_token st raw")
      case (Inl e)
      then show ?thesis by (simp add: x SSignOut revoke_current_session_def)
    next
      case (Inr c)
      then obtain tok where raw: "raw = Some tok" by (cases raw) (auto simp: inspect_refresh_token_def)
      with Inr claims have "rr_jti tok = Some (rf_jti c)" "rr_exp tok = rf_expires_at c" by blast+
      with Inr raw show ?thesis
        by (auto simp: x SSignOut revoke_current_session_def apply_blacklist jti_expires_def ttl)
    qed
  qed (simp_all add: x)
qed

lemma families_grow:
  "\<exists>new. sw_families (sess_step st (t, op) w) = map (\<lambda>f. (f, t + seconds 604800)) new @ sw_families w"
proof (cases op)
  case (SRefresh a r raw)
  show ?thesis
  proof (cases "inspect_refresh_token st raw")
    case (Inr c)
    then show ?thesis
      by (auto simp: SRefresh refresh_world apply_blacklist intro: exI [of _ "[]"] exI [of _ "[tf_id (rf_family c)]"])
  qed (auto simp: SRefresh refresh_world intro: exI [of _ "[]"])
next
  case (SSignOut raw)
  show ?thesis
  proof (cases "inspect_refresh_token st raw")
    case (Inr c)
    then show ?thesis
      by (auto simp: SSignOut revoke_current_session_def apply_blacklist
          intro: exI [of _ "[]"] exI [of _ "[tf_id (rf_family c)]"])
  qed (auto simp: SSignOut revoke_current_session_def intro: exI [of _ "[]"])
next
  case (SRevoke u s reason)
  then show ?thesis
    by (auto simp: revoke_session_def split: option.splits intro: exI [of _ "[]"] exI [of _ "[g]" for g])
next
  case (SRevokeOthers u s reason)
  then show ?thesis
    using revoke_others_families [of t s reason _ "(w, 0)"] by (simp add: revoke_other_sessions_def)
next
  case (SRevokeAll u reason)
  then show ?thesis
    by (intro exI [of _ "rev (map (\<lambda>s. tf_id (is_token_family s)) (list_active_identity_sessions u w))"])
       (simp add: revoke_all_sessions_def revoke_all_identity_sessions_def Let_def fold_families rev_map comp_def)
qed (auto intro: exI [of _ "[]"])

subsection \<open>A refresh token is used once\<close>

text \<open>The presented token identifier is blocked until less than a second before its expiry.\<close>

definition jti_blocked :: "string \<Rightarrow> int \<Rightarrow> session_world \<Rightarrow> bool" where
  "jti_blocked j e w = (\<exists>until. map_of (sw_blacklist w) j = Some until \<and> seconds (e - 1) < until)"

lemma blocked_step:
  assumes "jti_blocked j e w" "jti_expires j e x"
  shows "jti_blocked j e (sess_step st x w)"
proof -
  from blacklist_grows [of st x w] obtain new where
    new: "sw_blacklist (sess_step st x w) = new @ sw_blacklist w"
    and late: "\<And>until. (j, until) \<in> set new \<Longrightarrow> seconds (e - 1) < until"
    using assms(2) by blast
  show ?thesis
  proof (cases "map_of new j")
    case None
    with assms(1) new show ?thesis by (simp add: jti_blocked_def map_add_def)
  next
    case (Some until)
    then have "(j, until) \<in> set new" by (rule map_of_SomeD)
    with Some new late show ?thesis by (simp add: jti_blocked_def map_add_def)
  qed
qed

lemma blocked_not_accepted:
  assumes "jti_blocked j e w" "accepts st (\<lambda>c. rf_jti c = j) x w"
  shows "seconds (e - 1) \<le> fst x"
proof -
  obtain t op where x: "x = (t, op)" by (cases x)
  from assms(2) obtain a r raw c where op: "op = SRefresh a r raw" "inspect_refresh_token st raw = Inr c"
    "rf_jti c = j" "is_ok (snd (refresh_session st t a r raw w))"
    by (auto simp: accepts_def x split: sess_op.splits sum.splits)
  with refresh_ok(1) [OF op(2,4)] assms(1) show ?thesis
    by (auto simp: is_blacklisted_def key_live_def jti_blocked_def x)
qed

lemma accepted_blocks:
  assumes "accepts st (\<lambda>c. rf_jti c = j) x w" "jti_expires j e x"
  shows "jti_blocked j e (sess_step st x w)"
proof -
  obtain t op where x: "x = (t, op)" by (cases x)
  from assms(1) obtain a r raw c where op: "op = SRefresh a r raw" "inspect_refresh_token st raw = Inr c"
    "rf_jti c = j" "is_ok (snd (refresh_session st t a r raw w))"
    by (auto simp: accepts_def x split: sess_op.splits sum.splits)
  from blacklist_grows [of st x w] obtain new where
    new: "sw_blacklist (sess_step st x w) = new @ sw_blacklist w"
    and late: "\<And>until. (j, until) \<in> set new \<Longrightarrow> seconds (e - 1) < until"
    using assms(2) by blast
  have "sw_blacklist (sess_step st x w) = [(rf_jti c, t + seconds (remaining_ttl t c))] @ sw_blacklist w"
    using op refresh_ok [OF op(2,4)]
    by (auto simp: x refresh_session_def Let_def evaluate_refresh_rotation_def detect_replay_def apply_blacklist
        split: if_splits option.splits)
  with new have "new = [(j, t + seconds (remaining_ttl t c))]"
    using op(3) by (metis append_same_eq)
  with new late show ?thesis by (simp add: jti_blocked_def)
qed

lemma blocked_history:
  "jti_blocked j e w \<Longrightarrow> list_all (jti_expires j e) ops \<Longrightarrow>
     filter (\<lambda>t. t < seconds (e - 1)) (accepted_times st (\<lambda>c. rf_jti c = j) ops w) = []"
proof (induction ops arbitrary: w)
  case (Cons x xs)
  have "filter (\<lambda>t. t < seconds (e - 1)) (accepted_times st (\<lambda>c. rf_jti c = j) xs (sess_step st x w)) = []"
    using Cons.prems by (intro Cons.IH) (simp_all add: blocked_step)
  then show ?case
    using blocked_not_accepted [OF Cons.prems(1), of st x] by auto
qed simp

text \<open>C4. In any history of refreshes, sign-outs, revocations, openings of sessions and changes of
  accounts, a refresh token is accepted at most once, counting the presentations until one second
  before its expiry.\<close>

theorem refresh_token_single_use:
  assumes "list_all (jti_expires j e) ops"
  shows "length (filter (\<lambda>t. t < seconds (e - 1)) (accepted_times st (\<lambda>c. rf_jti c = j) ops w)) \<le> 1"
  using assms
proof (induction ops arbitrary: w)
  case (Cons x xs)
  show ?case
  proof (cases "accepts st (\<lambda>c. rf_jti c = j) x w")
    case True
    then have "jti_blocked j e (sess_step st x w)"
      using Cons.prems by (intro accepted_blocks) auto
    with Cons.prems have
      "filter (\<lambda>t. t < seconds (e - 1)) (accepted_times st (\<lambda>c. rf_jti c = j) xs (sess_step st x w)) = []"
      by (intro blocked_history) auto
    then show ?thesis by simp
  next
    case False
    with Cons show ?thesis by simp
  qed
qed simp

definition sample_settings :: token_settings where
  "sample_settings = \<lparr>st_token_env = ''prod'', st_payment_env = None, st_accept_legacy = False\<rparr>"

definition sample_refresh :: raw_refresh where
  "sample_refresh = \<lparr>rr_jti = Some ''j'', rr_family = Some ''f'', rr_env = Some ''prod'',
     rr_user_id = Some 1, rr_session_id = Some 2, rr_iat = Some 0, rr_version = Some 3, rr_exp = 1000,
     rr_role = ''planner'', rr_scope = '''', rr_step_up = False\<rparr>"

definition sample_sessions :: session_world where
  "sample_sessions = \<lparr>sw_blacklist = [], sw_families = [], sw_cutoffs = [],
     sw_sessions = [\<lparr>sr_id = 2, sr_user_id = 1, sr_token_family = ''f'', sr_device_label = ''d'',
       sr_user_agent_hash = None, sr_ip_hash = None, sr_created_at = 0, sr_last_seen_at = 0,
       sr_revoked_at = None, sr_revoked_reason = ''''\<rparr>],
     sw_users = [\<lparr>ts_user_id = 1, ts_auth_token_version = 3, ts_is_active = True\<rparr>]\<rparr>"

definition sample_claims :: refresh_claims where
  "sample_claims = \<lparr>rf_jti = ''j'', rf_family = \<lparr>tf_id = ''f'', tf_revoked = False\<rparr>, rf_session_id = Some 2,
     rf_user_id = Some 1, rf_issued_at = Some 0, rf_auth_token_version = Some 3, rf_expires_at = 1000,
     rf_role = ''planner'', rf_scope = '''', rf_step_up = False\<rparr>"

lemma sample_inspect: "inspect_refresh_token sample_settings (Some sample_refresh) = Inr sample_claims"
  by (simp add: inspect_refresh_token_def sample_settings_def sample_refresh_def sample_claims_def
      accepted_identity_token_env_def identity_token_env_def mk_token_family_def py_strip_def is_space_def code_def)

lemma refresh_token_single_use_witness:
  "length (filter (\<lambda>t. t < seconds (1000 - 1)) (accepted_times sample_settings (\<lambda>c. rf_jti c = ''j'')
     [(500, SRefresh ''a'' ''r'' (Some sample_refresh)), (600, SRefresh ''a'' ''r'' (Some sample_refresh))]
     sample_sessions)) \<le> 1"
  by (rule refresh_token_single_use) (simp add: jti_expires_def sample_refresh_def)

text \<open>The time to live of the blacklist entry is rounded down to whole seconds, so the block ends
  before the token does: a token first used half a second past a full second is accepted again in
  the last half second of its life, and the reuse goes undetected.\<close>

theorem refresh_replay_in_last_second:
  "accepted_times sample_settings (\<lambda>c. rf_jti c = ''j'')
     [(seconds 990 + 500000, SRefresh ''a1'' ''r1'' (Some sample_refresh)),
      (seconds 999 + 700000, SRefresh ''a2'' ''r2'' (Some sample_refresh))] sample_sessions =
   [seconds 990 + 500000, seconds 999 + 700000]"
proof -
  define w1 where "w1 = sample_sessions\<lparr>sw_blacklist := [(''j'', 999500000)],
     sw_sessions := map (\<lambda>r. r\<lparr>sr_last_seen_at := 990500000\<rparr>) (sw_sessions sample_sessions)\<rparr>"
  note eval = refresh_session_def sample_inspect Let_def evaluate_refresh_rotation_def detect_replay_def
    is_blacklisted_def is_family_blacklisted_def key_live_def is_token_revoked_for_user_def
    token_version_matches_active_user_def user_state_def get_bootstrap_claims_def issue_rotated_pair_def
    identity_token_env_def apply_refresh_decision_def remaining_ttl_def blacklist_def
    touch_identity_session_def session_filter_def time_units sample_settings_def py_strip_def is_space_def code_def
  have first: "refresh_session sample_settings 990500000 ''a1'' ''r1'' (Some sample_refresh) sample_sessions =
      (w1, Inr (rotated_token ''prod'' sample_claims ''a1'' 3, rotated_token ''prod'' sample_claims ''r1'' 3))"
    unfolding w1_def
    by (simp add: refresh_session_def sample_inspect)
       (simp add: eval sample_sessions_def sample_claims_def)
  have second: "is_ok (snd (refresh_session sample_settings 999700000 ''a2'' ''r2'' (Some sample_refresh) w1))"
    unfolding w1_def
    by (simp add: refresh_session_def sample_inspect)
       (simp add: eval sample_sessions_def sample_claims_def)
  show ?thesis
    using first second
    by (simp add: accepts_def time_units sample_inspect) (simp add: sample_claims_def)
qed

subsection \<open>A revoked family stays revoked\<close>

definition family_blocked :: "string \<Rightarrow> instant \<Rightarrow> session_world \<Rightarrow> bool" where
  "family_blocked f deadline w = (\<exists>until. map_of (sw_families w) f = Some until \<and> deadline \<le> until)"

lemma family_blocked_step:
  assumes "family_blocked f (t0 + days 7) w" "t0 \<le> fst x"
  shows "family_blocked f (t0 + days 7) (sess_step st x w)"
proof -
  obtain t op where x: "x = (t, op)" by (cases x)
  from families_grow [of st t op w] obtain new where
    new: "sw_families (sess_step st x w) = map (\<lambda>f. (f, t + seconds 604800)) new @ sw_families w"
    by (auto simp: x)
  show ?thesis
  proof (cases "map_of (map (\<lambda>f. (f, t + seconds 604800)) new) f")
    case None
    with assms(1) new show ?thesis by (simp add: family_blocked_def map_add_def)
  next
    case (Some until)
    then have "until = t + seconds 604800" by (auto dest: map_of_SomeD)
    with Some new assms(2) show ?thesis
      by (simp add: family_blocked_def map_add_def time_units x)
  qed
qed

lemma family_blocked_history:
  "family_blocked f (t0 + days 7) w \<Longrightarrow> list_all (\<lambda>x. t0 \<le> fst x) ops \<Longrightarrow>
     list_all (\<lambda>t. t0 + days 7 \<le> t) (accepted_times st (\<lambda>c. tf_id (rf_family c) = f) ops w)"
proof (induction ops arbitrary: w)
  case (Cons x xs)
  have "t0 + days 7 \<le> fst x" if "accepts st (\<lambda>c. tf_id (rf_family c) = f) x w"
  proof -
    obtain t op where x: "x = (t, op)" by (cases x)
    from that obtain a r raw c where op: "inspect_refresh_token st raw = Inr c" "tf_id (rf_family c) = f"
      "is_ok (snd (refresh_session st t a r raw w))"
      by (auto simp: accepts_def x split: sess_op.splits sum.splits)
    with refresh_ok(2) [OF op(1,3)] Cons.prems(1) show ?thesis
      by (auto simp: is_family_blacklisted_def key_live_def family_blocked_def x)
  qed
  moreover have "list_all (\<lambda>t. t0 + days 7 \<le> t) (accepted_times st (\<lambda>c. tf_id (rf_family c) = f) xs (sess_step st x w))"
    using Cons.prems by (intro Cons.IH family_blocked_step) auto
  ultimately show ?case by simp
qed simp

text \<open>A sign-out, or a refresh refused because the token was already used, its sessions were revoked
  or its version is stale.\<close>

definition ends_family :: "token_settings \<Rightarrow> instant \<times> sess_op \<Rightarrow> string \<Rightarrow> session_world \<Rightarrow> bool" where
  "ends_family st x f w =
     (case snd x of
        SRefresh a r raw \<Rightarrow>
          (case inspect_refresh_token st raw of
               Inl _ \<Rightarrow> False
             | Inr c \<Rightarrow> tf_id (rf_family c) = f \<and>
                 snd (refresh_session st (fst x) a r raw w) \<in>
                   {Inl RefreshTokenReuseDetected, Inl SessionRevoked, Inl SessionVersionMismatch})
      | SSignOut raw \<Rightarrow>
          (case inspect_refresh_token st raw of Inl _ \<Rightarrow> False | Inr c \<Rightarrow> tf_id (rf_family c) = f)
      | _ \<Rightarrow> False)"

lemma ends_family_blocks:
  assumes "ends_family st x f w"
  shows "family_blocked f (fst x + days 7) (sess_step st x w)"
proof -
  obtain t op where x: "x = (t, op)" by (cases x)
  show ?thesis
  proof (cases op)
    case (SRefresh a r raw)
    with assms obtain c where c: "inspect_refresh_token st raw = Inr c" "tf_id (rf_family c) = f"
      "snd (refresh_session st t a r raw w) \<in>
         {Inl RefreshTokenReuseDetected, Inl SessionRevoked, Inl SessionVersionMismatch}"
      by (auto simp: ends_family_def x split: sum.splits)
    then have "sw_families (fst (refresh_session st t a r raw w)) = (f, t + seconds 604800) # sw_families w"
      by (auto simp: refresh_session_def Let_def evaluate_refresh_rotation_def apply_blacklist rejection_error_def
          issue_rotated_pair_def identity_token_env_def split: if_splits option.splits)
    then show ?thesis by (simp add: x SRefresh family_blocked_def time_units)
  next
    case (SSignOut raw)
    with assms obtain c where c: "inspect_refresh_token st raw = Inr c" "tf_id (rf_family c) = f"
      by (auto simp: ends_family_def x split: sum.splits)
    then show ?thesis
      by (simp add: x SSignOut family_blocked_def revoke_current_session_def revoke_family_for_sign_out_def
          apply_blacklist time_units)
  qed (use assms in \<open>simp_all add: ends_family_def x\<close>)
qed

text \<open>C5. Once a refresh token is replayed (or presented after its sessions were revoked or its
  version became stale), or its holder signs out, no refresh token of the same family is accepted
  for the seven days that every token already issued in the family can live, whatever happens in
  between.\<close>

theorem ended_family_is_dead:
  assumes "ends_family st x f w" and "list_all (\<lambda>y. fst x \<le> fst y) ops"
  shows "list_all (\<lambda>t. fst x + days 7 \<le> t)
    (accepted_times st (\<lambda>c. tf_id (rf_family c) = f) ops (sess_step st x w))"
  using family_blocked_history [OF ends_family_blocks [OF assms(1)] assms(2)] .

lemma ended_family_is_dead_witness:
  "list_all (\<lambda>t. 5 + days 7 \<le> t) (accepted_times sample_settings (\<lambda>c. tf_id (rf_family c) = ''f'')
     [(10, SRefresh ''a'' ''r'' (Some sample_refresh))]
     (sess_step sample_settings (5, SSignOut (Some sample_refresh)) sample_sessions))"
proof -
  have "ends_family sample_settings (5, SSignOut (Some sample_refresh)) ''f'' sample_sessions"
    by (simp add: ends_family_def sample_inspect) (simp add: sample_claims_def)
  from ended_family_is_dead [OF this, of "[(10, SRefresh ''a'' ''r'' (Some sample_refresh))]"]
  show ?thesis by simp
qed

end
