(* ===== verification/Identity_Repository.thy ===== *)
theory Identity_Repository
  imports Identity_Access Identity_Sessions
begin

text \<open>
  The stored state behind the identity use cases: the user table with its password history
  (\<open>infrastructure/identity/django_user_repository.py\<close>), the caches of challenges, the reset token
  table, the outbox and the sessions, and the DTO mappers. The hashers of the framework are
  arguments of the operations that use them; a database write and the reads that follow it see one
  another, as on Django's default connection.
\<close>

section \<open>The stored state\<close>

text \<open>An unusable password is \<open>None\<close>. The user table of \<^typ>\<open>session_world\<close> is derived from this one.\<close>

record user_row =
  ur_id :: uuid
  ur_email :: string
  ur_password :: "string option"
  ur_first_name :: string
  ur_last_name :: string
  ur_role :: string
  ur_two_factor_enabled :: bool
  ur_totp_secret :: "string option"
  ur_auth_token_version :: int
  ur_is_active :: bool
  ur_is_verified :: bool
  ur_created_at :: instant
  ur_updated_at :: instant
  ur_last_login :: "instant option"

datatype identity_event = UserEvent user_event | ChallengeEvent verification_event

record id_world =
  iw_users :: "user_row list"
  iw_history :: "(uuid \<times> string) list"
  iw_sessions :: session_world
  iw_outbox :: "identity_event list"
  iw_resets :: "reset_token list"
  iw_challenges :: "(uuid \<times> challenge \<times> instant) list"
  iw_mfa :: "(uuid \<times> mfa_challenge \<times> instant) list"
  iw_replay :: "((uuid \<times> string) \<times> instant) list"
  iw_recovery :: "(uuid \<times> recovery_code list) list"
  iw_mails :: "(string \<times> uuid) list"
  iw_lockout :: lockout_cache

datatype app_exn =
    DomainErr id_exn
  | SessionErr sess_exn
  | UserNotFoundError string
  | InvalidCredentialsError string
  | DuplicateUserError
  | InvalidTwoFactorCodeError string
  | IntegrityErr

definition lift_dom :: "(id_exn, 'a) res \<Rightarrow> (app_exn, 'a) res" where
  "lift_dom r = (case r of Inl e \<Rightarrow> Inl (DomainErr e) | Inr x \<Rightarrow> Inr x)"

lemma lift_dom_simps [simp]: "lift_dom (Inl e) = Inl (DomainErr e)" "lift_dom (Inr x) = Inr x"
  by (simp_all add: lift_dom_def)

lemma lift_dom_Inr [res_simps]: "lift_dom r = Inr x \<longleftrightarrow> r = Inr x"
  by (cases r) auto

text \<open>What the session component sees of the user table.\<close>

definition token_state_of :: "user_row \<Rightarrow> token_state" where
  "token_state_of r = \<lparr>ts_user_id = ur_id r, ts_auth_token_version = ur_auth_token_version r,
     ts_is_active = ur_is_active r\<rparr>"

definition sessions_of :: "id_world \<Rightarrow> session_world" where
  "sessions_of w = (iw_sessions w)\<lparr>sw_users := map token_state_of (iw_users w)\<rparr>"

section \<open>The user repository\<close>

definition role_value :: "user_role \<Rightarrow> string" where
  "role_value r = (case r of PLANNER \<Rightarrow> ''planner'' | VENDOR \<Rightarrow> ''vendor'' | ADMIN \<Rightarrow> ''admin'')"

definition status_value :: "account_status \<Rightarrow> string" where
  "status_value s =
     (case s of PENDING_VERIFICATION \<Rightarrow> ''pending_verification'' | ACTIVE \<Rightarrow> ''active''
        | DEACTIVATED \<Rightarrow> ''deactivated''
        | DEACTIVATED_PENDING_VERIFICATION \<Rightarrow> ''deactivated_pending_verification''
        | SUSPENDED \<Rightarrow> ''suspended'' | LOCKED \<Rightarrow> ''locked'')"

definition status_from_model :: "user_row \<Rightarrow> account_status" where
  "status_from_model r =
     (if ur_is_active r \<and> ur_is_verified r then ACTIVE
      else if ur_is_active r then PENDING_VERIFICATION
      else if ur_is_verified r then DEACTIVATED
      else DEACTIVATED_PENDING_VERIFICATION)"

text \<open>A stored role that is no role becomes \<open>None\<close>, which the constructor of the user refuses.\<close>

definition to_domain :: "user_row \<Rightarrow> (id_exn, user) res" where
  "to_domain r =
     res_bind (mk_email (ur_email r)) (\<lambda>email.
     res_bind (case ur_password r of None \<Rightarrow> Inr None
               | Some p \<Rightarrow> res_bind (mk_password_hash p) (\<lambda>h. Inr (Some h))) (\<lambda>password.
     mk_user (Aware 0) \<lparr>ua_id = ur_id r, ua_email = email, ua_password_hash = password,
       ua_first_name = ur_first_name r, ua_last_name = ur_last_name r, ua_role = ur_role r,
       ua_two_factor_enabled = ur_two_factor_enabled r, ua_auth_token_version = ur_auth_token_version r,
       ua_status = Some (status_value (status_from_model r)), ua_is_active = ur_is_active r,
       ua_is_verified = ur_is_verified r, ua_created_at = Some (Aware (ur_created_at r)),
       ua_updated_at = Some (Aware (ur_updated_at r)), ua_last_login = map_option Aware (ur_last_login r)\<rparr>))"

definition optional_user :: "user_row option \<Rightarrow> (app_exn, user option) res" where
  "optional_user x =
     (case x of None \<Rightarrow> Inr None | Some r \<Rightarrow> lift_dom (res_bind (to_domain r) (\<lambda>u. Inr (Some u))))"

definition get_by_id :: "uuid \<Rightarrow> id_world \<Rightarrow> (app_exn, user option) res" where
  "get_by_id i w = optional_user (find (\<lambda>r. ur_id r = i) (iw_users w))"

definition get_by_email :: "string \<Rightarrow> id_world \<Rightarrow> (app_exn, user option) res" where
  "get_by_email email w =
     optional_user (find (\<lambda>r. py_lower (ur_email r) = py_lower email) (iw_users w))"

text \<open>Keep the newest \<open>limit\<close> entries of the user; entries are kept newest first.\<close>

definition entries_of :: "uuid \<Rightarrow> (uuid \<times> string) list \<Rightarrow> string list" where
  "entries_of i h = map snd (filter (\<lambda>x. fst x = i) h)"

definition remember_password_hash :: "int \<Rightarrow> uuid \<Rightarrow> string \<Rightarrow> (uuid \<times> string) list \<Rightarrow> (uuid \<times> string) list" where
  "remember_password_hash limit i hash h =
     map (Pair i) (take (nat limit) (hash # entries_of i h)) @ filter (\<lambda>x. fst x \<noteq> i) h"

definition get_password_history :: "int \<Rightarrow> uuid \<Rightarrow> id_world \<Rightarrow> (app_exn, password_history) res" where
  "get_password_history limit i w =
     lift_dom (case find (\<lambda>r. ur_id r = i) (iw_users w) of
         None \<Rightarrow> mk_password_history [] limit
       | Some r \<Rightarrow>
           res_bind (case ur_password r of None \<Rightarrow> Inr [] | Some p \<Rightarrow> res_bind (mk_password_hash p) (\<lambda>h. Inr [h]))
             (\<lambda>current.
           mk_password_history
             (map (\<lambda>h. \<lparr>he_hash = h, he_changed_at = None\<rparr>)
                (current @ take (nat limit) (entries_of i (iw_history w)))) limit))"

text \<open>
  \<open>save\<close> writes the email, the password, the names, the role, the second factor, the token version
  and the two status flags; a new row gets the creation time of the database. The row is read back.
\<close>

definition new_row :: "instant \<Rightarrow> uuid \<Rightarrow> user_row" where
  "new_row now i =
     \<lparr>ur_id = i, ur_email = '''', ur_password = None, ur_first_name = '''', ur_last_name = '''', ur_role = '''',
      ur_two_factor_enabled = False, ur_totp_secret = None, ur_auth_token_version = 0, ur_is_active = True,
      ur_is_verified = False, ur_created_at = now, ur_updated_at = now, ur_last_login = None\<rparr>"

definition write_row :: "instant \<Rightarrow> user \<Rightarrow> user_row \<Rightarrow> user_row" where
  "write_row now u r =
     r\<lparr>ur_email := u_email u, ur_password := u_password_hash u, ur_first_name := u_first_name u,
       ur_last_name := u_last_name u, ur_role := role_value (u_role u),
       ur_two_factor_enabled := u_two_factor_enabled u, ur_auth_token_version := u_auth_token_version u,
       ur_is_active := is_active u, ur_is_verified := is_verified u, ur_updated_at := now\<rparr>"

definition save_user :: "int \<Rightarrow> instant \<Rightarrow> user \<Rightarrow> id_world \<Rightarrow> id_world \<times> (app_exn, user) res" where
  "save_user limit now u w =
     (let old = find (\<lambda>r. ur_id r = u_id u) (iw_users w);
          row = write_row now u (case old of None \<Rightarrow> new_row now (u_id u) | Some r \<Rightarrow> r);
          previous = (case old of None \<Rightarrow> None | Some r \<Rightarrow> ur_password r)
      in if list_ex (\<lambda>r. ur_email r = u_email u \<and> ur_id r \<noteq> u_id u) (iw_users w)
         then (w, Inl IntegrityErr)
         else
           (w\<lparr>iw_users := upsert (\<lambda>r. ur_id r = u_id u) (\<lambda>_. row) row (iw_users w),
              iw_history := (case u_password_hash u of
                  Some p \<Rightarrow> if u_password_hash u \<noteq> previous
                            then remember_password_hash limit (u_id u) p (iw_history w) else iw_history w
                | None \<Rightarrow> iw_history w)\<rparr>,
            lift_dom (to_domain row)))"

definition repository_deactivate :: "uuid \<Rightarrow> id_world \<Rightarrow> id_world" where
  "repository_deactivate i w =
     w\<lparr>iw_users := map (\<lambda>r. if ur_id r = i then r\<lparr>ur_is_active := False\<rparr> else r) (iw_users w)\<rparr>"

definition repository_delete :: "uuid \<Rightarrow> id_world \<Rightarrow> id_world" where
  "repository_delete i w = w\<lparr>iw_users := filter (\<lambda>r. ur_id r \<noteq> i) (iw_users w)\<rparr>"

text \<open>The second factor: the stored secret is encrypted at rest; here it is the secret itself.\<close>

definition set_totp_secret :: "uuid \<Rightarrow> string \<Rightarrow> id_world \<Rightarrow> id_world" where
  "set_totp_secret i secret w =
     w\<lparr>iw_users := map (\<lambda>r. if ur_id r = i
        then r\<lparr>ur_totp_secret := Some secret, ur_two_factor_enabled := True\<rparr> else r) (iw_users w)\<rparr>"

definition clear_totp_secret :: "uuid \<Rightarrow> id_world \<Rightarrow> id_world" where
  "clear_totp_secret i w =
     w\<lparr>iw_users := map (\<lambda>r. if ur_id r = i
        then r\<lparr>ur_totp_secret := None, ur_two_factor_enabled := False\<rparr> else r) (iw_users w)\<rparr>"

definition get_totp_secret :: "uuid \<Rightarrow> id_world \<Rightarrow> string option" where
  "get_totp_secret i w =
     (case find (\<lambda>r. ur_id r = i) (iw_users w) of
          None \<Rightarrow> None
        | Some r \<Rightarrow> if \<not> ur_two_factor_enabled r \<or> ur_totp_secret r = None \<or> ur_totp_secret r = Some ''''
                    then None else ur_totp_secret r)"

text \<open>\<open>dispatch\<close> appends to the outbox.\<close>

definition dispatch_events :: "identity_event list \<Rightarrow> id_world \<Rightarrow> id_world" where
  "dispatch_events es w = w\<lparr>iw_outbox := iw_outbox w @ es\<rparr>"

section \<open>Unit of work\<close>

text \<open>
  \<open>with unit_of_work\<close>: an exception rolls back the tables, not the caches and not Redis.
\<close>

definition rolled_back :: "id_world \<Rightarrow> id_world \<Rightarrow> id_world" where
  "rolled_back w w' =
     w'\<lparr>iw_users := iw_users w, iw_history := iw_history w, iw_outbox := iw_outbox w, iw_resets := iw_resets w,
        iw_sessions := (iw_sessions w')\<lparr>sw_sessions := sw_sessions (iw_sessions w)\<rparr>\<rparr>"

definition unit_of_work ::
  "(id_world \<Rightarrow> id_world \<times> (app_exn, 'a) res) \<Rightarrow> id_world \<Rightarrow> id_world \<times> (app_exn, 'a) res" where
  "unit_of_work f w = (case f w of (w', Inl e) \<Rightarrow> (rolled_back w w', Inl e) | (w', Inr x) \<Rightarrow> (w', Inr x))"

section \<open>Account DTOs\<close>

definition display_name :: "string \<Rightarrow> string \<Rightarrow> string \<Rightarrow> string" where
  "display_name first_name last_name email =
     (let full = py_strip (first_name @ '' '' @ last_name) in
      if full \<noteq> '''' then full else if first_name \<noteq> '''' then first_name
      else if last_name \<noteq> '''' then last_name else email)"

record account_dto =
  ad_id :: uuid
  ad_email :: string
  ad_first_name :: string
  ad_last_name :: string
  ad_role :: string
  ad_is_active :: bool
  ad_is_verified :: bool
  ad_created_at :: datetime
  ad_last_login :: "datetime option"
  ad_display_name :: string
  ad_has_password :: bool
  ad_requires_password_setup :: bool
  ad_two_factor_enabled :: bool
  ad_auth_token_version :: int
  ad_is_authenticated :: bool
  ad_onboarding_complete :: bool

definition to_account_dto :: "user \<Rightarrow> account_dto" where
  "to_account_dto u =
     (let has_password = (u_password_hash u \<noteq> None \<and> u_password_hash u \<noteq> Some '''') in
      \<lparr>ad_id = u_id u, ad_email = u_email u, ad_first_name = u_first_name u, ad_last_name = u_last_name u,
       ad_role = role_value (u_role u), ad_is_active = is_active u, ad_is_verified = is_verified u,
       ad_created_at = u_created_at u, ad_last_login = u_last_login u,
       ad_display_name = display_name (u_first_name u) (u_last_name u) (u_email u),
       ad_has_password = has_password, ad_requires_password_setup = (\<not> has_password),
       ad_two_factor_enabled = u_two_factor_enabled u, ad_auth_token_version = u_auth_token_version u,
       ad_is_authenticated = True, ad_onboarding_complete = (is_verified u \<and> has_password)\<rparr>)"

end
