(* ===== verification/Identity_UseCases.thy ===== *)
theory Identity_UseCases
  imports Identity_Repository
begin

text \<open>
  The use cases on accounts (\<open>application/identity\<close>): registration, profile, administration, email
  verification, and the three ways to set a password. Each returns the stored state it leaves
  behind and its outcome; \<open>now\<close> is the reading of the clock. \<open>revoke_all\<close> is the session component's
  use case on the shared state.
\<close>

section \<open>Shared steps\<close>

definition require_user :: "string \<Rightarrow> (app_exn, user option) res \<Rightarrow> (app_exn, user) res" where
  "require_user msg r =
     res_bind r (\<lambda>x. case x of None \<Rightarrow> Inl (UserNotFoundError msg) | Some u \<Rightarrow> Inr u)"

definition with_sessions :: "(session_world \<Rightarrow> session_world \<times> 'a) \<Rightarrow> id_world \<Rightarrow> id_world \<times> 'a" where
  "with_sessions f w = (let (s, x) = f (sessions_of w) in (w\<lparr>iw_sessions := s\<rparr>, x))"

definition revoke_all_of :: "instant \<Rightarrow> uuid \<Rightarrow> string \<Rightarrow> id_world \<Rightarrow> id_world" where
  "revoke_all_of now user reason w = fst (with_sessions (revoke_all_sessions now user reason) w)"

definition save_and_dispatch :: "int \<Rightarrow> instant \<Rightarrow> user \<Rightarrow> id_world \<Rightarrow> id_world \<times> (app_exn, user) res" where
  "save_and_dispatch limit now u w =
     (case save_user limit now u w of
          (w', Inl e) \<Rightarrow> (w', Inl e)
        | (w', Inr saved) \<Rightarrow> (dispatch_events (map UserEvent (u_events u)) w', Inr saved))"

section \<open>Registration and profile\<close>

text \<open>\<open>hash\<close> is what the password hasher returned for the plain password; \<open>new_id\<close> the fresh id.\<close>

definition register_account ::
  "int \<Rightarrow> instant \<Rightarrow> uuid \<Rightarrow> string \<Rightarrow> string \<Rightarrow> string \<Rightarrow> string \<Rightarrow> string \<Rightarrow>
     id_world \<Rightarrow> id_world \<times> (app_exn, account_dto) res" where
  "register_account limit now new_id email hash first_name last_name role =
     unit_of_work (\<lambda>w.
       case get_by_email email w of
           Inl e \<Rightarrow> (w, Inl e)
         | Inr (Some _) \<Rightarrow> (w, Inl DuplicateUserError)
         | Inr None \<Rightarrow>
             (case res_bind (mk_password_hash hash) (\<lambda>h.
                 register_new (Aware now) new_id email (Some h) first_name last_name role False (Some (Aware now))) of
               Inl e \<Rightarrow> (w, Inl (DomainErr e))
             | Inr u \<Rightarrow>
                 (case save_and_dispatch limit now u w of
                     (w', Inl e) \<Rightarrow> (w', Inl e)
                   | (w', Inr saved) \<Rightarrow> (w', Inr (to_account_dto saved)))))"

definition update_account_profile ::
  "int \<Rightarrow> instant \<Rightarrow> uuid \<Rightarrow> string option \<Rightarrow> string option \<Rightarrow> id_world \<Rightarrow> id_world \<times> (app_exn, account_dto) res" where
  "update_account_profile limit now i first_name last_name w =
     (case require_user ''User not found'' (get_by_id i w) of
          Inl e \<Rightarrow> (w, Inl e)
        | Inr u \<Rightarrow>
            (case update_profile (Aware now) first_name last_name u of
                (_, Inl e) \<Rightarrow> (w, Inl (DomainErr e))
              | (u', Inr _) \<Rightarrow>
                  (case save_user limit now u' w of
                      (w', Inl e) \<Rightarrow> (w', Inl e)
                    | (w', Inr saved) \<Rightarrow> (w', Inr (to_account_dto saved)))))"

section \<open>Administration\<close>

definition load_admin_context ::
  "uuid option \<Rightarrow> uuid \<Rightarrow> id_world \<Rightarrow> (app_exn, user \<times> user) res" where
  "load_admin_context actor_id target_id w =
     res_bind (require_user ''User not found'' (get_by_id target_id w)) (\<lambda>target.
     case actor_id of
         None \<Rightarrow> Inl (DomainErr RoleAssignmentRequiresActor)
       | Some a \<Rightarrow>
           res_bind (require_user ''Actor not found'' (get_by_id a w)) (\<lambda>actor.
           res_bind (lift_dom (res_bind
               (context_for_actor (u_id target) (u_role target) (u_role target) (Some (u_id actor))
                  (Some (role_value (u_role actor))) None) ensure_can_assign)) (\<lambda>_.
             Inr (actor, target))))"

text \<open>The common shape: load, apply a mutator to the target, save, dispatch; a raising mutator stops
  before anything is written.\<close>

definition administer ::
  "int \<Rightarrow> instant \<Rightarrow> uuid option \<Rightarrow> uuid \<Rightarrow> (user \<Rightarrow> user \<Rightarrow> user outcome) \<Rightarrow>
     id_world \<Rightarrow> id_world \<times> (app_exn, unit) res" where
  "administer limit now actor_id target_id mutate w =
     (case load_admin_context actor_id target_id w of
          Inl e \<Rightarrow> (w, Inl e)
        | Inr (actor, target) \<Rightarrow>
            (case mutate actor target of
                (_, Inl e) \<Rightarrow> (w, Inl (DomainErr e))
              | (target', Inr _) \<Rightarrow>
                  (case save_and_dispatch limit now target' w of
                      (w', Inl e) \<Rightarrow> (w', Inl e)
                    | (w', Inr _) \<Rightarrow> (w', Inr ()))))"

definition assign_role ::
  "int \<Rightarrow> instant \<Rightarrow> uuid option \<Rightarrow> uuid \<Rightarrow> string \<Rightarrow> string option \<Rightarrow> id_world \<Rightarrow> id_world \<times> (app_exn, unit) res" where
  "assign_role limit now actor_id target_id new_role reason =
     administer limit now actor_id target_id (\<lambda>actor target.
       change_role (Aware now) new_role (Some (u_id actor)) (Some (role_value (u_role actor))) None reason
         (Some (Aware now)) target)"

definition unlock_account ::
  "int \<Rightarrow> instant \<Rightarrow> uuid option \<Rightarrow> uuid \<Rightarrow> string option \<Rightarrow> id_world \<Rightarrow> id_world \<times> (app_exn, unit) res" where
  "unlock_account limit now actor_id target_id reason =
     administer limit now actor_id target_id (\<lambda>actor target.
       unlock (Aware now) (Some (Aware now)) (Some (u_id actor)) reason target)"

definition reactivate_account ::
  "int \<Rightarrow> instant \<Rightarrow> uuid option \<Rightarrow> uuid \<Rightarrow> string option \<Rightarrow> id_world \<Rightarrow> id_world \<times> (app_exn, unit) res" where
  "reactivate_account limit now actor_id target_id reason =
     administer limit now actor_id target_id (\<lambda>actor target.
       activate (Aware now) (Some (Aware now)) (Some (u_id actor)) reason target)"

text \<open>Suspension and deactivation then revoke every session of the target.\<close>

definition suspend_account ::
  "int \<Rightarrow> instant \<Rightarrow> uuid option \<Rightarrow> uuid \<Rightarrow> string \<Rightarrow> id_world \<Rightarrow> id_world \<times> (app_exn, unit) res" where
  "suspend_account limit now actor_id target_id reason w =
     (case administer limit now actor_id target_id (\<lambda>actor target.
         suspend (Aware now) reason (Some (Aware now)) (Some (u_id actor)) target) w of
          (w', Inl e) \<Rightarrow> (w', Inl e)
        | (w', Inr _) \<Rightarrow> (revoke_all_of now target_id ''account_suspended'' w', Inr ()))"

definition deactivate_account ::
  "int \<Rightarrow> instant \<Rightarrow> uuid option \<Rightarrow> uuid \<Rightarrow> string option \<Rightarrow> id_world \<Rightarrow> id_world \<times> (app_exn, unit) res" where
  "deactivate_account limit now actor_id target_id reason w =
     (case administer limit now actor_id target_id (\<lambda>actor target.
         deactivate (Aware now) (Some (Aware now)) (Some (u_id actor)) reason target) w of
          (w', Inl e) \<Rightarrow> (w', Inl e)
        | (w', Inr _) \<Rightarrow> (revoke_all_of now target_id ''account_deactivated'' w', Inr ()))"

section \<open>Email verification\<close>

text \<open>The cache keeps a challenge until it expires, without its events.\<close>

definition save_challenge :: "instant \<Rightarrow> challenge \<Rightarrow> id_world \<Rightarrow> id_world \<times> (app_exn, unit) res" where
  "save_challenge now c w =
     (case vc_expires_at c of
          Naive _ \<Rightarrow> (w, Inl (DomainErr TypeErr))
        | Aware e \<Rightarrow>
            (w\<lparr>iw_challenges := (vc_id c, c\<lparr>vc_events := []\<rparr>, now + seconds (max ((e - now) div 1000000) 1))
                # iw_challenges w\<rparr>, Inr ()))"

definition get_challenge :: "instant \<Rightarrow> uuid \<Rightarrow> id_world \<Rightarrow> challenge option" where
  "get_challenge now i w = cache_get now i (iw_challenges w)"

text \<open>
  Issue a challenge, store it, send its token to the account's address. The token is a JWT that
  names the challenge; the mail is modelled by its address and the challenge.
\<close>

definition request_email_verification ::
  "(string \<Rightarrow> string) \<Rightarrow> instant \<Rightarrow> uuid \<Rightarrow> string \<Rightarrow> uuid \<Rightarrow> id_world \<Rightarrow> id_world \<times> (app_exn, uuid) res" where
  "request_email_verification sha now new_id secret user_id w =
     (case require_user ''User not found'' (get_by_id user_id w) of
          Inl e \<Rightarrow> (w, Inl e)
        | Inr u \<Rightarrow>
            (case res_bind (mk_verification_code secret) (\<lambda>s.
                issue_challenge sha (Aware now) new_id default_verification_policy (u_id u) ''email'' s None) of
                Inl e \<Rightarrow> (w, Inl (DomainErr e))
              | Inr c \<Rightarrow>
                  (case save_challenge now c w of
                      (w', Inl e) \<Rightarrow> (w', Inl e)
                    | (w', Inr _) \<Rightarrow>
                        (dispatch_events (map ChallengeEvent (vc_events c))
                           (w'\<lparr>iw_mails := iw_mails w' @ [(u_email u, vc_id c)]\<rparr>), Inr (vc_id c)))))"

definition resend_email_verification ::
  "instant \<Rightarrow> uuid \<Rightarrow> uuid option \<Rightarrow> id_world \<Rightarrow> id_world \<times> (app_exn, uuid) res" where
  "resend_email_verification now challenge_id user_id w =
     (case get_challenge now challenge_id w of
          None \<Rightarrow> (w, Inl (UserNotFoundError ''Verification challenge not found''))
        | Some c \<Rightarrow>
            if (case user_id of Some i \<Rightarrow> vc_user_id c \<noteq> i | None \<Rightarrow> False)
            then (w, Inl (UserNotFoundError ''Verification challenge not found''))
            else (case require_user ''User not found'' (get_by_id (vc_user_id c) w) of
                Inl e \<Rightarrow> (w, Inl e)
              | Inr u \<Rightarrow>
                  (case record_resend (Aware now) (minutes 10) None c of
                      (_, Inl e) \<Rightarrow> (w, Inl (DomainErr e))
                    | (c', Inr _) \<Rightarrow>
                        (case save_challenge now c' w of
                            (w', Inl e) \<Rightarrow> (w', Inl e)
                          | (w', Inr _) \<Rightarrow>
                              (dispatch_events (map ChallengeEvent (vc_events c'))
                                 (w'\<lparr>iw_mails := iw_mails w' @ [(u_email u, vc_id c')]\<rparr>), Inr (vc_id c'))))))"

text \<open>\<open>decoded\<close> is the challenge id of the token, if the token service accepted the token.\<close>

definition bad_token :: app_exn where
  "bad_token = InvalidCredentialsError ''Invalid or expired verification token''"

definition verify_email ::
  "instant \<Rightarrow> uuid option \<Rightarrow> id_world \<Rightarrow> int \<Rightarrow> id_world \<times> (app_exn, unit) res" where
  "verify_email now decoded w limit =
     (case decoded of
        None \<Rightarrow> (w, Inl bad_token)
      | Some i \<Rightarrow>
        (case get_challenge now i w of
          None \<Rightarrow> (w, Inl bad_token)
        | Some c \<Rightarrow>
          (case require_user ''User not found'' (get_by_id (vc_user_id c) w) of
            Inl e \<Rightarrow> (w, Inl e)
          | Inr u \<Rightarrow>
            (case consume (Aware now) None c of
              (c', Inl e) \<Rightarrow>
                if e \<in> {VerificationAttemptsExhausted, VerificationChallengeConsumed, VerificationExpired}
                then (case save_challenge now c' w of
                    (w', Inl x) \<Rightarrow> (w', Inl x) | (w', Inr _) \<Rightarrow> (w', Inl bad_token))
                else (w, Inl (DomainErr e))
            | (c', Inr _) \<Rightarrow>
              (case ensure_terminal_challenge_succeeded c' ''email'' of
                Inl e \<Rightarrow> (w, Inl (DomainErr e))
              | Inr _ \<Rightarrow>
                (case mark_verified (Aware now) c' None u of
                  (_, Inl e) \<Rightarrow> (w, Inl (DomainErr e))
                | (u', Inr _) \<Rightarrow>
                  (case save_challenge now c' w of
                    (w', Inl e) \<Rightarrow> (w', Inl e)
                  | (w', Inr _) \<Rightarrow>
                    (case save_user limit now u' w' of
                      (w'', Inl e) \<Rightarrow> (w'', Inl e)
                    | (w'', Inr _) \<Rightarrow>
                      (dispatch_events (map UserEvent (u_events u'))
                         (dispatch_events (map ChallengeEvent (vc_events c')) w''), Inr ())))))))))"

section \<open>Passwords\<close>

text \<open>\<open>check\<close> is the framework's password check; \<open>hash\<close> the fresh hash of the new password.\<close>

definition replace_password ::
  "(string \<Rightarrow> string \<Rightarrow> bool) \<Rightarrow> int \<Rightarrow> instant \<Rightarrow> string \<Rightarrow> string \<Rightarrow> string \<Rightarrow> password_history \<Rightarrow> user \<Rightarrow>
     id_world \<Rightarrow> id_world \<times> (app_exn, user) res" where
  "replace_password check limit now plain hash reason history u =
     unit_of_work (\<lambda>w.
       case change_password (Aware now) hash None (Some plain) (Some history) (Some check) u of
           (_, Inl e) \<Rightarrow> (w, Inl (DomainErr e))
         | (u', Inr _) \<Rightarrow>
             (case save_user limit now u' w of
                 (w', Inl e) \<Rightarrow> (w', Inl e)
               | (w', Inr saved) \<Rightarrow>
                   (dispatch_events (map UserEvent (u_events u')) (revoke_all_of now (u_id u') reason w'),
                    Inr saved)))"

definition change_account_password ::
  "(string \<Rightarrow> string \<Rightarrow> bool) \<Rightarrow> int \<Rightarrow> instant \<Rightarrow> uuid \<Rightarrow> string \<Rightarrow> string \<Rightarrow> string \<Rightarrow>
     id_world \<Rightarrow> id_world \<times> (app_exn, unit) res" where
  "change_account_password check limit now i current plain hash w =
     (case require_user ''User not found'' (get_by_id i w) of
          Inl e \<Rightarrow> (w, Inl e)
        | Inr u \<Rightarrow>
            if (case u_password_hash u of None \<Rightarrow> True | Some h \<Rightarrow> \<not> check current h)
            then (w, Inl (InvalidCredentialsError ''Invalid credentials''))
            else (case res_bind (lift_dom (validate_password plain)) (\<lambda>_.
                res_bind (get_password_history limit (u_id u) w) (\<lambda>history.
                res_bind (lift_dom (mk_password_hash hash)) (\<lambda>h. Inr (history, h)))) of
                Inl e \<Rightarrow> (w, Inl e)
              | Inr (history, h) \<Rightarrow>
                  (case replace_password check limit now plain h ''password_changed'' history u w of
                      (w', Inl e) \<Rightarrow> (w', Inl e)
                    | (w', Inr _) \<Rightarrow> (w', Inr ()))))"

definition setup_password ::
  "(string \<Rightarrow> string \<Rightarrow> bool) \<Rightarrow> int \<Rightarrow> instant \<Rightarrow> uuid \<Rightarrow> string \<Rightarrow> string \<Rightarrow>
     id_world \<Rightarrow> id_world \<times> (app_exn, account_dto) res" where
  "setup_password check limit now i plain hash w =
     (case require_user ''User not found'' (get_by_id i w) of
          Inl e \<Rightarrow> (w, Inl e)
        | Inr u \<Rightarrow>
            (case res_bind (lift_dom (validate_password plain)) (\<lambda>_.
                res_bind (get_password_history limit (u_id u) w) (\<lambda>history.
                res_bind (lift_dom (mk_password_hash hash)) (\<lambda>h. Inr (history, h)))) of
                Inl e \<Rightarrow> (w, Inl e)
              | Inr (history, h) \<Rightarrow>
                  (case replace_password check limit now plain h ''password_setup'' history u w of
                      (w', Inl e) \<Rightarrow> (w', Inl e)
                    | (w', Inr saved) \<Rightarrow> (w', Inr (to_account_dto saved)))))"

section \<open>Password reset\<close>

text \<open>
  A raw token is presented with what its JWT decodes to, its user and \<open>jti\<close>; the row is found by
  these and the keyed hash of the raw token.
\<close>

definition verify_reset_token ::
  "(string \<Rightarrow> string) \<Rightarrow> (uuid \<times> string) option \<Rightarrow> string \<Rightarrow> id_world \<Rightarrow> (app_exn, reset_token option) res" where
  "verify_reset_token hash_token decoded raw w =
     (case decoded of
          None \<Rightarrow> Inr None
        | Some (user, jti) \<Rightarrow>
            (case find (\<lambda>t. rt_user_id t = user \<and> rt_jti t = jti \<and> rt_token_hash t = hash_token raw) (iw_resets w) of
                None \<Rightarrow> Inr None
              | Some t \<Rightarrow> lift_dom (res_bind (mk_reset_token t) (\<lambda>t. Inr (Some t)))))"

definition update_reset :: "uuid \<Rightarrow> (reset_token \<Rightarrow> reset_token) \<Rightarrow> id_world \<Rightarrow> id_world" where
  "update_reset i f w = w\<lparr>iw_resets := map (\<lambda>t. if rt_id t = i then f t else t) (iw_resets w)\<rparr>"

definition mark_token_expired :: "reset_token \<Rightarrow> id_world \<Rightarrow> id_world" where
  "mark_token_expired t w = update_reset (rt_id t) (\<lambda>r. r\<lparr>rt_status := RESET_EXPIRED\<rparr>) w"

definition persist_used_token :: "reset_token \<Rightarrow> id_world \<Rightarrow> id_world" where
  "persist_used_token t w =
     update_reset (rt_id t) (\<lambda>r. r\<lparr>rt_status := RESET_USED, rt_used_at := rt_used_at t,
       rt_used_ip_hash := rt_used_ip_hash t, rt_used_user_agent_hash := rt_used_user_agent_hash t\<rparr>) w"

definition revoke_other_active_tokens :: "uuid \<Rightarrow> uuid \<Rightarrow> id_world \<Rightarrow> id_world" where
  "revoke_other_active_tokens user keep w =
     w\<lparr>iw_resets := map (\<lambda>t. if rt_user_id t = user \<and> rt_status t = RESET_ACTIVE \<and> rt_id t \<noteq> keep
        then t\<lparr>rt_status := RESET_REVOKED\<rparr> else t) (iw_resets w)\<rparr>"

definition is_invalid_reset :: "id_exn \<Rightarrow> bool" where
  "is_invalid_reset e = (e \<in> {InvalidPasswordResetToken, PasswordResetExpired, PasswordResetAlreadyUsed})"

text \<open>A new reset token revokes the active ones (\<open>JWTTokenService.issue_password_reset_token\<close>).\<close>

definition issue_reset_token ::
  "(string \<Rightarrow> string) \<Rightarrow> uuid \<Rightarrow> uuid \<Rightarrow> string \<Rightarrow> string \<Rightarrow> instant \<Rightarrow> id_world \<Rightarrow> id_world" where
  "issue_reset_token hash_token new_id user jti raw expires w =
     (let w = w\<lparr>iw_resets := map (\<lambda>t. if rt_user_id t = user \<and> rt_status t = RESET_ACTIVE
          then t\<lparr>rt_status := RESET_REVOKED\<rparr> else t) (iw_resets w)\<rparr>
      in w\<lparr>iw_resets := iw_resets w @
          [\<lparr>rt_id = new_id, rt_user_id = user, rt_jti = jti, rt_token_hash = hash_token raw,
            rt_status = RESET_ACTIVE, rt_expires_at = Aware expires, rt_used_at = None,
            rt_used_ip_hash = None, rt_used_user_agent_hash = None\<rparr>]\<rparr>)"

text \<open>\<open>_handle_locked\<close> from the change of the password on.\<close>

definition finish_reset ::
  "(string \<Rightarrow> string \<Rightarrow> bool) \<Rightarrow> int \<Rightarrow> instant \<Rightarrow> string \<Rightarrow> string \<Rightarrow> string option \<Rightarrow> string option \<Rightarrow>
     reset_token \<Rightarrow> user \<Rightarrow> id_world \<Rightarrow> id_world \<times> (app_exn, uuid) res" where
  "finish_reset check limit now plain hash ip agent t u w =
     (case res_bind (lift_dom (validate_password plain)) (\<lambda>_.
         res_bind (get_password_history limit (u_id u) w) (\<lambda>history.
         res_bind (lift_dom (mk_password_hash hash)) (\<lambda>h. Inr (history, h)))) of
        Inl e \<Rightarrow> (w, Inl e)
      | Inr (history, h) \<Rightarrow>
        (case change_password (Aware now) h (Some (Aware now)) (Some plain) (Some history) (Some check) u of
          (_, Inl e) \<Rightarrow> (w, Inl (DomainErr e))
        | (u', Inr _) \<Rightarrow>
          (case consume_token (Aware now) ip agent t of
            Inl e \<Rightarrow> (w, Inl (DomainErr e))
          | Inr used \<Rightarrow>
            (case save_and_dispatch limit now u' w of
              (w', Inl e) \<Rightarrow> (w', Inl e)
            | (w', Inr _) \<Rightarrow>
              (revoke_other_active_tokens (u_id u') (rt_id used)
                 (persist_used_token used (revoke_all_of now (rt_user_id t) ''password_reset'' w')),
               Inr (rt_user_id t))))))"

definition reset_password ::
  "(string \<Rightarrow> string \<Rightarrow> bool) \<Rightarrow> (string \<Rightarrow> string) \<Rightarrow> int \<Rightarrow> instant \<Rightarrow> (uuid \<times> string) option \<Rightarrow> string \<Rightarrow>
     string \<Rightarrow> string \<Rightarrow> string option \<Rightarrow> string option \<Rightarrow> id_world \<Rightarrow> id_world \<times> (app_exn, uuid) res" where
  "reset_password check hash_token limit now decoded raw plain hash ip agent =
     unit_of_work (\<lambda>w.
       case verify_reset_token hash_token decoded raw w of
         Inl e \<Rightarrow> (w, Inl e)
       | Inr None \<Rightarrow> (w, Inl (DomainErr InvalidPasswordResetToken))
       | Inr (Some t) \<Rightarrow>
         (case ensure_token_can_be_used (Aware now) t of
           Inl e \<Rightarrow>
             (if is_invalid_reset e \<and> reset_is_expired (Aware now) t = Inr True
              then mark_token_expired t w else w, Inl (DomainErr e))
         | Inr _ \<Rightarrow>
           if \<not> list_ex (\<lambda>r. ur_id r = rt_user_id t \<and> ur_is_active r) (iw_users w)
           then (w, Inl (DomainErr PasswordResetUserInactive))
           else (case get_by_id (rt_user_id t) w of
               Inl e \<Rightarrow> (w, Inl e)
             | Inr None \<Rightarrow> (w, Inl (DomainErr PasswordResetUserInactive))
             | Inr (Some u) \<Rightarrow>
                 if \<not> is_active u then (w, Inl (DomainErr PasswordResetUserInactive))
                 else finish_reset check limit now plain hash ip agent t u w)))"

end
