(* ===== verification/Identity_Safety.thy ===== *)
theory Identity_Safety
  imports Identity_UseCases
begin

text \<open>
  What the identity use cases guarantee over the stored state: the user repository as a keyed store,
  status changes by administrators and their effect on sessions, email verification, and the three
  ways to set a password.
\<close>

section \<open>The user repository\<close>

definition find_user_row :: "uuid \<Rightarrow> id_world \<Rightarrow> user_row option" where
  "find_user_row i w = find (\<lambda>r. ur_id r = i) (iw_users w)"

text \<open>A user as the constructors of its values make it.\<close>

definition stored_ok :: "user \<Rightarrow> bool" where
  "stored_ok u =
     (user_ok u \<and> mk_email (u_email u) = Inr (u_email u) \<and>
      (case u_password_hash u of None \<Rightarrow> True | Some p \<Rightarrow> mk_password_hash p = Inr p))"

text \<open>The table keeps two flags, so two of the six statuses are not kept.\<close>

definition persisted_status :: "account_status \<Rightarrow> account_status" where
  "persisted_status s = (if s \<in> {SUSPENDED, LOCKED} then DEACTIVATED else s)"

definition read_back :: "instant \<Rightarrow> user \<Rightarrow> user_row option \<Rightarrow> user" where
  "read_back now u old =
     u\<lparr>u_status := persisted_status (u_status u),
       u_created_at := Aware (case old of None \<Rightarrow> now | Some r \<Rightarrow> ur_created_at r),
       u_updated_at := Aware now,
       u_last_login := (case old of None \<Rightarrow> None | Some r \<Rightarrow> map_option Aware (ur_last_login r)),
       u_events := []\<rparr>"

lemma mk_role_value [simp]: "mk_role (role_value r) = Inr r"
  by (cases r) (simp_all add: mk_role_def role_value_def)

lemma mk_status_value [simp]: "mk_status (status_value s) = Inr s"
  by (cases s) (simp_all add: mk_status_def status_value_def)

lemma mk_email_idem: "mk_email s = Inr e \<Longrightarrow> mk_email e = Inr e"
  using email_normalized by (auto simp: mk_email_def Let_def split: if_splits)

lemma mk_password_hash_Inr [res_simps]:
  "mk_password_hash s = Inr h \<longleftrightarrow> s \<noteq> '''' \<and> \<not> contains_control_character s \<and> h = s"
  by (auto simp: mk_password_hash_def)

lemma status_from_written [simp]: "status_from_model (write_row now u r) = persisted_status (u_status u)"
  by (cases "u_status u")
     (simp_all add: status_from_model_def write_row_def is_active_def is_verified_def persisted_status_def)

lemma write_row_sel [simp]:
  "ur_id (write_row now u r) = ur_id r" "ur_email (write_row now u r) = u_email u"
  "ur_password (write_row now u r) = u_password_hash u" "ur_first_name (write_row now u r) = u_first_name u"
  "ur_last_name (write_row now u r) = u_last_name u" "ur_role (write_row now u r) = role_value (u_role u)"
  "ur_two_factor_enabled (write_row now u r) = u_two_factor_enabled u"
  "ur_auth_token_version (write_row now u r) = u_auth_token_version u"
  "ur_is_active (write_row now u r) = is_active u" "ur_is_verified (write_row now u r) = is_verified u"
  "ur_created_at (write_row now u r) = ur_created_at r" "ur_updated_at (write_row now u r) = now"
  "ur_last_login (write_row now u r) = ur_last_login r"
  by (simp_all add: write_row_def)

lemma persisted_flags [simp]:
  "is_active (u\<lparr>u_status := persisted_status s\<rparr>) = (s \<in> {ACTIVE, PENDING_VERIFICATION})"
  "is_verified (u\<lparr>u_status := persisted_status s\<rparr>) = (s \<in> {ACTIVE, DEACTIVATED, SUSPENDED, LOCKED})"
  by (cases s; simp add: is_active_def is_verified_def persisted_status_def)+

lemma to_domain_write:
  assumes "stored_ok u" "ur_id r = u_id u"
  shows "to_domain (write_row now u r) =
    Inr (u\<lparr>u_status := persisted_status (u_status u), u_created_at := Aware (ur_created_at r),
      u_updated_at := Aware now, u_last_login := map_option Aware (ur_last_login r), u_events := []\<rparr>)"
proof -
  have p: "(case u_password_hash u of None \<Rightarrow> Inr None
      | Some p \<Rightarrow> res_bind (mk_password_hash p) (\<lambda>h. Inr (Some h))) = Inr (u_password_hash u)"
    using assms(1) by (simp add: stored_ok_def split: option.splits)
  have l: "(case x of None \<Rightarrow> Inr () | Some t \<Rightarrow> (validate_timezone_aware \<circ> Aware) t) = Inr ()" for x
    by (simp add: validate_timezone_aware_def ensure_def split: option.splits)
  show ?thesis
    using assms
    by (simp add: to_domain_def mk_user_def stored_ok_def user_ok_def p l validate_timezone_aware_def
        ensure_def now_or_def)
qed

lemma to_domain_ok:
  assumes "to_domain r = Inr u"
  shows "stored_ok u" "u_id u = ur_id r" "u_status u = status_from_model r"
    "u_auth_token_version u = ur_auth_token_version r" "u_events u = []"
proof -
  from assms obtain e p a where u: "mk_user (Aware 0) a = Inr u" "ua_email a = e" "ua_password_hash a = p"
    "mk_email (ur_email r) = Inr e" "p = None \<or> (\<exists>h x. p = Some h \<and> mk_password_hash x = Inr h)"
    "ua_id a = ur_id r" "ua_status a = Some (status_value (status_from_model r))"
    "ua_auth_token_version a = ur_auth_token_version r"
    unfolding to_domain_def res_bind_Inr by (fastforce split: option.splits simp: res_bind_Inr)
  from mk_user_ok [OF u(1)] have "user_ok u" .
  moreover from u(1) have v: "u_email u = ua_email a" "u_password_hash u = ua_password_hash a" "u_id u = ua_id a"
    "u_status u = status_from_model r" "u_auth_token_version u = ua_auth_token_version a" "u_events u = []"
    using u(7) by (auto simp: mk_user_def res_simps split: if_splits)
  ultimately show "stored_ok u"
    using u mk_email_idem by (auto simp: stored_ok_def mk_password_hash_Inr)
  from v u show "u_id u = ur_id r" "u_status u = status_from_model r"
    "u_auth_token_version u = ur_auth_token_version r" "u_events u = []" by simp_all
qed

lemma find_user_row_id: "find_user_row i w = Some r \<Longrightarrow> ur_id r = i"
  unfolding find_user_row_def by (auto dest: find_Some_set)

lemma get_by_id_Some:
  "get_by_id i w = Inr (Some u) \<longleftrightarrow> (\<exists>r. find_user_row i w = Some r \<and> to_domain r = Inr u)"
  by (auto simp: get_by_id_def optional_user_def find_user_row_def res_simps split: option.splits)

lemma loaded_ok:
  assumes "get_by_id i w = Inr (Some u)"
  shows "stored_ok u" "u_id u = i" "u_status u \<notin> {SUSPENDED, LOCKED}" "u_events u = []"
  using assms to_domain_ok find_user_row_id
  by (fastforce simp: get_by_id_Some status_from_model_def split: if_splits)+

lemma get_by_id_row: "find_user_row i w = find_user_row i w' \<Longrightarrow> get_by_id i w = get_by_id i w'"
  by (simp add: get_by_id_def find_user_row_def)

text \<open>What a saved row is.\<close>

definition row_of :: "instant \<Rightarrow> user \<Rightarrow> id_world \<Rightarrow> user_row" where
  "row_of now u w = write_row now u (case find_user_row (u_id u) w of None \<Rightarrow> new_row now (u_id u) | Some r \<Rightarrow> r)"


lemma ur_id_row_of [simp]: "ur_id (row_of now u w) = u_id u"
  by (auto simp: row_of_def new_row_def dest: find_user_row_id split: option.splits)

definition email_taken :: "user \<Rightarrow> id_world \<Rightarrow> bool" where
  "email_taken u w = list_ex (\<lambda>r. ur_email r = u_email u \<and> ur_id r \<noteq> u_id u) (iw_users w)"

lemma save_user_result:
  assumes "stored_ok u"
  shows "snd (save_user limit now u w) =
    (if email_taken u w then Inl IntegrityErr else Inr (read_back now u (find_user_row (u_id u) w)))"
proof -
  have "ur_id (case find_user_row (u_id u) w of None \<Rightarrow> new_row now (u_id u) | Some r \<Rightarrow> r) = u_id u"
    by (auto simp: new_row_def dest: find_user_row_id split: option.splits)
  from to_domain_write [OF assms this, of now] show ?thesis
    by (auto simp: save_user_def email_taken_def find_user_row_def [symmetric] Let_def read_back_def new_row_def
        split: option.splits)
qed

lemma save_user_users:
  "iw_users (fst (save_user limit now u w)) =
     (if email_taken u w then iw_users w
      else upsert (\<lambda>r. ur_id r = u_id u) (\<lambda>_. row_of now u w) (row_of now u w) (iw_users w))"
  by (auto simp: save_user_def email_taken_def row_of_def find_user_row_def Let_def split: option.splits)

lemma save_user_row:
  assumes "\<not> email_taken u w"
  shows "find_user_row i (fst (save_user limit now u w)) =
    (if i = u_id u then Some (row_of now u w) else find_user_row i w)"
  using assms save_user_users [of limit now u w]
  by (cases "i = u_id u")
     (auto simp: find_user_row_def find_upsert intro!: find_upsert_other split: option.splits)

lemma save_user_frame [simp]:
  "iw_sessions (fst (save_user limit now u w)) = iw_sessions w"
  "iw_outbox (fst (save_user limit now u w)) = iw_outbox w"
  "iw_resets (fst (save_user limit now u w)) = iw_resets w"
  "iw_challenges (fst (save_user limit now u w)) = iw_challenges w"
  by (simp_all add: save_user_def Let_def)

lemma save_user_email: "\<not> email_taken u w \<Longrightarrow> \<not> email_taken u (fst (save_user limit now u w))"
  using set_upsert [of "\<lambda>r. ur_id r = u_id u" "\<lambda>_. row_of now u w" "row_of now u w" "iw_users w"]
  by (auto simp: email_taken_def save_user_users list_ex_iff)

definition put_user :: "int \<Rightarrow> instant \<Rightarrow> user \<Rightarrow> id_world \<Rightarrow> (app_exn, id_world) res" where
  "put_user limit now u w =
     (case save_user limit now u w of (_, Inl e) \<Rightarrow> Inl e | (w', Inr _) \<Rightarrow> Inr w')"

lemma put_user_Inr:
  "put_user limit now u w = Inr w' \<Longrightarrow> \<not> email_taken u w \<and> w' = fst (save_user limit now u w)"
  by (auto simp: put_user_def save_user_def email_taken_def Let_def split: if_splits sum.splits prod.splits)

interpretation users: keyed_store "put_user limit now" find_user_row u_id "row_of now" "\<lambda>_. True" for limit now
  by unfold_locales (auto dest!: put_user_Inr simp: save_user_row)

text \<open>C28. Saving a user whose email no other account has succeeds and reads the user back: the id,
  email, password, names, role, second factor and token version as saved, the creation and login
  times of the row, and of the status only its two flags, so that a suspended or locked account
  comes back as a deactivated one. Every other account is as before.\<close>

theorem user_repository_round_trip:
  assumes "stored_ok u" and "\<not> email_taken u w"
  shows "\<exists>w'. save_user limit now u w = (w', Inr (read_back now u (find_user_row (u_id u) w))) \<and>
    get_by_id (u_id u) w' = Inr (Some (read_back now u (find_user_row (u_id u) w))) \<and>
    (\<forall>i. i \<noteq> u_id u \<longrightarrow> get_by_id i w' = get_by_id i w)"
proof -
  obtain w' x where s: "save_user limit now u w = (w', x)" by fastforce
  with save_user_result [OF assms(1), of limit now w] assms(2)
  have x: "x = Inr (read_back now u (find_user_row (u_id u) w))" by simp
  with s have put: "put_user limit now u w = Inr w'" by (simp add: put_user_def)
  have "to_domain (row_of now u w) = Inr (read_back now u (find_user_row (u_id u) w))"
    using to_domain_write [OF assms(1)]
    by (auto simp: row_of_def read_back_def new_row_def dest: find_user_row_id split: option.splits)
  then have "get_by_id (u_id u) w' = Inr (Some (read_back now u (find_user_row (u_id u) w)))"
    using users.get_put_same [OF TrueI put] by (simp add: get_by_id_Some)
  moreover have "get_by_id i w' = get_by_id i w" if "i \<noteq> u_id u" for i
    using users.get_put_other [OF TrueI put that] by (rule get_by_id_row)
  ultimately show ?thesis using s x by blast
qed


section \<open>A stored state for the examples\<close>

definition sample_user_row :: user_row where
  "sample_user_row = \<lparr>ur_id = 1, ur_email = ''a@b.c'', ur_password = Some ''h'', ur_first_name = ''Ann'',
     ur_last_name = ''Lee'', ur_role = ''planner'', ur_two_factor_enabled = False, ur_totp_secret = None,
     ur_auth_token_version = 3, ur_is_active = True, ur_is_verified = True, ur_created_at = 0,
     ur_updated_at = 0, ur_last_login = None\<rparr>"

definition sample_challenge_row :: challenge where
  "sample_challenge_row = \<lparr>vc_user_id = 1, vc_purpose = EMAIL, vc_code_digest = ''d'', vc_expires_at = Aware 9000000,
     vc_resend_available_at = Aware 10, vc_id = 7, vc_issued_at = Aware 0, vc_failed_attempts = 0,
     vc_max_attempts = 5, vc_succeeded_at = None, vc_expired_at = None, vc_events = []\<rparr>"

definition sample_reset :: reset_token where
  "sample_reset = \<lparr>rt_id = 5, rt_user_id = 1, rt_jti = ''j'', rt_token_hash = ''raw'', rt_status = RESET_ACTIVE,
     rt_expires_at = Aware 9000000, rt_used_at = None, rt_used_ip_hash = None, rt_used_user_agent_hash = None\<rparr>"

definition sample_id_world :: id_world where
  "sample_id_world =
     \<lparr>iw_users = [sample_user_row, sample_user_row\<lparr>ur_id := 2, ur_email := ''x@y.z'', ur_role := ''admin''\<rparr>],
      iw_history = [], iw_sessions = \<lparr>sw_blacklist = [], sw_families = [], sw_cutoffs = [],
        sw_sessions = [\<lparr>sr_id = 9, sr_user_id = 1, sr_token_family = ''f'', sr_device_label = ''d'',
          sr_user_agent_hash = None, sr_ip_hash = None, sr_created_at = 0, sr_last_seen_at = 0,
          sr_revoked_at = None, sr_revoked_reason = ''''\<rparr>], sw_users = []\<rparr>,
      iw_outbox = [], iw_resets = [sample_reset], iw_challenges = [(7, sample_challenge_row, 9000000)],
      iw_mfa = [], iw_replay = [], iw_recovery = [], iw_mails = [],
      iw_lockout = \<lparr>lc_attempts = [], lc_locks = []\<rparr>\<rparr>"

lemma user_repository_round_trip_witness:
  "\<exists>w' v. save_user 5 100 (sample_user\<lparr>u_status := SUSPENDED\<rparr>) sample_id_world = (w', Inr v) \<and>
     get_by_id 1 w' = Inr (Some v) \<and> u_status v = DEACTIVATED"
proof -
  have "stored_ok (sample_user\<lparr>u_status := SUSPENDED\<rparr>)" by code_simp
  moreover have "\<not> email_taken (sample_user\<lparr>u_status := SUSPENDED\<rparr>) sample_id_world" by code_simp
  ultimately show ?thesis
    using user_repository_round_trip [of "sample_user\<lparr>u_status := SUSPENDED\<rparr>" sample_id_world 5 100]
    by (auto simp: sample_user_def read_back_def persisted_status_def)
qed

section \<open>Status changes by an administrator\<close>

lemma load_admin_ok:
  assumes "load_admin_context a i w = Inr (actor, target)"
  shows "get_by_id i w = Inr (Some target)" "a = Some (u_id actor)" "get_by_id (u_id actor) w = Inr (Some actor)"
    "u_role actor = ADMIN"
proof -
  from assms obtain b where b: "get_by_id i w = Inr (Some target)" "a = Some b" "get_by_id b w = Inr (Some actor)"
    "res_bind (context_for_actor (u_id target) (u_role target) (u_role target) (Some (u_id actor))
       (Some (role_value (u_role actor))) None) ensure_can_assign = Inr ()"
    by (auto simp: load_admin_context_def require_user_def res_simps lift_dom_Inr split: option.splits)
  then show "get_by_id i w = Inr (Some target)" "a = Some (u_id actor)" "get_by_id (u_id actor) w = Inr (Some actor)"
    using loaded_ok(2) by auto
  from b(4) show "u_role actor = ADMIN"
    by (simp add: context_for_actor_def ensure_can_assign_Inr permissions_mem)
qed

lemma dispatch_frame [simp]:
  "iw_users (dispatch_events es w) = iw_users w" "iw_sessions (dispatch_events es w) = iw_sessions w"
  "iw_resets (dispatch_events es w) = iw_resets w" "iw_challenges (dispatch_events es w) = iw_challenges w"
  "find_user_row i (dispatch_events es w) = find_user_row i w"
  by (simp_all add: dispatch_events_def find_user_row_def)

text \<open>A successful administration: the row of the target is the mutated user's, no other changes.\<close>

lemma administer_ok:
  assumes "administer limit now a i f w = (w', Inr ())"
  obtains actor u u' where "load_admin_context a i w = Inr (actor, u)" "f actor u = (u', Inr ())"
    "\<not> email_taken u' w'" "find_user_row (u_id u') w' = Some (row_of now u' w)"
    "\<forall>j. j \<noteq> u_id u' \<longrightarrow> find_user_row j w' = find_user_row j w" "iw_sessions w' = iw_sessions w"
    "iw_outbox w' = iw_outbox w @ map UserEvent (u_events u')"
proof -
  from assms obtain actor u u' w1 v where l: "load_admin_context a i w = Inr (actor, u)" "f actor u = (u', Inr ())"
    "save_user limit now u' w = (w1, Inr v)" "w' = dispatch_events (map UserEvent (u_events u')) w1"
    by (auto simp: administer_def save_and_dispatch_def split: sum.splits prod.splits)
  from l(3) have put: "put_user limit now u' w = Inr w1" by (simp add: put_user_def)
  have w1: "w1 = fst (save_user limit now u' w)" using l(3) by simp
  have "\<not> email_taken u' w1" using put_user_Inr [OF put] save_user_email by simp
  with users.get_put [OF TrueI put] l(4) w1
  show thesis by (intro that [OF l(1,2)]) (auto simp: dispatch_events_def find_user_row_def email_taken_def)
qed

lemma sessions_of_sel [simp]:
  "sw_users (sessions_of w) = map token_state_of (iw_users w)"
  "sw_blacklist (sessions_of w) = sw_blacklist (iw_sessions w)"
  "sw_families (sessions_of w) = sw_families (iw_sessions w)"
  "sw_sessions (sessions_of w) = sw_sessions (iw_sessions w)"
  by (simp_all add: sessions_of_def)

lemma user_state_row: "user_state (Some i) (sessions_of w) = map_option token_state_of (find_user_row i w)"
proof -
  have "find (\<lambda>s. ts_user_id s = i) (map token_state_of rows) =
      map_option token_state_of (find (\<lambda>r. ur_id r = i) rows)" for rows
    by (induction rows) (auto simp: token_state_of_def)
  then show ?thesis by (simp add: user_state_def find_user_row_def)
qed

lemma revoke_all_frame [simp]:
  "iw_users (revoke_all_of now i reason w) = iw_users w" "iw_resets (revoke_all_of now i reason w) = iw_resets w"
  "iw_outbox (revoke_all_of now i reason w) = iw_outbox w" "find_user_row j (revoke_all_of now i reason w) = find_user_row j w"
  "iw_challenges (revoke_all_of now i reason w) = iw_challenges w"
  "iw_history (revoke_all_of now i reason w) = iw_history w"
  by (simp_all add: revoke_all_of_def with_sessions_def find_user_row_def case_prod_unfold Let_def)


lemma fold_sessions: "sw_sessions (fold (\<lambda>s. blacklist_family now (g s)) ss w) = sw_sessions w"
  by (induction ss arbitrary: w) (simp_all add: blacklist_family_def)

lemma no_session_left:
  "list_active_identity_sessions i (sessions_of (revoke_all_of now i reason w)) = []"
proof -
  have "filter (\<lambda>r. sr_user_id r = i \<and> sr_revoked_at r = None)
      (map (\<lambda>r. if sr_user_id r = i \<and> sr_revoked_at r = None then mark_revoked_row now reason r else r) rows) = []"
    for rows by (induction rows) (simp_all add: mark_revoked_row_def)
  then show ?thesis
    unfolding list_active_identity_sessions_def
    by (simp add: revoke_all_of_def with_sessions_def revoke_all_sessions_def
        revoke_all_identity_sessions_def case_prod_unfold Let_def del: filter_map)
qed




lemma stale_version_refused:
  assumes "find_user_row i w = Some r" "rf_auth_token_version c = Some n" "n \<noteq> ur_auth_token_version r"
    and "inspect_refresh_token st raw = Inr c" "rf_user_id c = Some i"
  shows "\<not> is_ok (snd (refresh_session st t acc ref raw (sessions_of w)))"
proof
  assume "is_ok (snd (refresh_session st t acc ref raw (sessions_of w)))"
  from refresh_ok(3) [OF assms(4) this] assms show False
    by (simp add: token_version_matches_active_user_def user_state_row token_state_of_def)
qed

lemma suspend_outcome:
  assumes "suspend clock reason now actor u = (u', Inr ())" "u_status u \<notin> {SUSPENDED, LOCKED}"
  shows "u_id u' = u_id u" "u_email u' = u_email u" "u_status u' = SUSPENDED"
    "u_auth_token_version u' = u_auth_token_version u + 1" "is_verified u"
proof -
  have "fst (suspend clock reason now actor u) = u'" "snd (suspend clock reason now actor u) = Inr ()"
    using assms(1) by simp_all
  then show "u_id u' = u_id u" "u_email u' = u_email u" "u_status u' = SUSPENDED"
    "u_auth_token_version u' = u_auth_token_version u + 1" "is_verified u"
    using assms(2)
    by (auto simp: suspend_def Let_def ensure_account_can_be_activated_def rotate_auth_token_version_def ensure_Inr
        split: if_splits sum.splits)
qed

lemma suspend_account_ok:
  assumes "suspend_account limit now a i reason w = (w', Inr ())"
  obtains actor u r where "load_admin_context a i w = Inr (actor, u)" "is_verified u" "find_user_row i w' = Some r"
    "\<not> ur_is_active r" "ur_is_verified r" "ur_auth_token_version r = u_auth_token_version u + 1" "ur_email r = u_email u"
    "\<not> email_taken u w'" "\<forall>j. j \<noteq> i \<longrightarrow> find_user_row j w' = find_user_row j w"
    "\<exists>w1. w' = revoke_all_of now i ''account_suspended'' w1 \<and> iw_sessions w1 = iw_sessions w"
proof -
  from assms obtain w1 where w1: "administer limit now a i (\<lambda>actor target.
      suspend (Aware now) reason (Some (Aware now)) (Some (u_id actor)) target) w = (w1, Inr ())"
    "w' = revoke_all_of now i ''account_suspended'' w1"
    by (auto simp: suspend_account_def split: sum.splits prod.splits)
  from w1(1) obtain actor u u' where u: "load_admin_context a i w = Inr (actor, u)"
    "suspend (Aware now) reason (Some (Aware now)) (Some (u_id actor)) u = (u', Inr ())"
    "\<not> email_taken u' w1" "find_user_row (u_id u') w1 = Some (row_of now u' w)"
    "\<forall>j. j \<noteq> u_id u' \<longrightarrow> find_user_row j w1 = find_user_row j w" "iw_sessions w1 = iw_sessions w"
    by (rule administer_ok)
  note l = loaded_ok [OF load_admin_ok(1) [OF u(1)]]
  note s = suspend_outcome [OF u(2) l(3)]
  show thesis
  proof (rule that [OF u(1) s(5)])
    show "find_user_row i w' = Some (row_of now u' w)" using u(4) s l w1(2) by simp
    show "\<not> email_taken u w'" using u(3) s w1(2) by (simp add: email_taken_def)
    show "\<exists>w1. w' = revoke_all_of now i ''account_suspended'' w1 \<and> iw_sessions w1 = iw_sessions w"
      using w1(2) u(6) by blast
  qed (use u s l w1 in \<open>auto simp: row_of_def is_active_def is_verified_def\<close>)
qed



lemma outcome_pair: "snd p = x \<Longrightarrow> p = (fst p, x)"
  by (cases p) simp


lemma update_profile_keeps:
  assumes "update_profile clock f l u = (u', Inr ())" "stored_ok u"
  shows "stored_ok u'" "u_id u' = u_id u" "u_email u' = u_email u" "u_status u' = u_status u"
    "u_auth_token_version u' = u_auth_token_version u" "u_events u' = u_events u"
proof -
  have "user_ok u'"
    using user_step_ok [of u "(clock, UpdateProfile f l)"] assms
    by (simp add: user_step_def stored_ok_def)
  moreover from assms(1) show "u_id u' = u_id u" "u_email u' = u_email u" "u_status u' = u_status u"
    "u_auth_token_version u' = u_auth_token_version u" "u_events u' = u_events u"
    by (auto simp: update_profile_def split: sum.splits if_splits)
  moreover from assms(1) have "u_password_hash u' = u_password_hash u"
    by (auto simp: update_profile_def split: sum.splits if_splits)
  ultimately show "stored_ok u'" using assms(2) by (simp add: stored_ok_def)
qed

lemma email_taken_revoke [simp]: "email_taken u (revoke_all_of now i reason w) = email_taken u w"
  by (simp add: email_taken_def)

text \<open>C30. A profile update that loaded an active account before an administrator suspended it, and
  saves after that, undoes the suspension: \<open>save\<close> writes every field of the loaded user, so the row
  is active again and carries the old token version, which the suspension had made stale.\<close>

theorem stale_save_undoes_suspension:
  assumes "get_by_id i w = Inr (Some u)" and "u_status u = ACTIVE"
    and "suspend_account limit now a i reason w = (w1, Inr ())"
    and "update_profile clock f l u = (u', Inr ())"
  shows "\<exists>w2 v. save_user limit t u' w1 = (w2, Inr v) \<and> u_status v = ACTIVE \<and>
    \<not> token_version_matches_active_user (Some i) (Some (u_auth_token_version u)) (sessions_of w1) \<and>
    token_version_matches_active_user (Some i) (Some (u_auth_token_version u)) (sessions_of w2)"
proof -
  from assms(3) obtain actor u0 r w0 where s: "load_admin_context a i w = Inr (actor, u0)" "find_user_row i w1 = Some r"
    "\<not> ur_is_active r" "\<forall>j. j \<noteq> i \<longrightarrow> find_user_row j w1 = find_user_row j w" "\<not> email_taken u0 w1"
    by (auto elim: suspend_account_ok)
  note l = loaded_ok [OF assms(1)] and k = update_profile_keeps [OF assms(4) loaded_ok(1) [OF assms(1)]]
  have u0: "u0 = u" using load_admin_ok(1) [OF s(1)] assms(1) by simp
  have "\<not> email_taken u' w1" using s(5) k u0 by (simp add: email_taken_def)
  then obtain w2 where w2: "save_user limit t u' w1 = (w2, Inr (read_back t u' (Some r)))"
    "get_by_id i w2 = Inr (Some (read_back t u' (Some r)))"
    using user_repository_round_trip [OF k(1), of w1 limit t] s(2) k(2) l(2) by auto
  from w2(2) obtain q where q: "find_user_row i w2 = Some q" "to_domain q = Inr (read_back t u' (Some r))"
    by (auto simp: get_by_id_Some)
  have st: "status_from_model q = ACTIVE" and v: "ur_auth_token_version q = u_auth_token_version u"
    using to_domain_ok(3,4) [OF q(2)] k(4,5) assms(2) by (simp_all add: read_back_def persisted_status_def)
  have "ur_is_active q" using st by (simp add: status_from_model_def split: if_splits)
  then have "token_version_matches_active_user (Some i) (Some (u_auth_token_version u)) (sessions_of w2)"
    using v by (simp add: token_version_matches_active_user_def user_state_row q(1) token_state_of_def)
  moreover have "\<not> token_version_matches_active_user (Some i) (Some (u_auth_token_version u)) (sessions_of w1)"
    using s(2,3) by (simp add: token_version_matches_active_user_def user_state_row token_state_of_def)
  ultimately show ?thesis
    using w2(1) k(4) assms(2) by (simp add: read_back_def persisted_status_def)
qed


lemma sample_loaded: "get_by_id 1 sample_id_world = Inr (Some sample_user)"
  by code_simp

lemma stale_save_undoes_suspension_witness:
  "\<exists>u' w2 v. update_profile (Aware 50) (Some ''Eve'') None sample_user = (u', Inr ()) \<and>
     save_user 5 200 u' (fst (suspend_account 5 100 (Some 2) 1 ''abuse'' sample_id_world)) = (w2, Inr v) \<and>
     u_status v = ACTIVE"
proof -
  have s: "snd (suspend_account 5 100 (Some 2) 1 ''abuse'' sample_id_world) = Inr ()" by code_simp
  have p: "snd (update_profile (Aware 50) (Some ''Eve'') None sample_user) = Inr ()" by code_simp
  have "u_status sample_user = ACTIVE" by (simp add: sample_user_def)
  from stale_save_undoes_suspension [OF sample_loaded this outcome_pair [OF s] outcome_pair [OF p], where t = 200]
  show ?thesis using outcome_pair [OF p] by blast
qed

section \<open>Email verification\<close>

definition challenges_ok :: "id_world \<Rightarrow> bool" where
  "challenges_ok w = (\<forall>(k, c, _) \<in> set (iw_challenges w). vc_id c = k)"

lemma get_challenge_id: "challenges_ok w \<Longrightarrow> get_challenge now i w = Some c \<Longrightarrow> vc_id c = i"
  by (auto simp: challenges_ok_def get_challenge_def cache_get_def dest!: map_of_SomeD split: option.splits if_splits)

lemma save_challenge_ok:
  assumes "save_challenge now c w = (w', Inr ())"
  shows "\<exists>e. vc_expires_at c = Aware e \<and>
      (\<forall>t. get_challenge t (vc_id c) w' = Some (c\<lparr>vc_events := []\<rparr>) \<or> get_challenge t (vc_id c) w' = None)"
    "iw_users w' = iw_users w" "find_user_row i w' = find_user_row i w" "email_taken u w' = email_taken u w"
  using assms
  by (auto simp: save_challenge_def get_challenge_def cache_get_def find_user_row_def email_taken_def
      split: datetime.splits if_splits)

lemma consume_ok:
  "consume clock None c = (c', Inr ()) \<Longrightarrow>
     is_succeeded c' \<and> vc_id c' = vc_id c \<and> vc_user_id c' = vc_user_id c \<and> vc_purpose c' = vc_purpose c \<and>
     vc_expires_at c' = vc_expires_at c"
  by (auto simp: consume_def then_do_def ensure_usable_def is_succeeded_def emit_def Let_def
      split: if_splits sum.splits bool.splits prod.splits)

lemma verify_email_ok:
  assumes "verify_email now (Some i) w limit = (w', Inr ())"
  obtains c c' u u' w1 w2 where "get_challenge now i w = Some c" "get_by_id (vc_user_id c) w = Inr (Some u)"
    "consume (Aware now) None c = (c', Inr ())" "ensure_terminal_challenge_succeeded c' ''email'' = Inr ()"
    "mark_verified (Aware now) c' None u = (u', Inr ())" "save_challenge now c' w = (w1, Inr ())"
    "put_user limit now u' w1 = Inr w2" "iw_users w' = iw_users w2" "iw_challenges w' = iw_challenges w1"
proof -
  from assms obtain c c' u u' w1 w2 v where *: "get_challenge now i w = Some c"
    "require_user ''User not found'' (get_by_id (vc_user_id c) w) = Inr u"
    "consume (Aware now) None c = (c', Inr ())" "ensure_terminal_challenge_succeeded c' ''email'' = Inr ()"
    "mark_verified (Aware now) c' None u = (u', Inr ())" "save_challenge now c' w = (w1, Inr ())"
    "save_user limit now u' w1 = (w2, Inr v)"
    "w' = dispatch_events (map UserEvent (u_events u')) (dispatch_events (map ChallengeEvent (vc_events c')) w2)"
    unfolding verify_email_def by (auto split: option.splits sum.splits prod.splits if_splits)
  have "iw_challenges w2 = iw_challenges w1"
    using save_user_frame(4) [of limit now u' w1] *(7) by simp
  with * show thesis
    by (intro that [of c u c' u' w1 w2])
       (auto simp: put_user_def require_user_def res_simps split: option.splits)
qed

lemma verify_email_spent:
  assumes "get_challenge t i w = None \<or> (\<exists>c. get_challenge t i w = Some c \<and> is_succeeded c \<and>
      (\<exists>e. vc_expires_at c = Aware e) \<and> (\<exists>u. get_by_id (vc_user_id c) w = Inr (Some u)))"
  shows "snd (verify_email t (Some i) w limit) = Inl bad_token"
  using assms
  by (auto simp: verify_email_def require_user_def consume_def then_do_def ensure_usable_def save_challenge_def
      split: prod.splits)

lemma mark_verified_ok:
  assumes "mark_verified clock c now u = (u', Inr ())"
  shows "u_id u' = u_id u" "u_email u' = u_email u" "u_password_hash u' = u_password_hash u" "u_role u' = u_role u"
    "u_auth_token_version u' = u_auth_token_version u"
    "u_status u' = (if is_verified u then u_status u else ACTIVE)" "stored_ok u \<Longrightarrow> stored_ok u'"
proof -
  from assms show g: "u_id u' = u_id u" "u_email u' = u_email u" "u_password_hash u' = u_password_hash u"
    "u_role u' = u_role u" "u_auth_token_version u' = u_auth_token_version u"
    "u_status u' = (if is_verified u then u_status u else ACTIVE)"
    by (auto simp: mark_verified_def Let_def split: if_splits sum.splits)
  show "stored_ok u'" if "stored_ok u"
    using user_step_ok [of u "(clock, MarkVerified c now)"] assms that g(2,3)
    by (simp add: user_step_def stored_ok_def)
qed

text \<open>A successful verification of an email consumed a challenge for the email purpose and changed
  the one account the challenge names: it is verified afterwards, with the same password, role and
  token version. An account that was not verified is active too, even one that an administrator had
  deactivated before it verified. The same token is refused from then on.\<close>

theorem verify_email_once:
  assumes "verify_email now (Some i) w limit = (w', Inr ())" and "challenges_ok w"
  shows "\<exists>c r r'. get_challenge now i w = Some c \<and> vc_purpose c = EMAIL \<and> \<not> is_succeeded c \<and>
    find_user_row (vc_user_id c) w = Some r \<and> find_user_row (vc_user_id c) w' = Some r' \<and>
    ur_is_verified r' \<and> (ur_is_active r' \<longleftrightarrow> ur_is_active r \<or> \<not> ur_is_verified r) \<and>
    ur_password r' = ur_password r \<and> ur_auth_token_version r' = ur_auth_token_version r \<and>
    (\<forall>j. j \<noteq> vc_user_id c \<longrightarrow> find_user_row j w' = find_user_row j w) \<and>
    (\<forall>t. snd (verify_email t (Some i) w' limit) = Inl bad_token)"
proof -
  from assms(1) obtain c c' u u' w1 w2 where v: "get_challenge now i w = Some c"
    "get_by_id (vc_user_id c) w = Inr (Some u)" "consume (Aware now) None c = (c', Inr ())"
    "ensure_terminal_challenge_succeeded c' ''email'' = Inr ()" "mark_verified (Aware now) c' None u = (u', Inr ())"
    "save_challenge now c' w = (w1, Inr ())" "put_user limit now u' w1 = Inr w2" "iw_users w' = iw_users w2"
    "iw_challenges w' = iw_challenges w1" by (rule verify_email_ok)
  note c' = consume_ok [OF v(3)] and l = loaded_ok [OF v(2)] and m = mark_verified_ok [OF v(5)]
  from v(2) obtain r where r: "find_user_row (vc_user_id c) w = Some r" "to_domain r = Inr u"
    by (auto simp: get_by_id_Some)
  have rows: "find_user_row j w' = (if j = vc_user_id c then Some (row_of now u' w1) else find_user_row j w)" for j
    using users.get_put [OF TrueI v(7), of j] v(8) save_challenge_ok(3) [OF v(6)] m(1) l(2)
    by (simp add: find_user_row_def)
  have "row_of now u' w1 = write_row now u' r"
    using r(1) save_challenge_ok(3) [OF v(6)] m(1) l(2) by (simp add: row_of_def)
  moreover have pw: "u_password_hash u = ur_password r"
    using r(2) by (auto simp: to_domain_def mk_user_def res_simps split: option.splits if_splits)
  moreover have flags: "is_verified u = ur_is_verified r" "is_active u = ur_is_active r"
    using to_domain_ok(3) [OF r(2)] by (auto simp: is_verified_def is_active_def status_from_model_def)
  ultimately have row: "ur_is_verified (row_of now u' w1)"
    "ur_is_active (row_of now u' w1) \<longleftrightarrow> ur_is_active r \<or> \<not> ur_is_verified r"
    "ur_password (row_of now u' w1) = ur_password r"
    "ur_auth_token_version (row_of now u' w1) = ur_auth_token_version r"
    using m(3,5,6) to_domain_ok(4) [OF r(2)]
    by (auto simp: is_verified_def is_active_def)
  have id: "vc_id c' = i" using get_challenge_id [OF assms(2) v(1)] c' by simp
  have user: "\<exists>x. get_by_id (vc_user_id c') w' = Inr (Some x)"
    using to_domain_write [OF m(7) [OF l(1)], of r now] rows [of "vc_user_id c"] c' m(1) l(2)
      to_domain_ok(2) [OF r(2)] \<open>row_of now u' w1 = write_row now u' r\<close>
    by (auto simp: get_by_id_Some)
  have g: "get_challenge t i w' = get_challenge t i w1" for t using v(9) by (simp add: get_challenge_def)
  have "snd (verify_email t (Some i) w' limit) = Inl bad_token" for t
  proof (rule verify_email_spent)
    obtain e where e: "vc_expires_at c' = Aware e"
      "get_challenge t i w' = Some (c'\<lparr>vc_events := []\<rparr>) \<or> get_challenge t i w' = None"
      using save_challenge_ok(1) [OF v(6)] unfolding id g by blast
    with user c' show "get_challenge t i w' = None \<or> (\<exists>c. get_challenge t i w' = Some c \<and> is_succeeded c \<and>
        (\<exists>e. vc_expires_at c = Aware e) \<and> (\<exists>u. get_by_id (vc_user_id c) w' = Inr (Some u)))"
      by (force simp: is_succeeded_def)
  qed
  moreover have "\<not> is_succeeded c"
    using v(3) by (auto simp: consume_def then_do_def ensure_usable_def Let_def)
  moreover have "vc_purpose c = EMAIL"
    using v(4) c' by (auto simp: ensure_terminal_challenge_succeeded_def mk_purpose_def res_simps split: if_splits)
  ultimately show ?thesis using v(1) r(1) rows row by auto
qed


lemma verify_email_once_witness:
  "\<exists>w'. verify_email 100 (Some 7) sample_id_world 5 = (w', Inr ()) \<and>
     snd (verify_email 200 (Some 7) w' 5) = Inl bad_token"
proof -
  have v: "snd (verify_email 100 (Some 7) sample_id_world 5) = Inr ()" by code_simp
  have "challenges_ok sample_id_world" by (simp add: challenges_ok_def sample_id_world_def sample_challenge_row_def)
  from verify_email_once [OF outcome_pair [OF v] this] outcome_pair [OF v] show ?thesis by blast
qed

section \<open>Setting a password\<close>

lemma revoke_reason_users: "iw_users (revoke_all_of now i reason w) = iw_users (revoke_all_of now i reason' w)"
  by simp

lemma replace_password_reason:
  "snd (replace_password check limit now plain h reason hist u w) =
     snd (replace_password check limit now plain h reason' hist u w)"
  "iw_users (fst (replace_password check limit now plain h reason hist u w)) =
     iw_users (fst (replace_password check limit now plain h reason' hist u w))"
  by (simp_all add: replace_password_def unit_of_work_def rolled_back_def split: sum.splits prod.splits)

lemma pass_on [simp]:
  "fst (case p of (s, Inl e) \<Rightarrow> (s, Inl e) | (s, Inr x) \<Rightarrow> (s, Inr (g x))) = fst p"
  "is_ok (snd (case p of (s, Inl e) \<Rightarrow> (s, Inl e) | (s, Inr x) \<Rightarrow> (s, Inr (g x)))) = is_ok (snd p)"
  by (simp_all split: prod.splits sum.splits)

text \<open>For an account that has a password, setting one up through \<open>setup_password\<close> succeeds exactly
  when changing it with the current password would, and writes the same account: it replaces the
  password of an account without asking for the current one.\<close>

theorem setup_password_asks_nothing:
  assumes "get_by_id i w = Inr (Some u)" and "u_password_hash u = Some h" and "check current h"
  shows "is_ok (snd (setup_password check limit now i plain hash w)) =
      is_ok (snd (change_account_password check limit now i current plain hash w)) \<and>
    iw_users (fst (setup_password check limit now i plain hash w)) =
      iw_users (fst (change_account_password check limit now i current plain hash w))"
proof -
  obtain x where "res_bind (lift_dom (validate_password plain)) (\<lambda>_.
      res_bind (get_password_history limit (u_id u) w) (\<lambda>history.
      res_bind (lift_dom (mk_password_hash hash)) (\<lambda>h. Inr (history, h)))) = x" by simp
  with assms replace_password_reason [of check limit now plain _ "''password_setup''" _ u w "''password_changed''"]
  show ?thesis
    by (cases x; auto simp: setup_password_def change_account_password_def require_user_def)
qed


lemma setup_password_asks_nothing_witness:
  "is_ok (snd (setup_password (\<lambda>p h. p = h) 5 100 1 ''Secret#123'' ''new'' sample_id_world)) =
     is_ok (snd (change_account_password (\<lambda>p h. p = h) 5 100 1 ''h'' ''Secret#123'' ''new'' sample_id_world)) \<and>
   is_ok (snd (setup_password (\<lambda>p h. p = h) 5 100 1 ''Secret#123'' ''new'' sample_id_world))"
proof -
  have "u_password_hash sample_user = Some ''h''" by (simp add: sample_user_def)
  from setup_password_asks_nothing [OF sample_loaded this, of "\<lambda>p h. p = h" "''h''" 5 100 "''Secret#123''" "''new''"]
  have "is_ok (snd (setup_password (\<lambda>p h. p = h) 5 100 1 ''Secret#123'' ''new'' sample_id_world)) =
     is_ok (snd (change_account_password (\<lambda>p h. p = h) 5 100 1 ''h'' ''Secret#123'' ''new'' sample_id_world))"
    by simp
  moreover have "is_ok (snd (setup_password (\<lambda>p h. p = h) 5 100 1 ''Secret#123'' ''new'' sample_id_world))"
    by code_simp
  ultimately show ?thesis ..
qed

section \<open>Reset tokens work once\<close>

datatype reset_op =
    RIssue uuid uuid string string instant
  | RReset instant "(uuid \<times> string) option" string string string "string option" "string option"
  | RUsers "user_row list"

text \<open>\<open>RUsers\<close> is any other change of the user table. \<open>check\<close>, \<open>hash_token\<close> and \<open>limit\<close> are fixed.\<close>

fun reset_step ::
  "(string \<Rightarrow> string \<Rightarrow> bool) \<Rightarrow> (string \<Rightarrow> string) \<Rightarrow> int \<Rightarrow> reset_op \<Rightarrow> id_world \<Rightarrow> id_world" where
  "reset_step check h limit (RIssue i user jti raw expires) w = issue_reset_token h i user jti raw expires w"
| "reset_step check h limit (RReset now decoded raw plain hash ip agent) w =
     fst (reset_password check h limit now decoded raw plain hash ip agent w)"
| "reset_step check h limit (RUsers rows) w = w\<lparr>iw_users := rows\<rparr>"

text \<open>A reset with this raw token, which decodes to this user and \<open>jti\<close>, succeeds.\<close>

fun reset_accepts ::
  "(string \<Rightarrow> string \<Rightarrow> bool) \<Rightarrow> (string \<Rightarrow> string) \<Rightarrow> int \<Rightarrow> uuid \<times> string \<Rightarrow> string \<Rightarrow>
     reset_op \<Rightarrow> id_world \<Rightarrow> bool" where
  "reset_accepts check h limit claims token (RReset now decoded raw plain hash ip agent) w =
     (decoded = Some claims \<and> raw = token \<and>
      is_ok (snd (reset_password check h limit now decoded raw plain hash ip agent w)))"
| "reset_accepts check h limit claims token _ w = False"

definition matches_token :: "(string \<Rightarrow> string) \<Rightarrow> uuid \<times> string \<Rightarrow> string \<Rightarrow> reset_token \<Rightarrow> bool" where
  "matches_token h claims raw t =
     (rt_user_id t = fst claims \<and> rt_jti t = snd claims \<and> rt_token_hash t = h raw)"

definition reset_spent :: "(string \<Rightarrow> string) \<Rightarrow> uuid \<times> string \<Rightarrow> string \<Rightarrow> id_world \<Rightarrow> bool" where
  "reset_spent h claims raw w =
     (case find (matches_token h claims raw) (iw_resets w) of
          None \<Rightarrow> False | Some t \<Rightarrow> rt_status t \<noteq> RESET_ACTIVE)"

text \<open>Changes of a row that keep its identity and never activate it again.\<close>

definition reset_keeps :: "(reset_token \<Rightarrow> reset_token) \<Rightarrow> bool" where
  "reset_keeps f =
     (\<forall>t. rt_id (f t) = rt_id t \<and> rt_user_id (f t) = rt_user_id t \<and> rt_jti (f t) = rt_jti t \<and>
        rt_token_hash (f t) = rt_token_hash t \<and> (rt_status t \<noteq> RESET_ACTIVE \<longrightarrow> rt_status (f t) \<noteq> RESET_ACTIVE))"

lemma find_keeps:
  "reset_keeps f \<Longrightarrow> find (matches_token h c raw) (map f ts) = map_option f (find (matches_token h c raw) ts)"
  by (induction ts) (auto simp: reset_keeps_def matches_token_def)

lemma keeps_spent:
  assumes "reset_spent h c raw w" "iw_resets w' = map f (iw_resets w) @ new" "reset_keeps f"
  shows "reset_spent h c raw w'"
proof -
  from assms(1) obtain t where t: "find (matches_token h c raw) (iw_resets w) = Some t" "rt_status t \<noteq> RESET_ACTIVE"
    by (auto simp: reset_spent_def split: option.splits)
  with assms(2,3) show ?thesis
    by (auto simp: reset_spent_def find_append find_keeps reset_keeps_def)
qed

lemma verify_reset_match:
  "verify_reset_token h (Some c) raw w = Inr (Some t) \<longleftrightarrow>
     find (matches_token h c raw) (iw_resets w) = Some t \<and> mk_reset_token t = Inr t"
  by (cases c) (auto simp: verify_reset_token_def matches_token_def [abs_def] lift_dom_Inr res_bind_Inr
      mk_reset_token_def split: option.splits if_splits)

lemma reset_password_Inr:
  "reset_password check h limit now decoded raw plain hash ip agent w = (w', Inr i) \<longleftrightarrow>
     (\<exists>t u. verify_reset_token h decoded raw w = Inr (Some t) \<and> ensure_token_can_be_used (Aware now) t = Inr () \<and>
        list_ex (\<lambda>r. ur_id r = rt_user_id t \<and> ur_is_active r) (iw_users w) \<and>
        get_by_id (rt_user_id t) w = Inr (Some u) \<and> is_active u \<and>
        finish_reset check limit now plain hash ip agent t u w = (w', Inr i))"
  by (auto simp: reset_password_def unit_of_work_def split: sum.splits option.splits prod.splits if_splits)

lemma finish_reset_ok:
  assumes "finish_reset check limit now plain hash ip agent t u w = (w', Inr i)"
  obtains hist u' used w1 where "validate_password plain = Inr ()" "get_password_history limit (u_id u) w = Inr hist"
    "change_password (Aware now) hash (Some (Aware now)) (Some plain) (Some hist) (Some check) u = (u', Inr ())"
    "consume_token (Aware now) ip agent t = Inr used" "put_user limit now u' w = Inr w1"
    "w' = revoke_other_active_tokens (u_id u') (rt_id used)
       (persist_used_token used (revoke_all_of now (rt_user_id t) ''password_reset''
          (dispatch_events (map UserEvent (u_events u')) w1)))"
    "i = rt_user_id t" "mk_password_hash hash = Inr hash"
proof -
  let ?prep = "res_bind (lift_dom (validate_password plain)) (\<lambda>_.
    res_bind (get_password_history limit (u_id u) w) (\<lambda>history.
    res_bind (lift_dom (mk_password_hash hash)) (\<lambda>h. Inr (history, h))))"
  obtain hist h where p: "?prep = Inr (hist, h)"
    using assms by (cases ?prep) (auto simp: finish_reset_def)
  let ?change = "change_password (Aware now) h (Some (Aware now)) (Some plain) (Some hist) (Some check) u"
  obtain u' x where c: "?change = (u', x)" by fastforce
  with assms p have x: "x = Inr ()" by (cases x) (simp_all add: finish_reset_def)
  obtain used where t: "consume_token (Aware now) ip agent t = Inr used"
    using assms p c x by (cases "consume_token (Aware now) ip agent t") (simp_all add: finish_reset_def)
  obtain w0 y where s: "save_user limit now u' w = (w0, y)" by fastforce
  obtain v where y: "y = Inr v"
    using assms p c x t s by (cases y) (simp_all add: finish_reset_def save_and_dispatch_def)
  have r: "w' = revoke_other_active_tokens (u_id u') (rt_id used)
       (persist_used_token used (revoke_all_of now (rt_user_id t) ''password_reset''
          (dispatch_events (map UserEvent (u_events u')) w0)))" "i = rt_user_id t"
    using assms p c x t s y by (auto simp: finish_reset_def save_and_dispatch_def)
  from p have v: "validate_password plain = Inr ()" "get_password_history limit (u_id u) w = Inr hist"
    "mk_password_hash hash = Inr hash" "h = hash"
    by (auto simp: res_bind_Inr lift_dom_Inr mk_password_hash_Inr)
  show thesis
    by (rule that [of hist u' used w0]) (use c x t s y r v in \<open>simp_all add: put_user_def\<close>)
qed

definition use_row :: "reset_token \<Rightarrow> uuid \<Rightarrow> reset_token \<Rightarrow> reset_token" where
  "use_row used user t =
     (let t = (if rt_id t = rt_id used then t\<lparr>rt_status := RESET_USED, rt_used_at := rt_used_at used,
         rt_used_ip_hash := rt_used_ip_hash used, rt_used_user_agent_hash := rt_used_user_agent_hash used\<rparr> else t)
      in if rt_user_id t = user \<and> rt_status t = RESET_ACTIVE \<and> rt_id t \<noteq> rt_id used
         then t\<lparr>rt_status := RESET_REVOKED\<rparr> else t)"

lemma use_row_keeps: "reset_keeps (use_row used user)"
  by (auto simp: reset_keeps_def use_row_def Let_def)

lemma put_user_resets: "put_user limit now u w = Inr w' \<Longrightarrow> iw_resets w' = iw_resets w"
  using put_user_Inr by fastforce

lemma finish_reset_rows:
  assumes "finish_reset check limit now plain hash ip agent t u w = (w', Inr i)"
  shows "\<exists>used. consume_token (Aware now) ip agent t = Inr used \<and> iw_resets w' = map (use_row used (u_id u)) (iw_resets w)"
proof -
  from assms obtain hist u' used w1 where f:
    "change_password (Aware now) hash (Some (Aware now)) (Some plain) (Some hist) (Some check) u = (u', Inr ())"
    "consume_token (Aware now) ip agent t = Inr used" "put_user limit now u' w = Inr w1"
    "w' = revoke_other_active_tokens (u_id u') (rt_id used)
       (persist_used_token used (revoke_all_of now (rt_user_id t) ''password_reset''
          (dispatch_events (map UserEvent (u_events u')) w1)))" by (rule finish_reset_ok)
  have "u_id u' = u_id u"
    using f(1) by (auto simp: change_password_def Let_def rotate_auth_token_version_def split: sum.splits)
  then have "iw_resets w' = map (use_row used (u_id u)) (iw_resets w)"
    using put_user_resets [OF f(3)]
    by (simp add: f(4) revoke_other_active_tokens_def persist_used_token_def update_reset_def use_row_def [abs_def]
        comp_def Let_def)
  with f(2) show ?thesis by blast
qed

lemma reset_step_rows:
  "\<exists>f new. iw_resets (reset_step check h limit op w) = map f (iw_resets w) @ new \<and> reset_keeps f"
proof (cases op)
  case (RReset now decoded raw plain hash ip agent)
  obtain w' x where r: "reset_password check h limit now decoded raw plain hash ip agent w = (w', x)" by fastforce
  show ?thesis
  proof (cases x)
    case (Inl e)
    with r have "iw_resets w' = iw_resets w"
      by (auto simp: reset_password_def unit_of_work_def rolled_back_def split: sum.splits prod.splits)
    with r show ?thesis
      by (intro exI [of _ id] exI [of _ "[]"]) (simp add: RReset reset_keeps_def)
  next
    case (Inr i)
    with r obtain t u where "finish_reset check limit now plain hash ip agent t u w = (w', Inr i)"
      by (auto simp: reset_password_Inr)
    from finish_reset_rows [OF this] obtain used where "iw_resets w' = map (use_row used (u_id u)) (iw_resets w)"
      by blast
    with r use_row_keeps show ?thesis
      by (intro exI [of _ "use_row used (u_id u)"] exI [of _ "[]"]) (simp add: RReset)
  qed
next
  case (RIssue i user jti raw expires)
  then show ?thesis
    by (auto simp: issue_reset_token_def Let_def reset_keeps_def
        intro!: exI [of _ "\<lambda>t. if rt_user_id t = user \<and> rt_status t = RESET_ACTIVE then t\<lparr>rt_status := RESET_REVOKED\<rparr> else t"])
next
  case (RUsers rows)
  then show ?thesis by (intro exI [of _ id] exI [of _ "[]"]) (simp add: reset_keeps_def)
qed

lemma reset_accepted:
  assumes "reset_accepts check h limit c raw op w"
  obtains now plain hash ip agent w' i t u where "op = RReset now (Some c) raw plain hash ip agent"
    "reset_password check h limit now (Some c) raw plain hash ip agent w = (w', Inr i)"
    "find (matches_token h c raw) (iw_resets w) = Some t"
    "finish_reset check limit now plain hash ip agent t u w = (w', Inr i)"
    "ensure_token_can_be_used (Aware now) t = Inr ()"
proof -
  from assms obtain now plain hash ip agent where op: "op = RReset now (Some c) raw plain hash ip agent"
    and ok: "is_ok (snd (reset_password check h limit now (Some c) raw plain hash ip agent w))"
    by (cases op) auto
  obtain w' i where r: "reset_password check h limit now (Some c) raw plain hash ip agent w = (w', Inr i)"
    using ok by (auto simp: is_ok_iff) (metis prod.collapse)
  then obtain t u where "find (matches_token h c raw) (iw_resets w) = Some t"
    "finish_reset check limit now plain hash ip agent t u w = (w', Inr i)"
    "ensure_token_can_be_used (Aware now) t = Inr ()"
    by (auto simp: reset_password_Inr verify_reset_match)
  with op r show thesis by (rule that)
qed

lemma reset_accepts_active:
  assumes "reset_accepts check h limit c raw op w"
  obtains t where "find (matches_token h c raw) (iw_resets w) = Some t" "rt_status t = RESET_ACTIVE"
  using assms by (rule reset_accepted) (auto simp: ensure_token_can_be_used_def split: if_splits)

lemma reset_accept_spends:
  assumes "reset_accepts check h limit c raw op w"
  shows "reset_spent h c raw (reset_step check h limit op w)"
proof -
  from assms obtain now plain hash ip agent w' i t u where op: "op = RReset now (Some c) raw plain hash ip agent"
    and r: "reset_password check h limit now (Some c) raw plain hash ip agent w = (w', Inr i)"
    and t: "find (matches_token h c raw) (iw_resets w) = Some t"
    "finish_reset check limit now plain hash ip agent t u w = (w', Inr i)" by (rule reset_accepted)
  from finish_reset_rows [OF t(2)] obtain used where u: "consume_token (Aware now) ip agent t = Inr used"
    "iw_resets w' = map (use_row used (u_id u)) (iw_resets w)" by blast
  have "rt_id used = rt_id t" using consume_token_used [OF u(1)] by simp
  with t(1) u(2) use_row_keeps r show ?thesis
    by (simp add: op reset_spent_def find_keeps) (simp add: use_row_def Let_def)
qed

interpretation reset_tokens: single_use "reset_step check h limit" "reset_accepts check h limit c raw" "reset_spent h c raw"
  for check h limit c raw
proof
  show "reset_spent h c raw (reset_step check h limit op w)" if "reset_accepts check h limit c raw op w" for op w
    using that by (rule reset_accept_spends)
  show "reset_spent h c raw (reset_step check h limit op w)" if "reset_spent h c raw w" for op w
    using that reset_step_rows [of check h limit op w] keeps_spent by blast
  show "\<not> reset_accepts check h limit c raw op w" if "reset_spent h c raw w" for op w
  proof
    assume "reset_accepts check h limit c raw op w"
    then obtain t where "find (matches_token h c raw) (iw_resets w) = Some t" "rt_status t = RESET_ACTIVE"
      by (rule reset_accepts_active)
    with that show False by (simp add: reset_spent_def)
  qed
qed

text \<open>C7. A password reset token works once: in any history of issuing reset tokens, resetting
  passwords with any tokens and other changes to the accounts, at most one reset with a given raw
  token succeeds.\<close>

theorem reset_token_single_use:
  "length (accepted_ops (reset_step check h limit) (reset_accepts check h limit claims raw) ops w) \<le> 1"
  by (rule reset_tokens.at_most_once)


lemma change_password_ok:
  assumes "change_password clock h now (Some plain) (Some hist) (Some check) u = (u', Inr ())"
  shows "u_id u' = u_id u" "u_password_hash u' = Some h" "u_auth_token_version u' = u_auth_token_version u + 1"
    "u_status u' = u_status u" "\<forall>x \<in> set (ph_entries hist). \<not> check plain (he_hash x)"
  using assms
  by (auto simp: change_password_def Let_def rotate_auth_token_version_def ensure_not_reused_def list_ex_iff
      split: sum.splits if_splits)

lemma history_has_current:
  assumes "get_password_history limit i w = Inr hist" "find_user_row i w = Some r" "ur_password r = Some p"
  shows "\<exists>x \<in> set (ph_entries hist). he_hash x = p"
  using assms
  by (auto simp: get_password_history_def find_user_row_def mk_password_history_def lift_dom_Inr res_bind_Inr
      mk_password_hash_Inr take_Cons' split: if_splits)

text \<open>C9. A successful reset presented a token that was active and not expired. It gives the token's
  account the new password, which is valid and does not match the current one, and a new token
  version, leaves the account no active session and no active reset token, and touches no other
  account.\<close>

theorem reset_password_effect:
  assumes "reset_password check h limit now (Some c) raw plain hash ip agent w = (w', Inr i)"
  shows "\<exists>t r r'. find (matches_token h c raw) (iw_resets w) = Some t \<and> i = rt_user_id t \<and>
    rt_status t = RESET_ACTIVE \<and> dt_le (rt_expires_at t) (Aware now) = Some False \<and>
    find_user_row i w = Some r \<and> find_user_row i w' = Some r' \<and> ur_is_active r \<and>
    ur_password r' = Some hash \<and> validate_password plain = Inr () \<and>
    (\<forall>p. ur_password r = Some p \<longrightarrow> \<not> check plain p) \<and>
    ur_auth_token_version r' = ur_auth_token_version r + 1 \<and>
    list_active_identity_sessions i (sessions_of w') = [] \<and>
    (\<forall>x \<in> set (iw_resets w'). rt_user_id x = i \<longrightarrow> rt_status x \<noteq> RESET_ACTIVE) \<and>
    (\<forall>j. j \<noteq> i \<longrightarrow> find_user_row j w' = find_user_row j w)"
proof -
  from assms obtain t u where t: "find (matches_token h c raw) (iw_resets w) = Some t"
    "get_by_id (rt_user_id t) w = Inr (Some u)" "is_active u"
    and f: "finish_reset check limit now plain hash ip agent t u w = (w', Inr i)"
    by (auto simp: reset_password_Inr verify_reset_match)
  from f obtain hist u' used w1 where v: "validate_password plain = Inr ()"
    "get_password_history limit (u_id u) w = Inr hist"
    and ch: "change_password (Aware now) hash (Some (Aware now)) (Some plain) (Some hist) (Some check) u = (u', Inr ())"
    and tok: "consume_token (Aware now) ip agent t = Inr used" and put: "put_user limit now u' w = Inr w1"
    and w': "w' = revoke_other_active_tokens (u_id u') (rt_id used)
       (persist_used_token used (revoke_all_of now (rt_user_id t) ''password_reset''
          (dispatch_events (map UserEvent (u_events u')) w1)))" and i: "i = rt_user_id t"
    by (rule finish_reset_ok)
  note l = loaded_ok [OF t(2)] and c = change_password_ok [OF ch] and k = consume_token_used [OF tok]
  from t(2) obtain r where r: "find_user_row i w = Some r" "to_domain r = Inr u" by (auto simp: get_by_id_Some i)
  have rows: "find_user_row j w' = (if j = i then Some (write_row now u' r) else find_user_row j w)" for j
    using users.get_put [OF TrueI put, of j] r(1) c(1) l(2) i
    by (auto simp: w' revoke_other_active_tokens_def persist_used_token_def update_reset_def find_user_row_def
        dispatch_events_def row_of_def)
  have "ur_is_active r"
    using to_domain_ok(3) [OF r(2)] t(3) by (auto simp: is_active_def status_from_model_def split: if_splits)
  moreover have "\<not> check plain p" if "ur_password r = Some p" for p
    using history_has_current [OF v(2), of r p] r(1) l(2) i that c(5) by auto
  moreover have "list_active_identity_sessions i (sessions_of w') = []"
    using no_session_left [of i now "''password_reset''" "dispatch_events (map UserEvent (u_events u')) w1"] i
    by (simp add: w' revoke_other_active_tokens_def persist_used_token_def update_reset_def
        list_active_identity_sessions_def)
  moreover have "rt_status x \<noteq> RESET_ACTIVE" if "x \<in> set (iw_resets w')" "rt_user_id x = i" for x
    using that c(1) l(2) i
    by (auto simp: w' revoke_other_active_tokens_def split: if_splits)
       (auto simp: persist_used_token_def update_reset_def k split: if_splits)
  ultimately show ?thesis
    using t(1) i k r(1) rows v(1) c(2,3) to_domain_ok(4) [OF r(2)] by auto
qed

lemma reset_password_effect_witness:
  "\<exists>w' r'. reset_password (\<lambda>p h. p = h) (\<lambda>x. x) 5 100 (Some (1, ''j'')) ''raw'' ''Secret#123'' ''new'' None None
       sample_id_world = (w', Inr 1) \<and> find_user_row 1 w' = Some r' \<and> ur_password r' = Some ''new''"
proof -
  have r: "snd (reset_password (\<lambda>p h. p = h) (\<lambda>x. x) 5 100 (Some (1, ''j'')) ''raw'' ''Secret#123'' ''new'' None None
      sample_id_world) = Inr 1" by code_simp
  from reset_password_effect [OF outcome_pair [OF r]] outcome_pair [OF r] show ?thesis by blast
qed

end
