(* ===== verification/Vendor_Shared.thy ===== *)
theory Vendor_Shared
  imports Prelude
begin

text \<open>
  What the vendor aggregates share (\<open>domain/vendors/shared\<close>): the validators of field values with
  their messages, the collection of errors per field, the aggregate base class with its version and
  events, and pagination. A validator returns \<open>Inl\<close> of the message of the \<open>ValueError\<close> it raises.
  Field values have the annotated types, so the \<open>isinstance\<close> checks cannot fail; the NFC form of a
  string in the modelled range of characters is the string itself.
\<close>

section \<open>Text\<close>

definition max_portfolio_order :: int where "max_portfolio_order = 10000"
definition max_portfolio_file_size :: int where "max_portfolio_file_size = 100 * 1024 * 1024"
definition max_portfolio_dimension :: int where "max_portfolio_dimension = 20000"
definition max_video_duration_seconds :: int where "max_video_duration_seconds = 4 * 60 * 60"

definition text_limit :: "string \<Rightarrow> nat" where
  "text_limit field =
     (case map_of [(''business_name'', 200), (''description'', 5000), (''service_area'', 255),
        (''contact_email'', 254), (''contact_phone'', 20), (''custom_category'', 100), (''website'', 500),
        (''profile_image_url'', 1000), (''cover_image_url'', 1000), (''package_name'', 200),
        (''package_description'', 5000), (''caption'', 500), (''rejection_reason'', 1000),
        (''client_name'', 200), (''message'', 5000), (''public_id'', 255)] field of
      Some n \<Rightarrow> n | None \<Rightarrow> 1000)"

definition has_control_characters :: "string \<Rightarrow> bool" where
  "has_control_characters s = list_ex (\<lambda>c. code c < 32 \<or> code c = 127) s"

text \<open>The soft hyphen is the only character of category \<open>Cf\<close> in the modelled range.\<close>

definition has_dangerous_formatting :: "string \<Rightarrow> bool" where
  "has_dangerous_formatting s = list_ex (\<lambda>c. code c = 173) s"

definition required_message :: string where "required_message = ''This field is required.''"

definition bounded_text :: "nat \<Rightarrow> nat \<Rightarrow> bool \<Rightarrow> string option \<Rightarrow> (string, string option) res" where
  "bounded_text max_length min_length required value =
     (case value of
        None \<Rightarrow> if required then Inl required_message else Inr None
      | Some v \<Rightarrow>
          let text = py_strip v in
          if text = '''' then (if required then Inl required_message else Inr (Some ''''))
          else if has_control_characters text then Inl ''Control characters are not allowed.''
          else if has_dangerous_formatting text
          then Inl ''Invisible or bidi formatting controls are not allowed.''
          else if length text < min_length
          then Inl (''Use at least '' @ show_nat min_length @ '' characters.'')
          else if length text > max_length
          then Inl (''Use '' @ show_nat max_length @ '' characters or fewer.'')
          else Inr (Some text))"

definition required_text :: "nat \<Rightarrow> nat \<Rightarrow> string \<Rightarrow> (string, string) res" where
  "required_text max_length min_length v =
     res_bind (bounded_text max_length min_length True (Some v)) (\<lambda>t. Inr (case t of None \<Rightarrow> '''' | Some s \<Rightarrow> s))"

text \<open>\<open>^[^@\s]+@[^@\s]+\.[^@\s]+$\<close>\<close>

definition email_matches :: "string \<Rightarrow> bool" where
  "email_matches s =
     (let user = takeWhile (\<lambda>c. c \<noteq> CHR ''@'') s; domain = drop (Suc (length user)) s in
      list_all (\<lambda>c. \<not> is_space c) s \<and> user \<noteq> [] \<and> length user < length s \<and>
      CHR ''@'' \<notin> set domain \<and> CHR ''.'' \<in> set (butlast (drop 1 domain)))"

definition validate_email :: "string \<Rightarrow> (string, string) res" where
  "validate_email v =
     res_bind (required_text (text_limit ''contact_email'') 1 v) (\<lambda>email.
       if \<not> email_matches email then Inl ''Enter a valid email address.'' else Inr (py_lower email))"

definition phone_separator :: "char \<Rightarrow> bool" where
  "phone_separator c = (is_space c \<or> c \<in> {CHR ''('', CHR '')'', CHR ''.'', CHR ''-''})"

definition is_ascii_digit :: "char \<Rightarrow> bool" where
  "is_ascii_digit c = (48 \<le> code c \<and> code c \<le> 57)"

definition phone_matches :: "string \<Rightarrow> bool" where
  "phone_matches s =
     (let digits = (case s of [] \<Rightarrow> [] | c # cs \<Rightarrow> if c = CHR ''+'' then cs else s) in
      3 \<le> length digits \<and> length digits \<le> 20 \<and> list_all is_ascii_digit digits)"

definition normalize_phone :: "bool \<Rightarrow> string option \<Rightarrow> (string, string option) res" where
  "normalize_phone required v =
     res_bind (bounded_text (text_limit ''contact_phone'') 1 required v) (\<lambda>phone.
       case phone of
         None \<Rightarrow> Inr None
       | Some p \<Rightarrow>
           if p = '''' then Inr (Some '''')
           else let normalized = filter (\<lambda>c. \<not> phone_separator c) p in
             if \<not> phone_matches normalized then Inl ''Enter a valid phone number.''
             else Inr (Some normalized))"

section \<open>URLs\<close>

text \<open>The parts of \<open>str.partition\<close> and \<open>str.rpartition\<close> at a character.\<close>

definition partition_at :: "char \<Rightarrow> string \<Rightarrow> string \<times> bool \<times> string" where
  "partition_at x s =
     (let front = takeWhile (\<lambda>c. c \<noteq> x) s in
      if length front < length s then (front, True, drop (Suc (length front)) s) else (s, False, ''''))"

definition rpartition_at :: "char \<Rightarrow> string \<Rightarrow> string \<times> bool \<times> string" where
  "rpartition_at x s =
     (let after = rev (takeWhile (\<lambda>c. c \<noteq> x) (rev s)) in
      if length after < length s then (take (length s - Suc (length after)) s, True, after) else ('''', False, s))"

fun split_at_char :: "char \<Rightarrow> string \<Rightarrow> string \<Rightarrow> string list" where
  "split_at_char x acc [] = [rev acc]"
| "split_at_char x acc (c # cs) =
     (if c = x then rev acc # split_at_char x [] cs else split_at_char x (c # acc) cs)"

definition py_split_char :: "char \<Rightarrow> string \<Rightarrow> string list" where
  "py_split_char x s = split_at_char x [] s"

definition is_ascii_alpha :: "char \<Rightarrow> bool" where
  "is_ascii_alpha c = (65 \<le> code c \<and> code c \<le> 90 \<or> 97 \<le> code c \<and> code c \<le> 122)"

definition is_scheme_char :: "char \<Rightarrow> bool" where
  "is_scheme_char c = (is_ascii_alpha c \<or> is_ascii_digit c \<or> c \<in> {CHR ''+'', CHR ''-'', CHR ''.''})"

definition is_hex_digit :: "char \<Rightarrow> bool" where
  "is_hex_digit c =
     (is_ascii_digit c \<or> 65 \<le> code c \<and> code c \<le> 70 \<or> 97 \<le> code c \<and> code c \<le> 102)"

definition digits_value :: "string \<Rightarrow> nat" where
  "digits_value s = foldl (\<lambda>n c. 10 * n + (code c - 48)) 0 s"

text \<open>The address parsers of \<open>ipaddress\<close>.\<close>

definition ipv4_valid :: "string \<Rightarrow> bool" where
  "ipv4_valid s =
     (let octets = py_split_char (CHR ''.'') s in
      length octets = 4 \<and>
      list_all (\<lambda>q. q \<noteq> '''' \<and> list_all is_ascii_digit q \<and> length q \<le> 3 \<and>
        \<not> (q \<noteq> ''0'' \<and> hd q = CHR ''0'') \<and> digits_value q \<le> 255) octets)"

definition hextet_valid :: "string \<Rightarrow> bool" where
  "hextet_valid h = (h \<noteq> '''' \<and> list_all is_hex_digit h \<and> length h \<le> 4)"

definition ipv6_parts_valid :: "string list \<Rightarrow> bool" where
  "ipv6_parts_valid parts =
     (let empties = filter (\<lambda>i. parts ! i = '''') [1..<length parts - 1] in
      length parts \<le> 9 \<and> length empties \<le> 1 \<and>
      (case empties of
         skip # _ \<Rightarrow>
           let hi = (if parts ! 0 = '''' then skip - 1 else skip);
               lo = (if last parts = '''' then length parts - skip - 2 else length parts - skip - 1)
           in \<not> (parts ! 0 = '''' \<and> hi \<noteq> 0) \<and> \<not> (last parts = '''' \<and> lo \<noteq> 0) \<and> hi + lo < 8 \<and>
              list_all hextet_valid (take hi parts) \<and>
              list_all hextet_valid (drop (length parts - lo) parts)
       | [] \<Rightarrow> length parts = 8 \<and> list_all hextet_valid parts))"

definition ipv6_valid :: "string \<Rightarrow> bool" where
  "ipv6_valid s =
     (let (addr, sep, scope) = partition_at (CHR ''%'') s;
          parts = py_split_char (CHR '':'') addr
      in (sep \<longrightarrow> scope \<noteq> '''' \<and> CHR ''%'' \<notin> set scope) \<and> addr \<noteq> '''' \<and> 3 \<le> length parts \<and>
         (if CHR ''.'' \<in> set (last parts)
          then ipv4_valid (last parts) \<and> ipv6_parts_valid (butlast parts @ [''0'', ''0''])
          else ipv6_parts_valid parts))"

definition check_bracketed_host :: "string \<Rightarrow> (string, unit) res" where
  "check_bracketed_host h =
     (if take 1 h = ''v'' then
        (let (hex, dot, rest) = partition_at (CHR ''.'') (drop 1 h) in
         ensure (hex \<noteq> '''' \<and> list_all is_hex_digit hex \<and> dot \<and> rest \<noteq> '''') ''IPvFuture address is invalid'')
      else if ipv4_valid h then Inl ''An IPv4 address cannot be in brackets''
      else ensure (ipv6_valid h) (CHR 0x27 # h @ CHR 0x27 # '' does not appear to be an IPv4 or IPv6 address''))"

definition check_bracketed_netloc :: "string \<Rightarrow> (string, unit) res" where
  "check_bracketed_netloc netloc =
     (let (_, _, host_and_port) = rpartition_at (CHR ''@'') netloc;
          (front, have_open_br, bracketed) = partition_at (CHR ''['') host_and_port
      in if have_open_br
         then (let (hostname, _, port) = partition_at (CHR '']'') bracketed in
           if front \<noteq> '''' \<or> port \<noteq> '''' \<and> hd port \<noteq> CHR '':'' then Inl ''Invalid IPv6 URL''
           else check_bracketed_host hostname)
         else check_bracketed_host (fst (partition_at (CHR '':'') host_and_port)))"

record split_url =
  su_scheme :: string
  su_netloc :: string

text \<open>
  \<open>urlparse\<close> as far as it is used, on a stripped text without control characters. In the modelled
  range no character of a host normalises (NFKC) to a delimiter.
\<close>

definition urlparse :: "string \<Rightarrow> (string, split_url) res" where
  "urlparse url =
     (let (front, colon, after) = partition_at (CHR '':'') url;
          has_scheme = colon \<and> front \<noteq> '''' \<and> is_ascii_alpha (hd front) \<and> list_all is_scheme_char front;
          scheme = (if has_scheme then py_lower front else '''');
          rest = (if has_scheme then after else url);
          netloc = (if take 2 rest = ''//''
            then takeWhile (\<lambda>c. c \<notin> {CHR ''/'', CHR ''?'', CHR ''#''}) (drop 2 rest) else '''');
          result = Inr \<lparr>su_scheme = scheme, su_netloc = netloc\<rparr>
      in if CHR ''['' \<in> set netloc \<and> CHR '']'' \<notin> set netloc \<or> CHR '']'' \<in> set netloc \<and> CHR ''['' \<notin> set netloc
         then Inl ''Invalid IPv6 URL''
         else if CHR ''['' \<in> set netloc
         then res_bind (check_bracketed_netloc netloc) (\<lambda>_. result)
         else result)"

text \<open>\<open>_userinfo\<close>, \<open>_hostinfo\<close> and the properties over them.\<close>

definition url_has_credentials :: "string \<Rightarrow> bool" where
  "url_has_credentials netloc =
     (let (userinfo, have_info, _) = rpartition_at (CHR ''@'') netloc;
          (username, have_password, password) = partition_at (CHR '':'') userinfo
      in have_info \<and> (username \<noteq> '''' \<or> have_password \<and> password \<noteq> ''''))"

definition url_hostinfo :: "string \<Rightarrow> string \<times> string" where
  "url_hostinfo netloc =
     (let (_, _, hostinfo) = rpartition_at (CHR ''@'') netloc;
          (_, have_open_br, bracketed) = partition_at (CHR ''['') hostinfo
      in if have_open_br
         then (let (hostname, _, port) = partition_at (CHR '']'') bracketed
               in (hostname, snd (snd (partition_at (CHR '':'') port))))
         else (let (hostname, _, port) = partition_at (CHR '':'') hostinfo in (hostname, port)))"

definition url_port_valid :: "string \<Rightarrow> bool" where
  "url_port_valid port = (port = '''' \<or> list_all is_ascii_digit port \<and> digits_value port \<le> 65535)"

definition strip_brackets :: "string \<Rightarrow> string" where
  "strip_brackets s =
     (let b = (\<lambda>c. c = CHR ''['' \<or> c = CHR '']'') in rev (dropWhile b (rev (dropWhile b s))))"

definition private_hosts :: "string list" where
  "private_hosts = [''localhost'', ''0.0.0.0'', ''127.0.0.1'', ''::1'']"

text \<open>\<open>^172\.(1[6-9]|2\d|3[0-1])\.\<close>; \<open>\d\<close> is an ASCII digit in the modelled range.\<close>

definition is_172_private :: "string \<Rightarrow> bool" where
  "is_172_private h =
     (take 4 h = ''172.'' \<and> length h \<ge> 7 \<and> h ! 6 = CHR ''.'' \<and> is_ascii_digit (h ! 5) \<and>
      (h ! 4 = CHR ''1'' \<and> 54 \<le> code (h ! 5) \<or> h ! 4 = CHR ''2'' \<or> h ! 4 = CHR ''3'' \<and> code (h ! 5) \<le> 49))"

definition host_is_private :: "string \<Rightarrow> bool" where
  "host_is_private h =
     (h \<in> set private_hosts \<or> py_startswith h ''10.'' \<or> py_startswith h ''192.168.'' \<or>
      py_startswith h ''169.254.'' \<or> is_172_private h)"

definition validate_safe_url :: "string \<Rightarrow> bool \<Rightarrow> string option \<Rightarrow> (string, string option) res" where
  "validate_safe_url field required v =
     res_bind (bounded_text (text_limit field) 1 required v) (\<lambda>u.
       if u = None \<or> u = Some '''' then Inr u
       else let url = the u in
         res_bind (urlparse url) (\<lambda>parsed.
           let (host, port) = url_hostinfo (su_netloc parsed);
               hostname = strip_brackets (py_lower host)
           in if su_scheme parsed \<notin> {''http'', ''https''} \<or> su_netloc parsed = ''''
              then Inl ''Enter a valid HTTP or HTTPS URL.''
              else if url_has_credentials (su_netloc parsed) then Inl ''URL credentials are not allowed.''
              else if \<not> url_port_valid port then Inl ''URL port is invalid.''
              else if host_is_private hostname then Inl ''Local or private URLs are not allowed.''
              else if hostname = '''' \<or> CHR ''.'' \<notin> set hostname then Inl ''URL host must be public.''
              else Inr u))"

definition validate_public_media_url :: "string \<Rightarrow> bool \<Rightarrow> string option \<Rightarrow> (string, string option) res" where
  "validate_public_media_url field required v =
     res_bind (validate_safe_url field required v) (\<lambda>u.
       case u of
         None \<Rightarrow> Inr None
       | Some url \<Rightarrow>
           if url = '''' then Inr u
           else res_bind (urlparse url) (\<lambda>parsed.
             if su_scheme parsed \<noteq> ''https'' then Inl ''Public media URLs must use HTTPS.'' else Inr u))"

section \<open>Times, amounts and numbers\<close>

definition aware_utc_datetime :: "datetime option \<Rightarrow> (string, datetime option) res" where
  "aware_utc_datetime v =
     (case v of
        None \<Rightarrow> Inr None
      | Some d \<Rightarrow> if is_aware d then Inr (Some d) else Inl ''Datetime must be timezone-aware.'')"

definition required_datetime :: "datetime \<Rightarrow> (string, datetime) res" where
  "required_datetime d = (if is_aware d then Inr d else Inl ''Datetime must be timezone-aware.'')"

text \<open>A date is its day number.\<close>

definition validate_new_event_date_bounds :: "int option \<Rightarrow> int \<Rightarrow> (string, int option) res" where
  "validate_new_event_date_bounds v today =
     (case v of
        None \<Rightarrow> Inr None
      | Some d \<Rightarrow>
          if d < today - 1 then Inl ''Event date is too far in the past.''
          else if d > today + 730 then Inl ''Event date is too far in the future.''
          else Inr (Some d))"

text \<open>A \<open>Decimal\<close> is its integer coefficient and its exponent, or one of the special values.\<close>

datatype decimal = Dec int int | DecSpecial

definition dec_value :: "decimal \<Rightarrow> rat" where
  "dec_value d = (case d of Dec c e \<Rightarrow> of_int c * (if 0 \<le> e then 10 ^ nat e else 1 / 10 ^ nat (- e)) | DecSpecial \<Rightarrow> 0)"

definition max_package_price :: rat where "max_package_price = 999999999999 / 100"

definition positive_decimal :: "decimal \<Rightarrow> (string, decimal) res" where
  "positive_decimal d =
     (case d of
        DecSpecial \<Rightarrow> Inl ''Enter a finite decimal amount.''
      | Dec c e \<Rightarrow>
          if dec_value d \<le> 0 then Inl ''Amount must be greater than 0.''
          else if e < -2 then Inl ''Use no more than 2 decimal places.''
          else if dec_value d > max_package_price then Inl ''Amount must be no more than 9999999999.99.''
          else Inr d)"

definition normalize_currency :: "string \<Rightarrow> (string, string) res" where
  "normalize_currency v =
     res_bind (required_text 3 1 v) (\<lambda>c.
       let normalized = map (\<lambda>x. if 97 \<le> code x \<and> code x \<le> 122 then char_of (code x - 32) else x) c in
       if normalized \<noteq> ''RWF'' then Inl ''Choose a supported currency.'' else Inr normalized)"

definition validate_int :: "int option \<Rightarrow> int option \<Rightarrow> int \<Rightarrow> (string, int) res" where
  "validate_int minimum maximum v =
     (case minimum of
        Some lo \<Rightarrow> if v < lo then Inl (''Value must be at least '' @ show_int lo @ ''.'')
          else (case maximum of
              Some hi \<Rightarrow> if v > hi then Inl (''Value must be no more than '' @ show_int hi @ ''.'') else Inr v
            | None \<Rightarrow> Inr v)
      | None \<Rightarrow> (case maximum of
              Some hi \<Rightarrow> if v > hi then Inl (''Value must be no more than '' @ show_int hi @ ''.'') else Inr v
            | None \<Rightarrow> Inr v))"

definition validate_optional_int :: "int option \<Rightarrow> int option \<Rightarrow> int option \<Rightarrow> (string, int option) res" where
  "validate_optional_int minimum maximum v =
     (case v of None \<Rightarrow> Inr None | Some i \<Rightarrow> res_bind (validate_int minimum maximum i) (\<lambda>j. Inr (Some j)))"


section \<open>Errors per field\<close>

type_synonym field_errors = "(string \<times> string list) list"

text \<open>Exceptions of the vendor code: a \<open>VendorDomainError\<close> (code, message, field errors), a plain
  \<open>ValueError\<close>, and the \<open>TypeError\<close> of comparing a naive with an aware time.\<close>

datatype vendor_exn = VendorError string string field_errors | VendorValueError string | VendorTypeError

definition invalid :: "string \<Rightarrow> field_errors \<Rightarrow> vendor_exn" where
  "invalid cd es = VendorError cd cd es"

definition append_error :: "string \<Rightarrow> string \<Rightarrow> field_errors \<Rightarrow> field_errors" where
  "append_error f m es =
     (if map_of es f = None then es @ [(f, [m])]
      else map (\<lambda>(g, ms). if g = f then (g, ms @ [m]) else (g, ms)) es)"

definition add_error :: "string \<Rightarrow> string \<Rightarrow> field_errors \<Rightarrow> field_errors" where
  "add_error f m es =
     (case map_of es f of
        Some ms \<Rightarrow> if m \<in> set ms then es else append_error f m es
      | None \<Rightarrow> append_error f m es)"

text \<open>A list of checks in the order the code makes them; \<open>Some\<close> is the message of one that failed.\<close>

definition gather :: "(string \<times> string option) list \<Rightarrow> field_errors" where
  "gather checks = fold (\<lambda>(f, m) es. case m of None \<Rightarrow> es | Some x \<Rightarrow> add_error f x es) checks []"

definition fault :: "(string, 'a) res \<Rightarrow> string option" where
  "fault r = (case r of Inl m \<Rightarrow> Some m | Inr _ \<Rightarrow> None)"

definition fault_if :: "bool \<Rightarrow> string \<Rightarrow> string option" where
  "fault_if b m = (if b then Some m else None)"

lemma append_error_neq [simp]: "append_error f m es \<noteq> []"
  by (auto simp: append_error_def)

lemma add_error_neq [simp]: "add_error f m es \<noteq> []"
  by (auto simp: add_error_def split: option.splits)

lemma gather_fold_Nil:
  "fold (\<lambda>(f, m) es. case m of None \<Rightarrow> es | Some x \<Rightarrow> add_error f x es) checks es = [] \<longleftrightarrow>
     es = [] \<and> (\<forall>(f, m) \<in> set checks. m = None)"
proof (induction checks arbitrary: es)
  case (Cons c checks)
  then show ?case by (cases c) (auto split: option.splits)
qed simp

lemma gather_Nil [simp]: "gather checks = [] \<longleftrightarrow> (\<forall>(f, m) \<in> set checks. m = None)"
  by (simp add: gather_def gather_fold_Nil)

lemma fault_None [simp]: "fault r = None \<longleftrightarrow> (\<exists>x. r = Inr x)"
  by (cases r) (auto simp: fault_def)

lemma fault_if_None [simp]: "fault_if b m = None \<longleftrightarrow> \<not> b"
  by (simp add: fault_if_def)

definition choose_enum :: "string list \<Rightarrow> string \<Rightarrow> string \<Rightarrow> (string, string) res" where
  "choose_enum members field v =
     (if v \<in> set members then Inr v else Inl (''Choose a valid '' @ field @ ''.''))"

text \<open>The truth value of an optional text.\<close>

definition given :: "string option \<Rightarrow> bool" where
  "given v = (v \<noteq> None \<and> v \<noteq> Some '''')"

definition public_id_url_fault :: "string \<Rightarrow> string \<Rightarrow> string option \<Rightarrow> string option \<Rightarrow> string \<times> string option" where
  "public_id_url_fault url_field id_field url public_id =
     (if given url then id_field else url_field,
      fault_if (given url \<noteq> given public_id) ''Public ID and URL must be stored together.'')"

definition validated_transition_reason :: "string \<Rightarrow> string \<Rightarrow> string \<Rightarrow> (vendor_exn, string) res" where
  "validated_transition_reason error_code field reason =
     (case required_text (text_limit ''rejection_reason'') 1 reason of
        Inl m \<Rightarrow> Inl (invalid error_code [(field, [m])])
      | Inr r \<Rightarrow> Inr r)"

text \<open>Comparing an aware with a naive time raises.\<close>

definition incomparable :: "datetime option \<Rightarrow> datetime option \<Rightarrow> bool" where
  "incomparable a b = (case (a, b) of (Some x, Some y) \<Rightarrow> is_aware x \<noteq> is_aware y | _ \<Rightarrow> False)"

definition earlier :: "datetime option \<Rightarrow> datetime option \<Rightarrow> bool" where
  "earlier a b = (case (a, b) of (Some x, Some y) \<Rightarrow> dt_less x y = Some True | _ \<Rightarrow> False)"

section \<open>Facts about normalised values\<close>

lemma required_text_Inr:
  "required_text n m v = Inr t \<longleftrightarrow> t = py_strip v \<and> t \<noteq> '''' \<and> \<not> has_control_characters t \<and>
     \<not> has_dangerous_formatting t \<and> m \<le> length t \<and> length t \<le> n"
  by (auto simp: required_text_def bounded_text_def Let_def res_bind_Inr split: if_splits)

lemma required_text_idem: "required_text n m v = Inr t \<Longrightarrow> required_text n m t = Inr t"
  by (auto simp: required_text_Inr)

lemma bounded_text_idem: "bounded_text n m False v = Inr t \<Longrightarrow> bounded_text n m False t = Inr t"
  by (auto simp: bounded_text_def Let_def split: option.splits if_splits)

lemma positive_decimal_idem: "positive_decimal d = Inr e \<Longrightarrow> e = d"
  by (auto simp: positive_decimal_def split: decimal.splits if_splits)

lemma normalize_currency_Inr: "normalize_currency v = Inr c \<Longrightarrow> c = ''RWF''"
  by (auto simp: normalize_currency_def Let_def res_bind_Inr split: if_splits)

lemma normalize_currency_RWF: "normalize_currency ''RWF'' = Inr ''RWF''"
  by code_simp

lemma choose_enum_Inr: "choose_enum ms f v = Inr x \<longleftrightarrow> v \<in> set ms \<and> x = v"
  by (auto simp: choose_enum_def)

lemma aware_utc_datetime_Inr:
  "aware_utc_datetime v = Inr x \<longleftrightarrow> x = v \<and> (\<forall>d. v = Some d \<longrightarrow> is_aware d)"
  by (auto simp: aware_utc_datetime_def split: option.splits)

lemma required_datetime_Inr: "required_datetime d = Inr x \<longleftrightarrow> x = d \<and> is_aware d"
  by (auto simp: required_datetime_def)

lemma validated_reason_Inr:
  "validated_transition_reason error_code f r = Inr t \<longleftrightarrow> required_text (text_limit ''rejection_reason'') 1 r = Inr t"
  by (auto simp: validated_transition_reason_def split: sum.splits)

lemma code_char_of [simp]: "n < 256 \<Longrightarrow> code (char_of n) = n"
  by (simp add: code_def)

lemma code_less: "code c < 256"
  by (simp add: code_def)

lemma lower_char_facts:
  "is_space (lower_char c) = is_space c" "lower_char (lower_char c) = lower_char c"
  "(code (lower_char c) < 32 \<or> code (lower_char c) = 127) = (code c < 32 \<or> code c = 127)"
  "(code (lower_char c) = 173) = (code c = 173)"
  "code c \<le> 64 \<Longrightarrow> lower_char c = c" "code d \<le> 64 \<Longrightarrow> (lower_char c = d) = (c = d)"
  by (auto simp: lower_char_def is_space_def)

lemma strip_spaceless: "list_all (\<lambda>c. \<not> is_space c) s \<Longrightarrow> py_strip s = s"
proof -
  have d: "dropWhile is_space t = t" if "list_all (\<lambda>c. \<not> is_space c) t" for t
    using that by (cases t) auto
  assume "list_all (\<lambda>c. \<not> is_space c) s"
  then show ?thesis by (simp add: py_strip_def d)
qed

lemma lower_preserves:
  "list_all (\<lambda>c. \<not> is_space c) (py_lower s) = list_all (\<lambda>c. \<not> is_space c) s"
  "has_control_characters (py_lower s) = has_control_characters s"
  "has_dangerous_formatting (py_lower s) = has_dangerous_formatting s"
  "py_lower (py_lower s) = py_lower s"
  by (auto simp: py_lower_def list_all_iff list_ex_iff has_control_characters_def has_dangerous_formatting_def
      lower_char_facts)

lemma email_matches_lower: "email_matches (py_lower s) = email_matches s"
proof -
  have c: "code (CHR ''@'') \<le> 64" "code (CHR ''.'') \<le> 64" by code_simp+
  have t: "takeWhile (\<lambda>c. c \<noteq> CHR ''@'') (py_lower s) = py_lower (takeWhile (\<lambda>c. c \<noteq> CHR ''@'') s)"
    by (simp add: py_lower_def takeWhile_map comp_def lower_char_facts(6) [OF c(1)])
  have m: "x \<in> set (py_lower t) \<longleftrightarrow> x \<in> set t" if "code x \<le> 64" for x t
  proof
    assume "x \<in> set (py_lower t)"
    then obtain y where "y \<in> set t" "lower_char y = x" by (auto simp: py_lower_def)
    with lower_char_facts(6) [OF that] show "x \<in> set t" by simp
  next
    assume "x \<in> set t"
    with lower_char_facts(5) [OF that] show "x \<in> set (py_lower t)" by (force simp: py_lower_def)
  qed
  have d: "drop n (py_lower t) = py_lower (drop n t)" "butlast (py_lower t) = py_lower (butlast t)" for n t
    by (simp_all add: py_lower_def drop_map map_butlast)
  show ?thesis
    unfolding email_matches_def Let_def t by (simp add: d m [OF c(1)] m [OF c(2)] lower_preserves)
qed

lemma validate_email_idem: 
  assumes "validate_email v = Inr e"
  shows "validate_email e = Inr e"
proof -
  from assms obtain t where t: "required_text (text_limit ''contact_email'') 1 v = Inr t" "email_matches t" "e = py_lower t"
    by (auto simp: validate_email_def res_bind_Inr split: if_splits)
  have "list_all (\<lambda>c. \<not> is_space c) e" using t(2,3) by (simp add: email_matches_def Let_def lower_preserves)
  then have "required_text (text_limit ''contact_email'') 1 e = Inr e"
    using t(1) unfolding required_text_Inr by (simp add: strip_spaceless) (auto simp: t(3) lower_preserves)
  with t show ?thesis by (simp add: validate_email_def email_matches_lower lower_preserves)
qed

lemma normalize_phone_idem:
  assumes "normalize_phone r v = Inr p"
  shows "normalize_phone r p = Inr p"
proof -
  from assms obtain u where b: "bounded_text (text_limit ''contact_phone'') 1 r v = Inr u"
    by (auto simp: normalize_phone_def res_bind_Inr)
  with assms have "p = u \<and> (u = None \<or> u = Some '''') \<or>
     (\<exists>t n. u = Some t \<and> p = Some n \<and> n = filter (\<lambda>c. \<not> phone_separator c) t \<and> phone_matches n)"
    by (cases u) (auto simp: normalize_phone_def Let_def split: if_split_asm)
  note u = b this
  from u(2) consider "p = u" "u = None \<or> u = Some ''''"
    | t n where "u = Some t" "p = Some n" "n = filter (\<lambda>c. \<not> phone_separator c) t" "phone_matches n" by blast
  then show ?thesis
  proof cases
    case 1
    with u(1) show ?thesis
      by (auto simp: normalize_phone_def bounded_text_def Let_def split: option.splits if_splits)
  next
    case (2 t n)
    note n = this
    have len: "length n \<le> length t" "n \<noteq> ''''" using n(3,4) by (auto simp: phone_matches_def Let_def)
    have sp: "list_all (\<lambda>c. \<not> is_space c) n" unfolding n(3) by (auto simp: list_all_iff phone_separator_def)
    have "\<not> has_control_characters t" "\<not> has_dangerous_formatting t" "length t \<le> text_limit ''contact_phone''"
      using u(1) n(1) len by (auto simp: bounded_text_def Let_def split: option.splits if_splits)
    then have c: "\<not> has_control_characters n" "\<not> has_dangerous_formatting n"
      "length n \<le> text_limit ''contact_phone''"
      using len(1) unfolding n(3)
      by (auto simp: has_control_characters_def has_dangerous_formatting_def list_ex_iff
          intro: le_trans [OF length_filter_le])
    have "bounded_text (text_limit ''contact_phone'') 1 r (Some n) = Inr (Some n)"
      using c len by (simp add: bounded_text_def strip_spaceless [OF sp] Suc_le_eq)
    moreover have "filter (\<lambda>c. \<not> phone_separator c) n = n" by (simp add: n(3))
    ultimately show ?thesis using n(2,4) len by (simp add: normalize_phone_def)
  qed
qed

lemma validate_safe_url_Inr:
  assumes "validate_safe_url f r v = Inr u"
  shows "bounded_text (text_limit f) 1 r v = Inr u"
proof -
  from assms obtain w where w: "bounded_text (text_limit f) 1 r v = Inr w"
    by (auto simp: validate_safe_url_def res_bind_Inr)
  have "u = w"
  proof (cases "w = None \<or> w = Some ''''")
    case False
    with assms w obtain p where p: "urlparse (the w) = Inr p" by (auto simp: validate_safe_url_def res_bind_Inr)
    obtain host port where "url_hostinfo (su_netloc p) = (host, port)" by (cases "url_hostinfo (su_netloc p)")
    with assms w p False show ?thesis by (simp add: validate_safe_url_def Let_def split: if_split_asm)
  qed (use assms w in \<open>auto simp: validate_safe_url_def\<close>)
  with w show ?thesis by simp
qed

lemma bounded_text_idem_any: "bounded_text n m r v = Inr t \<Longrightarrow> bounded_text n m r t = Inr t"
  by (auto simp: bounded_text_def Let_def split: option.splits if_splits)

lemma validate_safe_url_idem: "validate_safe_url f r v = Inr u \<Longrightarrow> validate_safe_url f r u = Inr u"
  using validate_safe_url_Inr [of f r v u] bounded_text_idem_any [of "text_limit f" 1 r v u]
  by (simp add: validate_safe_url_def)

lemma validate_public_media_url_Inr:
  assumes "validate_public_media_url f r v = Inr u"
  shows "validate_safe_url f r v = Inr u"
proof -
  from assms obtain w where w: "validate_safe_url f r v = Inr w"
    by (auto simp: validate_public_media_url_def res_bind_Inr)
  with assms have "u = w"
    by (cases w) (auto simp: validate_public_media_url_def res_bind_Inr split: if_split_asm)
  with w show ?thesis by simp
qed

lemma validate_public_media_url_idem:
  "validate_public_media_url f r v = Inr u \<Longrightarrow> validate_public_media_url f r u = Inr u"
  using validate_public_media_url_Inr [of f r v u] validate_safe_url_idem [of f r v u]
  by (simp add: validate_public_media_url_def)

section \<open>Histories of versioned aggregates\<close>

text \<open>A mutator that raises leaves the aggregate as it is.\<close>

definition attempt :: "('op \<Rightarrow> 's \<Rightarrow> (vendor_exn, 's) res) \<Rightarrow> 'op \<Rightarrow> 's \<Rightarrow> 's" where
  "attempt call op s = (case call op s of Inl _ \<Rightarrow> s | Inr s' \<Rightarrow> s')"

text \<open>
  The contract of \<open>DomainAggregate\<close>: a successful mutator either changes nothing, or leaves a valid
  aggregate with the next version and at most one more event, which carries that version.
\<close>

locale versioned_aggregate =
  fixes call :: "'op \<Rightarrow> 's \<Rightarrow> (vendor_exn, 's) res"
    and version :: "'s \<Rightarrow> int" and events :: "'s \<Rightarrow> 'ev list" and event_version :: "'ev \<Rightarrow> int"
    and valid :: "'s \<Rightarrow> bool"
  assumes call_step: "valid s \<Longrightarrow> call op s = Inr s' \<Longrightarrow> s' = s \<or>
    valid s' \<and> version s' = version s + 1 \<and>
    (events s' = events s \<or> (\<exists>e. events s' = events s @ [e] \<and> event_version e = version s'))"
begin

lemma attempt_step:
  assumes "valid s"
  shows "attempt call op s = s \<or> valid (attempt call op s) \<and> version (attempt call op s) = version s + 1 \<and>
    (events (attempt call op s) = events s \<or>
     (\<exists>e. events (attempt call op s) = events s @ [e] \<and> event_version e = version (attempt call op s)))"
proof (cases "call op s")
  case (Inr s')
  from call_step [OF assms Inr] show ?thesis by (simp add: attempt_def Inr)
qed (simp add: attempt_def)

text \<open>The events of a history carry strictly increasing versions above the initial one.\<close>

lemma history:
  assumes "valid s"
  shows "valid (run_ops (attempt call) ops s) \<and> version s \<le> version (run_ops (attempt call) ops s) \<and>
    (\<exists>new. events (run_ops (attempt call) ops s) = events s @ new \<and>
       sorted_wrt (<) (map event_version new) \<and>
       (\<forall>e \<in> set new. version s < event_version e \<and> event_version e \<le> version (run_ops (attempt call) ops s)))"
  using assms
proof (induction ops arbitrary: s)
  case (Cons op ops)
  let ?s = "attempt call op s"
  from attempt_step [OF Cons.prems, of op] consider "?s = s"
    | "valid ?s" "version ?s = version s + 1" "events ?s = events s"
    | e where "valid ?s" "version ?s = version s + 1" "events ?s = events s @ [e]" "event_version e = version ?s"
    by blast
  then show ?case
  proof cases
    case 1
    with Cons.IH [OF Cons.prems] show ?thesis by simp
  next
    case 2
    with Cons.IH [OF 2(1)] show ?thesis by fastforce
  next
    case 3
    from Cons.IH [OF 3(1)] obtain new where n: "events (run_ops (attempt call) ops ?s) = events ?s @ new"
      "sorted_wrt (<) (map event_version new)"
      "\<forall>e \<in> set new. version ?s < event_version e \<and> event_version e \<le> version (run_ops (attempt call) ops ?s)"
      "valid (run_ops (attempt call) ops ?s)" "version ?s \<le> version (run_ops (attempt call) ops ?s)" by blast
    with 3 show ?thesis by (auto intro!: exI [of _ "e # new"])
  qed
qed (simp add: exI [of _ "[]"])

end

text \<open>
  Content that is shown only after a review: a call that leaves an aggregate shown leaves its content
  as it was, and only an approving call makes it shown.
\<close>

locale reviewed_content =
  fixes call :: "'op \<Rightarrow> 's \<Rightarrow> (vendor_exn, 's) res" and valid :: "'s \<Rightarrow> bool" and shown :: "'s \<Rightarrow> bool"
    and content :: "'s \<Rightarrow> 'v" and approval :: "'op \<Rightarrow> 's \<Rightarrow> bool"
  assumes call_valid: "valid s \<Longrightarrow> call op s = Inr s' \<Longrightarrow> valid s'"
    and shown_step: "valid s \<Longrightarrow> call op s = Inr s' \<Longrightarrow> shown s' \<Longrightarrow>
      content s' = content s \<and> (shown s \<or> approval op s)"
begin

lemma attempt_valid: "valid s \<Longrightarrow> valid (attempt call op s)"
  by (cases "call op s") (auto simp: attempt_def dest: call_valid)

lemma run_valid: "valid s \<Longrightarrow> valid (run_ops (attempt call) ops s)"
  by (induction ops arbitrary: s) (simp_all add: attempt_valid)

text \<open>Content that is shown is the content that an approval in the history saw.\<close>

lemma shown_was_approved:
  assumes "valid s" "\<not> shown s" "shown (run_ops (attempt call) ops s)"
  shows "\<exists>xs op ys. ops = xs @ op # ys \<and> approval op (run_ops (attempt call) xs s) \<and>
    is_ok (call op (run_ops (attempt call) xs s)) \<and>
    content (run_ops (attempt call) ops s) = content (run_ops (attempt call) xs s)"
  using assms(3)
proof (induction ops rule: rev_induct)
  case Nil
  with assms(2) show ?case by simp
next
  case (snoc op ops)
  let ?p = "run_ops (attempt call) ops s"
  have final: "run_ops (attempt call) (ops @ [op]) s = attempt call op ?p" by (simp add: run_ops_append)
  have before: ?case if "shown ?p" "content (attempt call op ?p) = content ?p"
  proof -
    from snoc.IH [OF that(1)] obtain xs x ys where "ops = xs @ x # ys" "approval x (run_ops (attempt call) xs s)"
      "is_ok (call x (run_ops (attempt call) xs s))" "content ?p = content (run_ops (attempt call) xs s)" by blast
    with that(2) show ?thesis
      unfolding final by (intro exI [of _ xs] exI [of _ x] exI [of _ "ys @ [op]"]) simp
  qed
  show ?case
  proof (cases "call op ?p")
    case (Inl e)
    then have same: "attempt call op ?p = ?p" by (simp add: attempt_def)
    with snoc.prems have "shown ?p" unfolding final by simp
    with same show ?thesis by (intro before) simp_all
  next
    case (Inr q)
    then have q: "attempt call op ?p = q" by (simp add: attempt_def)
    with snoc.prems have "shown q" unfolding final by simp
    from shown_step [OF run_valid [OF assms(1)] Inr this] consider "shown ?p" "content q = content ?p"
      | "approval op ?p" "content q = content ?p" by blast
    then show ?thesis
    proof cases
      case 1
      with q show ?thesis by (intro before) simp_all
    next
      case 2
      with q Inr show ?thesis
        unfolding final by (intro exI [of _ ops] exI [of _ op] exI [of _ "[]"]) (simp add: is_ok_def)
    qed
  qed
qed

end

section \<open>Aggregates that validate every candidate\<close>

text \<open>
  \<open>_commit_candidate\<close>: the candidate is validated, then it replaces the fields of \<open>self\<close>, whose events
  stay; the version goes up by one and the event made for that version is recorded. \<open>stamp k es p\<close> sets
  the version and the events of \<open>p\<close>.
\<close>

definition commit_candidate ::
  "('s \<Rightarrow> (vendor_exn, 's) res) \<Rightarrow> ('s \<Rightarrow> int) \<Rightarrow> ('s \<Rightarrow> 'ev list) \<Rightarrow> (int \<Rightarrow> 'ev list \<Rightarrow> 's \<Rightarrow> 's) \<Rightarrow>
     (int \<Rightarrow> 'ev) option \<Rightarrow> 's \<Rightarrow> 's \<Rightarrow> (vendor_exn, 's) res" where
  "commit_candidate validate version events stamp event self candidate =
     res_bind (validate candidate) (\<lambda>c.
       let v = version c + 1 in
       Inr (stamp v (events self @ (case event of None \<Rightarrow> [] | Some f \<Rightarrow> [f v])) c))"

text \<open>A mutator that commits: some candidate with the version of \<open>p\<close> was built (which validates it) and
  committed, with an event that carries its version.\<close>

definition committed ::
  "('s \<Rightarrow> (vendor_exn, 's) res) \<Rightarrow> ('s \<Rightarrow> int) \<Rightarrow> ('s \<Rightarrow> 'ev list) \<Rightarrow> (int \<Rightarrow> 'ev list \<Rightarrow> 's \<Rightarrow> 's) \<Rightarrow>
     ('ev \<Rightarrow> int) \<Rightarrow> 's \<Rightarrow> 's \<Rightarrow> bool" where
  "committed validate version events stamp event_version p q =
     (\<exists>a c event. validate a = Inr c \<and> version a = version p \<and>
        commit_candidate validate version events stamp event p c = Inr q \<and>
        (\<forall>f v. event = Some f \<longrightarrow> event_version (f v) = v))"

lemma committedI:
  "validate a = Inr c \<Longrightarrow> commit_candidate validate version events stamp event p c = Inr q \<Longrightarrow>
     version a = version p \<Longrightarrow> (\<And>f v. event = Some f \<Longrightarrow> event_version (f v) = v) \<Longrightarrow>
     committed validate version events stamp event_version p q"
  unfolding committed_def by blast

locale validated_aggregate =
  fixes validate :: "'s \<Rightarrow> (vendor_exn, 's) res" and version :: "'s \<Rightarrow> int" and events :: "'s \<Rightarrow> 'ev list"
    and stamp :: "int \<Rightarrow> 'ev list \<Rightarrow> 's \<Rightarrow> 's"
  assumes validate_idem: "validate p = Inr q \<Longrightarrow> validate q = Inr q"
    and validate_version: "validate p = Inr q \<Longrightarrow> version q = version p \<and> 0 \<le> version q"
    and stamp_valid: "validate p = Inr p \<Longrightarrow> 0 \<le> k \<Longrightarrow> validate (stamp k es p) = Inr (stamp k es p)"
    and stamp_sel: "version (stamp k es p) = k" "events (stamp k es p) = es"
begin

lemma commit_ok:
  assumes "validate a = Inr c" "commit_candidate validate version events stamp event self c = Inr q"
  shows "validate q = Inr q" "version q = version a + 1"
    "events q = events self @ (case event of None \<Rightarrow> [] | Some f \<Rightarrow> [f (version q)])"
    "q = stamp (version q) (events q) c"
proof -
  have c: "validate c = Inr c" by (rule validate_idem [OF assms(1)])
  note v = validate_version [OF assms(1)]
  from assms(2) c have q: "q = stamp (version c + 1)
      (events self @ (case event of None \<Rightarrow> [] | Some f \<Rightarrow> [f (version c + 1)])) c"
    by (simp add: commit_candidate_def Let_def)
  show "validate q = Inr q" unfolding q using v by (intro stamp_valid [OF c]) simp
  have vq: "version q = version c + 1" by (simp add: q stamp_sel)
  with v show "version q = version a + 1" by simp
  have eq: "events q = events self @ (case event of None \<Rightarrow> [] | Some f \<Rightarrow> [f (version c + 1)])"
    by (simp add: q stamp_sel)
  then show "events q = events self @ (case event of None \<Rightarrow> [] | Some f \<Rightarrow> [f (version q)])"
    unfolding vq .
  show "q = stamp (version q) (events q) c" using q unfolding vq eq .
qed

lemma commit_valid:
  "validate c = Inr c \<Longrightarrow> commit_candidate validate version events stamp event self c =
     Inr (stamp (version c + 1) (events self @ (case event of None \<Rightarrow> [] | Some f \<Rightarrow> [f (version c + 1)])) c)"
  by (simp add: commit_candidate_def Let_def)

end

text \<open>An aggregate whose calls all commit or do nothing is a versioned aggregate.\<close>

locale validated_calls = validated_aggregate validate version events stamp
  for validate :: "'s \<Rightarrow> (vendor_exn, 's) res" and version :: "'s \<Rightarrow> int" and events :: "'s \<Rightarrow> 'ev list"
    and stamp :: "int \<Rightarrow> 'ev list \<Rightarrow> 's \<Rightarrow> 's" +
  fixes call :: "'op \<Rightarrow> 's \<Rightarrow> (vendor_exn, 's) res" and event_version :: "'ev \<Rightarrow> int"
  assumes call_committed: "call op p = Inr q \<Longrightarrow> q \<noteq> p \<Longrightarrow>
    committed validate version events stamp event_version p q"

sublocale validated_calls \<subseteq> versioned_aggregate call version events event_version "\<lambda>p. validate p = Inr p"
proof
  fix p q op assume "validate p = Inr p" "call op p = Inr q"
  show "q = p \<or> validate q = Inr q \<and> version q = version p + 1 \<and>
      (events q = events p \<or> (\<exists>e. events q = events p @ [e] \<and> event_version e = version q))"
  proof (cases "q = p")
    case False
    from call_committed [OF \<open>call op p = Inr q\<close> this] obtain a c event where
      c: "validate a = Inr c" "commit_candidate validate version events stamp event p c = Inr q"
      "version a = version p" "\<forall>f v. event = Some f \<longrightarrow> event_version (f v) = v" by (auto simp: committed_def)
    from commit_ok [OF c(1,2)] c(3,4) show ?thesis by (cases event) auto
  qed simp
qed

section \<open>Pages\<close>

record page_request =
  pr_limit :: int
  pr_offset :: int
  pr_cursor :: "string option"

definition mk_page_request :: "int \<Rightarrow> int \<Rightarrow> string option \<Rightarrow> (string, page_request) res" where
  "mk_page_request limit offset cursor =
     (if limit < 1 \<or> limit > 100 then Inl ''Page limit must be between 1 and 100.''
      else if offset < 0 \<or> offset > 10000 then Inl ''Page offset must be between 0 and 10000.''
      else case cursor of
          None \<Rightarrow> Inr \<lparr>pr_limit = limit, pr_offset = offset, pr_cursor = None\<rparr>
        | Some c \<Rightarrow>
            let c = py_strip c in
            if c = '''' then Inl ''Page cursor cannot be blank.''
            else if length c > 512 then Inl ''Page cursor must be 512 characters or fewer.''
            else if offset \<noteq> 0 then Inl ''Cursor pagination cannot be combined with a nonzero offset.''
            else Inr \<lparr>pr_limit = limit, pr_offset = offset, pr_cursor = Some c\<rparr>)"

record 'a page =
  pg_items :: "'a list"
  pg_total :: int
  pg_limit :: int
  pg_offset :: int
  pg_next_cursor :: "string option"

definition mk_page :: "'a list \<Rightarrow> int \<Rightarrow> int \<Rightarrow> int \<Rightarrow> string option \<Rightarrow> (string, 'a page) res" where
  "mk_page items count limit offset cursor =
     (if count < 0 then Inl ''Page total must be a nonnegative integer.''
      else res_bind (mk_page_request limit offset None) (\<lambda>_.
      if int (length items) > limit then Inl ''Page items cannot exceed the page limit.''
      else if count < int (length items) then Inl ''Page total cannot be less than the number of items.''
      else if offset > count \<and> count \<noteq> 0 then Inl ''Page offset cannot exceed total.''
      else let page = (\<lambda>c. \<lparr>pg_items = items, pg_total = count, pg_limit = limit, pg_offset = offset,
            pg_next_cursor = c\<rparr>) in
        case cursor of
          None \<Rightarrow> Inr (page None)
        | Some c \<Rightarrow>
            let c = py_strip c in
            if c = '''' then Inl ''Page next_cursor cannot be blank.''
            else if length c > 512 then Inl ''Page next_cursor must be 512 characters or fewer.''
            else Inr (page (Some c))))"

end
