(* ===== verification/Market_Service.thy ===== *)
theory Market_Service
  imports Vendor_Shared
begin

text \<open>
  The marketplace service (\<open>fastapi_app\<close>, \<open>application/marketplace\<close>, \<open>domain/marketplace\<close>): the internal
  routes through which the vendor application publishes and withdraws listings, the reviews, the public
  search with its cache and its rate limit, and the authentication of internal requests.

  Floats are the rationals they denote. The body of a request is decoded by pydantic, SQL's \<open>AVG\<close>, the text
  search of PostgreSQL, SHA-256 and HMAC are computed elsewhere: they are arguments. \<open>up k\<close> says whether Redis
  answers the \<open>k\<close>-th call of an operation; an unanswered call has no effect and raises \<open>RedisError\<close>. The
  columns \<open>created_at\<close> and \<open>updated_at\<close> of a listing, which nothing reads, are left out; prices have at
  most two decimals, so the column \<open>Numeric(12, 2)\<close> keeps them as they are.
\<close>

section \<open>Strings\<close>

text \<open>\<open>str.upper\<close>: the sharp s becomes two letters; the two Latin-1 letters whose capitals are outside
  Latin-1 stay, which no comparison below can tell from their capitals.\<close>

definition latin_upper_char :: "char \<Rightarrow> string" where
  "latin_upper_char c =
     (if code c = 223 then ''SS''
      else if 97 \<le> code c \<and> code c \<le> 122 \<or> 224 \<le> code c \<and> code c \<le> 254 \<and> code c \<noteq> 247
      then [char_of (code c - 32)] else [c])"

definition latin_upper :: "string \<Rightarrow> string" where
  "latin_upper s = concat (map latin_upper_char s)"

text \<open>\<open>isprintable\<close> on Latin-1.\<close>

definition is_printable :: "char \<Rightarrow> bool" where
  "is_printable c = (32 \<le> code c \<and> code c \<le> 126 \<or> 161 \<le> code c \<and> code c \<noteq> 173)"

text \<open>Runs of white space become one space: \<open>re.sub(r"\s+", " ", s)\<close>, and on a stripped string also
  \<open>" ".join(s.split())\<close>.\<close>

fun squeeze_from :: "bool \<Rightarrow> string \<Rightarrow> string" where
  "squeeze_from _ [] = []"
| "squeeze_from in_run (c # cs) =
     (if is_space c then (if in_run then squeeze_from True cs else CHR '' '' # squeeze_from True cs)
      else c # squeeze_from False cs)"

definition squeeze :: "string \<Rightarrow> string" where
  "squeeze s = squeeze_from False s"

text \<open>The white space pydantic strips is Rust's, which leaves the separators 28 to 31 alone.\<close>

definition rust_space :: "char \<Rightarrow> bool" where
  "rust_space c = (code c \<in> {9, 10, 11, 12, 13, 32, 133, 160})"

definition rust_trim :: "string \<Rightarrow> string" where
  "rust_trim s = rev (dropWhile rust_space (rev (dropWhile rust_space s)))"

section \<open>Listings, reviews and the cache\<close>

record market_listing =
  ml_id :: uuid
  ml_vendor :: uuid
  ml_external_id :: "string option"
  ml_business_name :: string
  ml_category :: string
  ml_description :: string
  ml_service_area :: string
  ml_tags :: string
  ml_cover_image_url :: "string option"
  ml_average_rating :: rat
  ml_total_reviews :: int
  ml_is_verified :: bool
  ml_approval_status :: string
  ml_rank_score :: rat
  ml_starting_price :: "decimal option"
  ml_min_price :: "decimal option"
  ml_max_price :: "decimal option"
  ml_currency :: "string option"

record posted_review =
  rv_id :: uuid
  rv_vendor :: uuid
  rv_author :: uuid
  rv_rating :: int
  rv_comment :: "string option"

record listing_dto =
  ld_id :: uuid
  ld_business_name :: string
  ld_category :: string
  ld_description :: string
  ld_service_area :: string
  ld_cover_image_url :: "string option"
  ld_average_rating :: rat
  ld_total_reviews :: int
  ld_is_verified :: bool
  ld_starting_price :: "decimal option"
  ld_min_price :: "decimal option"
  ld_max_price :: "decimal option"
  ld_currency :: "string option"

record search_result =
  sr_items :: "listing_dto list"
  sr_total :: nat
  sr_page :: int
  sr_page_size :: int
  sr_total_pages :: int

text \<open>An entry of the cache is found by the version and the digest in its key until it expires.\<close>

record cache_entry =
  ce_version :: int
  ce_digest :: string
  ce_result :: search_result
  ce_expires :: instant

record search_cache =
  ca_version :: "int option"
  ca_entries :: "cache_entry list"
  ca_counts :: "((string \<times> int) \<times> nat) list"

record market =
  mk_listings :: "market_listing list"
  mk_reviews :: "posted_review list"
  mk_cache :: search_cache

text \<open>A response that is not a success: its status and its detail. A database error is answered with
  503, any other exception with 500.\<close>

datatype market_failure = HttpError nat string

definition database_error :: market_failure where
  "database_error = HttpError 503 ''Marketplace service is temporarily unavailable.''"

definition server_error :: market_failure where
  "server_error = HttpError 500 ''Unexpected server error.''"

section \<open>The request that publishes a listing\<close>

datatype tag_value = NoTags | TagText string | TagList "string list"

record listing_request =
  lr_vendor :: uuid
  lr_external_id :: "string option"
  lr_business_name :: string
  lr_category :: string
  lr_custom_category :: "string option"
  lr_description :: string
  lr_service_area :: string
  lr_tags :: tag_value
  lr_cover_image_url :: "string option"
  lr_average_rating :: rat
  lr_total_reviews :: int
  lr_is_verified :: bool
  lr_approval_status :: string
  lr_status :: "string option"
  lr_is_approved :: bool
  lr_rank_score :: rat
  lr_starting_price :: "decimal option"
  lr_min_price :: "decimal option"
  lr_max_price :: "decimal option"
  lr_currency :: "string option"

definition trim_tags :: "tag_value \<Rightarrow> tag_value" where
  "trim_tags t = (case t of NoTags \<Rightarrow> NoTags | TagText s \<Rightarrow> TagText (rust_trim s) | TagList ts \<Rightarrow> TagList (map rust_trim ts))"

definition trim_request :: "listing_request \<Rightarrow> listing_request" where
  "trim_request q = q\<lparr>
     lr_external_id := map_option rust_trim (lr_external_id q), lr_business_name := rust_trim (lr_business_name q),
     lr_category := rust_trim (lr_category q), lr_custom_category := map_option rust_trim (lr_custom_category q),
     lr_description := rust_trim (lr_description q), lr_service_area := rust_trim (lr_service_area q),
     lr_tags := trim_tags (lr_tags q), lr_cover_image_url := map_option rust_trim (lr_cover_image_url q),
     lr_approval_status := rust_trim (lr_approval_status q), lr_status := map_option rust_trim (lr_status q),
     lr_currency := map_option rust_trim (lr_currency q)\<rparr>"

definition length_in :: "nat \<Rightarrow> nat \<Rightarrow> string \<Rightarrow> bool" where
  "length_in lo hi s = (lo \<le> length s \<and> length s \<le> hi)"

definition length_upto :: "nat \<Rightarrow> string option \<Rightarrow> bool" where
  "length_upto hi v = (case v of None \<Rightarrow> True | Some s \<Rightarrow> length s \<le> hi)"

definition nonneg_price :: "decimal option \<Rightarrow> bool" where
  "nonneg_price v = (case v of None \<Rightarrow> True | Some DecSpecial \<Rightarrow> False | Some d \<Rightarrow> 0 \<le> dec_value d)"

text \<open>The constraints of the fields.\<close>

definition request_fields_ok :: "listing_request \<Rightarrow> bool" where
  "request_fields_ok q = (length_upto 128 (lr_external_id q) \<and> length_in 1 200 (lr_business_name q) \<and>
     length_in 1 50 (lr_category q) \<and> length_upto 120 (lr_custom_category q) \<and> length_in 1 2000 (lr_description q) \<and>
     length_in 1 200 (lr_service_area q) \<and> length_upto 500 (lr_cover_image_url q) \<and>
     0 \<le> lr_average_rating q \<and> lr_average_rating q \<le> 5 \<and> 0 \<le> lr_total_reviews q \<and>
     length (lr_approval_status q) \<le> 30 \<and> length_upto 30 (lr_status q) \<and>
     nonneg_price (lr_starting_price q) \<and> nonneg_price (lr_min_price q) \<and> nonneg_price (lr_max_price q) \<and>
     length_upto 10 (lr_currency q))"

text \<open>The validators of single fields. \<open>None\<close> is a \<open>ValueError\<close>.\<close>

definition normalize_choice :: "string \<Rightarrow> string option" where
  "normalize_choice v = (let n = py_lower (py_strip v) in if n = '''' then None else Some n)"

definition normalize_currency_code :: "string \<Rightarrow> string option option" where
  "normalize_currency_code v =
     (let n = latin_upper (py_strip v) in
      if n = '''' then Some None
      else if 3 \<le> length n \<and> length n \<le> 10 \<and> list_all (\<lambda>c. 65 \<le> code c \<and> code c \<le> 90) n then Some (Some n)
      else None)"

definition public_image_url :: "string \<Rightarrow> string option option" where
  "public_image_url v =
     (let n = py_strip v in
      if n = '''' then Some None
      else if \<not> py_startswith n ''https://'' then None
      else if py_contains ''/media/'' n \<or> py_contains ''vendor_portfolio_uploads'' n then None
      else Some (Some n))"

definition validate_tags :: "tag_value \<Rightarrow> tag_value" where
  "validate_tags t =
     (case t of NoTags \<Rightarrow> NoTags
      | TagText s \<Rightarrow> TagText (take 500 s)
      | TagList ts \<Rightarrow> TagList (take 20 (map (\<lambda>s. take 64 (py_strip s)) (filter (\<lambda>s. py_strip s \<noteq> '''') ts))))"

definition optional_field :: "('a \<Rightarrow> 'a option option) \<Rightarrow> 'a option \<Rightarrow> 'a option option" where
  "optional_field f v = (case v of None \<Rightarrow> Some None | Some x \<Rightarrow> f x)"

definition price_value :: "decimal option \<Rightarrow> rat" where
  "price_value v = (case v of None \<Rightarrow> 0 | Some d \<Rightarrow> dec_value d)"

text \<open>\<open>_validate_status_consistency\<close>.\<close>

definition status_consistent :: "listing_request \<Rightarrow> bool" where
  "status_consistent q =
     (lr_approval_status q \<in> {''approved'', ''pending_review'', ''draft'', ''rejected'', ''suspended''} \<and>
      (lr_is_approved q \<longrightarrow> lr_approval_status q = ''approved'') \<and>
      (lr_min_price q \<noteq> None \<and> lr_max_price q \<noteq> None \<longrightarrow> price_value (lr_min_price q) \<le> price_value (lr_max_price q)) \<and>
      (lr_starting_price q \<noteq> None \<and> lr_min_price q \<noteq> None \<longrightarrow>
         price_value (lr_starting_price q) = price_value (lr_min_price q)))"

text \<open>\<open>InternalListingUpsertRequest\<close>: the validated request, or none. The approval status is not blank
  after its validator, so the model validator reads it and never the field \<open>status\<close>.\<close>

definition validate_listing_request :: "listing_request \<Rightarrow> listing_request option" where
  "validate_listing_request q0 =
     (let q = trim_request q0 in
      if \<not> request_fields_ok q then None
      else case (normalize_choice (lr_category q), normalize_choice (lr_approval_status q),
                 optional_field (\<lambda>s. map_option Some (normalize_choice s)) (lr_status q),
                 optional_field normalize_currency_code (lr_currency q),
                 optional_field public_image_url (lr_cover_image_url q)) of
        (Some category, Some approval, Some st, Some currency, Some cover) \<Rightarrow>
          let r = q\<lparr>lr_category := category, lr_approval_status := approval, lr_status := st, lr_currency := currency,
                    lr_cover_image_url := cover, lr_tags := validate_tags (lr_tags q)\<rparr>
          in if status_consistent r then Some r else None
      | _ \<Rightarrow> None)"

section \<open>Authentication of internal requests\<close>

record service_request =
  sv_service :: "string option"
  sv_method :: string
  sv_path :: string
  sv_timestamp :: "string option"
  sv_request_id :: "string option"
  sv_payload_hash :: "string option"
  sv_mac :: "string option"
  sv_payload :: string
  sv_legacy_secret :: "string option"

text \<open>The shared secret, whether the legacy secret is allowed, whether a cache is configured, and what is
  computed elsewhere.\<close>

record service_env =
  se_key :: string
  se_legacy_allowed :: bool
  se_cache :: bool
  se_decode :: "string \<Rightarrow> listing_request option"
  se_sha256 :: "string \<Rightarrow> string"
  se_hmac :: "string \<Rightarrow> string \<Rightarrow> string"
  se_parse_time :: "string \<Rightarrow> datetime option"

definition py_or_empty :: "string option \<Rightarrow> string" where
  "py_or_empty v = (case v of None \<Rightarrow> '''' | Some s \<Rightarrow> s)"

definition canonical_service_request ::
  "string \<Rightarrow> string \<Rightarrow> string \<Rightarrow> string \<Rightarrow> string \<Rightarrow> string \<Rightarrow> string" where
  "canonical_service_request service method path timestamp request_id payload_hash =
     py_join [char_of (10 :: nat)] [''v1'', service, latin_upper method, path, timestamp, request_id, payload_hash]"

definition service_mac :: "service_env \<Rightarrow> string \<Rightarrow> string \<Rightarrow> string" where
  "service_mac e canonical key = se_hmac e key canonical"

definition parse_timestamp :: "service_env \<Rightarrow> string \<Rightarrow> (string, instant) res" where
  "parse_timestamp e v =
     (if v = '''' then Inl ''Service timestamp is required.''
      else case se_parse_time e v of
        None \<Rightarrow> Inl ''Invalid service timestamp.''
      | Some (Naive _) \<Rightarrow> Inl ''Service timestamp must include timezone.''
      | Some (Aware t) \<Rightarrow> Inr t)"

definition assert_fresh_timestamp :: "instant \<Rightarrow> instant \<Rightarrow> (string, unit) res" where
  "assert_fresh_timestamp now t = ensure (\<bar>now - t\<bar> \<le> seconds 300) ''Service timestamp is outside the allowed window.''"

definition assert_matching_mac :: "string \<Rightarrow> string \<Rightarrow> (string, unit) res" where
  "assert_matching_mac supplied expected =
     ensure (supplied \<noteq> '''' \<and> supplied = expected) ''Invalid service authentication.''"

definition assert_service_request :: "service_env \<Rightarrow> instant \<Rightarrow> string \<Rightarrow> service_request \<Rightarrow> (string, unit) res" where
  "assert_service_request e now key q =
     (if sv_service q \<noteq> Some ''django'' then Inl ''Unauthorized service.''
      else if py_or_empty (sv_request_id q) = '''' then Inl ''Request id is required.''
      else res_bind (parse_timestamp e (py_or_empty (sv_timestamp q))) (\<lambda>t.
        res_bind (assert_fresh_timestamp now t) (\<lambda>_.
          let expected = se_sha256 e (sv_payload q) in
          if sv_payload_hash q \<noteq> Some expected then Inl ''Invalid payload digest.''
          else assert_matching_mac (py_or_empty (sv_mac q))
            (service_mac e (canonical_service_request ''django'' (sv_method q) (sv_path q)
               (py_or_empty (sv_timestamp q)) (py_or_empty (sv_request_id q)) expected) key))))"

text \<open>\<open>build_service_headers\<close>: the headers Django signs a request with.\<close>

definition build_service_request ::
  "service_env \<Rightarrow> string \<Rightarrow> string \<Rightarrow> string \<Rightarrow> string \<Rightarrow> string \<Rightarrow> string \<Rightarrow> service_request" where
  "build_service_request e key method path payload request_id timestamp =
     (let h = se_sha256 e payload in
      \<lparr>sv_service = Some ''django'', sv_method = method, sv_path = path, sv_timestamp = Some timestamp,
       sv_request_id = Some request_id, sv_payload_hash = Some h,
       sv_mac = Some (service_mac e (canonical_service_request ''django'' method path timestamp request_id h) key),
       sv_payload = payload, sv_legacy_secret = None\<rparr>)"

text \<open>\<open>_verified_body\<close>, with the legacy secret that development environments may allow.\<close>

definition verified_body ::
  "service_env \<Rightarrow> instant \<Rightarrow> service_request \<Rightarrow> (market_failure, string) res" where
  "verified_body e now q =
     (if py_or_empty (sv_legacy_secret q) \<noteq> '''' \<and> sv_legacy_secret q = Some (se_key e) \<and> se_legacy_allowed e
      then Inr (sv_payload q)
      else case assert_service_request e now (se_key e) q of
        Inl _ \<Rightarrow> Inl (HttpError 401 ''Unauthorized internal request.'')
      | Inr _ \<Rightarrow> Inr (sv_payload q))"

section \<open>Publishing and withdrawing listings\<close>

definition parse_listing_payload :: "service_env \<Rightarrow> string \<Rightarrow> (market_failure, listing_request) res" where
  "parse_listing_payload e body =
     (case se_decode e body of
        None \<Rightarrow> Inl (HttpError 422 ''Unprocessable'')
      | Some q0 \<Rightarrow> (case validate_listing_request q0 of
            None \<Rightarrow> Inl (HttpError 422 ''Unprocessable'') | Some q \<Rightarrow> Inr q))"

definition normalize_tags :: "tag_value \<Rightarrow> string" where
  "normalize_tags t =
     (case t of NoTags \<Rightarrow> ''''
      | TagText s \<Rightarrow> py_strip s
      | TagList ts \<Rightarrow> py_join '', '' (filter (\<lambda>s. s \<noteq> '''') (map py_strip ts)))"

definition request_external_id :: "listing_request \<Rightarrow> string option" where
  "request_external_id q = (case lr_external_id q of None \<Rightarrow> None | Some e \<Rightarrow> if e = '''' then None else Some (py_strip e))"

definition find_listing :: "listing_request \<Rightarrow> market_listing list \<Rightarrow> market_listing option" where
  "find_listing q ls =
     (case find (\<lambda>l. ml_vendor l = lr_vendor q) ls of
        Some l \<Rightarrow> Some l
      | None \<Rightarrow> (case request_external_id q of
            None \<Rightarrow> None
          | Some e \<Rightarrow> if e = '''' then None else find (\<lambda>l. ml_external_id l = Some e) ls))"

definition written_listing :: "listing_request \<Rightarrow> market_listing \<Rightarrow> market_listing" where
  "written_listing q l = l\<lparr>ml_vendor := lr_vendor q,
     ml_external_id := (case request_external_id q of None \<Rightarrow> ml_external_id l | Some e \<Rightarrow> Some e),
     ml_business_name := lr_business_name q, ml_category := lr_category q, ml_description := lr_description q,
     ml_service_area := lr_service_area q, ml_tags := normalize_tags (lr_tags q),
     ml_cover_image_url := lr_cover_image_url q, ml_average_rating := lr_average_rating q,
     ml_total_reviews := lr_total_reviews q, ml_is_verified := lr_is_verified q, ml_approval_status := ''approved'',
     ml_rank_score := lr_rank_score q, ml_starting_price := lr_starting_price q, ml_min_price := lr_min_price q,
     ml_max_price := lr_max_price q, ml_currency := lr_currency q\<rparr>"

definition blank_listing :: "uuid \<Rightarrow> market_listing" where
  "blank_listing i = \<lparr>ml_id = i, ml_vendor = 0, ml_external_id = None, ml_business_name = '''', ml_category = '''',
     ml_description = '''', ml_service_area = '''', ml_tags = '''', ml_cover_image_url = None, ml_average_rating = 0,
     ml_total_reviews = 0, ml_is_verified = False, ml_approval_status = '''', ml_rank_score = 0,
     ml_starting_price = None, ml_min_price = None, ml_max_price = None, ml_currency = None\<rparr>"

text \<open>The foreign key of the reviews, the unique columns, and the precision of the price columns.\<close>

definition reviewed :: "uuid \<Rightarrow> posted_review list \<Rightarrow> bool" where
  "reviewed v rs = list_ex (\<lambda>r. rv_vendor r = v) rs"

definition price_fits :: "decimal option \<Rightarrow> bool" where
  "price_fits v = (price_value v < 10 ^ 10)"

definition listing_clash :: "market_listing \<Rightarrow> market_listing list \<Rightarrow> bool" where
  "listing_clash l ls = list_ex (\<lambda>x. ml_id x \<noteq> ml_id l \<and>
     (ml_vendor x = ml_vendor l \<or> ml_external_id l \<noteq> None \<and> ml_external_id x = ml_external_id l)) ls"

definition listing_storable :: "market_listing \<Rightarrow> market_listing list \<Rightarrow> bool" where
  "listing_storable l ls = (\<not> listing_clash l ls \<and> price_fits (ml_starting_price l) \<and> price_fits (ml_min_price l) \<and>
     price_fits (ml_max_price l))"

definition remove_listing :: "market_listing \<Rightarrow> market \<Rightarrow> (market_failure, market) res" where
  "remove_listing l w =
     (if reviewed (ml_vendor l) (mk_reviews w) then Inl database_error
      else Inr (w\<lparr>mk_listings := filter (\<lambda>x. ml_id x \<noteq> ml_id l) (mk_listings w)\<rparr>))"

text \<open>\<open>_upsert_listing_payload\<close> answers whether the vendor is listed now.\<close>

definition upsert_listing_payload :: "uuid \<Rightarrow> listing_request \<Rightarrow> market \<Rightarrow> (market_failure, market \<times> bool) res" where
  "upsert_listing_payload new_id q w =
     (let approved = lr_is_approved q \<and> py_lower (py_strip (lr_approval_status q)) = ''approved''
      in case find_listing q (mk_listings w) of
        None \<Rightarrow>
          if \<not> approved then Inr (w, False)
          else let l = written_listing q (blank_listing new_id) in
            if listing_storable l (mk_listings w) then Inr (w\<lparr>mk_listings := mk_listings w @ [l]\<rparr>, True)
            else Inl database_error
      | Some old \<Rightarrow>
          if \<not> approved then res_bind (remove_listing old w) (\<lambda>w'. Inr (w', False))
          else let l = written_listing q old in
            if listing_storable l (mk_listings w) \<and> (ml_vendor l = ml_vendor old \<or> \<not> reviewed (ml_vendor old) (mk_reviews w))
            then Inr (w\<lparr>mk_listings := map (\<lambda>x. if ml_id x = ml_id old then l else x) (mk_listings w)\<rparr>, True)
            else Inl database_error)"

text \<open>\<open>_invalidate_marketplace_cache\<close>: the version of the cache keys moves on; without an answer of Redis
  the request fails, after the listing has been committed.\<close>

definition invalidate :: "search_cache \<Rightarrow> search_cache" where
  "invalidate c = c\<lparr>ca_version := Some (case ca_version c of None \<Rightarrow> 1 | Some v \<Rightarrow> v + 1)\<rparr>"

definition invalidate_cache :: "service_env \<Rightarrow> bool \<Rightarrow> market \<Rightarrow> 'a \<Rightarrow> market \<times> (market_failure, 'a) res" where
  "invalidate_cache e up w r =
     (if \<not> se_cache e then (w, Inr r)
      else if up then (w\<lparr>mk_cache := invalidate (mk_cache w)\<rparr>, Inr r)
      else (w, Inl server_error))"

definition upsert_listing ::
  "service_env \<Rightarrow> bool \<Rightarrow> instant \<Rightarrow> uuid \<Rightarrow> service_request \<Rightarrow> market \<Rightarrow> market \<times> (market_failure, bool) res" where
  "upsert_listing e up now new_id q w =
     (case res_bind (verified_body e now q) (\<lambda>body. res_bind (parse_listing_payload e body) (\<lambda>p.
         upsert_listing_payload new_id p w)) of
        Inl f \<Rightarrow> (w, Inl f)
      | Inr (w', listed) \<Rightarrow> invalidate_cache e up w' listed)"

text \<open>The identifier in the path has been parsed; \<open>None\<close> is one that is not a UUID.\<close>

definition delete_listing ::
  "service_env \<Rightarrow> bool \<Rightarrow> instant \<Rightarrow> uuid option \<Rightarrow> service_request \<Rightarrow> market \<Rightarrow> market \<times> (market_failure, bool) res" where
  "delete_listing e up now vendor q w =
     (case verified_body e now q of
        Inl f \<Rightarrow> (w, Inl f)
      | Inr _ \<Rightarrow> (case vendor of
            None \<Rightarrow> (w, Inl (HttpError 400 ''Invalid vendor_id.''))
          | Some v \<Rightarrow> (case find (\<lambda>l. ml_vendor l = v) (mk_listings w) of
                None \<Rightarrow> (w, Inr False)
              | Some l \<Rightarrow> (case remove_listing l w of
                    Inl f \<Rightarrow> (w, Inl f)
                  | Inr w' \<Rightarrow> invalidate_cache e up w' True))))"

definition list_listings :: "service_env \<Rightarrow> instant \<Rightarrow> service_request \<Rightarrow> market \<Rightarrow> (market_failure, uuid list) res" where
  "list_listings e now q w =
     res_bind (verified_body e now q) (\<lambda>_. Inr (map ml_vendor (mk_listings w)))"

end
