(* ===== verification/Market_Search.thy ===== *)
theory Market_Search
  imports Market_Service
begin

text \<open>
  The public side of the marketplace: search (\<open>fastapi_app/schemas.py\<close>, \<open>dependencies.py\<close>,
  \<open>repositories.py\<close>, \<open>application/marketplace/search_service.py\<close>) with its cache and rate limit in Redis,
  single listings and reviews (\<open>application/marketplace/handlers.py\<close>).

  The database is PostgreSQL; the branch of the repository for other databases, which the tests use, is
  left out. Serializing a result for the cache and reading it back is the identity: prices are written with
  all their digits. The rank is exact, where the database adds doubles.
\<close>

section \<open>Search parameters\<close>

record search_criteria =
  sc_query :: "string option"
  sc_category :: "string option"
  sc_location :: "string option"
  sc_min_rating :: "rat option"
  sc_min_price :: "decimal option"
  sc_max_price :: "decimal option"
  sc_page :: int
  sc_page_size :: int

text \<open>\<open>MarketplaceSearchRequest\<close>, with the parameters as numbers already.\<close>

record search_request =
  sq_q :: "string option"
  sq_category :: "string option"
  sq_location :: "string option"
  sq_min_rating :: "rat option"
  sq_rating :: "rat option"
  sq_min_price :: "decimal option"
  sq_max_price :: "decimal option"
  sq_page :: int
  sq_page_size :: int

definition search_text :: "nat \<Rightarrow> string option \<Rightarrow> string option option" where
  "search_text limit v =
     (case v of None \<Rightarrow> Some None
      | Some s \<Rightarrow>
          let t = rust_trim s; n = squeeze (py_strip t) in
          if limit < length t then None
          else if n = '''' then Some None
          else if list_all is_printable n then Some (Some n) else None)"

definition rating_in_range :: "rat option \<Rightarrow> bool" where
  "rating_in_range v = (case v of None \<Rightarrow> True | Some r \<Rightarrow> 0 \<le> r \<and> r \<le> 5)"

text \<open>\<open>get_marketplace_search_params\<close>. The \<open>ValidationError\<close> of the model is no \<open>RequestValidationError\<close>, so
  FastAPI answers it as an unexpected error.\<close>

definition search_params :: "search_request \<Rightarrow> (market_failure, search_criteria) res" where
  "search_params q =
     (case (search_text 128 (sq_q q), search_text 64 (sq_category q), search_text 128 (sq_location q)) of
        (Some query, Some category, Some location) \<Rightarrow>
          if rating_in_range (sq_min_rating q) \<and> rating_in_range (sq_rating q) \<and>
             nonneg_price (sq_min_price q) \<and> nonneg_price (sq_max_price q) \<and>
             1 \<le> sq_page q \<and> sq_page q \<le> 1000 \<and> 1 \<le> sq_page_size q \<and> sq_page_size q \<le> 50 \<and>
             \<not> (sq_min_rating q \<noteq> None \<and> sq_rating q \<noteq> None \<and> sq_min_rating q \<noteq> sq_rating q) \<and>
             \<not> (sq_min_price q \<noteq> None \<and> sq_max_price q \<noteq> None \<and> price_value (sq_min_price q) > price_value (sq_max_price q))
          then Inr \<lparr>sc_query = query, sc_category = category, sc_location = location,
            sc_min_rating = (if sq_min_rating q \<noteq> None then sq_min_rating q else sq_rating q),
            sc_min_price = sq_min_price q, sc_max_price = sq_max_price q, sc_page = sq_page q,
            sc_page_size = sq_page_size q\<rparr>
          else Inl server_error
      | _ \<Rightarrow> Inl server_error)"

text \<open>\<open>_normalize_text\<close> and \<open>_normalize_criteria\<close>; \<open>None\<close> is the \<open>ValueError\<close>.\<close>

definition normalize_text :: "string option \<Rightarrow> string option option" where
  "normalize_text v =
     (case v of None \<Rightarrow> Some None
      | Some s \<Rightarrow>
          if \<not> list_all is_printable s then None
          else let n = py_lower (squeeze (py_strip s)) in Some (if n = '''' then None else Some n))"

definition clamp :: "int \<Rightarrow> int \<Rightarrow> int \<Rightarrow> int" where
  "clamp lo hi x = max lo (min x hi)"

definition normalize_criteria :: "search_criteria \<Rightarrow> search_criteria option" where
  "normalize_criteria c =
     (case (normalize_text (sc_query c), normalize_text (sc_category c), normalize_text (sc_location c)) of
        (Some query, Some category, Some location) \<Rightarrow>
          Some (c\<lparr>sc_query := query, sc_category := category, sc_location := location,
                  sc_page := clamp 1 1000 (sc_page c), sc_page_size := clamp 1 50 (sc_page_size c)\<rparr>)
      | _ \<Rightarrow> None)"

section \<open>The repository\<close>

text \<open>What PostgreSQL computes from the search vector of a listing.\<close>

record text_engine =
  te_matches :: "string \<Rightarrow> market_listing \<Rightarrow> bool"
  te_rank :: "string \<Rightarrow> market_listing \<Rightarrow> rat"

definition sanitize :: "nat \<Rightarrow> string option \<Rightarrow> string option" where
  "sanitize limit v =
     (case v of None \<Rightarrow> None
      | Some s \<Rightarrow> let n = take limit (py_lower (squeeze (py_strip s))) in if n = '''' then None else Some n)"

text \<open>\<open>LIKE\<close>: a percent sign is any text, an underscore any character, a backslash quotes the next one.\<close>

fun sql_like :: "string \<Rightarrow> string \<Rightarrow> bool" where
  "sql_like [] s = (s = [])"
| "sql_like (p # ps) s =
     (if p = CHR ''%'' then sql_like ps s \<or> (case s of [] \<Rightarrow> False | c # cs \<Rightarrow> sql_like (p # ps) cs)
      else if p = char_of (92 :: nat)
      then (case ps of [] \<Rightarrow> False
            | q # qs \<Rightarrow> (case s of [] \<Rightarrow> False | c # cs \<Rightarrow> c = q \<and> sql_like qs cs))
      else (case s of [] \<Rightarrow> False | c # cs \<Rightarrow> (p = CHR ''_'' \<or> p = c) \<and> sql_like ps cs))"

definition opt_holds :: "('a \<Rightarrow> bool) \<Rightarrow> 'a option \<Rightarrow> bool" where
  "opt_holds P v = (case v of None \<Rightarrow> True | Some x \<Rightarrow> P x)"

text \<open>A comparison with a missing price is not true.\<close>

definition price_at_least :: "decimal \<Rightarrow> decimal option \<Rightarrow> bool" where
  "price_at_least lo v = (case v of None \<Rightarrow> False | Some d \<Rightarrow> dec_value lo \<le> dec_value d)"

definition price_at_most :: "decimal \<Rightarrow> decimal option \<Rightarrow> bool" where
  "price_at_most hi v = (case v of None \<Rightarrow> False | Some d \<Rightarrow> dec_value d \<le> dec_value hi)"

definition listing_matches :: "text_engine \<Rightarrow> search_criteria \<Rightarrow> market_listing \<Rightarrow> bool" where
  "listing_matches te c l =
     (ml_approval_status l = ''approved'' \<and> ml_is_verified l \<and>
      opt_holds (\<lambda>q. te_matches te q l) (sanitize 128 (sc_query c)) \<and>
      opt_holds (\<lambda>k. py_lower (ml_category l) = k) (sanitize 64 (sc_category c)) \<and>
      opt_holds (\<lambda>k. sql_like (''%'' @ k @ ''%'') (py_lower (ml_service_area l))) (sanitize 64 (sc_location c)) \<and>
      opt_holds (\<lambda>r. r \<le> ml_average_rating l) (sc_min_rating c) \<and>
      opt_holds (\<lambda>p. price_at_least p (ml_min_price l)) (sc_min_price c) \<and>
      opt_holds (\<lambda>p. price_at_most p (ml_min_price l)) (sc_max_price c))"

definition rank_expression :: "text_engine \<Rightarrow> search_criteria \<Rightarrow> market_listing \<Rightarrow> rat" where
  "rank_expression te c l =
     (case sanitize 128 (sc_query c) of None \<Rightarrow> 0 | Some q \<Rightarrow> te_rank te q l * 10) +
     (if sanitize 128 (sc_query c) = Some (py_lower (ml_business_name l)) then 4 else 0) +
     (if sanitize 64 (sc_category c) = Some (py_lower (ml_category l)) then 2 else 0) +
     (if sanitize 64 (sc_location c) = Some (py_lower (ml_service_area l)) then 3 / 2 else 0) +
     ml_average_rating l * (1 / 2)"

text \<open>By rank, the best first; among equals the greater identifier first.\<close>

definition ranked :: "text_engine \<Rightarrow> search_criteria \<Rightarrow> market_listing list \<Rightarrow> market_listing list" where
  "ranked te c ls = sort_key (\<lambda>l. - rank_expression te c l) (sort_key (\<lambda>l. - int (ml_id l)) ls)"

definition search_listings ::
  "text_engine \<Rightarrow> search_criteria \<Rightarrow> int \<Rightarrow> int \<Rightarrow> market_listing list \<Rightarrow> market_listing list \<times> nat" where
  "search_listings te c limit offset ls =
     (let found = filter (listing_matches te c) ls
      in (take (nat (clamp 1 50 limit)) (drop (nat (max 0 offset)) (ranked te c found)), length found))"

definition get_by_vendor_id :: "uuid \<Rightarrow> market_listing list \<Rightarrow> market_listing option" where
  "get_by_vendor_id v ls = find (\<lambda>l. ml_vendor l = v \<and> ml_approval_status l = ''approved'') ls"

section \<open>The search service\<close>

definition listing_to_dto :: "market_listing \<Rightarrow> listing_dto" where
  "listing_to_dto l = \<lparr>ld_id = ml_vendor l, ld_business_name = ml_business_name l, ld_category = ml_category l,
     ld_description = ml_description l, ld_service_area = ml_service_area l,
     ld_cover_image_url = ml_cover_image_url l, ld_average_rating = ml_average_rating l,
     ld_total_reviews = ml_total_reviews l, ld_is_verified = ml_is_verified l,
     ld_starting_price = ml_starting_price l, ld_min_price = ml_min_price l, ld_max_price = ml_max_price l,
     ld_currency = ml_currency l\<rparr>"

definition execute_search :: "text_engine \<Rightarrow> search_criteria \<Rightarrow> market_listing list \<Rightarrow> search_result" where
  "execute_search te c ls =
     (let limit = clamp 1 50 (sc_page_size c);
          (found, n) = search_listings te c limit (max 0 ((sc_page c - 1) * limit)) ls
      in \<lparr>sr_items = map listing_to_dto found, sr_total = n, sr_page = sc_page c, sr_page_size = limit,
          sr_total_pages = (if n = 0 then 0 else (int n + limit - 1) div limit)\<rparr>)"

text \<open>Who is searching: \<open>get_marketplace_client_identifier\<close>. In production the header is trusted.\<close>

definition first_forwarded_for_value :: "string option \<Rightarrow> string option" where
  "first_forwarded_for_value h =
     (case h of None \<Rightarrow> None
      | Some v \<Rightarrow>
          let first = py_strip (hd (py_split_char CHR '','' v)) in
          if first = '''' then None
          else if py_startswith first ''['' \<and> CHR '']'' \<in> set first
          then Some (take 128 (dropWhile (\<lambda>c. c = CHR ''['') (hd (py_split_char CHR '']'' first))))
          else if length (filter (\<lambda>c. c = CHR '':'') first) = 1 \<and> CHR ''.'' \<in> set first
          then Some (take 128 (hd (py_split_char CHR '':'' first)))
          else Some (take 128 first))"

definition resolve_client_source :: "bool \<Rightarrow> string option \<Rightarrow> string option \<Rightarrow> string" where
  "resolve_client_source trusted header host =
     (case if trusted then first_forwarded_for_value header else None of
        Some v \<Rightarrow> if v \<noteq> '''' then v else if py_or_empty host \<noteq> '''' then py_or_empty host else ''unknown''
      | None \<Rightarrow> if py_or_empty host \<noteq> '''' then py_or_empty host else ''unknown'')"

definition client_identifier :: "(string \<Rightarrow> string) \<Rightarrow> bool \<Rightarrow> string option \<Rightarrow> string option \<Rightarrow> string" where
  "client_identifier sha trusted header host = ''client:'' @ take 32 (sha (resolve_client_source trusted header host))"

record search_settings =
  ss_ttl :: int
  ss_limit :: nat
  ss_window :: int
  ss_engine :: text_engine
  ss_digest :: "search_criteria \<Rightarrow> string"

datatype search_failure = RedisError | RateLimited

definition count_of :: "string \<times> int \<Rightarrow> search_cache \<Rightarrow> nat" where
  "count_of k c = (case map_of (ca_counts c) k of None \<Rightarrow> 0 | Some n \<Rightarrow> n)"

definition window_bucket :: "search_settings \<Rightarrow> instant \<Rightarrow> int" where
  "window_bucket s now = now div seconds (ss_window s)"

text \<open>A counter expires after its bucket has ended, and the bucket does not come back.\<close>

definition enforce_rate_limit ::
  "search_settings \<Rightarrow> (nat \<Rightarrow> bool) \<Rightarrow> instant \<Rightarrow> string \<Rightarrow> search_cache \<Rightarrow> search_cache \<times> (search_failure, unit) res" where
  "enforce_rate_limit s up now client c =
     (let k = (client, window_bucket s now); current = count_of k c + 1; c' = c\<lparr>ca_counts := (k, current) # ca_counts c\<rparr>
      in if \<not> up 0 then (c, Inl RedisError)
         else if current = 1 \<and> \<not> up 1 then (c', Inl RedisError)
         else if ss_limit s < current then (c', Inl RateLimited)
         else (c', Inr ()))"

definition get_version :: "(nat \<Rightarrow> bool) \<Rightarrow> search_cache \<Rightarrow> search_cache \<times> (search_failure, int) res" where
  "get_version up c =
     (if \<not> up 2 then (c, Inl RedisError)
      else case ca_version c of
        Some v \<Rightarrow> (c, Inr v)
      | None \<Rightarrow>
          if \<not> up 3 then (c, Inl RedisError)
          else let c' = c\<lparr>ca_version := Some 1\<rparr> in if up 4 then (c', Inr 1) else (c', Inl RedisError))"

definition entry_at :: "int \<Rightarrow> string \<Rightarrow> cache_entry \<Rightarrow> bool" where
  "entry_at v d x = (ce_version x = v \<and> ce_digest x = d)"

definition get_cached_result ::
  "(nat \<Rightarrow> bool) \<Rightarrow> instant \<Rightarrow> int \<Rightarrow> string \<Rightarrow> search_cache \<Rightarrow> (search_failure, search_result option) res" where
  "get_cached_result up now v d c =
     (if \<not> up 5 then Inl RedisError
      else Inr (map_option ce_result (find (\<lambda>x. entry_at v d x \<and> now < ce_expires x) (ca_entries c))))"

definition set_cached_result ::
  "search_settings \<Rightarrow> (nat \<Rightarrow> bool) \<Rightarrow> instant \<Rightarrow> int \<Rightarrow> string \<Rightarrow> search_result \<Rightarrow> search_cache \<Rightarrow> search_cache" where
  "set_cached_result s up now v d r c =
     (if up 6 then c\<lparr>ca_entries := \<lparr>ce_version = v, ce_digest = d, ce_result = r, ce_expires = now + seconds (ss_ttl s)\<rparr> #
        filter (\<lambda>x. \<not> entry_at v d x) (ca_entries c)\<rparr> else c)"

text \<open>\<open>MarketplaceSearchService.search\<close> behind its route. Without a cache there is no rate limit either; when
  Redis fails before the search, the search runs and its result is not stored.\<close>

definition search_uncached :: "search_settings \<Rightarrow> search_criteria \<Rightarrow> market \<Rightarrow> search_result" where
  "search_uncached s c w = execute_search (ss_engine s) c (mk_listings w)"

definition search_vendors ::
  "search_settings \<Rightarrow> bool \<Rightarrow> (nat \<Rightarrow> bool) \<Rightarrow> instant \<Rightarrow> string \<Rightarrow> search_criteria \<Rightarrow> market \<Rightarrow>
     market \<times> (market_failure, search_result) res" where
  "search_vendors s cached up now client c0 w =
     (case normalize_criteria c0 of
        None \<Rightarrow> (w, Inl (HttpError 400 ''Search parameters must contain printable characters only.''))
      | Some c \<Rightarrow>
          if \<not> cached then (w, Inr (search_uncached s c w))
          else let (k1, limited) = enforce_rate_limit s up now client (mk_cache w); w1 = w\<lparr>mk_cache := k1\<rparr> in
            case limited of
              Inl RateLimited \<Rightarrow> (w1, Inl (HttpError 429 ''Marketplace search rate limit exceeded.''))
            | Inl RedisError \<Rightarrow> (w1, Inr (search_uncached s c w1))
            | Inr _ \<Rightarrow>
                let (k2, version) = get_version up k1; w2 = w\<lparr>mk_cache := k2\<rparr> in
                case version of
                  Inl _ \<Rightarrow> (w2, Inr (search_uncached s c w2))
                | Inr v \<Rightarrow> (case get_cached_result up now v (ss_digest s c) k2 of
                      Inl _ \<Rightarrow> (w2, Inr (search_uncached s c w2))
                    | Inr (Some r) \<Rightarrow> (w2, Inr r)
                    | Inr None \<Rightarrow>
                        let r = search_uncached s c w2
                        in (w2\<lparr>mk_cache := set_cached_result s up now v (ss_digest s c) r k2\<rparr>, Inr r)))"

section \<open>Single listings and reviews\<close>

definition get_vendor_listing :: "uuid \<Rightarrow> market \<Rightarrow> (market_failure, listing_dto) res" where
  "get_vendor_listing v w =
     (case get_by_vendor_id v (mk_listings w) of
        None \<Rightarrow> Inl (HttpError 404 ''Vendor not found'') | Some l \<Rightarrow> Inr (listing_to_dto l))"

text \<open>\<open>update_vendor_listing\<close> of the application layer saves through the repository, whose \<open>save\<close> writes the
  columns the entity does not have with their defaults. A text that is too long for its column is a
  database error.\<close>

record listing_update =
  lu_vendor :: uuid
  lu_business_name :: "string option"
  lu_category :: "string option"
  lu_description :: "string option"
  lu_service_area :: "string option"
  lu_cover_image_url :: "string option"

definition listing_fits :: "market_listing \<Rightarrow> bool" where
  "listing_fits l = (length (ml_business_name l) \<le> 200 \<and> length (ml_category l) \<le> 50 \<and> length (ml_service_area l) \<le> 200 \<and>
     length_upto 500 (ml_cover_image_url l) \<and> length_upto 10 (ml_currency l))"

definition save_listing :: "market_listing \<Rightarrow> market \<Rightarrow> (market_failure, market \<times> market_listing) res" where
  "save_listing l w =
     (let old = find (\<lambda>x. ml_vendor x = ml_vendor l) (mk_listings w);
          r = l\<lparr>ml_id := (case old of None \<Rightarrow> ml_id l | Some x \<Rightarrow> ml_id x), ml_external_id := None,
                ml_tags := (case old of None \<Rightarrow> '''' | Some x \<Rightarrow> ml_tags x),
                ml_approval_status := ''approved'', ml_rank_score := 0\<rparr>
      in if \<not> listing_fits r \<or> \<not> listing_storable r (mk_listings w) then Inl database_error
         else Inr (w\<lparr>mk_listings := (case old of None \<Rightarrow> mk_listings w @ [r]
                 | Some x \<Rightarrow> map (\<lambda>y. if ml_id y = ml_id x then r else y) (mk_listings w))\<rparr>, r))"

definition update_vendor_listing ::
  "uuid \<Rightarrow> listing_update \<Rightarrow> market \<Rightarrow> (market_failure, market \<times> listing_dto) res" where
  "update_vendor_listing new_id u w =
     (let set = (\<lambda>v old. case v of None \<Rightarrow> old | Some x \<Rightarrow> x);
          l = (case get_by_vendor_id (lu_vendor u) (mk_listings w) of
             None \<Rightarrow> (blank_listing new_id)\<lparr>ml_vendor := lu_vendor u, ml_business_name := py_or_empty (lu_business_name u),
                ml_category := (if py_or_empty (lu_category u) = '''' then ''other'' else py_or_empty (lu_category u)),
                ml_description := py_or_empty (lu_description u), ml_service_area := py_or_empty (lu_service_area u),
                ml_cover_image_url := lu_cover_image_url u\<rparr>
           | Some l \<Rightarrow> l\<lparr>ml_business_name := set (lu_business_name u) (ml_business_name l),
                ml_category := set (lu_category u) (ml_category l),
                ml_description := set (lu_description u) (ml_description l),
                ml_service_area := set (lu_service_area u) (ml_service_area l),
                ml_cover_image_url := (case lu_cover_image_url u of None \<Rightarrow> ml_cover_image_url l | Some x \<Rightarrow> Some x)\<rparr>)
      in res_bind (save_listing l w) (\<lambda>(w', r). Inr (w', listing_to_dto r)))"

datatype review_failure = RatingOutOfRange | VendorNotFound

definition mk_review :: "uuid \<Rightarrow> uuid \<Rightarrow> uuid \<Rightarrow> int \<Rightarrow> string option \<Rightarrow> (review_failure, posted_review) res" where
  "mk_review i vendor author rating comment =
     (if 1 \<le> rating \<and> rating \<le> 5
      then Inr \<lparr>rv_id = i, rv_vendor = vendor, rv_author = author, rv_rating = rating, rv_comment = comment\<rparr>
      else Inl RatingOutOfRange)"

text \<open>\<open>average\<close> is the average the database computes, as a float.\<close>

definition vendor_ratings :: "uuid \<Rightarrow> posted_review list \<Rightarrow> int list" where
  "vendor_ratings v rs = map rv_rating (filter (\<lambda>r. rv_vendor r = v) rs)"

definition update_vendor_rating :: "(int list \<Rightarrow> rat) \<Rightarrow> uuid \<Rightarrow> market \<Rightarrow> market" where
  "update_vendor_rating average v w =
     (let rs = vendor_ratings v (mk_reviews w)
      in w\<lparr>mk_listings := map (\<lambda>l. if ml_vendor l = v
            then l\<lparr>ml_average_rating := (if rs = [] then 0 else average rs), ml_total_reviews := int (length rs)\<rparr> else l)
          (mk_listings w)\<rparr>)"

definition post_review ::
  "(int list \<Rightarrow> rat) \<Rightarrow> uuid \<Rightarrow> uuid \<Rightarrow> uuid \<Rightarrow> int \<Rightarrow> string option \<Rightarrow> market \<Rightarrow> (review_failure, market \<times> posted_review) res" where
  "post_review average i vendor author rating comment w =
     (if get_by_vendor_id vendor (mk_listings w) = None then Inl VendorNotFound
      else res_bind (mk_review i vendor author rating comment) (\<lambda>r.
        Inr (update_vendor_rating average vendor (w\<lparr>mk_reviews := mk_reviews w @ [r]\<rparr>), r)))"

text \<open>Reviews are kept in the order in which they were created; the newest come first. The route reads the
  listing before.\<close>

definition list_by_vendor :: "uuid \<Rightarrow> int \<Rightarrow> int \<Rightarrow> posted_review list \<Rightarrow> posted_review list" where
  "list_by_vendor v limit offset rs = take (nat limit) (drop (nat offset) (rev (filter (\<lambda>r. rv_vendor r = v) rs)))"

definition get_vendor_reviews :: "uuid \<Rightarrow> int \<Rightarrow> int \<Rightarrow> market \<Rightarrow> (market_failure, posted_review list) res" where
  "get_vendor_reviews v page page_size w =
     res_bind (get_vendor_listing v w) (\<lambda>_.
       Inr (list_by_vendor v page_size ((page - 1) * page_size) (mk_reviews w)))"

definition delete_review :: "(int list \<Rightarrow> rat) \<Rightarrow> uuid \<Rightarrow> market \<Rightarrow> market" where
  "delete_review average i w =
     (case find (\<lambda>r. rv_id r = i) (mk_reviews w) of
        None \<Rightarrow> w
      | Some r \<Rightarrow> update_vendor_rating average (rv_vendor r)
          (w\<lparr>mk_reviews := filter (\<lambda>x. rv_id x \<noteq> i) (mk_reviews w)\<rparr>))"

end
