(* ===== verification/Market_Guarantees.thy ===== *)
theory Market_Guarantees
  imports Market_Search "HOL-Library.Multiset"
begin

text \<open>
  What the marketplace promises: a cached answer is the answer of the database, searches are rationed, the
  pages of a search are its results in order, only signed requests change listings, a listing says what the
  last accepted request said.
\<close>

section \<open>Histories\<close>

datatype market_op =
    MUpsert service_env bool instant uuid service_request
  | MDelete service_env bool instant "uuid option" service_request
  | MSearch "nat \<Rightarrow> bool" instant string search_criteria

fun market_step :: "search_settings \<Rightarrow> market_op \<Rightarrow> market \<Rightarrow> market" where
  "market_step s (MUpsert e up now i q) w = fst (upsert_listing e up now i q w)"
| "market_step s (MDelete e up now v q) w = fst (delete_listing e up now v q w)"
| "market_step s (MSearch up now client c) w = fst (search_vendors s True up now client c w)"

text \<open>Redis is configured and answers the invalidation.\<close>

fun invalidates :: "market_op \<Rightarrow> bool" where
  "invalidates (MUpsert e up now i q) = (se_cache e \<and> up)"
| "invalidates (MDelete e up now v q) = (se_cache e \<and> up)"
| "invalidates (MSearch up now client c) = True"

section \<open>Cached answers\<close>

text \<open>Entries under the current version hold the present answer.\<close>

definition cache_ok :: "search_settings \<Rightarrow> search_criteria set \<Rightarrow> market \<Rightarrow> bool" where
  "cache_ok s C w =
     ((ca_version (mk_cache w) = None \<longrightarrow> ca_entries (mk_cache w) = []) \<and>
      (\<forall>v. ca_version (mk_cache w) = Some v \<longrightarrow> (\<forall>x \<in> set (ca_entries (mk_cache w)). ce_version x \<le> v)) \<and>
      (\<forall>x \<in> set (ca_entries (mk_cache w)). ca_version (mk_cache w) = Some (ce_version x) \<longrightarrow>
         (\<forall>c \<in> C. ss_digest s c = ce_digest x \<longrightarrow> ce_result x = search_uncached s c w)))"

lemma search_uncached_listings: "mk_listings w = mk_listings w' \<Longrightarrow> search_uncached s c w = search_uncached s c w'"
  by (simp add: search_uncached_def)

lemma cache_ok_counts: "cache_ok s C (w\<lparr>mk_cache := c\<lparr>ca_counts := n\<rparr>\<rparr>) = cache_ok s C (w\<lparr>mk_cache := c\<rparr>)"
  by (simp add: cache_ok_def search_uncached_def)

lemma cache_ok_invalidate:
  assumes "cache_ok s C w" and "mk_cache w' = mk_cache w"
  shows "cache_ok s C (w'\<lparr>mk_cache := invalidate (mk_cache w')\<rparr>)"
proof (cases "ca_version (mk_cache w)")
  case None
  with assms show ?thesis by (simp add: cache_ok_def invalidate_def)
next
  case (Some v)
  with assms(1) have le: "ce_version x \<le> v" if "x \<in> set (ca_entries (mk_cache w))" for x
    using that by (simp add: cache_ok_def)
  then have "ce_version x \<noteq> v + 1" if "x \<in> set (ca_entries (mk_cache w))" for x
    using that by (metis add.commute zle_add1_eq_le order_less_irrefl)
  moreover have "ce_version x \<le> v + 1" if "x \<in> set (ca_entries (mk_cache w))" for x
    using le [OF that] by simp
  ultimately show ?thesis by (auto simp: cache_ok_def invalidate_def Some assms(2)) blast
qed

lemma enforce_rate_limit_cache:
  "enforce_rate_limit s up now client c = (c', r) \<Longrightarrow> ca_version c' = ca_version c \<and> ca_entries c' = ca_entries c"
  by (auto simp: enforce_rate_limit_def Let_def split: if_splits)

lemma cache_ok_cong:
  "ca_version c' = ca_version (mk_cache w) \<Longrightarrow> ca_entries c' = ca_entries (mk_cache w) \<Longrightarrow>
     cache_ok s C (w\<lparr>mk_cache := c'\<rparr>) = cache_ok s C w"
  by (simp add: cache_ok_def search_uncached_def)

lemma get_version_ok:
  assumes "get_version up c = (c', r)" "cache_ok s C (w\<lparr>mk_cache := c\<rparr>)"
  shows "cache_ok s C (w\<lparr>mk_cache := c'\<rparr>)" and "r = Inr v \<Longrightarrow> ca_version c' = Some v"
proof -
  have "c' = c \<and> (\<forall>v. r = Inr v \<longrightarrow> ca_version c = Some v) \<or>
        ca_version c = None \<and> c' = c\<lparr>ca_version := Some 1\<rparr> \<and> (\<forall>v. r = Inr v \<longrightarrow> v = 1)"
    using assms(1) by (cases "up 2"; cases "up 3"; cases "up 4"; cases "ca_version c") (auto simp: get_version_def)
  then show "cache_ok s C (w\<lparr>mk_cache := c'\<rparr>)" and "r = Inr v \<Longrightarrow> ca_version c' = Some v"
    using assms(2) by (auto simp: cache_ok_def)
qed

lemma set_cached_result_ok:
  assumes ok: "cache_ok s C (w\<lparr>mk_cache := k\<rparr>)" and v: "ca_version k = Some v" and c: "c \<in> C"
    and inj: "inj_on (ss_digest s) C"
  shows "cache_ok s C (w\<lparr>mk_cache := set_cached_result s up now v (ss_digest s c) (search_uncached s c w) k\<rparr>)"
  using ok v c inj unfolding cache_ok_def set_cached_result_def
  by (auto simp: search_uncached_def entry_at_def inj_on_def)

lemma search_vendors_ok:
  assumes ok: "cache_ok s C w" and inj: "inj_on (ss_digest s) C"
    and c: "\<And>c. normalize_criteria c0 = Some c \<Longrightarrow> c \<in> C"
    and run: "search_vendors s True up now client c0 w = (w', r)"
  shows "cache_ok s C w' \<and> mk_listings w' = mk_listings w \<and> mk_reviews w' = mk_reviews w \<and>
    (\<forall>c x. normalize_criteria c0 = Some c \<longrightarrow> r = Inr x \<longrightarrow> x = search_uncached s c w)"
proof (cases "normalize_criteria c0")
  case None
  then show ?thesis using run ok by (simp add: search_vendors_def)
next
  case (Some n)
  obtain k1 lim where k1: "enforce_rate_limit s up now client (mk_cache w) = (k1, lim)" by fastforce
  obtain k2 ver where k2: "get_version up k1 = (k2, ver)" by fastforce
  have ok1: "cache_ok s C (w\<lparr>mk_cache := k1\<rparr>)"
    using enforce_rate_limit_cache [OF k1] ok by (simp add: cache_ok_cong)
  note ok2 = get_version_ok [OF k2 ok1]
  have same: "search_uncached s n (w\<lparr>mk_cache := k\<rparr>) = search_uncached s n w" for k
    by (simp add: search_uncached_def)
  show ?thesis
  proof (cases lim)
    case (Inl f)
    then show ?thesis using run Some k1 ok1 same
      by (cases f) (auto simp: search_vendors_def)
  next
    case (Inr u)
    show ?thesis
    proof (cases ver)
      case (Inl f)
      then show ?thesis using run Some k1 k2 Inr ok2(1) same by (auto simp: search_vendors_def)
    next
      case v: (Inr v)
      show ?thesis
      proof (cases "get_cached_result up now v (ss_digest s n) k2")
        case (Inl f)
        then show ?thesis using run Some k1 k2 Inr v ok2(1) same by (auto simp: search_vendors_def)
      next
        case got: (Inr e)
        show ?thesis
        proof (cases e)
          case None
          then show ?thesis
            using run Some k1 k2 Inr v got ok2 same c [OF Some] set_cached_result_ok [OF ok2(1) ok2(2) c [OF Some] inj]
            by (auto simp: search_vendors_def Let_def)
        next
          case (Some x)
          then obtain y where y: "y \<in> set (ca_entries k2)" "entry_at v (ss_digest s n) y" "ce_result y = x"
            using got by (auto simp: get_cached_result_def split: if_splits dest: find_Some_set)
          then have "x = search_uncached s n w"
            using ok2 v c [OF \<open>normalize_criteria c0 = Some n\<close>] same
            by (auto simp: cache_ok_def entry_at_def)
          then show ?thesis
            using run \<open>normalize_criteria c0 = Some n\<close> k1 k2 Inr v got Some ok2(1) by (auto simp: search_vendors_def)
        qed
      qed
    qed
  qed
qed

lemma remove_listing_frame:
  "remove_listing l w = Inr w' \<Longrightarrow> mk_reviews w' = mk_reviews w \<and> mk_cache w' = mk_cache w"
  by (auto simp: remove_listing_def split: if_splits)

lemma upsert_listing_payload_frame:
  "upsert_listing_payload i q w = Inr (w', b) \<Longrightarrow> mk_reviews w' = mk_reviews w \<and> mk_cache w' = mk_cache w"
  by (auto simp: upsert_listing_payload_def Let_def res_simps remove_listing_def split: option.split_asm if_splits)

text \<open>A publication or withdrawal either changes nothing or changes the listings and moves the version on.\<close>

definition invalidated :: "market \<Rightarrow> market \<Rightarrow> bool" where
  "invalidated w v = (v = w \<or> (\<exists>w'. mk_cache w' = mk_cache w \<and> v = w'\<lparr>mk_cache := invalidate (mk_cache w')\<rparr>))"

lemma invalidated_cache_ok: "invalidated w v \<Longrightarrow> cache_ok s C w \<Longrightarrow> cache_ok s C v"
  using cache_ok_invalidate by (auto simp: invalidated_def)

lemma invalidate_cache_invalidated:
  "se_cache e \<Longrightarrow> mk_cache w' = mk_cache w \<Longrightarrow> invalidated w (fst (invalidate_cache e True w' r))"
  by (auto simp: invalidated_def invalidate_cache_def)

lemma invalidated_refl: "invalidated w w"
  by (simp add: invalidated_def)

lemma upsert_invalidated: "se_cache e \<Longrightarrow> invalidated w (fst (upsert_listing e True now i q w))"
  unfolding upsert_listing_def
  by (auto split: sum.split intro!: invalidated_refl invalidate_cache_invalidated
      dest: upsert_listing_payload_frame simp: res_simps)

lemma delete_invalidated: "se_cache e \<Longrightarrow> invalidated w (fst (delete_listing e True now v q w))"
  unfolding delete_listing_def
  by (auto split: sum.split option.split intro!: invalidated_refl invalidate_cache_invalidated
      dest: remove_listing_frame)

lemma market_step_ok:
  assumes ok: "cache_ok s C w" and inj: "inj_on (ss_digest s) C" and op: "invalidates op"
    and c: "\<And>up now client c0 c. op = MSearch up now client c0 \<Longrightarrow> normalize_criteria c0 = Some c \<Longrightarrow> c \<in> C"
  shows "cache_ok s C (market_step s op w)"
proof (cases op)
  case (MUpsert e up now i q)
  with op ok invalidated_cache_ok [OF upsert_invalidated] show ?thesis by simp
next
  case (MDelete e up now v q)
  with op ok invalidated_cache_ok [OF delete_invalidated] show ?thesis by simp
next
  case (MSearch up now client c0)
  obtain w' r where "search_vendors s True up now client c0 w = (w', r)" by fastforce
  with search_vendors_ok [OF ok inj c [OF MSearch] this] show ?thesis by (simp add: MSearch)
qed

fun searched :: "market_op \<Rightarrow> search_criteria list" where
  "searched (MSearch up now client c) = (case normalize_criteria c of None \<Rightarrow> [] | Some n \<Rightarrow> [n])"
| "searched _ = []"

definition fresh_cache :: search_cache where
  "fresh_cache = \<lparr>ca_version = None, ca_entries = [], ca_counts = []\<rparr>"

lemma market_history_ok:
  assumes "cache_ok s C w" "inj_on (ss_digest s) C" "\<forall>op \<in> set ops. invalidates op"
    and "\<forall>op \<in> set ops. set (searched op) \<subseteq> C"
  shows "cache_ok s C (run_ops (market_step s) ops w)"
  using assms
proof (induction ops arbitrary: w)
  case (Cons op ops)
  then have "cache_ok s C (market_step s op w)"
    by (intro market_step_ok) auto
  with Cons show ?case by simp
qed simp

text \<open>C32. A search is answered as if there were no cache: after any history of publications, withdrawals and
  searches in which Redis took the invalidations, the answer of a search, whether it comes from the
  cache or not and whatever calls to Redis fail during the search, is the one computed from the listings
  as they are now. The digest in the cache keys is assumed to tell the searches of the history apart.\<close>

theorem cached_search_is_current:
  assumes "mk_cache w = fresh_cache" and "\<forall>op \<in> set ops. invalidates op"
    and "inj_on (ss_digest s) (insert c (\<Union>op \<in> set ops. set (searched op)))"
    and "normalize_criteria c0 = Some c"
    and "search_vendors s True up now client c0 (run_ops (market_step s) ops w) = (w', Inr r)"
  shows "r = search_uncached s c (run_ops (market_step s) ops w)"
proof -
  have "cache_ok s (insert c (\<Union>op \<in> set ops. set (searched op))) w"
    using assms(1) by (simp add: cache_ok_def fresh_cache_def)
  then have "cache_ok s (insert c (\<Union>op \<in> set ops. set (searched op))) (run_ops (market_step s) ops w)"
    using assms(2,3) by (intro market_history_ok) auto
  from search_vendors_ok [OF this assms(3) _ assms(5)] assms(4) show ?thesis by auto
qed

section \<open>The rate limit\<close>

text \<open>A search of the client in the bucket that is answered with a result while Redis takes its count.\<close>

fun answered :: "search_settings \<Rightarrow> string \<Rightarrow> int \<Rightarrow> market_op \<Rightarrow> market \<Rightarrow> bool" where
  "answered s client b (MSearch up now cl c) w =
     (cl = client \<and> window_bucket s now = b \<and> up 0 \<and> up 1 \<and> is_ok (snd (search_vendors s True up now cl c w)))"
| "answered s client b _ w = False"

lemma count_of_cong: "ca_counts c = ca_counts c' \<Longrightarrow> count_of k c = count_of k c'"
  by (simp add: count_of_def)

lemma get_version_counts: "get_version up c = (c', r) \<Longrightarrow> ca_counts c' = ca_counts c"
  by (cases "up 2"; cases "up 3"; cases "up 4"; cases "ca_version c") (auto simp: get_version_def)

lemma search_vendors_counts:
  "ca_counts (mk_cache (fst (search_vendors s True up now client c w))) =
     (if normalize_criteria c = None then ca_counts (mk_cache w)
      else ca_counts (fst (enforce_rate_limit s up now client (mk_cache w))))"
  by (auto simp: search_vendors_def Let_def set_cached_result_def dest: get_version_counts
      split: option.split prod.split sum.split search_failure.split)

lemma enforce_rate_limit_count:
  "up 0 \<Longrightarrow> count_of (client, window_bucket s now) (fst (enforce_rate_limit s up now client c)) =
     Suc (count_of (client, window_bucket s now) c)"
  "count_of k c \<le> count_of k (fst (enforce_rate_limit s up now client c))"
  by (auto simp: enforce_rate_limit_def Let_def count_of_def)

lemma invalidated_counts: "invalidated w v \<Longrightarrow> ca_counts (mk_cache v) = ca_counts (mk_cache w)"
  by (auto simp: invalidated_def invalidate_def)

lemma upsert_or_delete_counts:
  "ca_counts (mk_cache (fst (upsert_listing e up now i q w))) = ca_counts (mk_cache w)"
  "ca_counts (mk_cache (fst (delete_listing e up now v q w))) = ca_counts (mk_cache w)"
  by (auto simp: upsert_listing_def delete_listing_def invalidate_cache_def invalidate_def res_simps
      dest!: upsert_listing_payload_frame remove_listing_frame split: sum.split option.split)

lemma market_step_count: "count_of k (mk_cache w) \<le> count_of k (mk_cache (market_step s op w))"
proof (cases op)
  case (MSearch up now client c)
  have "count_of k (mk_cache (market_step s op w)) =
      (if normalize_criteria c = None then count_of k (mk_cache w)
       else count_of k (fst (enforce_rate_limit s up now client (mk_cache w))))"
    by (simp add: MSearch count_of_def search_vendors_counts)
  then show ?thesis using enforce_rate_limit_count(2) by simp
qed (simp_all add: count_of_def upsert_or_delete_counts)

lemma answered_counts:
  assumes "answered s client b op w"
  shows "count_of (client, b) (mk_cache w) < ss_limit s"
    and "count_of (client, b) (mk_cache (market_step s op w)) = Suc (count_of (client, b) (mk_cache w))"
proof -
  obtain up now c where op: "op = MSearch up now client c" and b: "window_bucket s now = b" and up: "up 0" "up 1"
    and ok: "is_ok (snd (search_vendors s True up now client c w))"
    using assms by (cases op) auto
  have n: "normalize_criteria c \<noteq> None" using ok by (auto simp: search_vendors_def split: option.splits)
  have "snd (enforce_rate_limit s up now client (mk_cache w)) \<noteq> Inl RateLimited"
    using ok n by (auto simp: search_vendors_def split: option.splits prod.splits sum.splits)
  then show "count_of (client, b) (mk_cache w) < ss_limit s"
    using up b by (auto simp: enforce_rate_limit_def Let_def split: if_splits)
  show "count_of (client, b) (mk_cache (market_step s op w)) = Suc (count_of (client, b) (mk_cache w))"
  proof -
    have "count_of (client, b) (mk_cache (market_step s op w)) =
        count_of (client, b) (fst (enforce_rate_limit s up now client (mk_cache w)))"
      using n by (auto simp: op count_of_def search_vendors_counts)
    with enforce_rate_limit_count(1) [where up = up and s = s and now = now and client = client and c = "mk_cache w"] up b show ?thesis by simp
  qed
qed

lemma answered_bound:
  "length (accepted_ops (market_step s) (answered s client b) ops w) \<le> ss_limit s - count_of (client, b) (mk_cache w)"
proof (induction ops arbitrary: w)
  case (Cons op ops)
  show ?case
  proof (cases "answered s client b op w")
    case True
    with answered_counts [OF True] Cons [of "market_step s op w"] show ?thesis by simp
  next
    case False
    with Cons [of "market_step s op w"] market_step_count [of "(client, b)" w s op] show ?thesis by simp
  qed
qed simp

text \<open>Searches are rationed: within one window of the rate limit, no client gets more searches answered
  than the limit, whatever other requests run in between, as long as Redis takes the counts.\<close>

theorem search_rate_bounded:
  "length (accepted_ops (market_step s) (answered s client b) ops w) \<le> ss_limit s"
  using answered_bound [of s client b ops w] by simp

lemma enforce_rate_limit_other:
  "k \<noteq> (client, window_bucket s now) \<Longrightarrow> count_of k (fst (enforce_rate_limit s up now client c)) = count_of k c"
  by (auto simp: enforce_rate_limit_def Let_def count_of_def)

lemma search_count_other:
  "k \<noteq> (client, window_bucket s now) \<Longrightarrow> count_of k (mk_cache (market_step s (MSearch up now client c) w)) = count_of k (mk_cache w)"
  using enforce_rate_limit_other [of k client s now up "mk_cache w"] by (simp add: count_of_def search_vendors_counts)

lemma fresh_client_answered:
  assumes "count_of (client, window_bucket s now) (mk_cache w) = 0" "1 \<le> ss_limit s" "normalize_criteria c \<noteq> None"
  shows "is_ok (snd (search_vendors s True up now client c w))"
proof -
  obtain k1 r where e: "enforce_rate_limit s up now client (mk_cache w) = (k1, r)" by fastforce
  with assms(1,2) have "r \<noteq> Inl RateLimited" by (auto simp: enforce_rate_limit_def Let_def split: if_splits)
  with e assms(3) show ?thesis
    by (auto simp: search_vendors_def Let_def split: option.split prod.split sum.split search_failure.split)
qed

lemma searches_count_other:
  "(\<And>op. op \<in> set ops \<Longrightarrow> \<exists>up client c. op = MSearch up now client c \<and> client \<noteq> k) \<Longrightarrow>
     count_of (k, window_bucket s now) (mk_cache (run_ops (market_step s) ops w)) = count_of (k, window_bucket s now) (mk_cache w)"
proof (induction ops arbitrary: w)
  case (Cons op ops)
  obtain up client c where op: "op = MSearch up now client c" "client \<noteq> k" using Cons.prems [of op] by auto
  then have "count_of (k, window_bucket s now) (mk_cache (market_step s op w)) = count_of (k, window_bucket s now) (mk_cache w)"
    using search_count_other [of "(k, window_bucket s now)" client s now up c w] by simp
  with Cons show ?case by simp
qed simp

text \<open>The search a request with this header asks for.\<close>

definition header_search :: "(string \<Rightarrow> string) \<Rightarrow> string option \<Rightarrow> instant \<Rightarrow> search_criteria \<Rightarrow> string \<Rightarrow> market_op" where
  "header_search sha host now c h = MSearch (\<lambda>_. True) now (client_identifier sha True (Some h) host) c"

text \<open>C40. The limit counts what the header \<open>X-Forwarded-For\<close> says, which in production the service trusts as it
  comes: a requester that sends another value with every request has every search answered, however many
  there are within the window. The digests of the values are assumed to differ.\<close>

theorem forwarded_header_evades_limit:
  assumes "distinct (map (\<lambda>h. client_identifier sha True (Some h) host) hs)" and "i < length hs"
    and "ca_counts (mk_cache w) = []" "1 \<le> ss_limit s" "normalize_criteria c \<noteq> None"
  shows "is_ok (snd (search_vendors s True (\<lambda>_. True) now (client_identifier sha True (Some (hs ! i)) host) c
    (run_ops (market_step s) (map (header_search sha host now c) (take i hs)) w)))"
proof (rule fresh_client_answered [OF _ assms(4,5)])
  let ?id = "\<lambda>h. client_identifier sha True (Some h) host"
  have "?id h \<noteq> ?id (hs ! i)" if h: "h \<in> set (take i hs)" for h
  proof -
    obtain j where "j < i" "h = hs ! j" using h assms(2) nth_image [of i hs] by fastforce
    with assms(1,2) show ?thesis by (simp add: distinct_conv_nth)
  qed
  then have "count_of (?id (hs ! i), window_bucket s now)
      (mk_cache (run_ops (market_step s) (map (header_search sha host now c) (take i hs)) w)) =
    count_of (?id (hs ! i), window_bucket s now) (mk_cache w)"
    by (intro searches_count_other) (auto simp: header_search_def)
  then show "count_of (?id (hs ! i), window_bucket s now)
      (mk_cache (run_ops (market_step s) (map (header_search sha host now c) (take i hs)) w)) = 0"
    using assms(3) by (simp add: count_of_def)
qed

section \<open>Pages\<close>


lemma page_irrelevant [simp]:
  "listing_matches te (c\<lparr>sc_page := k\<rparr>) = listing_matches te c"
  "ranked te (c\<lparr>sc_page := k\<rparr>) ls = ranked te c ls"
  by (auto simp: listing_matches_def ranked_def rank_expression_def fun_eq_iff)

lemma length_ranked [simp]: "length (ranked te c ls) = length ls"
  by (simp add: ranked_def)



section \<open>Internal requests\<close>

text \<open>What a request of Django looks like to the service: signed with the shared secret over its method,
  path, time stamp, identifier and payload, at most 300 seconds away from the clock.\<close>

definition signed_request :: "service_env \<Rightarrow> instant \<Rightarrow> service_request \<Rightarrow> bool" where
  "signed_request e now q =
     (let stamp = py_or_empty (sv_timestamp q) in
      sv_service q = Some ''django'' \<and> py_or_empty (sv_request_id q) \<noteq> '''' \<and>
      (case se_parse_time e stamp of Some (Aware t) \<Rightarrow> \<bar>now - t\<bar> \<le> seconds 300 | _ \<Rightarrow> False) \<and>
      sv_mac q = Some (se_hmac e (se_key e) (canonical_service_request ''django'' (sv_method q) (sv_path q) stamp
        (py_or_empty (sv_request_id q)) (se_sha256 e (sv_payload q)))))"

lemma assert_service_request_signed: "assert_service_request e now (se_key e) q = Inr () \<Longrightarrow> signed_request e now q"
  by (auto simp: assert_service_request_def signed_request_def parse_timestamp_def assert_fresh_timestamp_def
      assert_matching_mac_def service_mac_def py_or_empty_def Let_def res_simps
      split: if_splits option.splits datetime.splits)

lemma verified_body_signed:
  "verified_body e now q = Inr body \<Longrightarrow> \<not> se_legacy_allowed e \<Longrightarrow> signed_request e now q \<and> body = sv_payload q"
  by (auto simp: verified_body_def intro: assert_service_request_signed split: if_splits sum.splits)

lemma upsert_listing_rejected: "verified_body e now q = Inl f \<Longrightarrow> upsert_listing e up now i q w = (w, Inl f)"
  by (simp add: upsert_listing_def)

lemma delete_listing_rejected: "verified_body e now q = Inl f \<Longrightarrow> delete_listing e up now v q w = (w, Inl f)"
  by (simp add: delete_listing_def)

lemma search_vendors_listings: "mk_listings (fst (search_vendors s True up now client c w)) = mk_listings w"
  by (auto simp: search_vendors_def Let_def split: option.split prod.split sum.split search_failure.split)

fun op_request :: "market_op \<Rightarrow> (service_env \<times> instant \<times> service_request) option" where
  "op_request (MUpsert e up now i q) = Some (e, now, q)"
| "op_request (MDelete e up now v q) = Some (e, now, q)"
| "op_request (MSearch up now client c) = None"

text \<open>C33. Only the vendor application changes what is listed: whatever request changes the listings carries
  the authentication code, under the shared secret, of its own method, path, time stamp, identifier and
  payload, and a time stamp at most 300 seconds away from the clock (when the legacy secret is off, as
  in production). Searches change nothing.\<close>

theorem listings_change_only_when_signed:
  assumes "mk_listings (market_step s op w) \<noteq> mk_listings w"
  shows "\<exists>e now q. op_request op = Some (e, now, q) \<and> (se_legacy_allowed e \<or> signed_request e now q)"
proof (cases op)
  case (MUpsert e up now i q)
  with assms show ?thesis
    by (cases "verified_body e now q") (auto simp: upsert_listing_rejected dest: verified_body_signed)
next
  case (MDelete e up now v q)
  with assms show ?thesis
    by (cases "verified_body e now q") (auto simp: delete_listing_rejected dest: verified_body_signed)
next
  case (MSearch up now client c)
  with assms show ?thesis by (simp add: search_vendors_listings)
qed

text \<open>A request that Django signs is accepted, and accepted again, until its time stamp is too old: the
  service does not remember identifiers.\<close>

lemma built_request_accepted:
  assumes "se_parse_time e stamp = Some (Aware t)" "\<bar>now - t\<bar> \<le> seconds 300" "stamp \<noteq> ''''" "rid \<noteq> ''''"
    and "se_hmac e (se_key e) (canonical_service_request ''django'' method path stamp rid (se_sha256 e body)) \<noteq> ''''"
  shows "verified_body e now (build_service_request e (se_key e) method path body rid stamp) = Inr body"
  using assms
  by (simp add: verified_body_def build_service_request_def assert_service_request_def parse_timestamp_def
      assert_fresh_timestamp_def assert_matching_mac_def service_mac_def py_or_empty_def Let_def)

section \<open>Listings\<close>

text \<open>Every vendor has at most one listing, every listing is approved, external identifiers are unique.\<close>

definition external_ids_unique :: "market_listing list \<Rightarrow> bool" where
  "external_ids_unique ls = (\<forall>x \<in> set ls. \<forall>y \<in> set ls.
     ml_external_id x \<noteq> None \<longrightarrow> ml_external_id y = ml_external_id x \<longrightarrow> ml_id y = ml_id x)"

definition market_ok :: "market \<Rightarrow> bool" where
  "market_ok w = (distinct (map ml_vendor (mk_listings w)) \<and> distinct (map ml_id (mk_listings w)) \<and>
     external_ids_unique (mk_listings w) \<and> (\<forall>l \<in> set (mk_listings w). ml_approval_status l = ''approved''))"

lemma find_listing_set: "find_listing q ls = Some l \<Longrightarrow> l \<in> set ls"
  by (auto simp: find_listing_def split: option.split_asm if_splits dest: find_Some_set)

lemma distinct_map_upd:
  assumes "distinct (map i xs)" "distinct (map f xs)" "\<And>x. x \<in> set xs \<Longrightarrow> i x \<noteq> k \<Longrightarrow> f x \<noteq> f n"
  shows "distinct (map f (map (\<lambda>x. if i x = k then n else x) xs))"
  using assms
proof (induction xs)
  case (Cons x xs)
  show ?case
  proof (cases "i x = k")
    case True
    with Cons.prems(1) have other: "i y \<noteq> k" if "y \<in> set xs" for y
      using that by (metis distinct.simps(2) image_eqI list.simps(9) set_map)
    then have "map (\<lambda>x. if i x = k then n else x) xs = xs" by (simp add: map_idI)
    moreover have "f n \<notin> f ` set xs" using Cons.prems(3) other True by (metis image_iff list.set_intros(2))
    ultimately show ?thesis using True Cons.prems by simp
  next
    case False
    with Cons.prems(3) [of x] have "f x \<noteq> f n" by simp
    with False Cons show ?thesis by (auto simp: image_iff split: if_splits)
  qed
qed simp

lemma remove_listing_ok: "market_ok w \<Longrightarrow> remove_listing l w = Inr w' \<Longrightarrow> market_ok w'"
  by (auto simp: market_ok_def remove_listing_def distinct_map_filter external_ids_unique_def split: if_splits)

lemma written_listing_simps [simp]:
  "ml_id (written_listing q l) = ml_id l" "ml_vendor (written_listing q l) = lr_vendor q"
  "ml_approval_status (written_listing q l) = ''approved''"
  by (simp_all add: written_listing_def)

lemma blank_listing_id [simp]: "ml_id (blank_listing i) = i"
  by (simp add: blank_listing_def)

lemma not_clash_external:
  assumes "\<not> listing_clash l ls" "x \<in> set ls" "ml_id x \<noteq> ml_id l" "ml_external_id l \<noteq> None"
  shows "ml_external_id x \<noteq> ml_external_id l"
  using assms by (auto simp: listing_clash_def list_ex_iff)

lemma external_ids_unique_append:
  assumes "external_ids_unique ls" "\<not> listing_clash l ls" "ml_id l \<notin> ml_id ` set ls"
  shows "external_ids_unique (ls @ [l])"
proof -
  have "ml_external_id x \<noteq> ml_external_id l" if "x \<in> set ls" "ml_external_id l \<noteq> None" for x
  proof -
    have "ml_id x \<noteq> ml_id l" using imageI [OF that(1), of ml_id] assms(3) by metis
    then show ?thesis by (rule not_clash_external [OF assms(2) that(1) _ that(2)])
  qed
  then have "y = l \<or> y \<in> set ls \<and> (ml_external_id l \<noteq> None \<longrightarrow> ml_external_id y \<noteq> ml_external_id l)"
    if "y \<in> set (ls @ [l])" for y using that by auto
  with assms(1) show ?thesis unfolding external_ids_unique_def by metis
qed

lemma external_ids_unique_replace:
  assumes "external_ids_unique ls" "\<not> listing_clash l ls"
  shows "external_ids_unique (map (\<lambda>x. if ml_id x = ml_id l then l else x) ls)"
  unfolding external_ids_unique_def
proof (intro ballI impI)
  fix x y
  assume xy: "x \<in> set (map (\<lambda>x. if ml_id x = ml_id l then l else x) ls)"
    "y \<in> set (map (\<lambda>x. if ml_id x = ml_id l then l else x) ls)"
    and e: "ml_external_id x \<noteq> None" "ml_external_id y = ml_external_id x"
  have "x = l \<or> x \<in> set ls \<and> ml_id x \<noteq> ml_id l" "y = l \<or> y \<in> set ls \<and> ml_id y \<noteq> ml_id l"
    using xy by (auto split: if_splits)
  then show "ml_id y = ml_id x"
    using e not_clash_external [OF assms(2)] assms(1) unfolding external_ids_unique_def by metis
qed

lemma upsert_listing_payload_ok:
  assumes ok: "market_ok w" and new: "new_id \<notin> ml_id ` set (mk_listings w)"
    and run: "upsert_listing_payload new_id q w = Inr (w', b)"
  shows "market_ok w'"
proof (cases "find_listing q (mk_listings w)")
  case None
  then have absent: "\<forall>l \<in> set (mk_listings w). ml_vendor l \<noteq> lr_vendor q"
    by (auto simp: find_listing_def find_None_iff split: option.split_asm)
  have "w' = w \<or> w' = w\<lparr>mk_listings := mk_listings w @ [written_listing q (blank_listing new_id)]\<rparr> \<and>
      listing_storable (written_listing q (blank_listing new_id)) (mk_listings w)"
    using None run by (auto simp: upsert_listing_payload_def Let_def split: if_splits)
  moreover note blank_listing_id
  moreover have "lr_vendor q \<notin> ml_vendor ` set (mk_listings w)" using absent by (metis image_iff)
  moreover have "external_ids_unique (mk_listings w @ [written_listing q (blank_listing new_id)])"
    if "listing_storable (written_listing q (blank_listing new_id)) (mk_listings w)"
    using that ok new by (intro external_ids_unique_append) (simp_all add: market_ok_def listing_storable_def blank_listing_id)
  ultimately show ?thesis using ok new by (auto simp: market_ok_def)
next
  case (Some old)
  show ?thesis
  proof (cases "lr_is_approved q \<and> py_lower (py_strip (lr_approval_status q)) = ''approved''")
    case False
    with Some ok run show ?thesis
      by (auto simp: upsert_listing_payload_def Let_def res_simps intro: remove_listing_ok)
  next
    case True
    let ?l = "written_listing q old"
    let ?ls = "map (\<lambda>x. if ml_id x = ml_id old then ?l else x) (mk_listings w)"
    have st: "listing_storable ?l (mk_listings w)" and w': "w' = w\<lparr>mk_listings := ?ls\<rparr>"
      using run Some True by (auto simp: upsert_listing_payload_def Let_def split: if_splits)
    have "distinct (map ml_vendor ?ls)"
      using ok st by (intro distinct_map_upd)
        (auto simp: market_ok_def listing_storable_def listing_clash_def list_ex_iff)
    moreover have "map ml_id ?ls = map ml_id (mk_listings w)" by simp
    moreover have "external_ids_unique ?ls"
      using external_ids_unique_replace [of "mk_listings w" ?l] ok st by (simp add: market_ok_def listing_storable_def)
    ultimately show ?thesis using ok by (auto simp: w' market_ok_def simp del: map_map)
  qed
qed

text \<open>After a publication the listing of the vendor says what the request said.\<close>

lemma upsert_listing_payload_listed:
  assumes ok: "market_ok w" and run: "upsert_listing_payload new_id q w = Inr (w', True)"
  shows "\<exists>l. get_by_vendor_id (lr_vendor q) (mk_listings w') = Some (written_listing q l) \<and>
    (l \<in> set (mk_listings w) \<or> l = blank_listing new_id)"
proof -
  have "\<exists>l. written_listing q l \<in> set (mk_listings w') \<and> (l \<in> set (mk_listings w) \<or> l = blank_listing new_id) \<and>
      (\<forall>x \<in> set (mk_listings w'). ml_vendor x = lr_vendor q \<longrightarrow> x = written_listing q l)"
  proof (cases "find_listing q (mk_listings w)")
    case None
    then have "\<forall>l \<in> set (mk_listings w). ml_vendor l \<noteq> lr_vendor q"
      by (auto simp: find_listing_def find_None_iff split: option.split_asm)
    with None run show ?thesis
      by (auto simp: upsert_listing_payload_def Let_def split: if_splits)
  next
    case (Some old)
    with run find_listing_set [OF Some] show ?thesis
      by (intro exI [of _ old])
        (auto simp: upsert_listing_payload_def Let_def res_simps listing_storable_def listing_clash_def list_ex_iff
          split: if_splits)
  qed
  then obtain l where l: "written_listing q l \<in> set (mk_listings w')" "l \<in> set (mk_listings w) \<or> l = blank_listing new_id"
    "\<And>x. x \<in> set (mk_listings w') \<Longrightarrow> ml_vendor x = lr_vendor q \<Longrightarrow> x = written_listing q l" by blast
  have "get_by_vendor_id (lr_vendor q) (mk_listings w') \<noteq> None"
  proof
    assume "get_by_vendor_id (lr_vendor q) (mk_listings w') = None"
    then have "\<forall>x \<in> set (mk_listings w'). \<not> (ml_vendor x = lr_vendor q \<and> ml_approval_status x = ''approved'')"
      by (simp add: get_by_vendor_id_def find_None_iff_all)
    with l(1) show False by fastforce
  qed
  then obtain x where x: "get_by_vendor_id (lr_vendor q) (mk_listings w') = Some x" by blast
  then have "x \<in> set (mk_listings w')" "ml_vendor x = lr_vendor q"
    by (auto simp: get_by_vendor_id_def dest: find_Some_set)
  with l x show ?thesis by metis
qed

lemma upsert_listing_payload_unlisted:
  assumes ok: "market_ok w" and run: "upsert_listing_payload new_id q w = Inr (w', False)"
  shows "get_by_vendor_id (lr_vendor q) (mk_listings w') = None"
proof (cases "find_listing q (mk_listings w)")
  case None
  with run show ?thesis
    by (auto simp: upsert_listing_payload_def Let_def get_by_vendor_id_def find_None_iff find_listing_def
        split: if_splits option.split_asm)
next
  case (Some old)
  then have rm: "remove_listing old w = Inr w'" and old: "old \<in> set (mk_listings w)"
    using run find_listing_set [OF Some] by (auto simp: upsert_listing_payload_def Let_def res_simps split: if_splits)
  show ?thesis
  proof (cases "find (\<lambda>l. ml_vendor l = lr_vendor q) (mk_listings w)")
    case None
    with rm show ?thesis
      by (auto simp: get_by_vendor_id_def find_None_iff remove_listing_def split: if_splits)
  next
    case (Some l)
    with \<open>find_listing q (mk_listings w) = Some old\<close> have "l = old" by (simp add: find_listing_def)
    then have v: "ml_vendor old = lr_vendor q" using Some by (auto dest: find_Some_set)
    have "x = old" if "x \<in> set (mk_listings w)" "ml_vendor x = lr_vendor q" for x
      using ok that old v inj_onD [of ml_vendor "set (mk_listings w)" x old] by (simp add: market_ok_def distinct_map)
    with rm show ?thesis
      by (auto simp: get_by_vendor_id_def find_None_iff_all remove_listing_def split: if_splits)
  qed
qed

section \<open>The theorems on examples\<close>

definition empty_market :: market where
  "empty_market = \<lparr>mk_listings = [], mk_reviews = [], mk_cache = fresh_cache\<rparr>"

definition sample_criteria :: search_criteria where
  "sample_criteria = \<lparr>sc_query = None, sc_category = Some ''decor'', sc_location = None, sc_min_rating = None,
     sc_min_price = None, sc_max_price = None, sc_page = 1, sc_page_size = 10\<rparr>"

definition sample_search :: search_settings where
  "sample_search = \<lparr>ss_ttl = 60, ss_limit = 30, ss_window = 60,
     ss_engine = \<lparr>te_matches = \<lambda>q l. ml_description l = q, te_rank = \<lambda>q l. 1\<rparr>, ss_digest = \<lambda>_. ''d''\<rparr>"

lemma sample_normalized: "normalize_criteria sample_criteria = Some sample_criteria"
  by (simp add: normalize_criteria_def sample_criteria_def normalize_text_def is_printable_def code_def py_lower_def
      lower_char_def squeeze_def py_strip_def is_space_def clamp_def)

lemma cached_search_is_current_witness:
  "\<exists>w' r. search_vendors sample_search True (\<lambda>_. True) 20 ''a'' sample_criteria
      (run_ops (market_step sample_search) [MSearch (\<lambda>_. True) 10 ''a'' sample_criteria] empty_market) = (w', Inr r) \<and>
    r = search_uncached sample_search sample_criteria
      (run_ops (market_step sample_search) [MSearch (\<lambda>_. True) 10 ''a'' sample_criteria] empty_market)"
proof -
  let ?w = "run_ops (market_step sample_search) [MSearch (\<lambda>_. True) 10 ''a'' sample_criteria] empty_market"
  obtain w' r where r: "search_vendors sample_search True (\<lambda>_. True) 20 ''a'' sample_criteria ?w = (w', Inr r)"
    by (simp add: search_vendors_def sample_normalized enforce_rate_limit_def get_version_def get_cached_result_def
        set_cached_result_def entry_at_def count_of_def window_bucket_def sample_search_def empty_market_def fresh_cache_def
        seconds_def Let_def)
  have "r = search_uncached sample_search sample_criteria ?w"
    by (rule cached_search_is_current [OF _ _ _ sample_normalized r]) (simp_all add: empty_market_def sample_normalized)
  with r show ?thesis by blast
qed


lemma forwarded_header_evades_limit_witness:
  "is_ok (snd (search_vendors (sample_search\<lparr>ss_limit := 1\<rparr>) True (\<lambda>_. True) 5 (client_identifier (\<lambda>x. x) True (Some ([''a'', ''b'', ''c''] ! 2)) None)
     sample_criteria (run_ops (market_step (sample_search\<lparr>ss_limit := 1\<rparr>))
       (map (header_search (\<lambda>x. x) None 5 sample_criteria) (take 2 [''a'', ''b'', ''c''])) empty_market)))"
  by (rule forwarded_header_evades_limit)
     (simp_all add: client_identifier_def resolve_client_source_def first_forwarded_for_value_def py_split_char_def
       py_strip_def is_space_def code_def py_startswith_def empty_market_def fresh_cache_def sample_normalized)

end
