(* ===== verification/Vendor_Package.thy ===== *)
theory Vendor_Package
  imports Vendor_Shared
begin

text \<open>
  Service packages (\<open>domain/vendors/packages\<close>): the business rules per tier, the edit cooldown, the
  aggregate with its invariants and its approval life cycle. A mutator builds a candidate with
  \<open>replace\<close>, whose constructor validates it, and commits it, which validates it again; a mutator that
  raises leaves the package as it was. \<open>now\<close> is the reading of the clock.
\<close>

section \<open>Rules per tier\<close>

record tier_rules =
  tr_label :: string
  tr_min_price :: rat
  tr_min_price_text :: string
  tr_min_description :: nat

definition package_tier_rules :: "string \<Rightarrow> tier_rules option" where
  "package_tier_rules =
     map_of [(''standard'', \<lparr>tr_label = ''Standard'', tr_min_price = 1, tr_min_price_text = ''1'', tr_min_description = 30\<rparr>),
       (''premier'', \<lparr>tr_label = ''Premier'', tr_min_price = 50000, tr_min_price_text = ''50,000'', tr_min_description = 50\<rparr>),
       (''gold'', \<lparr>tr_label = ''Gold'', tr_min_price = 100000, tr_min_price_text = ''100,000'', tr_min_description = 80\<rparr>)]"

definition restricted_standard_terms :: "string list" where
  "restricted_standard_terms = [''premium'', ''premier'', ''exclusive'', ''vip'', ''gold'']"

definition misleading_guarantee_terms :: "string list" where
  "misleading_guarantee_terms = [''guaranteed approval'', ''guaranteed success'', ''risk-free guarantee'']"

definition price_rule_message :: "string \<Rightarrow> string" where
  "price_rule_message m =
     (if py_contains ''finite'' m then ''Package price must be a finite amount.''
      else if py_contains ''decimal places'' m then ''Package price must use no more than 2 decimal places.''
      else if py_contains ''no more'' m then ''Package price must not exceed RWF 9,999,999,999.99.''
      else ''Package price must be greater than 0.'')"

definition append_if :: "bool \<Rightarrow> string \<Rightarrow> string \<Rightarrow> field_errors \<Rightarrow> field_errors" where
  "append_if b f m es = (if b then append_error f m es else es)"

text \<open>The field errors that \<open>validate_service_package_rules\<close> raises; none means it returns.\<close>

definition service_package_rule_errors :: "string \<Rightarrow> string \<Rightarrow> decimal \<Rightarrow> string \<Rightarrow> field_errors" where
  "service_package_rule_errors name description price package_tier =
     (let tier = py_lower (py_strip package_tier) in
      case package_tier_rules tier of
        None \<Rightarrow> [(''package_tier'', [''Choose Standard, Premier, or Gold.''])]
      | Some rules \<Rightarrow>
          let name_r = required_text (text_limit ''package_name'') 1 name;
              clean_name = res_or (py_strip name) name_r;
              desc_r = required_text (text_limit ''package_description'') 1 description;
              clean_description = res_or (py_strip description) desc_r;
              price_r = positive_decimal price;
              es = (case name_r of Inl m \<Rightarrow>
                  append_error ''name'' (if py_strip name = '''' then ''Package name is required.'' else m) []
                | Inr _ \<Rightarrow> []);
              es = (case desc_r of Inl m \<Rightarrow> append_error ''description'' m es | Inr _ \<Rightarrow> es);
              es = (case price_r of
                  Inl m \<Rightarrow> append_error ''price'' (price_rule_message m) es
                | Inr d \<Rightarrow> append_if (dec_value d < tr_min_price rules) ''price''
                    (tr_label rules @ '' packages must be priced at least RWF '' @ tr_min_price_text rules @ ''.'') es);
              es = append_if (clean_description \<noteq> '''' \<and> length clean_description < tr_min_description rules)
                ''description'' (tr_label rules @ '' packages must include at least '' @
                  show_nat (tr_min_description rules) @ '' characters explaining deliverables and terms.'') es;
              lowered_name = py_lower clean_name;
              es = append_if (has_control_characters clean_description) ''description''
                ''Control characters are not allowed.'' es;
              es = append_if (tier = ''standard'' \<and> list_ex (\<lambda>t. py_contains t lowered_name) restricted_standard_terms)
                ''name'' ''Standard packages cannot claim premium, exclusive, VIP, or Gold positioning.'' es
          in append_if (tier = ''gold'' \<and>
                list_ex (\<lambda>t. py_contains t (lowered_name @ '' '' @ py_lower clean_description)) misleading_guarantee_terms)
              ''description'' ''Gold packages must avoid misleading guarantee claims.'' es)"

section \<open>The aggregate\<close>

text \<open>The fields of the events in the order package, vendor, data of the event, time, version.\<close>

datatype package_event =
    ServicePackageCreated uuid uuid datetime int
  | ServicePackageUpdated uuid uuid datetime int
  | ServicePackageSubmittedForApproval uuid uuid datetime int
  | ServicePackageApproved uuid uuid datetime int
  | ServicePackageRejected uuid uuid string datetime int
  | ServicePackageActivated uuid uuid datetime int
  | ServicePackageDeactivated uuid uuid datetime int

record package =
  sp_id :: uuid
  sp_vendor_id :: uuid
  sp_name :: string
  sp_description :: string
  sp_price :: decimal
  sp_currency :: string
  sp_package_tier :: string
  sp_approval_status :: string
  sp_rejection_reason :: "string option"
  sp_is_active :: bool
  sp_is_deleted :: bool
  sp_deleted_at :: "datetime option"
  sp_last_approved_at :: "datetime option"
  sp_last_edit_at :: "datetime option"
  sp_next_edit_at :: "datetime option"
  sp_version :: int
  sp_created_at :: datetime
  sp_updated_at :: datetime
  sp_events :: "package_event list"

definition package_tiers :: "string list" where
  "package_tiers = [''standard'', ''premier'', ''gold'']"

definition approval_statuses :: "string list" where
  "approval_statuses = [''waiting_approval'', ''approved'', ''rejected'']"

definition package_invalid :: "field_errors \<Rightarrow> vendor_exn" where
  "package_invalid es = invalid ''service_package_invalid'' es"

definition bad_package_transition :: "string \<Rightarrow> vendor_exn" where
  "bad_package_transition m = VendorError ''service_package_transition_invalid'' m []"

text \<open>\<open>validate_invariants\<close>: the fields are normalised one by one, then the checks across fields run on
  the normalised package.\<close>

definition package_normal :: "package \<Rightarrow> package" where
  "package_normal p =
     p\<lparr>sp_name := res_or (sp_name p) (required_text (text_limit ''package_name'') 1 (sp_name p)),
       sp_description := res_or (sp_description p)
         (required_text (text_limit ''package_description'') 1 (sp_description p)),
       sp_price := res_or (Dec 0 0) (positive_decimal (sp_price p)),
       sp_currency := res_or (sp_currency p) (normalize_currency (sp_currency p)),
       sp_rejection_reason := res_or (sp_rejection_reason p)
         (bounded_text (text_limit ''rejection_reason'') 1 False (sp_rejection_reason p))\<rparr>"

definition package_field_checks :: "package \<Rightarrow> (string \<times> string option) list" where
  "package_field_checks p =
     [(''name'', map_option (\<lambda>m. if m = required_message then ''Package name is required.'' else m)
        (fault (required_text (text_limit ''package_name'') 1 (sp_name p)))),
      (''description'', fault (required_text (text_limit ''package_description'') 1 (sp_description p))),
      (''price'', fault (positive_decimal (sp_price p))),
      (''currency'', fault (normalize_currency (sp_currency p))),
      (''package_tier'', fault (choose_enum package_tiers ''package_tier'' (sp_package_tier p))),
      (''approval_status'', fault (choose_enum approval_statuses ''approval_status'' (sp_approval_status p))),
      (''rejection_reason'',
        fault (bounded_text (text_limit ''rejection_reason'') 1 False (sp_rejection_reason p))),
      (''created_at'', fault (required_datetime (sp_created_at p))),
      (''updated_at'', fault (required_datetime (sp_updated_at p))),
      (''deleted_at'', fault (aware_utc_datetime (sp_deleted_at p))),
      (''last_approved_at'', fault (aware_utc_datetime (sp_last_approved_at p))),
      (''last_vendor_public_edit_at'', fault (aware_utc_datetime (sp_last_edit_at p))),
      (''next_vendor_edit_allowed_at'', fault (aware_utc_datetime (sp_next_edit_at p))),
      (''version'', fault (validate_int (Some 0) None (sp_version p)))]"

definition package_cross_checks :: "package \<Rightarrow> (string \<times> string option) list" where
  "package_cross_checks q =
     [(''is_active'', fault_if (sp_is_deleted q \<and> sp_is_active q) ''Deleted packages must be inactive.''),
      (''deleted_at'', fault_if (sp_is_deleted q \<and> sp_deleted_at q = None) ''Deleted packages require deleted_at.''),
      (''last_approved_at'', fault_if (sp_approval_status q = ''approved'' \<and> sp_last_approved_at q = None)
         ''Approved packages require last_approved_at.''),
      (''is_active'', fault_if (sp_approval_status q = ''waiting_approval'' \<and> sp_is_active q)
         ''Waiting approval packages cannot be active.''),
      (''is_active'', fault_if (sp_approval_status q = ''rejected'' \<and> sp_is_active q)
         ''Rejected packages cannot be active.''),
      (''rejection_reason'', fault_if (sp_approval_status q = ''rejected'' \<and> \<not> given (sp_rejection_reason q))
         ''Rejected packages require rejection_reason.''),
      (''rejection_reason'', fault_if (sp_approval_status q \<noteq> ''rejected'' \<and> given (sp_rejection_reason q))
         ''Only rejected packages can have rejection metadata.''),
      (''next_vendor_edit_allowed_at'', fault_if (earlier (sp_next_edit_at q) (sp_last_edit_at q))
         ''Next edit time cannot be before the last edit.'')] @
     concat (map (\<lambda>(f, ms). map (\<lambda>m. (f, Some m)) ms)
       (service_package_rule_errors (sp_name q) (sp_description q) (sp_price q) (sp_package_tier q)))"

definition package_validate :: "package \<Rightarrow> (vendor_exn, package) res" where
  "package_validate p =
     (let q = package_normal p; es = gather (package_field_checks p @ package_cross_checks q) in
      if incomparable (sp_next_edit_at q) (sp_last_edit_at q) then Inl VendorTypeError
      else if es \<noteq> [] then Inl (package_invalid es) else Inr q)"

text \<open>\<open>ServicePackage.create\<close>: the clock is read for each of the two time stamps.\<close>

definition create_package ::
  "uuid \<Rightarrow> instant \<Rightarrow> instant \<Rightarrow> uuid \<Rightarrow> string \<Rightarrow> string \<Rightarrow> decimal \<Rightarrow> string \<Rightarrow> string \<Rightarrow>
     (vendor_exn, package) res" where
  "create_package new_id created updated vendor_id name description price currency tier =
     res_bind (package_validate
       \<lparr>sp_id = new_id, sp_vendor_id = vendor_id, sp_name = name, sp_description = description, sp_price = price,
        sp_currency = currency, sp_package_tier = tier, sp_approval_status = ''waiting_approval'',
        sp_rejection_reason = None, sp_is_active = False, sp_is_deleted = False, sp_deleted_at = None,
        sp_last_approved_at = None, sp_last_edit_at = None, sp_next_edit_at = None, sp_version = 0,
        sp_created_at = Aware created, sp_updated_at = Aware updated, sp_events = []\<rparr>) (\<lambda>p.
     Inr (p\<lparr>sp_events := [ServicePackageCreated (sp_id p) (sp_vendor_id p) (sp_created_at p) (sp_version p)]\<rparr>))"

text \<open>\<open>rehydrate\<close>: checks on the arguments, the constructor, checks on the result, no events.\<close>

definition rehydration_errors :: "package \<Rightarrow> field_errors" where
  "rehydration_errors p = gather
     [(''last_approved_at'', fault_if (sp_approval_status p = ''approved'' \<and> sp_last_approved_at p = None)
         ''Approved packages require last_approved_at.''),
      (''deleted_at'', fault_if (sp_is_deleted p \<and> sp_deleted_at p = None) ''Deleted packages require deleted_at.'')]"

definition rehydrate_package :: "package \<Rightarrow> (vendor_exn, package) res" where
  "rehydrate_package a =
     (if rehydration_errors a \<noteq> [] then Inl (package_invalid (rehydration_errors a))
      else res_bind (package_validate a) (\<lambda>p.
        if rehydration_errors p \<noteq> [] then Inl (package_invalid (rehydration_errors p))
        else Inr (p\<lparr>sp_events := []\<rparr>)))"

definition package_stamp :: "int \<Rightarrow> package_event list \<Rightarrow> package \<Rightarrow> package" where
  "package_stamp k es p = p\<lparr>sp_version := k, sp_events := es\<rparr>"

text \<open>\<open>replace\<close> validates the candidate, then \<open>_commit_candidate\<close>.\<close>

definition package_commit ::
  "(int \<Rightarrow> package_event) \<Rightarrow> package \<Rightarrow> package \<Rightarrow> (vendor_exn, package) res" where
  "package_commit event self candidate =
     res_bind (package_validate candidate)
       (commit_candidate package_validate sp_version sp_events package_stamp (Some event) self)"

section \<open>Edits by the vendor\<close>

definition vendor_edit_cooldown :: timedelta where "vendor_edit_cooldown = days 15"

definition normalize_public_text :: "string \<Rightarrow> (vendor_exn, string) res" where
  "normalize_public_text v =
     (case required_text 5000 1 v of Inl m \<Rightarrow> Inl (VendorValueError m) | Inr t \<Rightarrow> Inr (py_strip t))"

definition currency_or_raise :: "string \<Rightarrow> (vendor_exn, string) res" where
  "currency_or_raise v = (case normalize_currency v of Inl m \<Rightarrow> Inl (VendorValueError m) | Inr c \<Rightarrow> Inr c)"

definition text_differs :: "string \<Rightarrow> string \<Rightarrow> (vendor_exn, bool) res" where
  "text_differs a b = res_bind (normalize_public_text a) (\<lambda>x. res_bind (normalize_public_text b) (\<lambda>y. Inr (x \<noteq> y)))"

definition package_public_fields_changed ::
  "package \<Rightarrow> string \<Rightarrow> string \<Rightarrow> decimal \<Rightarrow> string \<Rightarrow> string \<Rightarrow> (vendor_exn, bool) res" where
  "package_public_fields_changed p name description price currency tier =
     res_bind (text_differs name (sp_name p)) (\<lambda>b. if b then Inr True else
     res_bind (text_differs description (sp_description p)) (\<lambda>b. if b then Inr True else
     case positive_decimal price of
       Inl _ \<Rightarrow> Inl (package_invalid [(''price'', [''Package price must be a valid decimal amount.''])])
     | Inr d \<Rightarrow> if dec_value d \<noteq> dec_value (sp_price p) then Inr True else
     res_bind (currency_or_raise currency) (\<lambda>x. res_bind (currency_or_raise (sp_currency p)) (\<lambda>y.
     if x \<noteq> y then Inr True
     else Inr (py_lower (py_strip tier) \<noteq> py_lower (py_strip (sp_package_tier p)))))))"

definition normalize_timestamp :: "string \<Rightarrow> datetime option \<Rightarrow> (vendor_exn, datetime option) res" where
  "normalize_timestamp field v =
     (case aware_utc_datetime v of Inl m \<Rightarrow> Inl (package_invalid [(field, [m])]) | Inr t \<Rightarrow> Inr t)"

definition approval_based_next_edit_allowed_at :: "package \<Rightarrow> (vendor_exn, datetime option) res" where
  "approval_based_next_edit_allowed_at p =
     (if sp_approval_status p \<noteq> ''approved'' then Inr None
      else res_bind (normalize_timestamp ''last_approved_at''
          (case sp_last_approved_at p of None \<Rightarrow> Some (sp_updated_at p) | Some t \<Rightarrow> Some t)) (\<lambda>t.
        Inr (map_option (\<lambda>x. dt_plus x vendor_edit_cooldown) t)))"

definition later_of :: "datetime \<Rightarrow> datetime \<Rightarrow> datetime" where
  "later_of a b = (if dt_less a b = Some True then b else a)"

definition effective_next_edit_allowed_at :: "package \<Rightarrow> (vendor_exn, datetime option) res" where
  "effective_next_edit_allowed_at p =
     res_bind (normalize_timestamp ''next_vendor_edit_allowed_at'' (sp_next_edit_at p)) (\<lambda>stored.
     res_bind (approval_based_next_edit_allowed_at p) (\<lambda>approval.
     res_bind (normalize_timestamp ''last_vendor_public_edit_at'' (sp_last_edit_at p)) (\<lambda>last_edit.
     if earlier stored last_edit
     then Inl (package_invalid [(''next_vendor_edit_allowed_at'', [''Next edit time cannot be before the last edit.''])])
     else Inr (case (stored, approval) of
         (Some s, Some a) \<Rightarrow> Some (later_of s a) | (Some s, None) \<Rightarrow> Some s | (None, x) \<Rightarrow> x))))"

definition edit_cooldown_error :: vendor_exn where
  "edit_cooldown_error = VendorError ''vendor_package_edit_cooldown_active''
     ''Package changes are allowed only once every 15 days after approval.'' []"

definition ensure_vendor_package_edit_allowed :: "package \<Rightarrow> instant \<Rightarrow> (vendor_exn, unit) res" where
  "ensure_vendor_package_edit_allowed p now =
     res_bind (effective_next_edit_allowed_at p) (\<lambda>next_allowed.
       if earlier (Some (Aware now)) next_allowed then Inl edit_cooldown_error else Inr ())"

definition package_update_details ::
  "instant \<Rightarrow> string option \<Rightarrow> string option \<Rightarrow> decimal option \<Rightarrow> string option \<Rightarrow> string option \<Rightarrow>
     package \<Rightarrow> (vendor_exn, package) res" where
  "package_update_details now name description price currency tier p =
     (if sp_is_deleted p then Inl (bad_package_transition ''Deleted packages cannot be edited.'')
      else
        let n = (case name of None \<Rightarrow> sp_name p | Some x \<Rightarrow> x);
            d = (case description of None \<Rightarrow> sp_description p | Some x \<Rightarrow> x);
            pr = (case price of None \<Rightarrow> sp_price p | Some x \<Rightarrow> x);
            c = (case currency of None \<Rightarrow> sp_currency p | Some x \<Rightarrow> x);
            t = (case tier of None \<Rightarrow> sp_package_tier p | Some x \<Rightarrow> x)
        in res_bind (package_public_fields_changed p n d pr c t) (\<lambda>changed.
          if \<not> changed then Inr p
          else res_bind (ensure_vendor_package_edit_allowed p now) (\<lambda>_.
            package_commit (ServicePackageUpdated (sp_id p) (sp_vendor_id p) (Aware now)) p
              (p\<lparr>sp_name := n, sp_description := d, sp_price := pr, sp_currency := c, sp_package_tier := t,
                 sp_updated_at := Aware now, sp_approval_status := ''waiting_approval'',
                 sp_rejection_reason := None, sp_is_active := False, sp_last_edit_at := Some (Aware now),
                 sp_next_edit_at := Some (Aware (now + vendor_edit_cooldown))\<rparr>))))"

section \<open>The approval life cycle\<close>

definition waiting_candidate :: "instant \<Rightarrow> package \<Rightarrow> package" where
  "waiting_candidate now p =
     p\<lparr>sp_approval_status := ''waiting_approval'', sp_rejection_reason := None, sp_is_active := False,
       sp_updated_at := Aware now\<rparr>"

definition package_submit_for_approval :: "instant \<Rightarrow> package \<Rightarrow> (vendor_exn, package) res" where
  "package_submit_for_approval now p =
     (if sp_is_deleted p then Inl (bad_package_transition ''Deleted packages cannot be submitted.'')
      else if sp_approval_status p = ''waiting_approval'' then Inr p
      else package_commit (ServicePackageSubmittedForApproval (sp_id p) (sp_vendor_id p) (Aware now)) p
        (waiting_candidate now p))"

definition package_approve :: "instant \<Rightarrow> package \<Rightarrow> (vendor_exn, package) res" where
  "package_approve now p =
     (if sp_is_deleted p then Inl (bad_package_transition ''Deleted packages cannot be approved.'')
      else if sp_approval_status p \<noteq> ''waiting_approval''
      then Inl (bad_package_transition ''Only waiting packages can be approved.'')
      else package_commit (ServicePackageApproved (sp_id p) (sp_vendor_id p) (Aware now)) p
        (p\<lparr>sp_approval_status := ''approved'', sp_rejection_reason := None,
           sp_last_approved_at := Some (Aware now), sp_is_active := False, sp_updated_at := Aware now\<rparr>))"

definition package_reject :: "instant \<Rightarrow> string \<Rightarrow> package \<Rightarrow> (vendor_exn, package) res" where
  "package_reject now reason p =
     (if sp_is_deleted p then Inl (bad_package_transition ''Deleted packages cannot be rejected.'')
      else if sp_approval_status p \<noteq> ''waiting_approval''
      then Inl (bad_package_transition ''Only waiting packages can be rejected.'')
      else res_bind (validated_transition_reason ''service_package_invalid'' ''rejection_reason'' reason) (\<lambda>r.
        package_commit (ServicePackageRejected (sp_id p) (sp_vendor_id p) r (Aware now)) p
          (p\<lparr>sp_approval_status := ''rejected'', sp_rejection_reason := Some r, sp_is_active := False,
             sp_updated_at := Aware now\<rparr>)))"

definition package_restore :: "instant \<Rightarrow> package \<Rightarrow> (vendor_exn, package) res" where
  "package_restore now p =
     (if sp_is_deleted p then Inl (bad_package_transition ''Deleted packages cannot be restored.'')
      else if sp_approval_status p = ''waiting_approval'' \<and> \<not> sp_is_active p then Inr p
      else package_commit (ServicePackageSubmittedForApproval (sp_id p) (sp_vendor_id p) (Aware now)) p
        (waiting_candidate now p))"

text \<open>\<open>deactivate\<close> reads the clock twice.\<close>

definition package_deactivate :: "instant \<Rightarrow> instant \<Rightarrow> package \<Rightarrow> (vendor_exn, package) res" where
  "package_deactivate t1 t2 p =
     (if sp_is_deleted p \<and> \<not> sp_is_active p then Inr p
      else package_commit (ServicePackageDeactivated (sp_id p) (sp_vendor_id p) (Aware t2)) p
        (p\<lparr>sp_is_active := False, sp_is_deleted := True, sp_deleted_at := Some (Aware t1),
           sp_updated_at := Aware t2\<rparr>))"

definition package_activate :: "instant \<Rightarrow> package \<Rightarrow> (vendor_exn, package) res" where
  "package_activate now p =
     (if sp_is_deleted p then Inl (bad_package_transition ''Deleted packages cannot be activated.'')
      else if sp_approval_status p \<noteq> ''approved''
      then Inl (bad_package_transition ''Only approved packages can be activated.'')
      else if sp_is_active p then Inr p
      else package_commit (ServicePackageActivated (sp_id p) (sp_vendor_id p) (Aware now)) p
        (p\<lparr>sp_is_active := True, sp_updated_at := Aware now\<rparr>))"

section \<open>Valid packages\<close>

definition package_valid :: "package \<Rightarrow> bool" where
  "package_valid p = (package_validate p = Inr p)"

lemma field_checks_normal:
  assumes "\<forall>(f, m) \<in> set (package_field_checks p). m = None"
  shows "package_normal (package_normal p) = package_normal p"
    "\<forall>(f, m) \<in> set (package_field_checks (package_normal p)). m = None"
proof -
  from assms obtain n d pr c r where v: "required_text (text_limit ''package_name'') 1 (sp_name p) = Inr n"
    "required_text (text_limit ''package_description'') 1 (sp_description p) = Inr d"
    "positive_decimal (sp_price p) = Inr pr" "normalize_currency (sp_currency p) = Inr c"
    "bounded_text (text_limit ''rejection_reason'') 1 False (sp_rejection_reason p) = Inr r"
    by (auto simp: package_field_checks_def)
  note i = required_text_idem [OF v(1)] required_text_idem [OF v(2)] bounded_text_idem [OF v(5)]
    positive_decimal_idem [OF v(3)] normalize_currency_Inr [OF v(4)] normalize_currency_RWF
  show "package_normal (package_normal p) = package_normal p"
    using v i by (simp add: package_normal_def)
  show "\<forall>(f, m) \<in> set (package_field_checks (package_normal p)). m = None"
    using assms v i by (auto simp: package_field_checks_def package_normal_def)
qed

lemma package_validate_Inr:
  "package_validate p = Inr q \<longleftrightarrow> q = package_normal p \<and> \<not> incomparable (sp_next_edit_at q) (sp_last_edit_at q) \<and>
     (\<forall>(f, m) \<in> set (package_field_checks p). m = None) \<and> (\<forall>(f, m) \<in> set (package_cross_checks q). m = None)"
  by (auto simp: package_validate_def Let_def)

lemma package_validate_valid: "package_validate p = Inr q \<Longrightarrow> package_valid q"
  using field_checks_normal [of p] by (auto simp: package_valid_def package_validate_Inr)

lemma package_normal_sel [simp]:
  "sp_id (package_normal p) = sp_id p" "sp_vendor_id (package_normal p) = sp_vendor_id p"
  "sp_package_tier (package_normal p) = sp_package_tier p"
  "sp_approval_status (package_normal p) = sp_approval_status p"
  "sp_is_active (package_normal p) = sp_is_active p" "sp_is_deleted (package_normal p) = sp_is_deleted p"
  "sp_deleted_at (package_normal p) = sp_deleted_at p"
  "sp_last_approved_at (package_normal p) = sp_last_approved_at p"
  "sp_last_edit_at (package_normal p) = sp_last_edit_at p" "sp_next_edit_at (package_normal p) = sp_next_edit_at p"
  "sp_version (package_normal p) = sp_version p" "sp_created_at (package_normal p) = sp_created_at p"
  "sp_updated_at (package_normal p) = sp_updated_at p" "sp_events (package_normal p) = sp_events p"
  by (simp_all add: package_normal_def)

lemma valid_facts:
  assumes "package_valid p"
  shows "sp_approval_status p \<in> set approval_statuses" "sp_is_active p \<Longrightarrow> sp_approval_status p = ''approved''"
    "sp_is_active p \<Longrightarrow> \<not> sp_is_deleted p" "sp_approval_status p = ''approved'' \<Longrightarrow> sp_last_approved_at p \<noteq> None"
    "0 \<le> sp_version p" "package_normal p = p"
    "\<forall>d. sp_last_edit_at p = Some d \<or> sp_next_edit_at p = Some d \<or> sp_last_approved_at p = Some d \<longrightarrow> is_aware d"
    "\<not> earlier (sp_next_edit_at p) (sp_last_edit_at p)" "sp_currency p = ''RWF''"
proof -
  from assms have n: "package_normal p = p" and f: "\<forall>(f, m) \<in> set (package_field_checks p). m = None"
    and x: "\<forall>(f, m) \<in> set (package_cross_checks p). m = None"
    by (simp_all add: package_valid_def package_validate_Inr)
  show "package_normal p = p" by (rule n)
  from f show status: "sp_approval_status p \<in> set approval_statuses"
    by (auto simp: package_field_checks_def choose_enum_Inr)
  from x status show "sp_is_active p \<Longrightarrow> sp_approval_status p = ''approved''"
    by (auto simp: package_cross_checks_def approval_statuses_def)
  from x show "sp_is_active p \<Longrightarrow> \<not> sp_is_deleted p"
    "sp_approval_status p = ''approved'' \<Longrightarrow> sp_last_approved_at p \<noteq> None"
    "\<not> earlier (sp_next_edit_at p) (sp_last_edit_at p)"
    by (auto simp: package_cross_checks_def)
  from f show "0 \<le> sp_version p"
    by (auto simp: package_field_checks_def validate_int_def split: if_splits)
  from f show "\<forall>d. sp_last_edit_at p = Some d \<or> sp_next_edit_at p = Some d \<or> sp_last_approved_at p = Some d \<longrightarrow>
      is_aware d"
    by (auto simp: package_field_checks_def aware_utc_datetime_Inr)
  from f obtain c where c: "normalize_currency (sp_currency p) = Inr c" by (auto simp: package_field_checks_def)
  have "sp_currency (package_normal p) = c" by (simp add: package_normal_def c)
  with n normalize_currency_Inr [OF c] show "sp_currency p = ''RWF''" by simp
qed

text \<open>A committed package is the normalised candidate with the next version and one more event.\<close>

lemma valid_version_events:
  assumes v: "package_valid p" and "0 \<le> k"
  shows "package_valid (p\<lparr>sp_version := k, sp_events := es\<rparr>)"
proof -
  let ?q = "p\<lparr>sp_version := k, sp_events := es\<rparr>"
  have "package_normal ?q = (package_normal p)\<lparr>sp_version := k, sp_events := es\<rparr>"
    by (simp add: package_normal_def)
  then have "package_normal ?q = ?q" using valid_facts(6) [OF v] by simp
  moreover have "package_cross_checks ?q = package_cross_checks p" by (simp add: package_cross_checks_def)
  moreover have "\<forall>(f, m) \<in> set (package_field_checks ?q). m = None"
    using v assms(2)
    by (simp add: package_valid_def package_validate_Inr package_field_checks_def validate_int_def)
  ultimately show "package_valid ?q"
    using v by (simp add: package_valid_def package_validate_Inr)
qed

interpretation package_aggregate: validated_aggregate package_validate sp_version sp_events package_stamp
proof
  fix p q k es
  show "package_validate q = Inr q" if "package_validate p = Inr q"
    using package_validate_valid [OF that] by (simp add: package_valid_def)
  show "sp_version q = sp_version p \<and> 0 \<le> sp_version q" if "package_validate p = Inr q"
    using valid_facts(5) [OF package_validate_valid [OF that]] that by (simp add: package_validate_Inr)
  show "package_validate (package_stamp k es p) = Inr (package_stamp k es p)"
    if "package_validate p = Inr p" "0 \<le> k"
    using valid_version_events [of p k es] that by (simp add: package_valid_def package_stamp_def)
qed (simp_all add: package_stamp_def)

lemma package_commit_ok:
  assumes "package_commit event self candidate = Inr q"
  shows "package_valid q" "sp_version q = sp_version candidate + 1"
    "sp_events q = sp_events self @ [event (sp_version q)]"
    "q = (package_normal candidate)\<lparr>sp_version := sp_version q, sp_events := sp_events q\<rparr>"
proof -
  from assms obtain c where c: "package_validate candidate = Inr c"
    "commit_candidate package_validate sp_version sp_events package_stamp (Some event) self c = Inr q"
    by (auto simp: package_commit_def res_bind_Inr)
  note ok = package_aggregate.commit_ok [OF c]
  have "c = package_normal candidate" using c(1) by (simp add: package_validate_Inr)
  with ok(4) show "q = (package_normal candidate)\<lparr>sp_version := sp_version q, sp_events := sp_events q\<rparr>"
    by (simp add: package_stamp_def)
  from ok show "package_valid q" "sp_version q = sp_version candidate + 1"
    "sp_events q = sp_events self @ [event (sp_version q)]" by (simp_all add: package_valid_def)
qed

section \<open>Histories of a package\<close>

datatype package_op =
    PUpdate instant "string option" "string option" "decimal option" "string option" "string option"
  | PSubmit instant
  | PApprove instant
  | PReject instant string
  | PRestore instant
  | PDeactivate instant instant
  | PActivate instant

fun package_call :: "package_op \<Rightarrow> package \<Rightarrow> (vendor_exn, package) res" where
  "package_call (PUpdate now n d pr c t) p = package_update_details now n d pr c t p"
| "package_call (PSubmit now) p = package_submit_for_approval now p"
| "package_call (PApprove now) p = package_approve now p"
| "package_call (PReject now r) p = package_reject now r p"
| "package_call (PRestore now) p = package_restore now p"
| "package_call (PDeactivate t1 t2) p = package_deactivate t1 t2 p"
| "package_call (PActivate now) p = package_activate now p"

fun package_event_version :: "package_event \<Rightarrow> int" where
  "package_event_version (ServicePackageCreated _ _ _ v) = v"
| "package_event_version (ServicePackageUpdated _ _ _ v) = v"
| "package_event_version (ServicePackageSubmittedForApproval _ _ _ v) = v"
| "package_event_version (ServicePackageApproved _ _ _ v) = v"
| "package_event_version (ServicePackageRejected _ _ _ _ v) = v"
| "package_event_version (ServicePackageActivated _ _ _ v) = v"
| "package_event_version (ServicePackageDeactivated _ _ _ v) = v"

lemmas package_mutator_defs =
  package_update_details_def package_submit_for_approval_def package_approve_def package_reject_def
  package_restore_def package_deactivate_def package_activate_def Let_def

text \<open>Every successful call is a no-op or a commit, of a candidate with the version of the package.\<close>

lemma package_committedI:
  assumes "package_commit event p candidate = Inr q" "sp_version candidate = sp_version p"
    "\<And>v. package_event_version (event v) = v"
  shows "committed package_validate sp_version sp_events package_stamp package_event_version p q"
proof -
  from assms(1) obtain c where "package_validate candidate = Inr c"
    "commit_candidate package_validate sp_version sp_events package_stamp (Some event) p c = Inr q"
    by (auto simp: package_commit_def res_bind_Inr)
  then show ?thesis by (rule committedI) (use assms(2,3) in auto)
qed

lemma package_call_commit:
  assumes "package_call op p = Inr q" and "q \<noteq> p"
  shows "committed package_validate sp_version sp_events package_stamp package_event_version p q"
  using assms
  by (cases op)
     (auto simp: package_mutator_defs waiting_candidate_def res_bind_Inr split: if_splits,
      (erule package_committedI, simp, simp)+)

interpretation packages: validated_calls package_validate sp_version sp_events package_stamp package_call
  package_event_version
  by unfold_locales (rule package_call_commit)

text \<open>The event stream of a package: in any history of calls a valid package stays valid, its
  version never falls, and the new events carry strictly increasing versions above the version at the
  start and up to the version at the end; a call that raises changes nothing.\<close>

theorem package_versions_increase:
  assumes "package_valid p"
  shows "package_valid (run_ops (attempt package_call) ops p) \<and>
    sp_version p \<le> sp_version (run_ops (attempt package_call) ops p) \<and>
    (\<exists>new. sp_events (run_ops (attempt package_call) ops p) = sp_events p @ new \<and>
       sorted_wrt (<) (map package_event_version new) \<and>
       (\<forall>e \<in> set new. sp_version p < package_event_version e \<and>
          package_event_version e \<le> sp_version (run_ops (attempt package_call) ops p)))"
  using assms unfolding package_valid_def by (rule packages.history)

lemma package_run_valid: "package_valid p \<Longrightarrow> package_valid (run_ops (attempt package_call) ops p)"
  unfolding package_valid_def by (rule packages.history [THEN conjunct1])

lemma package_call_valid: "package_valid p \<Longrightarrow> package_call op p = Inr q \<Longrightarrow> package_valid q"
  using packages.call_step [of p op q] by (auto simp: package_valid_def)

definition public_view :: "package \<Rightarrow> string \<times> string \<times> decimal \<times> string \<times> string" where
  "public_view p = (sp_name p, sp_description p, sp_price p, sp_currency p, sp_package_tier p)"

lemma commit_fields:
  assumes "package_commit event self candidate = Inr q"
  shows "sp_approval_status q = sp_approval_status candidate" "sp_is_deleted q = sp_is_deleted candidate"
    "sp_next_edit_at q = sp_next_edit_at candidate" "sp_last_approved_at q = sp_last_approved_at candidate"
    "sp_is_active q = sp_is_active candidate" "public_view q = public_view (package_normal candidate)"
proof -
  from package_commit_ok(4) [OF assms] obtain v es where
    "q = (package_normal candidate)\<lparr>sp_version := v, sp_events := es\<rparr>" by blast
  then show "sp_approval_status q = sp_approval_status candidate" "sp_is_deleted q = sp_is_deleted candidate"
    "sp_next_edit_at q = sp_next_edit_at candidate" "sp_last_approved_at q = sp_last_approved_at candidate"
    "sp_is_active q = sp_is_active candidate" "public_view q = public_view (package_normal candidate)"
    by (simp_all add: public_view_def)
qed

lemma normal_view:
  assumes "package_valid p" "public_view c = public_view p"
  shows "public_view (package_normal c) = public_view p"
proof -
  have "public_view (package_normal c) = public_view (package_normal p)"
    using assms(2) by (simp add: public_view_def package_normal_def)
  then show ?thesis by (simp add: valid_facts(6) [OF assms(1)])
qed

lemma view_update [simp]:
  "public_view (p\<lparr>sp_approval_status := a\<rparr>) = public_view p" "public_view (p\<lparr>sp_is_active := b\<rparr>) = public_view p"
  "public_view (p\<lparr>sp_is_deleted := b\<rparr>) = public_view p" "public_view (p\<lparr>sp_deleted_at := d\<rparr>) = public_view p"
  "public_view (p\<lparr>sp_rejection_reason := r\<rparr>) = public_view p" "public_view (p\<lparr>sp_updated_at := t\<rparr>) = public_view p"
  "public_view (p\<lparr>sp_last_approved_at := d\<rparr>) = public_view p"
  by (simp_all add: public_view_def)

lemma commit_view:
  assumes "package_valid p" "package_commit event p c = Inr q" "public_view c = public_view p"
  shows "public_view q = public_view p"
  using commit_fields(6) [OF assms(2)] normal_view [OF assms(1,3)] by simp

text \<open>What an approved package shows was there when it was approved.\<close>

lemma approved_step:
  assumes "package_valid p" "package_call op p = Inr q" "sp_approval_status q = ''approved''"
  shows "public_view q = public_view p \<and>
    (sp_approval_status p = ''approved'' \<or> (\<exists>now. op = PApprove now) \<and> sp_approval_status p = ''waiting_approval'')"
  using assms
  by (cases op)
     (auto simp: package_mutator_defs waiting_candidate_def res_bind_Inr
        dest: commit_fields(1) commit_view [OF assms(1)] split: if_splits)


lemma attempt_cases:
  obtains "attempt package_call op p = p" | q where "package_call op p = Inr q" "attempt package_call op p = q"
  by (cases "package_call op p") (auto simp: attempt_def)

definition package_approval :: "package_op \<Rightarrow> package \<Rightarrow> bool" where
  "package_approval op p = ((\<exists>now. op = PApprove now) \<and> sp_approval_status p = ''waiting_approval'')"

interpretation reviewed_packages: reviewed_content package_call package_valid
  "\<lambda>p. sp_approval_status p = ''approved''" public_view package_approval
  by unfold_locales (use package_call_valid approved_step in \<open>auto simp: package_approval_def\<close>)

lemma created_valid:
  assumes "create_package i t0 t1 vendor name description price currency tier = Inr p"
  shows "package_valid p" "sp_approval_status p = ''waiting_approval''" "\<not> sp_is_deleted p"
proof -
  from assms obtain q a es where q: "package_validate a = Inr q" "sp_approval_status a = ''waiting_approval''"
    "\<not> sp_is_deleted a" "p = q\<lparr>sp_events := es\<rparr>" by (auto simp: create_package_def res_bind_Inr)
  have v: "package_valid q" by (rule package_validate_valid [OF q(1)])
  from valid_version_events [OF v valid_facts(5) [OF v], of es] q(4) show "package_valid p" by simp
  from q show "sp_approval_status p = ''waiting_approval''" "\<not> sp_is_deleted p"
    by (simp_all add: package_validate_Inr)
qed

text \<open>C13. What customers see was reviewed: if a package that was created as waiting is active after any
  history, then an approval in that history accepted it, and its name, description, price, currency
  and tier are exactly those it had when it was approved.\<close>

theorem active_package_was_approved_as_is:
  assumes "create_package i t0 t1 vendor name description price currency tier = Inr p"
    and "sp_is_active (run_ops (attempt package_call) ops p)"
  shows "\<exists>xs now ys. ops = xs @ PApprove now # ys \<and>
    sp_approval_status (run_ops (attempt package_call) xs p) = ''waiting_approval'' \<and>
    is_ok (package_approve now (run_ops (attempt package_call) xs p)) \<and>
    public_view (run_ops (attempt package_call) ops p) = public_view (run_ops (attempt package_call) xs p)"
proof -
  note p = created_valid [OF assms(1)]
  have "sp_approval_status (run_ops (attempt package_call) ops p) = ''approved''"
    using valid_facts(2) [OF package_run_valid [OF p(1)] assms(2)] .
  from reviewed_packages.shown_was_approved [OF p(1) _ this] p(2) obtain xs op ys now where
    "ops = xs @ op # ys" "op = PApprove now"
    "sp_approval_status (run_ops (attempt package_call) xs p) = ''waiting_approval''"
    "is_ok (package_call op (run_ops (attempt package_call) xs p))"
    "public_view (run_ops (attempt package_call) ops p) = public_view (run_ops (attempt package_call) xs p)"
    by (auto simp: package_approval_def)
  then show ?thesis by (intro exI [of _ xs] exI [of _ now] exI [of _ ys]) simp
qed

text \<open>The stored end of the cooldown is never before \<open>t\<close>.\<close>

definition cooling :: "instant \<Rightarrow> package \<Rightarrow> bool" where
  "cooling t p = (package_valid p \<and> (\<exists>n. sp_next_edit_at p = Some (Aware n) \<and> t \<le> n))"

lemma normalize_timestamp_aware [simp]:
  "normalize_timestamp f (Some (Aware t)) = Inr (Some (Aware t))" "normalize_timestamp f None = Inr None"
  by (simp_all add: normalize_timestamp_def aware_utc_datetime_def)

lemma earlier_simps [simp]:
  "earlier (Some (Aware s)) (Some (Aware t)) = (s < t)" "\<not> earlier None x" "\<not> earlier x None"
  by (auto simp: earlier_def split: option.splits)

lemma later_of_aware [simp]: "later_of (Aware s) (Aware t) = Aware (max s t)"
  by (simp add: later_of_def)

lemma valid_aware:
  assumes "package_valid p"
  obtains l n where "sp_last_edit_at p = map_option Aware l" "sp_next_edit_at p = map_option Aware n"
    "\<And>a b. l = Some a \<Longrightarrow> n = Some b \<Longrightarrow> a \<le> b"
proof -
  have aware: "\<exists>l. d = map_option Aware l" if "\<forall>x. d = Some x \<longrightarrow> is_aware x" for d
  proof (cases d)
    case None
    then show ?thesis by (intro exI [of _ None]) simp
  next
    case (Some x)
    with that obtain t where "x = Aware t" by (cases x) auto
    with Some show ?thesis by (intro exI [of _ "Some t"]) simp
  qed
  from valid_facts(7) [OF assms] obtain l n where ln: "sp_last_edit_at p = map_option Aware l"
    "sp_next_edit_at p = map_option Aware n" using aware by meson
  then show thesis using valid_facts(8) [OF assms] by (intro that) (auto simp: not_less)
qed

lemma effective_next_valid:
  assumes "package_valid p"
  shows "sp_approval_status p \<noteq> ''approved'' \<Longrightarrow> effective_next_edit_allowed_at p = Inr (sp_next_edit_at p)"
    "sp_approval_status p = ''approved'' \<Longrightarrow> sp_last_approved_at p = Some (Aware a) \<Longrightarrow>
      effective_next_edit_allowed_at p = Inr (Some (case sp_next_edit_at p of
        Some (Aware n) \<Rightarrow> Aware (max n (a + days 15)) | _ \<Rightarrow> Aware (a + days 15)))"
proof -
  from valid_aware [OF assms] obtain l n where ln: "sp_last_edit_at p = map_option Aware l"
    "sp_next_edit_at p = map_option Aware n" "\<forall>a b. l = Some a \<longrightarrow> n = Some b \<longrightarrow> a \<le> b" by blast
  note defs = effective_next_edit_allowed_at_def approval_based_next_edit_allowed_at_def vendor_edit_cooldown_def
  show "sp_approval_status p \<noteq> ''approved'' \<Longrightarrow> effective_next_edit_allowed_at p = Inr (sp_next_edit_at p)"
    using ln(3) by (cases l; cases n) (auto simp: defs ln(1,2))
  show "sp_approval_status p = ''approved'' \<Longrightarrow> sp_last_approved_at p = Some (Aware a) \<Longrightarrow>
      effective_next_edit_allowed_at p = Inr (Some (case sp_next_edit_at p of
        Some (Aware n) \<Rightarrow> Aware (max n (a + days 15)) | _ \<Rightarrow> Aware (a + days 15)))"
    using ln(3) by (cases l; cases n) (auto simp: defs ln(1,2))
qed

lemma edit_allowed:
  assumes "package_valid p" "ensure_vendor_package_edit_allowed p now = Inr ()"
  shows "sp_next_edit_at p = Some (Aware n) \<Longrightarrow> n \<le> now"
    "sp_approval_status p = ''approved'' \<Longrightarrow> sp_last_approved_at p = Some (Aware a) \<Longrightarrow> a + days 15 \<le> now"
proof -
  have ensure: "\<not> earlier (Some (Aware now)) x" if "effective_next_edit_allowed_at p = Inr x" for x
    using assms(2) that by (auto simp: ensure_vendor_package_edit_allowed_def split: if_splits)
  show "a + days 15 \<le> now" if "sp_approval_status p = ''approved''" "sp_last_approved_at p = Some (Aware a)"
    using ensure [OF effective_next_valid(2) [OF assms(1) that]] by (auto split: option.splits datetime.splits)
  show "n \<le> now" if n: "sp_next_edit_at p = Some (Aware n)"
  proof (cases "sp_approval_status p = ''approved''")
    case True
    with valid_facts(4) [OF assms(1)] obtain x where x: "sp_last_approved_at p = Some x" by blast
    with valid_facts(7) [OF assms(1)] have "is_aware x" by blast
    with x obtain a where "sp_last_approved_at p = Some (Aware a)" by (cases x) auto
    from ensure [OF effective_next_valid(2) [OF assms(1) True this]] n show ?thesis by simp
  next
    case False
    from ensure [OF effective_next_valid(1) [OF assms(1) this]] n show ?thesis by simp
  qed
qed

text \<open>An edit that changes the package needs the permission and starts a cooldown of fifteen days.\<close>

lemma edit_commits:
  assumes "package_call (PUpdate now n d pr c t) p = Inr q" "q \<noteq> p"
  shows "ensure_vendor_package_edit_allowed p now = Inr ()" "sp_next_edit_at q = Some (Aware (now + days 15))"
    "sp_approval_status q = ''waiting_approval''" "\<not> sp_is_active q"
  using assms
  by (auto simp: package_update_details_def Let_def res_bind_Inr vendor_edit_cooldown_def
      dest: commit_fields(3) commit_fields(1) commit_fields(5) split: if_splits)

lemma cooling_step:
  assumes "cooling t p"
  shows "cooling t (attempt package_call op p)"
proof (rule attempt_cases [of op p])
  fix q assume q: "package_call op p = Inr q" "attempt package_call op p = q"
  from assms obtain n where v: "package_valid p" "sp_next_edit_at p = Some (Aware n)" "t \<le> n"
    by (auto simp: cooling_def)
  have "package_valid q"
    using package_call_valid [OF v(1) q(1)] .
  moreover have "\<exists>m. sp_next_edit_at q = Some (Aware m) \<and> t \<le> m"
  proof (cases op)
    case (PUpdate now n' d pr c ti)
    show ?thesis
    proof (cases "q = p")
      case False
      from edit_commits [OF _ False] q(1) PUpdate have
        "ensure_vendor_package_edit_allowed p now = Inr ()" "sp_next_edit_at q = Some (Aware (now + days 15))" by auto
      with edit_allowed(1) [OF v(1) this(1) v(2)] v(3) show ?thesis by (simp add: time_units)
    qed (use v in simp)
  qed (use q v in \<open>auto simp: package_mutator_defs waiting_candidate_def res_bind_Inr
      dest: commit_fields(3) split: if_splits\<close>)
  ultimately show ?thesis using q(2) by (simp add: cooling_def)
qed (use assms in simp)

interpretation cooldown: invariant_system "attempt package_call" "cooling t" for t
  by unfold_locales (rule cooling_step)

text \<open>Two edits by the vendor that change a package are at least fifteen days apart, whatever happens
  in between, and an edit of an approved package comes at least fifteen days after its approval. The
  first part does not need the package to have been approved: a vendor who corrected a package before
  its first review, or whose package was rejected right after, has to wait as well.\<close>

theorem vendor_edits_spaced:
  assumes "package_valid p"
    and "package_call (PUpdate now1 n1 d1 pr1 c1 t1) p = Inr q" and "q \<noteq> p"
    and "r = run_ops (attempt package_call) ops q"
    and "package_call (PUpdate now2 n2 d2 pr2 c2 t2) r = Inr s" and "s \<noteq> r"
  shows "now1 + days 15 \<le> now2 \<and>
    (\<forall>a. sp_approval_status r = ''approved'' \<and> sp_last_approved_at r = Some (Aware a) \<longrightarrow> a + days 15 \<le> now2)"
proof -
  have "package_valid q" by (rule package_call_valid [OF assms(1,2)])
  with edit_commits(2) [OF assms(2,3)] have "cooling (now1 + days 15) q" by (simp add: cooling_def)
  then have "cooling (now1 + days 15) r" unfolding assms(4) by (rule cooldown.run_inv)
  then obtain n where r: "package_valid r" "sp_next_edit_at r = Some (Aware n)" "now1 + days 15 \<le> n"
    by (auto simp: cooling_def)
  note allowed = edit_commits(1) [OF assms(5,6)]
  from edit_allowed(1) [OF r(1) allowed r(2)] edit_allowed(2) [OF r(1) allowed] r(3) show ?thesis by auto
qed

lemma deleted_is_final:
  assumes "package_valid p" "sp_is_deleted p"
  shows "run_ops (attempt package_call) ops p = p"
proof (induction ops)
  case (Cons op ops)
  have "\<not> sp_is_active p" using valid_facts(3) [OF assms(1)] assms(2) by blast
  then have "attempt package_call op p = p"
    using assms(2) by (cases op) (simp_all add: attempt_def package_mutator_defs)
  with Cons show ?case by simp
qed simp


section \<open>Concrete histories\<close>

definition sample_package :: package where
  "sample_package =
     \<lparr>sp_id = 7, sp_vendor_id = 3, sp_name = ''Wedding photography'',
      sp_description = ''Full day of photography with two cameras and an album.'', sp_price = Dec 75000 0,
      sp_currency = ''RWF'', sp_package_tier = ''premier'', sp_approval_status = ''waiting_approval'',
      sp_rejection_reason = None, sp_is_active = False, sp_is_deleted = False, sp_deleted_at = None,
      sp_last_approved_at = None, sp_last_edit_at = None, sp_next_edit_at = None, sp_version = 0,
      sp_created_at = Aware 10, sp_updated_at = Aware 11, sp_events = [ServicePackageCreated 7 3 (Aware 10) 0]\<rparr>"

lemma sample_texts:
  "required_text (text_limit ''package_name'') 1 ''Wedding photography'' = Inr ''Wedding photography''"
  "required_text (text_limit ''package_description'') 1 ''Full day of photography with two cameras and an album.'' =
     Inr ''Full day of photography with two cameras and an album.''"
  "positive_decimal (Dec 75000 0) = Inr (Dec 75000 0)" "normalize_currency ''RWF'' = Inr ''RWF''"
  "choose_enum package_tiers ''package_tier'' ''premier'' = Inr ''premier''"
  by code_simp+

lemma sample_lower:
  "py_strip ''Wedding photography'' = ''Wedding photography''" "py_lower ''Wedding photography'' = ''wedding photography''"
  "py_strip ''premier'' = ''premier''" "py_lower ''premier'' = ''premier''"
  "py_strip ''Full day of photography with two cameras and an album.'' = ''Full day of photography with two cameras and an album.''"
  "has_control_characters ''Full day of photography with two cameras and an album.'' = False"
  by code_simp+

lemma sample_rules:
  "service_package_rule_errors ''Wedding photography'' ''Full day of photography with two cameras and an album.''
     (Dec 75000 0) ''premier'' = []"
  by (simp add: service_package_rule_errors_def sample_texts sample_lower package_tier_rules_def append_if_def dec_value_def del: One_nat_def)

text \<open>Validation of the sample package, in any of its states.\<close>

lemmas sample_eval =
  package_valid_def package_validate_Inr package_normal_def package_field_checks_def package_cross_checks_def
  sample_package_def sample_texts sample_rules choose_enum_def package_tiers_def approval_statuses_def given_def
  bounded_text_def required_datetime_def aware_utc_datetime_def validate_int_def incomparable_def earlier_def

lemma package_commit_valid:
  "package_valid c \<Longrightarrow> package_commit event p c =
     Inr (c\<lparr>sp_version := sp_version c + 1, sp_events := sp_events p @ [event (sp_version c + 1)]\<rparr>)"
  by (simp add: package_commit_def package_valid_def package_aggregate.commit_valid package_stamp_def)

lemma sample_valid:
  "package_valid (sample_package\<lparr>sp_events := []\<rparr>)" "package_valid sample_package"
  "package_valid (sample_package\<lparr>sp_approval_status := ''approved'', sp_rejection_reason := None,
     sp_last_approved_at := Some (Aware 100), sp_is_active := False, sp_updated_at := Aware 100\<rparr>)"
  by (simp_all add: sample_eval del: One_nat_def)

definition sample_approved :: package where
  "sample_approved = sample_package\<lparr>sp_approval_status := ''approved'', sp_rejection_reason := None,
     sp_last_approved_at := Some (Aware 100), sp_is_active := False, sp_updated_at := Aware 100, sp_version := 1,
     sp_events := [ServicePackageCreated 7 3 (Aware 10) 0, ServicePackageApproved 7 3 (Aware 100) 1]\<rparr>"

lemma sample_created:
  "create_package 7 10 11 3 ''Wedding photography'' ''Full day of photography with two cameras and an album.''
     (Dec 75000 0) ''RWF'' ''premier'' = Inr sample_package"
  using sample_valid(1) by (simp add: create_package_def package_valid_def sample_package_def)

lemma sample_approve: "package_approve 100 sample_package = Inr sample_approved"
  using package_commit_valid [OF sample_valid(3)]
  by (simp add: package_approve_def sample_approved_def sample_package_def)

lemma sample_active_valid:
  "package_valid (sample_approved\<lparr>sp_is_active := True, sp_updated_at := Aware 200\<rparr>)"
  by (simp add: sample_approved_def sample_eval del: One_nat_def)

lemma sample_run: "sp_is_active (run_ops (attempt package_call) [PApprove 100, PActivate 200] sample_package)"
proof -
  have "\<not> sp_is_deleted sample_package" "\<not> sp_is_deleted sample_approved" "\<not> sp_is_active sample_approved"
    "sp_approval_status sample_approved = ''approved''"
    by (simp_all add: sample_approved_def sample_package_def)
  then show ?thesis
    using package_commit_valid [OF sample_active_valid]
    by (simp add: attempt_def sample_approve package_activate_def)
qed

lemma active_package_was_approved_as_is_witness:
  "\<exists>xs now ys. [PApprove 100, PActivate 200] = xs @ PApprove now # ys \<and>
    sp_approval_status (run_ops (attempt package_call) xs sample_package) = ''waiting_approval'' \<and>
    is_ok (package_approve now (run_ops (attempt package_call) xs sample_package)) \<and>
    public_view (run_ops (attempt package_call) [PApprove 100, PActivate 200] sample_package) =
    public_view (run_ops (attempt package_call) xs sample_package)"
  using active_package_was_approved_as_is [OF sample_created sample_run] .

lemma package_versions_increase_witness:
  "sp_version sample_package \<le> sp_version (run_ops (attempt package_call) [PApprove 100, PActivate 200] sample_package)"
  using package_versions_increase [OF sample_valid(2)] by blast

text \<open>A price change, and another one fifteen days later.\<close>

lemma sample_price:
  "positive_decimal (Dec 80000 0) = Inr (Dec 80000 0)"
  "text_differs (sp_name sample_package) (sp_name sample_package) = Inr False"
  "text_differs (sp_description sample_package) (sp_description sample_package) = Inr False"
  by code_simp+

lemma sample_rules_price:
  "service_package_rule_errors ''Wedding photography'' ''Full day of photography with two cameras and an album.''
     (Dec 80000 0) ''premier'' = []"
  by (simp add: service_package_rule_errors_def sample_texts sample_price(1) sample_lower package_tier_rules_def append_if_def
      dec_value_def del: One_nat_def)

definition sample_edit :: "instant \<Rightarrow> int \<Rightarrow> package \<Rightarrow> package" where
  "sample_edit now price p = p\<lparr>sp_price := Dec price 0, sp_updated_at := Aware now,
     sp_approval_status := ''waiting_approval'', sp_rejection_reason := None, sp_is_active := False,
     sp_last_edit_at := Some (Aware now), sp_next_edit_at := Some (Aware (now + vendor_edit_cooldown))\<rparr>"

lemma sample_edit_valid: 
  "package_valid (sample_edit 0 80000 sample_package)"
  "package_valid (sample_edit (days 15) 75000 (sample_edit 0 80000 sample_package))"
  by (simp_all add: sample_edit_def sample_eval sample_price sample_rules_price vendor_edit_cooldown_def time_units del: One_nat_def)

lemma sample_reprice:
  assumes "sp_name p = sp_name sample_package" "sp_description p = sp_description sample_package" "\<not> sp_is_deleted p"
    "positive_decimal (Dec price 0) = Inr (Dec price 0)" "dec_value (Dec price 0) \<noteq> dec_value (sp_price p)"
    "effective_next_edit_allowed_at p = Inr None \<or> effective_next_edit_allowed_at p = Inr (Some (Aware now))"
    "package_valid (sample_edit now price p)"
  shows "\<exists>es. package_call (PUpdate now None None (Some (Dec price 0)) None None) p =
    Inr (sample_edit now price p\<lparr>sp_version := sp_version p + 1, sp_events := es\<rparr>)"
proof -
  have same: "text_differs (sp_name p) (sp_name p) = Inr False"
    "text_differs (sp_description p) (sp_description p) = Inr False"
    using sample_price(2,3) assms(1,2) by simp_all
  have "p\<lparr>sp_name := sp_name p, sp_description := sp_description p, sp_price := Dec price 0,
      sp_currency := sp_currency p, sp_package_tier := sp_package_tier p, sp_updated_at := Aware now,
      sp_approval_status := ''waiting_approval'', sp_rejection_reason := None, sp_is_active := False,
      sp_last_edit_at := Some (Aware now), sp_next_edit_at := Some (Aware (now + vendor_edit_cooldown))\<rparr> =
    sample_edit now price p" by (simp add: sample_edit_def)
  with assms(3-6) same have "package_call (PUpdate now None None (Some (Dec price 0)) None None) p =
      package_commit (ServicePackageUpdated (sp_id p) (sp_vendor_id p) (Aware now)) p (sample_edit now price p)"
    by (elim disjE) (simp_all add: package_update_details_def package_public_fields_changed_def Let_def
        ensure_vendor_package_edit_allowed_def)
  then show ?thesis
    unfolding package_commit_valid [OF assms(7)] by (auto simp: sample_edit_def)
qed

lemma vendor_edits_spaced_witness:
  "\<exists>q s. package_call (PUpdate 0 None None (Some (Dec 80000 0)) None None) sample_package = Inr q \<and>
     package_call (PUpdate (days 15) None None (Some (Dec 75000 0)) None None) q = Inr s \<and>
     (0::int) + days 15 \<le> days 15"
proof -
  have n: "effective_next_edit_allowed_at sample_package = Inr None"
    using effective_next_valid(1) [OF sample_valid(2)] by (simp add: sample_package_def)
  obtain es q where q: "package_call (PUpdate 0 None None (Some (Dec 80000 0)) None None) sample_package = Inr q"
    "q = sample_edit 0 80000 sample_package\<lparr>sp_version := sp_version sample_package + 1, sp_events := es\<rparr>"
    using sample_reprice [OF _ _ _ sample_price(1) _ disjI1 [OF n] sample_edit_valid(1)]
    by (auto simp: sample_package_def dec_value_def)
  have v: "package_valid q"
    unfolding q(2) by (rule valid_version_events [OF sample_edit_valid(1)]) (simp add: sample_package_def)
  have m: "effective_next_edit_allowed_at q = Inr (Some (Aware (days 15)))"
    using effective_next_valid(1) [OF v] by (simp add: q(2) sample_edit_def vendor_edit_cooldown_def)
  have w: "package_valid (sample_edit (days 15) 75000 q)"
    using valid_version_events [OF sample_edit_valid(2), of "sp_version q" "sp_events q"]
    by (simp add: q(2) sample_edit_def sample_package_def)
  obtain fs s where s: "package_call (PUpdate (days 15) None None (Some (Dec 75000 0)) None None) q = Inr s"
    "s = sample_edit (days 15) 75000 q\<lparr>sp_version := sp_version q + 1, sp_events := fs\<rparr>"
    using sample_reprice [OF _ _ _ sample_texts(3) _ disjI2 [OF m] w]
    by (auto simp: q(2) sample_edit_def sample_package_def dec_value_def)
  have ne: "q \<noteq> sample_package" "s \<noteq> q"
  proof -
    have "sp_version q = sp_version sample_package + 1" "sp_version s = sp_version q + 1"
      by (simp_all add: q(2) s(2))
    then show "q \<noteq> sample_package" "s \<noteq> q" by auto
  qed
  show ?thesis
    using vendor_edits_spaced [OF sample_valid(2) q(1) ne(1) _ s(1) ne(2), of "[]"] q(1) s(1) by auto
qed

end
