(* ===== verification/Vendor_Profile.thy ===== *)
theory Vendor_Profile
  imports Vendor_Shared
begin

text \<open>
  Vendor profiles (\<open>domain/vendors/profile\<close>): the aggregate with its invariants, the setup checks and
  the review life cycle. As for packages a mutator builds a candidate with \<open>replace\<close>, which validates
  it, and commits it; a mutator that raises leaves the profile as it was. \<open>now\<close> is the reading of the clock.
\<close>

section \<open>The aggregate\<close>

text \<open>The fields of the events in the order vendor, user, data of the event, time, version.\<close>

datatype profile_event =
    VendorSubmittedForReview uuid uuid datetime int
  | VendorApproved uuid datetime int
  | VendorRejected uuid string datetime int
  | VendorSuspended uuid "string option" datetime int
  | VendorReinstated uuid datetime int
  | VendorProfileUpdated uuid uuid datetime int

record profile =
  vp_id :: uuid
  vp_user_id :: uuid
  vp_business_name :: string
  vp_category :: string
  vp_description :: string
  vp_service_area :: string
  vp_contact_email :: string
  vp_contact_phone :: string
  vp_custom_category :: "string option"
  vp_website :: "string option"
  vp_profile_image_url :: "string option"
  vp_profile_image_id :: "string option"
  vp_cover_image_url :: "string option"
  vp_cover_image_id :: "string option"
  vp_status :: string
  vp_submitted_at :: "datetime option"
  vp_approved_at :: "datetime option"
  vp_rejected_at :: "datetime option"
  vp_rejection_reason :: "string option"
  vp_version :: int
  vp_created_at :: datetime
  vp_updated_at :: datetime
  vp_events :: "profile_event list"

definition vendor_statuses :: "string list" where
  "vendor_statuses = [''draft'', ''pending_review'', ''approved'', ''rejected'', ''suspended'']"

definition service_categories :: "string list" where
  "service_categories =
     [''photography'', ''catering'', ''decor'', ''venue'', ''entertainment'', ''transportation'', ''attire'', ''other'']"

definition profile_invalid :: "field_errors \<Rightarrow> vendor_exn" where
  "profile_invalid es = invalid ''vendor_profile_invalid'' es"

definition bad_vendor_transition :: "string \<Rightarrow> vendor_exn" where
  "bad_vendor_transition m = VendorError ''vendor_transition_invalid'' m []"

definition min_description_length :: nat where "min_description_length = 20"

definition short_description :: string where
  "short_description = ''Use at least 20 characters for your description.''"

definition other_category_message :: string where
  "other_category_message = ''Tell us what service you provide when choosing Other.''"

text \<open>\<open>normalize_phone\<close> of a required number.\<close>

definition required_phone :: "string \<Rightarrow> (string, string) res" where
  "required_phone v =
     res_bind (normalize_phone True (Some v)) (\<lambda>p. Inr (case p of None \<Rightarrow> '''' | Some s \<Rightarrow> s))"

definition optional_text :: "string \<Rightarrow> string option \<Rightarrow> (string, string option) res" where
  "optional_text field v = bounded_text (text_limit field) 1 False v"

text \<open>\<open>validate_invariants\<close>: the fields are normalised, then the checks across fields run on the
  normalised profile.\<close>

definition profile_normal :: "profile \<Rightarrow> profile" where
  "profile_normal p =
     p\<lparr>vp_business_name := res_or (vp_business_name p) (required_text (text_limit ''business_name'') 1 (vp_business_name p)),
       vp_description := res_or (vp_description p) (required_text (text_limit ''description'') 1 (vp_description p)),
       vp_service_area := res_or (vp_service_area p) (required_text (text_limit ''service_area'') 1 (vp_service_area p)),
       vp_contact_email := res_or (vp_contact_email p) (validate_email (vp_contact_email p)),
       vp_contact_phone := res_or (vp_contact_phone p) (required_phone (vp_contact_phone p)),
       vp_custom_category := res_or (vp_custom_category p) (optional_text ''custom_category'' (vp_custom_category p)),
       vp_website := res_or (vp_website p) (validate_safe_url ''website'' False (vp_website p)),
       vp_profile_image_url := res_or (vp_profile_image_url p)
         (validate_public_media_url ''profile_image_url'' False (vp_profile_image_url p)),
       vp_cover_image_url := res_or (vp_cover_image_url p)
         (validate_public_media_url ''cover_image_url'' False (vp_cover_image_url p)),
       vp_profile_image_id := res_or (vp_profile_image_id p) (optional_text ''public_id'' (vp_profile_image_id p)),
       vp_cover_image_id := res_or (vp_cover_image_id p) (optional_text ''public_id'' (vp_cover_image_id p)),
       vp_rejection_reason := res_or (vp_rejection_reason p)
         (optional_text ''rejection_reason'' (vp_rejection_reason p))\<rparr>"

definition profile_field_checks :: "profile \<Rightarrow> (string \<times> string option) list" where
  "profile_field_checks p =
     [(''business_name'', fault (required_text (text_limit ''business_name'') 1 (vp_business_name p))),
      (''description'', fault (required_text (text_limit ''description'') 1 (vp_description p))),
      (''service_area'', fault (required_text (text_limit ''service_area'') 1 (vp_service_area p))),
      (''contact_email'', fault (validate_email (vp_contact_email p))),
      (''contact_phone'', fault (required_phone (vp_contact_phone p))),
      (''custom_category'', fault (optional_text ''custom_category'' (vp_custom_category p))),
      (''website'', fault (validate_safe_url ''website'' False (vp_website p))),
      (''profile_image_url'', fault (validate_public_media_url ''profile_image_url'' False (vp_profile_image_url p))),
      (''cover_image_url'', fault (validate_public_media_url ''cover_image_url'' False (vp_cover_image_url p))),
      (''profile_image_public_id'', fault (optional_text ''public_id'' (vp_profile_image_id p))),
      (''cover_image_public_id'', fault (optional_text ''public_id'' (vp_cover_image_id p))),
      (''category'', fault (choose_enum service_categories ''category'' (vp_category p))),
      (''status'', fault (choose_enum vendor_statuses ''status'' (vp_status p))),
      (''created_at'', fault (required_datetime (vp_created_at p))),
      (''updated_at'', fault (required_datetime (vp_updated_at p))),
      (''submitted_at'', fault (aware_utc_datetime (vp_submitted_at p))),
      (''approved_at'', fault (aware_utc_datetime (vp_approved_at p))),
      (''rejected_at'', fault (aware_utc_datetime (vp_rejected_at p))),
      (''rejection_reason'', fault (optional_text ''rejection_reason'' (vp_rejection_reason p))),
      (''version'', fault (validate_int (Some 0) None (vp_version p)))]"

text \<open>What each status allows of the times and of the reason.\<close>

definition profile_status_checks :: "profile \<Rightarrow> (string \<times> string option) list" where
  "profile_status_checks q =
     (let st = vp_status q; sub = vp_submitted_at q; app = vp_approved_at q; rej = vp_rejected_at q in
      [(''submitted_at'', fault_if (st = ''draft'' \<and> sub \<noteq> None) ''Draft vendors cannot have submission metadata.''),
       (''approved_at'', fault_if (st = ''draft'' \<and> app \<noteq> None) ''Draft vendors cannot have approval metadata.''),
       (''rejected_at'', fault_if (st = ''draft'' \<and> rej \<noteq> None) ''Draft vendors cannot have rejection metadata.''),
       (''submitted_at'', fault_if (st = ''pending_review'' \<and> sub = None) ''Pending vendors require submitted_at.''),
       (''approved_at'', fault_if (st = ''pending_review'' \<and> app \<noteq> None) ''Pending vendors cannot have approval metadata.''),
       (''rejected_at'', fault_if (st = ''pending_review'' \<and> rej \<noteq> None) ''Pending vendors cannot have rejection metadata.''),
       (''submitted_at'', fault_if (st = ''approved'' \<and> sub = None) ''Approved vendors require submitted_at.''),
       (''approved_at'', fault_if (st = ''approved'' \<and> app = None) ''Approved vendors require approved_at.''),
       (''rejected_at'', fault_if (st = ''approved'' \<and> rej \<noteq> None) ''Approved vendors cannot have rejection metadata.''),
       (''submitted_at'', fault_if (st = ''rejected'' \<and> sub = None) ''Rejected vendors require submitted_at.''),
       (''rejection_reason'', fault_if (st = ''rejected'' \<and> \<not> given (vp_rejection_reason q)) ''Rejection reason is required.''),
       (''rejected_at'', fault_if (st = ''rejected'' \<and> rej = None) ''Rejected vendors require rejected_at.''),
       (''approved_at'', fault_if (st = ''rejected'' \<and> app \<noteq> None) ''Rejected vendors cannot have approval metadata.''),
       (''submitted_at'', fault_if (st = ''suspended'' \<and> sub = None) ''Suspended vendors require submitted_at.''),
       (''approved_at'', fault_if (st = ''suspended'' \<and> app = None) ''Suspended vendors require previous approval metadata.''),
       (''rejected_at'', fault_if (st = ''suspended'' \<and> rej \<noteq> None) ''Suspended vendors cannot have rejection metadata.''),
       (''rejection_reason'', fault_if (st \<noteq> ''rejected'' \<and> given (vp_rejection_reason q))
          ''Only rejected vendors can have rejection metadata.'')])"

definition profile_time_checks :: "profile \<Rightarrow> (string \<times> string option) list" where
  "profile_time_checks q =
     (let sub = vp_submitted_at q; app = vp_approved_at q; rej = vp_rejected_at q; late = (\<lambda>t. earlier (Some (vp_updated_at q)) t);
          msg = ''Lifecycle timestamp cannot be after updated_at.'' in
      [(''submitted_at'', fault_if (earlier sub (Some (vp_created_at q))) ''Submission cannot happen before creation.''),
       (''approved_at'', fault_if (earlier app sub) ''Approval cannot happen before submission.''),
       (''rejected_at'', fault_if (earlier rej sub) ''Rejection cannot happen before submission.''),
       (''submitted_at'', fault_if (late sub) msg), (''approved_at'', fault_if (late app) msg),
       (''rejected_at'', fault_if (late rej) msg)])"

definition profile_cross_checks :: "profile \<Rightarrow> (string \<times> string option) list" where
  "profile_cross_checks q =
     [(''custom_category'', fault_if (vp_category q = ''other'' \<and> \<not> given (vp_custom_category q)) other_category_message),
      (''custom_category'', fault_if (vp_category q \<noteq> ''other'' \<and> given (vp_custom_category q))
         ''Custom category is only allowed when category is Other.''),
      public_id_url_fault ''profile_image_url'' ''profile_image_public_id'' (vp_profile_image_url q) (vp_profile_image_id q),
      public_id_url_fault ''cover_image_url'' ''cover_image_public_id'' (vp_cover_image_url q) (vp_cover_image_id q)] @
     profile_status_checks q @ profile_time_checks q @
     [(''description'', fault_if (vp_description q \<noteq> '''' \<and> length (vp_description q) < min_description_length) short_description),
      (''updated_at'', fault_if (earlier (Some (vp_updated_at q)) (Some (vp_created_at q)))
         ''Updated timestamp cannot be before creation.'')]"

text \<open>The comparisons of times that the checks make.\<close>

definition profile_comparisons :: "profile \<Rightarrow> (datetime option \<times> datetime option) list" where
  "profile_comparisons q =
     [(vp_submitted_at q, Some (vp_created_at q)), (vp_approved_at q, vp_submitted_at q),
      (vp_rejected_at q, vp_submitted_at q), (vp_submitted_at q, Some (vp_updated_at q)),
      (vp_approved_at q, Some (vp_updated_at q)), (vp_rejected_at q, Some (vp_updated_at q)),
      (Some (vp_updated_at q), Some (vp_created_at q))]"

definition profile_validate :: "profile \<Rightarrow> (vendor_exn, profile) res" where
  "profile_validate p =
     (let q = profile_normal p; es = gather (profile_field_checks p @ profile_cross_checks q) in
      if list_ex (\<lambda>(a, b). incomparable a b) (profile_comparisons q) then Inl VendorTypeError
      else if es \<noteq> [] then Inl (profile_invalid es) else Inr q)"

text \<open>\<open>create_draft\<close>: the clock is read for each of the two time stamps.\<close>

definition create_draft ::
  "uuid \<Rightarrow> instant \<Rightarrow> instant \<Rightarrow> uuid \<Rightarrow> string \<Rightarrow> string \<Rightarrow> string \<Rightarrow> string \<Rightarrow> string \<Rightarrow> string \<Rightarrow>
     string option \<Rightarrow> string option \<Rightarrow> (vendor_exn, profile) res" where
  "create_draft new_id created updated user_id business_name category description area email phone custom website =
     profile_validate
       \<lparr>vp_id = new_id, vp_user_id = user_id, vp_business_name = business_name, vp_category = category,
        vp_description = description, vp_service_area = area, vp_contact_email = email, vp_contact_phone = phone,
        vp_custom_category = custom, vp_website = website, vp_profile_image_url = None, vp_profile_image_id = None,
        vp_cover_image_url = None, vp_cover_image_id = None, vp_status = ''draft'', vp_submitted_at = None,
        vp_approved_at = None, vp_rejected_at = None, vp_rejection_reason = None, vp_version = 0,
        vp_created_at = Aware created, vp_updated_at = Aware updated, vp_events = []\<rparr>"

text \<open>\<open>rehydrate\<close>: checks on the arguments, the constructor, checks on the result, no events. After the
  constructor the times compared here are comparable.\<close>

definition rehydrate_input_errors :: "profile \<Rightarrow> field_errors" where
  "rehydrate_input_errors a = gather
     [(''submitted_at'', fault_if (vp_status a = ''pending_review'' \<and> vp_submitted_at a = None)
         ''Pending vendors require submitted_at.''),
      (''approved_at'', fault_if (vp_status a = ''approved'' \<and> vp_approved_at a = None)
         ''Approved vendors require approved_at.''),
      (''rejected_at'', fault_if (vp_status a = ''rejected'' \<and> vp_rejected_at a = None)
         ''Rejected vendors require rejected_at.''),
      (''rejection_reason'', fault_if (vp_status a = ''rejected'' \<and> \<not> given (vp_rejection_reason a))
         ''Rejected vendors require rejection_reason.'')]"

definition strict_rehydration_errors :: "profile \<Rightarrow> field_errors" where
  "strict_rehydration_errors p = gather
     [(''submitted_at'', fault_if (vp_status p = ''pending_review'' \<and> vp_submitted_at p = None)
         ''Pending vendors require submitted_at.''),
      (''approved_at'', fault_if (vp_status p = ''approved'' \<and> vp_approved_at p = None)
         ''Approved vendors require approved_at.''),
      (''rejected_at'', fault_if (vp_status p = ''rejected'' \<and> vp_rejected_at p = None)
         ''Rejected vendors require rejected_at.''),
      (''approved_at'', fault_if (earlier (vp_approved_at p) (vp_submitted_at p))
         ''Approval cannot happen before submission.''),
      (''rejected_at'', fault_if (earlier (vp_rejected_at p) (vp_submitted_at p))
         ''Rejection cannot happen before submission.'')]"

definition rehydrate_profile :: "profile \<Rightarrow> (vendor_exn, profile) res" where
  "rehydrate_profile a =
     (if rehydrate_input_errors a \<noteq> [] then Inl (profile_invalid (rehydrate_input_errors a))
      else res_bind (profile_validate a) (\<lambda>p.
        if strict_rehydration_errors p \<noteq> [] then Inl (profile_invalid (strict_rehydration_errors p))
        else Inr (p\<lparr>vp_events := []\<rparr>)))"

section \<open>Setup checks\<close>

text \<open>\<open>profile_completion_errors_for\<close>: assignments to a dictionary; a later one replaces the message.\<close>

definition set_error :: "string \<Rightarrow> string \<Rightarrow> field_errors \<Rightarrow> field_errors" where
  "set_error f m es =
     (if map_of es f = None then es @ [(f, [m])] else map (\<lambda>(g, ms). if g = f then (g, [m]) else (g, ms)) es)"

definition profile_completion_errors :: "profile \<Rightarrow> field_errors" where
  "profile_completion_errors p =
     (let missing = fold (\<lambda>(f, v) es. if py_strip v = '''' then set_error f required_message es else es)
        [(''business_name'', vp_business_name p), (''category'', vp_category p), (''description'', vp_description p),
         (''service_area'', vp_service_area p), (''contact_email'', vp_contact_email p),
         (''contact_phone'', vp_contact_phone p)] [];
        custom = (case vp_custom_category p of None \<Rightarrow> '''' | Some c \<Rightarrow> c);
        es = (if vp_category p = ''other'' \<and> py_strip custom = ''''
          then set_error ''custom_category'' other_category_message missing else missing)
      in if vp_description p \<noteq> '''' \<and> length (py_strip (vp_description p)) < min_description_length
         then set_error ''description'' short_description es else es)"

definition is_profile_complete :: "profile \<Rightarrow> bool" where
  "is_profile_complete p = (profile_completion_errors p = [])"

definition is_draft_incomplete :: "profile \<Rightarrow> bool" where
  "is_draft_incomplete p = (vp_status p = ''draft'' \<and> profile_completion_errors p \<noteq> [])"

definition is_pending_review :: "profile \<Rightarrow> bool" where
  "is_pending_review p = (vp_status p = ''pending_review'')"

section \<open>Mutators\<close>

definition profile_stamp :: "int \<Rightarrow> profile_event list \<Rightarrow> profile \<Rightarrow> profile" where
  "profile_stamp k es p = p\<lparr>vp_version := k, vp_events := es\<rparr>"

definition profile_commit :: "(int \<Rightarrow> profile_event) \<Rightarrow> profile \<Rightarrow> profile \<Rightarrow> (vendor_exn, profile) res" where
  "profile_commit event self candidate =
     res_bind (profile_validate candidate)
       (commit_candidate profile_validate vp_version vp_events profile_stamp (Some event) self)"

text \<open>The arguments of \<open>update_details\<close>; \<open>None\<close> is the default \<open>_UNSET\<close>.\<close>

record profile_changes =
  ch_business_name :: "string option"
  ch_category :: "string option"
  ch_description :: "string option"
  ch_service_area :: "string option"
  ch_contact_email :: "string option"
  ch_contact_phone :: "string option"
  ch_custom_category :: "string option option"
  ch_website :: "string option option"
  ch_profile_image_url :: "string option option"
  ch_profile_image_id :: "string option option"
  ch_cover_image_url :: "string option option"
  ch_cover_image_id :: "string option option"

definition unless_unset :: "'a \<Rightarrow> 'a option \<Rightarrow> 'a" where
  "unless_unset old new = (case new of None \<Rightarrow> old | Some v \<Rightarrow> v)"

definition apply_changes :: "profile_changes \<Rightarrow> profile \<Rightarrow> profile" where
  "apply_changes ch p =
     p\<lparr>vp_business_name := unless_unset (vp_business_name p) (ch_business_name ch),
       vp_category := unless_unset (vp_category p) (ch_category ch),
       vp_description := unless_unset (vp_description p) (ch_description ch),
       vp_service_area := unless_unset (vp_service_area p) (ch_service_area ch),
       vp_contact_email := unless_unset (vp_contact_email p) (ch_contact_email ch),
       vp_contact_phone := unless_unset (vp_contact_phone p) (ch_contact_phone ch),
       vp_custom_category := unless_unset (vp_custom_category p) (ch_custom_category ch),
       vp_website := unless_unset (vp_website p) (ch_website ch),
       vp_profile_image_url := unless_unset (vp_profile_image_url p) (ch_profile_image_url ch),
       vp_profile_image_id := unless_unset (vp_profile_image_id p) (ch_profile_image_id ch),
       vp_cover_image_url := unless_unset (vp_cover_image_url p) (ch_cover_image_url ch),
       vp_cover_image_id := unless_unset (vp_cover_image_id p) (ch_cover_image_id ch)\<rparr>"

definition same_details :: "profile \<Rightarrow> profile \<Rightarrow> bool" where
  "same_details c p =
     (vp_business_name c = vp_business_name p \<and> vp_category c = vp_category p \<and>
      vp_description c = vp_description p \<and> vp_service_area c = vp_service_area p \<and>
      vp_contact_email c = vp_contact_email p \<and> vp_contact_phone c = vp_contact_phone p \<and>
      vp_custom_category c = vp_custom_category p \<and> vp_website c = vp_website p \<and>
      vp_profile_image_url c = vp_profile_image_url p \<and> vp_profile_image_id c = vp_profile_image_id p \<and>
      vp_cover_image_url c = vp_cover_image_url p \<and> vp_cover_image_id c = vp_cover_image_id p)"

definition profile_update_details :: "instant \<Rightarrow> profile_changes \<Rightarrow> profile \<Rightarrow> (vendor_exn, profile) res" where
  "profile_update_details now ch p =
     res_bind (profile_validate (apply_changes ch p)) (\<lambda>c.
       if same_details c p then Inr p
       else profile_commit (VendorProfileUpdated (vp_id p) (vp_user_id p) (Aware now)) p
         (c\<lparr>vp_updated_at := Aware now\<rparr>))"

definition submit_for_review :: "instant \<Rightarrow> profile \<Rightarrow> (vendor_exn, profile) res" where
  "submit_for_review now p =
     (if vp_status p \<notin> {''draft'', ''rejected''}
      then Inl (bad_vendor_transition (''Cannot submit from status '' @ vp_status p))
      else if profile_completion_errors p \<noteq> []
      then Inl (VendorError ''vendor_profile_invalid'' ''Vendor profile setup is incomplete.'' (profile_completion_errors p))
      else profile_commit (VendorSubmittedForReview (vp_id p) (vp_user_id p) (Aware now)) p
        (p\<lparr>vp_status := ''pending_review'', vp_submitted_at := Some (Aware now), vp_approved_at := None,
           vp_rejected_at := None, vp_rejection_reason := None, vp_updated_at := Aware now\<rparr>))"

definition approve_profile :: "instant \<Rightarrow> profile \<Rightarrow> (vendor_exn, profile) res" where
  "approve_profile now p =
     (if vp_status p \<noteq> ''pending_review'' then Inl (bad_vendor_transition ''Only pending profiles can be approved'')
      else profile_commit (VendorApproved (vp_id p) (Aware now)) p
        (p\<lparr>vp_status := ''approved'', vp_approved_at := Some (Aware now), vp_rejected_at := None,
           vp_rejection_reason := None, vp_updated_at := Aware now\<rparr>))"

definition reject_profile :: "instant \<Rightarrow> string \<Rightarrow> profile \<Rightarrow> (vendor_exn, profile) res" where
  "reject_profile now reason p =
     (if vp_status p \<noteq> ''pending_review'' then Inl (bad_vendor_transition ''Only pending profiles can be rejected'')
      else res_bind (validated_transition_reason ''vendor_profile_invalid'' ''rejection_reason'' reason) (\<lambda>r.
        profile_commit (VendorRejected (vp_id p) r (Aware now)) p
          (p\<lparr>vp_status := ''rejected'', vp_approved_at := None, vp_rejected_at := Some (Aware now),
             vp_rejection_reason := Some r, vp_updated_at := Aware now\<rparr>)))"

definition suspend_profile :: "instant \<Rightarrow> string option \<Rightarrow> profile \<Rightarrow> (vendor_exn, profile) res" where
  "suspend_profile now reason p =
     (if vp_status p \<noteq> ''approved'' then Inl (bad_vendor_transition ''Only approved vendors can be suspended'')
      else res_bind (case reason of None \<Rightarrow> Inr None
          | Some r \<Rightarrow> res_bind (validated_transition_reason ''vendor_profile_invalid'' ''reason'' r) (\<lambda>r. Inr (Some r))) (\<lambda>r.
        profile_commit (VendorSuspended (vp_id p) r (Aware now)) p
          (p\<lparr>vp_status := ''suspended'', vp_updated_at := Aware now\<rparr>)))"

definition reinstate_profile :: "instant \<Rightarrow> profile \<Rightarrow> (vendor_exn, profile) res" where
  "reinstate_profile now p =
     (if vp_status p \<noteq> ''suspended'' then Inl (bad_vendor_transition ''Only suspended vendors can be reinstated'')
      else profile_commit (VendorReinstated (vp_id p) (Aware now)) p
        (p\<lparr>vp_status := ''approved'', vp_updated_at := Aware now\<rparr>))"


section \<open>Valid profiles\<close>

definition profile_valid :: "profile \<Rightarrow> bool" where
  "profile_valid p = (profile_validate p = Inr p)"

lemma profile_validate_Inr:
  "profile_validate p = Inr q \<longleftrightarrow> q = profile_normal p \<and>
     (\<forall>(a, b) \<in> set (profile_comparisons q). \<not> incomparable a b) \<and>
     (\<forall>(f, m) \<in> set (profile_field_checks p). m = None) \<and> (\<forall>(f, m) \<in> set (profile_cross_checks q). m = None)"
  by (auto simp: profile_validate_def Let_def list_ex_iff)

lemma required_phone_idem:
  assumes "required_phone v = Inr p"
  shows "required_phone p = Inr p"
proof -
  from assms obtain u where u: "normalize_phone True (Some v) = Inr u" "p = (case u of None \<Rightarrow> '''' | Some s \<Rightarrow> s)"
    by (auto simp: required_phone_def res_bind_Inr)
  from u(1) have "u \<noteq> None"
    by (auto simp: normalize_phone_def bounded_text_def Let_def res_bind_Inr split: option.splits if_split_asm)
  with u normalize_phone_idem [OF u(1)] show ?thesis by (auto simp: required_phone_def)
qed

lemma optional_text_idem: "optional_text f v = Inr t \<Longrightarrow> optional_text f t = Inr t"
  unfolding optional_text_def by (rule bounded_text_idem)

lemma profile_checks_normal:
  assumes "\<forall>(f, m) \<in> set (profile_field_checks p). m = None"
  shows "profile_normal (profile_normal p) = profile_normal p"
    "\<forall>(f, m) \<in> set (profile_field_checks (profile_normal p)). m = None"
proof -
  from assms obtain n d a e ph cu w pu cov pid cid r where
    v: "required_text (text_limit ''business_name'') 1 (vp_business_name p) = Inr n"
    "required_text (text_limit ''description'') 1 (vp_description p) = Inr d"
    "required_text (text_limit ''service_area'') 1 (vp_service_area p) = Inr a"
    "validate_email (vp_contact_email p) = Inr e" "required_phone (vp_contact_phone p) = Inr ph"
    "optional_text ''custom_category'' (vp_custom_category p) = Inr cu"
    "validate_safe_url ''website'' False (vp_website p) = Inr w"
    "validate_public_media_url ''profile_image_url'' False (vp_profile_image_url p) = Inr pu"
    "validate_public_media_url ''cover_image_url'' False (vp_cover_image_url p) = Inr cov"
    "optional_text ''public_id'' (vp_profile_image_id p) = Inr pid"
    "optional_text ''public_id'' (vp_cover_image_id p) = Inr cid"
    "optional_text ''rejection_reason'' (vp_rejection_reason p) = Inr r"
    by (auto simp: profile_field_checks_def)
  note i = required_text_idem [OF v(1)] required_text_idem [OF v(2)] required_text_idem [OF v(3)]
    validate_email_idem [OF v(4)] required_phone_idem [OF v(5)] optional_text_idem [OF v(6)]
    validate_safe_url_idem [OF v(7)] validate_public_media_url_idem [OF v(8)]
    validate_public_media_url_idem [OF v(9)] optional_text_idem [OF v(10)] optional_text_idem [OF v(11)]
    optional_text_idem [OF v(12)]
  show "profile_normal (profile_normal p) = profile_normal p"
    using v i by (simp add: profile_normal_def)
  show "\<forall>(f, m) \<in> set (profile_field_checks (profile_normal p)). m = None"
    using assms v i by (auto simp: profile_field_checks_def profile_normal_def)
qed

lemma profile_validate_valid: "profile_validate p = Inr q \<Longrightarrow> profile_valid q"
  using profile_checks_normal [of p] by (auto simp: profile_valid_def profile_validate_Inr)

lemma profile_normal_sel [simp]:
  "vp_id (profile_normal p) = vp_id p" "vp_category (profile_normal p) = vp_category p"
  "vp_status (profile_normal p) = vp_status p" "vp_submitted_at (profile_normal p) = vp_submitted_at p"
  "vp_approved_at (profile_normal p) = vp_approved_at p" "vp_rejected_at (profile_normal p) = vp_rejected_at p"
  "vp_version (profile_normal p) = vp_version p" "vp_created_at (profile_normal p) = vp_created_at p"
  "vp_updated_at (profile_normal p) = vp_updated_at p" "vp_events (profile_normal p) = vp_events p"
  by (simp_all add: profile_normal_def)

lemma profile_valid_stamp:
  assumes v: "profile_valid p" and "0 \<le> k"
  shows "profile_valid (profile_stamp k es p)"
proof -
  let ?q = "profile_stamp k es p"
  from v have p: "profile_normal p = p" by (simp add: profile_valid_def profile_validate_Inr)
  have "profile_normal ?q = profile_stamp k es (profile_normal p)"
    by (simp add: profile_normal_def profile_stamp_def)
  then have "profile_normal ?q = ?q" using p by simp
  moreover have "profile_cross_checks ?q = profile_cross_checks p" "profile_comparisons ?q = profile_comparisons p"
    by (simp_all add: profile_cross_checks_def profile_status_checks_def profile_time_checks_def
        profile_comparisons_def profile_stamp_def Let_def)
  moreover have "\<forall>(f, m) \<in> set (profile_field_checks ?q). m = None"
    using v assms(2)
    by (simp add: profile_valid_def profile_validate_Inr profile_field_checks_def validate_int_def profile_stamp_def)
  ultimately show "profile_valid ?q" using v by (simp add: profile_valid_def profile_validate_Inr)
qed

lemma profile_valid_version: "profile_valid p \<Longrightarrow> 0 \<le> vp_version p"
  by (auto simp: profile_valid_def profile_validate_Inr profile_field_checks_def validate_int_def split: if_splits)

interpretation profile_aggregate: validated_aggregate profile_validate vp_version vp_events profile_stamp
proof
  fix p q k es
  show "profile_validate q = Inr q" if "profile_validate p = Inr q"
    using profile_validate_valid [OF that] by (simp add: profile_valid_def)
  show "vp_version q = vp_version p \<and> 0 \<le> vp_version q" if "profile_validate p = Inr q"
    using profile_valid_version [OF profile_validate_valid [OF that]] that by (simp add: profile_validate_Inr)
  show "profile_validate (profile_stamp k es p) = Inr (profile_stamp k es p)"
    if "profile_validate p = Inr p" "0 \<le> k"
    using profile_valid_stamp [of p k es] that by (simp add: profile_valid_def)
qed (simp_all add: profile_stamp_def)

section \<open>Histories of a profile\<close>

datatype profile_op =
    PfUpdate instant profile_changes
  | PfSubmit instant
  | PfApprove instant
  | PfReject instant string
  | PfSuspend instant "string option"
  | PfReinstate instant

fun profile_call :: "profile_op \<Rightarrow> profile \<Rightarrow> (vendor_exn, profile) res" where
  "profile_call (PfUpdate now ch) p = profile_update_details now ch p"
| "profile_call (PfSubmit now) p = submit_for_review now p"
| "profile_call (PfApprove now) p = approve_profile now p"
| "profile_call (PfReject now r) p = reject_profile now r p"
| "profile_call (PfSuspend now r) p = suspend_profile now r p"
| "profile_call (PfReinstate now) p = reinstate_profile now p"

fun profile_event_version :: "profile_event \<Rightarrow> int" where
  "profile_event_version (VendorSubmittedForReview _ _ _ v) = v"
| "profile_event_version (VendorApproved _ _ v) = v"
| "profile_event_version (VendorRejected _ _ _ v) = v"
| "profile_event_version (VendorSuspended _ _ _ v) = v"
| "profile_event_version (VendorReinstated _ _ v) = v"
| "profile_event_version (VendorProfileUpdated _ _ _ v) = v"

lemma profile_commit_ok:
  assumes "profile_commit event self candidate = Inr q"
  shows "q = profile_stamp (vp_version q) (vp_events q) (profile_normal candidate)"
proof -
  from assms obtain c where c: "profile_validate candidate = Inr c"
    "commit_candidate profile_validate vp_version vp_events profile_stamp (Some event) self c = Inr q"
    by (auto simp: profile_commit_def res_bind_Inr)
  have "c = profile_normal candidate" using c(1) by (simp add: profile_validate_Inr)
  with profile_aggregate.commit_ok(4) [OF c] show ?thesis by simp
qed

lemma profile_commit_fields:
  assumes "profile_commit event self candidate = Inr q"
  shows "vp_status q = vp_status candidate" "vp_submitted_at q = vp_submitted_at candidate"
    "vp_approved_at q = vp_approved_at candidate" "vp_updated_at q = vp_updated_at candidate"
    "vp_rejected_at q = vp_rejected_at candidate" "vp_created_at q = vp_created_at candidate"
proof -
  from profile_commit_ok [OF assms] obtain k es where "q = profile_stamp k es (profile_normal candidate)" by blast
  then show "vp_status q = vp_status candidate" "vp_submitted_at q = vp_submitted_at candidate"
    "vp_approved_at q = vp_approved_at candidate" "vp_updated_at q = vp_updated_at candidate"
    "vp_rejected_at q = vp_rejected_at candidate" "vp_created_at q = vp_created_at candidate"
    by (simp_all add: profile_stamp_def)
qed

lemma profile_committedI:
  assumes "profile_commit event p candidate = Inr q" "vp_version candidate = vp_version p"
    "\<And>v. profile_event_version (event v) = v"
  shows "committed profile_validate vp_version vp_events profile_stamp profile_event_version p q"
proof -
  from assms(1) obtain c where "profile_validate candidate = Inr c"
    "commit_candidate profile_validate vp_version vp_events profile_stamp (Some event) p c = Inr q"
    by (auto simp: profile_commit_def res_bind_Inr)
  then show ?thesis by (rule committedI) (use assms(2,3) in auto)
qed

lemma apply_changes_sel [simp]:
  "vp_version (apply_changes ch p) = vp_version p" "vp_status (apply_changes ch p) = vp_status p"
  "vp_submitted_at (apply_changes ch p) = vp_submitted_at p" "vp_approved_at (apply_changes ch p) = vp_approved_at p"
  "vp_rejected_at (apply_changes ch p) = vp_rejected_at p" "vp_created_at (apply_changes ch p) = vp_created_at p"
  by (simp_all add: apply_changes_def)

lemmas profile_mutator_defs =
  profile_update_details_def submit_for_review_def approve_profile_def reject_profile_def suspend_profile_def
  reinstate_profile_def

lemma profile_call_commit:
  assumes "profile_call op p = Inr q" and "q \<noteq> p"
  shows "committed profile_validate vp_version vp_events profile_stamp profile_event_version p q"
  using assms
  by (cases op)
     (auto simp: profile_mutator_defs res_bind_Inr profile_validate_Inr split: if_splits,
      (erule profile_committedI, simp, simp)+)

interpretation profiles: validated_calls profile_validate vp_version vp_events profile_stamp profile_call
  profile_event_version
  by unfold_locales (rule profile_call_commit)


lemma profile_run_valid: "profile_valid p \<Longrightarrow> profile_valid (run_ops (attempt profile_call) ops p)"
  unfolding profile_valid_def by (rule profiles.history [THEN conjunct1])

text \<open>The effect of a successful call on the status and on the times of the review.\<close>

definition review :: "profile \<Rightarrow> string \<times> datetime option \<times> datetime option" where
  "review p = (vp_status p, vp_submitted_at p, vp_approved_at p)"

fun review_effect :: "profile_op \<Rightarrow> string \<times> datetime option \<times> datetime option \<Rightarrow>
    (string \<times> datetime option \<times> datetime option) option" where
  "review_effect (PfUpdate _ _) r = Some r"
| "review_effect (PfSubmit now) (st, s, a) =
     (if st \<in> {''draft'', ''rejected''} then Some (''pending_review'', Some (Aware now), None) else None)"
| "review_effect (PfApprove now) (st, s, a) =
     (if st = ''pending_review'' then Some (''approved'', s, Some (Aware now)) else None)"
| "review_effect (PfReject now _) (st, s, a) = (if st = ''pending_review'' then Some (''rejected'', s, None) else None)"
| "review_effect (PfSuspend _ _) (st, s, a) = (if st = ''approved'' then Some (''suspended'', s, a) else None)"
| "review_effect (PfReinstate _) (st, s, a) = (if st = ''suspended'' then Some (''approved'', s, a) else None)"

lemma review_call: "profile_call op p = Inr q \<Longrightarrow> review_effect op (review p) = Some (review q)"
  by (cases op)
     (auto simp: review_def profile_mutator_defs res_bind_Inr profile_validate_Inr dest: profile_commit_fields(1-3)
        split: if_splits)

lemma profile_attempt_cases:
  obtains "attempt profile_call op p = p"
  | q where "profile_call op p = Inr q" "attempt profile_call op p = q" "review_effect op (review p) = Some (review q)"
  by (cases "profile_call op p") (auto simp: attempt_def review_call)

lemma review_attempt:
  "review (attempt profile_call op p) = review p \<or> review_effect op (review p) = Some (review (attempt profile_call op p))"
  by (rule profile_attempt_cases [of op p]) auto

text \<open>Review life cycle as a refinement: whatever a call does to a profile, its status, submission
  time and approval time either stay, or move the way the five-state review machine moves.\<close>

theorem profile_refines_review_machine:
  "review (attempt profile_call op p) = review p \<or> review_effect op (review p) = Some (review (attempt profile_call op p))"
  by (rule review_attempt)

definition ever_approved :: "profile \<Rightarrow> bool" where
  "ever_approved p = (vp_status p = ''approved'' \<or> vp_status p = ''suspended'')"

lemma ever_approved_step:
  assumes "ever_approved p"
  shows "ever_approved (attempt profile_call op p)"
    "vp_submitted_at (attempt profile_call op p) = vp_submitted_at p"
    "vp_approved_at (attempt profile_call op p) = vp_approved_at p"
proof -
  have "ever_approved (attempt profile_call op p) \<and>
    vp_submitted_at (attempt profile_call op p) = vp_submitted_at p \<and>
    vp_approved_at (attempt profile_call op p) = vp_approved_at p"
    using review_attempt [of op p] assms by (cases op) (auto simp: ever_approved_def review_def split: if_splits)
  then show "ever_approved (attempt profile_call op p)"
    "vp_submitted_at (attempt profile_call op p) = vp_submitted_at p"
    "vp_approved_at (attempt profile_call op p) = vp_approved_at p" by simp_all
qed

text \<open>An approval is for good: from an approved or suspended profile on, no history of edits,
  submissions, reviews, suspensions and reinstatements leads to a draft, a pending or a rejected
  profile, and the times of submission and approval stay as they are.\<close>

theorem approval_is_for_good:
  assumes "vp_status p = ''approved'' \<or> vp_status p = ''suspended''"
  shows "(vp_status (run_ops (attempt profile_call) ops p) = ''approved'' \<or>
      vp_status (run_ops (attempt profile_call) ops p) = ''suspended'') \<and>
    vp_submitted_at (run_ops (attempt profile_call) ops p) = vp_submitted_at p \<and>
    vp_approved_at (run_ops (attempt profile_call) ops p) = vp_approved_at p"
proof -
  have "ever_approved p" using assms by (simp add: ever_approved_def)
  then have "ever_approved (run_ops (attempt profile_call) ops p) \<and>
    vp_submitted_at (run_ops (attempt profile_call) ops p) = vp_submitted_at p \<and>
    vp_approved_at (run_ops (attempt profile_call) ops p) = vp_approved_at p"
    by (induction ops arbitrary: p) (simp_all add: ever_approved_step)
  then show ?thesis by (simp add: ever_approved_def)
qed

text \<open>A profile that was submitted carries the time of a submission in its history, and one that was
  approved the time of an approval after it.\<close>

definition submitted_in :: "profile_op list \<Rightarrow> datetime option \<Rightarrow> bool" where
  "submitted_in ops t = (\<exists>xs s ys. ops = xs @ PfSubmit s # ys \<and> t = Some (Aware s))"

definition reviewed_in :: "profile_op list \<Rightarrow> datetime option \<Rightarrow> datetime option \<Rightarrow> bool" where
  "reviewed_in ops t u = (\<exists>xs s ys a zs. ops = xs @ PfSubmit s # ys @ PfApprove a # zs \<and>
     t = Some (Aware s) \<and> u = Some (Aware a))"

lemma reviewed_snoc:
  "submitted_in ops t \<Longrightarrow> submitted_in (ops @ [op]) t"
  "Some (Aware now) = t \<Longrightarrow> submitted_in (ops @ [PfSubmit now]) t"
  "reviewed_in ops t u \<Longrightarrow> reviewed_in (ops @ [op]) t u"
  "submitted_in ops t \<Longrightarrow> Some (Aware now) = u \<Longrightarrow> reviewed_in (ops @ [PfApprove now]) t u"
  unfolding submitted_in_def reviewed_in_def by fastforce+

definition traced :: "profile_op list \<Rightarrow> profile \<Rightarrow> bool" where
  "traced ops p = (
     (vp_status p \<noteq> ''draft'' \<longrightarrow> submitted_in ops (vp_submitted_at p)) \<and>
     (ever_approved p \<longrightarrow> reviewed_in ops (vp_submitted_at p) (vp_approved_at p)))"

lemma traced_snoc:
  assumes "traced ops p"
    and "review q = review p \<or> review_effect op (review p) = Some (review q)"
  shows "traced (ops @ [op]) q"
  using assms(2)
proof
  assume "review q = review p"
  with assms(1) show ?thesis by (auto simp: traced_def ever_approved_def review_def reviewed_snoc)
next
  assume "review_effect op (review p) = Some (review q)"
  with assms(1) show ?thesis
    by (cases op) (auto simp: traced_def ever_approved_def review_def reviewed_snoc split: if_splits)
qed

lemma create_draft_facts:
  assumes "create_draft i t0 t1 user name category description area email phone custom website = Inr p"
  shows "profile_valid p" "vp_status p = ''draft''"
  using assms profile_validate_valid by (auto simp: create_draft_def profile_validate_Inr)

lemma valid_review_times:
  assumes "profile_valid p" "vp_submitted_at p = Some (Aware s)" "vp_approved_at p = Some (Aware a)"
  shows "s \<le> a"
proof -
  from assms(1) have "\<not> earlier (vp_approved_at p) (vp_submitted_at p)"
    by (simp add: profile_valid_def profile_validate_Inr profile_cross_checks_def profile_time_checks_def Let_def)
  with assms(2,3) show ?thesis by (simp add: earlier_def not_less)
qed

text \<open>C14. Only reviewed vendors are public: if a profile that started as a draft is approved (or
  suspended) after any history, then the history has a submission and a later approval, at the
  times the profile records, and the submission is not after the approval.\<close>

theorem approved_vendor_was_reviewed:
  assumes "create_draft i t0 t1 user name category description area email phone custom website = Inr p"
    and "q = run_ops (attempt profile_call) ops p"
    and "vp_status q = ''approved'' \<or> vp_status q = ''suspended''"
  shows "\<exists>xs s ys a zs. ops = xs @ PfSubmit s # ys @ PfApprove a # zs \<and>
    vp_submitted_at q = Some (Aware s) \<and> vp_approved_at q = Some (Aware a) \<and> s \<le> a"
proof -
  note p = create_draft_facts [OF assms(1)]
  have "traced ops (run_ops (attempt profile_call) ops p)"
  proof (induction ops rule: rev_induct)
    case Nil
    with p(2) show ?case by (simp add: traced_def ever_approved_def)
  next
    case (snoc op ops)
    from traced_snoc [OF snoc.IH review_attempt] show ?case by (simp add: run_ops_append)
  qed
  with assms(2,3) have "reviewed_in ops (vp_submitted_at q) (vp_approved_at q)"
    by (simp add: traced_def ever_approved_def)
  then obtain xs s ys a zs where t: "ops = xs @ PfSubmit s # ys @ PfApprove a # zs"
    "vp_submitted_at q = Some (Aware s)" "vp_approved_at q = Some (Aware a)" unfolding reviewed_in_def by blast
  moreover have "s \<le> a" using valid_review_times [OF _ t(2,3)] profile_run_valid [OF p(1), of ops] assms(2) by simp
  ultimately show ?thesis by blast
qed

section \<open>Every profile is complete\<close>

lemma fold_no_error:
  "(\<And>f v. (f, v) \<in> set xs \<Longrightarrow> py_strip v \<noteq> '''') \<Longrightarrow>
     fold (\<lambda>(f, v) es. if py_strip v = '''' then set_error f required_message es else es) xs es = es"
  by (induction xs arbitrary: es) (auto split: prod.splits)

lemma required_phone_nonblank: "required_phone v = Inr p \<Longrightarrow> py_strip v \<noteq> ''''"
  by (auto simp: required_phone_def normalize_phone_def bounded_text_def res_bind_Inr Let_def)

lemma validate_email_nonblank: "validate_email v = Inr e \<Longrightarrow> py_strip v \<noteq> ''''"
  by (auto simp: validate_email_def required_text_Inr res_bind_Inr)

lemma optional_text_nonblank: "optional_text f v = Inr v \<Longrightarrow> given v \<Longrightarrow> py_strip (the v) \<noteq> ''''"
  by (auto simp: optional_text_def bounded_text_def given_def Let_def split: option.splits if_splits)

lemma valid_complete:
  assumes "profile_valid p"
  shows "profile_completion_errors p = []"
proof -
  from assms have n: "profile_normal p = p" and f: "\<forall>(f, m) \<in> set (profile_field_checks p). m = None"
    and x: "\<forall>(f, m) \<in> set (profile_cross_checks p). m = None"
    by (simp_all add: profile_valid_def profile_validate_Inr)
  from f obtain b d a e ph c where v: "required_text (text_limit ''business_name'') 1 (vp_business_name p) = Inr b"
    "required_text (text_limit ''description'') 1 (vp_description p) = Inr d"
    "required_text (text_limit ''service_area'') 1 (vp_service_area p) = Inr a"
    "validate_email (vp_contact_email p) = Inr e" "required_phone (vp_contact_phone p) = Inr ph"
    "optional_text ''custom_category'' (vp_custom_category p) = Inr c" "vp_category p \<in> set service_categories"
    by (auto simp: profile_field_checks_def choose_enum_Inr)
  have cat: "\<forall>s \<in> set service_categories. py_strip s \<noteq> ''''" by code_simp
  have blank: "fold (\<lambda>(f, v) es. if py_strip v = '''' then set_error f required_message es else es)
      [(''business_name'', vp_business_name p), (''category'', vp_category p), (''description'', vp_description p),
       (''service_area'', vp_service_area p), (''contact_email'', vp_contact_email p),
       (''contact_phone'', vp_contact_phone p)] [] = []"
    using v(1-3) validate_email_nonblank [OF v(4)] required_phone_nonblank [OF v(5)] v(7) cat
    by (intro fold_no_error) (auto simp: required_text_Inr)
  have "vp_custom_category (profile_normal p) = c" by (simp add: profile_normal_def v(6))
  with n have c: "c = vp_custom_category p" by simp
  from x have cust: "vp_category p = ''other'' \<longrightarrow> given (vp_custom_category p)"
    by (auto simp: profile_cross_checks_def)
  have custom: "py_strip (case vp_custom_category p of None \<Rightarrow> '''' | Some c \<Rightarrow> c) \<noteq> ''''"
    if "vp_category p = ''other''"
    using optional_text_nonblank [of _ "vp_custom_category p"] v(6) c cust that by (auto simp: given_def)
  have "vp_description (profile_normal p) = d" unfolding profile_normal_def by (simp add: v(2) del: One_nat_def)
  with n v(2) have "py_strip (vp_description p) = vp_description p" by (simp add: required_text_Inr)
  moreover from x have "vp_description p = '''' \<or> min_description_length \<le> length (vp_description p)"
    by (auto simp: profile_cross_checks_def not_less)
  ultimately show "profile_completion_errors p = []"
    using custom unfolding profile_completion_errors_def Let_def blank by auto
qed

text \<open>The setup checks are vacuous: a valid profile always has all it needs, so the completeness
  check of \<open>submit_for_review\<close> never fails and no draft is incomplete.\<close>

theorem profile_always_complete:
  assumes "profile_valid p"
  shows "profile_completion_errors p = [] \<and> is_profile_complete p \<and> \<not> is_draft_incomplete p"
  using valid_complete [OF assms] by (simp add: is_profile_complete_def is_draft_incomplete_def)

section \<open>A concrete history\<close>

definition sample_draft :: profile where
  "sample_draft =
     \<lparr>vp_id = 3, vp_user_id = 9, vp_business_name = ''Inzozi Films'', vp_category = ''photography'',
      vp_description = ''Wedding and event photography in Kigali.'', vp_service_area = ''Kigali'',
      vp_contact_email = ''hello@inzozi.rw'', vp_contact_phone = ''+250788000000'', vp_custom_category = None,
      vp_website = None, vp_profile_image_url = None, vp_profile_image_id = None, vp_cover_image_url = None,
      vp_cover_image_id = None, vp_status = ''draft'', vp_submitted_at = None, vp_approved_at = None,
      vp_rejected_at = None, vp_rejection_reason = None, vp_version = 0, vp_created_at = Aware 10,
      vp_updated_at = Aware 11, vp_events = []\<rparr>"

lemma sample_profile_texts:
  "required_text (text_limit ''business_name'') 1 ''Inzozi Films'' = Inr ''Inzozi Films''"
  "required_text (text_limit ''description'') 1 ''Wedding and event photography in Kigali.'' =
     Inr ''Wedding and event photography in Kigali.''"
  "required_text (text_limit ''service_area'') 1 ''Kigali'' = Inr ''Kigali''"
  "validate_email ''hello@inzozi.rw'' = Inr ''hello@inzozi.rw''"
  "required_phone ''+250788000000'' = Inr ''+250788000000''"
  "optional_text f None = Inr None" "validate_safe_url g False None = Inr None"
  "validate_public_media_url g False None = Inr None"
  "choose_enum service_categories ''category'' ''photography'' = Inr ''photography''"
proof -
  show "required_text (text_limit ''business_name'') 1 ''Inzozi Films'' = Inr ''Inzozi Films''"
    "required_text (text_limit ''description'') 1 ''Wedding and event photography in Kigali.'' =
       Inr ''Wedding and event photography in Kigali.''"
    "required_text (text_limit ''service_area'') 1 ''Kigali'' = Inr ''Kigali''"
    "validate_email ''hello@inzozi.rw'' = Inr ''hello@inzozi.rw''"
    "required_phone ''+250788000000'' = Inr ''+250788000000''"
    "choose_enum service_categories ''category'' ''photography'' = Inr ''photography''" by code_simp+
qed (simp_all add: optional_text_def bounded_text_def validate_safe_url_def validate_public_media_url_def)

lemmas sample_profile_eval =
  profile_valid_def profile_validate_Inr profile_normal_def profile_field_checks_def profile_cross_checks_def
  profile_status_checks_def profile_time_checks_def profile_comparisons_def sample_draft_def sample_profile_texts
  vendor_statuses_def given_def public_id_url_fault_def required_datetime_def aware_utc_datetime_def validate_int_def
  incomparable_def earlier_def Let_def min_description_length_def choose_enum_def service_categories_def

lemma sample_profile_valid:
  "profile_valid sample_draft"
  "profile_valid (sample_draft\<lparr>vp_status := ''pending_review'', vp_submitted_at := Some (Aware 50),
     vp_updated_at := Aware 50\<rparr>)"
  "profile_valid (sample_draft\<lparr>vp_status := ''approved'', vp_submitted_at := Some (Aware 50),
     vp_approved_at := Some (Aware 60), vp_updated_at := Aware 60\<rparr>)"
  by (simp_all add: sample_profile_eval del: One_nat_def)


lemma profile_commit_valid:
  "profile_valid c \<Longrightarrow> profile_commit event p c =
     Inr (profile_stamp (vp_version c + 1) (vp_events p @ [event (vp_version c + 1)]) c)"
  by (simp add: profile_commit_def profile_valid_def profile_aggregate.commit_valid)

lemma sample_draft_created:
  "create_draft 3 10 11 9 ''Inzozi Films'' ''photography'' ''Wedding and event photography in Kigali.'' ''Kigali''
     ''hello@inzozi.rw'' ''+250788000000'' None None = Inr sample_draft"
  using sample_profile_valid(1) by (simp add: create_draft_def profile_valid_def sample_draft_def)

definition sample_pending :: profile where
  "sample_pending = profile_stamp 1 [VendorSubmittedForReview 3 9 (Aware 50) 1]
     (sample_draft\<lparr>vp_status := ''pending_review'', vp_submitted_at := Some (Aware 50), vp_updated_at := Aware 50\<rparr>)"

lemma sample_submit: "submit_for_review 50 sample_draft = Inr sample_pending"
proof -
  have "sample_draft\<lparr>vp_status := ''pending_review'', vp_submitted_at := Some (Aware 50), vp_approved_at := None,
      vp_rejected_at := None, vp_rejection_reason := None, vp_updated_at := Aware 50\<rparr> =
    sample_draft\<lparr>vp_status := ''pending_review'', vp_submitted_at := Some (Aware 50), vp_updated_at := Aware 50\<rparr>"
    by (simp add: sample_draft_def)
  then have "submit_for_review 50 sample_draft =
      profile_commit (VendorSubmittedForReview (vp_id sample_draft) (vp_user_id sample_draft) (Aware 50)) sample_draft
        (sample_draft\<lparr>vp_status := ''pending_review'', vp_submitted_at := Some (Aware 50), vp_updated_at := Aware 50\<rparr>)"
    using valid_complete [OF sample_profile_valid(1)]
    by (simp add: submit_for_review_def) (simp add: sample_draft_def)
  then show ?thesis
    unfolding profile_commit_valid [OF sample_profile_valid(2)] by (simp add: sample_pending_def sample_draft_def)
qed

lemma sample_approve_profile: "\<exists>q. approve_profile 60 sample_pending = Inr q \<and> vp_status q = ''approved''"
proof -
  let ?c = "sample_pending\<lparr>vp_status := ''approved'', vp_approved_at := Some (Aware 60), vp_rejected_at := None,
    vp_rejection_reason := None, vp_updated_at := Aware 60\<rparr>"
  have "?c = profile_stamp 1 [VendorSubmittedForReview 3 9 (Aware 50) 1]
      (sample_draft\<lparr>vp_status := ''approved'', vp_submitted_at := Some (Aware 50),
         vp_approved_at := Some (Aware 60), vp_updated_at := Aware 60\<rparr>)"
    by (simp add: sample_pending_def sample_draft_def profile_stamp_def)
  then have "profile_valid ?c" using profile_valid_stamp [OF sample_profile_valid(3)] by simp
  from profile_commit_valid [OF this] show ?thesis
    by (simp add: approve_profile_def) (simp add: sample_pending_def profile_stamp_def)
qed

lemma approved_vendor_was_reviewed_witness:
  "\<exists>q. q = run_ops (attempt profile_call) [PfSubmit 50, PfApprove 60] sample_draft \<and> vp_status q = ''approved'' \<and>
     (\<exists>xs s ys a zs. [PfSubmit 50, PfApprove 60] = xs @ PfSubmit s # ys @ PfApprove a # zs \<and>
        vp_submitted_at q = Some (Aware s) \<and> vp_approved_at q = Some (Aware a) \<and> s \<le> a)"
proof -
  obtain q where q: "approve_profile 60 sample_pending = Inr q" "vp_status q = ''approved''"
    using sample_approve_profile by blast
  then have r: "q = run_ops (attempt profile_call) [PfSubmit 50, PfApprove 60] sample_draft"
    by (simp add: attempt_def sample_submit)
  from approved_vendor_was_reviewed [OF sample_draft_created r] q(2) r show ?thesis by blast
qed

lemma approval_is_for_good_witness:
  "vp_approved_at (run_ops (attempt profile_call) [PfSuspend 90 None, PfSubmit 95, PfReinstate 99]
     (sample_draft\<lparr>vp_status := ''approved'', vp_approved_at := Some (Aware 60)\<rparr>)) = Some (Aware 60)"
  by (subst approval_is_for_good [THEN conjunct2, THEN conjunct2]) simp_all

lemma profile_always_complete_witness: "\<not> is_draft_incomplete sample_draft"
  using profile_always_complete [OF sample_profile_valid(1)] by blast

end
