(* ===== verification/Vendor_Inquiry.thy ===== *)
theory Vendor_Inquiry
  imports Vendor_Profile
begin

text \<open>
  Inquiries to a vendor (\<open>domain/vendors/inquiries\<close>): the aggregate, whose only mutator marks it read,
  and the policy that only an approved vendor receives inquiries.
\<close>

datatype inquiry_event = InquiryReceived uuid uuid datetime int | InquiryRead uuid uuid datetime int

record inquiry =
  iq_id :: uuid
  iq_vendor_id :: uuid
  iq_client_name :: string
  iq_client_email :: string
  iq_message :: string
  iq_client_phone :: "string option"
  iq_event_date :: "int option"
  iq_is_read :: bool
  iq_version :: int
  iq_created_at :: datetime
  iq_requester :: "uuid option"
  iq_events :: "inquiry_event list"

definition inquiry_invalid :: "field_errors \<Rightarrow> vendor_exn" where
  "inquiry_invalid es = invalid ''inquiry_invalid'' es"

definition min_message_length :: nat where "min_message_length = 3"

definition inquiry_normal :: "inquiry \<Rightarrow> inquiry" where
  "inquiry_normal i =
     i\<lparr>iq_client_name := res_or (iq_client_name i) (required_text (text_limit ''client_name'') 1 (iq_client_name i)),
       iq_client_email := res_or (iq_client_email i) (validate_email (iq_client_email i)),
       iq_client_phone := res_or (iq_client_phone i) (normalize_phone False (iq_client_phone i)),
       iq_message := res_or (iq_message i)
         (required_text (text_limit ''message'') min_message_length (iq_message i))\<rparr>"

definition inquiry_checks :: "inquiry \<Rightarrow> (string \<times> string option) list" where
  "inquiry_checks i =
     [(''requester_user_id'', fault_if (iq_requester i = Some 0) ''Enter a valid UUID.''),
      (''client_name'', fault (required_text (text_limit ''client_name'') 1 (iq_client_name i))),
      (''client_email'', fault (validate_email (iq_client_email i))),
      (''client_phone'', fault (normalize_phone False (iq_client_phone i))),
      (''message'', fault (required_text (text_limit ''message'') min_message_length (iq_message i))),
      (''version'', fault (validate_int (Some 0) None (iq_version i))),
      (''created_at'', fault (required_datetime (iq_created_at i)))]"

definition inquiry_validate :: "inquiry \<Rightarrow> (vendor_exn, inquiry) res" where
  "inquiry_validate i =
     (let es = gather (inquiry_checks i) in
      if es \<noteq> [] then Inl (inquiry_invalid es) else Inr (inquiry_normal i))"

text \<open>\<open>Inquiry.create\<close>; \<open>today\<close> is the date of the clock.\<close>

definition create_inquiry ::
  "uuid \<Rightarrow> int \<Rightarrow> instant \<Rightarrow> uuid \<Rightarrow> string \<Rightarrow> string \<Rightarrow> string \<Rightarrow> uuid option \<Rightarrow> string option \<Rightarrow> int option \<Rightarrow>
     (vendor_exn, inquiry) res" where
  "create_inquiry new_id today now vendor_id client_name client_email message requester client_phone event_date =
     (case validate_new_event_date_bounds event_date today of
        Inl m \<Rightarrow> Inl (inquiry_invalid [(''event_date'', [m])])
      | Inr checked \<Rightarrow> res_bind (inquiry_validate
          \<lparr>iq_id = new_id, iq_vendor_id = vendor_id, iq_client_name = client_name, iq_client_email = client_email,
           iq_message = message, iq_client_phone = client_phone, iq_event_date = checked, iq_is_read = False,
           iq_version = 0, iq_created_at = Aware now, iq_requester = requester, iq_events = []\<rparr>) (\<lambda>i.
        Inr (i\<lparr>iq_events := [InquiryReceived (iq_id i) (iq_vendor_id i) (iq_created_at i) (iq_version i)]\<rparr>)))"

definition inquiry_stamp :: "int \<Rightarrow> inquiry_event list \<Rightarrow> inquiry \<Rightarrow> inquiry" where
  "inquiry_stamp k es i = i\<lparr>iq_version := k, iq_events := es\<rparr>"

definition mark_inquiry_read :: "instant \<Rightarrow> inquiry \<Rightarrow> (vendor_exn, inquiry) res" where
  "mark_inquiry_read now i =
     (if iq_is_read i then Inr i
      else res_bind (inquiry_validate (i\<lparr>iq_is_read := True\<rparr>))
        (commit_candidate inquiry_validate iq_version iq_events inquiry_stamp
           (Some (InquiryRead (iq_id i) (iq_vendor_id i) (Aware now))) i))"

section \<open>Policy\<close>

definition vendor_inquiry_unavailable :: "string \<Rightarrow> vendor_exn" where
  "vendor_inquiry_unavailable m = VendorError ''vendor_inquiry_unavailable'' m []"

definition ensure_vendor_can_receive_inquiry :: "profile option \<Rightarrow> (vendor_exn, unit) res" where
  "ensure_vendor_can_receive_inquiry p =
     (case p of
        None \<Rightarrow> Inl (vendor_inquiry_unavailable ''Vendor not found'')
      | Some v \<Rightarrow> if vp_status v \<noteq> ''approved''
          then Inl (vendor_inquiry_unavailable ''Vendor is not available for inquiries'') else Inr ())"

definition response_status :: "inquiry \<Rightarrow> string" where
  "response_status i = (if \<not> iq_is_read i then ''unread'' else ''read_unanswered'')"

section \<open>Valid inquiries\<close>

lemma inquiry_validate_Inr:
  "inquiry_validate i = Inr j \<longleftrightarrow> j = inquiry_normal i \<and> (\<forall>(f, m) \<in> set (inquiry_checks i). m = None)"
  by (auto simp: inquiry_validate_def Let_def)

lemma inquiry_validate_idem:
  assumes "inquiry_validate i = Inr j"
  shows "inquiry_validate j = Inr j"
proof -
  from assms have j: "j = inquiry_normal i" and c: "\<forall>(f, m) \<in> set (inquiry_checks i). m = None"
    by (simp_all add: inquiry_validate_Inr)
  from c obtain n e p m where v: "required_text (text_limit ''client_name'') 1 (iq_client_name i) = Inr n"
    "validate_email (iq_client_email i) = Inr e" "normalize_phone False (iq_client_phone i) = Inr p"
    "required_text (text_limit ''message'') min_message_length (iq_message i) = Inr m"
    by (auto simp: inquiry_checks_def)
  note w = v required_text_idem [OF v(1)] validate_email_idem [OF v(2)] normalize_phone_idem [OF v(3)]
    required_text_idem [OF v(4)]
  show ?thesis
    using c w by (auto simp: inquiry_validate_Inr j inquiry_checks_def inquiry_normal_def)
qed

lemma inquiry_stamp_valid:
  assumes "inquiry_validate i = Inr i" "0 \<le> k"
  shows "inquiry_validate (inquiry_stamp k es i) = Inr (inquiry_stamp k es i)"
proof -
  from assms(1) have "inquiry_normal i = i" by (simp add: inquiry_validate_Inr)
  moreover have "inquiry_normal (inquiry_stamp k es i) = inquiry_stamp k es (inquiry_normal i)"
    by (simp add: inquiry_normal_def inquiry_stamp_def)
  ultimately show ?thesis
    using assms by (simp add: inquiry_validate_Inr inquiry_checks_def inquiry_stamp_def validate_int_def)
qed

interpretation inquiry_aggregate: validated_aggregate inquiry_validate iq_version iq_events inquiry_stamp
proof
  fix p q k es
  show "inquiry_validate q = Inr q" if "inquiry_validate p = Inr q" by (rule inquiry_validate_idem [OF that])
  show "iq_version q = iq_version p \<and> 0 \<le> iq_version q" if "inquiry_validate p = Inr q"
    using that by (auto simp: inquiry_validate_Inr inquiry_checks_def validate_int_def inquiry_normal_def
        split: if_splits)
  show "inquiry_validate (inquiry_stamp k es p) = Inr (inquiry_stamp k es p)"
    if "inquiry_validate p = Inr p" "0 \<le> k" by (rule inquiry_stamp_valid [OF that])
qed (simp_all add: inquiry_stamp_def)

fun inquiry_event_version :: "inquiry_event \<Rightarrow> int" where
  "inquiry_event_version (InquiryReceived _ _ _ v) = v"
| "inquiry_event_version (InquiryRead _ _ _ v) = v"

interpretation inquiries: validated_calls inquiry_validate iq_version iq_events inquiry_stamp mark_inquiry_read
  inquiry_event_version
proof
  fix now i j assume "mark_inquiry_read now i = Inr j" "j \<noteq> i"
  then obtain c where c: "inquiry_validate (i\<lparr>iq_is_read := True\<rparr>) = Inr c"
    "commit_candidate inquiry_validate iq_version iq_events inquiry_stamp
       (Some (InquiryRead (iq_id i) (iq_vendor_id i) (Aware now))) i c = Inr j"
    by (auto simp: mark_inquiry_read_def res_bind_Inr split: if_splits)
  then show "committed inquiry_validate iq_version iq_events inquiry_stamp inquiry_event_version i j"
    by (rule committedI) auto
qed

section \<open>What the theorems say\<close>

lemma created_inquiry:
  assumes "create_inquiry new_id today now vendor name email message req phone date = Inr i"
  shows "inquiry_validate i = Inr i" "\<not> iq_is_read i" "iq_version i = 0"
    "iq_events i = [InquiryReceived (iq_id i) (iq_vendor_id i) (iq_created_at i) 0]"
proof -
  from assms obtain j date' where j: "inquiry_validate
      \<lparr>iq_id = new_id, iq_vendor_id = vendor, iq_client_name = name, iq_client_email = email,
       iq_message = message, iq_client_phone = phone, iq_event_date = date', iq_is_read = False,
       iq_version = 0, iq_created_at = Aware now, iq_requester = req, iq_events = []\<rparr> = Inr j"
    and i: "i = j\<lparr>iq_events := [InquiryReceived (iq_id j) (iq_vendor_id j) (iq_created_at j) (iq_version j)]\<rparr>"
    by (auto simp: create_inquiry_def res_bind_Inr split: sum.splits)
  from j have f: "\<not> iq_is_read j" "iq_version j = 0"
    by (simp_all add: inquiry_validate_Inr inquiry_normal_def)
  have "i = inquiry_stamp 0 [InquiryReceived (iq_id j) (iq_vendor_id j) (iq_created_at j) 0] j"
    using f by (simp add: i inquiry_stamp_def)
  with inquiry_stamp_valid [OF inquiry_validate_idem [OF j]] show "inquiry_validate i = Inr i" by simp
  from i f show "\<not> iq_is_read i" "iq_version i = 0"
    "iq_events i = [InquiryReceived (iq_id i) (iq_vendor_id i) (iq_created_at i) 0]" by simp_all
qed

lemma mark_read_valid:
  assumes "inquiry_validate i = Inr i" "\<not> iq_is_read i"
  shows "mark_inquiry_read now i = Inr (i\<lparr>iq_is_read := True, iq_version := iq_version i + 1,
    iq_events := iq_events i @ [InquiryRead (iq_id i) (iq_vendor_id i) (Aware now) (iq_version i + 1)]\<rparr>)"
proof -
  have "inquiry_normal (i\<lparr>iq_is_read := True\<rparr>) = (inquiry_normal i)\<lparr>iq_is_read := True\<rparr>"
    by (simp add: inquiry_normal_def)
  moreover from assms have "inquiry_normal i = i" by (simp add: inquiry_validate_Inr)
  ultimately have "inquiry_validate (i\<lparr>iq_is_read := True\<rparr>) = Inr (i\<lparr>iq_is_read := True\<rparr>)"
    using assms by (simp add: inquiry_validate_Inr inquiry_checks_def)
  then show ?thesis
    using assms(2) by (simp add: mark_inquiry_read_def inquiry_aggregate.commit_valid inquiry_stamp_def)
qed

text \<open>An inquiry is read once: whatever the number of later calls, the first \<open>mark_read\<close> of a new
  inquiry decides; it succeeds, the stored version is 1 and the events are the receipt and one reading
  at the time of the first call. No history ever reports an inquiry as answered.\<close>

theorem inquiry_read_once:
  assumes "create_inquiry new_id today now vendor name email message req phone date = Inr i"
    and "j = run_ops (attempt mark_inquiry_read) (t # ts) i"
  shows "iq_is_read j \<and> iq_version j = 1 \<and> response_status j = ''read_unanswered'' \<and>
    iq_events j = [InquiryReceived (iq_id i) vendor (iq_created_at i) 0, InquiryRead (iq_id i) vendor (Aware t) 1]"
proof -
  note i = created_inquiry [OF assms(1)]
  have v: "iq_vendor_id i = vendor"
    using assms(1) by (auto simp: create_inquiry_def res_bind_Inr inquiry_validate_Inr inquiry_normal_def split: sum.splits)
  obtain k where k: "attempt mark_inquiry_read t i = k" "iq_is_read k" "iq_version k = 1"
    "iq_events k = [InquiryReceived (iq_id i) vendor (iq_created_at i) 0, InquiryRead (iq_id i) vendor (Aware t) 1]"
    using mark_read_valid [OF i(1,2), of t] i(3,4) v by (simp add: attempt_def)
  have "run_ops (attempt mark_inquiry_read) ts k = k" using k(2)
    by (induction ts) (simp_all add: attempt_def mark_inquiry_read_def)
  with assms(2) k show ?thesis by (simp add: response_status_def)
qed

lemma sample_inquiry_texts:
  "required_text (text_limit ''client_name'') 1 ''Aline'' = Inr ''Aline''"
  "required_text (text_limit ''message'') min_message_length ''Are you free?'' = Inr ''Are you free?''"
  "validate_email ''aline@mail.rw'' = Inr ''aline@mail.rw''" "normalize_phone False None = Inr None"
  "validate_new_event_date_bounds (Some 20100) 20000 = Inr (Some 20100)"
  by code_simp+

lemma inquiry_read_once_witness:
  "\<exists>i. create_inquiry 5 20000 10 3 ''Aline'' ''aline@mail.rw'' ''Are you free?'' None None (Some 20100) = Inr i \<and>
     iq_version (run_ops (attempt mark_inquiry_read) [20, 30, 40] i) = 1"
proof -
  obtain i where i: "create_inquiry 5 20000 10 3 ''Aline'' ''aline@mail.rw'' ''Are you free?'' None None
      (Some 20100) = Inr i"
    by (simp add: create_inquiry_def inquiry_validate_def inquiry_checks_def sample_inquiry_texts
        required_datetime_def validate_int_def fault_def gather_def Let_def del: One_nat_def)
       (simp add: fault_if_def)
  with inquiry_read_once [OF i refl] show ?thesis by blast
qed

end
