(* ===== verification/Vendor_Portfolio.thy ===== *)
theory Vendor_Portfolio
  imports Vendor_Shared
begin

text \<open>
  Portfolio media (\<open>domain/vendors/portfolio\<close>): the aggregate with its invariants, the upload pipeline,
  quality review, and the review that makes media public. As for the other vendor aggregates a mutator
  builds a candidate with \<open>replace\<close>, which validates it, and commits it; one that raises leaves the
  media as it was. \<open>now\<close> is the reading of the clock.
\<close>

section \<open>The aggregate\<close>

text \<open>The fields of the events in the order image, vendor, data of the event, time, version.\<close>

datatype media_event =
    PortfolioMediaQueued uuid uuid datetime int
  | PortfolioMediaProcessingStarted uuid uuid datetime int
  | PortfolioMediaUploaded uuid uuid datetime int
  | PortfolioMediaFailed uuid uuid string datetime int
  | PortfolioMediaSubmittedForApproval uuid uuid datetime int
  | PortfolioMediaApproved uuid uuid datetime int
  | PortfolioMediaRejected uuid uuid string datetime int
  | PortfolioMediaDeactivated uuid uuid datetime int
  | PortfolioMediaReordered uuid uuid int datetime int
  | PortfolioCaptionUpdated uuid uuid datetime int

record media =
  pm_id :: uuid
  pm_vendor_id :: uuid
  pm_public_id :: string
  pm_secure_url :: string
  pm_caption :: "string option"
  pm_order :: int
  pm_media_type :: string
  pm_upload :: string
  pm_quality :: string
  pm_visibility :: string
  pm_upload_error :: "string option"
  pm_failure_reason :: "string option"
  pm_rejection_reason :: "string option"
  pm_filename :: "string option"
  pm_mime_type :: string
  pm_file_size :: int
  pm_preview_url :: "string option"
  pm_cloud_id :: "string option"
  pm_cloud_url :: "string option"
  pm_width :: "int option"
  pm_height :: "int option"
  pm_duration :: "int option"
  pm_score :: "int option"
  pm_summary :: "string option"
  pm_is_active :: bool
  pm_is_deleted :: bool
  pm_deleted_at :: "datetime option"
  pm_version :: int
  pm_created_at :: datetime
  pm_updated_at :: datetime
  pm_events :: "media_event list"

definition media_types :: "string list" where "media_types = [''image'', ''video'']"

definition upload_statuses :: "string list" where
  "upload_statuses = [''staged'', ''queued'', ''processing'', ''uploaded'', ''processing_deferred'', ''failed'']"

definition quality_statuses :: "string list" where
  "quality_statuses = [''pending_analysis'', ''passed'', ''failed'', ''needs_manual_review'']"

definition visibility_statuses :: "string list" where
  "visibility_statuses = [''private'', ''waiting_approval'', ''approved'', ''rejected'']"

definition portfolio_mime_types :: "string list" where
  "portfolio_mime_types = [''image/jpeg'', ''image/png'', ''image/webp'', ''video/mp4'', ''video/webm'', ''video/quicktime'']"

definition media_invalid :: "field_errors \<Rightarrow> vendor_exn" where
  "media_invalid es = invalid ''portfolio_media_invalid'' es"

definition bad_media_transition :: "string \<Rightarrow> vendor_exn" where
  "bad_media_transition m = VendorError ''portfolio_media_transition_invalid'' m []"

text \<open>\<open>MediaAsset\<close>: both parts are required.\<close>

definition media_asset :: "string \<Rightarrow> string \<Rightarrow> (vendor_exn, string \<times> string) res" where
  "media_asset public_id secure_url =
     (let i = required_text (text_limit ''public_id'') 1 public_id;
          u = validate_public_media_url ''secure_url'' True (Some secure_url);
          es = gather [(''public_id'', fault i), (''secure_url'', fault u)]
      in if es \<noteq> [] then Inl (media_invalid es)
         else Inr (res_or public_id i, case res_or None u of None \<Rightarrow> '''' | Some x \<Rightarrow> x))"

text \<open>\<open>x or ""\<close> of a normalised optional text.\<close>

definition or_blank :: "string \<Rightarrow> (string, string option) res \<Rightarrow> string" where
  "or_blank old r = (case res_or (Some old) r of None \<Rightarrow> '''' | Some x \<Rightarrow> x)"

definition limited_text :: "nat \<Rightarrow> string option \<Rightarrow> (string, string option) res" where
  "limited_text n v = bounded_text n 1 False v"

definition media_normal :: "media \<Rightarrow> media" where
  "media_normal m =
     m\<lparr>pm_public_id := or_blank (pm_public_id m) (limited_text (text_limit ''public_id'') (Some (pm_public_id m))),
       pm_secure_url := or_blank (pm_secure_url m)
         (validate_public_media_url ''secure_url'' False (Some (pm_secure_url m))),
       pm_caption := res_or (pm_caption m) (limited_text (text_limit ''caption'') (pm_caption m)),
       pm_cloud_id := res_or (pm_cloud_id m) (limited_text (text_limit ''public_id'') (pm_cloud_id m)),
       pm_cloud_url := res_or (pm_cloud_url m)
         (validate_public_media_url ''cloudinary_secure_url'' False (pm_cloud_url m)),
       pm_rejection_reason := res_or (pm_rejection_reason m)
         (limited_text (text_limit ''rejection_reason'') (pm_rejection_reason m)),
       pm_upload_error := res_or (pm_upload_error m) (limited_text 1000 (pm_upload_error m)),
       pm_failure_reason := res_or (pm_failure_reason m) (limited_text 1000 (pm_failure_reason m)),
       pm_filename := res_or (pm_filename m) (limited_text 255 (pm_filename m)),
       pm_mime_type := or_blank (pm_mime_type m) (limited_text 100 (Some (pm_mime_type m))),
       pm_preview_url := res_or (pm_preview_url m) (validate_safe_url ''local_preview_url'' False (pm_preview_url m)),
       pm_summary := res_or (pm_summary m) (limited_text 2000 (pm_summary m))\<rparr>"

definition media_field_checks :: "media \<Rightarrow> (string \<times> string option) list" where
  "media_field_checks m =
     [(''public_id'', fault (limited_text (text_limit ''public_id'') (Some (pm_public_id m)))),
      (''secure_url'', fault (validate_public_media_url ''secure_url'' False (Some (pm_secure_url m)))),
      (''caption'', fault (limited_text (text_limit ''caption'') (pm_caption m))),
      (''media_type'', fault (choose_enum media_types ''media_type'' (pm_media_type m))),
      (''upload_status'', fault (choose_enum upload_statuses ''upload_status'' (pm_upload m))),
      (''quality_status'', fault (choose_enum quality_statuses ''quality_status'' (pm_quality m))),
      (''visibility_status'', fault (choose_enum visibility_statuses ''visibility_status'' (pm_visibility m))),
      (''cloudinary_public_id'', fault (limited_text (text_limit ''public_id'') (pm_cloud_id m))),
      (''cloudinary_secure_url'', fault (validate_public_media_url ''cloudinary_secure_url'' False (pm_cloud_url m))),
      (''rejection_reason'', fault (limited_text (text_limit ''rejection_reason'') (pm_rejection_reason m))),
      (''upload_error'', fault (limited_text 1000 (pm_upload_error m))),
      (''failure_reason'', fault (limited_text 1000 (pm_failure_reason m))),
      (''created_at'', fault (required_datetime (pm_created_at m))),
      (''updated_at'', fault (required_datetime (pm_updated_at m))),
      (''deleted_at'', fault (aware_utc_datetime (pm_deleted_at m))),
      (''version'', fault (validate_int (Some 0) None (pm_version m))),
      (''file_size'', fault (validate_int (Some 0) None (pm_file_size m))),
      (''width'', fault (validate_optional_int (Some 1) (Some max_portfolio_dimension) (pm_width m))),
      (''height'', fault (validate_optional_int (Some 1) (Some max_portfolio_dimension) (pm_height m))),
      (''duration_seconds'', fault (validate_optional_int (Some 0) (Some max_video_duration_seconds) (pm_duration m))),
      (''analyzer_score'', fault (validate_optional_int (Some 0) (Some 100) (pm_score m))),
      (''original_filename'', fault (limited_text 255 (pm_filename m))),
      (''mime_type'', fault (limited_text 100 (Some (pm_mime_type m)))),
      (''local_preview_url'', fault (validate_safe_url ''local_preview_url'' False (pm_preview_url m))),
      (''analyzer_summary'', fault (limited_text 2000 (pm_summary m))),
      (''order'', fault (validate_int (Some 0) (Some max_portfolio_order) (pm_order m)))]"

definition or_none :: "string \<Rightarrow> string option" where
  "or_none s = (if s = '''' then None else Some s)"

definition media_cross_checks :: "media \<Rightarrow> (string \<times> string option) list" where
  "media_cross_checks q =
     [(''file_size'', fault_if (pm_file_size q > max_portfolio_file_size)
         (''File size must be no more than '' @ show_int max_portfolio_file_size @ '' bytes.'')),
      (''mime_type'', fault_if (pm_mime_type q \<noteq> '''' \<and> pm_mime_type q \<notin> set portfolio_mime_types)
         ''Unsupported portfolio media MIME type.''),
      (''mime_type'', fault_if (pm_mime_type q \<noteq> '''' \<and> pm_media_type q = ''image'' \<and>
           \<not> py_startswith (pm_mime_type q) ''image/'') ''Image media must use an image MIME type.''),
      (''mime_type'', fault_if (pm_mime_type q \<noteq> '''' \<and> pm_media_type q = ''video'' \<and>
           \<not> py_startswith (pm_mime_type q) ''video/'') ''Video media must use a video MIME type.''),
      (''duration_seconds'', fault_if (pm_media_type q = ''image'' \<and> pm_duration q \<notin> {None, Some 0})
         ''Image media cannot have duration.''),
      public_id_url_fault ''secure_url'' ''public_id'' (or_none (pm_secure_url q)) (or_none (pm_public_id q)),
      (''cloudinary_public_id'', fault_if (pm_public_id q \<noteq> '''' \<and> given (pm_cloud_id q) \<and>
           Some (pm_public_id q) \<noteq> pm_cloud_id q) ''Legacy and Cloudinary public IDs must match.''),
      (''cloudinary_secure_url'', fault_if (pm_secure_url q \<noteq> '''' \<and> given (pm_cloud_url q) \<and>
           Some (pm_secure_url q) \<noteq> pm_cloud_url q) ''Legacy and Cloudinary secure URLs must match.''),
      public_id_url_fault ''cloudinary_secure_url'' ''cloudinary_public_id'' (pm_cloud_url q) (pm_cloud_id q),
      (''visibility_status'', fault_if (pm_visibility q = ''approved'' \<and>
           (\<not> pm_is_active q \<or> pm_is_deleted q \<or> pm_upload q \<noteq> ''uploaded'' \<or> pm_quality q \<noteq> ''passed'' \<or>
            \<not> (given (pm_cloud_url q) \<or> pm_secure_url q \<noteq> '''')))
         ''Approved media must be active, uploaded, passed, and public.''),
      (''visibility_status'', fault_if (pm_upload q = ''failed'' \<and> pm_visibility q \<noteq> ''private'')
         ''Failed uploads must remain private.''),
      (''is_active'', fault_if (pm_is_deleted q \<and> pm_is_active q) ''Deleted media must be inactive.''),
      (''visibility_status'', fault_if (pm_is_deleted q \<and> pm_visibility q = ''approved'') ''Deleted media cannot be public.''),
      (''deleted_at'', fault_if (pm_is_deleted q \<and> pm_deleted_at q = None) ''Deleted media require deleted_at.'')]"

definition media_validate :: "media \<Rightarrow> (vendor_exn, media) res" where
  "media_validate m =
     (let q = media_normal m; es = gather (media_field_checks m @ media_cross_checks q) in
      if es \<noteq> [] then Inl (media_invalid es) else Inr q)"

definition media_stamp :: "int \<Rightarrow> media_event list \<Rightarrow> media \<Rightarrow> media" where
  "media_stamp k es m = m\<lparr>pm_version := k, pm_events := es\<rparr>"

text \<open>\<open>replace\<close> and \<open>_assign\<close>; some mutators record no event.\<close>

definition media_commit :: "(int \<Rightarrow> media_event) option \<Rightarrow> media \<Rightarrow> media \<Rightarrow> (vendor_exn, media) res" where
  "media_commit event self candidate =
     res_bind (media_validate candidate)
       (commit_candidate media_validate pm_version pm_events media_stamp event self)"

definition ensure_mutable :: "media \<Rightarrow> (vendor_exn, unit) res" where
  "ensure_mutable m =
     (if pm_is_deleted m then Inl (bad_media_transition ''Deleted portfolio media cannot be changed.'') else Inr ())"

section \<open>Upload and quality\<close>

definition attach_cloudinary_asset :: "instant \<Rightarrow> string \<Rightarrow> string \<Rightarrow> media \<Rightarrow> (vendor_exn, media) res" where
  "attach_cloudinary_asset now public_id secure_url m =
     res_bind (ensure_mutable m) (\<lambda>_. res_bind (media_asset public_id secure_url) (\<lambda>(i, u).
       let busy = pm_upload m \<in> {''queued'', ''processing''} in
       media_commit None m
         (m\<lparr>pm_public_id := i, pm_secure_url := u, pm_cloud_id := Some i, pm_cloud_url := Some u,
            pm_quality := (if busy then pm_quality m else ''pending_analysis''),
            pm_visibility := (if busy then pm_visibility m else ''private''),
            pm_rejection_reason := None, pm_updated_at := Aware now\<rparr>)))"

definition mark_queued :: "instant \<Rightarrow> media \<Rightarrow> (vendor_exn, media) res" where
  "mark_queued now m =
     res_bind (ensure_mutable m) (\<lambda>_.
       if pm_upload m \<noteq> ''staged'' then Inl (bad_media_transition ''Only staged media can be queued.'')
       else media_commit (Some (PortfolioMediaQueued (pm_id m) (pm_vendor_id m) (Aware now))) m
         (m\<lparr>pm_upload := ''queued'', pm_quality := ''pending_analysis'', pm_visibility := ''private'',
            pm_upload_error := None, pm_failure_reason := None, pm_updated_at := Aware now\<rparr>))"

definition mark_processing :: "instant \<Rightarrow> media \<Rightarrow> (vendor_exn, media) res" where
  "mark_processing now m =
     res_bind (ensure_mutable m) (\<lambda>_.
       if pm_upload m \<notin> {''queued'', ''processing_deferred''}
       then Inl (bad_media_transition ''Only queued media can start processing.'')
       else media_commit (Some (PortfolioMediaProcessingStarted (pm_id m) (pm_vendor_id m) (Aware now))) m
         (m\<lparr>pm_upload := ''processing'', pm_visibility := ''private'', pm_updated_at := Aware now\<rparr>))"

definition mark_uploaded :: "instant \<Rightarrow> string option \<Rightarrow> string option \<Rightarrow> media \<Rightarrow> (vendor_exn, media) res" where
  "mark_uploaded now public_id secure_url m =
     res_bind (ensure_mutable m) (\<lambda>_.
       if pm_upload m \<noteq> ''processing''
       then Inl (bad_media_transition ''Only processing media can be marked uploaded.'')
       else case (public_id, secure_url) of
           (Some pid, Some url) \<Rightarrow> res_bind (media_asset pid url) (\<lambda>(i, u).
             media_commit (Some (PortfolioMediaUploaded (pm_id m) (pm_vendor_id m) (Aware now))) m
               (m\<lparr>pm_public_id := i, pm_secure_url := u, pm_cloud_id := Some i, pm_cloud_url := Some u,
                  pm_upload := ''uploaded'', pm_quality := ''pending_analysis'', pm_visibility := ''private'',
                  pm_upload_error := None, pm_failure_reason := None, pm_updated_at := Aware now\<rparr>))
         | _ \<Rightarrow> Inl (media_invalid [(''secure_url'', [''Uploaded media requires a valid asset.''])]))"

definition mark_quality_passed :: "instant \<Rightarrow> media \<Rightarrow> (vendor_exn, media) res" where
  "mark_quality_passed now m =
     res_bind (ensure_mutable m) (\<lambda>_.
       if pm_upload m \<noteq> ''uploaded'' then Inl (bad_media_transition ''Only uploaded media can pass quality review.'')
       else media_commit None m
         (m\<lparr>pm_quality := ''passed'', pm_visibility := ''private'', pm_upload_error := None,
            pm_failure_reason := None, pm_updated_at := Aware now\<rparr>))"

definition failure_text :: "string \<Rightarrow> (vendor_exn, string) res" where
  "failure_text reason = validated_transition_reason ''portfolio_media_invalid'' ''failure_reason'' reason"

definition mark_quality_failed :: "instant \<Rightarrow> string \<Rightarrow> media \<Rightarrow> (vendor_exn, media) res" where
  "mark_quality_failed now reason m =
     res_bind (ensure_mutable m) (\<lambda>_.
       if pm_upload m \<noteq> ''uploaded'' then Inl (bad_media_transition ''Only uploaded media can fail quality review.'')
       else res_bind (failure_text reason) (\<lambda>r. media_commit None m
         (m\<lparr>pm_quality := ''failed'', pm_visibility := ''private'', pm_upload_error := Some r,
            pm_failure_reason := Some r, pm_updated_at := Aware now\<rparr>)))"

definition mark_media_failed :: "instant \<Rightarrow> string \<Rightarrow> media \<Rightarrow> (vendor_exn, media) res" where
  "mark_media_failed now reason m =
     res_bind (ensure_mutable m) (\<lambda>_.
       if pm_upload m \<notin> {''processing'', ''processing_deferred''}
       then Inl (bad_media_transition ''Only processing media can fail.'')
       else res_bind (failure_text reason) (\<lambda>r.
         media_commit (Some (PortfolioMediaFailed (pm_id m) (pm_vendor_id m) r (Aware now))) m
           (m\<lparr>pm_upload := ''failed'', pm_quality := ''failed'', pm_visibility := ''private'',
              pm_upload_error := Some r, pm_failure_reason := Some r, pm_updated_at := Aware now\<rparr>)))"

section \<open>Review\<close>

definition submit_media :: "instant \<Rightarrow> media \<Rightarrow> (vendor_exn, media) res" where
  "submit_media now m =
     res_bind (ensure_mutable m) (\<lambda>_.
       if pm_upload m \<noteq> ''uploaded'' \<or> pm_quality m \<noteq> ''passed'' \<or> pm_visibility m \<noteq> ''private'' \<or>
          \<not> pm_is_active m \<or> pm_is_deleted m
       then Inl (bad_media_transition ''Only active uploaded media that passed quality review can be submitted.'')
       else media_commit (Some (PortfolioMediaSubmittedForApproval (pm_id m) (pm_vendor_id m) (Aware now))) m
         (m\<lparr>pm_visibility := ''waiting_approval'', pm_updated_at := Aware now\<rparr>))"

definition approve_media :: "instant \<Rightarrow> media \<Rightarrow> (vendor_exn, media) res" where
  "approve_media now m =
     res_bind (ensure_mutable m) (\<lambda>_.
       if pm_visibility m \<noteq> ''waiting_approval''
       then Inl (bad_media_transition ''Only waiting portfolio media can be approved.'')
       else media_commit (Some (PortfolioMediaApproved (pm_id m) (pm_vendor_id m) (Aware now))) m
         (m\<lparr>pm_visibility := ''approved'', pm_rejection_reason := None, pm_updated_at := Aware now\<rparr>))"

definition reject_media :: "instant \<Rightarrow> string \<Rightarrow> media \<Rightarrow> (vendor_exn, media) res" where
  "reject_media now reason m =
     res_bind (ensure_mutable m) (\<lambda>_.
       if pm_visibility m \<noteq> ''waiting_approval''
       then Inl (bad_media_transition ''Only waiting portfolio media can be rejected.'')
       else res_bind (validated_transition_reason ''portfolio_media_invalid'' ''rejection_reason'' reason) (\<lambda>r.
         media_commit (Some (PortfolioMediaRejected (pm_id m) (pm_vendor_id m) r (Aware now))) m
           (m\<lparr>pm_visibility := ''rejected'', pm_rejection_reason := Some r, pm_updated_at := Aware now\<rparr>)))"

text \<open>\<open>deactivate\<close> reads the clock twice.\<close>

definition deactivate_media :: "instant \<Rightarrow> instant \<Rightarrow> media \<Rightarrow> (vendor_exn, media) res" where
  "deactivate_media t1 t2 m =
     (if pm_is_deleted m \<and> \<not> pm_is_active m then Inr m
      else media_commit (Some (PortfolioMediaDeactivated (pm_id m) (pm_vendor_id m) (Aware t2))) m
        (m\<lparr>pm_is_active := False, pm_is_deleted := True, pm_visibility := ''private'',
           pm_deleted_at := Some (Aware t1), pm_updated_at := Aware t2\<rparr>))"

definition reorder_media :: "instant \<Rightarrow> int \<Rightarrow> media \<Rightarrow> (vendor_exn, media) res" where
  "reorder_media now new_order m =
     res_bind (ensure_mutable m) (\<lambda>_.
       media_commit (Some (PortfolioMediaReordered (pm_id m) (pm_vendor_id m) new_order (Aware now))) m
         (m\<lparr>pm_order := new_order, pm_updated_at := Aware now\<rparr>))"

definition update_caption :: "instant \<Rightarrow> string option \<Rightarrow> media \<Rightarrow> (vendor_exn, media) res" where
  "update_caption now caption m =
     res_bind (ensure_mutable m) (\<lambda>_.
       if caption = pm_caption m then Inr m
       else media_commit (Some (PortfolioCaptionUpdated (pm_id m) (pm_vendor_id m) (Aware now))) m
         (m\<lparr>pm_caption := caption,
            pm_visibility := (if pm_visibility m = ''approved'' then ''waiting_approval'' else pm_visibility m),
            pm_updated_at := Aware now\<rparr>))"

section \<open>Valid media\<close>

definition media_valid :: "media \<Rightarrow> bool" where
  "media_valid m = (media_validate m = Inr m)"

lemma media_validate_Inr:
  "media_validate m = Inr q \<longleftrightarrow> q = media_normal m \<and> (\<forall>(f, x) \<in> set (media_field_checks m). x = None) \<and>
     (\<forall>(f, x) \<in> set (media_cross_checks q). x = None)"
  by (auto simp: media_validate_def Let_def)

lemma limited_text_idem: "limited_text n v = Inr t \<Longrightarrow> limited_text n t = Inr t"
  unfolding limited_text_def by (rule bounded_text_idem)

lemma or_blank_text:
  assumes "limited_text n (Some v) = Inr t"
  shows "limited_text n (Some (or_blank v (limited_text n (Some v)))) = Inr t"
proof -
  have "t \<noteq> None" using assms by (auto simp: limited_text_def bounded_text_def Let_def split: if_splits)
  with limited_text_idem [OF assms] show ?thesis by (auto simp: or_blank_def assms res_or_def)
qed

lemma or_blank_url:
  assumes "validate_public_media_url f False (Some v) = Inr t"
  shows "validate_public_media_url f False (Some (or_blank v (validate_public_media_url f False (Some v)))) = Inr t"
proof -
  have "bounded_text (text_limit f) 1 False (Some v) = Inr t"
    using validate_public_media_url_Inr [OF assms] by (rule validate_safe_url_Inr)
  then have "t \<noteq> None" by (auto simp: bounded_text_def Let_def split: if_splits)
  with validate_public_media_url_idem [OF assms] show ?thesis by (auto simp: or_blank_def assms res_or_def)
qed

lemma res_or_Inr [simp]: "res_or v (Inr x) = x"
  by (simp add: res_or_def)

lemma or_blank_Inr [simp]: "or_blank v (Inr t) = (case t of None \<Rightarrow> '''' | Some x \<Rightarrow> x)"
  by (simp add: or_blank_def)

lemma media_checks_normal:
  assumes "\<forall>(f, x) \<in> set (media_field_checks m). x = None"
  shows "media_normal (media_normal m) = media_normal m"
    "\<forall>(f, x) \<in> set (media_field_checks (media_normal m)). x = None"
proof -
  from assms obtain pid url c ci cu rr ue fr fn mt pv sm where
    v: "limited_text (text_limit ''public_id'') (Some (pm_public_id m)) = Inr pid"
    "validate_public_media_url ''secure_url'' False (Some (pm_secure_url m)) = Inr url"
    "limited_text (text_limit ''caption'') (pm_caption m) = Inr c"
    "limited_text (text_limit ''public_id'') (pm_cloud_id m) = Inr ci"
    "validate_public_media_url ''cloudinary_secure_url'' False (pm_cloud_url m) = Inr cu"
    "limited_text (text_limit ''rejection_reason'') (pm_rejection_reason m) = Inr rr"
    "limited_text 1000 (pm_upload_error m) = Inr ue" "limited_text 1000 (pm_failure_reason m) = Inr fr"
    "limited_text 255 (pm_filename m) = Inr fn" "limited_text 100 (Some (pm_mime_type m)) = Inr mt"
    "validate_safe_url ''local_preview_url'' False (pm_preview_url m) = Inr pv"
    "limited_text 2000 (pm_summary m) = Inr sm"
    by (auto simp: media_field_checks_def)
  note b = or_blank_text [OF v(1)] or_blank_url [OF v(2)] or_blank_text [OF v(10)]
  note i = b [unfolded v(1,2,10) or_blank_Inr]
    limited_text_idem [OF v(3)] limited_text_idem [OF v(4)] validate_public_media_url_idem [OF v(5)]
    limited_text_idem [OF v(6)] limited_text_idem [OF v(7)] limited_text_idem [OF v(8)]
    limited_text_idem [OF v(9)] validate_safe_url_idem [OF v(11)] limited_text_idem [OF v(12)]
  show "media_normal (media_normal m) = media_normal m"
    using v i by (simp add: media_normal_def)
  show "\<forall>(f, x) \<in> set (media_field_checks (media_normal m)). x = None"
    using assms v i by (auto simp: media_field_checks_def media_normal_def)
qed

lemma media_validate_valid: "media_validate m = Inr q \<Longrightarrow> media_valid q"
  using media_checks_normal [of m] by (auto simp: media_valid_def media_validate_Inr)

lemma media_normal_sel [simp]:
  "pm_id (media_normal m) = pm_id m" "pm_upload (media_normal m) = pm_upload m"
  "pm_quality (media_normal m) = pm_quality m" "pm_visibility (media_normal m) = pm_visibility m"
  "pm_is_active (media_normal m) = pm_is_active m" "pm_is_deleted (media_normal m) = pm_is_deleted m"
  "pm_version (media_normal m) = pm_version m" "pm_events (media_normal m) = pm_events m"
  by (simp_all add: media_normal_def)

lemma media_valid_stamp:
  assumes v: "media_valid m" and "0 \<le> k"
  shows "media_valid (media_stamp k es m)"
proof -
  let ?q = "media_stamp k es m"
  from v have m: "media_normal m = m" by (simp add: media_valid_def media_validate_Inr)
  have "media_normal ?q = media_stamp k es (media_normal m)" by (simp add: media_normal_def media_stamp_def)
  then have "media_normal ?q = ?q" using m by simp
  moreover have "media_cross_checks ?q = media_cross_checks m" by (simp add: media_cross_checks_def media_stamp_def)
  moreover have "\<forall>(f, x) \<in> set (media_field_checks ?q). x = None"
    using v assms(2)
    by (simp add: media_valid_def media_validate_Inr media_field_checks_def validate_int_def media_stamp_def)
  ultimately show "media_valid ?q" using v by (simp add: media_valid_def media_validate_Inr)
qed

lemma media_valid_version: "media_valid m \<Longrightarrow> 0 \<le> pm_version m"
  by (auto simp: media_valid_def media_validate_Inr media_field_checks_def validate_int_def split: if_splits)

interpretation media_aggregate: validated_aggregate media_validate pm_version pm_events media_stamp
proof
  fix p q k es
  show "media_validate q = Inr q" if "media_validate p = Inr q"
    using media_validate_valid [OF that] by (simp add: media_valid_def)
  show "pm_version q = pm_version p \<and> 0 \<le> pm_version q" if "media_validate p = Inr q"
    using media_valid_version [OF media_validate_valid [OF that]] that by (simp add: media_validate_Inr)
  show "media_validate (media_stamp k es p) = Inr (media_stamp k es p)"
    if "media_validate p = Inr p" "0 \<le> k"
    using media_valid_stamp [of p k es] that by (simp add: media_valid_def)
qed (simp_all add: media_stamp_def)


section \<open>Histories of portfolio media\<close>

datatype media_op =
    MAttach instant string string
  | MQueue instant
  | MProcess instant
  | MUploaded instant "string option" "string option"
  | MPassed instant
  | MQualityFailed instant string
  | MFailed instant string
  | MSubmit instant
  | MApprove instant
  | MReject instant string
  | MDeactivate instant instant
  | MReorder instant int
  | MCaption instant "string option"

fun media_call :: "media_op \<Rightarrow> media \<Rightarrow> (vendor_exn, media) res" where
  "media_call (MAttach now i u) m = attach_cloudinary_asset now i u m"
| "media_call (MQueue now) m = mark_queued now m"
| "media_call (MProcess now) m = mark_processing now m"
| "media_call (MUploaded now i u) m = mark_uploaded now i u m"
| "media_call (MPassed now) m = mark_quality_passed now m"
| "media_call (MQualityFailed now r) m = mark_quality_failed now r m"
| "media_call (MFailed now r) m = mark_media_failed now r m"
| "media_call (MSubmit now) m = submit_media now m"
| "media_call (MApprove now) m = approve_media now m"
| "media_call (MReject now r) m = reject_media now r m"
| "media_call (MDeactivate t1 t2) m = deactivate_media t1 t2 m"
| "media_call (MReorder now k) m = reorder_media now k m"
| "media_call (MCaption now c) m = update_caption now c m"

fun media_event_version :: "media_event \<Rightarrow> int" where
  "media_event_version (PortfolioMediaQueued _ _ _ v) = v"
| "media_event_version (PortfolioMediaProcessingStarted _ _ _ v) = v"
| "media_event_version (PortfolioMediaUploaded _ _ _ v) = v"
| "media_event_version (PortfolioMediaFailed _ _ _ _ v) = v"
| "media_event_version (PortfolioMediaSubmittedForApproval _ _ _ v) = v"
| "media_event_version (PortfolioMediaApproved _ _ _ v) = v"
| "media_event_version (PortfolioMediaRejected _ _ _ _ v) = v"
| "media_event_version (PortfolioMediaDeactivated _ _ _ v) = v"
| "media_event_version (PortfolioMediaReordered _ _ _ _ v) = v"
| "media_event_version (PortfolioCaptionUpdated _ _ _ v) = v"

lemmas media_mutator_defs =
  attach_cloudinary_asset_def mark_queued_def mark_processing_def mark_uploaded_def mark_quality_passed_def
  mark_quality_failed_def mark_media_failed_def submit_media_def approve_media_def reject_media_def
  deactivate_media_def reorder_media_def update_caption_def ensure_mutable_def Let_def

lemma media_committedI:
  assumes "media_commit event m candidate = Inr q" "pm_version candidate = pm_version m"
    "\<And>f v. event = Some f \<Longrightarrow> media_event_version (f v) = v"
  shows "committed media_validate pm_version pm_events media_stamp media_event_version m q"
proof -
  from assms(1) obtain c where "media_validate candidate = Inr c"
    "commit_candidate media_validate pm_version pm_events media_stamp event m c = Inr q"
    by (auto simp: media_commit_def res_bind_Inr)
  then show ?thesis by (rule committedI) (use assms(2,3) in auto)
qed

lemma media_call_commit:
  assumes "media_call op m = Inr q" and "q \<noteq> m"
  shows "committed media_validate pm_version pm_events media_stamp media_event_version m q"
  using assms
  by (cases op)
     (auto simp: media_mutator_defs res_bind_Inr split: if_splits option.splits prod.splits,
      (erule media_committedI, simp, force)+)

interpretation medias: validated_calls media_validate pm_version pm_events media_stamp media_call media_event_version
  by unfold_locales (rule media_call_commit)

lemma media_call_valid: "media_valid m \<Longrightarrow> media_call op m = Inr q \<Longrightarrow> media_valid q"
  using medias.call_step [of m op q] by (auto simp: media_valid_def)

lemma media_run_valid: "media_valid m \<Longrightarrow> media_valid (run_ops (attempt media_call) ops m)"
  unfolding media_valid_def by (rule medias.history [THEN conjunct1])

text \<open>What is shown of a media: everything but its place in the order.\<close>

definition media_view ::
  "media \<Rightarrow> string \<times> string \<times> string option \<times> string option \<times> string option \<times> string \<times> string" where
  "media_view m =
     (pm_public_id m, pm_secure_url m, pm_cloud_id m, pm_cloud_url m, pm_caption m, pm_media_type m, pm_mime_type m)"

lemma media_commit_ok:
  assumes "media_commit event self candidate = Inr q"
  shows "pm_upload q = pm_upload candidate" "pm_quality q = pm_quality candidate"
    "pm_visibility q = pm_visibility candidate" "pm_is_deleted q = pm_is_deleted candidate"
    "pm_is_active q = pm_is_active candidate" "media_view q = media_view (media_normal candidate)"
proof -
  from assms obtain c where c: "media_validate candidate = Inr c"
    "commit_candidate media_validate pm_version pm_events media_stamp event self c = Inr q"
    by (auto simp: media_commit_def res_bind_Inr)
  have "c = media_normal candidate" using c(1) by (simp add: media_validate_Inr)
  with media_aggregate.commit_ok(4) [OF c] obtain k es where "q = media_stamp k es (media_normal candidate)" by blast
  then show "pm_upload q = pm_upload candidate" "pm_quality q = pm_quality candidate"
    "pm_visibility q = pm_visibility candidate" "pm_is_deleted q = pm_is_deleted candidate"
    "pm_is_active q = pm_is_active candidate" "media_view q = media_view (media_normal candidate)"
    by (simp_all add: media_stamp_def media_view_def)
qed

lemma media_commit_view:
  assumes "media_valid m" "media_commit event m c = Inr q" "media_view c = media_view m"
  shows "media_view q = media_view m"
proof -
  have "media_view (media_normal c) = media_view (media_normal m)"
    using assms(3) by (simp add: media_view_def media_normal_def)
  moreover have "media_normal m = m" using assms(1) by (simp add: media_valid_def media_validate_Inr)
  ultimately show ?thesis using media_commit_ok(6) [OF assms(2)] by simp
qed

lemma media_view_update [simp]:
  "media_view (m\<lparr>pm_visibility := v\<rparr>) = media_view m" "media_view (m\<lparr>pm_updated_at := t\<rparr>) = media_view m"
  "media_view (m\<lparr>pm_rejection_reason := r\<rparr>) = media_view m" "media_view (m\<lparr>pm_order := k\<rparr>) = media_view m"
  by (simp_all add: media_view_def)

lemma valid_media_facts:
  assumes "media_valid m"
  shows "pm_visibility m = ''approved'' \<Longrightarrow> pm_is_active m \<and> \<not> pm_is_deleted m \<and> pm_upload m = ''uploaded'' \<and>
      pm_quality m = ''passed'' \<and> (given (pm_cloud_url m) \<or> pm_secure_url m \<noteq> '''')"
    "pm_upload m = ''failed'' \<Longrightarrow> pm_visibility m = ''private''"
    "pm_is_deleted m \<Longrightarrow> \<not> pm_is_active m"
  using assms by (auto simp: media_valid_def media_validate_Inr media_cross_checks_def)

definition media_approval :: "media_op \<Rightarrow> media \<Rightarrow> bool" where
  "media_approval op m = ((\<exists>now. op = MApprove now) \<and> pm_visibility m = ''waiting_approval'')"

lemma media_shown_step:
  assumes "media_valid m" "media_call op m = Inr q" "pm_visibility q = ''approved''"
  shows "media_view q = media_view m \<and> (pm_visibility m = ''approved'' \<or> media_approval op m)"
proof -
  have up: "pm_upload q = ''uploaded''"
    using valid_media_facts(1) [OF media_call_valid [OF assms(1,2)] assms(3)] by blast
  show ?thesis
    using assms(2,3) up
    by (cases op)
       (auto simp: media_mutator_defs media_approval_def res_bind_Inr dest: media_commit_ok(1,3)
          media_commit_view [OF assms(1)] split: if_splits option.splits prod.splits)
qed

interpretation reviewed_media: reviewed_content media_call media_valid "\<lambda>m. pm_visibility m = ''approved''"
  media_view media_approval
  by unfold_locales (use media_call_valid media_shown_step in blast)+

text \<open>C15. Public media was reviewed: if media that is not public becomes approved after any history of
  calls, then an approval in the history accepted it while it was waiting, with exactly the identifiers,
  URLs, caption and types it has now, and it is an active upload that passed quality review.\<close>

theorem approved_media_was_reviewed_as_is:
  assumes "media_valid m" and "pm_visibility m \<noteq> ''approved''"
    and "q = run_ops (attempt media_call) ops m" and "pm_visibility q = ''approved''"
  shows "(\<exists>xs now ys. ops = xs @ MApprove now # ys \<and>
      pm_visibility (run_ops (attempt media_call) xs m) = ''waiting_approval'' \<and>
      is_ok (approve_media now (run_ops (attempt media_call) xs m)) \<and>
      media_view q = media_view (run_ops (attempt media_call) xs m)) \<and>
    pm_is_active q \<and> \<not> pm_is_deleted q \<and> pm_upload q = ''uploaded'' \<and> pm_quality q = ''passed''"
proof -
  from reviewed_media.shown_was_approved [OF assms(1,2), of ops] assms(3,4) obtain xs op ys now where
    "ops = xs @ op # ys" "op = MApprove now"
    "pm_visibility (run_ops (attempt media_call) xs m) = ''waiting_approval''"
    "is_ok (media_call op (run_ops (attempt media_call) xs m))"
    "media_view q = media_view (run_ops (attempt media_call) xs m)"
    by (auto simp: media_approval_def)
  moreover have "media_valid q" using media_run_valid [OF assms(1)] assms(3) by simp
  ultimately show ?thesis
    using valid_media_facts(1) assms(4)
    by (intro conjI exI [of _ xs] exI [of _ now] exI [of _ ys]) simp_all
qed

lemma failed_upload_step:
  assumes "media_valid m" "pm_upload m = ''failed''" "media_call op m = Inr q"
  shows "pm_upload q = ''failed''"
  using assms(2,3)
  by (cases op)
     (auto simp: media_mutator_defs res_bind_Inr dest: media_commit_ok(1) split: if_splits option.splits prod.splits)

text \<open>A failed upload is final: no history of calls brings it back into the pipeline, and it stays
  private.\<close>

theorem failed_upload_is_final:
  assumes "media_valid m" and "pm_upload m = ''failed''"
  shows "pm_upload (run_ops (attempt media_call) ops m) = ''failed'' \<and>
    pm_visibility (run_ops (attempt media_call) ops m) = ''private''"
proof -
  have "pm_upload (run_ops (attempt media_call) ops m) = ''failed''" using assms
  proof (induction ops arbitrary: m)
    case (Cons op ops)
    have "media_valid (attempt media_call op m) \<and> pm_upload (attempt media_call op m) = ''failed''"
      using media_call_valid [OF Cons.prems(1)] failed_upload_step [OF Cons.prems] Cons.prems
      by (cases "media_call op m") (auto simp: attempt_def)
    with Cons.IH show ?case by simp
  qed simp
  with valid_media_facts(2) [OF media_run_valid [OF assms(1)]] show ?thesis by blast
qed


section \<open>Concrete media\<close>

definition sample_media :: media where
  "sample_media =
     \<lparr>pm_id = 8, pm_vendor_id = 3, pm_public_id = ''lp/8'', pm_secure_url = ''https://cdn.rw/8.jpg'',
      pm_caption = Some ''First dance'', pm_order = 0, pm_media_type = ''image'', pm_upload = ''uploaded'',
      pm_quality = ''passed'', pm_visibility = ''waiting_approval'', pm_upload_error = None,
      pm_failure_reason = None, pm_rejection_reason = None, pm_filename = None, pm_mime_type = ''image/jpeg'',
      pm_file_size = 120000, pm_preview_url = None, pm_cloud_id = Some ''lp/8'',
      pm_cloud_url = Some ''https://cdn.rw/8.jpg'', pm_width = None, pm_height = None, pm_duration = None,
      pm_score = None, pm_summary = None, pm_is_active = True, pm_is_deleted = False, pm_deleted_at = None,
      pm_version = 4, pm_created_at = Aware 10, pm_updated_at = Aware 40, pm_events = []\<rparr>"

lemma sample_media_texts:
  "limited_text (text_limit ''public_id'') (Some ''lp/8'') = Inr (Some ''lp/8'')"
  "limited_text (text_limit ''caption'') (Some ''First dance'') = Inr (Some ''First dance'')"
  "limited_text 100 (Some ''image/jpeg'') = Inr (Some ''image/jpeg'')"
  "validate_public_media_url ''secure_url'' False (Some ''https://cdn.rw/8.jpg'') = Inr (Some ''https://cdn.rw/8.jpg'')"
  "validate_public_media_url ''cloudinary_secure_url'' False (Some ''https://cdn.rw/8.jpg'') =
     Inr (Some ''https://cdn.rw/8.jpg'')"
  "limited_text n None = Inr None" "validate_safe_url g False None = Inr None"
  "(''image/jpeg'' \<in> set portfolio_mime_types) = True" "py_startswith ''image/jpeg'' ''image/'' = True"
proof -
  show "limited_text (text_limit ''public_id'') (Some ''lp/8'') = Inr (Some ''lp/8'')"
    "limited_text (text_limit ''caption'') (Some ''First dance'') = Inr (Some ''First dance'')"
    "limited_text 100 (Some ''image/jpeg'') = Inr (Some ''image/jpeg'')"
    "validate_public_media_url ''secure_url'' False (Some ''https://cdn.rw/8.jpg'') = Inr (Some ''https://cdn.rw/8.jpg'')"
    "validate_public_media_url ''cloudinary_secure_url'' False (Some ''https://cdn.rw/8.jpg'') =
       Inr (Some ''https://cdn.rw/8.jpg'')"
    "(''image/jpeg'' \<in> set portfolio_mime_types) = True" "py_startswith ''image/jpeg'' ''image/'' = True"
    by code_simp+
qed (simp_all add: limited_text_def bounded_text_def validate_safe_url_def)

lemmas sample_media_eval =
  media_valid_def media_validate_Inr media_normal_def media_field_checks_def media_cross_checks_def
  sample_media_def sample_media_texts choose_enum_def media_types_def upload_statuses_def quality_statuses_def
  visibility_statuses_def required_datetime_def aware_utc_datetime_def validate_int_def validate_optional_int_def
  given_def or_none_def public_id_url_fault_def max_portfolio_order_def max_portfolio_file_size_def

lemma sample_media_valid:
  "media_valid sample_media" "media_valid (sample_media\<lparr>pm_visibility := ''approved'', pm_updated_at := Aware 50\<rparr>)"
  "media_valid (sample_media\<lparr>pm_upload := ''failed'', pm_visibility := ''private''\<rparr>)"
  by (simp_all add: sample_media_eval del: One_nat_def)

lemma media_commit_valid:
  "media_valid c \<Longrightarrow> media_commit event m c =
     Inr (media_stamp (pm_version c + 1) (pm_events m @ (case event of None \<Rightarrow> [] | Some f \<Rightarrow> [f (pm_version c + 1)])) c)"
  by (simp add: media_commit_def media_valid_def media_aggregate.commit_valid)

lemma sample_media_approved: "\<exists>q. approve_media 50 sample_media = Inr q \<and> pm_visibility q = ''approved''"
proof -
  let ?c = "sample_media\<lparr>pm_visibility := ''approved'', pm_rejection_reason := None, pm_updated_at := Aware 50\<rparr>"
  have "?c = sample_media\<lparr>pm_visibility := ''approved'', pm_updated_at := Aware 50\<rparr>" by (simp add: sample_media_def)
  with sample_media_valid(2) have "media_valid ?c" by simp
  from media_commit_valid [OF this] show ?thesis
    by (simp add: approve_media_def ensure_mutable_def) (simp add: sample_media_def media_stamp_def)
qed

lemma approved_media_was_reviewed_as_is_witness:
  "\<exists>q. q = run_ops (attempt media_call) [MApprove 50] sample_media \<and> pm_visibility q = ''approved'' \<and>
     media_view q = media_view sample_media \<and> pm_quality q = ''passed''"
proof -
  obtain q where q: "approve_media 50 sample_media = Inr q" "pm_visibility q = ''approved''"
    using sample_media_approved by blast
  then have r: "q = run_ops (attempt media_call) [MApprove 50] sample_media" by (simp add: attempt_def)
  have "pm_visibility sample_media \<noteq> ''approved''" by (simp add: sample_media_def)
  from approved_media_was_reviewed_as_is [OF sample_media_valid(1) this r q(2)] obtain xs now ys where
    "[MApprove 50] = xs @ MApprove now # ys" "media_view q = media_view (run_ops (attempt media_call) xs sample_media)"
    "pm_quality q = ''passed''" by blast
  with q(2) r show ?thesis by (cases xs) auto
qed

lemma failed_upload_is_final_witness:
  "pm_visibility (run_ops (attempt media_call) [MQueue 60, MProcess 61, MApprove 62]
     (sample_media\<lparr>pm_upload := ''failed'', pm_visibility := ''private''\<rparr>)) = ''private''"
  by (rule failed_upload_is_final [OF sample_media_valid(3), THEN conjunct2]) simp

end
