(* ===== verification/Vendor_Results.thy ===== *)
theory Vendor_Results
  imports Vendor_Package Vendor_Inquiry Vendor_Portfolio
begin

text \<open>
  What the vendor commands return (\<open>application/vendors/*/dtos.py\<close>, \<open>shared/mappers.py\<close>), and how the result
  of a creating command is kept as JSON under its idempotency key
  (\<open>_serialize_result\<close>, \<open>_deserialize_result\<close> of \<open>infrastructure/adapters/django_vendor_idempotency.py\<close>).
\<close>

section \<open>Data transfer objects\<close>

record profile_dto =
  pd_id :: uuid
  pd_user_id :: uuid
  pd_business_name :: string
  pd_category :: string
  pd_description :: string
  pd_service_area :: string
  pd_contact_email :: string
  pd_contact_phone :: string
  pd_custom_category :: "string option"
  pd_website :: "string option"
  pd_profile_image_url :: "string option"
  pd_cover_image_url :: "string option"
  pd_status :: string
  pd_submitted_at :: "datetime option"
  pd_approved_at :: "datetime option"
  pd_rejected_at :: "datetime option"
  pd_rejection_reason :: "string option"
  pd_version :: int

record package_dto =
  kd_id :: uuid
  kd_vendor_id :: uuid
  kd_name :: string
  kd_description :: string
  kd_price :: decimal
  kd_currency :: string
  kd_package_tier :: string
  kd_approval_status :: string
  kd_rejection_reason :: "string option"
  kd_is_active :: bool
  kd_is_deleted :: bool
  kd_deleted_at :: "datetime option"
  kd_last_approved_at :: "datetime option"
  kd_last_edit_at :: "datetime option"
  kd_next_edit_at :: "datetime option"
  kd_version :: int

record media_dto =
  md_id :: uuid
  md_vendor_id :: uuid
  md_secure_url :: string
  md_caption :: "string option"
  md_order :: int
  md_media_type :: string
  md_upload :: string
  md_quality :: string
  md_visibility :: string
  md_is_active :: bool
  md_version :: int
  md_upload_error :: "string option"
  md_failure_reason :: "string option"
  md_rejection_reason :: "string option"
  md_filename :: "string option"
  md_mime_type :: string
  md_file_size :: int
  md_preview_url :: "string option"
  md_cloud_id :: "string option"
  md_cloud_url :: "string option"
  md_width :: "int option"
  md_height :: "int option"
  md_duration :: "int option"
  md_score :: "int option"
  md_summary :: "string option"
  md_is_deleted :: bool
  md_deleted_at :: "datetime option"

record inquiry_dto =
  qd_id :: uuid
  qd_vendor_id :: uuid
  qd_client_name :: string
  qd_client_email :: string
  qd_client_phone :: "string option"
  qd_message :: string
  qd_event_date :: "int option"
  qd_is_read :: bool
  qd_created_at :: datetime
  qd_version :: int

datatype vendor_dto = ProfileDTO profile_dto | PackageDTO package_dto | MediaDTO media_dto | InquiryDTO inquiry_dto | NoDTO

section \<open>Mappers\<close>

definition to_profile_dto :: "profile \<Rightarrow> profile_dto" where
  "to_profile_dto p =
     \<lparr>pd_id = vp_id p, pd_user_id = vp_user_id p, pd_business_name = vp_business_name p,
      pd_category = vp_category p, pd_description = vp_description p,
      pd_service_area = vp_service_area p, pd_contact_email = vp_contact_email p,
      pd_contact_phone = vp_contact_phone p, pd_custom_category = vp_custom_category p,
      pd_website = vp_website p, pd_profile_image_url = vp_profile_image_url p,
      pd_cover_image_url = vp_cover_image_url p, pd_status = vp_status p,
      pd_submitted_at = vp_submitted_at p, pd_approved_at = vp_approved_at p,
      pd_rejected_at = vp_rejected_at p, pd_rejection_reason = vp_rejection_reason p,
      pd_version = vp_version p\<rparr>"

definition to_package_dto :: "package \<Rightarrow> package_dto" where
  "to_package_dto p =
     \<lparr>kd_id = sp_id p, kd_vendor_id = sp_vendor_id p, kd_name = sp_name p,
      kd_description = sp_description p, kd_price = sp_price p, kd_currency = sp_currency p,
      kd_package_tier = sp_package_tier p, kd_approval_status = sp_approval_status p,
      kd_rejection_reason = sp_rejection_reason p, kd_is_active = sp_is_active p,
      kd_is_deleted = sp_is_deleted p, kd_deleted_at = sp_deleted_at p,
      kd_last_approved_at = sp_last_approved_at p, kd_last_edit_at = sp_last_edit_at p,
      kd_next_edit_at = sp_next_edit_at p, kd_version = sp_version p\<rparr>"

definition to_image_dto :: "media \<Rightarrow> media_dto" where
  "to_image_dto m =
     \<lparr>md_id = pm_id m, md_vendor_id = pm_vendor_id m, md_secure_url = pm_secure_url m,
      md_caption = pm_caption m, md_order = pm_order m, md_media_type = pm_media_type m,
      md_upload = pm_upload m, md_quality = pm_quality m, md_visibility = pm_visibility m,
      md_is_active = pm_is_active m, md_version = pm_version m, md_upload_error = pm_upload_error m,
      md_failure_reason = pm_failure_reason m, md_rejection_reason = pm_rejection_reason m,
      md_filename = pm_filename m, md_mime_type = pm_mime_type m, md_file_size = pm_file_size m,
      md_preview_url = pm_preview_url m, md_cloud_id = pm_cloud_id m, md_cloud_url = pm_cloud_url m,
      md_width = pm_width m, md_height = pm_height m, md_duration = pm_duration m, md_score = pm_score m,
      md_summary = pm_summary m, md_is_deleted = pm_is_deleted m, md_deleted_at = pm_deleted_at m\<rparr>"

definition to_inquiry_dto :: "inquiry \<Rightarrow> inquiry_dto" where
  "to_inquiry_dto i =
     \<lparr>qd_id = iq_id i, qd_vendor_id = iq_vendor_id i, qd_client_name = iq_client_name i,
      qd_client_email = iq_client_email i, qd_client_phone = iq_client_phone i,
      qd_message = iq_message i, qd_event_date = iq_event_date i, qd_is_read = iq_is_read i,
      qd_created_at = iq_created_at i, qd_version = iq_version i\<rparr>"

section \<open>Results kept as JSON\<close>

text \<open>
  \<open>DjangoJSONEncoder\<close> writes identifiers and prices as text that reads back as they were, and a time as
  its ISO form with the microseconds cut to milliseconds. So the stored form is modelled by the values it
  reads back to. The stored form of a package has its times too, but they are never read.
\<close>

definition cut_to_ms :: "datetime \<Rightarrow> datetime" where
  "cut_to_ms d = (case d of Aware t \<Rightarrow> Aware (t - t mod 1000) | Naive t \<Rightarrow> Naive (t - t mod 1000))"

definition serialize_result :: "vendor_dto \<Rightarrow> vendor_dto" where
  "serialize_result r = (case r of
     ProfileDTO d \<Rightarrow> ProfileDTO (d\<lparr>pd_submitted_at := map_option cut_to_ms (pd_submitted_at d),
       pd_approved_at := map_option cut_to_ms (pd_approved_at d),
       pd_rejected_at := map_option cut_to_ms (pd_rejected_at d)\<rparr>)
   | PackageDTO d \<Rightarrow> PackageDTO (d\<lparr>kd_deleted_at := map_option cut_to_ms (kd_deleted_at d),
       kd_last_approved_at := map_option cut_to_ms (kd_last_approved_at d),
       kd_last_edit_at := map_option cut_to_ms (kd_last_edit_at d),
       kd_next_edit_at := map_option cut_to_ms (kd_next_edit_at d)\<rparr>)
   | MediaDTO d \<Rightarrow> MediaDTO (d\<lparr>md_deleted_at := map_option cut_to_ms (md_deleted_at d)\<rparr>)
   | InquiryDTO d \<Rightarrow> InquiryDTO (d\<lparr>qd_created_at := cut_to_ms (qd_created_at d)\<rparr>)
   | NoDTO \<Rightarrow> NoDTO)"

text \<open>
  Reading the stored form back, by the scope of the key. \<open>ServicePackageDTO\<close> is called without
  \<open>last_approved_at\<close>, \<open>last_vendor_public_edit_at\<close> and \<open>next_vendor_edit_allowed_at\<close>, which have no
  defaults: a \<open>TypeError\<close>. A stored form of another scope lacks a key.
\<close>

datatype stored_result_error = MissingArguments | MissingKey

definition deserialize_result :: "string \<Rightarrow> vendor_dto \<Rightarrow> (stored_result_error, vendor_dto) res" where
  "deserialize_result scope r =
     (if scope = ''vendor_profile.create'' then (case r of ProfileDTO d \<Rightarrow> Inr r | _ \<Rightarrow> Inl MissingKey)
      else if scope = ''portfolio_image.add'' then (case r of MediaDTO d \<Rightarrow> Inr r | _ \<Rightarrow> Inl MissingKey)
      else if scope = ''service_package.create''
      then (case r of PackageDTO d \<Rightarrow> Inl MissingArguments | _ \<Rightarrow> Inl MissingKey)
      else if scope = ''vendor_inquiry.send'' then (case r of InquiryDTO d \<Rightarrow> Inr r | _ \<Rightarrow> Inl MissingKey)
      else Inr r)"

section \<open>What a replay returns\<close>

text \<open>The results the creating commands store, and whether all their times are whole milliseconds.\<close>

definition result_scope :: "vendor_dto \<Rightarrow> string" where
  "result_scope r = (case r of ProfileDTO _ \<Rightarrow> ''vendor_profile.create'' | PackageDTO _ \<Rightarrow> ''service_package.create''
     | MediaDTO _ \<Rightarrow> ''portfolio_image.add'' | InquiryDTO _ \<Rightarrow> ''vendor_inquiry.send'' | NoDTO \<Rightarrow> '''')"

definition whole_ms :: "datetime \<Rightarrow> bool" where
  "whole_ms d = (case d of Aware t \<Rightarrow> t mod 1000 = 0 | Naive t \<Rightarrow> t mod 1000 = 0)"

lemma cut_to_ms_simps [simp]:
  "cut_to_ms (cut_to_ms d) = cut_to_ms d" "whole_ms (cut_to_ms d)" "whole_ms d \<Longrightarrow> cut_to_ms d = d"
  by (cases d; simp add: cut_to_ms_def whole_ms_def minus_mod_eq_mult_div)+

lemma map_cut_to_ms [simp]:
  "map_option cut_to_ms (map_option cut_to_ms t) = map_option cut_to_ms t"
  by (cases t) simp_all

lemma serialize_idem [simp]: "serialize_result (serialize_result r) = serialize_result r"
  by (cases r) (simp_all add: serialize_result_def)

lemma serialize_scope [simp]: "result_scope (serialize_result r) = result_scope r"
  by (cases r) (simp_all add: serialize_result_def result_scope_def)

lemma deserialize_scope:
  "(case r of PackageDTO _ \<Rightarrow> False | _ \<Rightarrow> True) \<Longrightarrow> deserialize_result (result_scope r) (serialize_result r) = Inr (serialize_result r)"
  "deserialize_result (result_scope (PackageDTO k)) (serialize_result (PackageDTO k)) = Inl MissingArguments"
  by (cases r) (simp_all add: serialize_result_def deserialize_result_def result_scope_def)

text \<open>Creating commands leave only \<open>created_at\<close> of an inquiry with a time that may be cut.\<close>

lemma serialize_fresh:
  "pd_submitted_at d = None \<Longrightarrow> pd_approved_at d = None \<Longrightarrow> pd_rejected_at d = None \<Longrightarrow>
     serialize_result (ProfileDTO d) = ProfileDTO d"
  "md_deleted_at m = None \<Longrightarrow> serialize_result (MediaDTO m) = MediaDTO m"
  by (simp_all add: serialize_result_def)

end
