(* ===== verification/Vendor_Store.thy ===== *)
theory Vendor_Store
  imports Vendor_Results
begin

text \<open>
  What the vendor application stores (\<open>infrastructure/repos/{profile,packages,portfolio,inquiries}\<close>,
  \<open>infrastructure/adapters/django_vendor_event_outbox.py\<close>, \<open>interface/vendors/models.py\<close>): the tables, the
  repositories with their optimistic version check, the unit of work that stores an aggregate together
  with its events, and the projections enqueued for the marketplace.

  A row has the columns of its aggregate, so a row is an aggregate without pending events; reading one
  rehydrates it, which validates. An exception rolls back the transaction of its operation: \<open>Inl\<close>
  carries no state. The primary keys of outbox rows and projections are random: a row is named by its
  position, which is as unique. Column widths, unique indexes and check constraints are those of the
  models, which PostgreSQL enforces. \<open>now\<close> is the reading of the clock.
\<close>

section \<open>Tables\<close>

datatype vendor_event =
    ProfileEvent profile_event | PackageEvent package_event | MediaEvent media_event | InquiryEvent inquiry_event

text \<open>A payload of \<open>_vendor_payload\<close>; a projection without one deletes the listing.\<close>

record listing =
  li_vendor :: uuid
  li_business_name :: string
  li_category :: string
  li_custom_category :: "string option"
  li_description :: string
  li_service_area :: string
  li_cover_image_url :: "string option"
  li_min_price :: "decimal option"
  li_max_price :: "decimal option"
  li_currency :: "string option"

datatype projection_status = PjPending | PjProcessing | PjDelivered | PjFailed

record projection =
  pj_vendor :: uuid
  pj_listing :: "listing option"
  pj_reason :: string
  pj_status :: projection_status
  pj_attempts :: nat
  pj_next_attempt :: instant
  pj_created :: instant

record abuse_record =
  ab_requester :: uuid
  ab_vendor :: uuid
  ab_digest :: string
  ab_window_key :: int
  ab_created :: instant

text \<open>A reserved idempotency key. The digest is that of the command's payload.\<close>

datatype key_status = KeyInProgress | KeyCompleted | KeyFailed

record idempotency_record =
  ir_scope :: string
  ir_actor :: uuid
  ir_key :: string
  ir_digest :: string
  ir_status :: key_status
  ir_result :: "vendor_dto option"

record account_row =
  ac_id :: uuid
  ac_is_active :: bool
  ac_role :: string

record vendor_world =
  vw_accounts :: "account_row list"
  vw_profiles :: "profile list"
  vw_packages :: "package list"
  vw_media :: "media list"
  vw_inquiries :: "inquiry list"
  vw_outbox :: "vendor_event list"
  vw_projections :: "projection list"
  vw_abuse :: "abuse_record list"
  vw_keys :: "idempotency_record list"

section \<open>Errors\<close>

text \<open>An application error (code, message, field errors), a version conflict (resource, expected, actual),
  \<open>DuplicateVendorProfile\<close>, a missing related record, a stored result that cannot be
  read, a value too long for its column, a violated index or
  check, or an error of the domain.\<close>

datatype vendor_failure =
    AppError string string field_errors
  | VersionConflict uuid int int
  | DuplicateProfile
  | RelatedNotFound string
  | ValueTooLong
  | StoredResult stored_result_error
  | IntegrityError
  | Domain vendor_exn

definition not_found :: "string \<Rightarrow> vendor_failure" where
  "not_found m = AppError ''vendor_resource_not_found'' m []"

definition forbidden :: "string \<Rightarrow> vendor_failure" where
  "forbidden m = AppError ''vendor_operation_forbidden'' m []"

definition invalid_command :: "field_errors \<Rightarrow> vendor_failure" where
  "invalid_command es = AppError ''vendor_command_invalid'' ''Vendor command is invalid.'' es"

definition concurrent_update :: "string \<Rightarrow> string \<Rightarrow> vendor_failure" where
  "concurrent_update m e = Domain (VendorError ''vendor_concurrent_update'' m [(''version'', [e])])"

definition lift_domain :: "(vendor_exn, 'a) res \<Rightarrow> (vendor_failure, 'a) res" where
  "lift_domain r = (case r of Inl e \<Rightarrow> Inl (Domain e) | Inr x \<Rightarrow> Inr x)"

section \<open>Lookups\<close>

definition profile_row :: "uuid \<Rightarrow> vendor_world \<Rightarrow> profile option" where
  "profile_row i w = find (\<lambda>r. vp_id r = i) (vw_profiles w)"

definition package_row :: "uuid \<Rightarrow> uuid \<Rightarrow> vendor_world \<Rightarrow> package option" where
  "package_row vendor i w = find (\<lambda>r. sp_id r = i \<and> sp_vendor_id r = vendor) (vw_packages w)"

definition media_row :: "uuid \<Rightarrow> uuid \<Rightarrow> vendor_world \<Rightarrow> media option" where
  "media_row vendor i w = find (\<lambda>r. pm_id r = i \<and> pm_vendor_id r = vendor) (vw_media w)"

definition inquiry_row :: "uuid \<Rightarrow> uuid \<Rightarrow> vendor_world \<Rightarrow> inquiry option" where
  "inquiry_row vendor i w = find (\<lambda>r. iq_id r = i \<and> iq_vendor_id r = vendor) (vw_inquiries w)"

definition read_opt :: "('r \<Rightarrow> (vendor_failure, 'a) res) \<Rightarrow> 'r option \<Rightarrow> (vendor_failure, 'a option) res" where
  "read_opt f r = (case r of None \<Rightarrow> Inr None | Some x \<Rightarrow> res_bind (f x) (\<lambda>a. Inr (Some a)))"

text \<open>The latest life-cycle time, when it is after \<open>updated_at\<close>, replaces it.\<close>

definition latest :: "datetime option list \<Rightarrow> datetime \<Rightarrow> datetime" where
  "latest ts d = fold (\<lambda>t d. case t of None \<Rightarrow> d | Some x \<Rightarrow> if dt_less d x = Some True then x else d) ts d"

definition profile_to_domain :: "profile \<Rightarrow> (vendor_failure, profile) res" where
  "profile_to_domain r =
     (if vp_category r \<notin> set service_categories
      then Inl (Domain (VendorValueError (vp_category r @ '' is not a valid ServiceCategory'')))
      else if vp_status r \<notin> set vendor_statuses
      then Inl (Domain (VendorValueError (vp_status r @ '' is not a valid VendorStatus'')))
      else lift_domain (rehydrate_profile
        (r\<lparr>vp_updated_at := latest [vp_submitted_at r, vp_approved_at r, vp_rejected_at r] (vp_updated_at r)\<rparr>)))"

definition package_to_domain :: "package \<Rightarrow> (vendor_failure, package) res" where
  "package_to_domain r = lift_domain (rehydrate_package r)"

definition media_to_domain :: "media \<Rightarrow> (vendor_failure, media) res" where
  "media_to_domain r = lift_domain (media_validate (r\<lparr>pm_events := []\<rparr>))"

definition inquiry_to_domain :: "inquiry \<Rightarrow> (vendor_failure, inquiry) res" where
  "inquiry_to_domain r = lift_domain (inquiry_validate (r\<lparr>iq_events := []\<rparr>))"

definition get_profile :: "uuid \<Rightarrow> vendor_world \<Rightarrow> (vendor_failure, profile option) res" where
  "get_profile i w = read_opt profile_to_domain (profile_row i w)"

definition get_profile_of_user :: "uuid \<Rightarrow> vendor_world \<Rightarrow> (vendor_failure, profile option) res" where
  "get_profile_of_user u w = read_opt profile_to_domain (find (\<lambda>r. vp_user_id r = u) (vw_profiles w))"

definition get_package :: "uuid \<Rightarrow> uuid \<Rightarrow> vendor_world \<Rightarrow> (vendor_failure, package option) res" where
  "get_package vendor i w = read_opt package_to_domain (package_row vendor i w)"

definition get_media :: "uuid \<Rightarrow> uuid \<Rightarrow> vendor_world \<Rightarrow> (vendor_failure, media option) res" where
  "get_media vendor i w = read_opt media_to_domain (media_row vendor i w)"

definition get_inquiry :: "uuid \<Rightarrow> uuid \<Rightarrow> vendor_world \<Rightarrow> (vendor_failure, inquiry option) res" where
  "get_inquiry vendor i w = read_opt inquiry_to_domain (inquiry_row vendor i w)"

definition require_account :: "uuid \<Rightarrow> vendor_world \<Rightarrow> (vendor_failure, unit) res" where
  "require_account u w =
     (if list_ex (\<lambda>a. ac_id a = u) (vw_accounts w) then Inr () else Inl (RelatedNotFound ''User not found''))"

definition require_vendor :: "uuid \<Rightarrow> vendor_world \<Rightarrow> (vendor_failure, unit) res" where
  "require_vendor v w = (if profile_row v w = None then Inl (RelatedNotFound ''Vendor not found'') else Inr ())"

section \<open>Column widths\<close>

definition fits :: "nat \<Rightarrow> string \<Rightarrow> bool" where "fits n s = (length s \<le> n)"

definition fits_opt :: "nat \<Rightarrow> string option \<Rightarrow> bool" where
  "fits_opt n v = (case v of None \<Rightarrow> True | Some s \<Rightarrow> length s \<le> n)"

definition profile_fits :: "profile \<Rightarrow> bool" where
  "profile_fits p = (fits 200 (vp_business_name p) \<and> fits 30 (vp_category p) \<and> fits_opt 120 (vp_custom_category p) \<and>
     fits 200 (vp_service_area p) \<and> fits 254 (vp_contact_email p) \<and> fits 30 (vp_contact_phone p) \<and>
     fits_opt 200 (vp_website p) \<and> fits_opt 200 (vp_profile_image_url p) \<and> fits_opt 255 (vp_profile_image_id p) \<and>
     fits_opt 200 (vp_cover_image_url p) \<and> fits_opt 255 (vp_cover_image_id p) \<and> fits 20 (vp_status p))"

definition package_fits :: "package \<Rightarrow> bool" where
  "package_fits p = (fits 200 (sp_name p) \<and> fits 3 (sp_currency p) \<and> fits 20 (sp_package_tier p) \<and>
     fits 30 (sp_approval_status p))"

definition media_fits :: "media \<Rightarrow> bool" where
  "media_fits m = (fits 200 (pm_public_id m) \<and> fits 200 (pm_secure_url m) \<and> fits 10 (pm_media_type m) \<and>
     fits_opt 500 (pm_caption m) \<and> fits 30 (pm_upload m) \<and> fits 30 (pm_quality m) \<and> fits 30 (pm_visibility m) \<and>
     fits_opt 255 (pm_filename m) \<and> fits 100 (pm_mime_type m) \<and> fits_opt 200 (pm_preview_url m) \<and>
     fits_opt 255 (pm_cloud_id m) \<and> fits_opt 200 (pm_cloud_url m))"

definition inquiry_fits :: "inquiry \<Rightarrow> bool" where
  "inquiry_fits i = (fits 200 (iq_client_name i) \<and> fits 254 (iq_client_email i) \<and> fits_opt 30 (iq_client_phone i))"

section \<open>Marketplace projections\<close>

definition is_vendor_listable :: "profile \<Rightarrow> bool" where
  "is_vendor_listable v = (vp_status v = ''approved'' \<and> is_profile_complete v)"

definition safe_public_cover_image_url :: "profile \<Rightarrow> string option" where
  "safe_public_cover_image_url v =
     (let url = py_strip (case vp_cover_image_url v of None \<Rightarrow> '''' | Some u \<Rightarrow> u) in
      if url = '''' \<or> \<not> py_startswith url ''https://'' then None
      else if py_startswith url ''/media/'' \<or> py_contains ''vendor_portfolio_uploads'' url then None
      else Some url)"

definition least_price :: "decimal list \<Rightarrow> decimal option" where
  "least_price ps = (case ps of [] \<Rightarrow> None
     | p # qs \<Rightarrow> Some (fold (\<lambda>q m. if dec_value q < dec_value m then q else m) qs p))"

definition greatest_price :: "decimal list \<Rightarrow> decimal option" where
  "greatest_price ps = (case ps of [] \<Rightarrow> None
     | p # qs \<Rightarrow> Some (fold (\<lambda>q m. if dec_value q > dec_value m then q else m) qs p))"

definition listed_packages :: "uuid \<Rightarrow> vendor_world \<Rightarrow> package list" where
  "listed_packages v w = filter (\<lambda>p. sp_vendor_id p = v \<and> \<not> sp_is_deleted p \<and>
     sp_approval_status p = ''approved'' \<and> sp_is_active p) (vw_packages w)"

definition common_currency :: "package list \<Rightarrow> string option" where
  "common_currency ps =
     (case filter (\<lambda>c. c \<noteq> '''') (map sp_currency ps) of
        [] \<Rightarrow> None
      | c # cs \<Rightarrow> if list_all (\<lambda>d. d = c) cs then Some c else None)"

definition vendor_listing :: "profile \<Rightarrow> vendor_world \<Rightarrow> listing" where
  "vendor_listing v w =
     (let ps = listed_packages (vp_id v) w in
      \<lparr>li_vendor = vp_id v, li_business_name = vp_business_name v, li_category = vp_category v,
       li_custom_category = (if vp_category v = ''other'' then vp_custom_category v else None),
       li_description = vp_description v, li_service_area = vp_service_area v,
       li_cover_image_url = safe_public_cover_image_url v, li_min_price = least_price (map sp_price ps),
       li_max_price = greatest_price (map sp_price ps), li_currency = common_currency ps\<rparr>)"

text \<open>\<open>enqueue_vendor_projection\<close>: the payload is a snapshot of the vendor and of its packages.\<close>

definition enqueue_projection ::
  "instant \<Rightarrow> string \<Rightarrow> profile \<Rightarrow> vendor_world \<Rightarrow> vendor_world" where
  "enqueue_projection now reason v w =
     w\<lparr>vw_projections := vw_projections w @ [\<lparr>pj_vendor = vp_id v,
         pj_listing = (if is_vendor_listable v then Some (vendor_listing v w) else None), pj_reason = reason,
         pj_status = PjPending, pj_attempts = 0, pj_next_attempt = now, pj_created = now\<rparr>]\<rparr>"

section \<open>What the database checks\<close>

text \<open>The check constraints of \<open>ServicePackage\<close>.\<close>

definition package_checks :: "package \<Rightarrow> bool" where
  "package_checks p = (sp_currency p = ''RWF'' \<and> (sp_is_deleted p \<longrightarrow> \<not> sp_is_active p) \<and>
     (sp_is_deleted p \<longrightarrow> sp_deleted_at p \<noteq> None) \<and>
     (sp_approval_status p = ''waiting_approval'' \<longrightarrow> \<not> sp_is_active p) \<and>
     (sp_approval_status p = ''approved'' \<longrightarrow> sp_last_approved_at p \<noteq> None) \<and>
     (sp_approval_status p = ''rejected'' \<longrightarrow> \<not> sp_is_active p) \<and>
     (sp_approval_status p = ''rejected'' \<longrightarrow> sp_rejection_reason p \<notin> {None, Some ''''}) \<and>
     (sp_approval_status p = ''rejected'' \<or> sp_rejection_reason p \<in> {None, Some ''''}))"

definition live_media :: "media \<Rightarrow> bool" where
  "live_media m = (pm_is_active m \<and> \<not> pm_is_deleted m)"

text \<open>The partial unique index on vendor and order of the live media.\<close>

definition order_taken :: "media list \<Rightarrow> media \<Rightarrow> bool" where
  "order_taken rows m = (live_media m \<and> list_ex (\<lambda>r. pm_id r \<noteq> pm_id m \<and> pm_vendor_id r = pm_vendor_id m \<and>
     live_media r \<and> pm_order r = pm_order m) rows)"

definition next_active_order :: "uuid \<Rightarrow> media list \<Rightarrow> int" where
  "next_active_order vendor rows =
     fold max (map pm_order (filter (\<lambda>r. pm_vendor_id r = vendor \<and> live_media r) rows)) (- 1) + 1"

definition profile_fault :: "profile \<Rightarrow> vendor_failure option" where
  "profile_fault p = (if profile_fits p then None else Some ValueTooLong)"

definition package_fault :: "package \<Rightarrow> vendor_failure option" where
  "package_fault p = (if \<not> package_fits p then Some ValueTooLong else if package_checks p then None else Some IntegrityError)"

definition media_fault :: "media list \<Rightarrow> media \<Rightarrow> vendor_failure option" where
  "media_fault rows m = (if \<not> media_fits m then Some ValueTooLong else if order_taken rows m then Some IntegrityError else None)"

definition inquiry_fault :: "inquiry \<Rightarrow> vendor_failure option" where
  "inquiry_fault i = (if inquiry_fits i then None else Some ValueTooLong)"

section \<open>What \<open>save\<close> of the models fills in\<close>

text \<open>\<open>or_now\<close> is \<open>x\<close> unless it is missing.\<close>

definition or_now :: "instant \<Rightarrow> datetime option \<Rightarrow> datetime option" where
  "or_now now t = (case t of None \<Rightarrow> Some (Aware now) | Some x \<Rightarrow> Some x)"

definition profile_pre_save :: "instant \<Rightarrow> profile \<Rightarrow> profile" where
  "profile_pre_save now p =
     (let p = (if vp_status p = ''pending_review'' then p\<lparr>vp_submitted_at := or_now now (vp_submitted_at p)\<rparr> else p);
          p = (if vp_status p = ''approved''
               then p\<lparr>vp_submitted_at := or_now now (vp_submitted_at p), vp_approved_at := or_now now (vp_approved_at p),
                     vp_rejected_at := None, vp_rejection_reason := None\<rparr> else p);
          p = (if vp_status p = ''rejected'' then p\<lparr>vp_rejected_at := or_now now (vp_rejected_at p)\<rparr> else p)
      in p\<lparr>vp_updated_at := Aware now\<rparr>)"

definition package_pre_save :: "instant \<Rightarrow> package \<Rightarrow> package" where
  "package_pre_save now p =
     (let p = (if sp_approval_status p = ''approved''
               then (let t = or_now now (sp_last_approved_at p) in
                 p\<lparr>sp_last_approved_at := t,
                   sp_next_edit_at := (case sp_next_edit_at p of
                     None \<Rightarrow> map_option (\<lambda>d. dt_plus d vendor_edit_cooldown) t | Some x \<Rightarrow> Some x),
                   sp_rejection_reason := None\<rparr>) else p)
      in p\<lparr>sp_updated_at := Aware now\<rparr>)"

text \<open>A live media item whose order is taken moves behind the last one.\<close>

definition media_pre_save :: "instant \<Rightarrow> media list \<Rightarrow> media \<Rightarrow> media" where
  "media_pre_save now rows m =
     (if order_taken rows m then m\<lparr>pm_order := next_active_order (pm_vendor_id m) rows\<rparr> else m)\<lparr>pm_updated_at := Aware now\<rparr>"

section \<open>Adding and saving\<close>

text \<open>
  \<open>objects.create(...)\<close> and \<open>filter(...).update(...)\<close>, each followed by reading the row back in the same
  transaction. The update has to match one row; identifiers are primary keys, so a filter that names
  one matches at most one row.
\<close>

definition replaced :: "('r \<Rightarrow> bool) \<Rightarrow> ('r \<Rightarrow> 'r) \<Rightarrow> 'r list \<Rightarrow> 'r list" where
  "replaced hit upd rows = map (\<lambda>r. if hit r then upd r else r) rows"

definition insert_row ::
  "('r \<Rightarrow> 'r \<Rightarrow> bool) \<Rightarrow> vendor_failure \<Rightarrow> ('r list \<Rightarrow> 'r \<Rightarrow> vendor_failure option) \<Rightarrow> ('r \<Rightarrow> (vendor_failure, 'a) res) \<Rightarrow>
     'r \<Rightarrow> 'r list \<Rightarrow> (vendor_failure, 'r list \<times> 'a) res" where
  "insert_row same duplicate faulty read r rows =
     (case faulty rows r of
        Some e \<Rightarrow> Inl e
      | None \<Rightarrow> if list_ex (same r) rows then Inl duplicate
               else res_bind (read r) (\<lambda>a. Inr (rows @ [r], a)))"

definition replace_row ::
  "('r \<Rightarrow> bool) \<Rightarrow> ('r \<Rightarrow> 'r) \<Rightarrow> vendor_failure \<Rightarrow> ('r list \<Rightarrow> 'r \<Rightarrow> vendor_failure option) \<Rightarrow> ('r \<Rightarrow> (vendor_failure, 'a) res) \<Rightarrow>
     'r list \<Rightarrow> (vendor_failure, 'r list \<times> 'r \<times> 'a) res" where
  "replace_row matches upd conflict faulty read rows =
     (case filter matches rows of
        [r] \<Rightarrow> (case faulty rows (upd r) of
            Some e \<Rightarrow> Inl e
          | None \<Rightarrow> res_bind (read (upd r)) (\<lambda>a. Inr (replaced matches upd rows, upd r, a)))
      | _ \<Rightarrow> Inl conflict)"

definition profile_add :: "instant \<Rightarrow> profile \<Rightarrow> vendor_world \<Rightarrow> (vendor_failure, vendor_world \<times> profile) res" where
  "profile_add now d w =
     res_bind (require_account (vp_user_id d) w) (\<lambda>_.
       let r = (profile_pre_save now d)\<lparr>vp_events := []\<rparr> in
       res_bind (insert_row (\<lambda>r x. vp_id x = vp_id r \<or> vp_user_id x = vp_user_id r) DuplicateProfile
           (\<lambda>_. profile_fault) profile_to_domain r (vw_profiles w)) (\<lambda>(rows, p).
         Inr (enqueue_projection now ''vendor_repository_created'' r (w\<lparr>vw_profiles := rows\<rparr>), p)))"

definition profile_target :: "profile \<Rightarrow> int \<Rightarrow> profile \<Rightarrow> bool" where
  "profile_target d expected r = (vp_id r = vp_id d \<and> vp_user_id r = vp_user_id d \<and> vp_version r = expected)"

definition saved_profile :: "profile \<Rightarrow> profile \<Rightarrow> profile" where
  "saved_profile d r = d\<lparr>vp_version := vp_version r + 1, vp_created_at := vp_created_at r, vp_events := []\<rparr>"

definition profile_save ::
  "instant \<Rightarrow> int \<Rightarrow> profile \<Rightarrow> vendor_world \<Rightarrow> (vendor_failure, vendor_world \<times> profile) res" where
  "profile_save now expected d w =
     res_bind (require_account (vp_user_id d) w) (\<lambda>_.
       res_bind (replace_row (profile_target d expected)
           (saved_profile d)
           (concurrent_update ''Vendor profile was updated or ownership no longer matches.''
             ''Vendor profile was updated by another request.'')
           (\<lambda>_. profile_fault) profile_to_domain (vw_profiles w)) (\<lambda>(rows, r, p).
         Inr (enqueue_projection now ''vendor_repository_saved'' r (w\<lparr>vw_profiles := rows\<rparr>), p)))"

definition package_add :: "instant \<Rightarrow> package \<Rightarrow> vendor_world \<Rightarrow> (vendor_failure, vendor_world \<times> package) res" where
  "package_add now d w =
     res_bind (require_vendor (sp_vendor_id d) w) (\<lambda>_.
       res_bind (insert_row (\<lambda>r x. sp_id x = sp_id r) IntegrityError (\<lambda>_. package_fault) package_to_domain
           ((package_pre_save now d)\<lparr>sp_events := []\<rparr>) (vw_packages w)) (\<lambda>(rows, p).
         Inr (w\<lparr>vw_packages := rows\<rparr>, p)))"

definition package_target :: "package \<Rightarrow> int \<Rightarrow> package \<Rightarrow> bool" where
  "package_target d expected r = (sp_id r = sp_id d \<and> sp_vendor_id r = sp_vendor_id d \<and> sp_version r = expected)"

definition saved_package :: "package \<Rightarrow> package \<Rightarrow> package" where
  "saved_package d r = d\<lparr>sp_version := sp_version r + 1, sp_created_at := sp_created_at r, sp_events := []\<rparr>"

definition package_save :: "int \<Rightarrow> package \<Rightarrow> vendor_world \<Rightarrow> (vendor_failure, vendor_world \<times> package) res" where
  "package_save expected d w =
     res_bind (require_vendor (sp_vendor_id d) w) (\<lambda>_.
       res_bind (replace_row (package_target d expected)
           (saved_package d)
           (concurrent_update ''Service package was updated or ownership no longer matches.''
             ''Service package was updated by another request.'')
           (\<lambda>_. package_fault) package_to_domain (vw_packages w)) (\<lambda>(rows, r, p).
         Inr (w\<lparr>vw_packages := rows\<rparr>, p)))"

definition media_add :: "instant \<Rightarrow> media \<Rightarrow> vendor_world \<Rightarrow> (vendor_failure, vendor_world \<times> media) res" where
  "media_add now d w =
     res_bind (require_vendor (pm_vendor_id d) w) (\<lambda>_.
       res_bind (insert_row (\<lambda>r x. pm_id x = pm_id r) IntegrityError media_fault media_to_domain
           ((media_pre_save now (vw_media w) d)\<lparr>pm_events := []\<rparr>) (vw_media w)) (\<lambda>(rows, m).
         Inr (w\<lparr>vw_media := rows\<rparr>, m)))"

definition media_target :: "media \<Rightarrow> int \<Rightarrow> media \<Rightarrow> bool" where
  "media_target d expected r = (pm_id r = pm_id d \<and> pm_vendor_id r = pm_vendor_id d \<and> pm_version r = expected)"

definition saved_media :: "media \<Rightarrow> media \<Rightarrow> media" where
  "saved_media d r = d\<lparr>pm_version := pm_version r + 1, pm_created_at := pm_created_at r, pm_events := []\<rparr>"

definition media_save :: "int \<Rightarrow> media \<Rightarrow> vendor_world \<Rightarrow> (vendor_failure, vendor_world \<times> media) res" where
  "media_save expected d w =
     res_bind (require_vendor (pm_vendor_id d) w) (\<lambda>_.
       res_bind (replace_row (media_target d expected)
           (saved_media d)
           (concurrent_update ''Portfolio item was updated or ownership no longer matches.''
             ''Portfolio item was updated by another request.'')
           media_fault media_to_domain (vw_media w)) (\<lambda>(rows, r, m).
         Inr (w\<lparr>vw_media := rows\<rparr>, m)))"

definition inquiry_add :: "inquiry \<Rightarrow> vendor_world \<Rightarrow> (vendor_failure, vendor_world \<times> inquiry) res" where
  "inquiry_add d w =
     res_bind (require_vendor (iq_vendor_id d) w) (\<lambda>_.
       res_bind (insert_row (\<lambda>r x. iq_id x = iq_id r) IntegrityError (\<lambda>_. inquiry_fault) inquiry_to_domain
           (d\<lparr>iq_events := []\<rparr>) (vw_inquiries w)) (\<lambda>(rows, i).
         Inr (w\<lparr>vw_inquiries := rows\<rparr>, i)))"

definition inquiry_target :: "inquiry \<Rightarrow> int \<Rightarrow> inquiry \<Rightarrow> bool" where
  "inquiry_target d expected r = (iq_id r = iq_id d \<and> iq_vendor_id r = iq_vendor_id d \<and> iq_version r = expected)"

definition saved_inquiry :: "inquiry \<Rightarrow> inquiry \<Rightarrow> inquiry" where
  "saved_inquiry d r = d\<lparr>iq_version := iq_version r + 1, iq_created_at := iq_created_at r, iq_events := []\<rparr>"

definition inquiry_save :: "int \<Rightarrow> inquiry \<Rightarrow> vendor_world \<Rightarrow> (vendor_failure, vendor_world \<times> inquiry) res" where
  "inquiry_save expected d w =
     res_bind (require_vendor (iq_vendor_id d) w) (\<lambda>_.
       res_bind (replace_row (inquiry_target d expected)
           (saved_inquiry d)
           (concurrent_update ''Inquiry was updated or ownership no longer matches.''
             ''Inquiry was updated by another request.'')
           (\<lambda>_. inquiry_fault) inquiry_to_domain (vw_inquiries w)) (\<lambda>(rows, r, i).
         Inr (w\<lparr>vw_inquiries := rows\<rparr>, i)))"

section \<open>The unit of work\<close>

text \<open>\<open>add_with_pending_events\<close> and \<open>save_with_pending_events\<close>: the row and the pending events of the
  aggregate are stored together.\<close>

definition with_events ::
  "vendor_event list \<Rightarrow> (vendor_failure, vendor_world \<times> 'a) res \<Rightarrow> (vendor_failure, vendor_world \<times> 'a) res" where
  "with_events es r = res_bind r (\<lambda>(w, a). Inr (w\<lparr>vw_outbox := vw_outbox w @ es\<rparr>, a))"

definition uow_add_profile :: "instant \<Rightarrow> profile \<Rightarrow> vendor_world \<Rightarrow> (vendor_failure, vendor_world \<times> profile) res" where
  "uow_add_profile now d w = with_events (map ProfileEvent (vp_events d)) (profile_add now d w)"

definition uow_save_profile ::
  "instant \<Rightarrow> int \<Rightarrow> profile \<Rightarrow> vendor_world \<Rightarrow> (vendor_failure, vendor_world \<times> profile) res" where
  "uow_save_profile now expected d w =
     with_events (map ProfileEvent (vp_events d)) (profile_save now expected d w)"

definition uow_add_package :: "instant \<Rightarrow> package \<Rightarrow> vendor_world \<Rightarrow> (vendor_failure, vendor_world \<times> package) res" where
  "uow_add_package now d w = with_events (map PackageEvent (sp_events d)) (package_add now d w)"

definition uow_save_package :: "int \<Rightarrow> package \<Rightarrow> vendor_world \<Rightarrow> (vendor_failure, vendor_world \<times> package) res" where
  "uow_save_package expected d w = with_events (map PackageEvent (sp_events d)) (package_save expected d w)"

definition uow_add_media :: "instant \<Rightarrow> media \<Rightarrow> vendor_world \<Rightarrow> (vendor_failure, vendor_world \<times> media) res" where
  "uow_add_media now d w = with_events (map MediaEvent (pm_events d)) (media_add now d w)"

definition uow_save_media :: "int \<Rightarrow> media \<Rightarrow> vendor_world \<Rightarrow> (vendor_failure, vendor_world \<times> media) res" where
  "uow_save_media expected d w = with_events (map MediaEvent (pm_events d)) (media_save expected d w)"

definition uow_add_inquiry :: "inquiry \<Rightarrow> vendor_world \<Rightarrow> (vendor_failure, vendor_world \<times> inquiry) res" where
  "uow_add_inquiry d w = with_events (map InquiryEvent (iq_events d)) (inquiry_add d w)"

definition uow_save_inquiry :: "int \<Rightarrow> inquiry \<Rightarrow> vendor_world \<Rightarrow> (vendor_failure, vendor_world \<times> inquiry) res" where
  "uow_save_inquiry expected d w = with_events (map InquiryEvent (iq_events d)) (inquiry_save expected d w)"

end
