(* ===== verification/Vendor_Handlers.thy ===== *)
theory Vendor_Handlers
  imports Vendor_Store
begin

text \<open>
  The commands of the vendor application (\<open>application/vendors/*/handlers.py\<close>, \<open>shared/handlers.py\<close>,
  \<open>shared/transitions.py\<close>) with the adapters they are composed with in \<open>interface/vendors/services.py\<close>:
  ownership and moderation (\<open>interface/vendors/adapters.py\<close>), admission of inquiries, idempotency keys,
  creation of media at the next order, and the reordering of a portfolio.

  A request carries its clock, one reading per use in the order the code makes them, the date of the clock
  and a fresh identifier. \<open>digest\<close> and \<open>inquiry_digest\<close> stand for the SHA-256 of the canonical JSON.
\<close>

record request =
  rq_clock :: "nat \<Rightarrow> instant"
  rq_today :: int
  rq_new_id :: uuid

section \<open>Authorization\<close>

definition owns_vendor :: "uuid \<Rightarrow> uuid \<Rightarrow> vendor_world \<Rightarrow> bool" where
  "owns_vendor actor vendor w = list_ex (\<lambda>r. vp_id r = vendor \<and> vp_user_id r = actor) (vw_profiles w)"

definition is_active_admin :: "uuid \<Rightarrow> vendor_world \<Rightarrow> bool" where
  "is_active_admin user w = list_ex (\<lambda>a. ac_id a = user \<and> ac_is_active a \<and> ac_role a = ''admin'') (vw_accounts w)"

definition vendor_exists :: "uuid \<Rightarrow> vendor_world \<Rightarrow> bool" where
  "vendor_exists vendor w = list_ex (\<lambda>r. vp_id r = vendor) (vw_profiles w)"

definition assert_actor_owns_vendor :: "uuid \<Rightarrow> uuid \<Rightarrow> vendor_world \<Rightarrow> (vendor_failure, unit) res" where
  "assert_actor_owns_vendor actor vendor w =
     (if owns_vendor actor vendor w then Inr ()
      else if \<not> vendor_exists vendor w then Inl (not_found ''Vendor not found.'')
      else Inl (forbidden ''You do not own this vendor profile.''))"

definition assert_actor_can_access_vendor :: "uuid \<Rightarrow> uuid \<Rightarrow> vendor_world \<Rightarrow> (vendor_failure, unit) res" where
  "assert_actor_can_access_vendor actor vendor w =
     (if owns_vendor actor vendor w then Inr ()
      else if is_active_admin actor w \<and> vendor_exists vendor w then Inr ()
      else if \<not> vendor_exists vendor w then Inl (not_found ''Vendor not found.'')
      else Inl (forbidden ''Vendor access is not allowed.''))"

definition assert_moderator_can_moderate_vendor ::
  "uuid \<Rightarrow> uuid \<Rightarrow> vendor_world \<Rightarrow> (vendor_failure, unit) res" where
  "assert_moderator_can_moderate_vendor moderator vendor w =
     (if \<not> is_active_admin moderator w then Inl (forbidden ''Vendor moderation is not allowed.'')
      else if \<not> vendor_exists vendor w then Inl (not_found ''Vendor not found.'') else Inr ())"

section \<open>Admission of inquiries\<close>

definition duplicate_window_seconds :: int where "duplicate_window_seconds = 600"
definition rate_window_seconds :: int where "rate_window_seconds = 3600"
definition max_inquiries_per_window :: nat where "max_inquiries_per_window = 5"

definition window_key :: "instant \<Rightarrow> int \<Rightarrow> int" where
  "window_key now window = (let timestamp = now div 1000000 in timestamp - timestamp mod max window 1)"

definition abuse_denied :: "string \<Rightarrow> vendor_failure" where
  "abuse_denied m = AppError ''inquiry_abuse_denied'' m []"

definition recent_attempts :: "uuid \<Rightarrow> uuid \<Rightarrow> instant \<Rightarrow> vendor_world \<Rightarrow> abuse_record list" where
  "recent_attempts requester vendor cutoff w =
     filter (\<lambda>r. ab_requester r = requester \<and> ab_vendor r = vendor \<and> cutoff \<le> ab_created r) (vw_abuse w)"

definition assert_inquiry_allowed ::
  "instant \<Rightarrow> instant \<Rightarrow> uuid \<Rightarrow> uuid \<Rightarrow> string \<Rightarrow> vendor_world \<Rightarrow> (vendor_failure, vendor_world) res" where
  "assert_inquiry_allowed now created requester vendor payload w =
     (let recent = recent_attempts requester vendor (now - seconds rate_window_seconds) w;
          record = \<lparr>ab_requester = requester, ab_vendor = vendor, ab_digest = payload,
            ab_window_key = window_key now duplicate_window_seconds, ab_created = created\<rparr>
      in if \<not> vendor_exists vendor w then Inl (not_found ''Vendor not found.'')
         else if max_inquiries_per_window \<le> length recent
         then Inl (abuse_denied ''Too many inquiry attempts. Please try again later.'')
         else if list_ex (\<lambda>r. ab_digest r = payload \<and> now - seconds duplicate_window_seconds \<le> ab_created r) recent
         then Inl (abuse_denied ''This inquiry was already submitted recently.'')
         else if list_ex (\<lambda>r. ab_requester r = requester \<and> ab_vendor r = vendor \<and> ab_digest r = payload \<and>
             ab_window_key r = ab_window_key record) (vw_abuse w)
         then Inl (abuse_denied ''This inquiry was already submitted recently.'')
         else Inr (w\<lparr>vw_abuse := vw_abuse w @ [record]\<rparr>))"

section \<open>Idempotency keys\<close>

definition coerce_idempotency_key :: "string \<Rightarrow> (vendor_failure, string) res" where
  "coerce_idempotency_key v =
     (let key = py_strip v in
      if key = '''' then Inl (invalid_command [(''idempotency_key'', [''Must be a nonblank string.''])])
      else if length key > 200
      then Inl (invalid_command [(''idempotency_key'', [''Must be 200 characters or fewer.''])])
      else Inr key)"

definition has_key :: "string \<Rightarrow> uuid \<Rightarrow> string \<Rightarrow> idempotency_record \<Rightarrow> bool" where
  "has_key scope actor key r = (ir_scope r = scope \<and> ir_actor r = actor \<and> ir_key r = key)"

definition idempotency_conflict :: vendor_failure where
  "idempotency_conflict = AppError ''vendor_idempotency_conflict''
     ''Idempotency key was already used with a different payload.'' []"

definition key_in_progress :: vendor_failure where
  "key_in_progress = AppError ''vendor_idempotency_in_progress'' ''Idempotency key is already in progress.'' []"

text \<open>\<open>_reserve\<close>: a new record, or the stored one; a failed one starts again and counts as new.\<close>

definition reserve ::
  "string \<Rightarrow> uuid \<Rightarrow> string \<Rightarrow> string \<Rightarrow> vendor_world \<Rightarrow>
     (vendor_failure, vendor_world \<times> idempotency_record \<times> bool) res" where
  "reserve scope actor key payload w =
     (case find (has_key scope actor key) (vw_keys w) of
        None \<Rightarrow>
          let r = \<lparr>ir_scope = scope, ir_actor = actor, ir_key = key, ir_digest = payload,
                   ir_status = KeyInProgress, ir_result = None\<rparr>
          in Inr (w\<lparr>vw_keys := vw_keys w @ [r]\<rparr>, r, True)
      | Some r \<Rightarrow>
          if ir_digest r \<noteq> payload then Inl idempotency_conflict
          else if ir_status r = KeyFailed
          then let r' = r\<lparr>ir_status := KeyInProgress\<rparr>
               in Inr (w\<lparr>vw_keys := map (\<lambda>x. if has_key scope actor key x then r' else x) (vw_keys w)\<rparr>, r', True)
          else Inr (w, r, False))"

text \<open>
  \<open>execute_once\<close>. An error of the operation leaves the atomic block, which rolls back everything, the
  failed mark included.
\<close>

definition execute_once ::
  "string \<Rightarrow> uuid \<Rightarrow> string \<Rightarrow> string \<Rightarrow> (vendor_world \<Rightarrow> (vendor_failure, vendor_world \<times> vendor_dto) res) \<Rightarrow>
     vendor_world \<Rightarrow> (vendor_failure, vendor_world \<times> vendor_dto) res" where
  "execute_once scope actor key payload operation w =
     res_bind (reserve scope actor key payload w) (\<lambda>(w1, r, created).
       if ir_status r = KeyCompleted
       then (case ir_result r of
           Some stored \<Rightarrow> (case deserialize_result scope stored of
               Inl e \<Rightarrow> Inl (StoredResult e) | Inr d \<Rightarrow> Inr (w1, d))
         | None \<Rightarrow> Inl (StoredResult MissingKey))
       else if \<not> created \<and> ir_status r = KeyInProgress then Inl key_in_progress
       else res_bind (operation w1) (\<lambda>(w2, d).
         Inr (w2\<lparr>vw_keys := map (\<lambda>x. if has_key scope actor key x
             then x\<lparr>ir_status := KeyCompleted, ir_result := Some (serialize_result d)\<rparr> else x) (vw_keys w2)\<rparr>, d)))"

section \<open>Transitions\<close>

text \<open>
  \<open>_execute_transition\<close> in its two halves: first the checks, the load and the transition of the loaded
  aggregate, then the save of an aggregate whose version changed. They run in different transactions.
\<close>

definition prepare_transition ::
  "(vendor_world \<Rightarrow> (vendor_failure, unit) res) \<Rightarrow> (vendor_world \<Rightarrow> (vendor_failure, 'a) res) \<Rightarrow> ('a \<Rightarrow> uuid) \<Rightarrow>
     ('a \<Rightarrow> int) \<Rightarrow> int \<Rightarrow> ('a \<Rightarrow> (vendor_failure, 'a) res) \<Rightarrow> vendor_world \<Rightarrow> (vendor_failure, 'a \<times> 'a) res" where
  "prepare_transition authorize loader ident version expected transition w =
     res_bind (authorize w) (\<lambda>_. res_bind (loader w) (\<lambda>a.
       if expected \<noteq> version a then Inl (VersionConflict (ident a) expected (version a))
       else res_bind (transition a) (\<lambda>b. Inr (a, b))))"

definition save_if_changed ::
  "('a \<Rightarrow> int) \<Rightarrow> (int \<Rightarrow> 'a \<Rightarrow> vendor_world \<Rightarrow> (vendor_failure, vendor_world \<times> 'a) res) \<Rightarrow> ('a \<Rightarrow> vendor_dto) \<Rightarrow>
     'a \<Rightarrow> 'a \<Rightarrow> vendor_world \<Rightarrow> (vendor_failure, vendor_world \<times> vendor_dto) res" where
  "save_if_changed version save to_dto a b w =
     (if version b = version a then Inr (w, to_dto b)
      else res_bind (save (version a) b w) (\<lambda>(w', c). Inr (w', to_dto c)))"

definition execute_transition ::
  "(vendor_world \<Rightarrow> (vendor_failure, unit) res) \<Rightarrow> (vendor_world \<Rightarrow> (vendor_failure, 'a) res) \<Rightarrow> ('a \<Rightarrow> uuid) \<Rightarrow>
     ('a \<Rightarrow> int) \<Rightarrow> int \<Rightarrow> ('a \<Rightarrow> (vendor_failure, 'a) res) \<Rightarrow>
     (int \<Rightarrow> 'a \<Rightarrow> vendor_world \<Rightarrow> (vendor_failure, vendor_world \<times> 'a) res) \<Rightarrow> ('a \<Rightarrow> vendor_dto) \<Rightarrow>
     vendor_world \<Rightarrow> (vendor_failure, vendor_world \<times> vendor_dto) res" where
  "execute_transition authorize loader ident version expected transition save to_dto w =
     res_bind (prepare_transition authorize loader ident version expected transition w) (\<lambda>(a, b).
       save_if_changed version save to_dto a b w)"

definition or_raise :: "string \<Rightarrow> (vendor_failure, 'a option) res \<Rightarrow> (vendor_failure, 'a) res" where
  "or_raise m r = res_bind r (\<lambda>x. case x of None \<Rightarrow> Inl (not_found m) | Some a \<Rightarrow> Inr a)"

definition get_vendor_or_raise :: "uuid \<Rightarrow> vendor_world \<Rightarrow> (vendor_failure, profile) res" where
  "get_vendor_or_raise vendor w = or_raise ''Vendor not found.'' (get_profile vendor w)"

definition get_package_or_raise :: "uuid \<Rightarrow> uuid \<Rightarrow> vendor_world \<Rightarrow> (vendor_failure, package) res" where
  "get_package_or_raise vendor i w = or_raise ''Package not found.'' (get_package vendor i w)"

definition get_image_or_raise :: "uuid \<Rightarrow> uuid \<Rightarrow> vendor_world \<Rightarrow> (vendor_failure, media) res" where
  "get_image_or_raise vendor i w = or_raise ''Image not found.'' (get_media vendor i w)"

definition get_inquiry_or_raise :: "uuid \<Rightarrow> uuid \<Rightarrow> vendor_world \<Rightarrow> (vendor_failure, inquiry) res" where
  "get_inquiry_or_raise vendor i w = or_raise ''Inquiry not found.'' (get_inquiry vendor i w)"

text \<open>Who issues a command: the owner of the vendor, or a moderator.\<close>

datatype issuer = Owner uuid | Moderator uuid

definition authorize :: "issuer \<Rightarrow> uuid \<Rightarrow> vendor_world \<Rightarrow> (vendor_failure, unit) res" where
  "authorize who vendor w = (case who of
     Owner actor \<Rightarrow> assert_actor_owns_vendor actor vendor w
   | Moderator m \<Rightarrow> assert_moderator_can_moderate_vendor m vendor w)"

definition profile_transition ::
  "issuer \<Rightarrow> uuid \<Rightarrow> int \<Rightarrow> (profile \<Rightarrow> (vendor_failure, profile) res) \<Rightarrow> instant \<Rightarrow> vendor_world \<Rightarrow>
     (vendor_failure, vendor_world \<times> vendor_dto) res" where
  "profile_transition who vendor expected transition now w =
     execute_transition (authorize who vendor) (get_vendor_or_raise vendor) vp_id vp_version expected
       transition (uow_save_profile now) (\<lambda>p. ProfileDTO (to_profile_dto p)) w"

definition package_transition ::
  "issuer \<Rightarrow> uuid \<Rightarrow> uuid \<Rightarrow> int \<Rightarrow> (package \<Rightarrow> (vendor_failure, package) res) \<Rightarrow> vendor_world \<Rightarrow>
     (vendor_failure, vendor_world \<times> vendor_dto) res" where
  "package_transition who vendor i expected transition w =
     execute_transition (authorize who vendor) (get_package_or_raise vendor i) sp_id sp_version expected
       transition uow_save_package (\<lambda>p. PackageDTO (to_package_dto p)) w"

definition media_transition ::
  "issuer \<Rightarrow> uuid \<Rightarrow> uuid \<Rightarrow> int \<Rightarrow> (media \<Rightarrow> (vendor_failure, media) res) \<Rightarrow> (media \<Rightarrow> vendor_dto) \<Rightarrow>
     vendor_world \<Rightarrow> (vendor_failure, vendor_world \<times> vendor_dto) res" where
  "media_transition who vendor i expected transition to_dto w =
     execute_transition (authorize who vendor) (get_image_or_raise vendor i) pm_id pm_version expected
       transition uow_save_media to_dto w"

section \<open>Profile commands\<close>

record new_profile =
  np_business_name :: string
  np_category :: string
  np_description :: string
  np_service_area :: string
  np_contact_email :: string
  np_contact_phone :: string
  np_custom_category :: "string option"
  np_website :: "string option"

definition profile_exists_conflict :: vendor_failure where
  "profile_exists_conflict = AppError ''vendor_profile_exists'' ''User already has a vendor profile.'' []"

definition create_profile ::
  "request \<Rightarrow> uuid \<Rightarrow> new_profile \<Rightarrow> vendor_world \<Rightarrow> (vendor_failure, vendor_world \<times> vendor_dto) res" where
  "create_profile q actor n w =
     res_bind (get_profile_of_user actor w) (\<lambda>existing.
       if existing \<noteq> None then Inl profile_exists_conflict
       else res_bind (lift_domain (create_draft (rq_new_id q) (rq_clock q 0) (rq_clock q 1) actor (np_business_name n)
           (np_category n) (np_description n) (np_service_area n) (np_contact_email n) (np_contact_phone n)
           (np_custom_category n) (np_website n))) (\<lambda>p.
         case uow_add_profile (rq_clock q 2) p w of
           Inl e \<Rightarrow> Inl (if e = DuplicateProfile then profile_exists_conflict else e)
         | Inr (w', saved) \<Rightarrow> Inr (w', ProfileDTO (to_profile_dto saved))))"

text \<open>\<open>_translate_profile_update_validation\<close>: the field errors of the profile become those of the command.\<close>

definition translate_update_validation :: "(vendor_exn, 'a) res \<Rightarrow> (vendor_failure, 'a) res" where
  "translate_update_validation r = (case r of
     Inl (VendorError c m es) \<Rightarrow>
       Inl (if c = ''vendor_profile_invalid'' then invalid_command es else Domain (VendorError c m es))
   | Inl e \<Rightarrow> Inl (Domain e)
   | Inr x \<Rightarrow> Inr x)"

definition update_vendor_profile ::
  "request \<Rightarrow> uuid \<Rightarrow> uuid \<Rightarrow> int \<Rightarrow> profile_changes \<Rightarrow> vendor_world \<Rightarrow>
     (vendor_failure, vendor_world \<times> vendor_dto) res" where
  "update_vendor_profile q actor vendor expected ch w =
     profile_transition (Owner actor) vendor expected
       (\<lambda>p. translate_update_validation (profile_call (PfUpdate (rq_clock q 0)
         (ch\<lparr>ch_profile_image_url := None, ch_profile_image_id := None, ch_cover_image_url := None,
             ch_cover_image_id := None\<rparr>)) p)) (rq_clock q 1) w"

definition branding_changes ::
  "string option \<Rightarrow> string option \<Rightarrow> string option \<Rightarrow> string option \<Rightarrow> profile_changes" where
  "branding_changes image_url image_id cover_url cover_id =
     \<lparr>ch_business_name = None, ch_category = None, ch_description = None, ch_service_area = None,
      ch_contact_email = None, ch_contact_phone = None, ch_custom_category = None, ch_website = None,
      ch_profile_image_url = Some image_url, ch_profile_image_id = Some image_id,
      ch_cover_image_url = Some cover_url, ch_cover_image_id = Some cover_id\<rparr>"

definition update_vendor_branding_media ::
  "request \<Rightarrow> uuid \<Rightarrow> uuid \<Rightarrow> int \<Rightarrow> string option \<Rightarrow> string option \<Rightarrow> string option \<Rightarrow> string option \<Rightarrow>
     vendor_world \<Rightarrow> (vendor_failure, vendor_world \<times> vendor_dto) res" where
  "update_vendor_branding_media q actor vendor expected image_url image_id cover_url cover_id w =
     profile_transition (Owner actor) vendor expected
       (\<lambda>p. lift_domain (profile_call (PfUpdate (rq_clock q 0)
         (branding_changes image_url image_id cover_url cover_id)) p)) (rq_clock q 1) w"

definition submit_profile ::
  "request \<Rightarrow> uuid \<Rightarrow> uuid \<Rightarrow> int \<Rightarrow> vendor_world \<Rightarrow> (vendor_failure, vendor_world \<times> vendor_dto) res" where
  "submit_profile q actor vendor expected w =
     profile_transition (Owner actor) vendor expected
       (\<lambda>p. lift_domain (profile_call (PfSubmit (rq_clock q 0)) p)) (rq_clock q 1) w"

definition approve_vendor ::
  "request \<Rightarrow> uuid \<Rightarrow> uuid \<Rightarrow> int \<Rightarrow> vendor_world \<Rightarrow> (vendor_failure, vendor_world \<times> vendor_dto) res" where
  "approve_vendor q moderator vendor expected w =
     profile_transition (Moderator moderator) vendor expected
       (\<lambda>p. lift_domain (profile_call (PfApprove (rq_clock q 0)) p)) (rq_clock q 1) w"

definition reject_vendor ::
  "request \<Rightarrow> uuid \<Rightarrow> uuid \<Rightarrow> int \<Rightarrow> string \<Rightarrow> vendor_world \<Rightarrow> (vendor_failure, vendor_world \<times> vendor_dto) res" where
  "reject_vendor q moderator vendor expected reason w =
     profile_transition (Moderator moderator) vendor expected
       (\<lambda>p. lift_domain (profile_call (PfReject (rq_clock q 0) reason) p)) (rq_clock q 1) w"

definition suspend_vendor ::
  "request \<Rightarrow> uuid \<Rightarrow> uuid \<Rightarrow> int \<Rightarrow> string option \<Rightarrow> vendor_world \<Rightarrow>
     (vendor_failure, vendor_world \<times> vendor_dto) res" where
  "suspend_vendor q moderator vendor expected reason w =
     profile_transition (Moderator moderator) vendor expected
       (\<lambda>p. lift_domain (profile_call (PfSuspend (rq_clock q 0) reason) p)) (rq_clock q 1) w"

definition reinstate_vendor ::
  "request \<Rightarrow> uuid \<Rightarrow> uuid \<Rightarrow> int \<Rightarrow> vendor_world \<Rightarrow> (vendor_failure, vendor_world \<times> vendor_dto) res" where
  "reinstate_vendor q moderator vendor expected w =
     profile_transition (Moderator moderator) vendor expected
       (\<lambda>p. lift_domain (profile_call (PfReinstate (rq_clock q 0)) p)) (rq_clock q 1) w"

text \<open>\<open>get_vendor_onboarding_state\<close>: status, dashboard access, profile to complete, ready to submit, public,
  and whether the action to complete the profile is offered.\<close>

record onboarding =
  ob_profile_status :: string
  ob_can_access_dashboard :: bool
  ob_must_complete_profile :: bool
  ob_can_submit_for_review :: bool
  ob_marketplace_visible :: bool
  ob_action :: bool

definition onboarding_of :: "profile option \<Rightarrow> onboarding" where
  "onboarding_of p = (case p of
     None \<Rightarrow> \<lparr>ob_profile_status = ''missing'', ob_can_access_dashboard = False, ob_must_complete_profile = True,
       ob_can_submit_for_review = False, ob_marketplace_visible = False, ob_action = True\<rparr>
   | Some v \<Rightarrow>
       let st = vp_status v; complete = (profile_completion_errors v = []);
           answer = \<lparr>ob_profile_status = st, ob_can_access_dashboard = False, ob_must_complete_profile = False,
             ob_can_submit_for_review = False, ob_marketplace_visible = False, ob_action = False\<rparr>
       in if st = ''approved'' then answer\<lparr>ob_can_access_dashboard := True, ob_marketplace_visible := True\<rparr>
          else if is_pending_review v then answer\<lparr>ob_can_access_dashboard := True\<rparr>
          else if st = ''suspended'' then answer
          else if st = ''rejected''
          then answer\<lparr>ob_must_complete_profile := True, ob_can_submit_for_review := complete\<rparr>
          else answer\<lparr>ob_must_complete_profile := True, ob_can_submit_for_review := complete,
                 ob_action := is_draft_incomplete v\<rparr>)"

definition get_vendor_onboarding_state :: "uuid \<Rightarrow> vendor_world \<Rightarrow> (vendor_failure, onboarding) res" where
  "get_vendor_onboarding_state actor w =
     res_bind (get_profile_of_user actor w) (\<lambda>p. Inr (onboarding_of p))"

definition get_vendor :: "uuid \<Rightarrow> uuid \<Rightarrow> vendor_world \<Rightarrow> (vendor_failure, profile_dto option) res" where
  "get_vendor actor vendor w =
     res_bind (assert_actor_can_access_vendor actor vendor w) (\<lambda>_.
       res_bind (get_profile vendor w) (\<lambda>p. Inr (map_option to_profile_dto p)))"

section \<open>Package commands\<close>

record new_package =
  nk_name :: string
  nk_description :: string
  nk_price :: decimal
  nk_currency :: string
  nk_tier :: string

definition ensure_vendor_can_create_service_package :: "profile option \<Rightarrow> (vendor_failure, unit) res" where
  "ensure_vendor_can_create_service_package p = (case p of
     None \<Rightarrow> Inl (AppError ''vendor_not_found'' ''Vendor not found.'' [])
   | Some v \<Rightarrow> if vp_status v \<noteq> ''approved''
       then Inl (AppError ''vendor_service_package_creation_forbidden''
         ''Vendor must be approved before creating service packages.'' []) else Inr ())"

definition create_service_package ::
  "request \<Rightarrow> uuid \<Rightarrow> new_package \<Rightarrow> vendor_world \<Rightarrow> (vendor_failure, vendor_world \<times> vendor_dto) res" where
  "create_service_package q vendor n w =
     res_bind (get_profile vendor w) (\<lambda>v.
       res_bind (ensure_vendor_can_create_service_package v) (\<lambda>_.
         res_bind (lift_domain (create_package (rq_new_id q) (rq_clock q 0) (rq_clock q 1) vendor (nk_name n)
             (nk_description n) (nk_price n) (nk_currency n) (nk_tier n))) (\<lambda>p.
           res_bind (uow_add_package (rq_clock q 2) p w) (\<lambda>(w', saved).
             Inr (w', PackageDTO (to_package_dto saved))))))"

definition update_service_package ::
  "request \<Rightarrow> uuid \<Rightarrow> uuid \<Rightarrow> uuid \<Rightarrow> int \<Rightarrow> string option \<Rightarrow> string option \<Rightarrow> decimal option \<Rightarrow> string option \<Rightarrow>
     string option \<Rightarrow> vendor_world \<Rightarrow> (vendor_failure, vendor_world \<times> vendor_dto) res" where
  "update_service_package q actor vendor i expected name description price currency tier w =
     package_transition (Owner actor) vendor i expected
       (\<lambda>p. lift_domain (package_call (PUpdate (rq_clock q 0) name description price currency tier) p)) w"

definition submit_service_package_for_approval ::
  "request \<Rightarrow> uuid \<Rightarrow> uuid \<Rightarrow> uuid \<Rightarrow> int \<Rightarrow> vendor_world \<Rightarrow> (vendor_failure, vendor_world \<times> vendor_dto) res" where
  "submit_service_package_for_approval q actor vendor i expected w =
     package_transition (Owner actor) vendor i expected
       (\<lambda>p. lift_domain (package_call (PSubmit (rq_clock q 0)) p)) w"

definition approve_service_package ::
  "request \<Rightarrow> uuid \<Rightarrow> uuid \<Rightarrow> uuid \<Rightarrow> int \<Rightarrow> vendor_world \<Rightarrow> (vendor_failure, vendor_world \<times> vendor_dto) res" where
  "approve_service_package q moderator vendor i expected w =
     package_transition (Moderator moderator) vendor i expected
       (\<lambda>p. lift_domain (package_call (PApprove (rq_clock q 0)) p)) w"

definition reject_service_package ::
  "request \<Rightarrow> uuid \<Rightarrow> uuid \<Rightarrow> uuid \<Rightarrow> int \<Rightarrow> string \<Rightarrow> vendor_world \<Rightarrow>
     (vendor_failure, vendor_world \<times> vendor_dto) res" where
  "reject_service_package q moderator vendor i expected reason w =
     package_transition (Moderator moderator) vendor i expected
       (\<lambda>p. lift_domain (package_call (PReject (rq_clock q 0) reason) p)) w"

definition restore_service_package_for_review ::
  "request \<Rightarrow> uuid \<Rightarrow> uuid \<Rightarrow> uuid \<Rightarrow> int \<Rightarrow> vendor_world \<Rightarrow> (vendor_failure, vendor_world \<times> vendor_dto) res" where
  "restore_service_package_for_review q actor vendor i expected w =
     package_transition (Owner actor) vendor i expected
       (\<lambda>p. lift_domain (package_call (PRestore (rq_clock q 0)) p)) w"

definition deactivate_service_package ::
  "request \<Rightarrow> uuid \<Rightarrow> uuid \<Rightarrow> uuid \<Rightarrow> int \<Rightarrow> vendor_world \<Rightarrow> (vendor_failure, vendor_world \<times> vendor_dto) res" where
  "deactivate_service_package q actor vendor i expected w =
     package_transition (Owner actor) vendor i expected
       (\<lambda>p. lift_domain (package_call (PDeactivate (rq_clock q 0) (rq_clock q 1)) p)) w"

definition activate_service_package ::
  "request \<Rightarrow> uuid \<Rightarrow> uuid \<Rightarrow> uuid \<Rightarrow> int \<Rightarrow> vendor_world \<Rightarrow> (vendor_failure, vendor_world \<times> vendor_dto) res" where
  "activate_service_package q actor vendor i expected w =
     package_transition (Owner actor) vendor i expected
       (\<lambda>p. lift_domain (package_call (PActivate (rq_clock q 0)) p)) w"

section \<open>Portfolio commands\<close>

record new_media =
  nm_image_id :: "uuid option"
  nm_public_id :: string
  nm_secure_url :: string
  nm_caption :: "string option"
  nm_media_type :: string
  nm_upload :: string
  nm_quality :: string
  nm_visibility :: string
  nm_filename :: "string option"
  nm_mime_type :: string
  nm_file_size :: int
  nm_cloud_id :: "string option"
  nm_cloud_url :: "string option"
  nm_width :: "int option"
  nm_height :: "int option"

definition ensure_vendor_can_add_portfolio_media :: "profile option \<Rightarrow> (vendor_failure, unit) res" where
  "ensure_vendor_can_add_portfolio_media p = (case p of
     None \<Rightarrow> Inl (AppError ''vendor_not_found'' ''Vendor not found.'' [])
   | Some v \<Rightarrow> if vp_status v = ''suspended''
       then Inl (AppError ''vendor_portfolio_media_creation_forbidden''
         ''Vendor cannot add portfolio media while suspended.'' []) else Inr ())"

text \<open>The factory of \<open>add_portfolio_image\<close>: the constructor validates and records no event.\<close>

definition image_factory :: "request \<Rightarrow> uuid \<Rightarrow> new_media \<Rightarrow> int \<Rightarrow> (vendor_exn, media) res" where
  "image_factory q vendor n next_order = media_validate
     \<lparr>pm_id = (case nm_image_id n of None \<Rightarrow> rq_new_id q | Some i \<Rightarrow> i), pm_vendor_id = vendor,
      pm_public_id = nm_public_id n, pm_secure_url = nm_secure_url n, pm_caption = nm_caption n,
      pm_order = next_order, pm_media_type = nm_media_type n, pm_upload = nm_upload n, pm_quality = nm_quality n,
      pm_visibility = nm_visibility n, pm_upload_error = None, pm_failure_reason = None, pm_rejection_reason = None,
      pm_filename = nm_filename n, pm_mime_type = nm_mime_type n, pm_file_size = nm_file_size n,
      pm_preview_url = None, pm_cloud_id = nm_cloud_id n, pm_cloud_url = nm_cloud_url n, pm_width = nm_width n,
      pm_height = nm_height n, pm_duration = None, pm_score = None, pm_summary = None, pm_is_active = True,
      pm_is_deleted = False, pm_deleted_at = None, pm_version = 0, pm_created_at = Aware (rq_clock q 0),
      pm_updated_at = Aware (rq_clock q 1), pm_events = []\<rparr>"

text \<open>\<open>create_at_next_order\<close>. The vendor row is locked and the model's own \<open>save\<close> moves a taken order, so the
  unique index is not violated and the loop ends in its first round.\<close>

definition create_at_next_order ::
  "instant \<Rightarrow> uuid \<Rightarrow> (int \<Rightarrow> (vendor_exn, media) res) \<Rightarrow> vendor_world \<Rightarrow> (vendor_failure, vendor_world \<times> media) res" where
  "create_at_next_order now vendor factory w =
     (if \<not> vendor_exists vendor w then Inl (AppError ''vendor_not_found'' ''Vendor not found.'' [])
      else res_bind (lift_domain (factory (next_active_order vendor (vw_media w)))) (\<lambda>image.
        if pm_vendor_id image \<noteq> vendor
        then Inl (AppError ''vendor_portfolio_owner_mismatch''
          ''Portfolio image vendor does not match the locked vendor.'' [])
        else uow_add_media now image w))"

definition add_portfolio_image ::
  "request \<Rightarrow> uuid \<Rightarrow> new_media \<Rightarrow> vendor_world \<Rightarrow> (vendor_failure, vendor_world \<times> vendor_dto) res" where
  "add_portfolio_image q vendor n w =
     res_bind (get_profile vendor w) (\<lambda>v.
       res_bind (ensure_vendor_can_add_portfolio_media v) (\<lambda>_.
         res_bind (create_at_next_order (rq_clock q 2) vendor (image_factory q vendor n) w) (\<lambda>(w', saved).
           Inr (w', MediaDTO (to_image_dto saved)))))"

definition image_dto :: "media \<Rightarrow> vendor_dto" where
  "image_dto m = MediaDTO (to_image_dto m)"

definition queue_portfolio_media ::
  "request \<Rightarrow> uuid \<Rightarrow> uuid \<Rightarrow> uuid \<Rightarrow> int \<Rightarrow> vendor_world \<Rightarrow> (vendor_failure, vendor_world \<times> vendor_dto) res" where
  "queue_portfolio_media q actor vendor i expected w =
     media_transition (Owner actor) vendor i expected
       (\<lambda>m. lift_domain (media_call (MQueue (rq_clock q 0)) m)) image_dto w"

definition mark_portfolio_media_processing ::
  "request \<Rightarrow> uuid \<Rightarrow> uuid \<Rightarrow> uuid \<Rightarrow> int \<Rightarrow> vendor_world \<Rightarrow> (vendor_failure, vendor_world \<times> vendor_dto) res" where
  "mark_portfolio_media_processing q actor vendor i expected w =
     media_transition (Owner actor) vendor i expected
       (\<lambda>m. lift_domain (media_call (MProcess (rq_clock q 0)) m)) image_dto w"

definition mark_portfolio_media_uploaded ::
  "request \<Rightarrow> uuid \<Rightarrow> uuid \<Rightarrow> uuid \<Rightarrow> int \<Rightarrow> string option \<Rightarrow> string option \<Rightarrow> vendor_world \<Rightarrow>
     (vendor_failure, vendor_world \<times> vendor_dto) res" where
  "mark_portfolio_media_uploaded q actor vendor i expected public_id secure_url w =
     media_transition (Owner actor) vendor i expected
       (\<lambda>m. lift_domain (media_call (MUploaded (rq_clock q 0) public_id secure_url) m)) image_dto w"

definition update_portfolio_caption ::
  "request \<Rightarrow> uuid \<Rightarrow> uuid \<Rightarrow> uuid \<Rightarrow> int \<Rightarrow> string option \<Rightarrow> vendor_world \<Rightarrow>
     (vendor_failure, vendor_world \<times> vendor_dto) res" where
  "update_portfolio_caption q actor vendor i expected caption w =
     media_transition (Owner actor) vendor i expected
       (\<lambda>m. lift_domain (media_call (MCaption (rq_clock q 0) caption) m)) image_dto w"

definition delete_portfolio_image ::
  "request \<Rightarrow> uuid \<Rightarrow> uuid \<Rightarrow> uuid \<Rightarrow> int \<Rightarrow> vendor_world \<Rightarrow> (vendor_failure, vendor_world \<times> vendor_dto) res" where
  "delete_portfolio_image q actor vendor i expected w =
     media_transition (Owner actor) vendor i expected
       (\<lambda>m. lift_domain (media_call (MDeactivate (rq_clock q 0) (rq_clock q 1)) m)) (\<lambda>_. NoDTO) w"

section \<open>Reordering a portfolio\<close>

fun map_res :: "('a \<Rightarrow> ('e, 'b) res) \<Rightarrow> 'a list \<Rightarrow> ('e, 'b list) res" where
  "map_res f [] = Inr []"
| "map_res f (x # xs) = res_bind (f x) (\<lambda>y. res_bind (map_res f xs) (\<lambda>ys. Inr (y # ys)))"

fun each_res :: "('x \<Rightarrow> 's \<Rightarrow> ('e, 's) res) \<Rightarrow> 'x list \<Rightarrow> 's \<Rightarrow> ('e, 's) res" where
  "each_res f [] s = Inr s"
| "each_res f (x # xs) s = res_bind (f x s) (each_res f xs)"

definition active_media_rows :: "uuid \<Rightarrow> vendor_world \<Rightarrow> media list" where
  "active_media_rows vendor w =
     sort_key pm_order (sort_key pm_id (filter (\<lambda>m. pm_vendor_id m = vendor \<and> live_media m) (vw_media w)))"

definition load_active_vendor_images :: "uuid \<Rightarrow> vendor_world \<Rightarrow> (vendor_failure, media list) res" where
  "load_active_vendor_images vendor w = map_res media_to_domain (active_media_rows vendor w)"

definition image_with_id :: "media list \<Rightarrow> uuid \<Rightarrow> media option" where
  "image_with_id ms i = find (\<lambda>m. pm_id m = i) ms"

definition coerce_resource_versions :: "(uuid \<times> int) list \<Rightarrow> (vendor_failure, unit) res" where
  "coerce_resource_versions versions =
     (if list_ex (\<lambda>(i, v). v < 0) versions
      then Inl (invalid_command [(''expected_version'', [''Must be a nonnegative integer.''])])
      else if versions = []
      then Inl (invalid_command [(''expected_versions'', [''At least one version is required.''])])
      else if \<not> distinct (map fst versions)
      then Inl (invalid_command [(''expected_versions'', [''Duplicate resource IDs are not allowed.''])])
      else Inr ())"

definition validate_portfolio_reorder_ids :: "uuid list \<Rightarrow> media list \<Rightarrow> (vendor_failure, unit) res" where
  "validate_portfolio_reorder_ids ids images =
     (if ids = [] then Inl (invalid_command [(''image_ids_in_order'', [''Portfolio image order is required.''])])
      else if \<not> distinct ids
      then Inl (invalid_command [(''image_ids_in_order'', [''Duplicate portfolio images are not allowed.''])])
      else if set ids \<noteq> set (map pm_id images) then Inl (not_found ''Image not found.'')
      else Inr ())"

definition check_versions :: "(uuid \<times> int) list \<Rightarrow> media list \<Rightarrow> (vendor_failure, unit) res" where
  "check_versions versions images =
     each_res (\<lambda>(i, v) _. case image_with_id images i of
         None \<Rightarrow> Inr ()
       | Some m \<Rightarrow> if v \<noteq> pm_version m then Inl (VersionConflict i v (pm_version m)) else Inr ()) versions ()"

text \<open>One row moves, if it has the expected version; the unique index on the orders is checked.\<close>

definition move_row ::
  "uuid \<Rightarrow> (uuid \<times> int) list \<Rightarrow> uuid \<Rightarrow> (media \<Rightarrow> media) \<Rightarrow> media list \<Rightarrow> (vendor_failure, media list) res" where
  "move_row vendor versions i f rows =
     (let expected = (case map_of versions i of None \<Rightarrow> 0 | Some v \<Rightarrow> v);
          hit = (\<lambda>r. pm_id r = i \<and> pm_vendor_id r = vendor \<and> pm_version r = expected \<and> live_media r)
      in case filter hit rows of
        [r] \<Rightarrow> if order_taken rows (f r) then Inl IntegrityError
              else Inr (replaced hit f rows)
      | _ \<Rightarrow> Inl (VersionConflict i expected
          (case image_with_id rows i of None \<Rightarrow> expected + 1 | Some m \<Rightarrow> pm_version m)))"

text \<open>
  \<open>persist_reorder\<close>: the checks on the locked rows, then every image moves to an order behind all others,
  then to its own. The stored images are read after the commit. Their pending events are not stored.
\<close>

definition persist_reorder ::
  "uuid \<Rightarrow> media list \<Rightarrow> (uuid \<times> int) list \<Rightarrow> vendor_world \<Rightarrow>
     (vendor_failure, vendor_world \<times> (vendor_failure, media list) res) res" where
  "persist_reorder vendor images versions w =
     (let ids = map pm_id images; locked = active_media_rows vendor w; rows = vw_media w;
          start = fold max (map pm_order locked) (- 1) + int (length locked) + 1
      in if \<not> distinct ids
         then Inl (invalid_command [(''image_ids_in_order'', [''Duplicate portfolio images are not allowed.''])])
         else if set (map fst versions) \<noteq> set (map pm_id locked)
         then Inl (not_found ''Portfolio set changed; reload before reordering.'')
         else if \<not> set ids \<subseteq> set (map pm_id locked) then Inl (not_found ''Image not found.'')
         else res_bind (check_versions versions locked) (\<lambda>_.
           res_bind (each_res (\<lambda>(k, m). move_row vendor versions (pm_id m) (\<lambda>r. r\<lparr>pm_order := start + int k\<rparr>))
               (enumerate 0 images) rows) (\<lambda>rows.
             res_bind (each_res (\<lambda>m. move_row vendor versions (pm_id m) (\<lambda>r. r\<lparr>pm_order := pm_order m,
                 pm_version := pm_version r + 1, pm_updated_at := pm_updated_at m\<rparr>)) images rows) (\<lambda>rows.
               Inr (w\<lparr>vw_media := rows\<rparr>,
                 map_res (\<lambda>i. or_raise ''Portfolio set changed during reorder.''
                   (read_opt media_to_domain (find (\<lambda>r. pm_id r = i \<and> pm_vendor_id r = vendor) rows))) ids)))))"

text \<open>\<open>PageDTO\<close>, whose constructor checks.\<close>

record 'a page_dto =
  pg_items :: "'a list"
  pg_total :: int
  pg_limit :: int
  pg_offset :: int

definition mk_page_dto :: "'a list \<Rightarrow> int \<Rightarrow> int \<Rightarrow> int \<Rightarrow> (string, 'a page_dto) res" where
  "mk_page_dto items n limit offset =
     (if n < 0 then Inl ''Page total must be a nonnegative integer.''
      else if limit < 1 \<or> limit > 100 then Inl ''Page limit must be between 1 and 100.''
      else if offset < 0 \<or> offset > 10000 then Inl ''Page offset must be between 0 and 10000.''
      else if int (length items) > limit then Inl ''Page items cannot exceed the page limit.''
      else if n < int (length items) then Inl ''Page total cannot be less than the number of items.''
      else Inr \<lparr>pg_items = items, pg_total = n, pg_limit = limit, pg_offset = offset\<rparr>)"

text \<open>The images that change their place, in the requested order, each reordered on its own.\<close>

definition reordered_images ::
  "request \<Rightarrow> media list \<Rightarrow> uuid list \<Rightarrow> (vendor_exn, media list) res" where
  "reordered_images q images ids =
     map_res (\<lambda>(k, m). media_call (MReorder (rq_clock q k) (int k)) m)
       (filter (\<lambda>(k, m). pm_order m \<noteq> int k)
         (enumerate 0 (map (\<lambda>i. the (image_with_id images i)) ids)))"

text \<open>\<open>reorder_portfolio_images\<close>: the page is built after the new order is stored, so its error does not undo
  that.\<close>

definition reorder_portfolio_images ::
  "request \<Rightarrow> uuid \<Rightarrow> uuid \<Rightarrow> uuid list \<Rightarrow> (uuid \<times> int) list \<Rightarrow> vendor_world \<Rightarrow>
     (vendor_failure, vendor_world \<times> (vendor_failure, media_dto page_dto) res) res" where
  "reorder_portfolio_images q actor vendor ids versions w =
     res_bind (coerce_resource_versions versions) (\<lambda>_.
     res_bind (assert_actor_owns_vendor actor vendor w) (\<lambda>_.
     res_bind (load_active_vendor_images vendor w) (\<lambda>images.
     res_bind (validate_portfolio_reorder_ids ids images) (\<lambda>_.
       if set (map fst versions) \<noteq> set ids
       then Inl (invalid_command [(''expected_versions'', [''Expected versions must match image order.''])])
       else res_bind (check_versions versions images) (\<lambda>_.
       res_bind (lift_domain (reordered_images q images ids)) (\<lambda>changed.
       res_bind (if changed = [] then Inr (w, Inr []) else persist_reorder vendor changed versions w) (\<lambda>(w', r).
         Inr (w', res_bind r (\<lambda>persisted.
           let current = (\<lambda>i. case image_with_id persisted i of Some m \<Rightarrow> m | None \<Rightarrow> the (image_with_id images i))
           in case mk_page_dto (map (\<lambda>i. to_image_dto (current i)) ids) (int (length images)) (int (length images)) 0 of
             Inl m \<Rightarrow> Inl (Domain (VendorValueError m)) | Inr p \<Rightarrow> Inr p)))))))))"

section \<open>Inquiry commands\<close>

record new_inquiry =
  nq_client_name :: string
  nq_client_email :: string
  nq_message :: string
  nq_client_phone :: "string option"
  nq_event_date :: "int option"

definition send_inquiry ::
  "(new_inquiry \<Rightarrow> string) \<Rightarrow> request \<Rightarrow> uuid \<Rightarrow> uuid \<Rightarrow> new_inquiry \<Rightarrow> vendor_world \<Rightarrow>
     (vendor_failure, vendor_world \<times> vendor_dto) res" where
  "send_inquiry inquiry_digest q actor vendor n w =
     res_bind (assert_inquiry_allowed (rq_clock q 0) (rq_clock q 1) actor vendor (inquiry_digest n) w) (\<lambda>w1.
       res_bind (get_profile vendor w1) (\<lambda>v.
         res_bind (lift_domain (ensure_vendor_can_receive_inquiry v)) (\<lambda>_.
           res_bind (lift_domain (create_inquiry (rq_new_id q) (rq_today q) (rq_clock q 2) vendor (nq_client_name n)
               (nq_client_email n) (nq_message n) (Some actor) (nq_client_phone n) (nq_event_date n))) (\<lambda>i.
             res_bind (uow_add_inquiry i w1) (\<lambda>(w2, saved). Inr (w2, InquiryDTO (to_inquiry_dto saved)))))))"

definition mark_read ::
  "request \<Rightarrow> uuid \<Rightarrow> uuid \<Rightarrow> uuid \<Rightarrow> int \<Rightarrow> vendor_world \<Rightarrow> (vendor_failure, vendor_world \<times> vendor_dto) res" where
  "mark_read q actor vendor i expected w =
     execute_transition (authorize (Owner actor) vendor) (get_inquiry_or_raise vendor i) iq_id iq_version expected
       (\<lambda>i. lift_domain (mark_inquiry_read (rq_clock q 0) i)) uow_save_inquiry
       (\<lambda>i. InquiryDTO (to_inquiry_dto i)) w"

section \<open>Commands that create\<close>

text \<open>Each runs under its idempotency key; the owner is checked outside, the profile's state inside.\<close>

datatype creation =
    CreateProfile new_profile
  | CreatePackage uuid new_package
  | AddImage uuid new_media
  | SendInquiry uuid new_inquiry

fun creation_scope :: "creation \<Rightarrow> string" where
  "creation_scope (CreateProfile _) = ''vendor_profile.create''"
| "creation_scope (CreatePackage _ _) = ''service_package.create''"
| "creation_scope (AddImage _ _) = ''portfolio_image.add''"
| "creation_scope (SendInquiry _ _) = ''vendor_inquiry.send''"

fun creation_guard :: "uuid \<Rightarrow> creation \<Rightarrow> vendor_world \<Rightarrow> (vendor_failure, unit) res" where
  "creation_guard actor (CreatePackage vendor _) w = assert_actor_owns_vendor actor vendor w"
| "creation_guard actor (AddImage vendor _) w = assert_actor_owns_vendor actor vendor w"
| "creation_guard actor _ w = Inr ()"

fun creation_operation ::
  "(new_inquiry \<Rightarrow> string) \<Rightarrow> request \<Rightarrow> uuid \<Rightarrow> creation \<Rightarrow> vendor_world \<Rightarrow>
     (vendor_failure, vendor_world \<times> vendor_dto) res" where
  "creation_operation idig q actor (CreateProfile n) w = create_profile q actor n w"
| "creation_operation idig q actor (CreatePackage vendor n) w = create_service_package q vendor n w"
| "creation_operation idig q actor (AddImage vendor n) w = add_portfolio_image q vendor n w"
| "creation_operation idig q actor (SendInquiry vendor n) w = send_inquiry idig q actor vendor n w"

definition run_creation ::
  "(uuid \<Rightarrow> creation \<Rightarrow> string) \<Rightarrow> (new_inquiry \<Rightarrow> string) \<Rightarrow> request \<Rightarrow> uuid \<Rightarrow> string \<Rightarrow> creation \<Rightarrow> vendor_world \<Rightarrow>
     (vendor_failure, vendor_world \<times> vendor_dto) res" where
  "run_creation digest idig q actor key c w =
     res_bind (coerce_idempotency_key key) (\<lambda>k.
       res_bind (creation_guard actor c w) (\<lambda>_.
         execute_once (creation_scope c) actor k (digest actor c) (creation_operation idig q actor c) w))"

end
