(* ===== verification/Vendor_Commands.thy ===== *)
theory Vendor_Commands
  imports Vendor_Handlers
begin

text \<open>
  Histories of vendor commands: every command as one step of the vendor world, what the tables keep
  (every row can be read back, identifiers are unique, versions only grow), who may change what, how
  often an account can write to a vendor, and what a replayed or an interleaved command does.
\<close>

section \<open>Commands\<close>

datatype profile_request =
    UpdateProfile profile_changes
  | UpdateBranding "string option" "string option" "string option" "string option"
  | SubmitProfile
  | ApproveVendor
  | RejectVendor string
  | SuspendVendor "string option"
  | ReinstateVendor

datatype package_request =
    UpdatePackage "string option" "string option" "decimal option" "string option" "string option"
  | SubmitPackage
  | ApprovePackage
  | RejectPackage string
  | RestorePackage
  | DeactivatePackage
  | ActivatePackage

datatype media_request =
    QueueMedia
  | ProcessMedia
  | MediaUploaded "string option" "string option"
  | CaptionMedia "string option"
  | DeleteMedia

datatype vendor_command =
    Create string creation
  | OnProfile uuid int profile_request
  | OnPackage uuid uuid int package_request
  | OnMedia uuid uuid int media_request
  | Reorder uuid "uuid list" "(uuid \<times> int) list"
  | MarkRead uuid uuid int

fun run_profile ::
  "request \<Rightarrow> uuid \<Rightarrow> uuid \<Rightarrow> int \<Rightarrow> profile_request \<Rightarrow> vendor_world \<Rightarrow> (vendor_failure, vendor_world \<times> vendor_dto) res"
where
  "run_profile q user v k (UpdateProfile ch) w = update_vendor_profile q user v k ch w"
| "run_profile q user v k (UpdateBranding a b c d) w = update_vendor_branding_media q user v k a b c d w"
| "run_profile q user v k SubmitProfile w = submit_profile q user v k w"
| "run_profile q user v k ApproveVendor w = approve_vendor q user v k w"
| "run_profile q user v k (RejectVendor r) w = reject_vendor q user v k r w"
| "run_profile q user v k (SuspendVendor r) w = suspend_vendor q user v k r w"
| "run_profile q user v k ReinstateVendor w = reinstate_vendor q user v k w"

fun run_package ::
  "request \<Rightarrow> uuid \<Rightarrow> uuid \<Rightarrow> uuid \<Rightarrow> int \<Rightarrow> package_request \<Rightarrow> vendor_world \<Rightarrow>
     (vendor_failure, vendor_world \<times> vendor_dto) res"
where
  "run_package q user v i k (UpdatePackage n d p c t) w = update_service_package q user v i k n d p c t w"
| "run_package q user v i k SubmitPackage w = submit_service_package_for_approval q user v i k w"
| "run_package q user v i k ApprovePackage w = approve_service_package q user v i k w"
| "run_package q user v i k (RejectPackage r) w = reject_service_package q user v i k r w"
| "run_package q user v i k RestorePackage w = restore_service_package_for_review q user v i k w"
| "run_package q user v i k DeactivatePackage w = deactivate_service_package q user v i k w"
| "run_package q user v i k ActivatePackage w = activate_service_package q user v i k w"

fun run_media ::
  "request \<Rightarrow> uuid \<Rightarrow> uuid \<Rightarrow> uuid \<Rightarrow> int \<Rightarrow> media_request \<Rightarrow> vendor_world \<Rightarrow>
     (vendor_failure, vendor_world \<times> vendor_dto) res"
where
  "run_media q user v i k QueueMedia w = queue_portfolio_media q user v i k w"
| "run_media q user v i k ProcessMedia w = mark_portfolio_media_processing q user v i k w"
| "run_media q user v i k (MediaUploaded a b) w = mark_portfolio_media_uploaded q user v i k a b w"
| "run_media q user v i k (CaptionMedia c) w = update_portfolio_caption q user v i k c w"
| "run_media q user v i k DeleteMedia w = delete_portfolio_image q user v i k w"

text \<open>The page a reordering returns is left out here.\<close>

fun run_command ::
  "(uuid \<Rightarrow> creation \<Rightarrow> string) \<Rightarrow> (new_inquiry \<Rightarrow> string) \<Rightarrow> request \<Rightarrow> uuid \<Rightarrow> vendor_command \<Rightarrow> vendor_world \<Rightarrow>
     (vendor_failure, vendor_world \<times> vendor_dto) res"
where
  "run_command digest idig q user (Create key c) w = run_creation digest idig q user key c w"
| "run_command digest idig q user (OnProfile v k r) w = run_profile q user v k r w"
| "run_command digest idig q user (OnPackage v i k r) w = run_package q user v i k r w"
| "run_command digest idig q user (OnMedia v i k r) w = run_media q user v i k r w"
| "run_command digest idig q user (Reorder v ids versions) w =
     res_bind (reorder_portfolio_images q user v ids versions w) (\<lambda>(w', _). Inr (w', NoDTO))"
| "run_command digest idig q user (MarkRead v i k) w = mark_read q user v i k w"

text \<open>A request that fails changes nothing.\<close>

definition vendor_step ::
  "(uuid \<Rightarrow> creation \<Rightarrow> string) \<Rightarrow> (new_inquiry \<Rightarrow> string) \<Rightarrow> request \<times> uuid \<times> vendor_command \<Rightarrow> vendor_world \<Rightarrow>
     vendor_world" where
  "vendor_step digest idig op w = (case op of (q, user, c) \<Rightarrow>
     (case run_command digest idig q user c w of Inl _ \<Rightarrow> w | Inr (w', _) \<Rightarrow> w'))"

section \<open>Tables\<close>

text \<open>Identifiers are unique and every row can be read.\<close>

definition table_ok :: "('r \<Rightarrow> uuid) \<Rightarrow> ('r \<Rightarrow> (vendor_failure, 'a) res) \<Rightarrow> 'r list \<Rightarrow> bool" where
  "table_ok ident read rows = (distinct (map ident rows) \<and> (\<forall>r \<in> set rows. is_ok (read r)))"

text \<open>Rows stay, with their owner; a row that changes gets a higher version.\<close>

definition table_le :: "('r \<Rightarrow> uuid) \<Rightarrow> ('r \<Rightarrow> uuid) \<Rightarrow> ('r \<Rightarrow> int) \<Rightarrow> 'r list \<Rightarrow> 'r list \<Rightarrow> bool" where
  "table_le ident owner version rows rows' =
     (\<forall>r \<in> set rows. \<exists>r' \<in> set rows'. ident r' = ident r \<and> owner r' = owner r \<and> (r' = r \<or> version r < version r'))"

lemma table_le_refl [simp]: "table_le ident owner version rows rows"
  by (auto simp: table_le_def)

lemma table_le_trans:
  assumes "table_le ident owner version a b" "table_le ident owner version b c"
  shows "table_le ident owner version a c"
  unfolding table_le_def
proof
  fix r assume "r \<in> set a"
  with assms(1) obtain s where s: "s \<in> set b" "ident s = ident r" "owner s = owner r" "s = r \<or> version r < version s"
    by (auto simp: table_le_def)
  with assms(2) obtain t where "t \<in> set c" "ident t = ident s" "owner t = owner s" "t = s \<or> version s < version t"
    unfolding table_le_def by blast
  with s show "\<exists>t \<in> set c. ident t = ident r \<and> owner t = owner r \<and> (t = r \<or> version r < version t)" by auto
qed

lemma table_le_append [simp]: "table_le ident owner version rows (rows @ [r])"
  by (auto simp: table_le_def)

lemma table_okD: "table_ok ident read rows \<Longrightarrow> r \<in> set rows \<Longrightarrow> s \<in> set rows \<Longrightarrow> ident r = ident s \<Longrightarrow> r = s"
  by (auto simp: table_ok_def distinct_map dest: inj_onD)

lemma insert_row_Inr:
  "insert_row same dup faulty read r rows = Inr (rows', a) \<longleftrightarrow>
     faulty rows r = None \<and> (\<forall>x \<in> set rows. \<not> same r x) \<and> read r = Inr a \<and> rows' = rows @ [r]"
  by (auto simp: insert_row_def res_bind_Inr list_ex_iff split: option.splits)

lemma filter_single: "filter P xs = [r] \<Longrightarrow> r \<in> set xs \<and> P r"
  by (induction xs) (auto split: if_split_asm)

lemma find_mem: "find P xs = Some r \<Longrightarrow> r \<in> set xs \<and> P r"
  by (auto simp: find_Some_iff)

lemma append_ok:
  assumes "table_ok ident read rows" "\<forall>x \<in> set rows. ident x \<noteq> ident r" "read r = Inr a"
  shows "table_ok ident read (rows @ [r])"
  using assms by (auto simp: table_ok_def is_ok_def)

lemma replace_row_Inr:
  "replace_row hit upd conflict faulty read rows = Inr (rows', r', a) \<longleftrightarrow>
     (\<exists>r. filter hit rows = [r] \<and> faulty rows (upd r) = None \<and> read (upd r) = Inr a \<and> r' = upd r \<and>
        rows' = replaced hit upd rows)"
  by (auto simp: replace_row_def res_bind_Inr split: list.splits option.splits)

lemma map_hit_ok:
  assumes "table_ok ident read rows" "\<And>r. r \<in> set rows \<Longrightarrow> hit r \<Longrightarrow> is_ok (read (upd r))"
    and "\<And>r. r \<in> set rows \<Longrightarrow> hit r \<Longrightarrow> ident (upd r) = ident r"
  shows "table_ok ident read (replaced hit upd rows)"
proof -
  have same: "map ident (replaced hit upd rows) = map ident rows"
    using assms(3) by (simp add: replaced_def cong: map_cong)
  show ?thesis unfolding table_ok_def same using assms(1,2) by (auto simp: table_ok_def replaced_def)
qed

lemma map_hit_le:
  assumes "\<And>r. hit r \<Longrightarrow> ident (upd r) = ident r \<and> owner (upd r) = owner r \<and> version r < version (upd r)"
  shows "table_le ident owner version rows (replaced hit upd rows)"
  unfolding table_le_def
proof
  fix r assume "r \<in> set rows"
  then show "\<exists>r' \<in> set (replaced hit upd rows).
      ident r' = ident r \<and> owner r' = owner r \<and> (r' = r \<or> version r < version r')"
    using assms by (intro bexI [of _ "if hit r then upd r else r"]) (auto simp: replaced_def)
qed

lemma replaced_ok:
  assumes "table_ok ident read rows" "filter hit rows = [r]" "read (upd r) = Inr a"
    and "\<And>r. hit r \<Longrightarrow> ident (upd r) = ident r"
  shows "table_ok ident read (replaced hit upd rows)"
proof -
  have one: "x = r" if "x \<in> set rows" "hit x" for x
  proof -
    from that have "x \<in> set (filter hit rows)" by simp
    with assms(2) show ?thesis by simp
  qed
  show ?thesis using one assms(3,4) by (intro map_hit_ok [OF assms(1)]) (auto simp: is_ok_def)
qed

text \<open>A row that is the same row with the same version at a later time did not change.\<close>

lemma same_version_same_row:
  assumes "table_le ident owner version rows rows'" "table_ok ident read rows'"
    and "r \<in> set rows" "r' \<in> set rows'" "ident r' = ident r" "version r' = version r"
  shows "r' = r"
proof -
  from assms(1,3) obtain s where "s \<in> set rows'" "ident s = ident r" "s = r \<or> version r < version s"
    by (auto simp: table_le_def)
  with table_okD [OF assms(2) assms(4)] assms(5,6) show ?thesis by auto
qed

section \<open>The vendor world\<close>

definition vendor_ok :: "vendor_world \<Rightarrow> bool" where
  "vendor_ok w = (table_ok vp_id profile_to_domain (vw_profiles w) \<and> table_ok sp_id package_to_domain (vw_packages w) \<and>
     table_ok pm_id media_to_domain (vw_media w) \<and> table_ok iq_id inquiry_to_domain (vw_inquiries w))"

definition vendor_le :: "vendor_world \<Rightarrow> vendor_world \<Rightarrow> bool" where
  "vendor_le w w' = (vw_accounts w' = vw_accounts w \<and>
     table_le vp_id vp_user_id vp_version (vw_profiles w) (vw_profiles w') \<and>
     table_le sp_id sp_vendor_id sp_version (vw_packages w) (vw_packages w') \<and>
     table_le pm_id pm_vendor_id pm_version (vw_media w) (vw_media w') \<and>
     table_le iq_id iq_vendor_id iq_version (vw_inquiries w) (vw_inquiries w') \<and>
     (\<exists>es. vw_outbox w' = vw_outbox w @ es) \<and> (\<exists>rs. vw_abuse w' = vw_abuse w @ rs))"

lemma vendor_le_refl [simp]: "vendor_le w w"
  by (simp add: vendor_le_def)

lemma vendor_le_trans:
  assumes "vendor_le a b" "vendor_le b c"
  shows "vendor_le a c"
proof -
  note t = table_le_trans
  show ?thesis
    using assms unfolding vendor_le_def by (auto intro: t)
qed

text \<open>A step of one table, with whatever it appends to the logs.\<close>

definition stepped :: "vendor_world \<Rightarrow> vendor_world \<Rightarrow> bool" where
  "stepped w w' = (vendor_ok w \<longrightarrow> vendor_ok w' \<and> vendor_le w w')"

lemma stepped_refl [simp]: "stepped w w"
  by (simp add: stepped_def)

lemma stepped_trans: "stepped a b \<Longrightarrow> stepped b c \<Longrightarrow> stepped a c"
  using vendor_le_trans by (auto simp: stepped_def)

lemma with_events_Inr:
  "with_events es r = Inr (w', a) \<longleftrightarrow> (\<exists>v. r = Inr (v, a) \<and> w' = v\<lparr>vw_outbox := vw_outbox v @ es\<rparr>)"
  by (auto simp: with_events_def res_bind_Inr split: prod.splits)

lemma uow_add_profile_Inr:
  assumes "uow_add_profile now d w = Inr (w', a)"
  obtains r where "r = (profile_pre_save now d)\<lparr>vp_events := []\<rparr>"
    "\<forall>x \<in> set (vw_profiles w). vp_id x \<noteq> vp_id r \<and> vp_user_id x \<noteq> vp_user_id r" "profile_to_domain r = Inr a"
    "w' = w\<lparr>vw_profiles := vw_profiles w @ [r], vw_outbox := vw_outbox w @ map ProfileEvent (vp_events d),
        vw_projections := vw_projections w'\<rparr>"
  using assms
  by (auto simp: uow_add_profile_def with_events_Inr profile_add_def res_bind_Inr insert_row_Inr Let_def
      enqueue_projection_def split: prod.splits)

lemma uow_save_profile_Inr:
  assumes "uow_save_profile now k d w = Inr (w', a)"
  obtains r where "filter (profile_target d k) (vw_profiles w) = [r]" "profile_to_domain (saved_profile d r) = Inr a"
    "w' = w\<lparr>vw_profiles := replaced (profile_target d k) (saved_profile d) (vw_profiles w),
        vw_outbox := vw_outbox w @ map ProfileEvent (vp_events d), vw_projections := vw_projections w'\<rparr>"
  using assms
  by (auto simp: uow_save_profile_def with_events_Inr profile_save_def res_bind_Inr replace_row_Inr
      enqueue_projection_def split: prod.splits)

lemma uow_add_package_Inr:
  assumes "uow_add_package now d w = Inr (w', a)"
  obtains r where "r = (package_pre_save now d)\<lparr>sp_events := []\<rparr>" "profile_row (sp_vendor_id d) w \<noteq> None"
    "\<forall>x \<in> set (vw_packages w). sp_id x \<noteq> sp_id r" "package_to_domain r = Inr a"
    "w' = w\<lparr>vw_packages := vw_packages w @ [r], vw_outbox := vw_outbox w @ map PackageEvent (sp_events d)\<rparr>"
  using assms
  by (auto simp: uow_add_package_def with_events_Inr package_add_def res_bind_Inr insert_row_Inr require_vendor_def
      split: prod.splits if_split_asm)

lemma uow_save_package_Inr:
  assumes "uow_save_package k d w = Inr (w', a)"
  obtains r where "filter (package_target d k) (vw_packages w) = [r]" "package_to_domain (saved_package d r) = Inr a"
    "w' = w\<lparr>vw_packages := replaced (package_target d k) (saved_package d) (vw_packages w),
        vw_outbox := vw_outbox w @ map PackageEvent (sp_events d)\<rparr>"
  using assms
  by (auto simp: uow_save_package_def with_events_Inr package_save_def res_bind_Inr replace_row_Inr
      split: prod.splits)

lemma uow_add_media_Inr:
  assumes "uow_add_media now d w = Inr (w', a)"
  obtains r where "r = (media_pre_save now (vw_media w) d)\<lparr>pm_events := []\<rparr>" "\<not> order_taken (vw_media w) r"
    "\<forall>x \<in> set (vw_media w). pm_id x \<noteq> pm_id r" "media_to_domain r = Inr a"
    "w' = w\<lparr>vw_media := vw_media w @ [r], vw_outbox := vw_outbox w @ map MediaEvent (pm_events d)\<rparr>"
  using assms
  by (auto simp: uow_add_media_def with_events_Inr media_add_def res_bind_Inr insert_row_Inr media_fault_def
      split: prod.splits if_split_asm)

lemma uow_save_media_Inr:
  assumes "uow_save_media k d w = Inr (w', a)"
  obtains r where "filter (media_target d k) (vw_media w) = [r]" "media_to_domain (saved_media d r) = Inr a"
    "\<not> order_taken (vw_media w) (saved_media d r)"
    "w' = w\<lparr>vw_media := replaced (media_target d k) (saved_media d) (vw_media w),
        vw_outbox := vw_outbox w @ map MediaEvent (pm_events d)\<rparr>"
  using assms
  by (auto simp: uow_save_media_def with_events_Inr media_save_def res_bind_Inr replace_row_Inr media_fault_def
      split: prod.splits if_split_asm)

lemma uow_add_inquiry_Inr:
  assumes "uow_add_inquiry d w = Inr (w', a)"
  obtains r where "r = d\<lparr>iq_events := []\<rparr>" "\<forall>x \<in> set (vw_inquiries w). iq_id x \<noteq> iq_id r"
    "inquiry_to_domain r = Inr a"
    "w' = w\<lparr>vw_inquiries := vw_inquiries w @ [r], vw_outbox := vw_outbox w @ map InquiryEvent (iq_events d)\<rparr>"
  using assms
  by (auto simp: uow_add_inquiry_def with_events_Inr inquiry_add_def res_bind_Inr insert_row_Inr split: prod.splits)

lemma uow_save_inquiry_Inr:
  assumes "uow_save_inquiry k d w = Inr (w', a)"
  obtains r where "filter (inquiry_target d k) (vw_inquiries w) = [r]" "inquiry_to_domain (saved_inquiry d r) = Inr a"
    "w' = w\<lparr>vw_inquiries := replaced (inquiry_target d k) (saved_inquiry d) (vw_inquiries w),
        vw_outbox := vw_outbox w @ map InquiryEvent (iq_events d)\<rparr>"
  using assms
  by (auto simp: uow_save_inquiry_def with_events_Inr inquiry_save_def res_bind_Inr replace_row_Inr split: prod.splits)

lemma target_saved:
  "profile_target d k r \<Longrightarrow> vp_id (saved_profile d r) = vp_id r \<and> vp_user_id (saved_profile d r) = vp_user_id r \<and>
     vp_version r < vp_version (saved_profile d r)"
  "package_target e k p \<Longrightarrow> sp_id (saved_package e p) = sp_id p \<and> sp_vendor_id (saved_package e p) = sp_vendor_id p \<and>
     sp_version p < sp_version (saved_package e p)"
  "media_target f k m \<Longrightarrow> pm_id (saved_media f m) = pm_id m \<and> pm_vendor_id (saved_media f m) = pm_vendor_id m \<and>
     pm_version m < pm_version (saved_media f m)"
  "inquiry_target g k i \<Longrightarrow> iq_id (saved_inquiry g i) = iq_id i \<and> iq_vendor_id (saved_inquiry g i) = iq_vendor_id i \<and>
     iq_version i < iq_version (saved_inquiry g i)"
  by (simp_all add: profile_target_def saved_profile_def package_target_def saved_package_def media_target_def
      saved_media_def inquiry_target_def saved_inquiry_def)

lemma stepped_profiles:
  assumes "vendor_ok w \<Longrightarrow> table_ok vp_id profile_to_domain rows \<and> table_le vp_id vp_user_id vp_version (vw_profiles w) rows"
  shows "stepped w (w\<lparr>vw_profiles := rows, vw_outbox := vw_outbox w @ es, vw_projections := ps\<rparr>)"
  using assms by (auto simp: stepped_def vendor_ok_def vendor_le_def)

lemma stepped_packages:
  assumes "vendor_ok w \<Longrightarrow> table_ok sp_id package_to_domain rows \<and> table_le sp_id sp_vendor_id sp_version (vw_packages w) rows"
  shows "stepped w (w\<lparr>vw_packages := rows, vw_outbox := vw_outbox w @ es\<rparr>)"
  using assms by (auto simp: stepped_def vendor_ok_def vendor_le_def)

lemma stepped_media:
  assumes "vendor_ok w \<Longrightarrow> table_ok pm_id media_to_domain rows \<and> table_le pm_id pm_vendor_id pm_version (vw_media w) rows"
  shows "stepped w (w\<lparr>vw_media := rows, vw_outbox := vw_outbox w @ es\<rparr>)"
  using assms by (auto simp: stepped_def vendor_ok_def vendor_le_def)

lemma stepped_inquiries:
  assumes "vendor_ok w \<Longrightarrow> table_ok iq_id inquiry_to_domain rows \<and> table_le iq_id iq_vendor_id iq_version (vw_inquiries w) rows"
  shows "stepped w (w\<lparr>vw_inquiries := rows, vw_outbox := vw_outbox w @ es\<rparr>)"
  using assms by (auto simp: stepped_def vendor_ok_def vendor_le_def)

lemma stepped_uow_add_profile: "uow_add_profile now d w = Inr (w', a) \<Longrightarrow> stepped w w'"
  by (erule uow_add_profile_Inr, erule ssubst)
     (rule stepped_profiles, auto simp: vendor_ok_def intro!: append_ok)

lemma stepped_uow_save_profile: "uow_save_profile now k d w = Inr (w', a) \<Longrightarrow> stepped w w'"
  by (erule uow_save_profile_Inr, erule ssubst)
     (rule stepped_profiles, auto simp: vendor_ok_def target_saved intro!: replaced_ok map_hit_le)

lemma stepped_uow_add_package: "uow_add_package now d w = Inr (w', a) \<Longrightarrow> stepped w w'"
  by (erule uow_add_package_Inr, erule ssubst)
     (rule stepped_packages, auto simp: vendor_ok_def intro!: append_ok)

lemma stepped_uow_save_package: "uow_save_package k d w = Inr (w', a) \<Longrightarrow> stepped w w'"
  by (erule uow_save_package_Inr, erule ssubst)
     (rule stepped_packages, auto simp: vendor_ok_def target_saved intro!: replaced_ok map_hit_le)

lemma stepped_uow_add_media: "uow_add_media now d w = Inr (w', a) \<Longrightarrow> stepped w w'"
  by (erule uow_add_media_Inr, erule ssubst)
     (rule stepped_media, auto simp: vendor_ok_def intro!: append_ok)

lemma stepped_uow_save_media: "uow_save_media k d w = Inr (w', a) \<Longrightarrow> stepped w w'"
  by (erule uow_save_media_Inr, erule ssubst)
     (rule stepped_media, auto simp: vendor_ok_def target_saved intro!: replaced_ok map_hit_le)

lemma stepped_uow_add_inquiry: "uow_add_inquiry d w = Inr (w', a) \<Longrightarrow> stepped w w'"
  by (erule uow_add_inquiry_Inr, erule ssubst)
     (rule stepped_inquiries, auto simp: vendor_ok_def intro!: append_ok)

lemma stepped_uow_save_inquiry: "uow_save_inquiry k d w = Inr (w', a) \<Longrightarrow> stepped w w'"
  by (erule uow_save_inquiry_Inr, erule ssubst)
     (rule stepped_inquiries, auto simp: vendor_ok_def target_saved intro!: replaced_ok map_hit_le)

section \<open>Every command is a step\<close>

lemma execute_transition_Inr:
  assumes "execute_transition auth loader ident version k t save to_dto w = Inr (w', d)"
  obtains a b where "auth w = Inr ()" "loader w = Inr a" "version a = k" "t a = Inr b"
    "version b = version a \<and> w' = w \<and> d = to_dto b \<or>
     version b \<noteq> version a \<and> (\<exists>c. save (version a) b w = Inr (w', c) \<and> d = to_dto c)"
  using assms
  by (auto simp: execute_transition_def prepare_transition_def save_if_changed_def res_bind_Inr
      split: prod.splits if_split_asm)

lemma stepped_transition:
  assumes "execute_transition auth loader ident version k t save to_dto w = Inr (w', d)"
    and "\<And>k b c. save k b w = Inr (w', c) \<Longrightarrow> stepped w w'"
  shows "stepped w w'"
  using assms by (elim execute_transition_Inr) auto

lemmas profile_handler_defs = update_vendor_profile_def update_vendor_branding_media_def submit_profile_def
  approve_vendor_def reject_vendor_def suspend_vendor_def reinstate_vendor_def

lemmas package_handler_defs = update_service_package_def submit_service_package_for_approval_def
  approve_service_package_def reject_service_package_def restore_service_package_for_review_def
  deactivate_service_package_def activate_service_package_def

lemmas media_handler_defs = queue_portfolio_media_def mark_portfolio_media_processing_def
  mark_portfolio_media_uploaded_def update_portfolio_caption_def delete_portfolio_image_def

text \<open>What a request of a family does, in one form.\<close>

fun profile_issuer :: "uuid \<Rightarrow> profile_request \<Rightarrow> issuer" where
  "profile_issuer u (UpdateProfile _) = Owner u"
| "profile_issuer u (UpdateBranding _ _ _ _) = Owner u"
| "profile_issuer u SubmitProfile = Owner u"
| "profile_issuer u _ = Moderator u"

fun package_issuer :: "uuid \<Rightarrow> package_request \<Rightarrow> issuer" where
  "package_issuer u ApprovePackage = Moderator u"
| "package_issuer u (RejectPackage _) = Moderator u"
| "package_issuer u _ = Owner u"

lemma lift_domain_Inr [simp]: "lift_domain r = Inr x \<longleftrightarrow> r = Inr x"
  by (auto simp: lift_domain_def split: sum.splits)

lemma lift_domain_simps [simp]: "lift_domain (Inr x) = Inr x" "lift_domain (Inl e) = Inl (Domain e)"
  by (simp_all add: lift_domain_def)

lemma translate_Inr [simp]: "translate_update_validation r = Inr x \<longleftrightarrow> r = Inr x"
  by (auto simp: translate_update_validation_def split: sum.splits vendor_exn.splits if_splits)

lemma run_profile_transition:
  obtains t where "run_profile q user v k r w = profile_transition (profile_issuer user r) v k t (rq_clock q 1) w"
    "\<And>p p'. t p = Inr p' \<Longrightarrow> \<exists>op. profile_call op p = Inr p' \<and> ((\<exists>n. op = PfApprove n) \<longrightarrow> r = ApproveVendor) \<and>
       ((\<exists>n. op = PfReinstate n) \<longrightarrow> r = ReinstateVendor)"
proof (cases r)
  case (UpdateProfile ch)
  show ?thesis by (rule that, simp add: UpdateProfile update_vendor_profile_def del: profile_call.simps, simp only: lift_domain_Inr translate_Inr, rule exI, rule conjI, assumption, simp add: UpdateProfile)
next
  case (UpdateBranding a b c d)
  show ?thesis by (rule that, simp add: UpdateBranding update_vendor_branding_media_def del: profile_call.simps, simp only: lift_domain_Inr translate_Inr, rule exI, rule conjI, assumption, simp add: UpdateBranding)
next
  case SubmitProfile
  show ?thesis by (rule that, simp add: SubmitProfile submit_profile_def del: profile_call.simps, simp only: lift_domain_Inr translate_Inr, rule exI, rule conjI, assumption, simp add: SubmitProfile)
next
  case ApproveVendor
  show ?thesis by (rule that, simp add: ApproveVendor approve_vendor_def del: profile_call.simps, simp only: lift_domain_Inr translate_Inr, rule exI, rule conjI, assumption, simp add: ApproveVendor)
next
  case (RejectVendor x)
  show ?thesis by (rule that, simp add: RejectVendor reject_vendor_def del: profile_call.simps, simp only: lift_domain_Inr translate_Inr, rule exI, rule conjI, assumption, simp add: RejectVendor)
next
  case (SuspendVendor x)
  show ?thesis by (rule that, simp add: SuspendVendor suspend_vendor_def del: profile_call.simps, simp only: lift_domain_Inr translate_Inr, rule exI, rule conjI, assumption, simp add: SuspendVendor)
next
  case ReinstateVendor
  show ?thesis by (rule that, simp add: ReinstateVendor reinstate_vendor_def del: profile_call.simps, simp only: lift_domain_Inr translate_Inr, rule exI, rule conjI, assumption, simp add: ReinstateVendor)
qed

lemma run_package_transition:
  obtains t where "run_package q user v i k r w = package_transition (package_issuer user r) v i k t w"
    "\<And>p p'. t p = Inr p' \<Longrightarrow> \<exists>op. package_call op p = Inr p' \<and> ((\<exists>n. op = PApprove n) \<longrightarrow> r = ApprovePackage)"
proof (cases r)
  case (UpdatePackage n d p c tier)
  show ?thesis by (rule that, simp add: UpdatePackage update_service_package_def del: package_call.simps, simp only: lift_domain_Inr translate_Inr, rule exI, rule conjI, assumption, simp add: UpdatePackage)
next
  case SubmitPackage
  show ?thesis by (rule that, simp add: SubmitPackage submit_service_package_for_approval_def del: package_call.simps, simp only: lift_domain_Inr translate_Inr, rule exI, rule conjI, assumption, simp add: SubmitPackage)
next
  case ApprovePackage
  show ?thesis by (rule that, simp add: ApprovePackage approve_service_package_def del: package_call.simps, simp only: lift_domain_Inr translate_Inr, rule exI, rule conjI, assumption, simp add: ApprovePackage)
next
  case (RejectPackage x)
  show ?thesis by (rule that, simp add: RejectPackage reject_service_package_def del: package_call.simps, simp only: lift_domain_Inr translate_Inr, rule exI, rule conjI, assumption, simp add: RejectPackage)
next
  case RestorePackage
  show ?thesis by (rule that, simp add: RestorePackage restore_service_package_for_review_def del: package_call.simps, simp only: lift_domain_Inr translate_Inr, rule exI, rule conjI, assumption, simp add: RestorePackage)
next
  case DeactivatePackage
  show ?thesis by (rule that, simp add: DeactivatePackage deactivate_service_package_def del: package_call.simps, simp only: lift_domain_Inr translate_Inr, rule exI, rule conjI, assumption, simp add: DeactivatePackage)
next
  case ActivatePackage
  show ?thesis by (rule that, simp add: ActivatePackage activate_service_package_def del: package_call.simps, simp only: lift_domain_Inr translate_Inr, rule exI, rule conjI, assumption, simp add: ActivatePackage)
qed

lemma run_media_transition:
  obtains t to_dto where "run_media q user v i k r w = media_transition (Owner user) v i k t to_dto w"
    "\<And>p p'. t p = Inr p' \<Longrightarrow> \<exists>op. media_call op p = Inr p'"
proof (cases r)
  case QueueMedia
  show ?thesis by (rule that, simp add: QueueMedia queue_portfolio_media_def del: media_call.simps, simp only: lift_domain_Inr translate_Inr, rule exI, assumption)
next
  case ProcessMedia
  show ?thesis by (rule that, simp add: ProcessMedia mark_portfolio_media_processing_def del: media_call.simps, simp only: lift_domain_Inr translate_Inr, rule exI, assumption)
next
  case (MediaUploaded a b)
  show ?thesis by (rule that, simp add: MediaUploaded mark_portfolio_media_uploaded_def del: media_call.simps, simp only: lift_domain_Inr translate_Inr, rule exI, assumption)
next
  case (CaptionMedia c)
  show ?thesis by (rule that, simp add: CaptionMedia update_portfolio_caption_def del: media_call.simps, simp only: lift_domain_Inr translate_Inr, rule exI, assumption)
next
  case DeleteMedia
  show ?thesis by (rule that, simp add: DeleteMedia delete_portfolio_image_def del: media_call.simps, simp only: lift_domain_Inr translate_Inr, rule exI, assumption)
qed

lemma stepped_profile: "run_profile q user v k r w = Inr (w', d) \<Longrightarrow> stepped w w'"
  by (rule run_profile_transition [of q user v k r w])
     (auto simp: profile_transition_def elim!: stepped_transition intro: stepped_uow_save_profile)

lemma stepped_package: "run_package q user v i k r w = Inr (w', d) \<Longrightarrow> stepped w w'"
  by (rule run_package_transition [of q user v i k r w])
     (auto simp: package_transition_def elim!: stepped_transition intro: stepped_uow_save_package)

lemma stepped_media_request: "run_media q user v i k r w = Inr (w', d) \<Longrightarrow> stepped w w'"
  by (rule run_media_transition [of q user v i k r w])
     (auto simp: media_transition_def elim!: stepped_transition intro: stepped_uow_save_media)

lemma stepped_mark_read: "mark_read q user v i k w = Inr (w', d) \<Longrightarrow> stepped w w'"
  unfolding mark_read_def by (erule stepped_transition) (rule stepped_uow_save_inquiry)

lemma stepped_keys: "stepped w (w\<lparr>vw_keys := ks\<rparr>)"
  by (simp add: stepped_def vendor_ok_def vendor_le_def)

lemma stepped_admission: "assert_inquiry_allowed t u r v p w = Inr w' \<Longrightarrow> stepped w w'"
  by (auto simp: assert_inquiry_allowed_def Let_def stepped_def vendor_ok_def vendor_le_def split: if_split_asm)

lemma create_profile_Inr:
  assumes "create_profile q actor n w = Inr (w', d)"
  obtains p s where "uow_add_profile (rq_clock q 2) p w = Inr (w', s)" "d = ProfileDTO (to_profile_dto s)"
    "create_draft (rq_new_id q) (rq_clock q 0) (rq_clock q 1) actor (np_business_name n) (np_category n)
       (np_description n) (np_service_area n) (np_contact_email n) (np_contact_phone n) (np_custom_category n)
       (np_website n) = Inr p"
proof -
  from assms obtain p where p: "create_draft (rq_new_id q) (rq_clock q 0) (rq_clock q 1) actor (np_business_name n)
      (np_category n) (np_description n) (np_service_area n) (np_contact_email n) (np_contact_phone n)
      (np_custom_category n) (np_website n) = Inr p"
    and c: "(case uow_add_profile (rq_clock q 2) p w of
        Inl e \<Rightarrow> Inl (if e = DuplicateProfile then profile_exists_conflict else e)
      | Inr (w', s) \<Rightarrow> Inr (w', ProfileDTO (to_profile_dto s))) = Inr (w', d)"
    unfolding create_profile_def by (auto simp: res_bind_Inr split: if_split_asm)
  from c obtain s where "uow_add_profile (rq_clock q 2) p w = Inr (w', s)" "d = ProfileDTO (to_profile_dto s)"
    by (cases "uow_add_profile (rq_clock q 2) p w") auto
  with p that show thesis by blast
qed

lemma create_service_package_Inr:
  assumes "create_service_package q v n w = Inr (w', d)"
  obtains p s where "uow_add_package (rq_clock q 2) p w = Inr (w', s)" "d = PackageDTO (to_package_dto s)"
    "create_package (rq_new_id q) (rq_clock q 0) (rq_clock q 1) v (nk_name n) (nk_description n) (nk_price n)
       (nk_currency n) (nk_tier n) = Inr p"
  using assms by (auto simp: create_service_package_def res_bind_Inr split: if_split_asm sum.splits prod.splits)

lemma add_portfolio_image_Inr:
  assumes "add_portfolio_image q v n w = Inr (w', d)"
  obtains m s where "uow_add_media (rq_clock q 2) m w = Inr (w', s)" "d = MediaDTO (to_image_dto s)"
    "image_factory q v n (next_active_order v (vw_media w)) = Inr m" "pm_vendor_id m = v"
  using assms
  by (auto simp: add_portfolio_image_def create_at_next_order_def res_bind_Inr split: if_split_asm sum.splits prod.splits)

lemma send_inquiry_Inr:
  assumes "send_inquiry idig q actor v n w = Inr (w', d)"
  obtains w1 i s where "assert_inquiry_allowed (rq_clock q 0) (rq_clock q 1) actor v (idig n) w = Inr w1"
    "uow_add_inquiry i w1 = Inr (w', s)" "d = InquiryDTO (to_inquiry_dto s)"
    "create_inquiry (rq_new_id q) (rq_today q) (rq_clock q 2) v (nq_client_name n) (nq_client_email n) (nq_message n)
       (Some actor) (nq_client_phone n) (nq_event_date n) = Inr i"
  using assms by (auto simp: send_inquiry_def res_bind_Inr split: sum.splits prod.splits)

lemma stepped_operation: "creation_operation idig q actor c w = Inr (w', d) \<Longrightarrow> stepped w w'"
  by (cases c)
     (auto elim!: create_profile_Inr create_service_package_Inr add_portfolio_image_Inr send_inquiry_Inr
        intro: stepped_uow_add_profile stepped_uow_add_package stepped_uow_add_media
          stepped_trans [OF stepped_admission stepped_uow_add_inquiry])

text \<open>What a key that is not completed becomes when it is reserved.\<close>

definition reserved_keys ::
  "string \<Rightarrow> uuid \<Rightarrow> string \<Rightarrow> string \<Rightarrow> idempotency_record list \<Rightarrow> idempotency_record list \<Rightarrow> bool" where
  "reserved_keys scope actor key payload ks ks' =
     ((find (has_key scope actor key) ks = None \<and>
        (\<exists>r. has_key scope actor key r \<and> ir_digest r = payload \<and> ks' = ks @ [r])) \<or>
      (\<exists>r. find (has_key scope actor key) ks = Some r \<and> ir_status r = KeyFailed \<and>
        ks' = map (\<lambda>x. if has_key scope actor key x then r\<lparr>ir_status := KeyInProgress\<rparr> else x) ks))"

lemma reserve_Inr:
  assumes "reserve scope actor key payload w = Inr (w1, r, created)"
  obtains (stored) "find (has_key scope actor key) (vw_keys w) = Some r" "ir_digest r = payload" "w1 = w" "\<not> created"
      "ir_status r \<noteq> KeyFailed"
  | (fresh) ks where "w1 = w\<lparr>vw_keys := ks\<rparr>" "created" "ir_status r = KeyInProgress"
      "reserved_keys scope actor key payload (vw_keys w) ks"
proof (cases "find (has_key scope actor key) (vw_keys w)")
  case None
  show thesis
  proof (rule fresh)
    show "reserved_keys scope actor key payload (vw_keys w) (vw_keys w @ [r])"
      using assms None by (auto simp: reserve_def Let_def reserved_keys_def has_key_def)
  qed (use assms None in \<open>auto simp: reserve_def Let_def\<close>)
next
  case (Some x)
  show thesis
  proof (cases "ir_status x = KeyFailed")
    case True
    show thesis
    proof (rule fresh)
      show "reserved_keys scope actor key payload (vw_keys w)
          (map (\<lambda>y. if has_key scope actor key y then x\<lparr>ir_status := KeyInProgress\<rparr> else y) (vw_keys w))"
        using Some True by (auto simp: reserved_keys_def)
    qed (use assms Some True in \<open>auto simp: reserve_def Let_def split: if_split_asm\<close>)
  next
    case False
    with assms Some show thesis by (intro stored) (auto simp: reserve_def split: if_split_asm)
  qed
qed

lemma execute_once_Inr:
  assumes "execute_once scope actor key payload operation w = Inr (w', d)"
  obtains (replay) r stored where "find (has_key scope actor key) (vw_keys w) = Some r" "ir_digest r = payload"
      "ir_status r = KeyCompleted" "ir_result r = Some stored" "deserialize_result scope stored = Inr d" "w' = w"
  | (run) ks w2 where "operation (w\<lparr>vw_keys := ks\<rparr>) = Inr (w2, d)"
      "reserved_keys scope actor key payload (vw_keys w) ks"
      "w' = w2\<lparr>vw_keys := map (\<lambda>x. if has_key scope actor key x
         then x\<lparr>ir_status := KeyCompleted, ir_result := Some (serialize_result d)\<rparr> else x) (vw_keys w2)\<rparr>"
proof -
  from assms obtain w1 r created where reserved: "reserve scope actor key payload w = Inr (w1, r, created)"
    unfolding execute_once_def res_bind_Inr by auto
  show thesis
    using reserved
  proof (cases rule: reserve_Inr)
    case stored
    with assms reserved have "ir_status r = KeyCompleted"
      by (cases "ir_status r") (auto simp: execute_once_def res_bind_def)
    moreover from this assms reserved obtain s where "ir_result r = Some s"
      by (cases "ir_result r") (auto simp: execute_once_def res_bind_def)
    moreover from calculation assms reserved have "deserialize_result scope s = Inr d \<and> w' = w1"
      by (cases "deserialize_result scope s") (auto simp: execute_once_def res_bind_def)
    ultimately show thesis using replay stored by blast
  next
    case (fresh ks)
    with assms reserved show thesis
      by (cases "operation w1") (auto simp: execute_once_def res_bind_def intro: run)
  qed
qed

lemma stepped_execute_once:
  assumes "execute_once scope actor key payload operation w = Inr (w', d)"
    and "\<And>w w' d. operation w = Inr (w', d) \<Longrightarrow> stepped w w'"
  shows "stepped w w'"
  using assms(1)
proof (cases rule: execute_once_Inr)
  case (run ks w2)
  from stepped_trans [OF stepped_trans [OF stepped_keys assms(2) [OF run(1)]] stepped_keys]
  show ?thesis unfolding run(3) .
qed simp

lemma stepped_creation: "run_creation digest idig q actor key c w = Inr (w', d) \<Longrightarrow> stepped w w'"
  by (auto simp: run_creation_def res_bind_Inr elim!: stepped_execute_once intro: stepped_operation)

section \<open>Reordering\<close>

text \<open>What a list of moves does to the rows: each image that is moved once gets its change.\<close>

definition moved :: "('m \<Rightarrow> uuid) \<Rightarrow> ('m \<Rightarrow> media \<Rightarrow> media) \<Rightarrow> 'm list \<Rightarrow> media \<Rightarrow> media" where
  "moved ident f ms r = (case find (\<lambda>m. ident m = pm_id r) ms of None \<Rightarrow> r | Some m \<Rightarrow> f m r)"

lemma move_row_Inr:
  assumes "move_row vendor versions i f rows = Inr rows'" "distinct (map pm_id rows)"
  shows "rows' = map (\<lambda>r. if pm_id r = i then f r else r) rows" "i \<in> set (map pm_id rows)"
    "\<forall>r \<in> set rows. pm_id r = i \<longrightarrow> \<not> order_taken rows (f r)"
proof -
  let ?e = "case map_of versions i of None \<Rightarrow> 0 | Some v \<Rightarrow> v"
  let ?hit = "\<lambda>r. pm_id r = i \<and> pm_vendor_id r = vendor \<and> pm_version r = ?e \<and> live_media r"
  from assms(1) obtain r where r: "filter ?hit rows = [r]" "rows' = replaced ?hit f rows" "\<not> order_taken rows (f r)"
    by (auto simp: move_row_def Let_def split: list.split_asm if_split_asm)
  from filter_single [OF r(1)] have mem: "r \<in> set rows" "?hit r" by blast+
  have same: "x = r" if "x \<in> set rows" "pm_id x = i" for x
    using assms(2) mem that by (auto simp: distinct_map dest: inj_onD)
  have "?hit x \<longleftrightarrow> pm_id x = i" if "x \<in> set rows" for x
    using same [OF that] mem(2) by auto
  then show "rows' = map (\<lambda>r. if pm_id r = i then f r else r) rows"
    unfolding r(2) replaced_def by simp
  from mem show "i \<in> set (map pm_id rows)" by auto
  show "\<forall>r \<in> set rows. pm_id r = i \<longrightarrow> \<not> order_taken rows (f r)" using same r(3) by auto
qed

lemma moved_Cons:
  assumes "\<And>m r. pm_id (f m r) = pm_id r" "ident m \<notin> ident ` set ms"
  shows "moved ident f ms (if pm_id r = ident m then f m r else r) = moved ident f (m # ms) r"
proof (cases "pm_id r = ident m")
  case True
  with assms(2) have "find (\<lambda>x. ident x = pm_id r) ms = None"
    by (auto simp: find_None_iff image_iff)
  with True assms(1) show ?thesis by (simp add: moved_def)
qed (simp add: moved_def)

lemma moves_Inr:
  assumes "each_res (\<lambda>m. move_row vendor versions (ident m) (f m)) ms rows = Inr rows'"
    and "distinct (map pm_id rows)" "distinct (map ident ms)" "\<And>m r. pm_id (f m r) = pm_id r"
  shows "rows' = map (moved ident f ms) rows"
  using assms(1-3)
proof (induction ms arbitrary: rows)
  case Nil
  then show ?case by (simp add: moved_def [abs_def])
next
  case (Cons m ms)
  from Cons.prems(1) obtain rows1 where m: "move_row vendor versions (ident m) (f m) rows = Inr rows1"
    and ms: "each_res (\<lambda>m. move_row vendor versions (ident m) (f m)) ms rows1 = Inr rows'"
    by (auto simp: res_bind_Inr)
  note rows1 = move_row_Inr(1) [OF m Cons.prems(2)]
  have ids: "map pm_id rows1 = map pm_id rows"
    unfolding rows1 by (simp add: assms(4) cong: map_cong)
  from Cons.IH [OF ms] ids Cons.prems(2,3) have "rows' = map (moved ident f ms) rows1" by simp
  also have "\<dots> = map (moved ident f (m # ms)) rows"
  proof -
    have "moved ident f ms (if pm_id r = ident m then f m r else r) = moved ident f (m # ms) r" for r
      using Cons.prems(3) by (intro moved_Cons assms(4)) simp
    then show ?thesis unfolding rows1 by simp
  qed
  finally show ?case .
qed

definition reorder_placed :: "media \<Rightarrow> media \<Rightarrow> media" where
  "reorder_placed m r = r\<lparr>pm_order := pm_order m, pm_version := pm_version r + 1, pm_updated_at := pm_updated_at m\<rparr>"

lemma find_enumerate:
  "map_option snd (find (\<lambda>x. f (snd x) = i) (enumerate n ms)) = find (\<lambda>m. f m = i) ms"
  by (induction ms arbitrary: n) auto

lemma moved_twice:
  assumes "\<And>m k r. h m (g (k, m) r) = h m r" "\<And>x r. pm_id (g x r) = pm_id r"
  shows "moved pm_id h ms (moved (\<lambda>x. pm_id (snd x)) g (enumerate n ms) r) = moved pm_id h ms r"
proof (cases "find (\<lambda>x. pm_id (snd x) = pm_id r) (enumerate n ms)")
  case (Some x)
  with find_enumerate [of pm_id "pm_id r" n ms] have m: "find (\<lambda>m. pm_id m = pm_id r) ms = Some (snd x)" by simp
  from assms(1) [of "snd x" "fst x" r] Some m assms(2) show ?thesis by (simp add: moved_def)
qed (simp add: moved_def)

lemma persist_reorder_Inr:
  assumes "persist_reorder vendor images versions w = Inr (w', r)" "distinct (map pm_id (vw_media w))"
  shows "w' = w\<lparr>vw_media := map (moved pm_id reorder_placed images) (vw_media w)\<rparr>"
proof -
  let ?f = "\<lambda>start (x :: nat \<times> media) r. r\<lparr>pm_order := start + int (fst x)\<rparr>"
  from assms(1) obtain start rows1 rows2 where d: "distinct (map pm_id images)"
    and p: "each_res (\<lambda>x. move_row vendor versions (pm_id (snd x)) (?f start x)) (enumerate 0 images) (vw_media w) = Inr rows1"
      "each_res (\<lambda>m. move_row vendor versions (pm_id m) (reorder_placed m)) images rows1 = Inr rows2"
      "w' = w\<lparr>vw_media := rows2\<rparr>"
    by (auto simp: persist_reorder_def res_bind_Inr Let_def case_prod_unfold reorder_placed_def [abs_def]
        split: if_split_asm)
  have ids: "map (\<lambda>x. pm_id (snd x)) (enumerate 0 images) = map pm_id images"
    by (metis map_map comp_apply map_snd_enumerate map_cong)
  from moves_Inr [OF p(1) assms(2)] ids d
  have rows1: "rows1 = map (moved (\<lambda>x. pm_id (snd x)) (?f start) (enumerate 0 images)) (vw_media w)" by simp
  have "map pm_id rows1 = map pm_id (vw_media w)"
    unfolding rows1 by (simp add: moved_def split: option.splits)
  with moves_Inr [OF p(2) _ d] assms(2) have "rows2 = map (moved pm_id reorder_placed images) rows1"
    by (simp add: reorder_placed_def)
  also have "\<dots> = map (moved pm_id reorder_placed images) (vw_media w)"
    unfolding rows1 by (simp add: moved_twice reorder_placed_def)
  finally show ?thesis using p(3) by simp
qed

lemma reorder_call:
  assumes "media_to_domain r = Inr p" "media_call (MReorder t k) p = Inr m"
  shows "is_ok (media_to_domain (reorder_placed m r))" "pm_id m = pm_id r" "pm_order m = k" "pm_order p = pm_order r"
proof -
  let ?r = "r\<lparr>pm_events := []\<rparr>" and ?c = "p\<lparr>pm_order := k, pm_updated_at := Aware t\<rparr>"
  from assms(1) have p: "p = media_normal ?r" "\<forall>(f, x) \<in> set (media_field_checks ?r). x = None"
    "\<forall>(f, x) \<in> set (media_cross_checks p). x = None" "media_validate ?r = Inr p"
    by (auto simp: media_to_domain_def media_validate_Inr)
  from media_validate_valid [OF p(4)] have n: "media_normal p = p" by (simp add: media_valid_def media_validate_Inr)
  from assms(2) obtain event where "media_commit event p ?c = Inr m" by (auto simp: reorder_media_def res_bind_Inr)
  then obtain c where c: "media_validate ?c = Inr c"
    "commit_candidate media_validate pm_version pm_events media_stamp event p c = Inr m"
    by (auto simp: media_commit_def res_bind_Inr)
  have "media_normal ?c = (media_normal p)\<lparr>pm_order := k, pm_updated_at := Aware t\<rparr>" by (simp add: media_normal_def)
  with c(1) n have cc: "c = ?c" "\<forall>(f, x) \<in> set (media_field_checks ?c). x = None" by (auto simp: media_validate_Inr)
  from media_aggregate.commit_ok(4) [OF c] obtain v es where m: "m = media_stamp v es ?c" unfolding cc(1) by blast
  from media_aggregate.commit_ok(2) [OF c] m p(1) have v: "v = pm_version r + 1"
    by (simp add: media_stamp_def)
  show "pm_id m = pm_id r" "pm_order m = k" using m p(1) by (simp_all add: media_stamp_def)
  show "pm_order p = pm_order r" using p(1) by (simp add: media_normal_def)
  let ?q = "(reorder_placed m r)\<lparr>pm_events := []\<rparr>"
  have q: "?q = ?r\<lparr>pm_order := k, pm_version := v, pm_updated_at := Aware t\<rparr>"
    using m v by (simp add: reorder_placed_def media_stamp_def)
  have "0 \<le> pm_version r" using p(2) by (simp add: media_field_checks_def validate_int_def split: if_splits)
  have "fault (validate_int (Some 0) (Some max_portfolio_order) k) = None"
    using cc(2) by (simp add: media_field_checks_def)
  with \<open>0 \<le> pm_version r\<close> have "\<forall>(f, x) \<in> set (media_field_checks ?q). x = None"
    unfolding q using p(2) v
    by (simp add: media_field_checks_def required_datetime_def validate_int_def [of "Some 0" None] fault_def)
  moreover have "media_cross_checks (media_normal ?q) = media_cross_checks p"
    unfolding q p(1) by (simp add: media_cross_checks_def media_normal_def)
  ultimately have "media_validate ?q = Inr (media_normal ?q)" using p(3) by (simp add: media_validate_Inr)
  then show "is_ok (media_to_domain (reorder_placed m r))"
    by (simp add: media_to_domain_def is_ok_def lift_domain_def)
qed

lemma map_res_Inr: "map_res f xs = Inr ys \<longleftrightarrow> list_all2 (\<lambda>x y. f x = Inr y) xs ys"
  by (induction xs arbitrary: ys) (auto simp: res_bind_Inr list_all2_Cons1)

lemma list_all2_right: "list_all2 P xs ys \<Longrightarrow> y \<in> set ys \<Longrightarrow> \<exists>x \<in> set xs. P x y"
  by (induction rule: list_all2_induct) auto

lemma reorder_Inr:
  assumes "reorder_portfolio_images q actor vendor ids versions w = Inr (w', r)" "distinct (map pm_id (vw_media w))"
  obtains images changed where "owns_vendor actor vendor w" "load_active_vendor_images vendor w = Inr images"
    "distinct ids" "set ids = set (map pm_id images)" "reordered_images q images ids = Inr changed"
    "w' = w\<lparr>vw_media := map (moved pm_id reorder_placed changed) (vw_media w)\<rparr>"
    "\<not> is_ok r \<or> length images \<le> 100"
proof -
  from assms(1) obtain images changed r0 where a: "assert_actor_owns_vendor actor vendor w = Inr ()"
    "load_active_vendor_images vendor w = Inr images" "validate_portfolio_reorder_ids ids images = Inr ()"
    "reordered_images q images ids = Inr changed"
    and p: "(if changed = [] then Inr (w, Inr []) else persist_reorder vendor changed versions w) = Inr (w', r0)"
    and r: "r = res_bind r0 (\<lambda>persisted.
        let current = (\<lambda>i. case image_with_id persisted i of Some m \<Rightarrow> m | None \<Rightarrow> the (image_with_id images i))
        in case mk_page_dto (map (\<lambda>i. to_image_dto (current i)) ids) (int (length images)) (int (length images)) 0 of
          Inl m \<Rightarrow> Inl (Domain (VendorValueError m)) | Inr p \<Rightarrow> Inr p)"
    unfolding reorder_portfolio_images_def by (auto simp: res_bind_Inr split: if_split_asm)
  from p persist_reorder_Inr [OF _ assms(2)]
  have w': "w' = w\<lparr>vw_media := map (moved pm_id reorder_placed changed) (vw_media w)\<rparr>"
    by (auto simp: moved_def [abs_def] split: if_split_asm)
  have "\<not> is_ok r" if "\<not> length images \<le> 100"
    using that unfolding r by (cases r0) (auto simp: mk_page_dto_def is_ok_def Let_def)
  with a w' that show thesis
    by (auto simp: assert_actor_owns_vendor_def validate_portfolio_reorder_ids_def split: if_split_asm)
qed

text \<open>Where the moved images come from.\<close>

lemma active_row:
  assumes "load_active_vendor_images vendor w = Inr images" "p \<in> set images"
  obtains r where "r \<in> set (vw_media w)" "pm_vendor_id r = vendor" "live_media r" "media_to_domain r = Inr p"
proof -
  from assms have "\<exists>r \<in> set (active_media_rows vendor w). media_to_domain r = Inr p"
    by (auto simp: load_active_vendor_images_def map_res_Inr dest: list_all2_right)
  with that show thesis by (auto simp: active_media_rows_def)
qed

lemma active_image:
  assumes "load_active_vendor_images vendor w = Inr images" "r \<in> set (vw_media w)" "pm_vendor_id r = vendor" "live_media r"
  obtains p where "p \<in> set images" "media_to_domain r = Inr p"
proof -
  have "r \<in> set (active_media_rows vendor w)" using assms(2-4) by (simp add: active_media_rows_def)
  moreover from assms(1) have "list_all2 (\<lambda>p x. media_to_domain x = Inr p) images (active_media_rows vendor w)"
    by (simp add: load_active_vendor_images_def map_res_Inr list_all2_conv_all_nth)
  ultimately show thesis using that by (auto dest: list_all2_right)
qed

lemma domain_id: "media_to_domain r = Inr p \<Longrightarrow> pm_id p = pm_id r"
  by (auto simp: media_to_domain_def media_validate_Inr)

lemma image_with_id_mem: "i \<in> set (map pm_id ms) \<Longrightarrow> the (image_with_id ms i) \<in> set ms \<and> pm_id (the (image_with_id ms i)) = i"
  by (induction ms) (auto simp: image_with_id_def)

lemma reordered_images_Inr:
  assumes "reordered_images q images ids = Inr changed" "set ids = set (map pm_id images)"
  shows "m \<in> set changed \<Longrightarrow> \<exists>k p. k < length ids \<and> p \<in> set images \<and> pm_id p = ids ! k \<and> pm_order p \<noteq> int k \<and>
      media_call (MReorder (rq_clock q k) (int k)) p = Inr m"
    and "k < length ids \<Longrightarrow> pm_order (the (image_with_id images (ids ! k))) \<noteq> int k \<Longrightarrow>
      \<exists>m \<in> set changed. media_call (MReorder (rq_clock q k) (int k)) (the (image_with_id images (ids ! k))) = Inr m"
proof -
  let ?xs = "filter (\<lambda>(k, m). pm_order m \<noteq> int k) (enumerate 0 (map (\<lambda>i. the (image_with_id images i)) ids))"
  from assms(1) have all: "list_all2 (\<lambda>(k, p) m. media_call (MReorder (rq_clock q k) (int k)) p = Inr m) ?xs changed"
    by (simp add: reordered_images_def map_res_Inr case_prod_unfold)
  show "\<exists>k p. k < length ids \<and> p \<in> set images \<and> pm_id p = ids ! k \<and> pm_order p \<noteq> int k \<and>
      media_call (MReorder (rq_clock q k) (int k)) p = Inr m" if "m \<in> set changed"
  proof -
    from list_all2_right [OF all that] obtain k p where kp: "(k, p) \<in> set ?xs"
      "media_call (MReorder (rq_clock q k) (int k)) p = Inr m" by auto
    then have k: "k < length ids" "p = the (image_with_id images (ids ! k))" "pm_order p \<noteq> int k"
      by (auto simp: in_set_enumerate_eq)
    with assms(2) have "ids ! k \<in> set (map pm_id images)" by (metis nth_mem)
    with image_with_id_mem k kp(2) show ?thesis by blast
  qed
  show "\<exists>m \<in> set changed. media_call (MReorder (rq_clock q k) (int k)) (the (image_with_id images (ids ! k))) = Inr m"
    if "k < length ids" "pm_order (the (image_with_id images (ids ! k))) \<noteq> int k"
  proof -
    have "(k, the (image_with_id images (ids ! k))) \<in> set ?xs" using that by (auto simp: in_set_enumerate_eq)
    moreover from all have "list_all2 (\<lambda>m (k, p). media_call (MReorder (rq_clock q k) (int k)) p = Inr m) changed ?xs"
      by (simp add: list_all2_conv_all_nth case_prod_unfold)
    ultimately show ?thesis by (auto dest: list_all2_right)
  qed
qed

text \<open>A row after a reordering: as it was, or moved and still readable.\<close>

lemma reordered_row:
  assumes ok: "table_ok pm_id media_to_domain (vw_media w)"
    and load: "load_active_vendor_images vendor w = Inr images" and ids: "set ids = set (map pm_id images)"
    and changed: "reordered_images q images ids = Inr changed" and r: "r \<in> set (vw_media w)"
  obtains "moved pm_id reorder_placed changed r = r" "\<forall>m \<in> set changed. pm_id m \<noteq> pm_id r"
  | m k where "moved pm_id reorder_placed changed r = reorder_placed m r" "is_ok (media_to_domain (reorder_placed m r))"
      "k < length ids" "pm_id r = ids ! k" "pm_order m = int k" "pm_vendor_id r = vendor" "live_media r"
proof (cases "find (\<lambda>m. pm_id m = pm_id r) changed")
  case None
  then have "moved pm_id reorder_placed changed r = r" by (simp add: moved_def)
  with None show thesis by (intro that(1)) (auto simp: find_None_iff)
next
  case (Some m)
  then have m: "m \<in> set changed" "pm_id m = pm_id r" by (auto simp: find_Some_iff)
  from reordered_images_Inr(1) [OF changed ids m(1)] obtain k p where
    k: "k < length ids" "p \<in> set images" "pm_id p = ids ! k" "media_call (MReorder (rq_clock q k) (int k)) p = Inr m"
    by blast
  from active_row [OF load k(2)] obtain s where s: "s \<in> set (vw_media w)" "pm_vendor_id s = vendor" "live_media s"
    "media_to_domain s = Inr p" .
  note call = reorder_call [OF s(4) k(4)]
  from table_okD [OF ok r s(1)] call(2) m(2) have "s = r" by simp
  with call k(1,3) s domain_id [OF s(4)] Some show thesis by (intro that(2) [of m k]) (simp_all add: moved_def)
qed

lemma table_ok_map:
  assumes "table_ok ident read rows" "\<And>r. r \<in> set rows \<Longrightarrow> ident (g r) = ident r \<and> is_ok (read (g r))"
  shows "table_ok ident read (map g rows)"
proof -
  have "map ident (map g rows) = map ident rows" using assms(2) by simp
  with assms show ?thesis unfolding table_ok_def by (auto simp del: map_map)
qed

lemma table_le_map:
  assumes "\<And>r. r \<in> set rows \<Longrightarrow> ident (g r) = ident r \<and> owner (g r) = owner r \<and> (g r = r \<or> version r < version (g r))"
  shows "table_le ident owner version rows (map g rows)"
  using assms unfolding table_le_def by auto

lemma stepped_reorder:
  assumes "reorder_portfolio_images q actor vendor ids versions w = Inr (w', r)"
  shows "stepped w w'"
  unfolding stepped_def
proof
  assume ok: "vendor_ok w"
  then have t: "table_ok pm_id media_to_domain (vw_media w)" by (simp add: vendor_ok_def)
  then have "distinct (map pm_id (vw_media w))" by (simp add: table_ok_def)
  from reorder_Inr [OF assms this] obtain images changed where c: "load_active_vendor_images vendor w = Inr images"
    "set ids = set (map pm_id images)" "reordered_images q images ids = Inr changed"
    "w' = w\<lparr>vw_media := map (moved pm_id reorder_placed changed) (vw_media w)\<rparr>" by metis
  have "table_ok pm_id media_to_domain (map (moved pm_id reorder_placed changed) (vw_media w))"
  proof (rule table_ok_map [OF t])
    fix x assume x: "x \<in> set (vw_media w)"
    show "pm_id (moved pm_id reorder_placed changed x) = pm_id x \<and>
        is_ok (media_to_domain (moved pm_id reorder_placed changed x))"
    proof (rule reordered_row [OF t c(1-3) x])
      assume "moved pm_id reorder_placed changed x = x"
      then show ?thesis using t x by (simp add: table_ok_def)
    next
      fix m k assume "moved pm_id reorder_placed changed x = reorder_placed m x"
        "is_ok (media_to_domain (reorder_placed m x))"
      then show ?thesis by (simp add: reorder_placed_def)
    qed
  qed
  moreover have "table_le pm_id pm_vendor_id pm_version (vw_media w) (map (moved pm_id reorder_placed changed) (vw_media w))"
    by (rule table_le_map, rule reordered_row [OF t c(1-3)]) (auto simp: reorder_placed_def)
  ultimately show "vendor_ok w' \<and> vendor_le w w'"
    using ok unfolding c(4) by (simp add: vendor_ok_def vendor_le_def)
qed

lemma stepped_command: "run_command digest idig q user c w = Inr (w', d) \<Longrightarrow> stepped w w'"
  by (cases c)
     (auto simp: res_bind_Inr intro: stepped_creation stepped_profile stepped_package stepped_media_request
        stepped_reorder stepped_mark_read)

lemma stepped_vendor_step: "stepped w (vendor_step digest idig op w)"
  by (auto simp: vendor_step_def intro: stepped_command split: prod.splits sum.splits)

interpretation vendor_history: ordered_system "vendor_step digest idig" vendor_ok vendor_le
proof
  fix w op assume "vendor_ok w"
  with stepped_vendor_step [of w digest idig op]
  show "vendor_ok (vendor_step digest idig op w)" "vendor_le w (vendor_step digest idig op w)"
    by (simp_all add: stepped_def)
qed (auto intro: vendor_le_trans)

end
