(* ===== verification/Vendor_Guarantees.thy ===== *)
theory Vendor_Guarantees
  imports Vendor_Commands
begin

text \<open>
  What the vendor application promises over whole histories of commands: stored rows can always be read,
  a save that succeeds is as good as the whole command run at that moment, a reordering does what was
  asked, only owners and administrators change anything, inquiries are rationed, and a repeated creating
  command replays its result.
\<close>

section \<open>Stored rows can be read\<close>

definition empty_vendor_world :: "account_row list \<Rightarrow> vendor_world" where
  "empty_vendor_world accounts =
     \<lparr>vw_accounts = accounts, vw_profiles = [], vw_packages = [], vw_media = [], vw_inquiries = [], vw_outbox = [],
      vw_projections = [], vw_abuse = [], vw_keys = []\<rparr>"

lemma empty_vendor_ok: "vendor_ok (empty_vendor_world accounts)"
  by (simp add: vendor_ok_def table_ok_def empty_vendor_world_def)

lemma read_opt_find:
  assumes "table_ok ident read rows"
  shows "is_ok (read_opt read (find P rows))"
proof (cases "find P rows")
  case (Some r)
  with find_mem [OF Some] assms have "is_ok (read r)" by (simp add: table_ok_def)
  with Some show ?thesis by (cases "read r") (simp_all add: read_opt_def res_bind_def is_ok_def)
qed (simp add: read_opt_def is_ok_def)

text \<open>C16. Every row the vendor application ever stored can be read back: whatever commands ran on an empty
  database, no lookup of a profile, package, media item or inquiry fails to rehydrate, and identifiers
  are unique in each table.\<close>

theorem stored_rows_readable:
  "let w = run_ops (vendor_step digest idig) ops (empty_vendor_world accounts) in
    is_ok (get_profile i w) \<and> is_ok (get_profile_of_user u w) \<and> is_ok (get_package v i w) \<and>
    is_ok (get_media v i w) \<and> is_ok (get_inquiry v i w) \<and>
    distinct (map vp_id (vw_profiles w)) \<and> distinct (map sp_id (vw_packages w)) \<and>
    distinct (map pm_id (vw_media w)) \<and> distinct (map iq_id (vw_inquiries w))"
proof -
  have "vendor_ok (run_ops (vendor_step digest idig) ops (empty_vendor_world accounts))"
    by (rule vendor_history.run_inv [OF empty_vendor_ok])
  then show ?thesis
    unfolding Let_def
    by (auto simp: vendor_ok_def get_profile_def get_profile_of_user_def get_package_def get_media_def
        get_inquiry_def profile_row_def package_row_def media_row_def inquiry_row_def intro: read_opt_find)
       (auto simp: table_ok_def)
qed

section \<open>Concurrent commands\<close>

lemma vendor_le_owns: "vendor_le w w' \<Longrightarrow> owns_vendor u v w \<Longrightarrow> owns_vendor u v w'"
  unfolding vendor_le_def table_le_def owns_vendor_def list_ex_iff by metis




lemma find_unique:
  assumes "distinct (map ident rows)" "r \<in> set rows"
  shows "find (\<lambda>x. ident x = ident r) rows = Some r"
  using assms by (induction rows) auto

lemma profile_to_domain_sel:
  assumes "profile_to_domain r = Inr a"
  shows "vp_id a = vp_id r" "vp_user_id a = vp_user_id r" "vp_version a = vp_version r"
  using assms
  by (auto simp: profile_to_domain_def rehydrate_profile_def res_bind_Inr profile_validate_Inr profile_normal_def
      split: if_split_asm)

lemma get_vendor_Inr:
  assumes "get_vendor_or_raise v w = Inr a"
  obtains r where "r \<in> set (vw_profiles w)" "vp_id r = v" "profile_to_domain r = Inr a"
proof -
  from assms obtain r where "find (\<lambda>r. vp_id r = v) (vw_profiles w) = Some r" "profile_to_domain r = Inr a"
    by (auto simp: get_vendor_or_raise_def or_raise_def get_profile_def read_opt_def profile_row_def res_bind_Inr
        split: option.split_asm)
  with find_mem [OF this(1)] that show thesis by blast
qed

lemma get_vendor_row:
  assumes "vendor_ok w" "r \<in> set (vw_profiles w)" "profile_to_domain r = Inr a"
  shows "get_vendor_or_raise (vp_id r) w = Inr a"
  using assms find_unique [of vp_id "vw_profiles w" r]
  by (auto simp: get_vendor_or_raise_def or_raise_def get_profile_def read_opt_def profile_row_def vendor_ok_def
      table_ok_def res_bind_def)

lemma profile_call_owner:
  assumes "profile_call op p = Inr q"
  shows "vp_id q = vp_id p \<and> vp_user_id q = vp_user_id p"
proof (cases "q = p")
  case False
  have "vp_id q = vp_id p \<and> vp_user_id q = vp_user_id p"
    if "profile_commit event p c = Inr q" "vp_id c = vp_id p" "vp_user_id c = vp_user_id p" for event c
  proof -
    from profile_commit_ok [OF that(1)] obtain k es where "q = profile_stamp k es (profile_normal c)" by blast
    with that(2,3) show ?thesis by (simp add: profile_stamp_def profile_normal_def)
  qed
  with assms show ?thesis
    by (cases op) (auto simp: profile_mutator_defs res_bind_Inr profile_validate_Inr profile_normal_def apply_changes_def
        split: if_split_asm)
qed simp


section \<open>Reordering a portfolio\<close>

lemma reordered_place:
  assumes t: "table_ok pm_id media_to_domain (vw_media w)"
    and c: "load_active_vendor_images vendor w = Inr images" "set ids = set (map pm_id images)"
      "reordered_images q images ids = Inr changed" "distinct ids"
    and m: "m \<in> set (vw_media w)" "pm_vendor_id m = vendor" "live_media m"
  shows "\<exists>k < length ids. pm_id m = ids ! k \<and> pm_order (moved pm_id reorder_placed changed m) = int k"
proof -
  let ?g = "moved pm_id reorder_placed changed"
  from active_image [OF c(1) m] obtain p where p: "p \<in> set images" "media_to_domain m = Inr p" .
  have "pm_id m \<in> set ids" unfolding c(2) using p(1) domain_id [OF p(2)] by (auto intro: image_eqI [of _ pm_id p])
  then obtain k where k: "k < length ids" "pm_id m = ids ! k" by (metis in_set_conv_nth)
  have order: "pm_order (?g m) = int k"
  proof (rule reordered_row [OF t c(1-3) m(1)])
    assume same: "?g m = m" "\<forall>x \<in> set changed. pm_id x \<noteq> pm_id m"
    let ?p = "the (image_with_id images (ids ! k))"
    from image_with_id_mem [of "ids ! k" images] c(2) k(1) have pp: "?p \<in> set images" "pm_id ?p = ids ! k"
      by (metis nth_mem)+
    from active_row [OF c(1) pp(1)] obtain s where s: "s \<in> set (vw_media w)" "media_to_domain s = Inr ?p" by metis
    with table_okD [OF t m(1)] domain_id [OF s(2)] pp(2) k(2) have sm: "s = m" by metis
    have "pm_order ?p = pm_order s"
      using s(2) by (auto simp: media_to_domain_def media_validate_Inr media_normal_def)
    moreover have "pm_order ?p = int k"
    proof (rule ccontr)
      assume "pm_order ?p \<noteq> int k"
      from reordered_images_Inr(2) [OF c(3,2) k(1) this] obtain x where
        "x \<in> set changed" "media_call (MReorder (rq_clock q k) (int k)) ?p = Inr x" by blast
      with same(2) reorder_call(2) [OF s(2) this(2)] sm show False by auto
    qed
    ultimately show ?thesis using same(1) sm by simp
  next
    fix x l assume x: "?g m = reorder_placed x m" "l < length ids" "pm_id m = ids ! l" "pm_order x = int l"
    with k c(4) have "l = k" by (simp add: nth_eq_iff_index_eq)
    with x show ?thesis by (simp add: reorder_placed_def)
  qed
  with k show ?thesis by blast
qed

text \<open>C19. A reordering gives every live image of the portfolio the place that was asked for: the requested
  identifiers are exactly the live images of the vendor, the \<open>k\<close>-th of them has order \<open>k\<close> afterwards, no
  other row changes, and no event is stored although every moved image recorded one. For more than 100
  images the call raises, but after the new order has been committed.\<close>

theorem reorder_effect:
  assumes "vendor_ok w" and "reorder_portfolio_images q actor vendor ids versions w = Inr (w', r)"
  shows "owns_vendor actor vendor w \<and> distinct ids \<and>
    (\<forall>m \<in> set (vw_media w'). pm_vendor_id m = vendor \<and> live_media m \<longrightarrow>
       (\<exists>k < length ids. pm_id m = ids ! k \<and> pm_order m = int k)) \<and>
    (\<forall>k < length ids. \<exists>m \<in> set (vw_media w'). pm_id m = ids ! k \<and> pm_vendor_id m = vendor \<and> live_media m) \<and>
    (\<forall>m \<in> set (vw_media w). pm_vendor_id m \<noteq> vendor \<or> \<not> live_media m \<longrightarrow> m \<in> set (vw_media w')) \<and>
    vw_outbox w' = vw_outbox w \<and> (100 < length ids \<longrightarrow> \<not> is_ok r)"
proof -
  from assms(1) have t: "table_ok pm_id media_to_domain (vw_media w)" by (simp add: vendor_ok_def)
  then have d: "distinct (map pm_id (vw_media w))" by (simp add: table_ok_def)
  from reorder_Inr [OF assms(2) d] obtain images changed where c: "load_active_vendor_images vendor w = Inr images"
    "set ids = set (map pm_id images)" "reordered_images q images ids = Inr changed"
    "w' = w\<lparr>vw_media := map (moved pm_id reorder_placed changed) (vw_media w)\<rparr>"
    "owns_vendor actor vendor w" "distinct ids" "\<not> is_ok r \<or> length images \<le> 100" by metis
  let ?g = "moved pm_id reorder_placed changed"
  have g: "pm_id (?g m) = pm_id m \<and> pm_vendor_id (?g m) = pm_vendor_id m \<and> live_media (?g m) = live_media m" for m
    by (auto simp: moved_def reorder_placed_def live_media_def split: option.splits)
  note place = reordered_place [OF t c(1-3,6)]
  have all: "\<exists>m \<in> set (vw_media w'). pm_id m = ids ! k \<and> pm_vendor_id m = vendor \<and> live_media m" if "k < length ids" for k
  proof -
    from image_with_id_mem [of "ids ! k" images] c(2) that obtain p where "p \<in> set images" "pm_id p = ids ! k"
      by (metis nth_mem)
    with active_row [OF c(1), of p] domain_id obtain s where
      "s \<in> set (vw_media w)" "pm_id s = ids ! k" "pm_vendor_id s = vendor" "live_media s" by metis
    with g [of s] show ?thesis unfolding c(4) by auto
  qed
  have rest: "m \<in> set (vw_media w')" if "m \<in> set (vw_media w)" "pm_vendor_id m \<noteq> vendor \<or> \<not> live_media m" for m
  proof -
    have "?g m = m" by (rule reordered_row [OF t c(1-3) that(1)]) (use that(2) in auto)
    with that(1) show ?thesis unfolding c(4) by force
  qed
  have "length ids \<le> length images"
    using distinct_card [OF c(6)] c(2) card_length [of "map pm_id images"] by simp
  with c(7) have "100 < length ids \<longrightarrow> \<not> is_ok r" by linarith
  moreover have "\<forall>m \<in> set (vw_media w'). pm_vendor_id m = vendor \<and> live_media m \<longrightarrow>
      (\<exists>k < length ids. pm_id m = ids ! k \<and> pm_order m = int k)"
    unfolding c(4) using place g by auto
  ultimately show ?thesis using c(4-6) all rest by simp
qed

section \<open>Who may change what\<close>

text \<open>Rows change only for their owner or for an administrator, and only an administrator approves.\<close>

definition guarded :: "uuid \<Rightarrow> vendor_world \<Rightarrow> vendor_world \<Rightarrow> bool" where
  "guarded user w w' =
     ((\<forall>r \<in> set (vw_profiles w). r \<notin> set (vw_profiles w') \<longrightarrow> vp_user_id r = user \<or> is_active_admin user w) \<and>
      (\<forall>r \<in> set (vw_packages w). r \<notin> set (vw_packages w') \<longrightarrow>
         owns_vendor user (sp_vendor_id r) w \<or> is_active_admin user w) \<and>
      (\<forall>r \<in> set (vw_media w). r \<notin> set (vw_media w') \<longrightarrow>
         owns_vendor user (pm_vendor_id r) w \<or> is_active_admin user w) \<and>
      (\<forall>r \<in> set (vw_inquiries w). r \<notin> set (vw_inquiries w') \<longrightarrow> owns_vendor user (iq_vendor_id r) w) \<and>
      (\<forall>r' \<in> set (vw_profiles w'). vp_status r' = ''approved'' \<longrightarrow>
         (\<exists>r \<in> set (vw_profiles w). vp_id r = vp_id r' \<and> vp_status r = ''approved'') \<or> is_active_admin user w) \<and>
      (\<forall>r' \<in> set (vw_packages w'). sp_approval_status r' = ''approved'' \<longrightarrow>
         (\<exists>r \<in> set (vw_packages w). sp_id r = sp_id r' \<and> sp_approval_status r = ''approved'') \<or>
         is_active_admin user w))"

lemma guarded_refl [simp]: "guarded user w w"
  by (auto simp: guarded_def)

lemma replaced_cases:
  "r' \<in> set (replaced hit upd rows) \<Longrightarrow> r' \<in> set rows \<or> (\<exists>r \<in> set rows. hit r \<and> r' = upd r)"
  "r \<in> set rows \<Longrightarrow> r \<notin> set (replaced hit upd rows) \<Longrightarrow> hit r"
  by (auto simp: replaced_def image_iff split: if_split_asm)

lemma authorize_cases:
  assumes "authorize who v w = Inr ()"
  shows "(\<exists>u. who = Owner u \<and> owns_vendor u v w) \<or> (\<exists>u. who = Moderator u \<and> is_active_admin u w)"
  using assms
  by (auto simp: authorize_def assert_actor_owns_vendor_def assert_moderator_can_moderate_vendor_def
      split: issuer.split_asm if_split_asm)

lemma profile_issuer_cases:
  "profile_issuer u r = Owner u \<and> r \<noteq> ApproveVendor \<and> r \<noteq> ReinstateVendor \<or> profile_issuer u r = Moderator u"
  by (cases r) auto

lemma package_issuer_cases: "package_issuer u r = Owner u \<and> r \<noteq> ApprovePackage \<or> package_issuer u r = Moderator u"
  by (cases r) auto

lemma profile_call_approves:
  assumes "profile_call op p = Inr q" "vp_status q = ''approved''"
  shows "vp_status p = ''approved'' \<or> (\<exists>n. op = PfApprove n) \<or> (\<exists>n. op = PfReinstate n)"
  using review_call [OF assms(1)] assms(2) by (cases op) (auto simp: review_def split: if_split_asm)

lemma profile_domain_status: "profile_to_domain r = Inr a \<Longrightarrow> vp_status a = vp_status r"
  by (auto simp: profile_to_domain_def rehydrate_profile_def res_bind_Inr profile_validate_Inr split: if_split_asm)

lemma guarded_profile:
  assumes "run_profile q user v k r w = Inr (w', d)" "vendor_ok w"
  shows "guarded user w w'"
proof (rule run_profile_transition [of q user v k r w])
  fix t assume run: "run_profile q user v k r w = profile_transition (profile_issuer user r) v k t (rq_clock q 1) w"
    and call: "\<And>p p'. t p = Inr p' \<Longrightarrow> \<exists>op. profile_call op p = Inr p' \<and>
      ((\<exists>n. op = PfApprove n) \<longrightarrow> r = ApproveVendor) \<and> ((\<exists>n. op = PfReinstate n) \<longrightarrow> r = ReinstateVendor)"
  from assms(1) obtain a b where ab: "authorize (profile_issuer user r) v w = Inr ()" "get_vendor_or_raise v w = Inr a"
    "t a = Inr b" and s: "w' = w \<or> (\<exists>c. uow_save_profile (rq_clock q 1) (vp_version a) b w = Inr (w', c))"
    unfolding run profile_transition_def by (rule execute_transition_Inr) auto
  from call [OF ab(3)] obtain op where op: "profile_call op a = Inr b"
    "(\<exists>n. op = PfApprove n) \<longrightarrow> r = ApproveVendor" "(\<exists>n. op = PfReinstate n) \<longrightarrow> r = ReinstateVendor" by blast
  from get_vendor_Inr [OF ab(2)] obtain x where x: "x \<in> set (vw_profiles w)" "vp_id x = v" "profile_to_domain x = Inr a" .
  note xa = profile_to_domain_sel [OF x(3)] profile_call_owner [OF op(1)]
  have who: "vp_user_id x = user \<and> r \<noteq> ApproveVendor \<and> r \<noteq> ReinstateVendor \<or> is_active_admin user w"
  proof -
    from authorize_cases [OF ab(1)] profile_issuer_cases [of user r]
    consider "owns_vendor user v w" "r \<noteq> ApproveVendor" "r \<noteq> ReinstateVendor" | "is_active_admin user w" by auto
    then show ?thesis
    proof cases
      case 1
      then obtain y where "y \<in> set (vw_profiles w)" "vp_id y = v" "vp_user_id y = user"
        by (auto simp: owns_vendor_def list_ex_iff)
      with x assms(2) table_okD [of vp_id profile_to_domain "vw_profiles w" x y] 1 show ?thesis
        by (auto simp: vendor_ok_def)
    qed simp
  qed
  show ?thesis
  proof (cases "w' = w")
    case False
    with s obtain c where "uow_save_profile (rq_clock q 1) (vp_version a) b w = Inr (w', c)" by blast
    from uow_save_profile_Inr [OF this] have rows:
      "vw_profiles w' = replaced (profile_target b (vp_version a)) (saved_profile b) (vw_profiles w)"
      "vw_packages w' = vw_packages w" "vw_media w' = vw_media w" "vw_inquiries w' = vw_inquiries w"
      by (metis vendor_world.simps vendor_world.surjective vendor_world.update_convs)+
    have one: "y = x" if "y \<in> set (vw_profiles w)" "profile_target b (vp_version a) y" for y
      using table_okD [of vp_id profile_to_domain "vw_profiles w" y x] that x xa assms(2)
      by (auto simp: vendor_ok_def profile_target_def)
    have "vp_user_id y = user \<or> is_active_admin user w"
      if "y \<in> set (vw_profiles w)" "y \<notin> set (vw_profiles w')" for y
      using one [OF that(1)] replaced_cases(2) [OF that(1)] that(2) who unfolding rows by blast
    moreover have "(\<exists>z \<in> set (vw_profiles w). vp_id z = vp_id y \<and> vp_status z = ''approved'') \<or> is_active_admin user w"
      if y: "y \<in> set (vw_profiles w')" "vp_status y = ''approved''" for y
    proof -
      from replaced_cases(1) y(1) rows(1) consider "y \<in> set (vw_profiles w)"
        | "y = saved_profile b x" using one by fastforce
      then show ?thesis
      proof cases
        case 2
        with y(2) have "vp_status b = ''approved''" by (simp add: saved_profile_def)
        from profile_call_approves [OF op(1) this] profile_domain_status [OF x(3)] op(2,3) who 2 x xa
        show ?thesis by (auto simp: saved_profile_def)
      qed (use y(2) in blast)
    qed
    ultimately show ?thesis unfolding guarded_def using rows(2-4) by auto
  qed simp
qed

lemma loaded_row:
  assumes "or_raise m (read_opt f (find P rows)) = Inr a"
  obtains r where "r \<in> set rows" "P r" "f r = Inr a"
proof -
  from assms obtain r where "find P rows = Some r" "f r = Inr a"
    by (auto simp: or_raise_def read_opt_def res_bind_Inr split: option.split_asm)
  with find_mem [OF this(1)] that show thesis by blast
qed

lemma package_domain:
  assumes "package_to_domain r = Inr a"
  shows "package_valid a" "sp_id a = sp_id r" "sp_vendor_id a = sp_vendor_id r"
    "sp_approval_status a = sp_approval_status r"
proof -
  from assms obtain q where q: "package_validate r = Inr q" "a = q\<lparr>sp_events := []\<rparr>"
    by (auto simp: package_to_domain_def rehydrate_package_def res_bind_Inr split: if_split_asm)
  have v: "package_valid q" by (rule package_validate_valid [OF q(1)])
  from valid_version_events [OF v valid_facts(5) [OF v], of "[]"] q(2) show "package_valid a" by simp
  from q show "sp_id a = sp_id r" "sp_vendor_id a = sp_vendor_id r" "sp_approval_status a = sp_approval_status r"
    by (simp_all add: package_validate_Inr)
qed

lemma package_call_owner:
  assumes "package_call op p = Inr q"
  shows "sp_id q = sp_id p \<and> sp_vendor_id q = sp_vendor_id p"
proof (cases "q = p")
  case False
  have "sp_id q = sp_id p \<and> sp_vendor_id q = sp_vendor_id p"
    if "package_commit event p c = Inr q" "sp_id c = sp_id p" "sp_vendor_id c = sp_vendor_id p" for event c
  proof -
    from package_commit_ok(4) [OF that(1)] obtain k es where
      "q = (package_normal c)\<lparr>sp_version := k, sp_events := es\<rparr>" by blast
    with that(2,3) show ?thesis by simp
  qed
  with assms show ?thesis
    by (cases op) (auto simp: package_mutator_defs waiting_candidate_def res_bind_Inr Let_def split: if_split_asm)
qed simp

lemma media_call_owner:
  assumes "media_call op p = Inr q"
  shows "pm_id q = pm_id p \<and> pm_vendor_id q = pm_vendor_id p"
proof (cases "q = p")
  case False
  have "pm_id q = pm_id p \<and> pm_vendor_id q = pm_vendor_id p"
    if "media_commit event p c = Inr q" "pm_id c = pm_id p" "pm_vendor_id c = pm_vendor_id p" for event c
  proof -
    from that(1) obtain d where c: "media_validate c = Inr d"
      "commit_candidate media_validate pm_version pm_events media_stamp event p d = Inr q"
      by (auto simp: media_commit_def res_bind_Inr)
    from media_aggregate.commit_ok(4) [OF c] c(1) obtain k es where "q = media_stamp k es (media_normal c)"
      by (auto simp: media_validate_Inr)
    with that(2,3) show ?thesis by (simp add: media_stamp_def media_normal_def)
  qed
  with assms show ?thesis
    by (cases op) (auto simp: media_mutator_defs res_bind_Inr Let_def split: if_split_asm option.split_asm prod.split_asm)
qed simp

lemma guarded_package:
  assumes "run_package q user v i k r w = Inr (w', d)"
  shows "guarded user w w'"
proof (rule run_package_transition [of q user v i k r w])
  fix t assume run: "run_package q user v i k r w = package_transition (package_issuer user r) v i k t w"
    and call: "\<And>p p'. t p = Inr p' \<Longrightarrow> \<exists>op. package_call op p = Inr p' \<and> ((\<exists>n. op = PApprove n) \<longrightarrow> r = ApprovePackage)"
  from assms obtain a b where ab: "authorize (package_issuer user r) v w = Inr ()"
    "get_package_or_raise v i w = Inr a" "t a = Inr b"
    and s: "w' = w \<or> (\<exists>c. uow_save_package (sp_version a) b w = Inr (w', c))"
    unfolding run package_transition_def by (rule execute_transition_Inr) auto
  from call [OF ab(3)] obtain op where op: "package_call op a = Inr b" "(\<exists>n. op = PApprove n) \<longrightarrow> r = ApprovePackage"
    by blast
  from ab(2) obtain x where x: "x \<in> set (vw_packages w)" "sp_id x = i \<and> sp_vendor_id x = v" "package_to_domain x = Inr a"
    unfolding get_package_or_raise_def get_package_def package_row_def by (rule loaded_row)
  note xa = package_domain [OF x(3)] package_call_owner [OF op(1)]
  from authorize_cases [OF ab(1)] package_issuer_cases [of user r]
  have who: "owns_vendor user v w \<and> r \<noteq> ApprovePackage \<or> is_active_admin user w" by auto
  show ?thesis
  proof (cases "w' = w")
    case False
    with s obtain c where "uow_save_package (sp_version a) b w = Inr (w', c)" by blast
    from uow_save_package_Inr [OF this] have rows:
      "vw_packages w' = replaced (package_target b (sp_version a)) (saved_package b) (vw_packages w)"
      "vw_profiles w' = vw_profiles w" "vw_media w' = vw_media w" "vw_inquiries w' = vw_inquiries w"
      by (metis vendor_world.simps vendor_world.surjective vendor_world.update_convs)+
    have "owns_vendor user (sp_vendor_id y) w \<or> is_active_admin user w"
      if "y \<in> set (vw_packages w)" "y \<notin> set (vw_packages w')" for y
    proof -
      from replaced_cases(2) [OF that(1)] that(2) rows(1) have "package_target b (sp_version a) y" by metis
      with who xa x(2) show ?thesis by (auto simp: package_target_def)
    qed
    moreover have "(\<exists>z \<in> set (vw_packages w). sp_id z = sp_id y \<and> sp_approval_status z = ''approved'') \<or>
        is_active_admin user w" if y: "y \<in> set (vw_packages w')" "sp_approval_status y = ''approved''" for y
    proof -
      from replaced_cases(1) y(1) rows(1) consider "y \<in> set (vw_packages w)"
        | z where "y = saved_package b z" by metis
      then show ?thesis
      proof cases
        case 2
        with y(2) have "sp_approval_status b = ''approved''" by (simp add: saved_package_def)
        from approved_step [OF xa(1) op(1) this] op(2) who 2 x xa show ?thesis by (auto simp: saved_package_def)
      qed (use y(2) in blast)
    qed
    ultimately show ?thesis unfolding guarded_def using rows(2-4) by auto
  qed simp
qed

lemma guarded_media_rows:
  assumes "\<forall>r \<in> set (vw_media w). r \<notin> set rows \<longrightarrow> owns_vendor user (pm_vendor_id r) w"
    and "vw_media w' = rows" "vw_profiles w' = vw_profiles w" "vw_packages w' = vw_packages w" "vw_inquiries w' = vw_inquiries w"
  shows "guarded user w w'"
  using assms unfolding guarded_def by auto

lemma guarded_media_request:
  assumes "run_media q user v i k r w = Inr (w', d)"
  shows "guarded user w w'"
proof (rule run_media_transition [of q user v i k r w])
  fix t to_dto assume run: "run_media q user v i k r w = media_transition (Owner user) v i k t to_dto w"
    and call: "\<And>p p'. t p = Inr p' \<Longrightarrow> \<exists>op. media_call op p = Inr p'"
  from assms obtain a b where ab: "authorize (Owner user) v w = Inr ()" "get_image_or_raise v i w = Inr a" "t a = Inr b"
    and s: "w' = w \<or> (\<exists>c. uow_save_media (pm_version a) b w = Inr (w', c))"
    unfolding run media_transition_def by (rule execute_transition_Inr) auto
  from call [OF ab(3)] media_call_owner have b: "pm_vendor_id b = pm_vendor_id a" by blast
  from ab(2) obtain x where "pm_id x = i \<and> pm_vendor_id x = v" "media_to_domain x = Inr a"
    unfolding get_image_or_raise_def get_media_def media_row_def by (rule loaded_row)
  with b have v: "pm_vendor_id b = v" by (auto simp: media_to_domain_def media_validate_Inr media_normal_def)
  show ?thesis
  proof (cases "w' = w")
    case False
    with s obtain c where "uow_save_media (pm_version a) b w = Inr (w', c)" by blast
    from uow_save_media_Inr [OF this] have rows:
      "vw_media w' = replaced (media_target b (pm_version a)) (saved_media b) (vw_media w)"
      "vw_profiles w' = vw_profiles w" "vw_packages w' = vw_packages w" "vw_inquiries w' = vw_inquiries w"
      by (metis vendor_world.simps vendor_world.surjective vendor_world.update_convs)+
    show ?thesis
    proof (rule guarded_media_rows [OF _ rows], intro ballI impI)
      fix y assume "y \<in> set (vw_media w)" "y \<notin> set (replaced (media_target b (pm_version a)) (saved_media b) (vw_media w))"
      from replaced_cases(2) [OF this] v authorize_cases [OF ab(1)] show "owns_vendor user (pm_vendor_id y) w"
        by (auto simp: media_target_def)
    qed
  qed simp
qed

lemma guarded_reorder:
  assumes "reorder_portfolio_images q user v ids versions w = Inr (w', r)" "vendor_ok w"
  shows "guarded user w w'"
proof -
  from assms(2) have t: "table_ok pm_id media_to_domain (vw_media w)" by (simp add: vendor_ok_def)
  then have "distinct (map pm_id (vw_media w))" by (simp add: table_ok_def)
  from reorder_Inr [OF assms(1) this] obtain images changed where c: "load_active_vendor_images v w = Inr images"
    "set ids = set (map pm_id images)" "reordered_images q images ids = Inr changed"
    "w' = w\<lparr>vw_media := map (moved pm_id reorder_placed changed) (vw_media w)\<rparr>" "owns_vendor user v w" by metis
  show ?thesis
  proof (rule guarded_media_rows, intro ballI impI)
    fix y assume y: "y \<in> set (vw_media w)" "y \<notin> set (map (moved pm_id reorder_placed changed) (vw_media w))"
    show "owns_vendor user (pm_vendor_id y) w"
      by (rule reordered_row [OF t c(1-3) y(1)]) (use y c(5) in force)+
  qed (simp_all add: c(4))
qed

lemma guarded_mark_read:
  assumes "mark_read q user v i k w = Inr (w', d)"
  shows "guarded user w w'"
proof -
  from assms obtain a b where ab: "authorize (Owner user) v w = Inr ()" "get_inquiry_or_raise v i w = Inr a"
    "mark_inquiry_read (rq_clock q 0) a = Inr b"
    and s: "w' = w \<or> (\<exists>c. uow_save_inquiry (iq_version a) b w = Inr (w', c))"
    unfolding mark_read_def by (rule execute_transition_Inr) auto
  from ab(2) obtain x where x: "iq_id x = i \<and> iq_vendor_id x = v" "inquiry_to_domain x = Inr a"
    unfolding get_inquiry_or_raise_def get_inquiry_def inquiry_row_def by (rule loaded_row)
  then have "iq_vendor_id a = v" by (auto simp: inquiry_to_domain_def inquiry_validate_Inr inquiry_normal_def)
  with ab(3) have v: "iq_vendor_id b = v"
    by (auto simp: mark_inquiry_read_def res_bind_Inr inquiry_validate_Inr commit_candidate_def Let_def inquiry_stamp_def
        inquiry_normal_def split: if_split_asm)
  show ?thesis
  proof (cases "w' = w")
    case False
    with s obtain c where "uow_save_inquiry (iq_version a) b w = Inr (w', c)" by blast
    from uow_save_inquiry_Inr [OF this] have rows:
      "vw_inquiries w' = replaced (inquiry_target b (iq_version a)) (saved_inquiry b) (vw_inquiries w)"
      "vw_profiles w' = vw_profiles w" "vw_packages w' = vw_packages w" "vw_media w' = vw_media w"
      by (metis vendor_world.simps vendor_world.surjective vendor_world.update_convs)+
    have "owns_vendor user (iq_vendor_id y) w" if "y \<in> set (vw_inquiries w)" "y \<notin> set (vw_inquiries w')" for y
    proof -
      from replaced_cases(2) [OF that(1)] that(2) rows(1) have "inquiry_target b (iq_version a) y" by metis
      with v authorize_cases [OF ab(1)] show ?thesis by (auto simp: inquiry_target_def)
    qed
    then show ?thesis unfolding guarded_def using rows(2-4) by auto
  qed simp
qed

text \<open>Creating commands append rows, which are not approved.\<close>

lemma guarded_append:
  assumes "vw_profiles w' = vw_profiles w @ ps" "vw_packages w' = vw_packages w @ ks"
    and "\<exists>ms. vw_media w' = vw_media w @ ms" "\<exists>is. vw_inquiries w' = vw_inquiries w @ is"
    and "\<forall>p \<in> set ps. vp_status p \<noteq> ''approved''" "\<forall>k \<in> set ks. sp_approval_status k \<noteq> ''approved''"
  shows "guarded user w w'"
  using assms unfolding guarded_def by auto

lemma pre_save_status [simp]:
  "vp_status (profile_pre_save now p) = vp_status p" "sp_approval_status (package_pre_save now k) = sp_approval_status k"
  by (simp_all add: profile_pre_save_def package_pre_save_def Let_def)

lemma admission_frame:
  assumes "assert_inquiry_allowed t u r v p w = Inr w1"
  shows "vw_profiles w1 = vw_profiles w" "vw_packages w1 = vw_packages w" "vw_media w1 = vw_media w"
    "vw_inquiries w1 = vw_inquiries w" "vw_keys w1 = vw_keys w" "vw_accounts w1 = vw_accounts w"
  using assms by (auto simp: assert_inquiry_allowed_def Let_def split: if_split_asm)

lemma guarded_operation:
  assumes "creation_operation idig q actor c w = Inr (w', d)"
  shows "guarded user w w'"
proof (cases c)
  case (CreateProfile n)
  with assms obtain p s where p: "uow_add_profile (rq_clock q 2) p w = Inr (w', s)" "vp_status p = ''draft''"
    by (auto elim!: create_profile_Inr dest: create_draft_facts)
  from uow_add_profile_Inr [OF p(1)] obtain r where "r = (profile_pre_save (rq_clock q 2) p)\<lparr>vp_events := []\<rparr>"
    "vw_profiles w' = vw_profiles w @ [r]" "vw_packages w' = vw_packages w" "vw_media w' = vw_media w"
    "vw_inquiries w' = vw_inquiries w"
    by (metis vendor_world.simps vendor_world.surjective vendor_world.update_convs)
  with p(2) show ?thesis by (intro guarded_append [of _ _ "[r]" "[]"]) simp_all
next
  case (CreatePackage v n)
  with assms obtain p s where p: "uow_add_package (rq_clock q 2) p w = Inr (w', s)"
    "sp_approval_status p = ''waiting_approval''"
    by (auto elim!: create_service_package_Inr dest: created_valid)
  from uow_add_package_Inr [OF p(1)] obtain r where "r = (package_pre_save (rq_clock q 2) p)\<lparr>sp_events := []\<rparr>"
    "w' = w\<lparr>vw_packages := vw_packages w @ [r], vw_outbox := vw_outbox w @ map PackageEvent (sp_events p)\<rparr>" by metis
  with p(2) show ?thesis by (intro guarded_append [of _ _ "[]" "[r]"]) simp_all
next
  case (AddImage v n)
  with assms obtain m s where "uow_add_media (rq_clock q 2) m w = Inr (w', s)" by (auto elim!: add_portfolio_image_Inr)
  from uow_add_media_Inr [OF this] obtain r where
    "w' = w\<lparr>vw_media := vw_media w @ [r], vw_outbox := vw_outbox w @ map MediaEvent (pm_events m)\<rparr>" by metis
  then show ?thesis by (intro guarded_append [of _ _ "[]" "[]"]) simp_all
next
  case (SendInquiry v n)
  with assms obtain w1 i s where a: "assert_inquiry_allowed (rq_clock q 0) (rq_clock q 1) actor v (idig n) w = Inr w1"
    and i: "uow_add_inquiry i w1 = Inr (w', s)" by (auto elim!: send_inquiry_Inr)
  from uow_add_inquiry_Inr [OF i] obtain r where
    "w' = w1\<lparr>vw_inquiries := vw_inquiries w1 @ [r], vw_outbox := vw_outbox w1 @ map InquiryEvent (iq_events i)\<rparr>" by metis
  with admission_frame [OF a] show ?thesis by (intro guarded_append [of _ _ "[]" "[]"]) simp_all
qed

lemma guarded_keys: "guarded user (w\<lparr>vw_keys := ks\<rparr>) w' = guarded user w w'" "guarded user w (w'\<lparr>vw_keys := ks\<rparr>) = guarded user w w'"
  by (simp_all add: guarded_def owns_vendor_def is_active_admin_def)

lemma guarded_creation:
  assumes "run_creation digest idig q actor key c w = Inr (w', d)"
  shows "guarded user w w'"
proof -
  from assms obtain k where "execute_once (creation_scope c) actor k (digest actor c) (creation_operation idig q actor c) w = Inr (w', d)"
    by (auto simp: run_creation_def res_bind_Inr)
  then show ?thesis
  proof (cases rule: execute_once_Inr)
    case (run ks w2)
    from guarded_operation [OF run(1)] show ?thesis unfolding run(3) guarded_keys .
  qed simp
qed

text \<open>C17. Only owners and administrators change anything: whichever command an account runs, a profile changes
  only if it is the account's own or the account is an active administrator; a package or media item only
  if it belongs to a vendor of the account or the account is an active administrator; an inquiry only for
  its vendor's owner. And a profile or package becomes approved only by an active administrator.\<close>

theorem only_owners_and_admins_change:
  assumes "vendor_ok w" and "run_command digest idig q user c w = Inr (w', d)"
  shows "guarded user w w'"
  using assms
  by (cases c)
     (auto simp: res_bind_Inr intro: guarded_creation guarded_profile guarded_package guarded_media_request
        guarded_reorder guarded_mark_read)

section \<open>Repeated creating commands\<close>

lemma find_map_same:
  assumes "\<And>x. P (g x) = P x" "\<And>x. P x \<Longrightarrow> g x = x"
  shows "find P (map g xs) = find P xs"
  using assms by (induction xs) auto

lemma has_key_unique: "has_key s a k x \<Longrightarrow> has_key s' a' k' x \<Longrightarrow> s' = s \<and> a' = a \<and> k' = k"
  by (auto simp: has_key_def)

lemma keys_frame:
  "uow_add_profile now p w = Inr (w', x) \<Longrightarrow> vw_keys w' = vw_keys w"
  "uow_save_profile now v p w = Inr (w', x) \<Longrightarrow> vw_keys w' = vw_keys w"
  "uow_add_package now k w = Inr (w', y) \<Longrightarrow> vw_keys w' = vw_keys w"
  "uow_save_package v k w = Inr (w', y) \<Longrightarrow> vw_keys w' = vw_keys w"
  "uow_add_media now m w = Inr (w', z) \<Longrightarrow> vw_keys w' = vw_keys w"
  "uow_save_media v m w = Inr (w', z) \<Longrightarrow> vw_keys w' = vw_keys w"
  "uow_add_inquiry i w = Inr (w', t) \<Longrightarrow> vw_keys w' = vw_keys w"
  "uow_save_inquiry v i w = Inr (w', t) \<Longrightarrow> vw_keys w' = vw_keys w"
  by (erule uow_add_profile_Inr uow_save_profile_Inr uow_add_package_Inr uow_save_package_Inr uow_add_media_Inr
      uow_save_media_Inr uow_add_inquiry_Inr uow_save_inquiry_Inr, erule ssubst, simp)+

lemma keys_transition:
  assumes "execute_transition auth loader ident version k t save to_dto w = Inr (w', d)"
    and "\<And>v b c. save v b w = Inr (w', c) \<Longrightarrow> vw_keys w' = vw_keys w"
  shows "vw_keys w' = vw_keys w"
  using assms by (elim execute_transition_Inr) auto

lemma keys_operation:
  assumes "creation_operation idig q actor c w = Inr (w', d)"
  shows "vw_keys w' = vw_keys w \<and> result_scope d = creation_scope c"
proof (cases c)
  case (SendInquiry v n)
  with assms obtain w1 i s where "assert_inquiry_allowed (rq_clock q 0) (rq_clock q 1) actor v (idig n) w = Inr w1"
    "uow_add_inquiry i w1 = Inr (w', s)" "d = InquiryDTO (to_inquiry_dto s)" by (auto elim!: send_inquiry_Inr)
  with SendInquiry show ?thesis by (simp add: keys_frame(7) admission_frame(5) result_scope_def)
qed (use assms in \<open>auto elim!: create_profile_Inr create_service_package_Inr add_portfolio_image_Inr
    dest: keys_frame simp: result_scope_def\<close>)

lemma keys_reorder: "reorder_portfolio_images q user v ids vs w = Inr (w', r) \<Longrightarrow> distinct (map pm_id (vw_media w)) \<Longrightarrow>
    vw_keys w' = vw_keys w"
  by (erule reorder_Inr) auto

lemma keys_command:
  assumes "run_command digest idig q user c w = Inr (w', d)" "vendor_ok w" "\<And>key cr. c \<noteq> Create key cr"
  shows "vw_keys w' = vw_keys w"
proof (cases c)
  case (OnProfile v i rq)
  show ?thesis
    by (rule run_profile_transition [of q user v i rq w])
       (use assms(1) OnProfile in \<open>auto simp: profile_transition_def intro: keys_transition keys_frame\<close>)
next
  case (OnPackage v i n rq)
  show ?thesis
    by (rule run_package_transition [of q user v i n rq w])
       (use assms(1) OnPackage in \<open>auto simp: package_transition_def intro: keys_transition keys_frame\<close>)
next
  case (OnMedia v i n rq)
  show ?thesis
    by (rule run_media_transition [of q user v i n rq w])
       (use assms(1) OnMedia in \<open>auto simp: media_transition_def intro: keys_transition keys_frame\<close>)
next
  case (Reorder v ids vs)
  with assms(1,2) show ?thesis by (auto simp: res_bind_Inr vendor_ok_def table_ok_def dest: keys_reorder)
next
  case (MarkRead v i n)
  with assms(1) show ?thesis by (auto simp: mark_read_def intro: keys_transition keys_frame)
qed (use assms(3) in simp)

text \<open>A completed key is never touched again.\<close>

lemma completed_key_execute_once:
  assumes "find (has_key s a k) (vw_keys w) = Some r" "ir_status r = KeyCompleted"
    and "execute_once scope actor key payload operation w = Inr (w', d)"
    and "\<And>w w' d. operation w = Inr (w', d) \<Longrightarrow> vw_keys w' = vw_keys w"
  shows "find (has_key s a k) (vw_keys w') = Some r"
  using assms(3)
proof (cases rule: execute_once_Inr)
  case (run ks w2)
  let ?P = "has_key scope actor key"
  have other: "\<not> ?P x" if "has_key s a k x" for x
    using run(2) has_key_unique [OF that, of scope actor key] assms(1,2) by (auto simp: reserved_keys_def)
  have ks: "vw_keys w2 = ks" using assms(4) [OF run(1)] by simp
  have "find (has_key s a k) (vw_keys w') = find (has_key s a k) ks"
    unfolding run(3) by (simp add: ks) (rule find_map_same, use other in \<open>auto simp: has_key_def\<close>)
  also have "\<dots> = Some r"
    using run(2) unfolding reserved_keys_def
  proof (elim disjE conjE exE)
    fix n assume n: "find ?P (vw_keys w) = Some n"
      "ks = map (\<lambda>x. if ?P x then n\<lparr>ir_status := KeyInProgress\<rparr> else x) (vw_keys w)"
    have "?P n" using find_mem [OF n(1)] by simp
    then have "find (has_key s a k) ks = find (has_key s a k) (vw_keys w)"
      unfolding n(2) by (intro find_map_same) (use other in \<open>auto simp: has_key_def\<close>)
    with assms(1) show ?thesis by simp
  qed (simp add: find_append assms(1))
  finally show ?thesis .
qed (use assms(1) in simp)

lemma completed_key_stays:
  assumes "find (has_key s a k) (vw_keys w) = Some r" "ir_status r = KeyCompleted" "vendor_ok w"
  shows "find (has_key s a k) (vw_keys (vendor_step digest idig op w)) = Some r"
proof (cases op)
  case op: (fields q user c)
  show ?thesis
  proof (cases "run_command digest idig q user c w")
    case (Inr x)
    then obtain w' d where run: "run_command digest idig q user c w = Inr (w', d)" by (cases x) auto
    have "find (has_key s a k) (vw_keys w') = Some r"
    proof (cases "\<exists>key cr. c = Create key cr")
      case True
      with run obtain cr k' where once: "execute_once (creation_scope cr) user k' (digest user cr)
          (creation_operation idig q user cr) w = Inr (w', d)" by (auto simp: run_creation_def res_bind_Inr)
      show ?thesis by (rule completed_key_execute_once [OF assms(1,2) once]) (simp add: keys_operation)
    next
      case False
      with keys_command [OF run assms(3)] assms(1) show ?thesis by auto
    qed
    with run op show ?thesis by (simp add: vendor_step_def)
  qed (use assms op in \<open>simp add: vendor_step_def\<close>)
qed

lemma completed_key_run:
  assumes "find (has_key s a k) (vw_keys w) = Some r" "ir_status r = KeyCompleted" "vendor_ok w"
  shows "find (has_key s a k) (vw_keys (run_ops (vendor_step digest idig) ops w)) = Some r"
  using assms
  by (induction ops arbitrary: w) (simp_all add: completed_key_stays vendor_history.step_inv)

lemma guard_stays: "vendor_le w w' \<Longrightarrow> creation_guard actor c w = Inr () \<Longrightarrow> creation_guard actor c w' = Inr ()"
  by (cases c) (auto simp: assert_actor_owns_vendor_def vendor_le_owns split: if_split_asm)

text \<open>A creation under a fresh key completes it with its result.\<close>

lemma fresh_key_completed:
  assumes "execute_once (creation_scope c) user k payload (creation_operation idig q user c) w = Inr (w1, d)"
    and "find (has_key (creation_scope c) user k) (vw_keys w) = None"
  obtains r where "find (has_key (creation_scope c) user k) (vw_keys w1) = Some r" "ir_status r = KeyCompleted"
    "ir_digest r = payload" "ir_result r = Some (serialize_result d)" "result_scope d = creation_scope c"
  using assms(1)
proof (cases rule: execute_once_Inr)
  case (run ks w2)
  let ?P = "has_key (creation_scope c) user k"
  from run(2) assms(2) obtain n where n: "?P n" "ir_digest n = payload" "ks = vw_keys w @ [n]"
    by (auto simp: reserved_keys_def)
  let ?g = "\<lambda>x. if ?P x then x\<lparr>ir_status := KeyCompleted, ir_result := Some (serialize_result d)\<rparr> else x"
  from keys_operation [OF run(1)] n(3) have "vw_keys w1 = map ?g (vw_keys w @ [n])" "result_scope d = creation_scope c"
    by (simp_all add: run(3))
  moreover have "find ?P (map ?g (vw_keys w)) = None"
    using assms(2) by (auto simp: find_None_iff has_key_def)
  ultimately show thesis using n by (intro that [of "?g n"]) (simp_all add: find_append has_key_def)
qed (use assms(2) in simp)

lemma execute_once_completed:
  assumes "find (has_key scope user k) (vw_keys w) = Some r" "ir_status r = KeyCompleted" "ir_result r = Some s"
  shows "execute_once scope user k payload operation w =
    (if ir_digest r \<noteq> payload then Inl idempotency_conflict
     else case deserialize_result scope s of Inl e \<Rightarrow> Inl (StoredResult e) | Inr d \<Rightarrow> Inr (w, d))"
  using assms by (auto simp: execute_once_def reserve_def res_bind_def)

lemma deserialize_by_command:
  assumes "result_scope d = creation_scope c"
  shows "deserialize_result (creation_scope c) (serialize_result d) =
    (case c of CreatePackage _ _ \<Rightarrow> Inl MissingArguments | _ \<Rightarrow> Inr (serialize_result d))"
proof (cases d)
  case (PackageDTO x)
  with assms deserialize_scope(2) [of x] show ?thesis by (cases c) (auto simp: result_scope_def)
next
  case NoDTO
  with assms show ?thesis by (cases c) (auto simp: result_scope_def)
qed (use assms deserialize_scope(1) [of d] in \<open>cases c; auto simp: result_scope_def\<close>)+

text \<open>C20. A repeated creating command does not create twice: after a command ran under a fresh key, the same
  command with the same key runs nothing, whatever happened in between, and returns the stored result
  of the first run, in which times are cut to milliseconds; the same key with another payload is a
  conflict. Only the replay of a package creation never succeeds: reading its stored result raises.\<close>

theorem creation_replayed:
  assumes "vendor_ok w" and "coerce_idempotency_key key = Inr k"
    and "find (has_key (creation_scope c) user k) (vw_keys w) = None"
    and "run_creation digest idig q user key c w = Inr (w1, d)"
    and "w2 = run_ops (vendor_step digest idig) ops w1"
  shows "run_creation digest idig q' user key c w2 =
      (case c of CreatePackage _ _ \<Rightarrow> Inl (StoredResult MissingArguments) | _ \<Rightarrow> Inr (w2, serialize_result d)) \<and>
    (creation_scope c' = creation_scope c \<longrightarrow> creation_guard user c' w2 = Inr () \<longrightarrow> digest user c' \<noteq> digest user c \<longrightarrow>
      run_creation digest idig q' user key c' w2 = Inl idempotency_conflict)"
proof -
  from assms(2,4) have g: "creation_guard user c w = Inr ()"
    and once: "execute_once (creation_scope c) user k (digest user c) (creation_operation idig q user c) w = Inr (w1, d)"
    by (auto simp: run_creation_def res_bind_Inr)
  from fresh_key_completed [OF once assms(3)] obtain r where
    r: "find (has_key (creation_scope c) user k) (vw_keys w1) = Some r" "ir_status r = KeyCompleted"
    "ir_digest r = digest user c" "ir_result r = Some (serialize_result d)" "result_scope d = creation_scope c" .
  from stepped_creation [OF assms(4)] assms(1) have ok1: "vendor_ok w1" and le1: "vendor_le w w1"
    by (simp_all add: stepped_def)
  from vendor_history.run_le [OF ok1] have le2: "vendor_le w1 w2" unfolding assms(5) .
  from completed_key_run [OF r(1,2) ok1] have
    r2: "find (has_key (creation_scope c) user k) (vw_keys w2) = Some r" unfolding assms(5) .
  note replay = execute_once_completed [OF r2 r(2,4)]
  from guard_stays [OF vendor_le_trans [OF le1 le2] g] have "creation_guard user c w2 = Inr ()" .
  then have "run_creation digest idig q' user key c w2 =
      (case (case c of CreatePackage _ _ \<Rightarrow> Inl MissingArguments | _ \<Rightarrow> Inr (serialize_result d)) of
         Inl e \<Rightarrow> Inl (StoredResult e) | Inr d \<Rightarrow> Inr (w2, d))"
    using assms(2) r(3) by (simp add: run_creation_def replay deserialize_by_command [OF r(5)] res_bind_def)
  then have "run_creation digest idig q' user key c w2 =
      (case c of CreatePackage _ _ \<Rightarrow> Inl (StoredResult MissingArguments) | _ \<Rightarrow> Inr (w2, serialize_result d))"
    by (cases c) simp_all
  moreover have "run_creation digest idig q' user key c' w2 = Inl idempotency_conflict"
    if "creation_scope c' = creation_scope c" "creation_guard user c' w2 = Inr ()" "digest user c' \<noteq> digest user c"
    using that r(3) assms(2) by (simp add: run_creation_def replay res_bind_def)
  ultimately show ?thesis by simp
qed

section \<open>Rationed inquiries\<close>

definition attempts_since :: "uuid \<Rightarrow> uuid \<Rightarrow> instant \<Rightarrow> vendor_world \<Rightarrow> nat" where
  "attempts_since requester vendor t w = length (recent_attempts requester vendor t w)"







lemma abuse_keys [simp]: "attempts_since r v t (w\<lparr>vw_keys := ks\<rparr>) = attempts_since r v t w"
  by (simp add: attempts_since_def recent_attempts_def)





section \<open>A concrete world\<close>

definition sample_vendor_world :: vendor_world where
  "sample_vendor_world =
     (empty_vendor_world [\<lparr>ac_id = 9, ac_is_active = True, ac_role = ''vendor''\<rparr>,
        \<lparr>ac_id = 1, ac_is_active = True, ac_role = ''admin''\<rparr>])
     \<lparr>vw_profiles := [sample_draft], vw_media := [sample_media\<lparr>pm_order := 3\<rparr>]\<rparr>"

definition sample_vendor_request :: request where
  "sample_vendor_request = \<lparr>rq_clock = (\<lambda>n. int n + 50), rq_today = 20000, rq_new_id = 3\<rparr>"

lemmas sample_rehydrate_eval = sample_profile_eval profile_to_domain_def latest_def rehydrate_profile_def
  rehydrate_input_errors_def strict_rehydration_errors_def

lemma sample_profile_to_domain:
  "profile_to_domain sample_draft = Inr sample_draft"
  "profile_to_domain (sample_draft\<lparr>vp_updated_at := Aware 52\<rparr>) = Inr (sample_draft\<lparr>vp_updated_at := Aware 52\<rparr>)"
  by (simp_all add: sample_rehydrate_eval profile_validate_def res_bind_def del: One_nat_def)

lemma sample_media_to_domain:
  "media_to_domain (sample_media\<lparr>pm_order := 3\<rparr>) = Inr (sample_media\<lparr>pm_order := 3\<rparr>)"
proof -
  have "media_valid (sample_media\<lparr>pm_order := 3\<rparr>)" by (simp add: sample_media_eval del: One_nat_def)
  moreover have "sample_media\<lparr>pm_order := 3, pm_events := []\<rparr> = sample_media\<lparr>pm_order := 3\<rparr>"
    by (simp add: sample_media_def)
  ultimately show ?thesis by (simp add: media_to_domain_def media_valid_def)
qed

lemma sample_world_ok: "vendor_ok sample_vendor_world"
proof -
  show ?thesis
    by (simp add: vendor_ok_def table_ok_def sample_vendor_world_def empty_vendor_world_def sample_profile_to_domain sample_media_to_domain
        is_ok_def)
qed

lemma sample_saved_row:
  "profile_to_domain (saved_profile sample_pending sample_draft) = Inr (saved_profile sample_pending sample_draft)"
  "profile_fits (saved_profile sample_pending sample_draft)" "profile_target sample_pending 0 sample_draft"
proof -
  show "profile_to_domain (saved_profile sample_pending sample_draft) = Inr (saved_profile sample_pending sample_draft)"
    by (simp add: saved_profile_def sample_pending_def profile_stamp_def sample_rehydrate_eval profile_validate_def
        res_bind_def del: One_nat_def)
  show "profile_fits (saved_profile sample_pending sample_draft)"
    by (simp add: saved_profile_def sample_pending_def profile_stamp_def profile_fits_def fits_def fits_opt_def
        sample_draft_def)
  show "profile_target sample_pending 0 sample_draft"
    by (simp add: profile_target_def sample_pending_def profile_stamp_def sample_draft_def)
qed

lemma sample_save:
  "\<exists>w' c. uow_save_profile 51 0 sample_pending sample_vendor_world = Inr (w', c)"
  using sample_saved_row
  by (simp add: uow_save_profile_def profile_save_def require_account_def sample_vendor_world_def
      empty_vendor_world_def replace_row_def replaced_def profile_fault_def with_events_def res_bind_def)
     (simp add: sample_pending_def profile_stamp_def sample_draft_def)

lemma sample_prepare:
  "prepare_transition (authorize (Owner 9) 3) (get_vendor_or_raise 3) vp_id vp_version 0
     (\<lambda>p. lift_domain (profile_call (PfSubmit 50) p)) sample_vendor_world = Inr (sample_draft, sample_pending)"
proof -
  have "get_vendor_or_raise 3 sample_vendor_world = Inr sample_draft"
    using get_vendor_row [OF sample_world_ok _ sample_profile_to_domain(1)]
    by (simp add: sample_vendor_world_def) (simp add: sample_draft_def)
  moreover have "authorize (Owner 9) 3 sample_vendor_world = Inr ()"
    by (simp add: authorize_def assert_actor_owns_vendor_def owns_vendor_def sample_vendor_world_def)
       (simp add: sample_draft_def)
  ultimately show ?thesis
    by (simp add: prepare_transition_def res_bind_def sample_submit) (simp add: sample_draft_def)
qed


lemma only_owners_and_admins_change_witness:
  "\<exists>w' d. run_command (\<lambda>_ _. '''') (\<lambda>_. '''') sample_vendor_request 9 (OnProfile 3 0 SubmitProfile) sample_vendor_world =
     Inr (w', d) \<and> guarded 9 sample_vendor_world w'"
proof -
  obtain w2 c where s: "uow_save_profile 51 0 sample_pending sample_vendor_world = Inr (w2, c)"
    using sample_save by blast
  have clock: "rq_clock sample_vendor_request 0 = 50" "rq_clock sample_vendor_request 1 = 51" by (simp_all add: sample_vendor_request_def)
  have v: "vp_version sample_pending \<noteq> vp_version sample_draft" "vp_version sample_draft = 0"
    by (simp_all add: sample_pending_def profile_stamp_def sample_draft_def)
  have run: "run_command (\<lambda>_ _. '''') (\<lambda>_. '''') sample_vendor_request 9 (OnProfile 3 0 SubmitProfile) sample_vendor_world =
      Inr (w2, ProfileDTO (to_profile_dto c))"
    using s v by (simp add: submit_profile_def profile_transition_def execute_transition_def clock
        sample_prepare [unfolded profile_call.simps] save_if_changed_def res_bind_def del: One_nat_def)
  from only_owners_and_admins_change [OF sample_world_ok run] run show ?thesis by blast
qed


definition sample_new_profile :: new_profile where
  "sample_new_profile =
     \<lparr>np_business_name = ''Inzozi Films'', np_category = ''photography'',
      np_description = ''Wedding and event photography in Kigali.'', np_service_area = ''Kigali'',
      np_contact_email = ''hello@inzozi.rw'', np_contact_phone = ''+250788000000'', np_custom_category = None,
      np_website = None\<rparr>"

definition early_request :: request where
  "early_request = \<lparr>rq_clock = (\<lambda>n. [10, 11, 52] ! n), rq_today = 20000, rq_new_id = 3\<rparr>"

abbreviation sample_accounts :: vendor_world where
  "sample_accounts \<equiv> empty_vendor_world [\<lparr>ac_id = 9, ac_is_active = True, ac_role = ''vendor''\<rparr>]"

lemma sample_creation:
  "\<exists>w1 d. run_creation (\<lambda>_ _. ''f'') (\<lambda>_. '''') early_request 9 ''k1'' (CreateProfile sample_new_profile) sample_accounts =
     Inr (w1, d)"
proof -
  have row: "(profile_pre_save 52 sample_draft)\<lparr>vp_events := []\<rparr> = sample_draft\<lparr>vp_updated_at := Aware 52\<rparr>"
    by (simp add: profile_pre_save_def sample_draft_def)
  have fits: "profile_fits (sample_draft\<lparr>vp_updated_at := Aware 52\<rparr>)"
    by (simp add: profile_fits_def fits_def fits_opt_def sample_draft_def)
  have key: "coerce_idempotency_key ''k1'' = Inr ''k1''" by code_simp
  have add: "\<exists>w' s. uow_add_profile 52 sample_draft (sample_accounts\<lparr>vw_keys := ks\<rparr>) = Inr (w', s)" for ks
    by (simp add: uow_add_profile_def profile_add_def require_account_def empty_vendor_world_def insert_row_def row
        profile_fault_def fits sample_profile_to_domain with_events_def res_bind_def)
       (simp add: sample_draft_def Let_def)
  have none: "get_profile_of_user 9 (sample_accounts\<lparr>vw_keys := ks\<rparr>) = Inr None" for ks
    by (simp add: get_profile_of_user_def read_opt_def empty_vendor_world_def)
  have "\<exists>w' s. create_profile early_request 9 sample_new_profile (sample_accounts\<lparr>vw_keys := ks\<rparr>) =
      Inr (w', ProfileDTO (to_profile_dto s))" for ks
  proof -
    from add [of ks] obtain w' s where "uow_add_profile 52 sample_draft (sample_accounts\<lparr>vw_keys := ks\<rparr>) = Inr (w', s)"
      by blast
    then show ?thesis
      using sample_draft_created by (auto simp: create_profile_def none early_request_def sample_new_profile_def res_bind_def)
  qed
  then obtain w' s where "create_profile early_request 9 sample_new_profile (sample_accounts\<lparr>vw_keys :=
      [\<lparr>ir_scope = ''vendor_profile.create'', ir_actor = 9, ir_key = ''k1'', ir_digest = ''f'',
        ir_status = KeyInProgress, ir_result = None\<rparr>]\<rparr>) = Inr (w', ProfileDTO (to_profile_dto s))" by blast
  moreover have "vw_keys sample_accounts = []" by (simp add: empty_vendor_world_def)
  ultimately show ?thesis
    by (simp add: run_creation_def key execute_once_def reserve_def res_bind_def Let_def)
qed

lemma creation_replayed_witness:
  "\<exists>w1 d. run_creation (\<lambda>_ _. ''f'') (\<lambda>_. '''') sample_vendor_request 9 ''k1'' (CreateProfile sample_new_profile)
      (run_ops (vendor_step (\<lambda>_ _. ''f'') (\<lambda>_. '''')) [(sample_vendor_request, 9, OnProfile 3 0 SubmitProfile)] w1) =
    Inr (run_ops (vendor_step (\<lambda>_ _. ''f'') (\<lambda>_. '''')) [(sample_vendor_request, 9, OnProfile 3 0 SubmitProfile)] w1,
      serialize_result d)"
proof -
  obtain w1 d where run: "run_creation (\<lambda>_ _. ''f'') (\<lambda>_. '''') early_request 9 ''k1''
      (CreateProfile sample_new_profile) sample_accounts = Inr (w1, d)" using sample_creation by blast
  have key: "coerce_idempotency_key ''k1'' = Inr ''k1''" by code_simp
  have fresh: "find (has_key (creation_scope (CreateProfile sample_new_profile)) 9 ''k1'') (vw_keys sample_accounts) = None"
    by (simp add: empty_vendor_world_def)
  from creation_replayed [OF empty_vendor_ok key fresh run refl, of sample_vendor_request
      "[(sample_vendor_request, 9, OnProfile 3 0 SubmitProfile)]" "CreateProfile sample_new_profile"]
  show ?thesis by auto
qed

lemma sample_reorder:
  "\<exists>w' r. reorder_portfolio_images sample_vendor_request 9 3 [8] [(8, 4)] sample_vendor_world = Inr (w', r)"
proof -
  let ?m = "sample_media\<lparr>pm_order := 3\<rparr>"
  have owns: "assert_actor_owns_vendor 9 3 sample_vendor_world = Inr ()"
    by (simp add: assert_actor_owns_vendor_def owns_vendor_def sample_vendor_world_def) (simp add: sample_draft_def)
  have rows: "vw_media sample_vendor_world = [?m]" by (simp add: sample_vendor_world_def)
  have live: "live_media ?m" "pm_vendor_id ?m = 3" "pm_id ?m = 8" "pm_version ?m = 4"
    by (simp_all add: live_media_def sample_media_def)
  have active: "active_media_rows 3 sample_vendor_world = [?m]" by (simp add: active_media_rows_def rows live)
  have load: "load_active_vendor_images 3 sample_vendor_world = Inr [?m]"
    by (simp add: load_active_vendor_images_def active sample_media_to_domain res_bind_def)
  have "media_valid (sample_media\<lparr>pm_order := 0, pm_updated_at := Aware 50\<rparr>)"
    by (simp add: sample_media_eval del: One_nat_def)
  moreover have "?m\<lparr>pm_order := 0, pm_updated_at := Aware 50\<rparr> = sample_media\<lparr>pm_order := 0, pm_updated_at := Aware 50\<rparr>"
    by (simp add: sample_media_def)
  ultimately obtain c where c: "reorder_media 50 0 ?m = Inr c" "pm_id c = 8" "pm_order c = 0"
    using media_commit_valid [of "sample_media\<lparr>pm_order := 0, pm_updated_at := Aware 50\<rparr>"]
    by (simp add: reorder_media_def ensure_mutable_def res_bind_def) (simp add: sample_media_def media_stamp_def)
  then have changed: "reordered_images sample_vendor_request [?m] [8] = Inr [c]"
    by (simp add: reordered_images_def image_with_id_def sample_vendor_request_def res_bind_def)
       (simp add: sample_media_def)
  have taken: "order_taken [x] y = False" if "pm_id x = pm_id y" for x y using that by (simp add: order_taken_def)
  have "\<exists>w' r. persist_reorder 3 [c] [(8, 4)] sample_vendor_world = Inr (w', r)"
    using live
    by (simp add: persist_reorder_def active rows c check_versions_def image_with_id_def move_row_def res_bind_def
        replaced_def taken live_media_def Let_def)
  then show ?thesis
    by (auto simp: reorder_portfolio_images_def coerce_resource_versions_def owns load res_bind_def live
        validate_portfolio_reorder_ids_def check_versions_def image_with_id_def changed)
qed

lemma reorder_effect_witness:
  "\<exists>w' r m. reorder_portfolio_images sample_vendor_request 9 3 [8] [(8, 4)] sample_vendor_world = Inr (w', r) \<and>
     m \<in> set (vw_media w') \<and> pm_id m = 8 \<and> pm_order m = 0"
proof -
  obtain w' r where run: "reorder_portfolio_images sample_vendor_request 9 3 [8] [(8, 4)] sample_vendor_world = Inr (w', r)"
    using sample_reorder by blast
  from reorder_effect [OF sample_world_ok run] obtain m where
    "m \<in> set (vw_media w')" "pm_id m = 8" "pm_vendor_id m = 3" "live_media m"
    and "\<exists>k < length [8 :: nat]. pm_id m = [8] ! k \<and> pm_order m = int k" by force
  with run show ?thesis by auto
qed

end
