(* ===== verification/Market_Projection.thy ===== *)
theory Market_Projection
  imports Market_Guarantees Vendor_Guarantees
begin

text \<open>
  How vendors get onto the marketplace: the approval of a whole submission
  (\<open>interface/vendors/approval_workflow.py\<close>) and the administrators' views (\<open>interface/vendors/views/admin.py\<close>),
  the outbox of projections with its delivery and its retries (\<open>interface/governance/marketplace_outbox.py\<close>),
  the client of the internal routes (\<open>infrastructure/adapters/marketplace_projection.py\<close>) and the
  reconciliation (\<open>interface/governance/marketplace_reconciliation.py\<close>). The projections are enqueued by
  the repositories in \<open>Vendor_Store\<close>, the routes are those of \<open>Market_Service\<close>.

  The marketplace is configured. A request meets a \<open>fate\<close>: it is answered, it is lost before or after the
  service acted on it, or the process dies before or after the call. The JSON text of a body and of a time
  stamp are arguments.
\<close>

section \<open>Approving a submission\<close>

definition safe_public_portfolio_url :: "string option \<Rightarrow> bool" where
  "safe_public_portfolio_url url =
     (let v = py_strip (py_or_empty url)
      in v \<noteq> '''' \<and> \<not> py_startswith v ''/media/'' \<and> \<not> py_contains ''vendor_portfolio_uploads'' v)"

definition has_public_display_url :: "media \<Rightarrow> bool" where
  "has_public_display_url m =
     (safe_public_portfolio_url (pm_cloud_url m) \<or> safe_public_portfolio_url (Some (pm_secure_url m)))"

record approval_counts =
  ap_packages :: nat
  ap_media :: nat
  ap_skipped :: nat

definition pending_package :: "uuid \<Rightarrow> package \<Rightarrow> bool" where
  "pending_package v p = (sp_vendor_id p = v \<and> sp_approval_status p = ''waiting_approval'' \<and> \<not> sp_is_deleted p)"

definition approved_in_bulk :: "instant \<Rightarrow> package \<Rightarrow> package" where
  "approved_in_bulk now p = p\<lparr>sp_approval_status := ''approved'', sp_rejection_reason := None, sp_is_active := True,
     sp_last_approved_at := Some (Aware now), sp_next_edit_at := Some (Aware (now + vendor_edit_cooldown)),
     sp_updated_at := Aware now\<rparr>"

definition media_candidate :: "uuid \<Rightarrow> media \<Rightarrow> bool" where
  "media_candidate v m = (pm_vendor_id m = v \<and> \<not> pm_is_deleted m \<and> pm_upload m = ''uploaded'' \<and>
     pm_quality m = ''passed'' \<and> pm_visibility m \<in> {''private'', ''waiting_approval''})"

definition media_eligible :: "uuid \<Rightarrow> media \<Rightarrow> bool" where
  "media_eligible v m = (media_candidate v m \<and> has_public_display_url m)"

definition shown_in_bulk :: "instant \<Rightarrow> media \<Rightarrow> media" where
  "shown_in_bulk now m = m\<lparr>pm_visibility := ''approved'', pm_rejection_reason := None, pm_is_active := True,
     pm_updated_at := Aware now\<rparr>"

definition approved_row :: "instant \<Rightarrow> instant \<Rightarrow> profile \<Rightarrow> profile" where
  "approved_row now saved r = profile_pre_save saved
     (r\<lparr>vp_status := ''approved'', vp_approved_at := Some (Aware now), vp_rejected_at := None, vp_rejection_reason := None\<rparr>)"

text \<open>\<open>approve_pending_vendor_submission\<close>, one transaction: \<open>now\<close> is read once, \<open>saved\<close> by the save of the
  row. No version is raised and no event stored.\<close>

definition approve_pending_vendor_submission ::
  "instant \<Rightarrow> instant \<Rightarrow> uuid \<Rightarrow> vendor_world \<Rightarrow> (vendor_failure, vendor_world \<times> profile \<times> approval_counts) res" where
  "approve_pending_vendor_submission now saved v w =
     (case profile_row v w of
        None \<Rightarrow> Inl (Domain (VendorValueError ''Vendor not found.''))
      | Some r \<Rightarrow>
          if vp_status r \<noteq> ''pending_review''
          then Inl (Domain (VendorValueError ''Vendor must be submitted for review before approval.''))
          else let row = approved_row now saved r;
                 packages = replaced (pending_package v) (approved_in_bulk now) (vw_packages w);
                 media = replaced (media_eligible v) (shown_in_bulk now) (vw_media w)
            in if \<not> list_all package_checks packages \<or> list_ex (order_taken media) media then Inl IntegrityError
               else Inr (w\<lparr>vw_profiles := replaced (\<lambda>x. vp_id x = v) (\<lambda>_. row) (vw_profiles w), vw_packages := packages,
                   vw_media := media\<rparr>, row,
                 \<lparr>ap_packages = length (filter (pending_package v) (vw_packages w)),
                  ap_media = length (filter (media_eligible v) (vw_media w)),
                  ap_skipped = length (filter (\<lambda>m. media_candidate v m \<and> \<not> media_eligible v m) (vw_media w))\<rparr>))"

text \<open>The views of the administrators: the caller has been found to be one. The version a decision is made
  on is read when the request arrives. Only \<open>ValueError\<close> is turned into an answer; the model tells the failures
  apart by their constructor.\<close>

definition admin_approve_vendor ::
  "instant \<Rightarrow> instant \<Rightarrow> instant \<Rightarrow> uuid \<Rightarrow> vendor_world \<Rightarrow> (vendor_failure, vendor_world \<times> profile \<times> approval_counts) res" where
  "admin_approve_vendor now saved created v w =
     res_bind (approve_pending_vendor_submission now saved v w) (\<lambda>(w', r, n).
       Inr (enqueue_projection created ''vendor_approved'' r w', r, n))"

definition current_vendor_version :: "uuid \<Rightarrow> vendor_world \<Rightarrow> int" where
  "current_vendor_version v w = (case profile_row v w of None \<Rightarrow> 0 | Some r \<Rightarrow> vp_version r)"

definition enqueue_projection_by_id :: "instant \<Rightarrow> string \<Rightarrow> uuid \<Rightarrow> vendor_world \<Rightarrow> vendor_world" where
  "enqueue_projection_by_id now reason v w =
     (case profile_row v w of None \<Rightarrow> w | Some r \<Rightarrow> enqueue_projection now reason r w)"

datatype admin_decision = RejectIt string | SuspendIt | ReinstateIt

definition admin_decide_vendor ::
  "request \<Rightarrow> instant \<Rightarrow> uuid \<Rightarrow> uuid \<Rightarrow> admin_decision \<Rightarrow> vendor_world \<Rightarrow> (vendor_failure, vendor_world \<times> vendor_dto) res" where
  "admin_decide_vendor q created admin v d w =
     (let k = current_vendor_version v w in
      res_bind (case d of
          RejectIt reason \<Rightarrow> reject_vendor q admin v k reason w
        | SuspendIt \<Rightarrow> suspend_vendor q admin v k None w
        | ReinstateIt \<Rightarrow> reinstate_vendor q admin v k w) (\<lambda>(w', dto).
        Inr (enqueue_projection_by_id created (case d of RejectIt _ \<Rightarrow> ''vendor_rejected'' | SuspendIt \<Rightarrow> ''vendor_suspended''
          | ReinstateIt \<Rightarrow> ''vendor_reinstated'') v w', dto)))"

section \<open>The client of the marketplace\<close>

text \<open>How the client writes a body, a time stamp and the path of a listing.\<close>

record link =
  lk_service :: service_env
  lk_encode :: "listing_request \<Rightarrow> string"
  lk_stamp :: "instant \<Rightarrow> string"
  lk_path :: "uuid \<Rightarrow> string"

datatype fate = Answered | LostBefore | LostAfter | DiedBefore | DiedAfter

text \<open>One attempt: its fate, whether Redis answers the marketplace, the clock, the identifier of the request
  and the one of a new listing.\<close>

record delivery_attempt =
  at_fate :: fate
  at_redis :: bool
  at_now :: instant
  at_request_id :: string
  at_new_id :: uuid

definition arrives :: "fate \<Rightarrow> bool" where
  "arrives f = (f \<in> {Answered, LostAfter, DiedAfter})"

definition listing_body :: "listing \<Rightarrow> listing_request" where
  "listing_body li = \<lparr>lr_vendor = li_vendor li, lr_external_id = None, lr_business_name = li_business_name li,
     lr_category = li_category li, lr_custom_category = None, lr_description = li_description li,
     lr_service_area = li_service_area li, lr_tags = NoTags, lr_cover_image_url = li_cover_image_url li,
     lr_average_rating = 0, lr_total_reviews = 0, lr_is_verified = True, lr_approval_status = ''approved'',
     lr_status = None, lr_is_approved = True, lr_rank_score = 0, lr_starting_price = li_min_price li,
     lr_min_price = li_min_price li, lr_max_price = li_max_price li, lr_currency = li_currency li\<rparr>"

definition signed :: "link \<Rightarrow> delivery_attempt \<Rightarrow> string \<Rightarrow> string \<Rightarrow> string \<Rightarrow> service_request" where
  "signed k a method path body = build_service_request (lk_service k) (se_key (lk_service k)) method path body
     (at_request_id a) (lk_stamp k (at_now a))"

text \<open>Whether the client got a success back.\<close>

definition heard :: "delivery_attempt \<Rightarrow> (market_failure, 'a) res \<Rightarrow> bool" where
  "heard a r = (at_fate a = Answered \<and> is_ok r)"

definition sync_listing :: "link \<Rightarrow> delivery_attempt \<Rightarrow> listing \<Rightarrow> market \<Rightarrow> market \<times> bool" where
  "sync_listing k a li m =
     (if \<not> arrives (at_fate a) then (m, False)
      else let (m', r) = upsert_listing (lk_service k) (at_redis a) (at_now a) (at_new_id a)
             (signed k a ''POST'' ''/internal/listings'' (lk_encode k (listing_body li))) m
           in (m', heard a r))"

definition delete_remote :: "link \<Rightarrow> delivery_attempt \<Rightarrow> uuid \<Rightarrow> market \<Rightarrow> market \<times> bool" where
  "delete_remote k a v m =
     (if \<not> arrives (at_fate a) then (m, False)
      else let (m', r) = delete_listing (lk_service k) (at_redis a) (at_now a) (Some v)
             (signed k a ''DELETE'' (lk_path k v) ''{}'') m
           in (m', heard a r))"

definition list_remote :: "link \<Rightarrow> delivery_attempt \<Rightarrow> market \<Rightarrow> uuid list option" where
  "list_remote k a m =
     (case list_listings (lk_service k) (at_now a) (signed k a ''GET'' ''/internal/listings'' ''{}'') m of
        Inl _ \<Rightarrow> None | Inr vs \<Rightarrow> if at_fate a = Answered then Some vs else None)"

section \<open>Delivery\<close>

text \<open>\<open>_deliver_event\<close>.\<close>

definition send_projection :: "link \<Rightarrow> delivery_attempt \<Rightarrow> projection \<Rightarrow> market \<Rightarrow> market \<times> bool" where
  "send_projection k a p m =
     (case pj_listing p of None \<Rightarrow> delete_remote k a (pj_vendor p) m | Some li \<Rightarrow> sync_listing k a li m)"

definition max_delivery_attempts :: nat where "max_delivery_attempts = 5"

definition failed_or_pending :: "instant \<Rightarrow> projection \<Rightarrow> projection" where
  "failed_or_pending now p =
     (if max_delivery_attempts \<le> pj_attempts p then p\<lparr>pj_status := PjFailed\<rparr>
      else p\<lparr>pj_status := PjPending, pj_next_attempt := now + minutes (min 30 (2 ^ pj_attempts p))\<rparr>)"

text \<open>What a delivery leaves of its row, of the marketplace, and what it returns: \<open>None\<close> is a raised exception
  or a dead process.\<close>

definition deliver :: "link \<Rightarrow> delivery_attempt \<Rightarrow> projection \<Rightarrow> market \<Rightarrow> projection \<times> market \<times> bool option" where
  "deliver k a p m =
     (if pj_status p = PjDelivered then (p, m, Some True)
      else if pj_status p = PjFailed then (p, m, Some False)
      else let p1 = p\<lparr>pj_status := PjProcessing, pj_attempts := pj_attempts p + 1\<rparr>;
             (m', ok) = send_projection k a p1 m
        in if at_fate a \<in> {DiedBefore, DiedAfter} then (p1, m', None)
           else if ok then (p1\<lparr>pj_status := PjDelivered\<rparr>, m', Some True)
           else (failed_or_pending (at_now a) p1, m', None))"

text \<open>The rows of the outbox by their position. The state is that of the two services together.\<close>

type_synonym platform = "vendor_world \<times> market"

definition deliver_projection :: "link \<Rightarrow> delivery_attempt \<Rightarrow> nat \<Rightarrow> platform \<Rightarrow> platform" where
  "deliver_projection k a i s =
     (case s of (w, m) \<Rightarrow>
        if i < length (vw_projections w)
        then (case deliver k a (vw_projections w ! i) m of
            (p, m', _) \<Rightarrow> (w\<lparr>vw_projections := (vw_projections w)[i := p]\<rparr>, m'))
        else s)"

definition is_due :: "instant \<Rightarrow> projection \<Rightarrow> bool" where
  "is_due now p = (pj_status p = PjPending \<and> pj_attempts p < max_delivery_attempts \<and> pj_next_attempt p \<le> now)"

definition due_projections :: "instant \<Rightarrow> nat \<Rightarrow> projection list \<Rightarrow> nat list" where
  "due_projections now limit ps =
     take limit (sort_key (\<lambda>i. pj_next_attempt (ps ! i)) (sort_key (\<lambda>i. pj_created (ps ! i))
       (filter (\<lambda>i. is_due now (ps ! i)) [0..<length ps])))"

text \<open>\<open>retry_due_...\<close>: each selected row once, an exception does not stop the run; a process that dies does.
  \<open>f i\<close> is the attempt made for row \<open>i\<close>.\<close>

fun retry_rows :: "link \<Rightarrow> (nat \<Rightarrow> delivery_attempt) \<Rightarrow> nat list \<Rightarrow> platform \<Rightarrow> platform" where
  "retry_rows k f [] s = s"
| "retry_rows k f (i # is) s =
     (if at_fate (f i) \<in> {DiedBefore, DiedAfter} then deliver_projection k (f i) i s
      else retry_rows k f is (deliver_projection k (f i) i s))"

definition retry_due_projections :: "link \<Rightarrow> instant \<Rightarrow> nat \<Rightarrow> (nat \<Rightarrow> delivery_attempt) \<Rightarrow> platform \<Rightarrow> platform" where
  "retry_due_projections k now limit f s =
     retry_rows k f (due_projections now (if limit = 0 then 25 else limit) (vw_projections (fst s))) s"

section \<open>Reconciliation\<close>

definition approved_complete_vendors :: "vendor_world \<Rightarrow> profile list" where
  "approved_complete_vendors w = sort_key vp_id (filter is_vendor_listable (vw_profiles w))"

text \<open>The deletions stop at the first that fails; identifiers are compared as their strings of equal length,
  which is their order.\<close>

fun delete_all_remote :: "link \<Rightarrow> (uuid \<Rightarrow> delivery_attempt) \<Rightarrow> uuid list \<Rightarrow> market \<Rightarrow> market" where
  "delete_all_remote k f [] m = m"
| "delete_all_remote k f (v # vs) m =
     (case delete_remote k (f v) v m of (m', ok) \<Rightarrow> if ok then delete_all_remote k f vs m' else m')"

definition reconcile ::
  "link \<Rightarrow> instant \<Rightarrow> delivery_attempt \<Rightarrow> (uuid \<Rightarrow> delivery_attempt) \<Rightarrow> bool \<Rightarrow> platform \<Rightarrow> platform" where
  "reconcile k now listing f dry_run s =
     (case s of (w, m) \<Rightarrow>
        let approved = approved_complete_vendors w in
        case list_remote k listing m of
          None \<Rightarrow> s
        | Some remote \<Rightarrow>
            if dry_run then s
            else (fold (enqueue_projection now ''marketplace_reconciliation'') approved w,
                  delete_all_remote k f (sorted_list_of_set (set remote - set (map vp_id approved))) m))"

section \<open>A request that arrives\<close>

text \<open>What the two sides share: the service decodes the bodies and time stamps the client writes, and an
  authentication code is never empty.\<close>

definition decodes :: "link \<Rightarrow> listing \<Rightarrow> bool" where
  "decodes k li = (se_decode (lk_service k) (lk_encode k (listing_body li)) = Some (listing_body li))"

definition link_ok :: "link \<Rightarrow> bool" where
  "link_ok k = (
     (\<forall>t. lk_stamp k t \<noteq> '''' \<and> se_parse_time (lk_service k) (lk_stamp k t) = Some (Aware t)) \<and>
     (\<forall>m. se_hmac (lk_service k) (se_key (lk_service k)) m \<noteq> ''''))"

lemma signed_verified:
  "link_ok k \<Longrightarrow> at_request_id a \<noteq> '''' \<Longrightarrow> verified_body (lk_service k) (at_now a) (signed k a method path body) = Inr body"
  unfolding signed_def by (rule built_request_accepted) (auto simp: link_ok_def seconds_def)

text \<open>What the marketplace does with a listing of the vendor application.\<close>

definition publish :: "uuid \<Rightarrow> listing \<Rightarrow> market \<Rightarrow> (market_failure, market \<times> bool) res" where
  "publish new_id li m =
     (case validate_listing_request (listing_body li) of
        None \<Rightarrow> Inl (HttpError 422 ''Unprocessable'') | Some q \<Rightarrow> upsert_listing_payload new_id q m)"

lemma sync_listing_arrives:
  assumes "link_ok k" "at_request_id a \<noteq> ''''" "decodes k li"
  shows "sync_listing k a li m =
    (if \<not> arrives (at_fate a) then (m, False)
     else case publish (at_new_id a) li m of
        Inl _ \<Rightarrow> (m, False)
      | Inr (m', b) \<Rightarrow> let (m'', r) = invalidate_cache (lk_service k) (at_redis a) m' b in (m'', heard a r))"
  using signed_verified [OF assms(1,2)] assms(3) [unfolded decodes_def]
  by (simp add: sync_listing_def upsert_listing_def parse_listing_payload_def publish_def heard_def
      split: option.split sum.split prod.split)

lemma delete_remote_arrives:
  assumes "link_ok k" "at_request_id a \<noteq> ''''"
  shows "delete_remote k a v m =
    (if \<not> arrives (at_fate a) then (m, False)
     else case find (\<lambda>l. ml_vendor l = v) (mk_listings m) of
        None \<Rightarrow> (m, at_fate a = Answered)
      | Some l \<Rightarrow> (case remove_listing l m of
            Inl _ \<Rightarrow> (m, False)
          | Inr m' \<Rightarrow> let (m'', r) = invalidate_cache (lk_service k) (at_redis a) m' True in (m'', heard a r)))"
  using assms
  by (simp add: delete_remote_def delete_listing_def signed_verified heard_def split: option.split sum.split prod.split)

lemma invalidate_cache_listings [simp]:
  "mk_listings (fst (invalidate_cache e up m r)) = mk_listings m" "mk_reviews (fst (invalidate_cache e up m r)) = mk_reviews m"
  by (simp_all add: invalidate_cache_def)

lemma market_ok_listings: "mk_listings m' = mk_listings m \<Longrightarrow> market_ok m' = market_ok m"
  by (simp add: market_ok_def)

lemma validated_vendor: "validate_listing_request (listing_body li) = Some q \<Longrightarrow> lr_vendor q = li_vendor li"
  by (auto simp: validate_listing_request_def listing_body_def trim_request_def Let_def split: if_splits option.splits)

lemma validated_no_external_id: "validate_listing_request (listing_body li) = Some q \<Longrightarrow> request_external_id q = None"
  by (auto simp: validate_listing_request_def listing_body_def trim_request_def Let_def request_external_id_def
      split: if_splits option.splits)

lemma validated_approved:
  "validate_listing_request (listing_body li) = Some q \<Longrightarrow> lr_is_approved q \<and> lr_approval_status q = ''approved''"
  by (auto simp: validate_listing_request_def listing_body_def trim_request_def Let_def status_consistent_def
      split: if_splits option.splits)

lemma publish_listed: "publish i li m = Inr (m', b) \<Longrightarrow> b"
  by (auto simp: publish_def upsert_listing_payload_def Let_def dest!: validated_approved split: option.splits if_splits)
     (simp_all add: py_lower_def py_strip_def lower_char_def is_space_def code_def)

end
