(* ===== verification/Market_Delivery.thy ===== *)
theory Market_Delivery
  imports Market_Projection
begin

text \<open>
  What the delivery of projections promises: a row marked as delivered has been heard of by the marketplace,
  a row is tried five times at most, a projection the marketplace refuses is never listed. What it does not:
  projections are not ordered, and a submission approved in bulk can be undone by a save prepared before.
\<close>

section \<open>What a delivery leaves\<close>

text \<open>A listing shows a projection: its texts, with surrounding white space removed, and its prices; the
  ratings start again.\<close>

definition listing_shown :: "listing \<Rightarrow> market_listing \<Rightarrow> bool" where
  "listing_shown li l = (ml_vendor l = li_vendor li \<and> ml_business_name l = rust_trim (li_business_name li) \<and>
     ml_category l = py_lower (py_strip (rust_trim (li_category li))) \<and>
     ml_description l = rust_trim (li_description li) \<and> ml_service_area l = rust_trim (li_service_area li) \<and>
     ml_starting_price l = li_min_price li \<and> ml_min_price l = li_min_price li \<and> ml_max_price l = li_max_price li \<and>
     ml_is_verified l \<and> ml_approval_status l = ''approved'' \<and> ml_average_rating l = 0 \<and> ml_total_reviews l = 0)"

lemma validated_shown:
  "validate_listing_request (listing_body li) = Some q \<Longrightarrow> listing_shown li (written_listing q l)"
  by (auto simp: validate_listing_request_def listing_body_def trim_request_def Let_def listing_shown_def
      written_listing_def normalize_choice_def split: if_splits option.splits)

lemma get_by_vendor_find:
  "market_ok m \<Longrightarrow> get_by_vendor_id v (mk_listings m) = find (\<lambda>l. ml_vendor l = v) (mk_listings m)"
  unfolding get_by_vendor_id_def by (rule find_cong) (auto simp: market_ok_def)

lemma get_by_vendor_iff:
  assumes "market_ok m"
  shows "get_by_vendor_id v (mk_listings m) = Some l \<longleftrightarrow> l \<in> set (mk_listings m) \<and> ml_vendor l = v"
  unfolding get_by_vendor_find [OF assms]
  using find_Some_set distinct_find_unique [of ml_vendor "mk_listings m" l] assms
  by (fastforce simp: market_ok_def)

lemma get_by_vendor_none:
  "market_ok m \<Longrightarrow> get_by_vendor_id v (mk_listings m) = None \<longleftrightarrow> v \<notin> ml_vendor ` set (mk_listings m)"
  by (auto simp: get_by_vendor_id_def market_ok_def find_None_iff_all)

lemma market_ok_same:
  "market_ok m \<Longrightarrow> x \<in> set (mk_listings m) \<Longrightarrow> y \<in> set (mk_listings m) \<Longrightarrow> ml_id x = ml_id y \<longleftrightarrow> ml_vendor x = ml_vendor y"
  unfolding market_ok_def distinct_map inj_on_def by blast

lemma publish_listings:
  assumes ok: "market_ok m" and run: "publish i li m = Inr (m', b)"
  obtains q l where "validate_listing_request (listing_body li) = Some q" "lr_vendor q = li_vendor li"
    "set (mk_listings m') = insert (written_listing q l) {x \<in> set (mk_listings m). ml_vendor x \<noteq> li_vendor li}"
    "mk_reviews m' = mk_reviews m" "mk_cache m' = mk_cache m"
proof -
  obtain q where q: "validate_listing_request (listing_body li) = Some q" and up: "upsert_listing_payload i q m = Inr (m', b)"
    using run by (auto simp: publish_def split: option.splits)
  have v: "lr_vendor q = li_vendor li" using q by (rule validated_vendor)
  have b: b using run by (rule publish_listed)
  have e: "request_external_id q = None" using q by (rule validated_no_external_id)
  have "\<exists>l. set (mk_listings m') = insert (written_listing q l) {x \<in> set (mk_listings m). ml_vendor x \<noteq> li_vendor li}"
  proof (cases "find (\<lambda>l. ml_vendor l = lr_vendor q) (mk_listings m)")
    case None
    then have "find_listing q (mk_listings m) = None" by (simp add: find_listing_def e)
    moreover have "{x \<in> set (mk_listings m). ml_vendor x \<noteq> li_vendor li} = set (mk_listings m)"
      using None v by (auto simp: find_None_iff_all)
    ultimately show ?thesis using up b
      by (auto simp: upsert_listing_payload_def Let_def split: if_splits)
  next
    case (Some old)
    then have old: "old \<in> set (mk_listings m)" "ml_vendor old = li_vendor li"
      using v by (auto dest: find_Some_set)
    have same: "ml_id x = ml_id old \<longleftrightarrow> ml_vendor x = li_vendor li" if "x \<in> set (mk_listings m)" for x
      using market_ok_same [OF ok that old(1)] old(2) by simp
    have "mk_listings m' = map (\<lambda>x. if ml_id x = ml_id old then written_listing q old else x) (mk_listings m)"
      using up b Some by (auto simp: upsert_listing_payload_def Let_def find_listing_def res_simps split: if_splits)
    with same old show ?thesis by (intro exI [of _ old]) auto
  qed
  with that q v upsert_listing_payload_frame [OF up] show thesis by blast
qed

lemma publish_ok: "market_ok m \<Longrightarrow> i \<notin> ml_id ` set (mk_listings m) \<Longrightarrow> publish i li m = Inr (m', b) \<Longrightarrow> market_ok m'"
  by (auto simp: publish_def split: option.splits intro: upsert_listing_payload_ok)

lemma remove_listing_set:
  assumes "market_ok m" "find (\<lambda>l. ml_vendor l = v) (mk_listings m) = Some l" "remove_listing l m = Inr m'"
  shows "set (mk_listings m') = {x \<in> set (mk_listings m). ml_vendor x \<noteq> v}"
proof -
  have "ml_id x = ml_id l \<longleftrightarrow> ml_vendor x = v" if "x \<in> set (mk_listings m)" for x
    using market_ok_same [OF assms(1) that] find_Some_set [OF assms(2)] by simp
  with assms(3) show ?thesis by (auto simp: remove_listing_def split: if_splits)
qed

text \<open>The listings after a request, of which the client may or may not have heard.\<close>

definition listings_after :: "projection \<Rightarrow> market \<Rightarrow> market \<Rightarrow> bool" where
  "listings_after p m m' =
     (market_ok m' \<and> mk_reviews m' = mk_reviews m \<and>
      (\<forall>v. v \<noteq> pj_vendor p \<longrightarrow> get_by_vendor_id v (mk_listings m') = get_by_vendor_id v (mk_listings m)) \<and>
      (case pj_listing p of
         None \<Rightarrow> get_by_vendor_id (pj_vendor p) (mk_listings m') = None
       | Some li \<Rightarrow> \<exists>l. get_by_vendor_id (pj_vendor p) (mk_listings m') = Some l \<and> listing_shown li l))"

text \<open>Every projection is about the vendor of its payload, which the service can decode.\<close>

definition projection_ok :: "link \<Rightarrow> projection \<Rightarrow> bool" where
  "projection_ok k p = (case pj_listing p of None \<Rightarrow> True | Some li \<Rightarrow> li_vendor li = pj_vendor p \<and> decodes k li)"

lemma get_by_vendor_option:
  "market_ok m \<Longrightarrow> market_ok m' \<Longrightarrow> (\<And>l. ml_vendor l = v \<Longrightarrow> l \<in> set (mk_listings m') \<longleftrightarrow> l \<in> set (mk_listings m)) \<Longrightarrow>
     get_by_vendor_id v (mk_listings m') = get_by_vendor_id v (mk_listings m)"
  by (metis get_by_vendor_iff option.exhaust)

lemma send_projection_heard:
  assumes ok: "market_ok m" "link_ok k" "projection_ok k p" "at_request_id a \<noteq> ''''" "at_new_id a \<notin> ml_id ` set (mk_listings m)"
    and send: "send_projection k a p m = (m', True)"
  shows "listings_after p m m'"
proof (cases "pj_listing p")
  case None
  show ?thesis
  proof (cases "find (\<lambda>l. ml_vendor l = pj_vendor p) (mk_listings m)")
    case absent: None
    then have "m' = m" using send None ok by (simp add: send_projection_def delete_remote_arrives split: if_splits)
    with None absent ok show ?thesis by (simp add: listings_after_def get_by_vendor_find)
  next
    case (Some l)
    have del: "delete_remote k a (pj_vendor p) m = (m', True)" using send None by (simp add: send_projection_def)
    obtain m1 where m1: "remove_listing l m = Inr m1"
      using del Some ok by (cases "remove_listing l m") (auto simp: delete_remote_arrives split: if_splits)
    have m': "m' = fst (invalidate_cache (lk_service k) (at_redis a) m1 True)"
      using del Some ok m1 by (auto simp: delete_remote_arrives split: if_splits prod.splits)
    have set: "set (mk_listings m') = {x \<in> set (mk_listings m). ml_vendor x \<noteq> pj_vendor p}"
      using remove_listing_set [OF ok(1) Some m1] m' by simp
    moreover have ok': "market_ok m'" using remove_listing_ok [OF ok(1) m1] m' by (simp add: market_ok_def)
    moreover have "mk_reviews m' = mk_reviews m" using remove_listing_frame [OF m1] m' by simp
    moreover have "get_by_vendor_id (pj_vendor p) (mk_listings m') = None"
      using set by (auto simp: get_by_vendor_none [OF ok'])
    ultimately show ?thesis
      using None by (auto simp: listings_after_def intro!: get_by_vendor_option [OF ok(1)])
  qed
next
  case (Some li)
  then have sync: "sync_listing k a li m = (m', True)" using send by (simp add: send_projection_def)
  have v: "li_vendor li = pj_vendor p" and "decodes k li" using ok(3) Some by (simp_all add: projection_ok_def)
  note ok = ok this(2)
  obtain m1 b where m1: "publish (at_new_id a) li m = Inr (m1, b)"
    using sync ok by (cases "publish (at_new_id a) li m") (auto simp: sync_listing_arrives split: if_splits)
  have m': "m' = fst (invalidate_cache (lk_service k) (at_redis a) m1 b)"
    using sync ok m1 by (auto simp: sync_listing_arrives split: if_splits prod.splits)
  have lm: "mk_listings m' = mk_listings m1" "mk_reviews m' = mk_reviews m1" using m' by simp_all
  obtain q l where q: "validate_listing_request (listing_body li) = Some q" "lr_vendor q = li_vendor li"
    and set: "set (mk_listings m') = insert (written_listing q l) {x \<in> set (mk_listings m). ml_vendor x \<noteq> li_vendor li}"
    and rv: "mk_reviews m' = mk_reviews m"
    unfolding lm by (rule publish_listings [OF ok(1) m1])
  note rv
  moreover have ok': "market_ok m'" using publish_ok [OF ok(1,5) m1] m' by (simp add: market_ok_def)
  moreover have "get_by_vendor_id (pj_vendor p) (mk_listings m') = Some (written_listing q l)"
    using q set v by (simp add: get_by_vendor_iff [OF ok'])
  moreover have "get_by_vendor_id u (mk_listings m') = get_by_vendor_id u (mk_listings m)" if "u \<noteq> pj_vendor p" for u
  proof (rule get_by_vendor_option [OF ok(1) ok'])
    fix x :: market_listing assume "ml_vendor x = u"
    moreover have "ml_vendor (written_listing q l) = pj_vendor p" using q v by simp
    ultimately show "x \<in> set (mk_listings m') \<longleftrightarrow> x \<in> set (mk_listings m)" using that v unfolding set by auto
  qed
  ultimately show ?thesis
    using Some validated_shown [OF q(1), of l] by (simp add: listings_after_def)
qed

lemma attempt_irrelevant [simp]:
  "listings_after (p\<lparr>pj_status := st, pj_attempts := n\<rparr>) m m' = listings_after p m m'"
  "projection_ok k (p\<lparr>pj_status := st, pj_attempts := n\<rparr>) = projection_ok k p"
  by (cases "pj_listing p"; simp add: listings_after_def projection_ok_def)+


section \<open>Attempts\<close>



definition survives :: "fate \<Rightarrow> bool" where
  "survives f = (f \<in> {Answered, LostBefore, LostAfter})"









lemma due_not_processing: "i \<in> set (due_projections now limit ps) \<Longrightarrow> pj_status (ps ! i) = PjPending \<and> i < length ps"
  unfolding due_projections_def by (drule in_set_takeD) (auto simp: is_due_def)


section \<open>Projections out of order\<close>

lemma sync_lost: "sync_listing k (a\<lparr>at_fate := LostBefore\<rparr>) li m = (m, False)"
  by (simp add: sync_listing_def arrives_def)

lemma delete_answered:
  assumes "link_ok k" "at_request_id a \<noteq> ''''" "at_fate a = Answered" "at_redis a" "\<not> reviewed v (mk_reviews m)"
  shows "\<exists>m'. delete_remote k a v m = (m', True)"
proof (cases "find (\<lambda>l. ml_vendor l = v) (mk_listings m)")
  case None
  with assms show ?thesis by (simp add: delete_remote_arrives arrives_def)
next
  case (Some l)
  moreover have "ml_vendor l = v" using find_Some_set [OF Some] by simp
  ultimately show ?thesis
    using assms by (simp add: delete_remote_arrives arrives_def remove_listing_def invalidate_cache_def heard_def is_ok_def)
qed

lemma sync_answered:
  assumes "link_ok k" "at_request_id a \<noteq> ''''" "decodes k li" "at_fate a = Answered" "at_redis a"
    and "get_by_vendor_id (li_vendor li) (mk_listings m) = None" "market_ok m"
    and q: "validate_listing_request (listing_body li) = Some q" and "price_fits (li_min_price li)" "price_fits (li_max_price li)"
  shows "\<exists>m'. sync_listing k a li m = (m', True)"
proof -
  have v: "lr_vendor q = li_vendor li" using q by (rule validated_vendor)
  have e: "request_external_id q = None" using q by (rule validated_no_external_id)
  have absent: "ml_vendor x \<noteq> li_vendor li" if "x \<in> set (mk_listings m)" for x
    using assms(6) imageI [OF that, of ml_vendor] unfolding get_by_vendor_none [OF assms(7)] by metis
  let ?l = "written_listing q (blank_listing (at_new_id a))"
  have e': "ml_external_id ?l = None" "ml_vendor ?l = li_vendor li"
    using e v by (simp_all add: written_listing_def blank_listing_def)
  have "listing_shown li ?l" using q by (rule validated_shown)
  then have p: "ml_starting_price ?l = li_min_price li" "ml_min_price ?l = li_min_price li" "ml_max_price ?l = li_max_price li"
    by (simp_all add: listing_shown_def)
  have "listing_storable ?l (mk_listings m)"
    unfolding listing_storable_def p listing_clash_def list_ex_iff e' using assms(9,10) absent by blast
  moreover have "find (\<lambda>l. ml_vendor l = li_vendor li) (mk_listings m) = None"
    using absent by (simp add: find_None_iff_all)
  then have "find_listing q (mk_listings m) = None" using e v by (simp add: find_listing_def)
  moreover have "lr_is_approved q \<and> py_lower (py_strip (lr_approval_status q)) = ''approved''"
    using validated_approved [OF q] by (simp add: py_lower_def py_strip_def lower_char_def is_space_def code_def)
  ultimately have "publish (at_new_id a) li m = Inr (m\<lparr>mk_listings := mk_listings m @ [?l]\<rparr>, True)"
    using q by (simp add: publish_def upsert_listing_payload_def Let_def)
  with assms show ?thesis
    by (simp add: sync_listing_arrives arrives_def invalidate_cache_def heard_def is_ok_def)
qed

lemma delete_remote_subset:
  assumes "link_ok k" "at_request_id a \<noteq> ''''"
  shows "set (mk_listings (fst (delete_remote k a v m))) \<subseteq> set (mk_listings m)"
  using assms by (auto simp: delete_remote_arrives remove_listing_def invalidate_cache_def split: option.split_asm if_splits)

lemma deliver_answered:
  "pj_status p = PjPending \<Longrightarrow> at_fate a = Answered \<Longrightarrow>
     send_projection k a (p\<lparr>pj_status := PjProcessing, pj_attempts := pj_attempts p + 1\<rparr>) m = (m', True) \<Longrightarrow>
     deliver k a p m = (p\<lparr>pj_status := PjDelivered, pj_attempts := pj_attempts p + 1\<rparr>, m', Some True)"
  by (simp add: deliver_def Let_def)

lemma deliver_lost:
  assumes "pj_status p = PjPending" "at_fate a = LostBefore" "pj_attempts p < 4"
  shows "\<exists>t. deliver k a p m = (p\<lparr>pj_attempts := pj_attempts p + 1, pj_next_attempt := t\<rparr>, m, None)"
proof -
  have "send_projection k a p' m = (m, False)" for p'
    using assms by (simp add: send_projection_def delete_remote_def sync_listing_def arrives_def split: option.split)
  with assms show ?thesis
    by (intro exI [of _ "at_now a + minutes (min 30 (2 ^ (pj_attempts p + 1)))"])
       (simp add: deliver_def Let_def failed_or_pending_def max_delivery_attempts_def)
qed

text \<open>C36. Projections are not ordered: when the request that publishes a vendor is lost, the withdrawal enqueued
  after it is delivered and the old projection is retried, the marketplace ends with the vendor listed
  from the old payload, although the last projection withdraws it; both rows are marked as delivered, so
  nothing but the reconciliation will take the listing away.\<close>

theorem stale_projection_relists:
  assumes "market_ok m" "link_ok k" "i < j" "j < length (vw_projections w)"
    and old: "pj_status (vw_projections w ! i) = PjPending" "pj_attempts (vw_projections w ! i) < 4"
      "pj_listing (vw_projections w ! i) = Some li" "pj_vendor (vw_projections w ! i) = v" "li_vendor li = v"
    and withdrawal: "pj_status (vw_projections w ! j) = PjPending" "pj_listing (vw_projections w ! j) = None"
      "pj_vendor (vw_projections w ! j) = v"
    and "at_fate a = LostBefore"
    and b: "at_fate b = Answered" "at_redis b" "at_request_id b \<noteq> ''''" "at_new_id b \<notin> ml_id ` set (mk_listings m)"
    and c: "at_fate c = Answered" "at_redis c" "at_request_id c \<noteq> ''''" "at_new_id c \<notin> ml_id ` set (mk_listings m)"
    and dec: "decodes k li" and "validate_listing_request (listing_body li) \<noteq> None" "price_fits (li_min_price li)" "price_fits (li_max_price li)"
      "\<not> reviewed v (mk_reviews m)"
    and run: "(w', m') = deliver_projection k c i (deliver_projection k b j (deliver_projection k a i (w, m)))"
  shows "pj_status (vw_projections w' ! i) = PjDelivered \<and> pj_status (vw_projections w' ! j) = PjDelivered \<and>
    (\<exists>l. get_by_vendor_id v (mk_listings m') = Some l \<and> listing_shown li l)"
proof -
  let ?p = "vw_projections w ! i" and ?d = "vw_projections w ! j"
  obtain t where t: "deliver k a ?p m = (?p\<lparr>pj_attempts := pj_attempts ?p + 1, pj_next_attempt := t\<rparr>, m, None)" (is "_ = (?p1, _)")
    using deliver_lost assms by blast
  let ?d1 = "?d\<lparr>pj_status := PjProcessing, pj_attempts := pj_attempts ?d + 1\<rparr>"
  obtain m2 where m2: "delete_remote k b v m = (m2, True)" using delete_answered assms by blast
  then have send2: "send_projection k b ?d1 m = (m2, True)" using withdrawal by (simp add: send_projection_def)
  have after2: "listings_after ?d1 m m2"
    by (rule send_projection_heard [OF assms(1,2) _ b(3,4) send2]) (simp add: projection_ok_def withdrawal)
  have none: "market_ok m2" "mk_reviews m2 = mk_reviews m" "get_by_vendor_id v (mk_listings m2) = None"
    using after2 withdrawal by (simp_all add: listings_after_def)
  have fresh: "at_new_id c \<notin> ml_id ` set (mk_listings m2)"
    using delete_remote_subset [OF assms(2) b(3), of v m] c(4) m2 by auto
  let ?p2 = "?p1\<lparr>pj_status := PjProcessing, pj_attempts := pj_attempts ?p1 + 1\<rparr>"
  obtain q where q: "validate_listing_request (listing_body li) = Some q" using assms by auto
  have "get_by_vendor_id (li_vendor li) (mk_listings m2) = None" using none(3) old(5) by simp
  from sync_answered [OF assms(2) c(3) dec c(1,2) this none(1) q] obtain m3 where m3: "sync_listing k c li m2 = (m3, True)"
    using assms by blast
  then have send3: "send_projection k c ?p2 m2 = (m3, True)" using old by (simp add: send_projection_def)
  have after3: "listings_after ?p2 m2 m3"
    by (rule send_projection_heard [OF none(1) assms(2) _ c(3) fresh send3]) (simp add: projection_ok_def old dec)
  have "m' = m3" "vw_projections w' ! i = ?p2\<lparr>pj_status := PjDelivered\<rparr>" "vw_projections w' ! j = ?d1\<lparr>pj_status := PjDelivered\<rparr>"
    using run assms(3,4) t deliver_answered [OF withdrawal(1) b(1) send2]
      deliver_answered [of ?p1, OF _ c(1) send3] old(1)
    by (simp_all add: deliver_projection_def)
  with after3 old show ?thesis by (simp add: listings_after_def)
qed

section \<open>Projections the marketplace refuses\<close>

definition deliveries :: "link \<Rightarrow> delivery_attempt list \<Rightarrow> projection \<times> market \<Rightarrow> projection \<times> market" where
  "deliveries k as s = fold (\<lambda>a (p, m). case deliver k a p m of (p', m', _) \<Rightarrow> (p', m')) as s"

lemma deliveries_simps [simp]:
  "deliveries k [] s = s"
  "deliveries k (a # as) (p, m) = (case deliver k a p m of (p', m', _) \<Rightarrow> deliveries k as (p', m'))"
  by (simp_all add: deliveries_def split: prod.split)

definition refused_row :: "projection \<Rightarrow> bool" where
  "refused_row p = (pj_status p = PjPending \<and> pj_attempts p < max_delivery_attempts \<or>
     pj_status p = PjFailed \<and> pj_attempts p = max_delivery_attempts)"

lemma deliver_refused_once:
  assumes "\<And>p'. pj_listing p' = pj_listing p \<Longrightarrow> send_projection k a p' m = (m, False)" "survives (at_fate a)" "refused_row p"
  shows "\<exists>p1 x. deliver k a p m = (p1, m, x) \<and> refused_row p1 \<and> pj_listing p1 = pj_listing p \<and>
    pj_attempts p1 = min max_delivery_attempts (pj_attempts p + 1)"
proof (cases "pj_status p = PjFailed")
  case True
  with assms(3) show ?thesis by (simp add: deliver_def refused_row_def)
next
  case False
  with assms(3) have p: "pj_status p = PjPending" "pj_attempts p < max_delivery_attempts" by (simp_all add: refused_row_def)
  with assms(1,2) show ?thesis
    by (simp add: deliver_def Let_def failed_or_pending_def refused_row_def) (auto simp: survives_def)
qed

lemma deliver_refused:
  assumes "\<And>a p'. a \<in> set as \<Longrightarrow> pj_listing p' = pj_listing p \<Longrightarrow> send_projection k a p' m = (m, False)"
    and "\<forall>a \<in> set as. survives (at_fate a)" "refused_row p"
    and "deliveries k as (p, m) = (q, m')"
  shows "m' = m \<and> refused_row q \<and> pj_attempts q = min max_delivery_attempts (pj_attempts p + length as)"
  using assms
proof (induction as arbitrary: p)
  case (Cons a as)
  have send: "send_projection k a p' m = (m, False)" if "pj_listing p' = pj_listing p" for p'
    using Cons.prems(1) that by simp
  obtain p1 x where p1: "deliver k a p m = (p1, m, x)"
    and row: "refused_row p1" "pj_listing p1 = pj_listing p" "pj_attempts p1 = min max_delivery_attempts (pj_attempts p + 1)"
    using deliver_refused_once [OF send _ Cons.prems(3)] Cons.prems(2) by auto
  have "deliveries k as (p1, m) = (q, m')" using Cons.prems(4) p1 by simp
  from Cons.IH [OF _ _ row(1) this] Cons.prems(1,2) row show ?case by auto
qed (auto simp: refused_row_def)

lemma overlong_refused: "2000 < length (rust_trim (li_description li)) \<Longrightarrow> validate_listing_request (listing_body li) = None"
  by (simp add: validate_listing_request_def Let_def trim_request_def listing_body_def request_fields_ok_def length_in_def)

text \<open>C39. A description the domain accepts can keep a vendor off the marketplace: descriptions may have 5000
  characters in a profile and 2000 in a listing, so the projection of an approved vendor with a longer
  one is refused at every delivery, the marketplace stays as it is, and after five deliveries the row has failed for
  good.\<close>

theorem overlong_description_never_listed:
  assumes "link_ok k" "decodes k li" "pj_listing p = Some li" "2000 < length (rust_trim (li_description li))"
    and "pj_status p = PjPending" "pj_attempts p = 0"
    and "\<forall>a \<in> set as. survives (at_fate a) \<and> at_request_id a \<noteq> ''''"
    and "deliveries k as (p, m) = (q, m')"
  shows "m' = m \<and> pj_status q = (if length as < 5 then PjPending else PjFailed)"
proof -
  have "send_projection k a p' m = (m, False)" if "a \<in> set as" "pj_listing p' = pj_listing p" for a p'
    using assms(1-3,7) that overlong_refused [OF assms(4)]
    by (simp add: send_projection_def sync_listing_arrives publish_def)
  moreover have "refused_row p" "\<forall>a \<in> set as. survives (at_fate a)"
    using assms(5-7) by (simp_all add: refused_row_def max_delivery_attempts_def)
  ultimately have "m' = m \<and> refused_row q \<and> pj_attempts q = min max_delivery_attempts (pj_attempts p + length as)"
    using deliver_refused [OF _ _ _ assms(8)] by blast
  then show ?thesis using assms(6) unfolding refused_row_def max_delivery_attempts_def by auto
qed

section \<open>Approving a submission\<close>

lemma approve_pending_Inr:
  assumes "approve_pending_vendor_submission now saved v w = Inr (w', r, n)"
  obtains r0 where "profile_row v w = Some r0" "vp_status r0 = ''pending_review''" "r = approved_row now saved r0"
    "w' = w\<lparr>vw_profiles := replaced (\<lambda>x. vp_id x = v) (\<lambda>_. r) (vw_profiles w),
            vw_packages := replaced (pending_package v) (approved_in_bulk now) (vw_packages w),
            vw_media := replaced (media_eligible v) (shown_in_bulk now) (vw_media w)\<rparr>"
    "ap_packages n = length (filter (pending_package v) (vw_packages w))"
  using assms by (auto simp: approve_pending_vendor_submission_def Let_def split: option.split_asm if_splits)

lemma approved_row_simps [simp]:
  "vp_id (approved_row now saved r) = vp_id r" "vp_user_id (approved_row now saved r) = vp_user_id r"
  "vp_version (approved_row now saved r) = vp_version r" "vp_created_at (approved_row now saved r) = vp_created_at r"
  "vp_status (approved_row now saved r) = ''approved''" "vp_approved_at (approved_row now saved r) = Some (Aware now)"
  by (simp_all add: approved_row_def profile_pre_save_def Let_def or_now_def)

lemma filter_replaced_other:
  "(\<And>x. hit x \<Longrightarrow> \<not> P x \<and> \<not> P (upd x)) \<Longrightarrow> filter P (replaced hit upd xs) = filter P xs"
  by (induction xs) (auto simp: replaced_def)

lemma approve_pending_tables:
  assumes "approve_pending_vendor_submission now saved v w = Inr (w', r, n)"
  shows "vw_packages w' = map (\<lambda>p. if pending_package v p then approved_in_bulk now p else p) (vw_packages w)"
    and "vw_media w' = map (\<lambda>m. if media_eligible v m then shown_in_bulk now m else m) (vw_media w)"
    and "filter (pending_package v) (vw_packages w') = []" "filter (media_eligible v) (vw_media w') = []"
    and "vw_inquiries w' = vw_inquiries w \<and> vw_outbox w' = vw_outbox w \<and> vw_projections w' = vw_projections w"
proof -
  from approve_pending_Inr [OF assms] obtain r0 where w': "w' = w\<lparr>vw_profiles := replaced (\<lambda>x. vp_id x = v) (\<lambda>_. r) (vw_profiles w),
            vw_packages := replaced (pending_package v) (approved_in_bulk now) (vw_packages w),
            vw_media := replaced (media_eligible v) (shown_in_bulk now) (vw_media w)\<rparr>" .
  have "\<not> pending_package v (approved_in_bulk now p)" for p by (simp add: pending_package_def approved_in_bulk_def)
  moreover have "\<not> media_eligible v (shown_in_bulk now m)" for m
    by (simp add: media_eligible_def media_candidate_def shown_in_bulk_def)
  ultimately show "filter (pending_package v) (vw_packages w') = []" "filter (media_eligible v) (vw_media w') = []"
    by (auto simp: w' replaced_def filter_empty_conv)
qed (use assms in \<open>auto elim!: approve_pending_Inr simp: replaced_def\<close>)

text \<open>An approval in bulk covers the submission and nothing else: the vendor was pending and is approved;
  exactly its packages that waited are approved, for the edit cooldown; exactly its uploaded, passed media
  with a public address are shown, the private ones that were never submitted included; packages
  and media of other vendors, inquiries and stored events are as they were.\<close>

theorem bulk_approval_effect:
  assumes "approve_pending_vendor_submission now saved v w = Inr (w', r, n)"
  shows "map_option vp_status (profile_row v w) = Some ''pending_review'' \<and>
    profile_row v w' = Some r \<and> vp_status r = ''approved'' \<and> vp_version r = current_vendor_version v w \<and>
    vw_packages w' = map (\<lambda>p. if pending_package v p then approved_in_bulk now p else p) (vw_packages w) \<and>
    filter (pending_package v) (vw_packages w') = [] \<and>
    vw_media w' = map (\<lambda>m. if media_eligible v m then shown_in_bulk now m else m) (vw_media w) \<and>
    filter (media_eligible v) (vw_media w') = [] \<and>
    filter (\<lambda>x. vp_id x \<noteq> v) (vw_profiles w') = filter (\<lambda>x. vp_id x \<noteq> v) (vw_profiles w) \<and>
    vw_inquiries w' = vw_inquiries w \<and> vw_outbox w' = vw_outbox w \<and> vw_projections w' = vw_projections w"
proof -
  from approve_pending_Inr [OF assms] obtain r0 where r0: "profile_row v w = Some r0" "vp_status r0 = ''pending_review''"
    "r = approved_row now saved r0" and w': "w' = w\<lparr>vw_profiles := replaced (\<lambda>x. vp_id x = v) (\<lambda>_. r) (vw_profiles w),
            vw_packages := replaced (pending_package v) (approved_in_bulk now) (vw_packages w),
            vw_media := replaced (media_eligible v) (shown_in_bulk now) (vw_media w)\<rparr>" .
  have id: "vp_id r = v" using r0 by (auto simp: profile_row_def dest: find_Some_set)
  have "find (\<lambda>x. vp_id x = v) (map (\<lambda>x. if vp_id x = v then r else x) xs) = (if \<exists>x \<in> set xs. vp_id x = v then Some r else None)" for xs
    using id by (induction xs) auto
  moreover have "\<exists>x \<in> set (vw_profiles w). vp_id x = v"
    using r0(1) by (auto simp: profile_row_def dest: find_Some_set)
  ultimately have "profile_row v w' = Some r" by (simp add: w' profile_row_def replaced_def)
  then have "profile_row v w' = Some r \<and> vp_status r = ''approved'' \<and> vp_version r = current_vendor_version v w"
    using r0 by (simp add: current_vendor_version_def)
  moreover have "map_option vp_status (profile_row v w) = Some ''pending_review''" using r0 by simp
  moreover have "filter (\<lambda>x. vp_id x \<noteq> v) (vw_profiles w') = filter (\<lambda>x. vp_id x \<noteq> v) (vw_profiles w)"
    unfolding w' using id by (simp add: filter_replaced_other)
  ultimately show ?thesis using approve_pending_tables [OF assms] by blast
qed

text \<open>C37. An approval in bulk can be lost: it does not raise the version of the profile, so a save that was prepared
  before it succeeds after it exactly as it would have before; the profile is back in the state of the
  save, the projection enqueued withdraws the vendor, and the approved packages stay approved.\<close>

theorem bulk_approval_can_be_lost:
  assumes "distinct (map vp_id (vw_profiles w))" "approve_pending_vendor_submission now saved v w = Inr (w1, r, n)"
    and "vp_id b = v" "vp_status b \<noteq> ''approved''" "uow_save_profile t k b w = Inr (w2, c)"
  shows "\<exists>w3. uow_save_profile t k b w1 = Inr (w3, c) \<and> vw_profiles w3 = vw_profiles w2 \<and>
    vw_packages w3 = vw_packages w1 \<and> pj_listing (last (vw_projections w3)) = None"
proof -
  from approve_pending_Inr [OF assms(2)] obtain r0 where r0: "profile_row v w = Some r0" "r = approved_row now saved r0"
    and w': "w1 = w\<lparr>vw_profiles := replaced (\<lambda>x. vp_id x = v) (\<lambda>_. r) (vw_profiles w),
            vw_packages := replaced (pending_package v) (approved_in_bulk now) (vw_packages w),
            vw_media := replaced (media_eligible v) (shown_in_bulk now) (vw_media w)\<rparr>" .
  have w1: "vw_profiles w1 = map (\<lambda>x. if vp_id x = v then r else x) (vw_profiles w)" "vw_accounts w1 = vw_accounts w"
    by (simp_all add: w' replaced_def)
  have unique: "x = r0" if "x \<in> set (vw_profiles w)" "vp_id x = v" for x
    using r0(1) that assms(1) find_Some_set [of _ "vw_profiles w" r0]
    by (auto simp: profile_row_def distinct_map inj_on_def)
  let ?T = "profile_target b k" and ?f = "\<lambda>x. if vp_id x = v then r else x"
  obtain s where s: "filter ?T (vw_profiles w) = [s]" "profile_fault (saved_profile b s) = None"
    "profile_to_domain (saved_profile b s) = Inr c" "require_account (vp_user_id b) w = Inr ()"
    and w2: "vw_profiles w2 = replaced ?T (saved_profile b) (vw_profiles w)"
    using assms(5) by (auto simp: uow_save_profile_def with_events_def profile_save_def replace_row_def res_bind_Inr
        enqueue_projection_def split: list.splits option.splits)
  have "s \<in> set (vw_profiles w)" "?T s" using filter_single [OF s(1)] by auto
  with unique [of s] assms(3) have s0: "s = r0" "vp_id s = v" by (auto simp: profile_target_def)
  have T: "?T (?f x) = ?T x" if "x \<in> set (vw_profiles w)" for x
    using unique [OF that] r0(2) by (auto simp: profile_target_def)
  have row: "saved_profile b r = saved_profile b s" using s0 r0 by (simp add: saved_profile_def)
  have "filter ?T (vw_profiles w1) = map ?f (filter ?T (vw_profiles w))"
    unfolding w1 filter_map o_def using T by (metis (no_types, lifting) filter_cong)
  then have one: "filter ?T (vw_profiles w1) = [r]" using s(1) s0 by simp
  have rows: "replaced ?T (saved_profile b) (vw_profiles w1) = vw_profiles w2"
    unfolding w1 w2 replaced_def map_map
  proof (rule map_cong [OF refl])
    fix x assume x: "x \<in> set (vw_profiles w)"
    show "((\<lambda>x. if ?T x then saved_profile b x else x) \<circ> ?f) x = (if ?T x then saved_profile b x else x)"
    proof (cases "vp_id x = v")
      case True
      with unique [OF x] s0 have "x = s" by simp
      with T [OF x] row \<open>?T s\<close> True show ?thesis by simp
    qed simp
  qed
  have "vp_status (saved_profile b r) \<noteq> ''approved''" using assms(4) by (simp add: saved_profile_def)
  then have "\<not> is_vendor_listable (saved_profile b r)" by (simp add: is_vendor_listable_def)
  then show ?thesis
    using s one rows w1(2) row
    by (simp add: uow_save_profile_def with_events_def profile_save_def replace_row_def enqueue_projection_def
        require_account_def res_simps)
qed

section \<open>The theorems on examples\<close>

definition sample_stamp :: "instant \<Rightarrow> string" where
  "sample_stamp t = (if 0 \<le> t then CHR ''+'' else CHR ''-'') # replicate (nat \<bar>t\<bar>) CHR ''1''"

definition sample_time :: "string \<Rightarrow> datetime option" where
  "sample_time s = (case s of [] \<Rightarrow> None
     | c # cs \<Rightarrow> Some (Aware (if c = CHR ''+'' then int (length cs) else - int (length cs))))"

definition sample_listing :: listing where
  "sample_listing = \<lparr>li_vendor = 3, li_business_name = ''Lens'', li_category = ''photography'', li_custom_category = None,
     li_description = ''Weddings'', li_service_area = ''Kigali'', li_cover_image_url = None,
     li_min_price = Some (Dec 100 0), li_max_price = Some (Dec 200 0), li_currency = Some ''RWF''\<rparr>"

definition sample_link :: "listing \<Rightarrow> link" where
  "sample_link li = \<lparr>lk_service = \<lparr>se_key = ''k'', se_legacy_allowed = False, se_cache = True,
       se_decode = (\<lambda>s. if s = ''{}'' then None else Some (listing_body li)), se_sha256 = (\<lambda>s. s),
       se_hmac = (\<lambda>k m. k @ m), se_parse_time = sample_time\<rparr>,
     lk_encode = (\<lambda>_. ''body''), lk_stamp = sample_stamp, lk_path = (\<lambda>_. ''/internal/listings/3'')\<rparr>"

definition sample_attempt :: "fate \<Rightarrow> delivery_attempt" where
  "sample_attempt f = \<lparr>at_fate = f, at_redis = True, at_now = 100, at_request_id = ''r'', at_new_id = 7\<rparr>"

definition sample_projection :: "listing option \<Rightarrow> projection" where
  "sample_projection li = \<lparr>pj_vendor = 3, pj_listing = li, pj_reason = ''saved'', pj_status = PjPending, pj_attempts = 0,
     pj_next_attempt = 0, pj_created = 0\<rparr>"

lemma sample_link_ok: "link_ok (sample_link li)" "decodes (sample_link li) li"
  by (simp_all add: link_ok_def decodes_def sample_link_def sample_stamp_def sample_time_def)

lemma sample_attempt_simps [simp]:
  "at_fate (sample_attempt f) = f" "at_redis (sample_attempt f)" "at_request_id (sample_attempt f) \<noteq> ''''"
  by (simp_all add: sample_attempt_def)

lemma sample_projection_simps [simp]:
  "pj_vendor (sample_projection li) = 3" "pj_listing (sample_projection li) = li"
  "pj_status (sample_projection li) = PjPending" "pj_attempts (sample_projection li) = 0"
  by (simp_all add: sample_projection_def)

lemma empty_market_ok: "market_ok empty_market" "mk_listings empty_market = []" "mk_reviews empty_market = []"
  by (simp_all add: market_ok_def empty_market_def external_ids_unique_def)

lemma sample_listing_valid: "\<exists>q. validate_listing_request (listing_body sample_listing) = Some q"
  by (simp add: validate_listing_request_def listing_body_def sample_listing_def trim_request_def rust_trim_def rust_space_def
      code_def request_fields_ok_def length_in_def length_upto_def nonneg_price_def dec_value_def normalize_choice_def
      py_lower_def lower_char_def py_strip_def is_space_def optional_field_def normalize_currency_code_def latin_upper_def
      latin_upper_char_def status_consistent_def price_value_def Let_def)

lemma sample_price_fits: "price_fits (li_min_price sample_listing)" "price_fits (li_max_price sample_listing)"
  by (simp_all add: price_fits_def price_value_def sample_listing_def dec_value_def)

definition sample_platform :: platform where
  "sample_platform = ((empty_vendor_world [])\<lparr>vw_projections :=
     [sample_projection (Some sample_listing), sample_projection None]\<rparr>, empty_market)"

lemma sample_sync:
  "\<exists>m'. sync_listing (sample_link sample_listing) (sample_attempt Answered) sample_listing empty_market = (m', True)"
proof -
  obtain q where q: "validate_listing_request (listing_body sample_listing) = Some q" using sample_listing_valid by blast
  have "get_by_vendor_id (li_vendor sample_listing) (mk_listings empty_market) = None"
    by (simp add: get_by_vendor_id_def empty_market_ok)
  then show ?thesis
    using sync_answered [OF sample_link_ok(1) _ sample_link_ok(2) _ _ _ empty_market_ok(1) q sample_price_fits]
      sample_attempt_simps by metis
qed


lemma sample_projection_ok: "projection_ok (sample_link sample_listing) (sample_projection (Some sample_listing))"
  by (simp add: projection_ok_def sample_link_ok) (simp add: sample_listing_def)


lemma listings_change_only_when_signed_witness:
  "\<exists>q. mk_listings (market_step sample_search (MUpsert (lk_service (sample_link sample_listing)) True 100 7 q) empty_market) \<noteq>
      mk_listings empty_market \<and> signed_request (lk_service (sample_link sample_listing)) 100 q"
proof -
  let ?k = "sample_link sample_listing" and ?a = "sample_attempt Answered"
  let ?q = "signed ?k ?a ''POST'' ''/internal/listings'' (lk_encode ?k (listing_body sample_listing))"
  obtain m' where d: "send_projection ?k ?a (sample_projection (Some sample_listing)) empty_market = (m', True)"
    using sample_sync by (auto simp: send_projection_def)
  have "listings_after (sample_projection (Some sample_listing)) empty_market m'"
    by (rule send_projection_heard [OF empty_market_ok(1) sample_link_ok(1) sample_projection_ok _ _ d])
       (simp_all add: empty_market_ok)
  then have "mk_listings m' \<noteq> []" by (auto simp: listings_after_def get_by_vendor_id_def)
  moreover have "m' = fst (upsert_listing (lk_service ?k) True 100 7 ?q empty_market)"
    using d by (auto simp: send_projection_def sync_listing_def arrives_def sample_attempt_def split: prod.splits)
  ultimately have "mk_listings (market_step sample_search (MUpsert (lk_service ?k) True 100 7 ?q) empty_market) \<noteq>
      mk_listings empty_market" by (simp add: empty_market_ok)
  moreover note listings_change_only_when_signed [OF this]
  moreover have "\<not> se_legacy_allowed (lk_service ?k)" by (simp add: sample_link_def)
  ultimately show ?thesis by auto
qed


lemma stale_projection_relists_witness:
  "\<exists>w' m'. (w', m') = deliver_projection (sample_link sample_listing) (sample_attempt Answered) 0
      (deliver_projection (sample_link sample_listing) (sample_attempt Answered) 1
        (deliver_projection (sample_link sample_listing) (sample_attempt LostBefore) 0 sample_platform)) \<and>
    pj_status (vw_projections w' ! 0) = PjDelivered \<and> pj_status (vw_projections w' ! 1) = PjDelivered \<and>
    (\<exists>l. get_by_vendor_id 3 (mk_listings m') = Some l \<and> listing_shown sample_listing l)"
proof -
  let ?k = "sample_link sample_listing" and ?a = "sample_attempt Answered"
  obtain w' m' where run: "(w', m') = deliver_projection ?k ?a 0 (deliver_projection ?k ?a 1
      (deliver_projection ?k (sample_attempt LostBefore) 0 sample_platform))" by (metis surj_pair)
  have "pj_status (vw_projections w' ! 0) = PjDelivered \<and> pj_status (vw_projections w' ! 1) = PjDelivered \<and>
    (\<exists>l. get_by_vendor_id 3 (mk_listings m') = Some l \<and> listing_shown sample_listing l)"
    by (rule stale_projection_relists [where w = "fst sample_platform" and m = empty_market and k = ?k and b = ?a and c = ?a
          and a = "sample_attempt LostBefore"])
       (use run sample_listing_valid in \<open>simp_all add: sample_platform_def empty_market_ok sample_link_ok sample_price_fits reviewed_def,
         auto simp: sample_listing_def\<close>)
  with run show ?thesis by blast
qed

definition long_listing :: listing where
  "long_listing = sample_listing\<lparr>li_description := replicate 2001 CHR ''x''\<rparr>"

lemma overlong_description_never_listed_witness:
  "\<exists>q. deliveries (sample_link long_listing) (replicate 5 (sample_attempt Answered))
      (sample_projection (Some long_listing), empty_market) = (q, empty_market) \<and> pj_status q = PjFailed"
proof -
  obtain q m' where d: "deliveries (sample_link long_listing) (replicate 5 (sample_attempt Answered))
      (sample_projection (Some long_listing), empty_market) = (q, m')" by fastforce
  have "rust_trim (replicate 2001 CHR ''x'') = replicate 2001 CHR ''x''"
    by (simp add: rust_trim_def rust_space_def code_def dropWhile_replicate)
  then have long: "2000 < length (rust_trim (li_description long_listing))" by (simp add: long_listing_def)
  have "m' = empty_market \<and> pj_status q = (if length (replicate 5 (sample_attempt Answered)) < 5 then PjPending else PjFailed)"
    by (rule overlong_description_never_listed [OF sample_link_ok _ long _ _ _ d]) (simp_all add: survives_def)
  with d show ?thesis by simp
qed

definition pending_world :: vendor_world where
  "pending_world = sample_vendor_world\<lparr>vw_profiles := [sample_draft\<lparr>vp_status := ''pending_review''\<rparr>], vw_media := []\<rparr>"

lemma bulk_approval_sample:
  "\<exists>w1 r n. approve_pending_vendor_submission 60 61 3 pending_world = Inr (w1, r, n)"
  by (simp add: approve_pending_vendor_submission_def pending_world_def profile_row_def sample_draft_def replaced_def Let_def
      sample_vendor_world_def empty_vendor_world_def)

lemma bulk_approval_effect_witness:
  "\<exists>w1 r n. approve_pending_vendor_submission 60 61 3 pending_world = Inr (w1, r, n) \<and> profile_row 3 w1 = Some r \<and>
     vp_status r = ''approved'' \<and> vw_outbox w1 = vw_outbox pending_world"
  using bulk_approval_sample bulk_approval_effect [of 60 61 3 pending_world] by blast

lemma prepared_save: "\<exists>w' c. uow_save_profile 51 0 sample_pending pending_world = Inr (w', c)"
proof -
  have "saved_profile sample_pending (sample_draft\<lparr>vp_status := s\<rparr>) = saved_profile sample_pending sample_draft" for s
    by (simp add: saved_profile_def)
  moreover have "profile_target sample_pending 0 (sample_draft\<lparr>vp_status := s\<rparr>) = profile_target sample_pending 0 sample_draft" for s
    by (simp add: profile_target_def)
  ultimately show ?thesis
    using sample_saved_row
    by (simp add: uow_save_profile_def profile_save_def require_account_def pending_world_def sample_vendor_world_def
        empty_vendor_world_def replace_row_def replaced_def profile_fault_def with_events_def res_bind_def)
       (simp add: sample_pending_def profile_stamp_def sample_draft_def)
qed

lemma bulk_approval_can_be_lost_witness:
  "\<exists>w1 r n w3 c. approve_pending_vendor_submission 60 61 3 pending_world = Inr (w1, r, n) \<and>
     uow_save_profile 51 0 sample_pending w1 = Inr (w3, c) \<and> pj_listing (last (vw_projections w3)) = None"
proof -
  obtain w1 r n where a: "approve_pending_vendor_submission 60 61 3 pending_world = Inr (w1, r, n)"
    using bulk_approval_sample by blast
  obtain w2 c where s: "uow_save_profile 51 0 sample_pending pending_world = Inr (w2, c)" using prepared_save by blast
  have "distinct (map vp_id (vw_profiles pending_world))" by (simp add: pending_world_def)
  from bulk_approval_can_be_lost [OF this a _ _ s] a show ?thesis
    by (force simp: sample_pending_def profile_stamp_def sample_draft_def)
qed

end
