(* ===== verification/Identity_Login.thy ===== *)
theory Identity_Login
  imports Identity_UseCases
begin

text \<open>
  Logging in (\<open>application/identity/authentication\<close>) and the second factor (\<open>application/identity/mfa\<close>): the
  lockout, the password, the challenge of the second factor with its grant, the session that is opened, and
  recovery codes.

  The password hasher, the TOTP check, HMAC and the decoding of a JSON web token (which also checks its
  signature and expiry) are arguments; \<open>lq_clock k\<close> is the \<open>k\<close>-th reading of the clock in a request.
\<close>

section \<open>Requests and outcomes\<close>

record login_env =
  le_verify :: "string \<Rightarrow> string \<Rightarrow> bool"
  le_totp :: "string \<Rightarrow> string \<Rightarrow> datetime \<Rightarrow> bool"
  le_fingerprint :: "string \<Rightarrow> string"
  le_recovery_hash :: "string \<Rightarrow> string"
  le_safe :: "string \<Rightarrow> string"
  le_lockout :: lockout_config
  le_mfa :: mfa_policy
  le_tokens :: token_settings
  le_history_limit :: int

text \<open>What a request reads and draws: the clock, the identifiers of a challenge, a grant, a session, a token
  family and the tokens.\<close>

record login_request =
  lq_clock :: "nat \<Rightarrow> instant"
  lq_challenge :: uuid
  lq_grant :: string
  lq_session :: uuid
  lq_family :: string
  lq_access_jti :: string
  lq_refresh_jti :: string

text \<open>The grant in a temporary token; its expiry is in seconds.\<close>

record mfa_grant =
  gr_id :: string
  gr_account :: uuid
  gr_challenge :: uuid
  gr_expires :: int

datatype refusal =
    UserNotFound | PasswordMismatch | Inactive | SocialLoginOnly | InvalidTempToken | InvalidMfaCode | LockedOut

datatype auth_decision =
    Authenticated user "issued_token \<times> issued_token"
  | MfaRequired user mfa_grant
  | Refused refusal

section \<open>Stores of the second factor\<close>

text \<open>\<open>DjangoMfaChallengeRepository\<close>: the cache keeps a challenge until it expires, at least a second.\<close>

definition save_mfa_challenge :: "instant \<Rightarrow> mfa_challenge \<Rightarrow> id_world \<Rightarrow> id_world" where
  "save_mfa_challenge now c w =
     w\<lparr>iw_mfa := (mc_id c, c, now + seconds (case mc_expires_at c of Aware e \<Rightarrow> max ((e - now) div 1000000) 1 | _ \<Rightarrow> 1)) #
        iw_mfa w\<rparr>"

definition get_mfa_challenge :: "instant \<Rightarrow> uuid \<Rightarrow> id_world \<Rightarrow> mfa_challenge option" where
  "get_mfa_challenge now i w = cache_get now i (iw_mfa w)"

definition code_used :: "login_env \<Rightarrow> instant \<Rightarrow> uuid \<Rightarrow> string \<Rightarrow> id_world \<Rightarrow> bool" where
  "code_used e now i given w = key_live now (i, le_fingerprint e given) (iw_replay w)"

definition mark_replay :: "login_env \<Rightarrow> instant \<Rightarrow> uuid \<Rightarrow> string \<Rightarrow> int \<Rightarrow> id_world \<Rightarrow> id_world" where
  "mark_replay e now i given ttl w =
     w\<lparr>iw_replay := ((i, le_fingerprint e given), now + seconds ttl) # iw_replay w\<rparr>"

definition recovery_codes_of :: "uuid \<Rightarrow> id_world \<Rightarrow> recovery_code list" where
  "recovery_codes_of i w = (case map_of (iw_recovery w) i of None \<Rightarrow> [] | Some cs \<Rightarrow> cs)"

definition save_recovery_codes :: "uuid \<Rightarrow> recovery_code list \<Rightarrow> id_world \<Rightarrow> id_world" where
  "save_recovery_codes i cs w = w\<lparr>iw_recovery := (i, cs) # iw_recovery w\<rparr>"

definition clear_recovery_codes :: "uuid \<Rightarrow> id_world \<Rightarrow> id_world" where
  "clear_recovery_codes i w = w\<lparr>iw_recovery := filter (\<lambda>x. fst x \<noteq> i) (iw_recovery w)\<rparr>"

text \<open>Grants share the blacklist of the tokens.\<close>

definition is_mfa_grant_blacklisted :: "instant \<Rightarrow> mfa_grant \<Rightarrow> id_world \<Rightarrow> bool" where
  "is_mfa_grant_blacklisted now g w = is_blacklisted now (gr_id g) (iw_sessions w)"

definition grant_ttl :: "instant \<Rightarrow> mfa_grant \<Rightarrow> int" where
  "grant_ttl now g = max ((seconds (gr_expires g) - now) div 1000000) 1"

definition blacklist_mfa_grant :: "instant \<Rightarrow> instant \<Rightarrow> mfa_grant \<Rightarrow> id_world \<Rightarrow> id_world" where
  "blacklist_mfa_grant now read g w =
     w\<lparr>iw_sessions := blacklist now (gr_id g) (grant_ttl read g) (iw_sessions w)\<rparr>"

section \<open>Temporary tokens\<close>

definition create_temp_token :: "login_env \<Rightarrow> login_request \<Rightarrow> instant \<Rightarrow> uuid \<Rightarrow> uuid \<Rightarrow> (app_exn, mfa_grant) res" where
  "create_temp_token e q now user challenge =
     (case identity_token_env (le_tokens e) of
        Inl x \<Rightarrow> Inl (SessionErr x)
      | Inr _ \<Rightarrow> Inr \<lparr>gr_id = lq_grant q, gr_account = user, gr_challenge = challenge,
           gr_expires = (now + minutes 3) div 1000000\<rparr>)"

text \<open>The claims of a token that decodes.\<close>

record raw_grant =
  rg_purpose :: "string option"
  rg_env :: "string option"
  rg_jti :: "string option"
  rg_user :: "uuid option"
  rg_challenge :: "uuid option"
  rg_exp :: "int option"

definition inspect_mfa_login_grant :: "token_settings \<Rightarrow> raw_grant option \<Rightarrow> (sess_exn, mfa_grant option) res" where
  "inspect_mfa_login_grant st decoded =
     (case decoded of
        None \<Rightarrow> Inr None
      | Some t \<Rightarrow>
          if rg_purpose t \<noteq> Some ''2fa'' then Inr None
          else res_bind (accepted_identity_token_env st (rg_env t)) (\<lambda>env.
            Inr (case (env, rg_jti t, rg_user t, rg_challenge t, rg_exp t) of
                (Some _, Some j, Some u, Some c, Some x) \<Rightarrow>
                  Some \<lparr>gr_id = j, gr_account = u, gr_challenge = c, gr_expires = x\<rparr>
              | _ \<Rightarrow> None)))"

section \<open>The session issuer\<close>

definition issue_tokens :: "login_env \<Rightarrow> login_request \<Rightarrow> instant \<Rightarrow> user \<Rightarrow> id_world \<Rightarrow> id_world \<times> (app_exn, auth_decision) res" where
  "issue_tokens e q now u w =
     (case with_sessions (issue_authenticated_tokens (le_tokens e) now (lq_session q) (lq_family q) (lq_access_jti q)
         (lq_refresh_jti q) (u_id u) (role_value (u_role u)) (u_auth_token_version u)) w of
        (w', Inl x) \<Rightarrow> (w', Inl (SessionErr x))
      | (w', Inr tokens) \<Rightarrow> (w', Inr (Authenticated u tokens)))"

definition finalize_login ::
  "login_env \<Rightarrow> login_request \<Rightarrow> nat \<Rightarrow> user \<Rightarrow> id_world \<Rightarrow> id_world \<times> (app_exn, auth_decision) res" where
  "finalize_login e q k u w =
     (if el_requires_mfa (evaluate_eligibility u)
      then (case issue_mfa_challenge (le_mfa e) (lq_challenge q) (u_id u) TOTP (Aware (lq_clock q k)) of
          Inl x \<Rightarrow> (w, Inl (DomainErr x))
        | Inr c \<Rightarrow>
            let w' = save_mfa_challenge (lq_clock q (k + 1)) c w
            in (w', res_bind (create_temp_token e q (lq_clock q (k + 2)) (u_id u) (mc_id c)) (\<lambda>g. Inr (MfaRequired u g))))
      else issue_tokens e q (lq_clock q k) u w)"

definition evaluate_password_login ::
  "login_env \<Rightarrow> login_request \<Rightarrow> nat \<Rightarrow> user \<Rightarrow> string \<Rightarrow> id_world \<Rightarrow> id_world \<times> (app_exn, auth_decision) res" where
  "evaluate_password_login e q k u plain w =
     (if \<not> el_allowed (evaluate_eligibility u) then (w, Inr (Refused Inactive))
      else case u_password_hash u of
        None \<Rightarrow> (w, Inr (Refused SocialLoginOnly))
      | Some h \<Rightarrow>
          if h = '''' then (w, Inr (Refused SocialLoginOnly))
          else if \<not> le_verify e plain h then (w, Inr (Refused PasswordMismatch))
          else finalize_login e q k u w)"

definition evaluate_oauth_login ::
  "login_env \<Rightarrow> login_request \<Rightarrow> nat \<Rightarrow> user \<Rightarrow> id_world \<Rightarrow> id_world \<times> (app_exn, auth_decision) res" where
  "evaluate_oauth_login e q k u w =
     (if \<not> el_allowed (evaluate_eligibility u) then (w, Inr (Refused Inactive)) else finalize_login e q k u w)"

section \<open>Login with a password\<close>

definition record_invalid_credentials ::
  "login_env \<Rightarrow> instant \<Rightarrow> string \<Rightarrow> refusal \<Rightarrow> id_world \<Rightarrow> id_world \<times> (app_exn, auth_decision) res" where
  "record_invalid_credentials e now key why w =
     (case service_record_failure (le_safe e) (le_lockout e) now key (iw_lockout w) of
        Inl x \<Rightarrow> (w, Inl (DomainErr x))
      | Inr (s, d) \<Rightarrow> (w\<lparr>iw_lockout := s\<rparr>, Inr (Refused (if ld_locked d then LockedOut else why))))"

definition clear_failures :: "login_env \<Rightarrow> string \<Rightarrow> id_world \<Rightarrow> id_world" where
  "clear_failures e key w = w\<lparr>iw_lockout := service_record_success (le_safe e) key (iw_lockout w)\<rparr>"

text \<open>\<open>record_login\<close>, save and dispatch, after the tokens were issued.\<close>

definition record_and_save :: "login_env \<Rightarrow> instant \<Rightarrow> user \<Rightarrow> id_world \<Rightarrow> id_world \<times> (app_exn, unit) res" where
  "record_and_save e now u w =
     (case save_and_dispatch (le_history_limit e) now (fst (record_login (Aware now) None u)) w of
        (w', Inl x) \<Rightarrow> (w', Inl x) | (w', Inr _) \<Rightarrow> (w', Inr ()))"

text \<open>The constructor of an account refuses one without a role, so that branch of the code is not reached.\<close>

definition login_with_password ::
  "login_env \<Rightarrow> login_request \<Rightarrow> string \<Rightarrow> string \<Rightarrow> id_world \<Rightarrow> id_world \<times> (app_exn, auth_decision) res" where
  "login_with_password e q email plain w =
     (case service_is_locked (le_safe e) (le_lockout e) (lq_clock q 0) email (iw_lockout w) of
        Inl x \<Rightarrow> (w, Inl (DomainErr x))
      | Inr d \<Rightarrow>
          if ld_locked d then (w, Inr (Refused LockedOut))
          else case get_by_email email w of
            Inl x \<Rightarrow> (w, Inl x)
          | Inr None \<Rightarrow> record_invalid_credentials e (lq_clock q 1) email UserNotFound w
          | Inr (Some u) \<Rightarrow>
              (case evaluate_password_login e q 1 u plain w of
                 (w', Inl x) \<Rightarrow> (w', Inl x)
               | (w', Inr (Refused r)) \<Rightarrow>
                   if r = PasswordMismatch then record_invalid_credentials e (lq_clock q 1) email r w'
                   else (w', Inr (Refused r))
               | (w', Inr (MfaRequired a g)) \<Rightarrow> (clear_failures e email w', Inr (MfaRequired a g))
               | (w', Inr (Authenticated a ts)) \<Rightarrow>
                   (case record_and_save e (lq_clock q 2) u (clear_failures e email w') of
                      (w'', Inl x) \<Rightarrow> (w'', Inl x)
                    | (w'', Inr _) \<Rightarrow> (w'', Inr (Authenticated a ts)))))"

section \<open>Recovery codes\<close>

definition consume_recovery_code_of ::
  "login_env \<Rightarrow> instant \<Rightarrow> uuid \<Rightarrow> string \<Rightarrow> id_world \<Rightarrow> id_world \<times> (app_exn, bool) res" where
  "consume_recovery_code_of e now i given w =
     (if recovery_codes_of i w = [] then (w, Inr False)
      else case consume_recovery_code (le_recovery_hash e) (recovery_codes_of i w) given (Aware now) of
        Inl x \<Rightarrow> (w, Inl (DomainErr x))
      | Inr (accepted, cs) \<Rightarrow> (if accepted then save_recovery_codes i cs w else w, Inr accepted))"

text \<open>\<open>generated\<close> are the codes drawn with their identifiers.\<close>

fun hash_recovery_codes :: "(string \<Rightarrow> string) \<Rightarrow> (uuid \<times> string) list \<Rightarrow> (id_exn, recovery_code list) res" where
  "hash_recovery_codes hash [] = Inr []"
| "hash_recovery_codes hash ((i, c) # cs) =
     res_bind (mk_recovery_code \<lparr>rc_id = i, rc_code_hash = hash c, rc_used_at = None\<rparr>) (\<lambda>r.
       res_bind (hash_recovery_codes hash cs) (\<lambda>rs. Inr (r # rs)))"

definition generate_recovery_codes ::
  "login_env \<Rightarrow> uuid \<Rightarrow> (uuid \<times> string) list \<Rightarrow> id_world \<Rightarrow> id_world \<times> (app_exn, string list) res" where
  "generate_recovery_codes e i generated w =
     (if generated = [] then (w, Inl (DomainErr (ValueError ''Recovery code count must be positive'')))
      else case require_user ''User not found'' (get_by_id i w) of
        Inl x \<Rightarrow> (w, Inl x)
      | Inr u \<Rightarrow>
          (case lift_dom (hash_recovery_codes (le_recovery_hash e) generated) of
             Inl x \<Rightarrow> (w, Inl x)
           | Inr cs \<Rightarrow> (save_recovery_codes (u_id u) cs w, Inr (map snd generated))))"

definition regenerate_recovery_codes ::
  "login_env \<Rightarrow> uuid \<Rightarrow> (uuid \<times> string) list \<Rightarrow> id_world \<Rightarrow> id_world \<times> (app_exn, string list) res" where
  "regenerate_recovery_codes e i generated w = generate_recovery_codes e i generated (clear_recovery_codes i w)"

section \<open>Login with the second factor\<close>

definition challenge_can_attempt :: "mfa_challenge \<Rightarrow> datetime \<Rightarrow> bool" where
  "challenge_can_attempt c now = (can_attempt now c = Inr True)"

text \<open>The second factor of a challenge: the one-time password, else a recovery code as long as the challenge
  takes attempts.\<close>

definition check_second_factor ::
  "login_env \<Rightarrow> instant \<Rightarrow> uuid \<Rightarrow> string \<Rightarrow> mfa_challenge \<Rightarrow> string \<Rightarrow> id_world \<Rightarrow> id_world \<times> (app_exn, bool \<times> bool) res" where
  "check_second_factor e now i secret c given w =
     (let totp = le_totp e secret given (Aware now) in
      if \<not> totp \<and> challenge_can_attempt c (Aware now)
      then (case consume_recovery_code_of e now i given w of
          (w', Inl x) \<Rightarrow> (w', Inl x) | (w', Inr accepted) \<Rightarrow> (w', Inr (False, accepted)))
      else (w, Inr (totp, False)))"

text \<open>The attempt is counted and the challenge stored; a code already used for the challenge is refused
  without that. \<open>Inr True\<close> goes on to the session.\<close>

definition settle_challenge ::
  "login_env \<Rightarrow> login_request \<Rightarrow> mfa_challenge \<Rightarrow> string \<Rightarrow> bool \<Rightarrow> bool \<Rightarrow> id_world \<Rightarrow> id_world \<times> (app_exn, bool) res" where
  "settle_challenge e q c given totp recovery w =
     (case verify_mfa_challenge c (totp \<or> recovery) (Aware (lq_clock q 1)) of
        Inl x \<Rightarrow> (w, Inl (DomainErr x))
      | Inr (False, c') \<Rightarrow> (save_mfa_challenge (lq_clock q 2) c' w, Inr False)
      | Inr (True, c') \<Rightarrow>
          if totp \<and> code_used e (lq_clock q 2) (mc_id c) given w then (w, Inr False)
          else if totp
          then (case remaining_challenge_ttl_seconds c (Aware (lq_clock q 1)) of
              Inl x \<Rightarrow> (w, Inl (DomainErr x))
            | Inr ttl \<Rightarrow>
                (save_mfa_challenge (lq_clock q 2) c' (mark_replay e (lq_clock q 2) (mc_id c) given ttl w), Inr True))
          else (save_mfa_challenge (lq_clock q 2) c' w, Inr True))"

definition finish_mfa_login ::
  "login_env \<Rightarrow> login_request \<Rightarrow> mfa_grant \<Rightarrow> user \<Rightarrow> id_world \<Rightarrow> id_world \<times> (app_exn, auth_decision) res" where
  "finish_mfa_login e q g u w =
     (case record_and_save e (lq_clock q 3) u w of
        (w', Inl x) \<Rightarrow> (w', Inl x)
      | (w', Inr _) \<Rightarrow>
          (case issue_tokens e q (lq_clock q 4) u w' of
             (w'', Inl x) \<Rightarrow> (w'', Inl x)
           | (w'', Inr d) \<Rightarrow> (blacklist_mfa_grant (lq_clock q 5) (lq_clock q 5) g w'', Inr d)))"

definition mfa_login_with_grant ::
  "login_env \<Rightarrow> login_request \<Rightarrow> mfa_grant \<Rightarrow> string \<Rightarrow> id_world \<Rightarrow> id_world \<times> (app_exn, auth_decision) res" where
  "mfa_login_with_grant e q g given w =
     (if is_mfa_grant_blacklisted (lq_clock q 0) g w then (w, Inr (Refused InvalidTempToken))
      else case get_by_id (gr_account g) w of
        Inl x \<Rightarrow> (w, Inl x)
      | Inr None \<Rightarrow> (w, Inr (Refused InvalidTempToken))
      | Inr (Some u) \<Rightarrow>
          if \<not> is_active u then (w, Inr (Refused Inactive))
          else case get_totp_secret (u_id u) w of
            None \<Rightarrow> (w, Inr (Refused InvalidTempToken))
          | Some secret \<Rightarrow>
              (case get_mfa_challenge (lq_clock q 0) (gr_challenge g) w of
                 None \<Rightarrow> (w, Inr (Refused InvalidTempToken))
               | Some c \<Rightarrow>
                   if mc_user_id c \<noteq> u_id u then (w, Inr (Refused InvalidTempToken))
                   else case check_second_factor e (lq_clock q 1) (u_id u) secret c given w of
                     (w1, Inl x) \<Rightarrow> (w1, Inl x)
                   | (w1, Inr (totp, recovery)) \<Rightarrow>
                       (case settle_challenge e q c given totp recovery w1 of
                          (w2, Inl x) \<Rightarrow> (w2, Inl x)
                        | (w2, Inr False) \<Rightarrow> (w2, Inr (Refused InvalidMfaCode))
                        | (w2, Inr True) \<Rightarrow> finish_mfa_login e q g u w2)))"

definition complete_mfa_login ::
  "login_env \<Rightarrow> login_request \<Rightarrow> raw_grant option \<Rightarrow> string \<Rightarrow> id_world \<Rightarrow> id_world \<times> (app_exn, auth_decision) res" where
  "complete_mfa_login e q decoded given w =
     (case inspect_mfa_login_grant (le_tokens e) decoded of
        Inl x \<Rightarrow> (w, Inl (SessionErr x))
      | Inr None \<Rightarrow> (w, Inr (Refused InvalidTempToken))
      | Inr (Some g) \<Rightarrow> mfa_login_with_grant e q g given w)"

end
