(* ===== verification/Identity_OAuth.thy ===== *)
theory Identity_OAuth
  imports Identity_Login
begin

text \<open>
  Logins through a provider (\<open>application/identity/oauth\<close>), their signed state
  (\<open>application/identity/shared/oauth_state.py\<close>), the stored links, Google's answers
  (\<open>infrastructure/identity/google_oauth_adapter.py\<close>), and enrolment of the second factor
  (\<open>application/identity/mfa\<close>).

  The HMAC, the encoding of a payload, Google's HTTP answers and the verifier of step-up grants, a port
  nothing in the repository implements, are arguments. Tokens are encrypted at rest; here a link holds them.
\<close>

section \<open>The state and its errors\<close>

datatype oauth_exn =
    AppErr app_exn
  | OAuthRelinkRequiresStepUp string
  | OAuthUnlinkWouldRemoveOnlyAuthenticationMethod string
  | OAuthValueError string
  | UserDoesNotExist

record state_entry =
  se_role :: string
  se_exp :: int

record enrollment =
  en_challenge :: mfa_challenge
  en_secret :: string

text \<open>\<open>ow_consumed\<close>: the grants handed to the verifier's \<open>consume\<close>, the newest first.\<close>

record oauth_world =
  ow_id :: id_world
  ow_links :: "oauth_token list"
  ow_enrollments :: "(uuid \<times> enrollment \<times> instant) list"
  ow_states :: "(string \<times> state_entry \<times> instant) list"
  ow_consumed :: "(string \<times> uuid) list"

definition lift_app :: "(app_exn, 'a) res \<Rightarrow> (oauth_exn, 'a) res" where
  "lift_app r = (case r of Inl x \<Rightarrow> Inl (AppErr x) | Inr y \<Rightarrow> Inr y)"

text \<open>Running an operation on the accounts.\<close>

definition on_id :: "(id_world \<Rightarrow> id_world \<times> (app_exn, 'a) res) \<Rightarrow> oauth_world \<Rightarrow> oauth_world \<times> (oauth_exn, 'a) res" where
  "on_id f w = (let (v, r) = f (ow_id w) in (w\<lparr>ow_id := v\<rparr>, lift_app r))"

text \<open>The unit of work: an error undoes the rows, not the caches.\<close>

definition oauth_unit ::
  "(oauth_world \<Rightarrow> oauth_world \<times> (oauth_exn, 'a) res) \<Rightarrow> oauth_world \<Rightarrow> oauth_world \<times> (oauth_exn, 'a) res" where
  "oauth_unit f w =
     (case f w of
        (w', Inl x) \<Rightarrow> (w'\<lparr>ow_id := rolled_back (ow_id w) (ow_id w'), ow_links := ow_links w\<rparr>, Inl x)
      | (w', Inr x) \<Rightarrow> (w', Inr x))"

section \<open>The signed state of a login\<close>

definition allowed_signup_roles :: "string list" where
  "allowed_signup_roles = [''planner'', ''vendor'']"

record oauth_payload =
  op_role :: string
  op_exp :: "int option"
  op_nonce :: string

text \<open>\<open>encode\<close>: JSON and base64; \<open>sign\<close>: the hex HMAC under the key of the settings; \<open>decode\<close> its inverse,
  where it has one, with the missing members read as empty.\<close>

record state_codec =
  sc_encode :: "oauth_payload \<Rightarrow> string"
  sc_decode :: "string \<Rightarrow> oauth_payload option"
  sc_sign :: "string \<Rightarrow> string"

definition encode_signed_payload :: "state_codec \<Rightarrow> oauth_payload \<Rightarrow> string" where
  "encode_signed_payload c p = sc_encode c p @ ''.'' @ sc_sign c (sc_encode c p)"

text \<open>\<open>rsplit('.', 1)\<close>: the last dot separates.\<close>

definition rsplit_dot :: "string \<Rightarrow> (string \<times> string) option" where
  "rsplit_dot s =
     (if CHR ''.'' \<notin> set s then None
      else Some (rev (tl (dropWhile (\<lambda>c. c \<noteq> CHR ''.'') (rev s))), rev (takeWhile (\<lambda>c. c \<noteq> CHR ''.'') (rev s))))"

definition decode_signed_payload :: "state_codec \<Rightarrow> string option \<Rightarrow> oauth_payload option" where
  "decode_signed_payload c state =
     (case state of
        None \<Rightarrow> None
      | Some s \<Rightarrow>
          (case rsplit_dot s of
             None \<Rightarrow> None
           | Some (payload, signature) \<Rightarrow> if sc_sign c payload = signature then sc_decode c payload else None))"

definition state_key :: "state_codec \<Rightarrow> string \<Rightarrow> string" where
  "state_key c nonce = ''oauth_state_nonce:'' @ sc_sign c nonce"

definition issue_oauth_state ::
  "state_codec \<Rightarrow> instant \<Rightarrow> string \<Rightarrow> string \<Rightarrow> oauth_world \<Rightarrow> oauth_world \<times> (oauth_exn, string \<times> string) res" where
  "issue_oauth_state c now nonce signup_role w =
     (let role = py_lower (py_strip signup_role) in
      if role \<notin> set allowed_signup_roles then (w, Inl (OAuthValueError ''Invalid OAuth signup role''))
      else let x = now div 1000000 + 600 in
        (w\<lparr>ow_states := (state_key c nonce, \<lparr>se_role = role, se_exp = x\<rparr>, now + seconds 600) # ow_states w\<rparr>,
         Inr (encode_signed_payload c \<lparr>op_role = role, op_exp = Some x, op_nonce = nonce\<rparr>, nonce)))"

definition consume_oauth_state ::
  "state_codec \<Rightarrow> instant \<Rightarrow> string option \<Rightarrow> string option \<Rightarrow> oauth_world \<Rightarrow> oauth_world \<times> (string \<times> string) option" where
  "consume_oauth_state c now state cookie w =
     (if state = None \<or> state = Some '''' \<or> cookie = None \<or> cookie = Some '''' then (w, None)
      else case decode_signed_payload c state of
        None \<Rightarrow> (w, None)
      | Some p \<Rightarrow>
          let role = py_lower (py_strip (op_role p)); nonce = py_strip (op_nonce p) in
          if role \<notin> set allowed_signup_roles then (w, None)
          else if (case op_exp p of None \<Rightarrow> True | Some x \<Rightarrow> x < now div 1000000) then (w, None)
          else if nonce = '''' \<or> Some nonce \<noteq> cookie then (w, None)
          else (case cache_get now (state_key c nonce) (ow_states w) of
              None \<Rightarrow> (w, None)
            | Some entry \<Rightarrow>
                let w' = w\<lparr>ow_states := filter (\<lambda>x. fst x \<noteq> state_key c nonce) (ow_states w)\<rparr>
                in if se_role entry \<noteq> role then (w', None) else (w', Some (role, nonce))))"

section \<open>The stored links\<close>

text \<open>\<open>DjangoOAuthTokenRepository\<close>. A link is read through the constructor of the domain.\<close>

definition stored_at :: "oauth_token \<Rightarrow> int" where
  "stored_at t = (case ot_created_at t of Aware i \<Rightarrow> i | Naive i \<Rightarrow> i)"

definition read_link :: "oauth_token option \<Rightarrow> (oauth_exn, oauth_token option) res" where
  "read_link x =
     (case x of None \<Rightarrow> Inr None
      | Some t \<Rightarrow> lift_app (lift_dom (res_bind (mk_oauth_token t) (\<lambda>y. Inr (Some y)))))"

definition find_link :: "oauth_provider \<Rightarrow> string \<Rightarrow> oauth_world \<Rightarrow> oauth_token option" where
  "find_link p i w = find (\<lambda>t. ot_provider t = p \<and> ot_provider_user_id t = i) (ow_links w)"

definition get_by_provider_and_user :: "oauth_provider \<Rightarrow> string \<Rightarrow> oauth_world \<Rightarrow> (oauth_exn, oauth_token option) res" where
  "get_by_provider_and_user p i w = read_link (find_link p i w)"

definition links_of :: "uuid \<Rightarrow> oauth_provider \<Rightarrow> oauth_world \<Rightarrow> oauth_token list" where
  "links_of u p w = sort_key stored_at (filter (\<lambda>t. ot_user_id t = u \<and> ot_provider t = p) (ow_links w))"

definition get_by_user_and_provider :: "uuid \<Rightarrow> oauth_provider \<Rightarrow> oauth_world \<Rightarrow> (oauth_exn, oauth_token option) res" where
  "get_by_user_and_provider u p w = read_link (case links_of u p w of [] \<Rightarrow> None | t # _ \<Rightarrow> Some t)"

fun read_links :: "oauth_token list \<Rightarrow> (oauth_exn, oauth_token list) res" where
  "read_links [] = Inr []"
| "read_links (t # ts) =
     res_bind (lift_app (lift_dom (mk_oauth_token t))) (\<lambda>x. res_bind (read_links ts) (\<lambda>xs. Inr (x # xs)))"

text \<open>There is one provider, so ordering by the provider first changes nothing.\<close>

definition list_by_user :: "uuid \<Rightarrow> oauth_world \<Rightarrow> (oauth_exn, oauth_token list) res" where
  "list_by_user u w = read_links (sort_key stored_at (filter (\<lambda>t. ot_user_id t = u) (ow_links w)))"

definition delete_for_user :: "uuid \<Rightarrow> oauth_provider \<Rightarrow> oauth_world \<Rightarrow> oauth_world" where
  "delete_for_user u p w =
     w\<lparr>ow_links := filter (\<lambda>t. \<not> (ot_user_id t = u \<and> ot_provider t = p)) (ow_links w)\<rparr>"

text \<open>\<open>save\<close>: the account must exist, and the provider's identifier is unique.\<close>

definition save_link :: "oauth_token \<Rightarrow> oauth_world \<Rightarrow> oauth_world \<times> (oauth_exn, unit) res" where
  "save_link t w =
     (if \<not> list_ex (\<lambda>r. ur_id r = ot_user_id t) (iw_users (ow_id w)) then (w, Inl UserDoesNotExist)
      else if list_ex (\<lambda>x. ot_provider x = ot_provider t \<and> ot_provider_user_id x = ot_provider_user_id t \<and>
          ot_id x \<noteq> ot_id t) (ow_links w)
      then (w, Inl (AppErr IntegrityErr))
      else (w\<lparr>ow_links := upsert (\<lambda>x. ot_id x = ot_id t) (\<lambda>_. t) t (ow_links w)\<rparr>, Inr ()))"

section \<open>Login through the provider\<close>

record provider_identity =
  pi_provider :: oauth_provider
  pi_user_id :: string
  pi_email :: string
  pi_first_name :: string
  pi_last_name :: string
  pi_email_verified :: "bool option"

record google_command =
  gc_identity :: provider_identity
  gc_access :: string
  gc_expires_at :: datetime
  gc_refresh :: "string option"
  gc_role :: user_role

record google_request =
  gq_login :: login_request
  gq_user :: uuid
  gq_link :: uuid

definition provider_value :: "oauth_provider \<Rightarrow> string" where
  "provider_value p = (case p of GOOGLE \<Rightarrow> ''google'')"

definition new_link :: "google_request \<Rightarrow> google_command \<Rightarrow> uuid \<Rightarrow> string \<Rightarrow> (oauth_exn, oauth_token) res" where
  "new_link q cmd user pid =
     lift_app (lift_dom (mk_oauth_token
       \<lparr>ot_id = gq_link q, ot_user_id = user, ot_provider = pi_provider (gc_identity cmd), ot_provider_user_id = pid,
        ot_access_token = gc_access cmd, ot_refresh_token = gc_refresh cmd, ot_expires_at = gc_expires_at cmd,
        ot_created_at = Aware (lq_clock (gq_login q) 0)\<rparr>))"

definition updated_link :: "google_command \<Rightarrow> oauth_token \<Rightarrow> (oauth_exn, oauth_token) res" where
  "updated_link cmd t =
     (case update_tokens (gc_access cmd) (gc_refresh cmd) (gc_expires_at cmd) t of
        (_, Inl x) \<Rightarrow> Inl (AppErr (DomainErr x)) | (t', Inr _) \<Rightarrow> Inr t')"

text \<open>A new account, verified and without a password, with its link.\<close>

definition create_oauth_account ::
  "login_env \<Rightarrow> google_request \<Rightarrow> google_command \<Rightarrow> string \<Rightarrow> oauth_world \<Rightarrow> oauth_world \<times> (oauth_exn, user) res" where
  "create_oauth_account e q cmd pid w =
     (let now = lq_clock (gq_login q) 0; i = gc_identity cmd in
      case lift_app (lift_dom (register_new (Aware now) (gq_user q) (pi_email i) None (pi_first_name i) (pi_last_name i)
          (role_value (gc_role cmd)) True (Some (Aware now)))) of
        Inl x \<Rightarrow> (w, Inl x)
      | Inr u \<Rightarrow>
          (case on_id (save_and_dispatch (le_history_limit e) now u) w of
             (w1, Inl x) \<Rightarrow> (w1, Inl x)
           | (w1, Inr saved) \<Rightarrow>
               (case new_link q cmd (u_id saved) pid of
                  Inl x \<Rightarrow> (w1, Inl x)
                | Inr t \<Rightarrow>
                    (case save_link t w1 of (w2, Inl x) \<Rightarrow> (w2, Inl x) | (w2, Inr _) \<Rightarrow> (w2, Inr saved)))))"

text \<open>The link a login of an existing account will store, and whether it is a new one.\<close>

definition link_to_store ::
  "google_request \<Rightarrow> google_command \<Rightarrow> string \<Rightarrow> user \<Rightarrow> linking_action \<Rightarrow> oauth_token option \<Rightarrow> oauth_token option \<Rightarrow>
     (oauth_exn, oauth_token \<times> bool) res" where
  "link_to_store q cmd pid u action identity_link account_link =
     (case action of
        RELINK_PROVIDER_IDENTITY \<Rightarrow> Inl (OAuthRelinkRequiresStepUp ''OAuth relink requires step-up verification'')
      | UPDATE_EXISTING_LINK \<Rightarrow>
          (case account_link of
             None \<Rightarrow> Inl (OAuthValueError ''no link'')
           | Some t \<Rightarrow> res_bind (updated_link cmd t) (\<lambda>t'. Inr (t', False)))
      | _ \<Rightarrow>
          res_bind (case identity_link of Some t \<Rightarrow> Inr t | None \<Rightarrow> new_link q cmd (u_id u) pid) (\<lambda>t.
          res_bind (updated_link cmd t) (\<lambda>t'. Inr (t', True))))"

definition save_linked ::
  "login_env \<Rightarrow> instant \<Rightarrow> oauth_provider \<Rightarrow> user \<Rightarrow> oauth_world \<Rightarrow> oauth_world \<times> (oauth_exn, user) res" where
  "save_linked e now p u w =
     (let u' = fst (link_oauth_provider (Aware now) (provider_value p) (Some (Aware now)) u) in
      case on_id (save_and_dispatch (le_history_limit e) now u') w of
        (w', Inl x) \<Rightarrow> (w', Inl x)
      | (w', Inr _) \<Rightarrow> (w', Inr (u'\<lparr>u_events := []\<rparr>)))"

text \<open>The session, and the link that was held back until it was clear that there will be one.\<close>

definition open_oauth_session ::
  "login_env \<Rightarrow> google_request \<Rightarrow> oauth_token option \<Rightarrow> user \<Rightarrow> oauth_world \<Rightarrow> oauth_world \<times> (oauth_exn, auth_decision) res" where
  "open_oauth_session e q link u w =
     (case on_id (evaluate_oauth_login e (gq_login q) 1 u) w of
        (w1, Inl x) \<Rightarrow> (w1, Inl x)
      | (w1, Inr (Refused r)) \<Rightarrow> (w1, Inl (OAuthValueError ''Authentication failed''))
      | (w1, Inr d) \<Rightarrow>
          (case (case link of None \<Rightarrow> (w1, Inr ()) | Some t \<Rightarrow> save_link t w1) of
             (w2, Inl x) \<Rightarrow> (w2, Inl x)
           | (w2, Inr _) \<Rightarrow>
               (case d of
                  MfaRequired a g \<Rightarrow> (w2, Inr d)
                | _ \<Rightarrow>
                    (case on_id (record_and_save e (lq_clock (gq_login q) 4) u) w2 of
                       (w3, Inl x) \<Rightarrow> (w3, Inl x) | (w3, Inr _) \<Rightarrow> (w3, Inr d)))))"

definition existing_account_login ::
  "login_env \<Rightarrow> google_request \<Rightarrow> google_command \<Rightarrow> string \<Rightarrow> user \<Rightarrow> linking_action \<Rightarrow> oauth_token option \<Rightarrow>
     oauth_token option \<Rightarrow> oauth_world \<Rightarrow> oauth_world \<times> (oauth_exn, auth_decision) res" where
  "existing_account_login e q cmd pid u action identity_link account_link w =
     (case link_to_store q cmd pid u action identity_link account_link of
        Inl x \<Rightarrow> (w, Inl x)
      | Inr (t, fresh) \<Rightarrow>
          (case (if fresh then save_linked e (lq_clock (gq_login q) 0) (pi_provider (gc_identity cmd)) u w else (w, Inr u)) of
             (w1, Inl x) \<Rightarrow> (w1, Inl x)
           | (w1, Inr u1) \<Rightarrow> open_oauth_session e q (Some t) u1 w1))"

definition new_account_login ::
  "login_env \<Rightarrow> google_request \<Rightarrow> google_command \<Rightarrow> string \<Rightarrow> oauth_world \<Rightarrow> oauth_world \<times> (oauth_exn, auth_decision) res" where
  "new_account_login e q cmd pid w =
     (case create_oauth_account e q cmd pid w of
        (w1, Inl x) \<Rightarrow> (w1, Inl x)
      | (w1, Inr u) \<Rightarrow>
          (case save_linked e (lq_clock (gq_login q) 0) (pi_provider (gc_identity cmd)) u w1 of
             (w2, Inl x) \<Rightarrow> (w2, Inl x)
           | (w2, Inr u2) \<Rightarrow> open_oauth_session e q None u2 w2))"

definition google_login ::
  "login_env \<Rightarrow> google_request \<Rightarrow> google_command \<Rightarrow> oauth_world \<Rightarrow> oauth_world \<times> (oauth_exn, auth_decision) res" where
  "google_login e q cmd =
     oauth_unit (\<lambda>w.
       let i = gc_identity cmd; pid = py_strip (pi_user_id i) in
       if pid = '''' then (w, Inl (OAuthValueError ''Google user data missing required fields''))
       else case res_bind (lift_app (get_by_email (pi_email i) (ow_id w))) (\<lambda>account.
            res_bind (get_by_provider_and_user (pi_provider i) pid w) (\<lambda>identity_link.
            res_bind (case account of None \<Rightarrow> Inr None | Some u \<Rightarrow> get_by_user_and_provider (u_id u) (pi_provider i) w)
              (\<lambda>account_link.
            res_bind (lift_app (lift_dom (decide_linking (pi_provider i) pid account identity_link account_link
              (pi_email_verified i)))) (\<lambda>d. Inr (account, identity_link, account_link, lk_action d))))) of
         Inl x \<Rightarrow> (w, Inl x)
       | Inr (None, _, _, _) \<Rightarrow> new_account_login e q cmd pid w
       | Inr (Some u, identity_link, account_link, action) \<Rightarrow>
           existing_account_login e q cmd pid u action identity_link account_link w)"

section \<open>Unlinking, revoking, relinking\<close>

definition unlink_oauth_provider ::
  "uuid \<Rightarrow> oauth_provider \<Rightarrow> oauth_world \<Rightarrow> oauth_world \<times> (oauth_exn, unit) res" where
  "unlink_oauth_provider i p w =
     (case res_bind (lift_app (require_user ''User not found'' (get_by_id i (ow_id w)))) (\<lambda>u.
         res_bind (list_by_user (u_id u) w) (\<lambda>links. Inr (u, links))) of
        Inl x \<Rightarrow> (w, Inl x)
      | Inr (u, links) \<Rightarrow>
          if \<not> list_ex (\<lambda>t. ot_provider t = p) links then (w, Inr ())
          else if u_password_hash u = None \<and> length links \<le> 1
          then (w, Inl (OAuthUnlinkWouldRemoveOnlyAuthenticationMethod ''Cannot unlink the only authentication method''))
          else (delete_for_user (u_id u) p w, Inr ()))"

definition revoke_oauth_token ::
  "uuid \<Rightarrow> oauth_provider \<Rightarrow> oauth_world \<Rightarrow> oauth_world \<times> (oauth_exn, unit) res" where
  "revoke_oauth_token i p w =
     (case lift_app (require_user ''User not found'' (get_by_id i (ow_id w))) of
        Inl x \<Rightarrow> (w, Inl x) | Inr u \<Rightarrow> (delete_for_user (u_id u) p w, Inr ()))"

definition request_oauth_relink :: "oauth_world \<Rightarrow> oauth_world \<times> (oauth_exn, unit) res" where
  "request_oauth_relink w = (w, Inl (OAuthRelinkRequiresStepUp ''OAuth relink requires step-up verification''))"

text \<open>\<open>verifier calls grant user\<close>: what the verifier answers for the purpose \<open>oauth_relink\<close> after it was asked to
  consume the grants \<open>calls\<close>.\<close>

type_synonym grant_verifier = "(string \<times> uuid) list \<Rightarrow> string \<Rightarrow> uuid \<Rightarrow> bool"

definition relink_checked ::
  "grant_verifier \<Rightarrow> uuid \<Rightarrow> oauth_provider \<Rightarrow> string \<Rightarrow> string \<Rightarrow> bool option \<Rightarrow> oauth_world \<Rightarrow>
     (oauth_exn, user \<times> oauth_token \<times> linking_decision) res" where
  "relink_checked verifier target p pid grant verified w =
     res_bind (lift_app (require_user ''User not found'' (get_by_id target (ow_id w)))) (\<lambda>u.
     res_bind (get_by_provider_and_user p pid w) (\<lambda>link.
     case link of
       None \<Rightarrow> Inl (OAuthRelinkRequiresStepUp ''OAuth relink requires an existing provider identity'')
     | Some t \<Rightarrow>
         res_bind (get_by_user_and_provider (u_id u) p w) (\<lambda>account_link.
         res_bind (lift_app (lift_dom (decide_linking p pid (Some u) (Some t) account_link verified))) (\<lambda>d.
           if lk_action d \<noteq> RELINK_PROVIDER_IDENTITY \<or> \<not> lk_owned_by_another d
           then Inl (OAuthRelinkRequiresStepUp ''OAuth relink requires a cross-account provider identity'')
           else if grant = '''' \<or> \<not> verifier (ow_consumed w) grant (u_id u)
           then Inl (OAuthRelinkRequiresStepUp ''OAuth relink requires step-up verification'')
           else Inr (u, t, d)))))"

definition confirm_oauth_relink ::
  "grant_verifier \<Rightarrow> int \<Rightarrow> instant \<Rightarrow> uuid \<Rightarrow> oauth_provider \<Rightarrow> string \<Rightarrow> string \<Rightarrow> bool option \<Rightarrow>
     oauth_world \<Rightarrow> oauth_world \<times> (oauth_exn, unit) res" where
  "confirm_oauth_relink verifier limit now target p pid grant verified =
     oauth_unit (\<lambda>w.
       case res_bind (relink_checked verifier target p pid grant verified w) (\<lambda>(u, t, d).
           res_bind (lift_app (lift_dom (link_to (u_id u) d (Some (Aware now)) t))) (\<lambda>t'. Inr (u, t'))) of
         Inl x \<Rightarrow> (w, Inl x)
       | Inr (u, t') \<Rightarrow>
           let u' = fst (link_oauth_provider (Aware now) (provider_value p) (Some (Aware now)) u) in
           (case on_id (save_user limit now u') w of
              (w1, Inl x) \<Rightarrow> (w1, Inl x)
            | (w1, Inr _) \<Rightarrow>
                (case save_link t' w1 of
                   (w2, Inl x) \<Rightarrow> (w2, Inl x)
                 | (w2, Inr _) \<Rightarrow>
                     (w2\<lparr>ow_consumed := (grant, u_id u) # ow_consumed w2,
                         ow_id := dispatch_events (map UserEvent (u_events u')) (ow_id w2)\<rparr>, Inr ()))))"

section \<open>Google's answers\<close>

record token_claims =
  tc_aud :: "string option"
  tc_iss :: "string option"
  tc_exp :: "(string, int) sum option"

definition adapter_error :: "string \<Rightarrow> (string, 'a) res" where
  "adapter_error msg = Inl msg"

text \<open>\<open>answer\<close> is the token information of the HTTP call: \<open>None\<close> when it failed. An expiry that is no integer
  is \<open>Inl\<close>.\<close>

definition validate_id_token :: "string \<Rightarrow> instant \<Rightarrow> token_claims option \<Rightarrow> (string, unit) res" where
  "validate_id_token client_id now answer =
     (case answer of
        None \<Rightarrow> adapter_error ''Google id_token validation failed''
      | Some c \<Rightarrow>
          if tc_aud c \<noteq> Some client_id then adapter_error ''Google id_token audience mismatch''
          else if tc_iss c \<notin> {Some ''accounts.google.com'', Some ''https://accounts.google.com''}
          then adapter_error ''Google id_token issuer mismatch''
          else (case tc_exp c of
              None \<Rightarrow> Inr ()
            | Some (Inl _) \<Rightarrow> adapter_error ''Google id_token exp claim is invalid''
            | Some (Inr x) \<Rightarrow>
                if x \<le> now div 1000000 then adapter_error ''Google id_token is expired'' else Inr ()))"

text \<open>What the user information endpoint says; a missing member of \<open>gu_email_verified\<close> is \<open>None\<close>.\<close>

record google_user =
  gu_sub :: string
  gu_email :: string
  gu_name :: string
  gu_given_name :: string
  gu_family_name :: string
  gu_email_verified :: "(bool, string) sum option"

definition get_user_info :: "google_user option \<Rightarrow> (string, google_user) res" where
  "get_user_info answer =
     (case answer of
        None \<Rightarrow> adapter_error ''Google userinfo request failed''
      | Some g \<Rightarrow>
          if gu_sub g = '''' \<or> gu_email g = '''' then adapter_error ''Google userinfo missing required identity fields''
          else if (case gu_email_verified g of Some (Inl b) \<Rightarrow> \<not> b | Some (Inr s) \<Rightarrow> py_lower s = ''false'' | None \<Rightarrow> False)
          then adapter_error ''Google email is not verified''
          else Inr g)"

text \<open>\<open>split(maxsplit=1)\<close>: the first word, and the rest without the space before it.\<close>

definition split_name :: "google_user \<Rightarrow> string \<times> string" where
  "split_name g =
     (let first_name = py_strip (gu_given_name g); last_name = py_strip (gu_family_name g) in
      if first_name \<noteq> '''' then (first_name, if last_name = '''' then ''User'' else last_name)
      else let full = py_strip (gu_name g) in
        if full = '''' then (''Google'', ''User'')
        else let rest = dropWhile is_space (dropWhile (\<lambda>c. \<not> is_space c) full) in
          (takeWhile (\<lambda>c. \<not> is_space c) full, if rest = '''' then ''User'' else rest))"

record google_tokens =
  gt_access :: string
  gt_refresh :: string
  gt_expires_in :: int

definition to_login_command :: "instant \<Rightarrow> google_user \<Rightarrow> google_tokens \<Rightarrow> user_role \<Rightarrow> (string + id_exn, google_command) res" where
  "to_login_command now g t role =
     (case mk_email (py_lower (py_strip (gu_email g))) of
        Inl x \<Rightarrow> Inl (Inr x)
      | Inr email \<Rightarrow>
          if py_strip (gu_sub g) = '''' then Inl (Inl ''Google userinfo missing required identity fields'')
          else if gt_access t = '''' then Inl (Inl ''Google token response missing access_token'')
          else (case mk_secrets (gt_access t) (if gt_refresh t = '''' then None else Some (gt_refresh t)) of
              Inl x \<Rightarrow> Inl (Inr x)
            | Inr (access, refresh) \<Rightarrow>
                Inr \<lparr>gc_identity = \<lparr>pi_provider = GOOGLE, pi_user_id = py_strip (gu_sub g), pi_email = email,
                       pi_first_name = fst (split_name g), pi_last_name = snd (split_name g),
                       pi_email_verified = Some True\<rparr>,
                     gc_access = access,
                     gc_expires_at = Aware (now + seconds (if gt_expires_in t = 0 then 3600 else gt_expires_in t)),
                     gc_refresh = refresh, gc_role = role\<rparr>))"

section \<open>Enrolment of the second factor\<close>

text \<open>\<open>secret\<close> is the secret the generator drew, \<open>i\<close> the identifier of the challenge.\<close>

definition begin_mfa_enrollment ::
  "mfa_policy \<Rightarrow> instant \<Rightarrow> uuid \<Rightarrow> string \<Rightarrow> uuid \<Rightarrow> oauth_world \<Rightarrow> oauth_world \<times> (oauth_exn, uuid \<times> string) res" where
  "begin_mfa_enrollment policy now i secret user w =
     (case res_bind (lift_app (require_user ''User not found'' (get_by_id user (ow_id w)))) (\<lambda>u.
         res_bind (lift_app (lift_dom (issue_mfa_challenge policy i (u_id u) TOTP (Aware now)))) (\<lambda>c. Inr c)) of
        Inl x \<Rightarrow> (w, Inl x)
      | Inr c \<Rightarrow>
          (w\<lparr>ow_enrollments := (mc_user_id c, \<lparr>en_challenge = c, en_secret = secret\<rparr>,
               now + seconds (mp_challenge_ttl policy div 1000000)) # ow_enrollments w\<rparr>,
           Inr (mc_id c, secret)))"

definition get_enrollment :: "instant \<Rightarrow> uuid \<Rightarrow> oauth_world \<Rightarrow> enrollment option" where
  "get_enrollment now user w =
     (case cache_get now user (ow_enrollments w) of None \<Rightarrow> None | Some s \<Rightarrow> if en_secret s = '''' then None else Some s)"

definition save_enrollment :: "instant \<Rightarrow> enrollment \<Rightarrow> int \<Rightarrow> oauth_world \<Rightarrow> oauth_world" where
  "save_enrollment now s ttl w =
     w\<lparr>ow_enrollments := (mc_user_id (en_challenge s), s, now + seconds ttl) # ow_enrollments w\<rparr>"

definition consume_enrollment :: "uuid \<Rightarrow> oauth_world \<Rightarrow> oauth_world" where
  "consume_enrollment user w = w\<lparr>ow_enrollments := filter (\<lambda>x. fst x \<noteq> user) (ow_enrollments w)\<rparr>"

text \<open>The code of the authenticator is checked against the enrolment's secret, and the attempt counted.\<close>

definition check_enrollment ::
  "login_env \<Rightarrow> instant \<Rightarrow> uuid \<Rightarrow> enrollment \<Rightarrow> string \<Rightarrow> oauth_world \<Rightarrow> oauth_world \<times> (oauth_exn, string) res" where
  "check_enrollment e now user s given w =
     (case lift_app (lift_dom (res_bind (mk_totp_secret (en_secret s)) (\<lambda>secret.
         res_bind (verify_mfa_challenge (en_challenge s) (le_totp e secret given (Aware now)) (Aware now)) (\<lambda>(ok, c).
         res_bind (remaining_challenge_ttl_seconds c (Aware now)) (\<lambda>ttl. Inr (secret, ok, c, ttl)))))) of
        Inl x \<Rightarrow> (w, Inl x)
      | Inr (secret, ok, c, ttl) \<Rightarrow>
          if \<not> ok
          then (save_enrollment now \<lparr>en_challenge = c, en_secret = en_secret s\<rparr> ttl w,
                Inl (AppErr (InvalidTwoFactorCodeError ''Invalid TOTP token'')))
          else if code_used e now (mc_id (en_challenge s)) given (ow_id w)
          then (w, Inl (AppErr (InvalidTwoFactorCodeError ''Invalid TOTP token'')))
          else (w\<lparr>ow_id := mark_replay e now (mc_id (en_challenge s)) given ttl (ow_id w)\<rparr>, Inr secret))"

definition store_enrolled ::
  "login_env \<Rightarrow> instant \<Rightarrow> user \<Rightarrow> string \<Rightarrow> oauth_world \<Rightarrow> oauth_world \<times> (oauth_exn, unit) res" where
  "store_enrolled e now u secret =
     oauth_unit (\<lambda>w.
       case enable_two_factor (Aware now) None u of
         (_, Inl x) \<Rightarrow> (w\<lparr>ow_id := set_totp_secret (u_id u) secret (ow_id w)\<rparr>, Inl (AppErr (DomainErr x)))
       | (u', Inr _) \<Rightarrow>
           (case on_id (save_and_dispatch (le_history_limit e) now u') (w\<lparr>ow_id := set_totp_secret (u_id u) secret (ow_id w)\<rparr>) of
              (w1, Inl x) \<Rightarrow> (w1, Inl x)
            | (w1, Inr _) \<Rightarrow> (consume_enrollment (u_id u) w1, Inr ())))"

definition confirm_mfa_enrollment ::
  "login_env \<Rightarrow> instant \<Rightarrow> instant \<Rightarrow> uuid \<Rightarrow> string \<Rightarrow> oauth_world \<Rightarrow> oauth_world \<times> (oauth_exn, unit) res" where
  "confirm_mfa_enrollment e now saved_at user given w =
     (case lift_app (require_user ''User not found'' (get_by_id user (ow_id w))) of
        Inl x \<Rightarrow> (w, Inl x)
      | Inr u \<Rightarrow>
          (case get_enrollment now (u_id u) w of
             None \<Rightarrow> (w, Inl (AppErr (InvalidTwoFactorCodeError ''TOTP setup expired or not initiated'')))
           | Some s \<Rightarrow>
               (case check_enrollment e now (u_id u) s given w of
                  (w1, Inl x) \<Rightarrow> (w1, Inl x)
                | (w1, Inr secret) \<Rightarrow> store_enrolled e saved_at u secret w1)))"

definition disable_mfa ::
  "login_env \<Rightarrow> instant \<Rightarrow> uuid \<Rightarrow> oauth_world \<Rightarrow> oauth_world \<times> (oauth_exn, unit) res" where
  "disable_mfa e now user w =
     (case lift_app (require_user ''User not found'' (get_by_id user (ow_id w))) of
        Inl x \<Rightarrow> (w, Inl x)
      | Inr u \<Rightarrow>
          oauth_unit (\<lambda>v.
            let v1 = v\<lparr>ow_id := clear_totp_secret (u_id u) (ow_id v)\<rparr> in
            case disable_two_factor (Aware now) (Some (Aware now)) u of
              (_, Inl x) \<Rightarrow> (v1, Inl (AppErr (DomainErr x)))
            | (u', Inr _) \<Rightarrow>
                (case on_id (save_and_dispatch (le_history_limit e) now u') v1 of
                   (v2, Inl x) \<Rightarrow> (v2, Inl x) | (v2, Inr _) \<Rightarrow> (v2, Inr ()))) w)"

end
