(* ===== verification/Identity_Login_Safety.thy ===== *)
theory Identity_Login_Safety
  imports Identity_Login Identity_Safety
begin

text \<open>
  What logging in guarantees: guessing passwords locks the key, an account with a second factor is opened only
  after its password and a code, and a challenge of the second factor opens one session.
\<close>

section \<open>Guessing passwords\<close>

text \<open>A password that fails for what the email finds: no account, or an active account with another password.\<close>

definition fails_login :: "login_env \<Rightarrow> user option \<Rightarrow> string \<Rightarrow> bool" where
  "fails_login e x plain =
     (case x of None \<Rightarrow> True
      | Some u \<Rightarrow> el_allowed (evaluate_eligibility u) \<and>
          (case u_password_hash u of None \<Rightarrow> False | Some h \<Rightarrow> h \<noteq> '''' \<and> \<not> le_verify e plain h))"

definition guess :: "login_env \<Rightarrow> string \<Rightarrow> login_request \<times> string \<Rightarrow> id_world \<Rightarrow> id_world" where
  "guess e email x w = fst (login_with_password e (fst x) email (snd x) w)"

definition guess_time :: "login_request \<times> string \<Rightarrow> instant" where
  "guess_time x = lq_clock (fst x) 1"

lemma get_by_email_lockout [simp]: "get_by_email email (w\<lparr>iw_lockout := s\<rparr>) = get_by_email email w"
  by (simp add: get_by_email_def)

lemma failing_login:
  assumes "service_is_locked (le_safe e) (le_lockout e) (lq_clock q 0) email (iw_lockout w) = Inr d" "\<not> ld_locked d"
    and "get_by_email email w = Inr x" "fails_login e x plain"
    and "service_record_failure (le_safe e) (le_lockout e) (lq_clock q 1) email (iw_lockout w) = Inr (s, d')"
  shows "fst (login_with_password e q email plain w) = w\<lparr>iw_lockout := s\<rparr>"
  using assms
  by (cases x) (auto simp: login_with_password_def record_invalid_credentials_def fails_login_def evaluate_password_login_def
      split: option.splits)

lemma guesses_recorded:
  assumes "config_ok (le_lockout e)" "email \<noteq> ''''" "get_by_email email w = Inr x" "\<forall>g \<in> set gs. fails_login e x (snd g)"
    and "holds_failures (le_safe e) (le_lockout e) email [] (iw_lockout w)"
    and "sorted (map guess_time gs)"
    and "gs \<noteq> [] \<Longrightarrow> guess_time (last gs) - guess_time (hd gs) < seconds (cf_window_seconds (le_lockout e))"
    and "int (length gs) \<le> cf_max_failures (le_lockout e)"
  shows "\<exists>s. service_failures (le_safe e) (le_lockout e) email (map guess_time gs) (iw_lockout w) = Inr s \<and>
    fold (guess e email) gs w = w\<lparr>iw_lockout := s\<rparr>"
  using assms(4,6-8)
proof (induction gs rule: rev_induct)
  case (snoc g gs)
  let ?ts = "map guess_time gs"
  have srt: "sorted (?ts @ [guess_time g])" using snoc.prems(2) by simp
  have win: "guess_time g - hd (?ts @ [guess_time g]) < seconds (cf_window_seconds (le_lockout e))"
    using snoc.prems(3) by (cases gs) simp_all
  note w = sorted_in_window [OF srt win]
  have "\<exists>s. service_failures (le_safe e) (le_lockout e) email ?ts (iw_lockout w) = Inr s \<and>
    fold (guess e email) gs w = w\<lparr>iw_lockout := s\<rparr>"
  proof (rule snoc.IH)
    show "guess_time (last gs) - guess_time (hd gs) < seconds (cf_window_seconds (le_lockout e))" if "gs \<noteq> []"
      using w(2) that by (simp add: last_map hd_map)
  qed (use snoc.prems srt in \<open>simp_all add: sorted_append\<close>)
  then obtain s where s: "service_failures (le_safe e) (le_lockout e) email ?ts (iw_lockout w) = Inr s"
    "fold (guess e email) gs w = w\<lparr>iw_lockout := s\<rparr>" by blast
  have held: "holds_failures (le_safe e) (le_lockout e) email ?ts s"
  proof -
    have "\<exists>s'. service_failures (le_safe e) (le_lockout e) email ?ts (iw_lockout w) = Inr s' \<and>
        holds_failures (le_safe e) (le_lockout e) email ?ts s'"
      using snoc.prems(4) srt w(2)
      by (intro failures_held [OF assms(1,2,5)]) (simp_all add: sorted_append)
    with s(1) show ?thesis by simp
  qed
  obtain s' d where rec: "service_record_failure (le_safe e) (le_lockout e) (guess_time g) email s = Inr (s', d)"
  proof (cases "int (length ?ts) + 1 < cf_max_failures (le_lockout e)")
    case True
    from record_held [OF assms(1,2) held w(1) True] that show thesis by blast
  next
    case False
    with snoc.prems(4) have "int (length ?ts) + 1 = cf_max_failures (le_lockout e)" by simp
    from record_last_held [OF assms(1,2) held w(1) this] that show thesis by blast
  qed
  from unlocked_held [OF assms(1,2) held] obtain d0 where
    un: "service_is_locked (le_safe e) (le_lockout e) (lq_clock (fst g) 0) email s = Inr d0" "\<not> ld_locked d0" by blast
  have "fst (login_with_password e (fst g) email (snd g) (w\<lparr>iw_lockout := s\<rparr>)) = w\<lparr>iw_lockout := s\<rparr>\<lparr>iw_lockout := s'\<rparr>"
    by (rule failing_login [where x = x]) (use un rec assms(3) snoc.prems(1) in \<open>simp_all add: guess_time_def\<close>)
  then have "guess e email g (w\<lparr>iw_lockout := s\<rparr>) = w\<lparr>iw_lockout := s'\<rparr>" by (simp add: guess_def)
  then show ?case using s rec by (simp add: service_failures_append)
next
  case Nil
  show ?case by (intro exI [of _ "iw_lockout w"]) (cases w, simp)
qed

text \<open>C0. Guessing passwords locks the key: once the configured number of logins for an email failed within the
  window, every further login for it, with the right password too, is refused without looking at the
  password and changes nothing, until the lock has run out. Whether the email has an account makes no difference.\<close>

theorem password_guesses_lock_out:
  assumes "config_ok (le_lockout e)" "email \<noteq> ''''" "get_by_email email w = Inr x" "\<forall>g \<in> set (gs @ [g]). fails_login e x (snd g)"
    and "holds_failures (le_safe e) (le_lockout e) email [] (iw_lockout w)"
    and "sorted (map guess_time (gs @ [g]))"
    and "guess_time g - guess_time (hd (gs @ [g])) < seconds (cf_window_seconds (le_lockout e))"
    and "int (length (gs @ [g])) = cf_max_failures (le_lockout e)"
    and "lq_clock q 0 < guess_time g + seconds (cf_lock_seconds (le_lockout e))"
  shows "login_with_password e q email plain (fold (guess e email) (gs @ [g]) w) =
    (fold (guess e email) (gs @ [g]) w, Inr (Refused LockedOut))"
proof -
  let ?ts = "map guess_time gs"
  have srt: "sorted (?ts @ [guess_time g])" using assms(6) by simp
  have win: "guess_time g - hd (?ts @ [guess_time g]) < seconds (cf_window_seconds (le_lockout e))"
    using assms(7) by (cases gs) simp_all
  note w = sorted_in_window [OF srt win]
  obtain s where s: "service_failures (le_safe e) (le_lockout e) email (?ts @ [guess_time g]) (iw_lockout w) = Inr s"
    "fold (guess e email) (gs @ [g]) w = w\<lparr>iw_lockout := s\<rparr>"
    using guesses_recorded [OF assms(1-3) assms(4,5,6)] assms(7,8) by auto
  have "\<exists>s1. service_failures (le_safe e) (le_lockout e) email ?ts (iw_lockout w) = Inr s1 \<and>
      holds_failures (le_safe e) (le_lockout e) email ?ts s1"
    using assms(8) srt w(2) by (intro failures_held [OF assms(1,2,5)]) (simp_all add: sorted_append)
  then obtain s1 where s1: "service_failures (le_safe e) (le_lockout e) email ?ts (iw_lockout w) = Inr s1"
    "holds_failures (le_safe e) (le_lockout e) email ?ts s1" by blast
  have "int (length ?ts) + 1 = cf_max_failures (le_lockout e)" using assms(8) by simp
  from record_last_held [OF assms(1,2) s1(2) w(1) this] obtain s2 d where
    "service_record_failure (le_safe e) (le_lockout e) (guess_time g) email s1 = Inr (s2, d)"
    "map_of (lc_locks s2) (le_safe e email) = Some (guess_time g + seconds (cf_lock_seconds (le_lockout e)),
       guess_time g + seconds (cf_lock_seconds (le_lockout e)))" by blast
  moreover from this(1) s(1) s1(1) have "s2 = s" by (simp add: service_failures_append)
  ultimately obtain d' where
    "service_is_locked (le_safe e) (le_lockout e) (lq_clock q 0) email s = Inr d'" "ld_locked d'"
    using locked_until_end [of "le_lockout e" email s "le_safe e", OF assms(1,2)] assms(9) by blast
  then show ?thesis unfolding s(2) by (simp add: login_with_password_def)
qed

section \<open>Histories of logins\<close>

datatype login_op =
    PasswordLogin login_request string string
  | CodeLogin login_request "raw_grant option" string

fun login_step :: "login_env \<Rightarrow> login_op \<Rightarrow> id_world \<Rightarrow> id_world" where
  "login_step e (PasswordLogin q email plain) w = fst (login_with_password e q email plain w)"
| "login_step e (CodeLogin q decoded given) w = fst (complete_mfa_login e q decoded given w)"

fun drawn_challenge :: "login_op \<Rightarrow> uuid option" where
  "drawn_challenge (PasswordLogin q email plain) = Some (lq_challenge q)"
| "drawn_challenge (CodeLogin q decoded given) = None"

text \<open>Which operations touch the stored challenges.\<close>

lemma mfa_frame [simp]:
  "iw_mfa (w\<lparr>iw_lockout := s\<rparr>) = iw_mfa w" "iw_mfa (dispatch_events es w) = iw_mfa w"
  "iw_mfa (mark_replay e now i given ttl w) = iw_mfa w" "iw_mfa (save_recovery_codes i cs w) = iw_mfa w"
  "iw_mfa (blacklist_mfa_grant a b g w) = iw_mfa w" "iw_mfa (clear_failures e key w) = iw_mfa w"
  by (simp_all add: dispatch_events_def mark_replay_def save_recovery_codes_def blacklist_mfa_grant_def
      clear_failures_def)

named_theorems mfa_frames \<open>operations that leave the stored challenges alone\<close>

lemma with_sessions_mfa [mfa_frames]: "with_sessions f w = (w', x) \<Longrightarrow> iw_mfa w' = iw_mfa w"
  by (auto simp: with_sessions_def split: prod.splits)

lemma save_user_mfa [mfa_frames]: "save_user limit now u w = (w', r) \<Longrightarrow> iw_mfa w' = iw_mfa w"
  by (auto simp: save_user_def Let_def split: if_splits)

lemma save_and_dispatch_mfa [mfa_frames]: "save_and_dispatch limit now u w = (w', r) \<Longrightarrow> iw_mfa w' = iw_mfa w"
  by (auto simp: save_and_dispatch_def dest: mfa_frames split: prod.splits sum.splits)

lemma record_and_save_mfa [mfa_frames]: "record_and_save e now u w = (w', r) \<Longrightarrow> iw_mfa w' = iw_mfa w"
  by (auto simp: record_and_save_def dest: mfa_frames split: prod.splits sum.splits)

lemma issue_tokens_mfa [mfa_frames]: "issue_tokens e q now u w = (w', r) \<Longrightarrow> iw_mfa w' = iw_mfa w"
  by (auto simp: issue_tokens_def dest: mfa_frames split: prod.splits sum.splits)

lemma invalid_credentials_mfa [mfa_frames]: "record_invalid_credentials e now key why w = (w', r) \<Longrightarrow> iw_mfa w' = iw_mfa w"
  by (auto simp: record_invalid_credentials_def split: sum.splits)

lemma recovery_mfa [mfa_frames]: "consume_recovery_code_of e now i given w = (w', r) \<Longrightarrow> iw_mfa w' = iw_mfa w"
  by (auto simp: consume_recovery_code_of_def split: sum.splits if_splits)

lemma second_factor_mfa [mfa_frames]: "check_second_factor e now i secret c given w = (w', r) \<Longrightarrow> iw_mfa w' = iw_mfa w"
  by (auto simp: check_second_factor_def Let_def dest: mfa_frames split: prod.splits sum.splits if_splits)

lemma finish_mfa [mfa_frames]: "finish_mfa_login e q g u w = (w', r) \<Longrightarrow> iw_mfa w' = iw_mfa w"
  by (auto simp: finish_mfa_login_def dest!: mfa_frames split: prod.splits sum.splits)

section \<open>Challenges of the second factor\<close>

definition challenges_keyed :: "id_world \<Rightarrow> bool" where
  "challenges_keyed w = (\<forall>(k, c, t) \<in> set (iw_mfa w). k = mc_id c)"

lemma mk_mfa_challenge_same: "mk_mfa_challenge c = Inr c' \<Longrightarrow> c' = c"
  by (auto simp: mk_mfa_challenge_def res_simps split: if_splits)

lemma verify_mfa_challenge_Inr:
  assumes "verify_mfa_challenge c accepted now = Inr (b, c')"
  shows "mc_id c' = mc_id c \<and> mc_user_id c' = mc_user_id c \<and> (mc_consumed_at c \<noteq> None \<longrightarrow> \<not> b \<and> mc_consumed_at c' \<noteq> None) \<and>
    (b \<longrightarrow> accepted \<and> mc_consumed_at c' \<noteq> None \<and> mc_consumed_at c = None)"
  using assms
  by (auto simp: verify_mfa_challenge_def mfa_consume_def record_failed_attempt_def can_attempt_def res_simps
      dest!: mk_mfa_challenge_same split: sum.splits id_exn.splits if_splits)

lemma settle_challenge_Inr:
  assumes "settle_challenge e q c given totp recovery w = (w', r)"
  shows "iw_mfa w' = iw_mfa w \<and> r \<noteq> Inr True \<or>
    (\<exists>c' t. iw_mfa w' = (mc_id c, c', t) # iw_mfa w \<and> mc_id c' = mc_id c \<and> mc_user_id c' = mc_user_id c \<and>
       (mc_consumed_at c \<noteq> None \<longrightarrow> mc_consumed_at c' \<noteq> None \<and> r \<noteq> Inr True) \<and>
       (r = Inr True \<longrightarrow> (totp \<or> recovery) \<and> mc_consumed_at c' \<noteq> None))"
proof (cases "verify_mfa_challenge c (totp \<or> recovery) (Aware (lq_clock q 1))")
  case (Inl x)
  with assms show ?thesis by (auto simp: settle_challenge_def)
next
  case (Inr y)
  obtain b c' where y: "y = (b, c')" by fastforce
  with Inr assms show ?thesis
    using verify_mfa_challenge_Inr [of c "totp \<or> recovery" "Aware (lq_clock q 1)" b c']
    by (cases b)
       (auto simp: settle_challenge_def save_mfa_challenge_def split: if_splits sum.splits)
qed

text \<open>What a login does to the stored challenges: nothing, or it puts one in front.\<close>

lemma password_login_mfa:
  assumes "login_with_password e q email plain w = (w', r)"
  shows "iw_mfa w' = iw_mfa w \<or>
    (\<exists>c t u h. iw_mfa w' = (mc_id c, c, t) # iw_mfa w \<and> mc_id c = lq_challenge q \<and> mc_user_id c = u_id u \<and>
       get_by_email email w = Inr (Some u) \<and> u_password_hash u = Some h \<and> le_verify e plain h)"
proof -
  have fin: "iw_mfa v' = iw_mfa v \<or>
    (\<exists>c t. iw_mfa v' = (mc_id c, c, t) # iw_mfa v \<and> mc_id c = lq_challenge q \<and> mc_user_id c = u_id u)"
    if "finalize_login e q k u v = (v', x)" for k u v v' x
    using that
    by (auto simp: finalize_login_def issue_mfa_challenge_def save_mfa_challenge_def res_simps
        dest!: mk_mfa_challenge_same dest: mfa_frames split: if_splits sum.splits)
  have ev: "iw_mfa v' = iw_mfa v \<or>
    (\<exists>c t h. iw_mfa v' = (mc_id c, c, t) # iw_mfa v \<and> mc_id c = lq_challenge q \<and> mc_user_id c = u_id u \<and>
       u_password_hash u = Some h \<and> le_verify e plain h)"
    if "evaluate_password_login e q k u plain v = (v', x)" for k u v v' x
    using that fin [of k u v v' x] by (auto simp: evaluate_password_login_def split: if_splits option.splits)
  show ?thesis
  proof (cases "get_by_email email w")
    case (Inl x)
    with assms show ?thesis by (auto simp: login_with_password_def split: sum.splits if_splits)
  next
    case (Inr x)
    show ?thesis
    proof (cases x)
      case None
      with Inr assms show ?thesis
        by (auto simp: login_with_password_def dest: mfa_frames split: sum.splits if_splits)
    next
      case (Some u)
      obtain w1 d where d: "evaluate_password_login e q 1 u plain w = (w1, d)" by fastforce
      have "iw_mfa w' = iw_mfa w1 \<or> iw_mfa w' = iw_mfa w"
        using Inr Some assms d
        by (auto simp: login_with_password_def dest!: mfa_frames split: sum.splits if_splits auth_decision.splits prod.splits)
      with ev [OF d] Inr Some show ?thesis by auto
    qed
  qed
qed

lemma check_second_factor_Inr:
  "check_second_factor e now i secret c given w = (w1, Inr (totp, recovery)) \<Longrightarrow>
     (totp \<longrightarrow> le_totp e secret given (Aware now)) \<and>
     (recovery \<longrightarrow> consume_recovery_code_of e now i given w = (w1, Inr True))"
  by (auto simp: check_second_factor_def Let_def split: if_splits prod.splits sum.splits)

lemma issued_to:
  "issue_tokens e q now u w = (w', Inr (Authenticated a ts)) \<Longrightarrow> a = u"
  by (auto simp: issue_tokens_def split: prod.splits sum.splits)

lemma finished_to:
  "finish_mfa_login e q g u w = (w', Inr (Authenticated a ts)) \<Longrightarrow> a = u"
  by (auto simp: finish_mfa_login_def dest: issued_to split: prod.splits sum.splits)

lemma code_login_cases:
  assumes "mfa_login_with_grant e q g given w = (w', r)"
  obtains "w' = w" "\<And>u ts. r \<noteq> Inr (Authenticated u ts)"
  | u secret c where "get_by_id (gr_account g) w = Inr (Some u)" "is_active u" "get_totp_secret (u_id u) w = Some secret"
      "get_mfa_challenge (lq_clock q 0) (gr_challenge g) w = Some c" "mc_user_id c = u_id u"
      "(case check_second_factor e (lq_clock q 1) (u_id u) secret c given w of
          (w1, Inl x) \<Rightarrow> (w1, Inl x)
        | (w1, Inr (totp, recovery)) \<Rightarrow>
            (case settle_challenge e q c given totp recovery w1 of
               (w2, Inl x) \<Rightarrow> (w2, Inl x)
             | (w2, Inr False) \<Rightarrow> (w2, Inr (Refused InvalidMfaCode))
             | (w2, Inr True) \<Rightarrow> finish_mfa_login e q g u w2)) = (w', r)"
  using assms by (auto simp: mfa_login_with_grant_def split: if_splits sum.splits option.splits)

text \<open>What it takes to be authenticated with the challenge \<open>c\<close>.\<close>

definition second_factor_given :: "login_env \<Rightarrow> login_request \<Rightarrow> mfa_grant \<Rightarrow> string \<Rightarrow> mfa_challenge \<Rightarrow> user \<Rightarrow> id_world \<Rightarrow> bool" where
  "second_factor_given e q g given c u w =
     (get_by_id (gr_account g) w = Inr (Some u) \<and> is_active u \<and> mc_user_id c = u_id u \<and> mc_consumed_at c = None \<and>
      (case get_totp_secret (u_id u) w of None \<Rightarrow> False
       | Some secret \<Rightarrow> le_totp e secret given (Aware (lq_clock q 1)) \<or>
           snd (consume_recovery_code_of e (lq_clock q 1) (u_id u) given w) = Inr True))"

lemma code_login_mfa:
  assumes "mfa_login_with_grant e q g given w = (w', r)"
  shows "iw_mfa w' = iw_mfa w \<and> (\<forall>u ts. r \<noteq> Inr (Authenticated u ts)) \<or>
    (\<exists>c c' t. get_mfa_challenge (lq_clock q 0) (gr_challenge g) w = Some c \<and>
       iw_mfa w' = (mc_id c, c', t) # iw_mfa w \<and> mc_id c' = mc_id c \<and> mc_user_id c' = mc_user_id c \<and>
       (mc_consumed_at c \<noteq> None \<longrightarrow> mc_consumed_at c' \<noteq> None) \<and>
       (\<forall>a ts. r = Inr (Authenticated a ts) \<longrightarrow> mc_consumed_at c' \<noteq> None \<and> second_factor_given e q g given c a w))"
  using assms
proof (cases rule: code_login_cases)
  case (2 u secret c)
  obtain w1 x where f: "check_second_factor e (lq_clock q 1) (u_id u) secret c given w = (w1, x)" by fastforce
  have m1: "iw_mfa w1 = iw_mfa w" using f by (rule second_factor_mfa)
  show ?thesis
  proof (cases x)
    case (Inl y)
    with 2 f m1 show ?thesis by auto
  next
    case (Inr y)
    obtain totp recovery where y: "y = (totp, recovery)" by fastforce
    obtain w2 z where st: "settle_challenge e q c given totp recovery w1 = (w2, z)" by fastforce
    note settled = settle_challenge_Inr [OF st]
    show ?thesis
    proof (cases "z = Inr True")
      case False
      then have "w' = w2 \<and> (\<forall>u ts. r \<noteq> Inr (Authenticated u ts))"
        using 2(6) f Inr y st by (auto split: sum.splits bool.splits)
      with settled 2(4) m1 show ?thesis by auto
    next
      case True
      then have fin: "finish_mfa_login e q g u w2 = (w', r)" using 2(6) f Inr y st by simp
      from finish_mfa [OF fin] have m2: "iw_mfa w' = iw_mfa w2" .
      from settled True obtain c' t where c': "iw_mfa w2 = (mc_id c, c', t) # iw_mfa w1" "mc_id c' = mc_id c"
        "mc_user_id c' = mc_user_id c" "mc_consumed_at c = None" "totp \<or> recovery" "mc_consumed_at c' \<noteq> None" by auto
      have "second_factor_given e q g given c a w" if "r = Inr (Authenticated a ts)" for a ts
        using that fin finished_to [of e q g u w2 w' a ts] check_second_factor_Inr [of e "lq_clock q 1" "u_id u" secret c given w w1 totp recovery]
          f Inr y c' 2 by (auto simp: second_factor_given_def)
      with c' 2(4) m1 m2 show ?thesis by auto
    qed
  qed
qed auto

lemma complete_mfa_login_mfa:
  assumes "complete_mfa_login e q decoded given w = (w', r)"
  shows "iw_mfa w' = iw_mfa w \<and> (\<forall>u ts. r \<noteq> Inr (Authenticated u ts)) \<or>
    (\<exists>g c c' t. inspect_mfa_login_grant (le_tokens e) decoded = Inr (Some g) \<and>
       get_mfa_challenge (lq_clock q 0) (gr_challenge g) w = Some c \<and>
       iw_mfa w' = (mc_id c, c', t) # iw_mfa w \<and> mc_id c' = mc_id c \<and> mc_user_id c' = mc_user_id c \<and>
       (mc_consumed_at c \<noteq> None \<longrightarrow> mc_consumed_at c' \<noteq> None) \<and>
       (\<forall>a ts. r = Inr (Authenticated a ts) \<longrightarrow> mc_consumed_at c' \<noteq> None \<and> second_factor_given e q g given c a w))"
proof (cases "inspect_mfa_login_grant (le_tokens e) decoded")
  case (Inr x)
  with assms show ?thesis
    using code_login_mfa [of e q _ given w w' r] by (cases x) (auto simp: complete_mfa_login_def)
qed (use assms in \<open>auto simp: complete_mfa_login_def\<close>)

lemma stored_challenge: "get_mfa_challenge now i w = Some c \<Longrightarrow> \<exists>t. map_of (iw_mfa w) i = Some (c, t)"
  by (auto simp: get_mfa_challenge_def cache_get_def split: option.splits if_splits)

lemma login_step_mfa:
  assumes "challenges_keyed w"
  shows "iw_mfa (login_step e op w) = iw_mfa w \<or>
    (\<exists>c t. iw_mfa (login_step e op w) = (mc_id c, c, t) # iw_mfa w \<and>
       (drawn_challenge op = Some (mc_id c) \<or>
        (\<exists>c0 t0. map_of (iw_mfa w) (mc_id c) = Some (c0, t0) \<and> mc_user_id c0 = mc_user_id c \<and>
           (mc_consumed_at c0 \<noteq> None \<longrightarrow> mc_consumed_at c \<noteq> None))))"
proof (cases op)
  case (PasswordLogin q email plain)
  obtain w' r where "login_with_password e q email plain w = (w', r)" by fastforce
  with password_login_mfa [OF this] PasswordLogin show ?thesis by auto
next
  case (CodeLogin q decoded given)
  obtain w' r where run: "complete_mfa_login e q decoded given w = (w', r)" by fastforce
  have step: "iw_mfa (login_step e op w) = iw_mfa w'" using run CodeLogin by simp
  from complete_mfa_login_mfa [OF run] show ?thesis
  proof (elim disjE exE conjE)
    assume "iw_mfa w' = iw_mfa w"
    with step show ?thesis by simp
  next
    fix g c c' t
    assume c: "get_mfa_challenge (lq_clock q 0) (gr_challenge g) w = Some c"
       "iw_mfa w' = (mc_id c, c', t) # iw_mfa w" "mc_id c' = mc_id c" "mc_user_id c' = mc_user_id c"
       "mc_consumed_at c \<noteq> None \<longrightarrow> mc_consumed_at c' \<noteq> None"
    from stored_challenge [OF c(1)] obtain t0 where t0: "map_of (iw_mfa w) (gr_challenge g) = Some (c, t0)" by blast
    have "mc_id c = gr_challenge g" using assms map_of_SomeD [OF t0] by (auto simp: challenges_keyed_def)
    with t0 c(3) have "map_of (iw_mfa w) (mc_id c') = Some (c, t0)" by simp
    moreover have "iw_mfa (login_step e op w) = (mc_id c', c', t) # iw_mfa w" using step c by simp
    ultimately show ?thesis using c(4,5) by (metis (no_types, lifting))
  qed
qed

lemma login_step_mfa_ok: "challenges_keyed w \<Longrightarrow> challenges_keyed (login_step e op w)"
  using login_step_mfa [of w e op] by (auto simp: challenges_keyed_def)

interpretation login_history: invariant_system "login_step e" challenges_keyed for e
  by unfold_locales (rule login_step_mfa_ok)

definition challenge_spent :: "uuid \<Rightarrow> id_world \<Rightarrow> bool" where
  "challenge_spent i w = (case map_of (iw_mfa w) i of None \<Rightarrow> False | Some (c, t) \<Rightarrow> mc_consumed_at c \<noteq> None)"

fun opens_session :: "login_env \<Rightarrow> uuid \<Rightarrow> login_op \<Rightarrow> id_world \<Rightarrow> bool" where
  "opens_session e i (PasswordLogin q email plain) w = False"
| "opens_session e i (CodeLogin q decoded given) w =
     (case inspect_mfa_login_grant (le_tokens e) decoded of
        Inr (Some g) \<Rightarrow> gr_challenge g = i \<and>
          (case snd (complete_mfa_login e q decoded given w) of Inr (Authenticated u ts) \<Rightarrow> True | _ \<Rightarrow> False)
      | _ \<Rightarrow> False)"

lemma opened_spends:
  assumes "challenges_keyed w" "opens_session e i op w"
  shows "challenge_spent i (login_step e op w) \<and> \<not> challenge_spent i w"
proof (cases op)
  case (CodeLogin q decoded given)
  obtain w' r where run: "complete_mfa_login e q decoded given w = (w', r)" by fastforce
  with assms(2) CodeLogin obtain g u ts where g: "inspect_mfa_login_grant (le_tokens e) decoded = Inr (Some g)" "gr_challenge g = i"
    "r = Inr (Authenticated u ts)" by (auto split: sum.splits option.splits auth_decision.splits)
  from complete_mfa_login_mfa [OF run] g obtain c c' t where
    c: "get_mfa_challenge (lq_clock q 0) i w = Some c" "iw_mfa w' = (mc_id c, c', t) # iw_mfa w" "mc_consumed_at c' \<noteq> None"
       "mc_consumed_at c = None" by (auto simp: second_factor_given_def)
  from stored_challenge [OF c(1)] obtain t0 where t0: "map_of (iw_mfa w) i = Some (c, t0)" by blast
  then have "mc_id c = i" using assms(1) map_of_SomeD [OF t0] by (auto simp: challenges_keyed_def)
  with c t0 run CodeLogin show ?thesis by (simp add: challenge_spent_def)
qed (use assms in simp)

lemma stays_spent:
  assumes "challenges_keyed w" "challenge_spent i w" "drawn_challenge op \<noteq> Some i"
  shows "challenge_spent i (login_step e op w)"
  using login_step_mfa [OF assms(1), of e op]
proof
  assume "iw_mfa (login_step e op w) = iw_mfa w"
  with assms(2) show ?thesis by (simp add: challenge_spent_def)
next
  assume "\<exists>c t. iw_mfa (login_step e op w) = (mc_id c, c, t) # iw_mfa w \<and>
       (drawn_challenge op = Some (mc_id c) \<or>
        (\<exists>c0 t0. map_of (iw_mfa w) (mc_id c) = Some (c0, t0) \<and> mc_user_id c0 = mc_user_id c \<and>
           (mc_consumed_at c0 \<noteq> None \<longrightarrow> mc_consumed_at c \<noteq> None)))"
  then obtain c t where c: "iw_mfa (login_step e op w) = (mc_id c, c, t) # iw_mfa w"
    "drawn_challenge op = Some (mc_id c) \<or> (\<exists>c0 t0. map_of (iw_mfa w) (mc_id c) = Some (c0, t0) \<and>
           (mc_consumed_at c0 \<noteq> None \<longrightarrow> mc_consumed_at c \<noteq> None))" by blast
  show ?thesis
  proof (cases "i = mc_id c")
    case True
    with c(2) assms(3) obtain c0 t0 where "map_of (iw_mfa w) i = Some (c0, t0)"
      "mc_consumed_at c0 \<noteq> None \<longrightarrow> mc_consumed_at c \<noteq> None" by auto
    with assms(2) c(1) True show ?thesis by (auto simp: challenge_spent_def)
  next
    case False
    with assms(2) c(1) show ?thesis by (simp add: challenge_spent_def)
  qed
qed

text \<open>C0. A challenge of the second factor opens one session: in any history of logins in which its identifier
  is not drawn again, whichever grants, codes and recovery codes are presented, at most one login with the
  challenge is answered with a session.\<close>

theorem mfa_challenge_opens_one_session:
  assumes "challenges_keyed w" "\<forall>op \<in> set ops. drawn_challenge op \<noteq> Some i"
  shows "length (accepted_ops (login_step e) (opens_session e i) ops w) \<le> 1"
proof -
  have none: "accepted_ops (login_step e) (opens_session e i) ops w = []"
    if "challenges_keyed w" "challenge_spent i w" "\<forall>op \<in> set ops. drawn_challenge op \<noteq> Some i" for ops w
    using that
  proof (induction ops arbitrary: w)
    case (Cons op ops)
    with opened_spends [of w e i op] stays_spent [of w i op e] login_step_mfa_ok [of w e op] show ?case by auto
  qed simp
  show ?thesis
    using assms
  proof (induction ops arbitrary: w)
    case (Cons op ops)
    with opened_spends [of w e i op] login_step_mfa_ok [of w e op] none [of "login_step e op w" ops] show ?case by auto
  qed simp
qed

section \<open>Both factors\<close>

text \<open>Some login of the history gave the password of the account.\<close>

definition password_proved :: "login_env \<Rightarrow> uuid \<Rightarrow> login_op list \<Rightarrow> id_world \<Rightarrow> bool" where
  "password_proved e i ops w =
     (\<exists>pre q email plain post u h. ops = pre @ PasswordLogin q email plain # post \<and>
        get_by_email email (fold (login_step e) pre w) = Inr (Some u) \<and> u_id u = i \<and>
        u_password_hash u = Some h \<and> le_verify e plain h)"

lemma password_proved_later: "password_proved e i ops w \<Longrightarrow> password_proved e i (ops @ later) w"
  unfolding password_proved_def by (metis append.assoc append_Cons)

lemma challenges_keyed_run: "challenges_keyed w \<Longrightarrow> challenges_keyed (fold (login_step e) ops w)"
  by (induction ops arbitrary: w) (auto intro: login_step_mfa_ok)

lemma password_login_proves:
  assumes "get_by_email email (fold (login_step e) ops w) = Inr (Some u)" "u_password_hash u = Some h" "le_verify e plain h"
  shows "password_proved e (u_id u) (ops @ [PasswordLogin q email plain]) w"
  unfolding password_proved_def using assms by blast

lemma challenges_proved:
  assumes "iw_mfa w = []" "map_of (iw_mfa (fold (login_step e) ops w)) i = Some (c, t)"
  shows "password_proved e (mc_user_id c) ops w"
  using assms(2)
proof (induction ops arbitrary: i c t rule: rev_induct)
  case (snoc op ops)
  let ?v = "fold (login_step e) ops w"
  have ok: "challenges_keyed ?v" by (rule challenges_keyed_run) (simp add: challenges_keyed_def assms(1))
  have now: "map_of (iw_mfa (login_step e op ?v)) i = Some (c, t)" using snoc.prems by simp
  have known: "password_proved e (mc_user_id c0) (ops @ [op]) w" if "map_of (iw_mfa ?v) k = Some (c0, t0)" for k c0 t0
    using snoc.IH [OF that] by (rule password_proved_later)
  show ?case
  proof (cases op)
    case (PasswordLogin q email plain)
    obtain w' r where run: "login_with_password e q email plain ?v = (w', r)" by fastforce
    have v: "map_of (iw_mfa w') i = Some (c, t)" using now run PasswordLogin by simp
    from password_login_mfa [OF run] show ?thesis
    proof (elim disjE exE conjE)
      assume "iw_mfa w' = iw_mfa ?v"
      with v show ?thesis by (intro known [of i c t]) simp
    next
      fix c' t' u h
      assume c': "iw_mfa w' = (mc_id c', c', t') # iw_mfa ?v" "mc_user_id c' = u_id u"
        and u: "get_by_email email ?v = Inr (Some u)" "u_password_hash u = Some h" "le_verify e plain h"
      show ?thesis
      proof (cases "i = mc_id c'")
        case True
        with v c' have "mc_user_id c = u_id u" by simp
        with password_login_proves [OF u] PasswordLogin show ?thesis by simp
      next
        case False
        with v c' show ?thesis by (intro known [of i c t]) simp
      qed
    qed
  next
    case (CodeLogin q decoded given)
    from login_step_mfa [OF ok, of e op] show ?thesis
    proof (elim disjE exE conjE)
      assume "iw_mfa (login_step e op ?v) = iw_mfa ?v"
      with now show ?thesis by (intro known [of i c t]) simp
    next
      fix c' t' c0 t0
      assume c': "iw_mfa (login_step e op ?v) = (mc_id c', c', t') # iw_mfa ?v"
        and c0: "map_of (iw_mfa ?v) (mc_id c') = Some (c0, t0)" "mc_user_id c0 = mc_user_id c'"
      show ?thesis
      proof (cases "i = mc_id c'")
        case True
        with now c' have "c = c'" by simp
        with c0 known [OF c0(1)] show ?thesis by simp
      next
        case False
        with now c' show ?thesis by (intro known [of i c t]) simp
      qed
    qed (simp_all add: CodeLogin)
  qed
qed (use assms(1) in simp)

text \<open>C0. The second factor alone opens nothing: when a code is answered with a session, an earlier login of the
  history gave the password of that account, the account is active, and the code is a one-time password of its
  secret or one of its unused recovery codes.\<close>

theorem session_needs_both_factors:
  assumes "iw_mfa w = []"
    and "complete_mfa_login e q decoded given (fold (login_step e) ops w) = (w', Inr (Authenticated u ts))"
  shows "password_proved e (u_id u) ops w \<and> is_active u \<and>
    (\<exists>secret. get_totp_secret (u_id u) (fold (login_step e) ops w) = Some secret \<and>
       (le_totp e secret given (Aware (lq_clock q 1)) \<or>
        snd (consume_recovery_code_of e (lq_clock q 1) (u_id u) given (fold (login_step e) ops w)) = Inr True))"
proof -
  let ?v = "fold (login_step e) ops w"
  from complete_mfa_login_mfa [OF assms(2)] obtain g c where
    g: "get_mfa_challenge (lq_clock q 0) (gr_challenge g) ?v = Some c" "second_factor_given e q g given c u ?v" by auto
  from stored_challenge [OF g(1)] obtain t where "map_of (iw_mfa ?v) (gr_challenge g) = Some (c, t)" by blast
  from challenges_proved [OF assms(1) this] g(2) show ?thesis
    by (auto simp: second_factor_given_def split: option.splits)
qed

section \<open>Instances\<close>

definition sample_login_env :: login_env where
  "sample_login_env = \<lparr>le_verify = (\<lambda>p h. p = h), le_totp = (\<lambda>s c t. c = ''123456''), le_fingerprint = (\<lambda>c. c),
     le_recovery_hash = (\<lambda>c. c), le_safe = (\<lambda>k. k), le_lockout = sample_lockout,
     le_mfa = \<lparr>mp_challenge_ttl = seconds 600, mp_max_attempts = 5\<rparr>, le_tokens = sample_settings, le_history_limit = 5\<rparr>"

definition sample_login_request :: "instant \<Rightarrow> login_request" where
  "sample_login_request t = \<lparr>lq_clock = (\<lambda>k. t + int k), lq_challenge = 31, lq_grant = ''g'', lq_session = 41,
     lq_family = ''ff'', lq_access_jti = ''a1'', lq_refresh_jti = ''r1''\<rparr>"

definition sample_mfa_world :: id_world where
  "sample_mfa_world = sample_id_world\<lparr>iw_users := [sample_user_row\<lparr>ur_two_factor_enabled := True, ur_totp_secret := Some ''S''\<rparr>]\<rparr>"

definition sample_raw_grant :: raw_grant where
  "sample_raw_grant = \<lparr>rg_purpose = Some ''2fa'', rg_env = Some ''prod'', rg_jti = Some ''g'', rg_user = Some 1,
     rg_challenge = Some 31, rg_exp = Some 180\<rparr>"

definition password_op :: login_op where
  "password_op = PasswordLogin (sample_login_request 0) ''a@b.c'' ''h''"

definition code_op :: "instant \<Rightarrow> login_op" where
  "code_op t = CodeLogin (sample_login_request t) (Some sample_raw_grant) ''123456''"

lemma password_guesses_lock_out_witness:
  "login_with_password sample_login_env (sample_login_request 500000000) ''a@b.c'' ''h''
     (fold (guess sample_login_env ''a@b.c'')
        ([(sample_login_request 0, ''p''), (sample_login_request 10, ''q'')] @ [(sample_login_request 20, ''r'')]) sample_mfa_world) =
   (fold (guess sample_login_env ''a@b.c'')
        ([(sample_login_request 0, ''p''), (sample_login_request 10, ''q'')] @ [(sample_login_request 20, ''r'')]) sample_mfa_world,
    Inr (Refused LockedOut))"
proof (rule password_guesses_lock_out)
  let ?u = "sample_user\<lparr>u_two_factor_enabled := True\<rparr>"
  show "get_by_email ''a@b.c'' sample_mfa_world = Inr (Some ?u)" by code_simp
  show "\<forall>g \<in> set ([(sample_login_request 0, ''p''), (sample_login_request 10, ''q'')] @ [(sample_login_request 20, ''r'')]).
    fails_login sample_login_env (Some ?u) (snd g)" by code_simp
  show "config_ok (le_lockout sample_login_env)" by (simp add: sample_login_env_def sample_lockout_def config_ok_def)
  show "holds_failures (le_safe sample_login_env) (le_lockout sample_login_env) ''a@b.c'' [] (iw_lockout sample_mfa_world)"
    by (simp add: holds_failures_def sample_mfa_world_def sample_id_world_def)
qed (simp_all add: sample_login_env_def sample_lockout_def sample_login_request_def guess_time_def time_units)

lemma mfa_challenge_opens_one_session_witness:
  "length (accepted_ops (login_step sample_login_env) (opens_session sample_login_env 31) [code_op 1000000, code_op 2000000]
     (login_step sample_login_env password_op sample_mfa_world)) \<le> 1 \<and>
   opens_session sample_login_env 31 (code_op 1000000) (login_step sample_login_env password_op sample_mfa_world)"
proof
  have "challenges_keyed sample_mfa_world" by (simp add: challenges_keyed_def sample_mfa_world_def sample_id_world_def)
  then have "challenges_keyed (login_step sample_login_env password_op sample_mfa_world)" by (rule login_step_mfa_ok)
  then show "length (accepted_ops (login_step sample_login_env) (opens_session sample_login_env 31) [code_op 1000000, code_op 2000000]
     (login_step sample_login_env password_op sample_mfa_world)) \<le> 1"
    by (rule mfa_challenge_opens_one_session) (simp add: code_op_def)
  show "opens_session sample_login_env 31 (code_op 1000000) (login_step sample_login_env password_op sample_mfa_world)"
    by code_simp
qed

lemma session_needs_both_factors_witness:
  "\<exists>w' u ts. complete_mfa_login sample_login_env (sample_login_request 1000000) (Some sample_raw_grant) ''123456''
      (fold (login_step sample_login_env) [password_op] sample_mfa_world) = (w', Inr (Authenticated u ts)) \<and>
     password_proved sample_login_env (u_id u) [password_op] sample_mfa_world"
proof -
  have "case snd (complete_mfa_login sample_login_env (sample_login_request 1000000) (Some sample_raw_grant) ''123456''
      (fold (login_step sample_login_env) [password_op] sample_mfa_world)) of
    Inr (Authenticated u ts) \<Rightarrow> True | _ \<Rightarrow> False" by code_simp
  then obtain u ts where "snd (complete_mfa_login sample_login_env (sample_login_request 1000000) (Some sample_raw_grant) ''123456''
      (fold (login_step sample_login_env) [password_op] sample_mfa_world)) = Inr (Authenticated u ts)"
    by (auto split: sum.splits auth_decision.splits)
  then obtain w' where r: "complete_mfa_login sample_login_env (sample_login_request 1000000) (Some sample_raw_grant) ''123456''
      (fold (login_step sample_login_env) [password_op] sample_mfa_world) = (w', Inr (Authenticated u ts))"
    by (metis prod.collapse)
  moreover have "iw_mfa sample_mfa_world = []" by (simp add: sample_mfa_world_def sample_id_world_def)
  ultimately show ?thesis using session_needs_both_factors [OF _ r] by blast
qed

end
