(* ===== verification/Identity_OAuth_Safety.thy ===== *)
theory Identity_OAuth_Safety
  imports Identity_OAuth Identity_Login_Safety
begin

text \<open>
  What logging in through a provider guarantees: the signed state comes back once and with the role it was
  issued for, an identity of the provider stays with its account, and a session is for the account the
  identity is linked to.
\<close>

section \<open>The signed state\<close>

lemma rsplit_joined:
  "CHR ''.'' \<notin> set b \<Longrightarrow> rsplit_dot (a @ ''.'' @ b) = Some (a, b)"
proof -
  assume b: "CHR ''.'' \<notin> set b"
  then have "\<forall>c \<in> set (rev b). c \<noteq> CHR ''.''" by auto
  then have "takeWhile (\<lambda>c. c \<noteq> CHR ''.'') (rev b @ CHR ''.'' # rev a) = rev b"
    "dropWhile (\<lambda>c. c \<noteq> CHR ''.'') (rev b @ CHR ''.'' # rev a) = CHR ''.'' # rev a"
    by (subst takeWhile_append2 dropWhile_append2; simp)+
  then show ?thesis by (simp add: rsplit_dot_def)
qed

datatype state_op =
    IssueState instant string string
  | ConsumeState instant "string option" "string option"

fun state_step :: "state_codec \<Rightarrow> state_op \<Rightarrow> oauth_world \<Rightarrow> oauth_world" where
  "state_step c (IssueState now nonce role) w = fst (issue_oauth_state c now nonce role w)"
| "state_step c (ConsumeState now state cookie) w = fst (consume_oauth_state c now state cookie w)"

fun issues_key :: "state_codec \<Rightarrow> string \<Rightarrow> state_op \<Rightarrow> bool" where
  "issues_key c k (IssueState now nonce role) = (state_key c nonce = k)"
| "issues_key c k (ConsumeState now state cookie) = False"

fun accepts_nonce :: "state_codec \<Rightarrow> string \<Rightarrow> state_op \<Rightarrow> oauth_world \<Rightarrow> bool" where
  "accepts_nonce c n (IssueState now nonce role) w = False"
| "accepts_nonce c n (ConsumeState now state cookie) w =
     (case snd (consume_oauth_state c now state cookie w) of None \<Rightarrow> False | Some (role, nonce) \<Rightarrow> nonce = n)"

lemma consumed_state:
  assumes "consume_oauth_state c now state cookie w = (w', Some (role, nonce))"
  shows "cookie = Some nonce \<and> role \<in> set allowed_signup_roles \<and>
    (\<exists>entry t. map_of (ow_states w) (state_key c nonce) = Some (entry, t) \<and> se_role entry = role) \<and>
    map_of (ow_states w') (state_key c nonce) = None"
  using assms
  by (auto simp: consume_oauth_state_def Let_def cache_get_def map_of_eq_None_iff
      split: if_splits option.splits)

lemma map_of_dropped: "map_of (filter (\<lambda>x. fst x \<noteq> a) xs) k = (if k = a then None else map_of xs k)"
  by (induction xs) auto

lemma consume_states:
  "map_of (ow_states (fst (consume_oauth_state c now state cookie w))) k \<in> {None, map_of (ow_states w) k}"
  by (auto simp: consume_oauth_state_def Let_def map_of_dropped split: option.splits)

lemma issue_states:
  "ow_states (fst (issue_oauth_state c now nonce role w)) =
     (if py_lower (py_strip role) \<in> set allowed_signup_roles
      then (state_key c nonce, \<lparr>se_role = py_lower (py_strip role), se_exp = now div 1000000 + 600\<rparr>, now + seconds 600) # ow_states w
      else ow_states w)"
  by (simp add: issue_oauth_state_def Let_def)

text \<open>C0. A signed state is accepted once: in any history of issued and presented states in which its nonce is
  not drawn again, at most one presentation is accepted.\<close>

theorem oauth_state_single_use:
  assumes "\<forall>op \<in> set ops. \<not> issues_key c (state_key c n) op"
  shows "length (accepted_ops (state_step c) (accepts_nonce c n) ops w) \<le> 1"
proof -
  let ?gone = "\<lambda>w. map_of (ow_states w) (state_key c n) = None"
  have got: "map_of (ow_states w) (state_key c n) \<noteq> None \<and> ?gone (state_step c op w)" if acc: "accepts_nonce c n op w" for op w
  proof (cases op)
    case (ConsumeState t state cookie)
    obtain w' x where run: "consume_oauth_state c t state cookie w = (w', x)" by fastforce
    with acc ConsumeState obtain role where x: "x = Some (role, n)" by (auto split: option.splits)
    from consumed_state [OF run [unfolded x]] run ConsumeState show ?thesis by auto
  qed (use acc in simp)
  have stays: "?gone (state_step c op w)" if "?gone w" "\<not> issues_key c (state_key c n) op" for op w
  proof (cases op)
    case (ConsumeState t state cookie)
    with that(1) consume_states [of c t state cookie w "state_key c n"] show ?thesis by auto
  qed (use that in \<open>auto simp: issue_states\<close>)
  have refused: "\<not> accepts_nonce c n op w" if "?gone w" for op w using got that by blast
  have spends: "?gone (state_step c op w)" if "accepts_nonce c n op w" for op w using got that by blast
  have none: "accepted_ops (state_step c) (accepts_nonce c n) ops w = []"
    if "?gone w" "\<forall>op \<in> set ops. \<not> issues_key c (state_key c n) op" for ops w
    using that by (induction ops arbitrary: w) (simp_all add: refused stays)
  show ?thesis
    using assms
  proof (induction ops arbitrary: w)
    case (Cons op ops)
    then show ?case by (cases "accepts_nonce c n op w") (simp_all add: none spends)
  qed simp
qed

text \<open>C0. An accepted state was issued: the browser's cookie holds its nonce, and a state for the role it is
  accepted with was issued under that nonce.\<close>

theorem accepted_state_was_issued:
  assumes "ow_states w = []"
    and "snd (consume_oauth_state c now state cookie (run_ops (state_step c) ops w)) = Some (role, n)"
  shows "cookie = Some n \<and> (\<exists>t m r. IssueState t m r \<in> set ops \<and> state_key c m = state_key c n \<and> role = py_lower (py_strip r))"
proof -
  have issued: "\<exists>t m r. IssueState t m r \<in> set ops \<and> state_key c m = k \<and> se_role entry = py_lower (py_strip r)"
    if "map_of (ow_states (run_ops (state_step c) ops w)) k = Some (entry, x)" for k entry x
    using that
  proof (induction ops rule: rev_induct)
    case (snoc op ops)
    let ?v = "run_ops (state_step c) ops w"
    have v: "map_of (ow_states (state_step c op ?v)) k = Some (entry, x)" using snoc.prems by (simp add: run_ops_append)
    show ?case
    proof (cases op)
      case (ConsumeState t state cookie)
      with v consume_states [of c t state cookie ?v k] have "map_of (ow_states ?v) k = Some (entry, x)" by auto
      from snoc.IH [OF this] show ?thesis by auto
    next
      case (IssueState t m r)
      show ?thesis
      proof (cases "state_key c m = k \<and> py_lower (py_strip r) \<in> set allowed_signup_roles")
        case True
        with v IssueState have "se_role entry = py_lower (py_strip r)" by (auto simp: issue_states)
        with True IssueState show ?thesis by auto
      next
        case False
        with v IssueState have "map_of (ow_states ?v) k = Some (entry, x)" by (auto simp: issue_states split: if_splits)
        from snoc.IH [OF this] show ?thesis by auto
      qed
    qed
  qed (use assms(1) in simp)
  obtain w' where "consume_oauth_state c now state cookie (run_ops (state_step c) ops w) = (w', Some (role, n))"
    using assms(2) by (metis prod.collapse)
  from consumed_state [OF this] issued show ?thesis by metis
qed

text \<open>C0. A state that was issued comes back: presented with its nonce within ten minutes it is accepted with the
  role it was issued for.\<close>

theorem oauth_state_round_trip:
  assumes "\<And>p. sc_decode c (sc_encode c p) = Some p" "\<And>x. CHR ''.'' \<notin> set (sc_sign c x)"
    and "py_strip nonce = nonce" "nonce \<noteq> ''''"
    and "issue_oauth_state c now nonce role w = (w', Inr (state, k))"
    and "now \<le> later" "later < now + seconds 600"
  shows "snd (consume_oauth_state c later (Some state) (Some k) w') = Some (py_lower (py_strip role), nonce)"
proof -
  have r: "py_lower (py_strip role) \<in> set allowed_signup_roles" and k: "k = nonce"
    and state: "state = sc_encode c \<lparr>op_role = py_lower (py_strip role), op_exp = Some (now div 1000000 + 600), op_nonce = nonce\<rparr> @
        ''.'' @ sc_sign c (sc_encode c \<lparr>op_role = py_lower (py_strip role), op_exp = Some (now div 1000000 + 600), op_nonce = nonce\<rparr>)"
    and st: "map_of (ow_states w') (state_key c nonce) =
        Some (\<lparr>se_role = py_lower (py_strip role), se_exp = now div 1000000 + 600\<rparr>, now + seconds 600)"
    using assms(5) by (auto simp: issue_oauth_state_def Let_def encode_signed_payload_def split: if_splits)
  have same: "py_lower (py_strip (py_lower (py_strip role))) = py_lower (py_strip role)"
  proof -
    have "py_lower (py_strip ''planner'') = ''planner''" "py_lower (py_strip ''vendor'') = ''vendor''" by code_simp+
    with r show ?thesis by (auto simp: allowed_signup_roles_def)
  qed
  have "later div 1000000 \<le> (now + seconds 600) div 1000000" by (rule zdiv_mono1) (use assms(7) in auto)
  then have "\<not> now div 1000000 + 600 < later div 1000000" by (simp add: seconds_def)
  then show ?thesis
    using r k st same assms(3,4,7) rsplit_joined [OF assms(2)]
    by (simp add: consume_oauth_state_def decode_signed_payload_def state assms(1) cache_get_def Let_def)
qed

section \<open>Links\<close>

lemma on_id_frame: "on_id f w = (w', r) \<Longrightarrow> ow_links w' = ow_links w \<and> ow_consumed w' = ow_consumed w"
  by (auto simp: on_id_def Let_def split: prod.splits)

lemma on_id_Inr: "on_id f w = (w', Inr x) \<longleftrightarrow> (\<exists>v. f (ow_id w) = (v, Inr x) \<and> w' = w\<lparr>ow_id := v\<rparr>)"
  by (auto simp: on_id_def lift_app_def Let_def split: prod.splits sum.splits)

lemma lift_app_Inr [res_simps]: "lift_app r = Inr x \<longleftrightarrow> r = Inr x"
  by (cases r) (auto simp: lift_app_def)

lemma oauth_unit_Inr: "oauth_unit f w = (w', Inr x) \<longleftrightarrow> f w = (w', Inr x)"
  by (auto simp: oauth_unit_def split: prod.splits sum.splits)

lemma oauth_unit_Inl: "oauth_unit f w = (w', Inl x) \<Longrightarrow> ow_links w' = ow_links w \<and> iw_users (ow_id w') = iw_users (ow_id w)"
  by (auto simp: oauth_unit_def rolled_back_def split: prod.splits sum.splits)

lemma mk_oauth_token_same: "mk_oauth_token t = Inr t' \<Longrightarrow> t' = t"
  by (auto simp: mk_oauth_token_def res_simps split: if_splits)

text \<open>The identity is linked to the account.\<close>

definition linked :: "oauth_provider \<Rightarrow> string \<Rightarrow> uuid \<Rightarrow> oauth_world \<Rightarrow> bool" where
  "linked p i a w = list_ex (\<lambda>t. ot_provider t = p \<and> ot_provider_user_id t = i \<and> ot_user_id t = a) (ow_links w)"

text \<open>What the table of links holds: one link for an identity and one for an account.\<close>

definition links_ok :: "oauth_world \<Rightarrow> bool" where
  "links_ok w =
     (distinct (map ot_id (ow_links w)) \<and>
      inj_on (\<lambda>t. (ot_provider t, ot_provider_user_id t)) (set (ow_links w)) \<and>
      inj_on (\<lambda>t. (ot_user_id t, ot_provider t)) (set (ow_links w)))"

definition same_link :: "oauth_token \<Rightarrow> oauth_token \<Rightarrow> bool" where
  "same_link t t' = (ot_id t = ot_id t' \<and> ot_provider t = ot_provider t' \<and>
     ot_provider_user_id t = ot_provider_user_id t' \<and> ot_user_id t = ot_user_id t')"

text \<open>A link that may be stored: it replaces itself, or it is new for its identity and its account.\<close>

definition link_fits :: "oauth_token \<Rightarrow> oauth_token list \<Rightarrow> bool" where
  "link_fits t L =
     ((\<exists>t0 \<in> set L. same_link t0 t) \<or>
      (\<forall>x \<in> set L. ot_id x \<noteq> ot_id t \<and>
         (ot_provider x, ot_provider_user_id x) \<noteq> (ot_provider t, ot_provider_user_id t) \<and>
         (ot_user_id x, ot_provider x) \<noteq> (ot_user_id t, ot_provider t)))"

lemma updated_link_same: "updated_link cmd t = Inr t' \<Longrightarrow> same_link t t'"
  by (auto simp: updated_link_def update_tokens_def same_link_def Let_def split: sum.splits option.splits)

lemma same_link_sym: "same_link t t' \<Longrightarrow> same_link t' t"
  by (simp add: same_link_def)

lemma set_replaced:
  assumes "distinct (map ot_id L)"
  shows "set (update_first (\<lambda>x. ot_id x = ot_id t) (\<lambda>_. t) L) =
    (if \<exists>x \<in> set L. ot_id x = ot_id t then insert t {x \<in> set L. ot_id x \<noteq> ot_id t} else set L)"
  using assms by (induction L) (auto simp: update_first_absent image_iff)

lemma set_stored:
  assumes "distinct (map ot_id L)"
  shows "set (upsert (\<lambda>x. ot_id x = ot_id t) (\<lambda>_. t) t L) = insert t {x \<in> set L. ot_id x \<noteq> ot_id t}"
  using set_replaced [OF assms, of t] by (auto simp: upsert_def find_None_iff split: if_splits)

lemma distinct_stored:
  assumes "distinct (map ot_id L)"
  shows "distinct (map ot_id (upsert (\<lambda>x. ot_id x = ot_id t) (\<lambda>_. t) t L))"
proof -
  have "map ot_id (update_first (\<lambda>x. ot_id x = ot_id t) (\<lambda>_. t) L) = map ot_id L"
    by (rule update_first_map_same) simp
  with assms show ?thesis by (auto simp: upsert_def find_None_iff)
qed

lemma inj_on_put: "inj_on f A \<Longrightarrow> B \<subseteq> A \<Longrightarrow> \<forall>x \<in> B. f x \<noteq> f t \<Longrightarrow> inj_on f (insert t B)"
  by (auto simp: inj_on_def)

lemma stored_fits:
  assumes "links_ok w" "link_fits t (ow_links w)" "save_link t w = (w', Inr u)"
  shows "links_ok w' \<and> (linked p i a w' \<longleftrightarrow> linked p i a w \<or> (ot_provider t = p \<and> ot_provider_user_id t = i \<and> ot_user_id t = a)) \<and>
    (linked p i b w \<longrightarrow> ot_provider t = p \<and> ot_provider_user_id t = i \<longrightarrow> ot_user_id t = b)"
proof -
  let ?L = "ow_links w"
  have d: "distinct (map ot_id ?L)" using assms(1) by (simp add: links_ok_def)
  have L': "ow_links w' = upsert (\<lambda>x. ot_id x = ot_id t) (\<lambda>_. t) t ?L"
    using assms(3) by (auto simp: save_link_def split: if_splits)
  have S: "set (ow_links w') = insert t {x \<in> set ?L. ot_id x \<noteq> ot_id t}" using set_stored [OF d] L' by simp
  have key: "x = y" if "x \<in> set ?L" "y \<in> set ?L" "ot_id x = ot_id y" for x y
    using d that by (simp add: distinct_map inj_on_def)
  have others: "(ot_provider x, ot_provider_user_id x) \<noteq> (ot_provider t, ot_provider_user_id t) \<and>
      (ot_user_id x, ot_provider x) \<noteq> (ot_user_id t, ot_provider t)" if x: "x \<in> set ?L" "ot_id x \<noteq> ot_id t" for x
    using assms(2) unfolding link_fits_def
  proof
    assume "\<exists>t0 \<in> set ?L. same_link t0 t"
    then obtain t0 where t0: "t0 \<in> set ?L" "same_link t0 t" by blast
    with x have "x \<noteq> t0" by (auto simp: same_link_def)
    with assms(1) x t0 show ?thesis unfolding links_ok_def inj_on_def same_link_def by auto
  qed (use x in blast)
  have ok: "links_ok w'"
  proof -
    have "inj_on (\<lambda>t. (ot_provider t, ot_provider_user_id t)) (set (ow_links w'))"
      unfolding S by (rule inj_on_put [where A = "set ?L"]) (use assms(1) others in \<open>auto simp: links_ok_def\<close>)
    moreover have "inj_on (\<lambda>t. (ot_user_id t, ot_provider t)) (set (ow_links w'))"
      unfolding S by (rule inj_on_put [where A = "set ?L"]) (use assms(1) others in \<open>auto simp: links_ok_def\<close>)
    ultimately show ?thesis using distinct_stored [OF d, of t] by (simp add: links_ok_def L')
  qed
  have slot: "same_link x t" if "x \<in> set ?L" "ot_id x = ot_id t" for x
    using assms(2) unfolding link_fits_def
  proof
    assume "\<exists>t0 \<in> set ?L. same_link t0 t"
    then obtain t0 where t0: "t0 \<in> set ?L" "same_link t0 t" by blast
    with that key [of x t0] have "x = t0" by (simp add: same_link_def)
    with t0 show ?thesis by simp
  qed (use that in blast)
  have same: "ot_user_id x = ot_user_id t" if "x \<in> set ?L" "ot_provider x = ot_provider t"
    "ot_provider_user_id x = ot_provider_user_id t" for x
    using others [OF that(1)] slot [OF that(1)] that by (auto simp: same_link_def)
  have links: "linked p i a w' \<longleftrightarrow> linked p i a w \<or> (ot_provider t = p \<and> ot_provider_user_id t = i \<and> ot_user_id t = a)"
  proof
    assume "linked p i a w'"
    then show "linked p i a w \<or> (ot_provider t = p \<and> ot_provider_user_id t = i \<and> ot_user_id t = a)"
      by (auto simp: linked_def list_ex_iff S)
  next
    assume "linked p i a w \<or> (ot_provider t = p \<and> ot_provider_user_id t = i \<and> ot_user_id t = a)"
    with slot show "linked p i a w'"
      by (auto simp: linked_def list_ex_iff S same_link_def)
  qed
  show ?thesis using ok links same by (auto simp: linked_def list_ex_iff)
qed

section \<open>A login and the links\<close>

lemma found_link:
  assumes "get_by_provider_and_user p i w = Inr x"
  shows "case x of None \<Rightarrow> \<forall>t \<in> set (ow_links w). (ot_provider t, ot_provider_user_id t) \<noteq> (p, i)
    | Some t \<Rightarrow> t \<in> set (ow_links w) \<and> ot_provider t = p \<and> ot_provider_user_id t = i"
  using assms
  by (auto simp: get_by_provider_and_user_def read_link_def find_link_def find_None_iff find_Some_iff res_simps
      dest!: mk_oauth_token_same split: option.splits)

lemma account_link:
  assumes "get_by_user_and_provider u p w = Inr x"
  shows "case x of None \<Rightarrow> \<forall>t \<in> set (ow_links w). (ot_user_id t, ot_provider t) \<noteq> (u, p)
    | Some t \<Rightarrow> t \<in> set (ow_links w) \<and> ot_user_id t = u \<and> ot_provider t = p"
proof (cases "links_of u p w")
  case Nil
  have "set (links_of u p w) = {t \<in> set (ow_links w). ot_user_id t = u \<and> ot_provider t = p}" by (simp add: links_of_def)
  with Nil have "\<forall>t \<in> set (ow_links w). (ot_user_id t, ot_provider t) \<noteq> (u, p)" by auto
  with assms Nil show ?thesis by (auto simp: get_by_user_and_provider_def read_link_def)
next
  case (Cons t ts)
  then have "t \<in> set (filter (\<lambda>t. ot_user_id t = u \<and> ot_provider t = p) (ow_links w))"
    unfolding links_of_def by (metis list.set_intros(1) set_sort)
  with assms Cons show ?thesis
    by (auto simp: get_by_user_and_provider_def read_link_def res_simps dest!: mk_oauth_token_same)
qed

lemma new_link_Inr:
  "new_link q cmd user pid = Inr t \<Longrightarrow> ot_id t = gq_link q \<and> ot_user_id t = user \<and> ot_provider t = pi_provider (gc_identity cmd) \<and>
     ot_provider_user_id t = pid"
  by (auto simp: new_link_def res_simps dest: mk_oauth_token_same)

lemma saved_linked:
  "save_linked e now p u w = (w', Inr u') \<Longrightarrow> ow_links w' = ow_links w \<and> ow_consumed w' = ow_consumed w \<and> u_id u' = u_id u \<and> u_email u' = u_email u"
  by (auto simp: save_linked_def Let_def link_oauth_provider_def record_event_def dest: on_id_frame split: prod.splits sum.splits)

text \<open>The account a decision is about.\<close>

definition decided_user :: "auth_decision \<Rightarrow> user option" where
  "decided_user d = (case d of Authenticated u ts \<Rightarrow> Some u | MfaRequired u g \<Rightarrow> Some u | Refused r \<Rightarrow> None)"

lemma oauth_decided:
  "evaluate_oauth_login e q k u w = (w', Inr d) \<Longrightarrow> (\<exists>r. d = Refused r) \<or> decided_user d = Some u"
  by (auto simp: evaluate_oauth_login_def finalize_login_def issue_tokens_def decided_user_def res_simps
      split: if_splits sum.splits prod.splits)

lemma opened_session:
  assumes "open_oauth_session e q link u w = (w', Inr d)"
  shows "decided_user d = Some u \<and> (case link of None \<Rightarrow> ow_links w' = ow_links w
    | Some t \<Rightarrow> \<exists>v v'. ow_links v = ow_links w \<and> save_link t v = (v', Inr ()) \<and> ow_links w' = ow_links v')"
proof -
  obtain w1 r where ev: "on_id (evaluate_oauth_login e (gq_login q) 1 u) w = (w1, r)" by fastforce
  have w1: "ow_links w1 = ow_links w" using on_id_frame [OF ev] by simp
  from assms ev obtain d1 where d1: "r = Inr d1" "\<forall>x. d1 \<noteq> Refused x"
    by (auto simp: open_oauth_session_def split: sum.splits auth_decision.splits)
  obtain w2 s where s: "(case link of None \<Rightarrow> (w1, Inr ()) | Some t \<Rightarrow> save_link t w1) = (w2, s)" by fastforce
  have w2: "s = Inr ()" "d = d1" "ow_links w' = ow_links w2"
    using assms ev d1 s
    by (auto simp: open_oauth_session_def dest!: on_id_frame split: sum.splits auth_decision.splits prod.splits)
  from ev d1 obtain v where "evaluate_oauth_login e (gq_login q) 1 u (ow_id w) = (v, Inr d1)" by (auto simp: on_id_Inr)
  with oauth_decided d1 w2 have "decided_user d = Some u" by blast
  moreover have "case link of None \<Rightarrow> ow_links w' = ow_links w
    | Some t \<Rightarrow> \<exists>v v'. ow_links v = ow_links w \<and> save_link t v = (v', Inr ()) \<and> ow_links w' = ow_links v'"
    using s w1 w2 by (auto split: option.splits)
  ultimately show ?thesis by simp
qed

lemma decided_link:
  assumes "decide_linking p pid (Some u) identity_link account_link v = Inr d"
  shows "(\<forall>l. account_link = Some l \<longrightarrow> ot_provider_user_id l = pid) \<and>
    (lk_action d \<noteq> RELINK_PROVIDER_IDENTITY \<longrightarrow> (\<forall>l. identity_link = Some l \<longrightarrow> ot_user_id l = u_id u)) \<and>
    (lk_action d = RELINK_PROVIDER_IDENTITY \<longrightarrow> account_link = None \<or> (\<exists>l. identity_link = Some l \<and> ot_user_id l \<noteq> u_id u)) \<and>
    (lk_action d = UPDATE_EXISTING_LINK \<longrightarrow> account_link \<noteq> None) \<and>
    (lk_action d = LINK_EXISTING_ACCOUNT \<longrightarrow> account_link = None) \<and> lk_action d \<noteq> CREATE_ACCOUNT"
  using assms by (auto simp: decide_linking_def Let_def split: if_splits option.splits)

definition fresh_link :: "google_request \<Rightarrow> oauth_world \<Rightarrow> bool" where
  "fresh_link q w = (gq_link q \<notin> ot_id ` set (ow_links w))"

lemma link_to_store_fits:
  assumes "get_by_provider_and_user (pi_provider (gc_identity cmd)) pid w = Inr il"
    and "get_by_user_and_provider (u_id u) (pi_provider (gc_identity cmd)) w = Inr al"
    and "decide_linking (pi_provider (gc_identity cmd)) pid (Some u) il al v = Inr d"
    and "link_to_store q cmd pid u (lk_action d) il al = Inr (t, new)" and "fresh_link q w"
  shows "link_fits t (ow_links w) \<and> ot_provider t = pi_provider (gc_identity cmd) \<and> ot_provider_user_id t = pid \<and> ot_user_id t = u_id u"
proof -
  note il = found_link [OF assms(1)] and al = account_link [OF assms(2)] and dec = decided_link [OF assms(3)]
  consider (update) l where "lk_action d = UPDATE_EXISTING_LINK" "al = Some l" "updated_link cmd l = Inr t"
    | (known) l where "lk_action d = LINK_EXISTING_ACCOUNT" "il = Some l" "updated_link cmd l = Inr t"
    | (fresh) l where "lk_action d = LINK_EXISTING_ACCOUNT" "il = None" "new_link q cmd (u_id u) pid = Inr l" "updated_link cmd l = Inr t"
    using assms(4) dec by (auto simp: link_to_store_def res_simps split: linking_action.splits option.splits)
  then show ?thesis
  proof cases
    case update
    with al dec updated_link_same [OF update(3)] show ?thesis by (auto simp: link_fits_def same_link_def)
  next
    case known
    with il dec updated_link_same [OF known(3)] show ?thesis by (auto simp: link_fits_def same_link_def)
  next
    case fresh
    from new_link_Inr [OF fresh(3)] updated_link_same [OF fresh(4)]
    have t: "ot_id t = gq_link q" "ot_user_id t = u_id u" "ot_provider t = pi_provider (gc_identity cmd)" "ot_provider_user_id t = pid"
      by (auto simp: same_link_def)
    have "al = None" using dec fresh(1) by blast
    with il al fresh(2) t assms(5) have "link_fits t (ow_links w)"
      unfolding link_fits_def fresh_link_def by (auto simp: image_iff)
    with t show ?thesis by simp
  qed
qed

text \<open>What a login through a provider does to the links.\<close>

definition login_links :: "google_command \<Rightarrow> uuid \<Rightarrow> oauth_world \<Rightarrow> oauth_world \<Rightarrow> bool" where
  "login_links cmd u w w' =
     (links_ok w' \<and>
      (\<forall>p i a. linked p i a w' \<longleftrightarrow> linked p i a w \<or>
         (p, i, a) = (pi_provider (gc_identity cmd), py_strip (pi_user_id (gc_identity cmd)), u)) \<and>
      (\<forall>b. linked (pi_provider (gc_identity cmd)) (py_strip (pi_user_id (gc_identity cmd))) b w \<longrightarrow> b = u))"

lemma stored_login:
  assumes "links_ok w" "link_fits t (ow_links w)" "ow_links v = ow_links w" "save_link t v = (v', Inr x)" "ow_links w' = ow_links v'"
    and "ot_provider t = pi_provider (gc_identity cmd)" "ot_provider_user_id t = py_strip (pi_user_id (gc_identity cmd))"
  shows "login_links cmd (ot_user_id t) w w'"
proof -
  have "links_ok v" "link_fits t (ow_links v)" using assms(1-3) by (simp_all add: links_ok_def)
  note st = stored_fits [OF this assms(4)]
  have same: "linked p i a w = linked p i a v" "linked p i a w' = linked p i a v'" "links_ok w' = links_ok v'" for p i a
    using assms(3,5) by (simp_all add: linked_def links_ok_def)
  show ?thesis using st assms(6,7) unfolding login_links_def same by auto
qed

lemma saved_id:
  assumes "save_user limit now u w = (w', Inr v)"
  shows "u_id v = u_id u"
proof -
  let ?old = "find (\<lambda>r. ur_id r = u_id u) (iw_users w)"
  have "to_domain (write_row now u (case ?old of None \<Rightarrow> new_row now (u_id u) | Some r \<Rightarrow> r)) = Inr v"
    using assms by (simp add: save_user_def Let_def res_simps split: if_splits)
  from to_domain_ok(2) [OF this] show ?thesis
    by (auto simp: write_row_def new_row_def find_Some_iff split: option.splits)
qed

lemma created_account:
  assumes "create_oauth_account e q cmd pid w = (w', Inr u)" "links_ok w"
    and "\<forall>t \<in> set (ow_links w). ot_user_id t \<noteq> gq_user q" "fresh_link q w" "pid = py_strip (pi_user_id (gc_identity cmd))"
  shows "login_links cmd (u_id u) w w' \<and> u_id u = gq_user q"
proof -
  from assms(1) obtain a w1 t where
    reg: "lift_app (lift_dom (register_new (Aware (lq_clock (gq_login q) 0)) (gq_user q) (pi_email (gc_identity cmd)) None
      (pi_first_name (gc_identity cmd)) (pi_last_name (gc_identity cmd)) (role_value (gc_role cmd)) True
      (Some (Aware (lq_clock (gq_login q) 0))))) = Inr a" and
    sv: "on_id (save_and_dispatch (le_history_limit e) (lq_clock (gq_login q) 0) a) w = (w1, Inr u)" and
    nl: "new_link q cmd (u_id u) pid = Inr t" and st: "save_link t w1 = (w', Inr ())"
    by (auto simp: create_oauth_account_def Let_def split: sum.splits prod.splits)
  have w1: "ow_links w1 = ow_links w" using on_id_frame [OF sv] by simp
  have "u_id a = gq_user q" using reg
    by (auto simp: res_simps register_new_def mk_user_def record_event_def Let_def split: if_splits)
  moreover have "u_id u = u_id a" using sv
    by (auto simp: on_id_Inr save_and_dispatch_def dest: saved_id split: prod.splits sum.splits)
  ultimately have u: "u_id u = gq_user q" by simp
  note t = new_link_Inr [OF nl]
  have free: "(ot_provider x, ot_provider_user_id x) \<noteq> (ot_provider t, ot_provider_user_id t)"
    if "x \<in> set (ow_links w)" for x
    using st that t assms(4) w1 by (auto simp: save_link_def list_ex_iff fresh_link_def image_iff split: if_splits)
  have fit: "link_fits t (ow_links w)"
    unfolding link_fits_def using free t u assms(3,4) by (auto simp: fresh_link_def image_iff)
  have "login_links cmd (ot_user_id t) w w'" by (rule stored_login [OF assms(2) fit w1 st refl]) (use t assms(5) in auto)
  with t u show ?thesis by auto
qed

lemma google_login_links:
  assumes "google_login e q cmd w = (w', Inr d)" "links_ok w"
    and "\<forall>t \<in> set (ow_links w). ot_user_id t \<noteq> gq_user q" "fresh_link q w"
  shows "\<exists>u. decided_user d = Some u \<and> login_links cmd (u_id u) w w' \<and>
    (get_by_email (pi_email (gc_identity cmd)) (ow_id w) = Inr None \<longrightarrow> u_id u = gq_user q)"
proof -
  let ?i = "gc_identity cmd"
  let ?pid = "py_strip (pi_user_id ?i)"
  from assms(1) obtain account il al ld where
    acc: "get_by_email (pi_email ?i) (ow_id w) = Inr account" and
    il: "get_by_provider_and_user (pi_provider ?i) ?pid w = Inr il" and
    al: "(case account of None \<Rightarrow> Inr None | Some u \<Rightarrow> get_by_user_and_provider (u_id u) (pi_provider ?i) w) = Inr al" and
    ld: "decide_linking (pi_provider ?i) ?pid account il al (pi_email_verified ?i) = Inr ld" and
    go: "(case account of None \<Rightarrow> new_account_login e q cmd ?pid w
      | Some u \<Rightarrow> existing_account_login e q cmd ?pid u (lk_action ld) il al w) = (w', Inr d)"
    by (auto simp: google_login_def oauth_unit_Inr Let_def res_simps split: if_splits sum.splits option.splits)
  show ?thesis
  proof (cases account)
    case None
    with go obtain w1 u w2 u2 where
      1: "create_oauth_account e q cmd ?pid w = (w1, Inr u)" and
      2: "save_linked e (lq_clock (gq_login q) 0) (pi_provider ?i) u w1 = (w2, Inr u2)" and
      3: "open_oauth_session e q None u2 w2 = (w', Inr d)"
      by (auto simp: new_account_login_def split: prod.splits sum.splits)
    from created_account [OF 1 assms(2,3,4) refl] have l: "login_links cmd (u_id u) w w1" "u_id u = gq_user q" by blast+
    from saved_linked [OF 2] opened_session [OF 3] have "ow_links w' = ow_links w1" "decided_user d = Some u2" "u_id u2 = u_id u"
      by auto
    with l show ?thesis by (auto simp: login_links_def links_ok_def linked_def)
  next
    case (Some u)
    from go Some obtain t new w1 u1 where
      lt: "link_to_store q cmd ?pid u (lk_action ld) il al = Inr (t, new)" and
      sl: "(if new then save_linked e (lq_clock (gq_login q) 0) (pi_provider ?i) u w else (w, Inr u)) = (w1, Inr u1)" and
      op: "open_oauth_session e q (Some t) u1 w1 = (w', Inr d)"
      by (auto simp: existing_account_login_def split: prod.splits sum.splits)
    from al Some have al': "get_by_user_and_provider (u_id u) (pi_provider ?i) w = Inr al" by simp
    have ft: "link_fits t (ow_links w)" "ot_provider t = pi_provider ?i" "ot_provider_user_id t = ?pid" "ot_user_id t = u_id u"
      using link_to_store_fits [OF il al' _ lt assms(4)] ld Some by auto
    have w1: "ow_links w1 = ow_links w" "u_id u1 = u_id u" using sl saved_linked by (auto split: if_splits)
    from opened_session [OF op] obtain v v' where
      v: "ow_links v = ow_links w1" "save_link t v = (v', Inr ())" "ow_links w' = ow_links v'" "decided_user d = Some u1" by auto
    from stored_login [OF assms(2) ft(1) _ v(2,3) ft(2,3)] v(1) w1 ft(4) v(4) acc Some show ?thesis by auto
  qed
qed

section \<open>Histories of links\<close>

datatype oauth_op =
    GoogleLogin google_request google_command
  | UnlinkProvider uuid oauth_provider
  | RevokeToken uuid oauth_provider
  | ConfirmRelink instant uuid oauth_provider string string "bool option"

fun oauth_step :: "login_env \<Rightarrow> grant_verifier \<Rightarrow> oauth_op \<Rightarrow> oauth_world \<Rightarrow> oauth_world" where
  "oauth_step e v (GoogleLogin q cmd) w = fst (google_login e q cmd w)"
| "oauth_step e v (UnlinkProvider i p) w = fst (unlink_oauth_provider i p w)"
| "oauth_step e v (RevokeToken i p) w = fst (revoke_oauth_token i p w)"
| "oauth_step e v (ConfirmRelink now target p pid grant verified) w =
     fst (confirm_oauth_relink v (le_history_limit e) now target p pid grant verified w)"

text \<open>The identifiers a login draws are not in use.\<close>

fun fresh_op :: "oauth_op \<Rightarrow> oauth_world \<Rightarrow> bool" where
  "fresh_op (GoogleLogin q cmd) w = (list_all (\<lambda>t. ot_user_id t \<noteq> gq_user q) (ow_links w) \<and> gq_link q \<notin> ot_id ` set (ow_links w))"
| "fresh_op _ w = True"

fun fresh_run :: "login_env \<Rightarrow> grant_verifier \<Rightarrow> oauth_op list \<Rightarrow> oauth_world \<Rightarrow> bool" where
  "fresh_run e v [] w = True"
| "fresh_run e v (op # ops) w = (fresh_op op w \<and> fresh_run e v ops (oauth_step e v op w))"

text \<open>The operation is a relink to the account with a grant the verifier accepts.\<close>

fun granted :: "grant_verifier \<Rightarrow> uuid \<Rightarrow> oauth_op \<Rightarrow> oauth_world \<Rightarrow> bool" where
  "granted v b (ConfirmRelink now target p pid grant verified) w = (target = b \<and> grant \<noteq> '''' \<and> v (ow_consumed w) grant b)"
| "granted v b _ w = False"

lemma deleted_links:
  assumes "links_ok w"
  shows "links_ok (delete_for_user u p w) \<and> (linked q i a (delete_for_user u p w) \<longrightarrow> linked q i a w)"
  using assms
  by (auto simp: links_ok_def delete_for_user_def linked_def list_ex_iff inj_on_def distinct_map_filter)

lemma unlinked: "fst (unlink_oauth_provider i p w) = w \<or> (\<exists>u. fst (unlink_oauth_provider i p w) = delete_for_user u p w)"
  by (auto simp: unlink_oauth_provider_def split: sum.splits)

lemma revoked: "fst (revoke_oauth_token i p w) = w \<or> (\<exists>u. fst (revoke_oauth_token i p w) = delete_for_user u p w)"
  by (auto simp: revoke_oauth_token_def split: sum.splits)

lemma loaded_id: "get_by_id i w = Inr (Some u) \<Longrightarrow> u_id u = i"
  by (auto simp: get_by_id_Some find_user_row_def find_Some_iff dest!: to_domain_ok(2))

lemma relink_stored:
  assumes "links_ok w" "t \<in> set (ow_links w)" "\<forall>x \<in> set (ow_links w). (ot_user_id x, ot_provider x) \<noteq> (b, ot_provider t)"
    and "ow_links v = ow_links w" "save_link (t\<lparr>ot_user_id := b\<rparr>) v = (v', Inr x)"
  shows "links_ok v' \<and> (linked q i a v' \<longleftrightarrow>
    (if (q, i) = (ot_provider t, ot_provider_user_id t) then a = b else linked q i a w))"
proof -
  let ?L = "ow_links w" and ?t = "t\<lparr>ot_user_id := b\<rparr>"
  have d: "distinct (map ot_id ?L)" using assms(1) by (simp add: links_ok_def)
  have L': "ow_links v' = upsert (\<lambda>x. ot_id x = ot_id ?t) (\<lambda>_. ?t) ?t ?L"
    using assms(4,5) by (auto simp: save_link_def split: if_splits)
  have S: "set (ow_links v') = insert ?t {x \<in> set ?L. ot_id x \<noteq> ot_id t}" using set_stored [OF d, of ?t] L' by simp
  have idt: "x = t" if "x \<in> set ?L" "ot_id x = ot_id t" for x
    using d that assms(2) by (simp add: distinct_map inj_on_def)
  have others: "(ot_provider x, ot_provider_user_id x) \<noteq> (ot_provider t, ot_provider_user_id t)"
    if "x \<in> set ?L" "ot_id x \<noteq> ot_id t" for x
    using assms(1,2) that unfolding links_ok_def inj_on_def by auto
  have "inj_on (\<lambda>t. (ot_provider t, ot_provider_user_id t)) (set (ow_links v'))"
    unfolding S by (rule inj_on_put [where A = "set ?L"]) (use assms(1) others in \<open>auto simp: links_ok_def\<close>)
  moreover have "inj_on (\<lambda>t. (ot_user_id t, ot_provider t)) (set (ow_links v'))"
    unfolding S by (rule inj_on_put [where A = "set ?L"]) (use assms(1,3) in \<open>auto simp: links_ok_def\<close>)
  ultimately have "links_ok v'" using distinct_stored [OF d, of ?t] by (simp add: links_ok_def L')
  moreover have "linked q i a v' \<longleftrightarrow> (if (q, i) = (ot_provider t, ot_provider_user_id t) then a = b else linked q i a w)"
    using others idt assms(2) by (auto simp: linked_def list_ex_iff S)
  ultimately show ?thesis by simp
qed

lemma relink_Inr:
  assumes "relink_checked verifier target p pid grant verified w = Inr (u, t, d)" "links_ok w"
  shows "u_id u = target \<and> grant \<noteq> '''' \<and> verifier (ow_consumed w) grant target \<and> t \<in> set (ow_links w) \<and>
    ot_provider t = p \<and> ot_provider_user_id t = pid \<and>
    (\<forall>x \<in> set (ow_links w). (ot_user_id x, ot_provider x) \<noteq> (target, p))"
proof -
  from assms(1) obtain al where
    u: "get_by_id target (ow_id w) = Inr (Some u)" and il: "get_by_provider_and_user p pid w = Inr (Some t)" and
    al: "get_by_user_and_provider (u_id u) p w = Inr al" and
    d: "decide_linking p pid (Some u) (Some t) al verified = Inr d" and
    g: "lk_action d = RELINK_PROVIDER_IDENTITY" "grant \<noteq> ''''" "verifier (ow_consumed w) grant (u_id u)"
    by (auto simp: relink_checked_def require_user_def res_simps split: option.splits if_splits)
  have id: "u_id u = target" using u by (rule loaded_id)
  from found_link [OF il] have t: "t \<in> set (ow_links w)" "ot_provider t = p" "ot_provider_user_id t = pid" by auto
  have "al = None"
  proof (rule ccontr)
    assume "al \<noteq> None"
    then obtain l where l: "al = Some l" by blast
    with account_link [OF al] decided_link [OF d] have
      "l \<in> set (ow_links w)" "ot_provider l = p" "ot_provider_user_id l = pid" "ot_user_id l = u_id u" by auto
    moreover from this t assms(2) have "l = t" unfolding links_ok_def inj_on_def by auto
    moreover from decided_link [OF d] g(1) l have "ot_user_id t \<noteq> u_id u" by auto
    ultimately show False by simp
  qed
  with account_link [OF al] id g t show ?thesis by auto
qed

lemma relink_links:
  assumes "confirm_oauth_relink v limit now target p pid grant verified w = (w', r)" "links_ok w"
  shows "links_ok w' \<and> (linked q i a w \<longrightarrow> linked q i b w' \<longrightarrow> a = b \<or> (target = b \<and> grant \<noteq> '''' \<and> v (ow_consumed w) grant b))"
proof (cases r)
  case (Inl x)
  with assms(1) have "ow_links w' = ow_links w" unfolding confirm_oauth_relink_def by (auto dest: oauth_unit_Inl)
  with assms(2) have "links_ok w'" "linked q i b w' = linked q i b w" by (simp_all add: links_ok_def linked_def)
  moreover have "a = b" if "linked q i a w" "linked q i b w"
    using that assms(2) by (auto simp: linked_def list_ex_iff links_ok_def inj_on_def)
  ultimately show ?thesis by blast
next
  case (Inr x)
  with assms(1) obtain u t d w1 w2 z where
    ch: "relink_checked v target p pid grant verified w = Inr (u, t, d)" and
    to: "link_to (u_id u) d (Some (Aware now)) t = Inr z" and
    sv: "ow_links w1 = ow_links w" and st: "save_link z w1 = (w2, Inr ())" and w': "ow_links w' = ow_links w2"
    by (auto simp: confirm_oauth_relink_def oauth_unit_Inr res_simps Let_def dest!: on_id_frame
        split: sum.splits prod.splits)
  from relink_Inr [OF ch assms(2)] have u: "u_id u = target" "grant \<noteq> ''''" "v (ow_consumed w) grant target"
    and t: "t \<in> set (ow_links w)" "ot_provider t = p" "ot_provider_user_id t = pid"
    and free: "\<forall>x \<in> set (ow_links w). (ot_user_id x, ot_provider x) \<noteq> (target, ot_provider t)" by auto
  from to u have "z = t\<lparr>ot_user_id := target\<rparr>" using t free by (auto simp: link_to_def split: if_splits)
  from relink_stored [OF assms(2) t(1) free sv st [unfolded this]]
  have "links_ok w2" "linked q i b w2 \<longleftrightarrow> (if (q, i) = (ot_provider t, ot_provider_user_id t) then b = target else linked q i b w)"
    by auto
  moreover have "links_ok w' = links_ok w2" "linked q i b w' = linked q i b w2" using w' by (simp_all add: links_ok_def linked_def)
  moreover have "a = b" if "linked q i a w" "linked q i b w"
    using that assms(2) by (auto simp: linked_def list_ex_iff links_ok_def inj_on_def)
  ultimately show ?thesis using u by (cases "(q, i) = (ot_provider t, ot_provider_user_id t)") auto
qed

lemma linked_once: "links_ok w \<Longrightarrow> linked q i a w \<Longrightarrow> linked q i b w \<Longrightarrow> a = b"
  by (auto simp: linked_def list_ex_iff links_ok_def inj_on_def)

lemma oauth_step_links:
  assumes "links_ok w" "fresh_op op w"
  shows "links_ok (oauth_step e v op w) \<and> (linked q i a w \<longrightarrow> linked q i b (oauth_step e v op w) \<longrightarrow> a = b \<or> granted v b op w)"
proof (cases op)
  case (GoogleLogin r cmd)
  obtain w' x where run: "google_login e r cmd w = (w', x)" by fastforce
  show ?thesis
  proof (cases x)
    case (Inl y)
    with run have "ow_links w' = ow_links w" unfolding google_login_def by (auto dest: oauth_unit_Inl)
    with assms(1) run GoogleLogin linked_once [OF assms(1), of q i a b] show ?thesis by (auto simp: links_ok_def linked_def)
  next
    case (Inr d)
    from google_login_links [OF run [unfolded Inr] assms(1)] assms(2) GoogleLogin
    obtain u :: user where u: "login_links cmd (u_id u) w w'" by (auto simp: fresh_link_def list_all_iff)
    with run GoogleLogin linked_once [OF assms(1), of q i a b] show ?thesis by (auto simp: login_links_def)
  qed
next
  case (UnlinkProvider u p)
  with unlinked [of u p w] deleted_links [OF assms(1)] linked_once [OF assms(1), of q i a b] assms(1) show ?thesis by auto
next
  case (RevokeToken u p)
  with revoked [of u p w] deleted_links [OF assms(1)] linked_once [OF assms(1), of q i a b] assms(1) show ?thesis by auto
next
  case (ConfirmRelink now target p pid grant verified)
  obtain w' x where "confirm_oauth_relink v (le_history_limit e) now target p pid grant verified w = (w', x)" by fastforce
  from relink_links [OF this assms(1), of q i a b] this ConfirmRelink show ?thesis by auto
qed

lemma links_ok_run: "links_ok w \<Longrightarrow> fresh_run e v ops w \<Longrightarrow> links_ok (run_ops (oauth_step e v) ops w)"
proof (induction ops arbitrary: w)
  case (Cons op ops)
  then show ?case using oauth_step_links [of w op e v] by auto
qed simp

lemma fresh_run_append: "fresh_run e v (xs @ ys) w = (fresh_run e v xs w \<and> fresh_run e v ys (run_ops (oauth_step e v) xs w))"
  by (induction xs arbitrary: w) auto

text \<open>C0. An identity of the provider stays with its account: whatever logins, unlinks, revocations and relinks
  happen, an operation moves a linked identity to another account only if it is a relink to that account with
  a step-up grant the verifier accepts for it.\<close>

theorem provider_identity_moves_only_with_grant:
  assumes "links_ok w" "fresh_run e v (ops @ [op]) w"
    and "linked p i a (run_ops (oauth_step e v) ops w)" "linked p i b (run_ops (oauth_step e v) (ops @ [op]) w)" "a \<noteq> b"
  shows "granted v b op (run_ops (oauth_step e v) ops w)"
proof -
  have "fresh_run e v ops w" "fresh_op op (run_ops (oauth_step e v) ops w)" using assms(2) by (simp_all add: fresh_run_append)
  from oauth_step_links [OF links_ok_run [OF assms(1) this(1)] this(2), of e v p i a b] assms(3-5)
  show ?thesis by (simp add: run_ops_append)
qed

text \<open>C0. A session through the provider is for the account the identity is linked to: the login of a linked identity
  is answered for that account, that of an unlinked one links it to the account it is answered for.\<close>

theorem google_session_is_for_linked_account:
  assumes "links_ok w" "fresh_run e v (ops @ [GoogleLogin q cmd]) w"
    and "google_login e q cmd (run_ops (oauth_step e v) ops w) = (w', Inr d)"
  shows "\<exists>u. decided_user d = Some u \<and>
    linked (pi_provider (gc_identity cmd)) (py_strip (pi_user_id (gc_identity cmd))) (u_id u) w' \<and>
    (\<forall>b. linked (pi_provider (gc_identity cmd)) (py_strip (pi_user_id (gc_identity cmd))) b (run_ops (oauth_step e v) ops w) \<longrightarrow>
       b = u_id u)"
proof -
  have f: "fresh_run e v ops w" "fresh_op (GoogleLogin q cmd) (run_ops (oauth_step e v) ops w)"
    using assms(2) by (simp_all add: fresh_run_append)
  from google_login_links [OF assms(3) links_ok_run [OF assms(1) f(1)]] f(2)
  obtain u where "decided_user d = Some u" "login_links cmd (u_id u) (run_ops (oauth_step e v) ops w) w'"
    by (auto simp: fresh_link_def list_all_iff)
  then show ?thesis unfolding login_links_def by blast
qed

text \<open>C0. A user whose email at the provider changed cannot log in with it: when the identity is linked and no account
  has the new email, the login fails and no row changes.\<close>

theorem changed_google_email_is_refused:
  assumes "links_ok w" "fresh_op (GoogleLogin q cmd) w"
    and "linked (pi_provider (gc_identity cmd)) (py_strip (pi_user_id (gc_identity cmd))) b w"
    and "get_by_email (pi_email (gc_identity cmd)) (ow_id w) = Inr None"
  shows "\<exists>w' x. google_login e q cmd w = (w', Inl x) \<and> ow_links w' = ow_links w \<and> iw_users (ow_id w') = iw_users (ow_id w)"
proof -
  obtain w' r where run: "google_login e q cmd w = (w', r)" by fastforce
  have f: "\<forall>t \<in> set (ow_links w). ot_user_id t \<noteq> gq_user q" "fresh_link q w"
    using assms(2) by (simp_all add: fresh_link_def list_all_iff)
  show ?thesis
  proof (cases r)
    case (Inl x)
    with run have "ow_links w' = ow_links w \<and> iw_users (ow_id w') = iw_users (ow_id w)"
      unfolding google_login_def by (auto dest: oauth_unit_Inl)
    with run Inl show ?thesis by blast
  next
    case (Inr d)
    from google_login_links [OF run [unfolded Inr] assms(1) f] assms(4)
    obtain u :: user where "u_id u = gq_user q" "login_links cmd (u_id u) w w'" by blast
    with assms(3) have "linked (pi_provider (gc_identity cmd)) (py_strip (pi_user_id (gc_identity cmd))) (gq_user q) w"
      unfolding login_links_def by auto
    with f(1) show ?thesis by (auto simp: linked_def list_ex_iff)
  qed
qed

lemma read_links_same: "read_links ts = Inr xs \<Longrightarrow> xs = ts"
  by (induction ts arbitrary: xs) (auto simp: res_simps dest: mk_oauth_token_same)

text \<open>Every account has at most one link, as there is one provider.\<close>

lemma one_link:
  assumes "links_ok w" "list_by_user u w = Inr links"
  shows "length links \<le> 1"
proof -
  let ?F = "filter (\<lambda>t. ot_user_id t = u) (ow_links w)"
  have "links = sort_key stored_at ?F" using assms(2) by (auto simp: list_by_user_def dest: read_links_same)
  then have len: "length links = length ?F" by simp
  have "x = y" if "x \<in> set ?F" "y \<in> set ?F" for x y
    using assms(1) that oauth_provider.exhaust unfolding links_ok_def inj_on_def by (cases "ot_provider x"; cases "ot_provider y") auto
  then have "card (set ?F) \<le> 1" by (metis One_nat_def card_le_Suc0_iff_eq finite_set)
  moreover have "distinct ?F" using assms(1) by (auto simp: links_ok_def distinct_map)
  ultimately show ?thesis using len distinct_card [of ?F] by simp
qed

text \<open>C0. Unlinking never removes the last way in: after any history, when an unlink removes something, the account
  has a password.\<close>

theorem unlink_needs_password:
  assumes "links_ok w" "fresh_run e v ops w"
    and "unlink_oauth_provider i p (run_ops (oauth_step e v) ops w) = (w', Inr ())" "w' \<noteq> run_ops (oauth_step e v) ops w"
  shows "\<exists>u. get_by_id i (ow_id w') = Inr (Some u) \<and> u_password_hash u \<noteq> None"
proof -
  let ?w = "run_ops (oauth_step e v) ops w"
  have ok: "links_ok ?w" by (rule links_ok_run [OF assms(1,2)])
  from assms(3,4) obtain u links where u: "get_by_id i (ow_id ?w) = Inr (Some u)" "list_by_user (u_id u) ?w = Inr links"
    and "\<not> (u_password_hash u = None \<and> length links \<le> 1)" and w': "w' = delete_for_user (u_id u) p ?w"
    by (auto simp: unlink_oauth_provider_def require_user_def res_simps split: sum.splits option.splits if_splits)
  with one_link [OF ok u(2)] have "u_password_hash u \<noteq> None" by simp
  with u(1) w' show ?thesis by (simp add: delete_for_user_def)
qed

section \<open>Enrolment\<close>

lemma checked_enrollment:
  assumes "check_enrollment e now i s given w = (w', Inr secret)"
  shows "mk_totp_secret (en_secret s) = Inr secret \<and> le_totp e secret given (Aware now) \<and>
    can_attempt (Aware now) (en_challenge s) = Inr True \<and>
    \<not> code_used e now (mc_id (en_challenge s)) given (ow_id w) \<and> iw_users (ow_id w') = iw_users (ow_id w)"
proof -
  from assms obtain c where c: "mk_totp_secret (en_secret s) = Inr secret"
    "verify_mfa_challenge (en_challenge s) (le_totp e secret given (Aware now)) (Aware now) = Inr (True, c)"
    "\<not> code_used e now (mc_id (en_challenge s)) given (ow_id w)" "iw_users (ow_id w') = iw_users (ow_id w)"
    by (auto simp: check_enrollment_def mark_replay_def res_simps split: sum.splits if_splits)
  from verify_mfa_challenge_Inr [OF c(2)] c show ?thesis
    by (auto simp: verify_mfa_challenge_def res_simps split: sum.splits id_exn.splits if_splits)
qed

lemma find_set_totp:
  "find_user_row i (set_totp_secret i secret w) =
     map_option (\<lambda>r. r\<lparr>ur_totp_secret := Some secret, ur_two_factor_enabled := True\<rparr>) (find_user_row i w)"
proof -
  have "find (\<lambda>r. ur_id r = i) (map (\<lambda>r. if ur_id r = i then r\<lparr>ur_totp_secret := Some secret, ur_two_factor_enabled := True\<rparr> else r) rs) =
    map_option (\<lambda>r. r\<lparr>ur_totp_secret := Some secret, ur_two_factor_enabled := True\<rparr>) (find (\<lambda>r. ur_id r = i) rs)" for rs :: "user_row list"
    by (induction rs) auto
  then show ?thesis by (simp add: find_user_row_def set_totp_secret_def)
qed

lemma stored_enrolled:
  assumes "store_enrolled e now u secret w = (w', Inr ())" "get_by_id i (ow_id w) = Inr (Some u)" "secret \<noteq> ''''"
  shows "get_totp_secret i (ow_id w') = Some secret"
proof -
  have i: "u_id u = i" using assms(2) by (rule loaded_id)
  let ?v = "set_totp_secret i secret (ow_id w)"
  from assms(1) i obtain u' x y where en: "enable_two_factor (Aware now) None u = (u', Inr ())" and
    sv: "save_user (le_history_limit e) now u' ?v = (x, Inr y)" and
    w': "ow_id w' = dispatch_events (map UserEvent (u_events u')) x"
    by (auto simp: store_enrolled_def oauth_unit_Inr on_id_Inr save_and_dispatch_def consume_enrollment_def
        split: prod.splits sum.splits)
  have u': "u_two_factor_enabled u'" "u_id u' = i"
    using en i by (auto simp: enable_two_factor_def can_enable_method_def record_event_def rotate_auth_token_version_def Let_def
        split: sum.splits bool.splits if_splits)
  from assms(2) obtain r where r: "find_user_row i (ow_id w) = Some r" by (auto simp: get_by_id_Some)
  then have rv: "find_user_row i ?v = Some (r\<lparr>ur_totp_secret := Some secret, ur_two_factor_enabled := True\<rparr>)"
    by (simp add: find_set_totp)
  have "find_user_row i x = Some (row_of now u' ?v)"
  proof -
    have "\<not> email_taken u' ?v" using sv by (auto simp: save_user_def email_taken_def Let_def split: if_splits)
    from save_user_row [OF this, of i "le_history_limit e" now] sv u' show ?thesis by simp
  qed
  with rv u' assms(3) w' show ?thesis
    by (simp add: get_totp_secret_def find_user_row_def row_of_def write_row_def dispatch_events_def)
qed

text \<open>C0. The second factor is switched on only with a code of the secret that was shown: a confirmed enrolment was
  open, not expired and took attempts, the code was a one-time password of its secret that had not been used
  in it, and from then on that secret is the account's.\<close>

theorem enrollment_needs_code:
  assumes "confirm_mfa_enrollment e now saved_at i given w = (w', Inr ())"
  shows "\<exists>s t secret. map_of (ow_enrollments w) i = Some (s, t) \<and> now < t \<and> mk_totp_secret (en_secret s) = Inr secret \<and>
    le_totp e secret given (Aware now) \<and> can_attempt (Aware now) (en_challenge s) = Inr True \<and>
    \<not> code_used e now (mc_id (en_challenge s)) given (ow_id w) \<and> get_totp_secret i (ow_id w') = Some secret"
proof -
  from assms obtain u s w1 secret where u: "get_by_id i (ow_id w) = Inr (Some u)" and
    s: "get_enrollment now (u_id u) w = Some s" and ch: "check_enrollment e now (u_id u) s given w = (w1, Inr secret)" and
    st: "store_enrolled e saved_at u secret w1 = (w', Inr ())"
    by (auto simp: confirm_mfa_enrollment_def require_user_def res_simps split: sum.splits option.splits prod.splits)
  have i: "u_id u = i" using u by (rule loaded_id)
  note c = checked_enrollment [OF ch]
  have "get_by_id i (ow_id w1) = Inr (Some u)" using u c get_by_id_row [of i "ow_id w1" "ow_id w"] by (simp add: find_user_row_def)
  moreover have "secret \<noteq> ''''" using c by (auto simp: mk_totp_secret_def rstrip_eq_def Let_def split: if_splits)
  ultimately have "get_totp_secret i (ow_id w') = Some secret" using stored_enrolled [OF st] by blast
  with c s i show ?thesis by (auto simp: get_enrollment_def cache_get_def split: option.splits if_splits)
qed

section \<open>Instances\<close>

text \<open>A codec: the role behind its length in unary, the expiry as ten minutes and the rest in unary, the nonce.\<close>

definition ones :: "nat \<Rightarrow> string" where "ones n = replicate n CHR ''1'' @ ''0''"

definition count_ones :: "string \<Rightarrow> nat" where "count_ones s = length (takeWhile (\<lambda>c. c = CHR ''1'') s)"

definition sample_encode :: "oauth_payload \<Rightarrow> string" where
  "sample_encode p = ones (length (op_role p)) @ op_role p @
     (case op_exp p of None \<Rightarrow> ''n'' | Some x \<Rightarrow> (if 0 \<le> x then ''p'' else ''m'') @ ones (nat \<bar>x div 600\<bar>) @ ones (nat (x mod 600))) @ op_nonce p"

definition sample_decode :: "string \<Rightarrow> oauth_payload option" where
  "sample_decode s =
     (let k = count_ones s; r = drop (k + 1) s; role = take k r; r = drop k r in
      case r of
        [] \<Rightarrow> None
      | c # r \<Rightarrow>
          if c = CHR ''n'' then Some \<lparr>op_role = role, op_exp = None, op_nonce = r\<rparr>
          else let j = count_ones r; r = drop (j + 1) r; k = count_ones r in
            Some \<lparr>op_role = role, op_exp = Some (600 * (if c = CHR ''p'' then int j else - int j) + int k), op_nonce = drop (k + 1) r\<rparr>)"

definition sample_codec :: state_codec where
  "sample_codec = \<lparr>sc_encode = sample_encode, sc_decode = sample_decode,
     sc_sign = map (\<lambda>c. if c = CHR ''.'' then CHR ''d'' else c)\<rparr>"

lemma count_ones_ones [simp]: "count_ones (ones n @ xs) = n" "drop n (ones n @ xs) = CHR ''0'' # xs" "length (ones n) = Suc n"
proof -
  have "takeWhile (\<lambda>c. c = CHR ''1'') (replicate n CHR ''1'' @ CHR ''0'' # xs) = replicate n CHR ''1''"
    by (induction n) auto
  then show "count_ones (ones n @ xs) = n" by (simp add: count_ones_def ones_def)
qed (simp_all add: ones_def)

lemma sample_codec_ok: "sc_decode sample_codec (sc_encode sample_codec p) = Some p"
  by (cases p; cases "op_exp p")
     (auto simp: sample_codec_def sample_decode_def sample_encode_def Let_def)

definition sample_oauth_world :: oauth_world where
  "sample_oauth_world = \<lparr>ow_id = sample_id_world, ow_links = [], ow_enrollments = [], ow_states = [], ow_consumed = []\<rparr>"

definition sample_identity :: "string \<Rightarrow> provider_identity" where
  "sample_identity email = \<lparr>pi_provider = GOOGLE, pi_user_id = ''g1'', pi_email = email, pi_first_name = ''Ann'',
     pi_last_name = ''Lee'', pi_email_verified = Some True\<rparr>"

definition sample_google :: "string \<Rightarrow> google_command" where
  "sample_google email = \<lparr>gc_identity = sample_identity email, gc_access = ''t'', gc_expires_at = Aware 9000000,
     gc_refresh = None, gc_role = PLANNER\<rparr>"

definition sample_google_request :: google_request where
  "sample_google_request = \<lparr>gq_login = sample_login_request 100, gq_user = 50, gq_link = 60\<rparr>"

definition sample_google_op :: "string \<Rightarrow> oauth_op" where
  "sample_google_op email = GoogleLogin sample_google_request (sample_google email)"

definition sample_relink :: oauth_op where
  "sample_relink = ConfirmRelink 200 2 GOOGLE ''g1'' ''grant'' (Some True)"

lemma sample_google_simps [simp]:
  "pi_provider (gc_identity (sample_google email)) = GOOGLE" "pi_user_id (gc_identity (sample_google email)) = ''g1''"
  by (simp_all add: sample_google_def sample_identity_def)

lemma sample_links_ok: "links_ok sample_oauth_world"
  by (simp add: links_ok_def sample_oauth_world_def)

lemma oauth_state_single_use_witness:
  "length (accepted_ops (state_step sample_codec) (accepts_nonce sample_codec ''n'')
     [ConsumeState 5 (Some ''x.y'') (Some ''n''), ConsumeState 6 (Some ''x.y'') (Some ''n'')] sample_oauth_world) \<le> 1"
  by (rule oauth_state_single_use) simp

lemma oauth_state_round_trip_witness:
  "snd (consume_oauth_state sample_codec 599000000
     (Some (encode_signed_payload sample_codec \<lparr>op_role = ''vendor'', op_exp = Some 600, op_nonce = ''n''\<rparr>)) (Some ''n'')
     (fst (issue_oauth_state sample_codec 0 ''n'' '' Vendor '' sample_oauth_world))) = Some (py_lower (py_strip '' Vendor ''), ''n'')"
proof (rule oauth_state_round_trip [where now = 0 and w = sample_oauth_world, OF sample_codec_ok])
  show "issue_oauth_state sample_codec 0 ''n'' '' Vendor '' sample_oauth_world =
    (fst (issue_oauth_state sample_codec 0 ''n'' '' Vendor '' sample_oauth_world),
     Inr (encode_signed_payload sample_codec \<lparr>op_role = ''vendor'', op_exp = Some 600, op_nonce = ''n''\<rparr>, ''n''))"
  proof (rule prod_eqI)
    show "snd (issue_oauth_state sample_codec 0 ''n'' '' Vendor '' sample_oauth_world) = snd (fst (issue_oauth_state sample_codec 0 ''n'' '' Vendor '' sample_oauth_world),
     Inr (encode_signed_payload sample_codec \<lparr>op_role = ''vendor'', op_exp = Some 600, op_nonce = ''n''\<rparr>, ''n''))"
      unfolding snd_conv by code_simp
  qed simp
  show "py_strip ''n'' = ''n''" by code_simp
  show "CHR ''.'' \<notin> set (sc_sign sample_codec x)" for x by (auto simp: sample_codec_def)
qed (simp_all add: seconds_def)

lemma accepted_state_was_issued_witness:
  "\<exists>t m r. IssueState t m r \<in> set [IssueState 0 ''n'' ''vendor''] \<and> state_key sample_codec m = state_key sample_codec ''n'' \<and>
     ''vendor'' = py_lower (py_strip r)"
proof -
  have "snd (consume_oauth_state sample_codec 5
     (Some (encode_signed_payload sample_codec \<lparr>op_role = ''vendor'', op_exp = Some 600, op_nonce = ''n''\<rparr>)) (Some ''n'')
     (run_ops (state_step sample_codec) [IssueState 0 ''n'' ''vendor''] sample_oauth_world)) = Some (''vendor'', ''n'')" by code_simp
  moreover have "ow_states sample_oauth_world = []" by (simp add: sample_oauth_world_def)
  ultimately show ?thesis by (rule accepted_state_was_issued [THEN conjunct2, rotated])
qed

lemma google_session_is_for_linked_account_witness:
  "\<exists>w' d u. google_login sample_login_env sample_google_request (sample_google ''a@b.c'') sample_oauth_world = (w', Inr d) \<and>
     decided_user d = Some u \<and> linked GOOGLE ''g1'' (u_id u) w'"
proof -
  let ?r = "google_login sample_login_env sample_google_request (sample_google ''a@b.c'') sample_oauth_world"
  have "is_ok (snd ?r)" by code_simp
  then obtain d where "snd ?r = Inr d" by (auto simp: is_ok_def split: sum.splits)
  then obtain w' where run: "?r = (w', Inr d)" by (metis prod.collapse)
  have "fresh_run sample_login_env (\<lambda>_ _ _. False) ([] @ [GoogleLogin sample_google_request (sample_google ''a@b.c'')]) sample_oauth_world"
    by code_simp
  moreover have "py_strip ''g1'' = ''g1''" by code_simp
  ultimately show ?thesis
    using google_session_is_for_linked_account [of sample_oauth_world sample_login_env "\<lambda>_ _ _. False" "[]"
        sample_google_request "sample_google ''a@b.c''" w' d] run sample_links_ok
    by auto
qed

lemma provider_identity_moves_only_with_grant_witness:
  "granted (\<lambda>calls g b. g = ''grant'' \<and> (g, b) \<notin> set calls) 2 sample_relink
     (run_ops (oauth_step sample_login_env (\<lambda>calls g b. g = ''grant'' \<and> (g, b) \<notin> set calls)) [sample_google_op ''a@b.c''] sample_oauth_world)"
  by (rule provider_identity_moves_only_with_grant [where p = GOOGLE and i = "''g1''" and a = 1])
     (simp add: links_ok_def sample_oauth_world_def, code_simp, code_simp, code_simp, simp)

lemma changed_google_email_is_refused_witness:
  "\<exists>w' x. google_login sample_login_env (sample_google_request\<lparr>gq_link := 61\<rparr>) (sample_google ''n@e.w'')
     (oauth_step sample_login_env (\<lambda>_ _ _. False) (sample_google_op ''a@b.c'') sample_oauth_world) = (w', Inl x)"
proof -
  let ?w = "oauth_step sample_login_env (\<lambda>_ _ _. False) (sample_google_op ''a@b.c'') sample_oauth_world"
  have "fresh_op (sample_google_op ''a@b.c'') sample_oauth_world" by code_simp
  from oauth_step_links [OF sample_links_ok this] have "links_ok ?w" by blast
  moreover have "fresh_op (GoogleLogin (sample_google_request\<lparr>gq_link := 61\<rparr>) (sample_google ''n@e.w'')) ?w" by code_simp
  moreover have "linked (pi_provider (gc_identity (sample_google ''n@e.w''))) (py_strip (pi_user_id (gc_identity (sample_google ''n@e.w'')))) 1 ?w"
    by code_simp
  moreover have "get_by_email (pi_email (gc_identity (sample_google ''n@e.w''))) (ow_id ?w) = Inr None" by code_simp
  ultimately show ?thesis by (meson changed_google_email_is_refused)
qed

lemma unlink_needs_password_witness:
  "\<exists>w' u. unlink_oauth_provider 1 GOOGLE (run_ops (oauth_step sample_login_env (\<lambda>_ _ _. False)) [sample_google_op ''a@b.c''] sample_oauth_world) =
      (w', Inr ()) \<and> get_by_id 1 (ow_id w') = Inr (Some u) \<and> u_password_hash u \<noteq> None"
proof -
  let ?w = "run_ops (oauth_step sample_login_env (\<lambda>_ _ _. False)) [sample_google_op ''a@b.c''] sample_oauth_world"
  have "snd (unlink_oauth_provider 1 GOOGLE ?w) = Inr ()" by code_simp
  then obtain w' where run: "unlink_oauth_provider 1 GOOGLE ?w = (w', Inr ())" by (metis prod.collapse)
  have "ow_links (fst (unlink_oauth_provider 1 GOOGLE ?w)) \<noteq> ow_links ?w" by code_simp
  with run have "w' \<noteq> ?w" by auto
  moreover have "fresh_run sample_login_env (\<lambda>_ _ _. False) [sample_google_op ''a@b.c''] sample_oauth_world" by code_simp
  ultimately show ?thesis
    using unlink_needs_password [OF _ _ run] run by (auto simp: links_ok_def sample_oauth_world_def)
qed

lemma enrollment_needs_code_witness:
  "\<exists>w'. confirm_mfa_enrollment sample_login_env 1000 1001 1 ''123456''
      (fst (begin_mfa_enrollment \<lparr>mp_challenge_ttl = seconds 600, mp_max_attempts = 5\<rparr> 0 31 ''ABCDEFGHIJKLMNOPQRSTUVWXYZ234567'' 1 sample_oauth_world)) =
      (w', Inr ()) \<and>
     get_totp_secret 1 (ow_id w') \<noteq> None"
proof -
  let ?r = "confirm_mfa_enrollment sample_login_env 1000 1001 1 ''123456''
      (fst (begin_mfa_enrollment \<lparr>mp_challenge_ttl = seconds 600, mp_max_attempts = 5\<rparr> 0 31 ''ABCDEFGHIJKLMNOPQRSTUVWXYZ234567'' 1 sample_oauth_world))"
  have "snd ?r = Inr ()" by code_simp
  then obtain w' where run: "?r = (w', Inr ())" by (metis prod.collapse)
  with enrollment_needs_code [OF run] show ?thesis by auto
qed

end
