(* ===== verification/Spec2Isabelle.thy ===== *)
theory Spec2Isabelle
  imports Payment_Tasks Event_Outbox Identity_Safety Market_Delivery Identity_OAuth_Safety
begin

text \<open>
  A model of the core of LinkaPro, a Django and Celery backend for an event-services marketplace, and
  the theorems that make it correct. The program takes payments through a provider (Flutterwave),
  keeps accounts with sessions, second factors and recovery, lets vendors describe themselves and be
  reviewed, publishes them to a second service (FastAPI) that searches them, and sends mail through
  outboxes of domain events.

  How the parts interact. A view or a middleware authenticates a request and calls a command handler
  or use case; the handler loads aggregates from a repository, calls their methods, which return
  events or raise, saves them, and appends the events to an outbox; Celery tasks publish the outbox
  rows, and retry webhooks. Sessions and accounts share the user table: an account's token version
  and activity decide which refresh tokens are accepted.

  Theories and the code under \<open>src/\<close> they model, in the order of the imports.
  \<^item> \<open>Prelude\<close>: results with exceptions, Python strings, times and JSON values; lists as tables; the
    locales \<open>invariant_system\<close>, \<open>ordered_system\<close>, \<open>single_use\<close> (histories of operations) and
    \<open>keyed_store\<close> (repositories), each interpreted on the model's own definitions below.
  \<^item> \<open>Payment_Domain\<close> (\<open>payments/domain\<close>): money, the payment and its status machine, the policies.
    \<open>Payment_Store\<close> (\<open>payments/infrastructure/repositories.py\<close> and neighbours): rows, unique keys,
    audit, outbox, retry scheduler, locks. \<open>Payment_Handlers\<close> (\<open>payments/application/handlers.py\<close>):
    one definition per handler. \<open>Payment_Safety\<close>: the invariant \<open>world_ok\<close> of every handler and the
    order \<open>pay_le\<close> along which all of them move. \<open>Payment_Histories\<close>, \<open>Payment_Theorems\<close>: what follows
    for histories of handler calls. \<open>Payment_Gateway\<close> (\<open>flutterwave_gateway.py\<close>, with IEEE doubles
    written out), \<open>Payment_Auth\<close> (the HMAC, API key and step-up middlewares), \<open>Payment_Crypto\<close>
    (encrypted fields, Vault), \<open>Payment_Tasks\<close> (\<open>tasks/payment_webhook_retry.py\<close>, payment views).
  \<^item> \<open>Event_Outbox\<close> (\<open>tasks/*_domain_events.py\<close>): publication with locks and attempts, mails.
  \<^item> \<open>Identity_Core\<close>, \<open>Identity_Challenges\<close>, \<open>Identity_Account\<close>, \<open>Identity_Access\<close>, \<open>Identity_Sessions\<close>
    (\<open>domain/identity\<close> with the session use cases of \<open>application/identity/sessions\<close>): values, roles,
    challenges and second factors, the \<open>User\<close> aggregate, lockout, reset tokens, OAuth links, token
    families and refresh rotation. \<open>Identity_Repository\<close> (\<open>infrastructure/identity\<close>): the stored state.
    \<open>Identity_UseCases\<close> (\<open>application/identity\<close>) and \<open>Identity_Safety\<close>, what the use cases guarantee.
  \<^item> \<open>Vendor_Shared\<close>, \<open>Vendor_Package\<close>, \<open>Vendor_Profile\<close>, \<open>Vendor_Inquiry\<close>, \<open>Vendor_Portfolio\<close>
    (\<open>domain/vendors\<close>): validation and the aggregates with their life cycles. \<open>Vendor_Results\<close> (DTOs, stored
    results), \<open>Vendor_Store\<close> (\<open>infrastructure/repos\<close>, \<open>interface/vendors/models.py\<close>): tables, repositories,
    unit of work. \<open>Vendor_Handlers\<close> (\<open>application/vendors\<close>, \<open>interface/vendors/adapters.py\<close>): the command
    handlers. \<open>Vendor_Commands\<close>, \<open>Vendor_Guarantees\<close>: what holds of all histories of commands.
  \<^item> \<open>Market_Service\<close>, \<open>Market_Search\<close> (\<open>fastapi_app\<close>, \<open>application/marketplace\<close>): the marketplace service, its
    internal routes with their authentication, the public search with cache and rate limit.
    \<open>Market_Projection\<close> (\<open>interface/governance/marketplace_*.py\<close>, \<open>infrastructure/adapters/marketplace_projection.py\<close>,
    \<open>interface/vendors/approval_workflow.py\<close>): how approved vendors get there. \<open>Market_Guarantees\<close>,
    \<open>Market_Delivery\<close>: what the two services promise.

  Reading the model. A function that may raise returns \<open>Inl\<close> of the exception or \<open>Inr\<close> of the result;
  a method that may raise after it changed its object returns the object and the outcome. A handler
  takes the stored state and returns it changed. Identifiers and tokens the code draws at random, the
  clock, hash functions, JWT signatures, AES-GCM, HTTP answers and the answers of Redis are arguments.
  A table is the list of its rows. Rollback of a unit of work is written out where the code has one
  (\<open>unit_of_work\<close>); a handler without one keeps the writes made before an exception.

  What the lemmas show. For each aggregate, an invariant and an order that every operation respects,
  lifted to all histories by the locales; for each repository, that a save is found again and nothing
  else changes; for credentials (refresh tokens, nonces, recovery codes, MFA challenges, verification
  and reset tokens), that they are accepted at most once and only when genuine; for loops (webhook
  retries, outbox publication, guesses), bounds on their number. Recursions are structural, so no fuel
  is used; retry loops are bounded by the code's own counters, which the bounds above are about.
  Several properties state behaviour that looks unintended; these are the findings of the manifest.

  Not modelled: logging, correlation ids, JWE transport encryption and the key manager, the Google
  adapter, JWT encoding itself, serializers and URL routing, migrations and settings, the HTML
  templates; the views, list queries and analytics of vendors; events, governance, documents.
\<close>

section \<open>Properties that span components\<close>



end
